(* ===== verification/Prelude.thy ===== *)
theory Prelude
  imports Main "HOL-Library.Word"
begin

text \<open>
  The prelude: the collections of rewrite rules the component theories share, the
  conventions for Go values, and the generic lemmas on lists and association lists that
  more than one component needs.

  Conventions.  A Go \<open>string\<close> is a \<open>string\<close> of HOL, one \<open>char\<close> per byte.  A result
  with an \<open>error\<close> is a sum: \<open>Inl e\<close> is the error, \<open>Inr v\<close> the value.  A pointer that may be \<open>nil\<close> is an \<open>option\<close>.  A Go \<open>map\<close> is an association
  list whose order stands for the (unspecified) order in which \<open>range\<close> visits it.  An
  \<open>int\<close> or \<open>int64\<close> is an \<open>int\<close>; where the code's arithmetic can leave the 64-bit
  range the wrap-around is written with \<open>i64\<close>.  A \<open>uint64\<close> is a 64-bit word.
  A \<open>time.Duration\<close> and an instant are an \<open>int\<close> number of nanoseconds.
\<close>

named_theorems norm_simps \<open>idempotence and shape facts of the normalisation functions\<close>
named_theorems frame_simps \<open>what an operation leaves unchanged\<close>
named_theorems inv_intros \<open>preservation of the component invariants\<close>

text \<open>
  An error made by \<open>fmt.Errorf\<close> is its format and the printed arguments; \<open>Wrapf\<close> is a
  format that ends in \<open>%w\<close>, with the error it wraps.
\<close>

datatype goerr = Errorf string "string list" | Wrapf string "string list" goerr

type_synonym 'a result = "goerr + 'a"
type_synonym gomap = "(string \<times> string) list"

abbreviation err :: "string \<Rightarrow> string list \<Rightarrow> 'a result" where
  "err f args \<equiv> Inl (Errorf f args)"

subsection \<open>Error results in sequence\<close>

definition bindR :: "'a result \<Rightarrow> ('a \<Rightarrow> 'b result) \<Rightarrow> 'b result" where
  "bindR m f = (case m of Inl e \<Rightarrow> Inl e | Inr x \<Rightarrow> f x)"

definition seqR :: "unit result \<Rightarrow> 'b result \<Rightarrow> 'b result" where
  "seqR m r = (case m of Inl e \<Rightarrow> Inl e | Inr _ \<Rightarrow> r)"

text \<open>\<open>if bad { return e }\<close>\<close>

definition guardR :: "bool \<Rightarrow> goerr \<Rightarrow> unit result" where
  "guardR bad e = (if bad then Inl e else Inr ())"

text \<open>\<open>if err := r; err != nil { return fmt.Errorf("... %w", ..., err) }\<close>\<close>

definition wrapR :: "string \<Rightarrow> string list \<Rightarrow> 'a result \<Rightarrow> 'a result" where
  "wrapR f args r = (case r of Inl e \<Rightarrow> Inl (Wrapf f args e) | Inr x \<Rightarrow> Inr x)"

fun eachR :: "('a \<Rightarrow> unit result) \<Rightarrow> 'a list \<Rightarrow> unit result" where
  "eachR f [] = Inr ()"
| "eachR f (x # xs) = seqR (f x) (eachR f xs)"

fun eachiR :: "(nat \<Rightarrow> 'a \<Rightarrow> unit result) \<Rightarrow> nat \<Rightarrow> 'a list \<Rightarrow> unit result" where
  "eachiR f i [] = Inr ()"
| "eachiR f i (x # xs) = seqR (f i x) (eachiR f (Suc i) xs)"

lemma bindR_simps [simp]: "bindR (Inl e) f = Inl e" "bindR (Inr x) f = f x"
  by (simp_all add: bindR_def)

lemma bindR_Inr: "bindR m f = Inr y \<longleftrightarrow> (\<exists>x. m = Inr x \<and> f x = Inr y)"
  by (cases m) simp_all

lemma seqR_Inr [simp]: "seqR m r = Inr y \<longleftrightarrow> m = Inr () \<and> r = Inr y"
  by (cases m) (simp_all add: seqR_def)

lemma seqR_simps [simp]: "seqR (Inl e) r = Inl e" "seqR (Inr ()) r = r"
  by (simp_all add: seqR_def)

lemma guardR_Inr [simp]: "guardR bad e = Inr u \<longleftrightarrow> \<not> bad"
  by (simp add: guardR_def)

lemma wrapR_Inr [simp]: "wrapR f args r = Inr x \<longleftrightarrow> r = Inr x"
  by (cases r) (simp_all add: wrapR_def)

lemma eachR_Inr [simp]: "eachR f xs = Inr u \<longleftrightarrow> (\<forall>x\<in>set xs. f x = Inr ())"
  by (induction xs) auto

lemma eachiR_Inr: "eachiR f i xs = Inr u \<longleftrightarrow> (\<forall>j<length xs. f (i + j) (xs ! j) = Inr ())"
  by (induction xs arbitrary: i) (auto simp: All_less_Suc2)

subsection \<open>64-bit signed arithmetic\<close>

definition i64 :: "int \<Rightarrow> int" where
  "i64 x = (x + 2 ^ 63) mod 2 ^ 64 - 2 ^ 63"

lemma i64_range: "- (2 ^ 63) \<le> i64 x \<and> i64 x < 2 ^ 63"
  by (simp add: i64_def)

lemma i64_id: "- (2 ^ 63) \<le> x \<Longrightarrow> x < 2 ^ 63 \<Longrightarrow> i64 x = x"
  by (simp add: i64_def)

lemma i64_zero [simp]: "i64 0 = 0"
  by (simp add: i64_def)

text \<open>Go's integer division truncates towards zero.\<close>

definition quot :: "int \<Rightarrow> int \<Rightarrow> int" where
  "quot a b = (if b = 0 then 0 else sgn a * sgn b * (\<bar>a\<bar> div \<bar>b\<bar>))"

lemma quot_nonneg: "0 \<le> a \<Longrightarrow> 0 < b \<Longrightarrow> quot a b = a div b"
  by (cases "a = 0") (simp_all add: quot_def sgn_if)

subsection \<open>Lists in order of first occurrence\<close>

text \<open>
  The idiom \<open>seen := map[string]struct{}{}; for ... if _, ok := seen[x]; ok { continue }\<close>
  keeps the first occurrence of every element.
\<close>

fun dedup_from :: "'a set \<Rightarrow> 'a list \<Rightarrow> 'a list" where
  "dedup_from seen [] = []"
| "dedup_from seen (x # xs) =
     (if x \<in> seen then dedup_from seen xs else x # dedup_from (insert x seen) xs)"

definition dedup :: "'a list \<Rightarrow> 'a list" where
  "dedup xs = dedup_from {} xs"

lemma set_dedup_from: "set (dedup_from seen xs) = set xs - seen"
  by (induction xs arbitrary: seen) auto

lemma set_dedup [simp]: "set (dedup xs) = set xs"
  by (simp add: dedup_def set_dedup_from)

lemma distinct_dedup_from: "distinct (dedup_from seen xs)"
  by (induction xs arbitrary: seen) (auto simp: set_dedup_from)

lemma distinct_dedup [simp]: "distinct (dedup xs)"
  by (simp add: dedup_def distinct_dedup_from)

lemma dedup_from_id: "distinct xs \<Longrightarrow> set xs \<inter> seen = {} \<Longrightarrow> dedup_from seen xs = xs"
  by (induction xs arbitrary: seen) auto

lemma dedup_id: "distinct xs \<Longrightarrow> dedup xs = xs"
  by (simp add: dedup_def dedup_from_id)

lemma dedup_idem [simp]: "dedup (dedup xs) = dedup xs"
  by (simp add: dedup_id)

lemma dedup_Nil [simp]: "dedup [] = []"
  by (simp add: dedup_def)

lemma dedup_eq_Nil [simp]: "dedup xs = [] \<longleftrightarrow> xs = []"
  by (metis set_dedup set_empty)

lemma filter_all: "(\<And>x. x \<in> set xs \<Longrightarrow> P x) \<Longrightarrow> filter P xs = xs"
  by (induction xs) auto

lemma map_id_on: "(\<And>x. x \<in> set xs \<Longrightarrow> f x = x) \<Longrightarrow> map f xs = xs"
  by (induction xs) auto

text \<open>
  The same loop over trimmed entries (normalise, skip the empty ones, skip the repeated
  ones) is idempotent whenever the normaliser is.
\<close>

definition clean_list :: "('a \<Rightarrow> 'b list) \<Rightarrow> 'a list \<Rightarrow> 'b list list" where
  "clean_list f xs = dedup (filter (\<lambda>s. s \<noteq> []) (map f xs))"

lemma clean_list_fixed: "y \<in> set (clean_list f xs) \<Longrightarrow> \<exists>x\<in>set xs. y = f x \<and> y \<noteq> []"
  by (auto simp: clean_list_def)

lemma clean_list_idem:
  assumes "\<And>x. f (f x) = f x"
  shows "clean_list f (clean_list f xs) = clean_list f xs"
proof -
  let ?ys = "clean_list f xs"
  have fix_f: "f y = y" if "y \<in> set ?ys" for y
    using clean_list_fixed [OF that] assms by auto
  have "map f ?ys = ?ys" by (rule map_id_on) (rule fix_f)
  moreover have "filter (\<lambda>s. s \<noteq> []) ?ys = ?ys"
    by (rule filter_all) (auto dest: clean_list_fixed)
  ultimately show ?thesis
    by (simp add: clean_list_def [of f ?ys]) (simp add: clean_list_def)
qed

lemma distinct_clean_list [simp]: "distinct (clean_list f xs)"
  by (simp add: clean_list_def)

lemma clean_list_Nil [simp]: "clean_list f [] = []"
  by (simp add: clean_list_def)

subsection \<open>Association lists as Go maps\<close>

text \<open>Assignment \<open>m[k] = v\<close>: replace in place, or add.\<close>

fun aput :: "'k \<Rightarrow> 'v \<Rightarrow> ('k \<times> 'v) list \<Rightarrow> ('k \<times> 'v) list" where
  "aput k v [] = [(k, v)]"
| "aput k v ((k', v') # m) = (if k = k' then (k, v) # m else (k', v') # aput k v m)"

definition adel :: "'k \<Rightarrow> ('k \<times> 'v) list \<Rightarrow> ('k \<times> 'v) list" where
  "adel k m = filter (\<lambda>(k', v). k' \<noteq> k) m"

lemma map_of_aput [simp]: "map_of (aput k v m) = (map_of m)(k \<mapsto> v)"
  by (induction m) auto

lemma map_of_adel [simp]: "map_of (adel k m) = (map_of m)(k := None)"
  by (induction m) (auto simp: adel_def)

lemma keys_aput: "fst ` set (aput k v m) = insert k (fst ` set m)"
  by (induction k v m rule: aput.induct) auto

lemma keys_adel: "fst ` set (adel k m) = fst ` set m - {k}"
  by (induction m) (auto simp: adel_def)

lemma distinct_aput: "distinct (map fst m) \<Longrightarrow> distinct (map fst (aput k v m))"
  by (induction k v m rule: aput.induct) (simp_all add: keys_aput)

lemma distinct_adel: "distinct (map fst m) \<Longrightarrow> distinct (map fst (adel k m))"
  by (simp add: adel_def distinct_map_filter)

text \<open>Storing a list of bindings one after the other: later bindings win.\<close>

definition aput_all :: "('k \<times> 'v) list \<Rightarrow> ('k \<times> 'v) list \<Rightarrow> ('k \<times> 'v) list" where
  "aput_all kvs m = fold (\<lambda>(k, v) acc. aput k v acc) kvs m"

lemma aput_all_Nil [simp]: "aput_all [] m = m"
  by (simp add: aput_all_def)

lemma aput_all_Cons [simp]: "aput_all ((k, v) # kvs) m = aput_all kvs (aput k v m)"
  by (simp add: aput_all_def)

lemma keys_aput_all: "fst ` set (aput_all kvs m) = fst ` set kvs \<union> fst ` set m"
proof (induction kvs arbitrary: m)
  case (Cons a kvs)
  show ?case by (cases a) (simp add: Cons.IH keys_aput)
qed simp

lemma distinct_aput_all: "distinct (map fst m) \<Longrightarrow> distinct (map fst (aput_all kvs m))"
  by (induction kvs arbitrary: m) (auto simp: distinct_aput)

lemma aput_fresh: "k \<notin> fst ` set m \<Longrightarrow> aput k v m = m @ [(k, v)]"
  by (induction k v m rule: aput.induct) auto

lemma aput_all_fresh:
  "distinct (map fst kvs) \<Longrightarrow> fst ` set kvs \<inter> fst ` set m = {} \<Longrightarrow> aput_all kvs m = m @ kvs"
proof (induction kvs arbitrary: m)
  case (Cons a kvs)
  obtain k v where a: "a = (k, v)" by (cases a)
  with Cons.prems have "aput k v m = m @ [(k, v)]" by (intro aput_fresh) simp
  moreover have "aput_all kvs (m @ [(k, v)]) = (m @ [(k, v)]) @ kvs"
    using Cons.prems a by (intro Cons.IH) simp_all
  ultimately show ?case by (simp add: a)
qed simp

lemma aput_all_id: "distinct (map fst kvs) \<Longrightarrow> aput_all kvs [] = kvs"
  using aput_all_fresh [of kvs "[]"] by simp

lemma map_of_aput_all: "map_of (aput_all kvs m) = map_of m ++ map_of (rev kvs)"
  by (induction kvs arbitrary: m) (auto simp: map_add_def fun_eq_iff split: option.splits)

subsection \<open>Normalisers\<close>

text \<open>
  The contract the normalisation functions of the rules documents share: a value that has
  been normalised is left alone.  What follows from it for the loops over lists and maps
  that clean their entries with such a function is proved once here.
\<close>

definition rekey :: "(string \<Rightarrow> string) \<Rightarrow> gomap \<Rightarrow> gomap" where
  \<comment> \<open>\<open>for k, v := range in { out[f(k)] = v }\<close>\<close>
  "rekey f m = aput_all (map (\<lambda>(k, v). (f k, v)) m) []"

locale normaliser =
  fixes norm :: "string \<Rightarrow> string"
  assumes norm_idem: "norm (norm x) = norm x"
begin

lemma norm_fixed: "y \<in> range norm \<Longrightarrow> norm y = y"
  using norm_idem by auto

lemma clean_idem: "clean_list norm (clean_list norm xs) = clean_list norm xs"
  by (rule clean_list_idem) (rule norm_idem)

lemma clean_norm: "y \<in> set (clean_list norm xs) \<Longrightarrow> norm y = y \<and> y \<noteq> []"
  using clean_list_fixed [of y norm xs] norm_idem by auto

lemma rekey_keys: "k \<in> fst ` set (rekey norm m) \<Longrightarrow> norm k = k"
proof -
  assume "k \<in> fst ` set (rekey norm m)"
  then have "k \<in> fst ` set (map (\<lambda>(k, v). (norm k, v)) m)"
    by (simp add: rekey_def keys_aput_all)
  then show "norm k = k" using norm_idem by auto
qed

lemma rekey_idem: "rekey norm (rekey norm m) = rekey norm m"
proof -
  let ?m = "rekey norm m"
  have "map (\<lambda>(k, v). (norm k, v)) ?m = ?m"
  proof (rule map_id_on)
    fix x assume x: "x \<in> set ?m"
    then have "norm (fst x) = fst x" by (intro rekey_keys imageI)
    then show "(\<lambda>(k, v). (norm k, v)) x = x" by (cases x) simp
  qed
  moreover have "distinct (map fst ?m)" by (simp add: rekey_def distinct_aput_all)
  ultimately show ?thesis by (simp add: rekey_def [of norm ?m] aput_all_id)
qed

end

lemma rekey_Nil [simp]: "rekey f [] = []"
  by (simp add: rekey_def)

lemma distinct_rekey [simp]: "distinct (map fst (rekey f m))"
  by (simp add: rekey_def distinct_aput_all)

subsection \<open>Indexed maps\<close>

text \<open>\<open>for i, x := range in { out = append(out, f(i, x)) }\<close>\<close>

definition mapi :: "(nat \<Rightarrow> 'a \<Rightarrow> 'b) \<Rightarrow> 'a list \<Rightarrow> 'b list" where
  "mapi f xs = map (\<lambda>(i, x). f i x) (zip [0..<length xs] xs)"

lemma length_mapi [simp]: "length (mapi f xs) = length xs"
  by (simp add: mapi_def)

lemma nth_mapi [simp]: "i < length xs \<Longrightarrow> mapi f xs ! i = f i (xs ! i)"
  by (simp add: mapi_def)

lemma mapi_Nil [simp]: "mapi f xs = [] \<longleftrightarrow> xs = []"
  by (metis length_mapi length_0_conv)

lemma set_mapi: "y \<in> set (mapi f xs) \<longleftrightarrow> (\<exists>i<length xs. y = f i (xs ! i))"
  by (auto simp: in_set_conv_nth)

lemma mapi_id:
  assumes "\<And>i. i < length xs \<Longrightarrow> f i (xs ! i) = xs ! i"
  shows "mapi f xs = xs"
  by (rule nth_equalityI) (simp_all add: assms)

lemma mapi_idem:
  assumes "\<And>i x. x \<in> set xs \<Longrightarrow> f i (f i x) = f i x"
  shows "mapi f (mapi f xs) = mapi f xs"
  by (rule mapi_id) (simp add: assms)

end
