(* ===== verification/Go_Strings.thy ===== *)
theory Go_Strings
  imports Prelude
begin

text \<open>
  The functions of Go's \<open>strings\<close>, \<open>strconv\<close> and \<open>net/textproto\<close> packages the
  program uses, on byte strings.  \<open>TrimSpace\<close> strips the UTF-8 encodings of every rune
  with the Unicode property White Space, as Go does.  \<open>ToLower\<close> and \<open>ToUpper\<close> map the
  ASCII letters and leave other bytes alone: they agree with Go's on every string without
  non-ASCII letters.
\<close>

subsection \<open>Prefixes, suffixes, search\<close>

fun HasPrefix :: "string \<Rightarrow> string \<Rightarrow> bool" where
  "HasPrefix s [] = True"
| "HasPrefix [] (p # ps) = False"
| "HasPrefix (c # s) (p # ps) = (c = p \<and> HasPrefix s ps)"

definition HasSuffix :: "string \<Rightarrow> string \<Rightarrow> bool" where
  "HasSuffix s x = HasPrefix (rev s) (rev x)"

definition TrimPrefix :: "string \<Rightarrow> string \<Rightarrow> string" where
  "TrimPrefix s p = (if HasPrefix s p then drop (length p) s else s)"

definition TrimSuffix :: "string \<Rightarrow> string \<Rightarrow> string" where
  "TrimSuffix s x = (if HasSuffix s x then take (length s - length x) s else s)"

fun Index :: "string \<Rightarrow> string \<Rightarrow> nat option" where
  "Index [] x = (if x = [] then Some 0 else None)"
| "Index (c # s) x = (if HasPrefix (c # s) x then Some 0 else map_option Suc (Index s x))"

definition Contains :: "string \<Rightarrow> string \<Rightarrow> bool" where
  "Contains s x = (Index s x \<noteq> None)"

fun IndexByte :: "string \<Rightarrow> char \<Rightarrow> nat option" where
  "IndexByte [] x = None"
| "IndexByte (c # s) x = (if c = x then Some 0 else map_option Suc (IndexByte s x))"

fun LastIndexByte :: "string \<Rightarrow> char \<Rightarrow> nat option" where
  "LastIndexByte [] x = None"
| "LastIndexByte (c # s) x =
     (case LastIndexByte s x of Some i \<Rightarrow> Some (Suc i)
      | None \<Rightarrow> if c = x then Some 0 else None)"

definition CutByte :: "string \<Rightarrow> char \<Rightarrow> string \<times> string" where
  \<comment> \<open>\<open>strings.Cut\<close> at a one-byte separator, without its third result\<close>
  "CutByte s x = (case IndexByte s x of None \<Rightarrow> (s, []) | Some i \<Rightarrow> (take i s, drop (Suc i) s))"

fun SplitByte :: "string \<Rightarrow> char \<Rightarrow> string list" where
  "SplitByte [] x = [[]]"
| "SplitByte (c # s) x =
     (if c = x then [] # SplitByte s x
      else case SplitByte s x of [] \<Rightarrow> [[c]] | t # ts \<Rightarrow> (c # t) # ts)"

definition TrimRightByte :: "string \<Rightarrow> char \<Rightarrow> string" where
  "TrimRightByte s c = rev (dropWhile (\<lambda>d. d = c) (rev s))"

definition TrimBytes :: "string \<Rightarrow> string \<Rightarrow> string" where
  \<comment> \<open>\<open>strings.Trim\<close> with an ASCII cutset\<close>
  "TrimBytes s cs =
     rev (dropWhile (\<lambda>d. d \<in> set cs) (rev (dropWhile (\<lambda>d. d \<in> set cs) s)))"

lemma HasPrefix_append [simp]: "HasPrefix (p @ s) p"
  by (induction p) auto

lemma HasPrefix_iff: "HasPrefix s p \<longleftrightarrow> (\<exists>t. s = p @ t)"
  by (induction s p rule: HasPrefix.induct) auto

lemma HasPrefix_take: "HasPrefix s p \<Longrightarrow> p @ drop (length p) s = s"
  by (auto simp: HasPrefix_iff)

lemma HasSuffix_iff: "HasSuffix s x \<longleftrightarrow> (\<exists>t. s = t @ x)"
  unfolding HasSuffix_def HasPrefix_iff
  by (metis rev_append rev_rev_ident)

lemma HasPrefix_TrimPrefix: "HasPrefix s p \<Longrightarrow> p @ TrimPrefix s p = s"
  by (simp add: TrimPrefix_def HasPrefix_take)

lemma TrimSuffix_append [simp]: "TrimSuffix (s @ x) x = s"
  by (auto simp: TrimSuffix_def HasSuffix_iff)

lemma TrimPrefix_append [simp]: "TrimPrefix (p @ s) p = s"
  by (simp add: TrimPrefix_def)

lemma TrimRightByte_last: "TrimRightByte s c = [] \<or> last (TrimRightByte s c) \<noteq> c"
proof -
  have "dropWhile (\<lambda>d. d = c) (rev s) = [] \<or> hd (dropWhile (\<lambda>d. d = c) (rev s)) \<noteq> c"
    using hd_dropWhile [of "\<lambda>d. d = c" "rev s"] by blast
  then show ?thesis by (simp add: TrimRightByte_def last_rev)
qed

lemma TrimRightByte_id: "s = [] \<or> last s \<noteq> c \<Longrightarrow> TrimRightByte s c = s"
  by (cases s rule: rev_cases) (auto simp: TrimRightByte_def)

lemma TrimRightByte_idem [simp]: "TrimRightByte (TrimRightByte s c) c = TrimRightByte s c"
  by (rule TrimRightByte_id) (rule TrimRightByte_last)

lemma TrimRightByte_prefix: "\<exists>t. s = TrimRightByte s c @ t \<and> set t \<subseteq> {c}"
proof (intro exI conjI)
  let ?t = "rev (takeWhile (\<lambda>d. d = c) (rev s))"
  have "rev s = takeWhile (\<lambda>d. d = c) (rev s) @ dropWhile (\<lambda>d. d = c) (rev s)" by simp
  then show "s = TrimRightByte s c @ ?t"
    by (metis TrimRightByte_def rev_append rev_rev_ident)
  show "set ?t \<subseteq> {c}" by (auto dest: set_takeWhileD)
qed

subsection \<open>White space\<close>

text \<open>
  The UTF-8 encodings of the runes for which \<open>unicode.IsSpace\<close> holds: tab, newline,
  vertical tab, form feed, carriage return, space, U+0085, U+00A0, U+1680, U+2000 to U+200A,
  U+2028, U+2029, U+202F, U+205F and U+3000.
\<close>

definition space_seqs :: "string list" where
  "space_seqs =
     [[CHR '' ''], [CHR 0x09], [CHR 0x0A], [CHR 0x0B], [CHR 0x0C], [CHR 0x0D],
      [CHR 0xC2, CHR 0x85], [CHR 0xC2, CHR 0xA0], [CHR 0xE1, CHR 0x9A, CHR 0x80],
      [CHR 0xE2, CHR 0x80, CHR 0x80], [CHR 0xE2, CHR 0x80, CHR 0x81],
      [CHR 0xE2, CHR 0x80, CHR 0x82], [CHR 0xE2, CHR 0x80, CHR 0x83],
      [CHR 0xE2, CHR 0x80, CHR 0x84], [CHR 0xE2, CHR 0x80, CHR 0x85],
      [CHR 0xE2, CHR 0x80, CHR 0x86], [CHR 0xE2, CHR 0x80, CHR 0x87],
      [CHR 0xE2, CHR 0x80, CHR 0x88], [CHR 0xE2, CHR 0x80, CHR 0x89],
      [CHR 0xE2, CHR 0x80, CHR 0x8A], [CHR 0xE2, CHR 0x80, CHR 0xA8],
      [CHR 0xE2, CHR 0x80, CHR 0xA9], [CHR 0xE2, CHR 0x80, CHR 0xAF],
      [CHR 0xE2, CHR 0x81, CHR 0x9F], [CHR 0xE3, CHR 0x80, CHR 0x80]]"

fun lead_len :: "string list \<Rightarrow> string \<Rightarrow> nat" where
  "lead_len [] s = 0"
| "lead_len (w # ws) s = (if w \<noteq> [] \<and> HasPrefix s w then length w else lead_len ws s)"

lemma lead_len_le: "lead_len ws s \<le> length s"
  by (induction ws) (auto simp: HasPrefix_iff)

lemma lead_len_0: "lead_len ws s = 0 \<longleftrightarrow> (\<forall>w\<in>set ws. w \<noteq> [] \<longrightarrow> \<not> HasPrefix s w)"
  by (induction ws) auto

function trim_lead :: "string list \<Rightarrow> string \<Rightarrow> string" where
  "trim_lead ws s = (if lead_len ws s = 0 then s else trim_lead ws (drop (lead_len ws s) s))"
  by pat_completeness auto
termination
proof (relation "measure (\<lambda>(ws, s). length s)")
  fix ws :: "string list" and s :: string
  assume "lead_len ws s \<noteq> 0"
  with lead_len_le [of ws s] show "((ws, drop (lead_len ws s) s), ws, s) \<in> measure (\<lambda>(ws, s). length s)"
    by (cases s) auto
qed simp

declare trim_lead.simps [simp del]

lemma trim_lead_id: "lead_len ws s = 0 \<Longrightarrow> trim_lead ws s = s"
  by (simp add: trim_lead.simps)

lemma lead_len_trim_lead [simp]: "lead_len ws (trim_lead ws s) = 0"
proof (induction ws s rule: trim_lead.induct)
  case (1 ws s)
  then show ?case by (cases "lead_len ws s = 0") (simp_all add: trim_lead.simps [of ws s])
qed

lemma trim_lead_suffix: "\<exists>t. s = t @ trim_lead ws s"
proof (induction ws s rule: trim_lead.induct)
  case (1 ws s)
  show ?case
  proof (cases "lead_len ws s = 0")
    case True
    then show ?thesis by (simp add: trim_lead_id)
  next
    case False
    from "1" [OF False] obtain t where "drop (lead_len ws s) s = t @ trim_lead ws (drop (lead_len ws s) s)"
      by blast
    then have "s = (take (lead_len ws s) s @ t) @ trim_lead ws s"
      using False by (metis append.assoc append_take_drop_id trim_lead.simps)
    then show ?thesis by blast
  qed
qed

definition trim_left :: "string \<Rightarrow> string" where
  "trim_left s = trim_lead space_seqs s"

definition trim_right :: "string \<Rightarrow> string" where
  "trim_right s = rev (trim_lead (map rev space_seqs) (rev s))"

definition TrimSpace :: "string \<Rightarrow> string" where
  "TrimSpace s = trim_right (trim_left s)"

lemma TrimSpace_Nil [simp]: "TrimSpace [] = []"
proof -
  have "lead_len ws [] = 0" for ws by (induction ws) (auto simp: HasPrefix_iff)
  then show ?thesis by (simp add: TrimSpace_def trim_left_def trim_right_def trim_lead_id)
qed

lemma trim_right_prefix: "\<exists>t. s = trim_right s @ t"
  using trim_lead_suffix [of "rev s" "map rev space_seqs"]
  by (metis trim_right_def rev_append rev_rev_ident)

text \<open>Stripping the right end does not uncover white space at the left end.\<close>

lemma lead_len_mono: "lead_len ws (s @ t) = 0 \<Longrightarrow> lead_len ws s = 0"
  by (auto simp: lead_len_0 HasPrefix_iff)

lemma TrimSpace_idem [simp]: "TrimSpace (TrimSpace s) = TrimSpace s"
proof -
  let ?l = "trim_left s"
  obtain t where "?l = TrimSpace s @ t"
    using trim_right_prefix [of ?l] by (auto simp: TrimSpace_def)
  then have "lead_len space_seqs (TrimSpace s) = 0"
    by (metis lead_len_mono lead_len_trim_lead trim_left_def)
  then have "trim_left (TrimSpace s) = TrimSpace s"
    by (simp add: trim_left_def trim_lead_id)
  moreover have "trim_right (TrimSpace s) = TrimSpace s"
    by (simp add: TrimSpace_def trim_right_def trim_lead_id)
  ultimately show ?thesis by (simp add: TrimSpace_def)
qed

lemma TrimSpace_length: "length (TrimSpace s) \<le> length s"
proof -
  obtain t u where "s = t @ trim_left s" "trim_left s = TrimSpace s @ u"
    using trim_lead_suffix [of s space_seqs] trim_right_prefix [of "trim_left s"]
    by (auto simp: TrimSpace_def trim_left_def)
  then show ?thesis by (metis length_append le_add1 le_add2 le_trans)
qed

lemma TrimSpace_set: "set (TrimSpace s) \<subseteq> set s"
proof -
  obtain t u where "s = t @ trim_left s" "trim_left s = TrimSpace s @ u"
    using trim_lead_suffix [of s space_seqs] trim_right_prefix [of "trim_left s"]
    by (auto simp: TrimSpace_def trim_left_def)
  then show ?thesis by (metis Un_iff set_append subsetI)
qed

subsection \<open>Letter case\<close>

definition ord :: "char \<Rightarrow> nat" where
  "ord c = of_char c"

definition is_upper :: "char \<Rightarrow> bool" where
  "is_upper c = (65 \<le> ord c \<and> ord c \<le> 90)"

definition is_lower :: "char \<Rightarrow> bool" where
  "is_lower c = (97 \<le> ord c \<and> ord c \<le> 122)"

definition is_digit :: "char \<Rightarrow> bool" where
  "is_digit c = (48 \<le> ord c \<and> ord c \<le> 57)"

definition is_alpha :: "char \<Rightarrow> bool" where
  "is_alpha c = (is_upper c \<or> is_lower c)"

definition lower_char :: "char \<Rightarrow> char" where
  "lower_char c = (if is_upper c then char_of (ord c + 32) else c)"

definition upper_char :: "char \<Rightarrow> char" where
  "upper_char c = (if is_lower c then char_of (ord c - 32) else c)"

definition ToLower :: "string \<Rightarrow> string" where
  "ToLower s = map lower_char s"

definition ToUpper :: "string \<Rightarrow> string" where
  "ToUpper s = map upper_char s"

definition EqualFold :: "string \<Rightarrow> string \<Rightarrow> bool" where
  "EqualFold s t = (ToLower s = ToLower t)"

lemma ord_char_of: "n < 256 \<Longrightarrow> ord (char_of n) = n"
  by (simp add: ord_def)

lemma char_of_ord [simp]: "char_of (ord c) = c"
  by (simp add: ord_def)

lemma ord_inject: "ord c = ord d \<longleftrightarrow> c = d"
  by (metis char_of_ord)

lemma lower_char_idem [simp]: "lower_char (lower_char c) = lower_char c"
  by (auto simp: lower_char_def is_upper_def ord_char_of)

lemma upper_char_idem [simp]: "upper_char (upper_char c) = upper_char c"
  by (auto simp: upper_char_def is_lower_def ord_char_of)

lemma ToLower_idem [simp]: "ToLower (ToLower s) = ToLower s"
  by (simp add: ToLower_def)

lemma ToUpper_idem [simp]: "ToUpper (ToUpper s) = ToUpper s"
  by (simp add: ToUpper_def)

lemma ToLower_append: "ToLower (s @ t) = ToLower s @ ToLower t"
  by (simp add: ToLower_def)

lemma length_ToLower [simp]: "length (ToLower s) = length s"
  by (simp add: ToLower_def)

lemma ToLower_Nil [simp]: "ToLower s = [] \<longleftrightarrow> s = []"
  by (simp add: ToLower_def)

lemma ToUpper_Nil [simp]: "ToUpper s = [] \<longleftrightarrow> s = []"
  by (simp add: ToUpper_def)

text \<open>
  Changing letter case neither makes nor removes white space, so it commutes with
  \<open>TrimSpace\<close>.
\<close>

lemma HasPrefix_map:
  "(\<And>c d. d \<in> set w \<Longrightarrow> f c = d \<longleftrightarrow> c = d) \<Longrightarrow> HasPrefix (map f s) w = HasPrefix s w"
  by (induction s w rule: HasPrefix.induct) auto

lemma lead_len_map:
  "(\<And>c d. d \<in> set (concat ws) \<Longrightarrow> f c = d \<longleftrightarrow> c = d) \<Longrightarrow> lead_len ws (map f s) = lead_len ws s"
proof (induction ws)
  case (Cons w ws)
  then show ?case using HasPrefix_map [of w f s] by (simp add: Cons.IH)
qed simp

lemma trim_lead_map:
  "(\<And>c d. d \<in> set (concat ws) \<Longrightarrow> f c = d \<longleftrightarrow> c = d) \<Longrightarrow>
   trim_lead ws (map f s) = map f (trim_lead ws s)"
proof (induction ws s rule: trim_lead.induct)
  case (1 ws s)
  from "1.prems" have len: "lead_len ws (map f s) = lead_len ws s" by (rule lead_len_map)
  show ?case
  proof (cases "lead_len ws s = 0")
    case True
    with len show ?thesis by (simp add: trim_lead_id)
  next
    case False
    with "1.IH" [OF False "1.prems"] len show ?thesis
      by (simp add: trim_lead.simps [of ws s] trim_lead.simps [of ws "map f s"] drop_map)
  qed
qed

lemma TrimSpace_map:
  assumes "\<And>c d. d \<in> set (concat space_seqs) \<Longrightarrow> f c = d \<longleftrightarrow> c = d"
  shows "TrimSpace (map f s) = map f (TrimSpace s)"
proof -
  have 1: "\<And>c d. d \<in> set (concat (map rev space_seqs)) \<Longrightarrow> f c = d \<longleftrightarrow> c = d"
    using assms by simp
  have "trim_lead (map rev space_seqs) (map f x) = map f (trim_lead (map rev space_seqs) x)" for x
    using 1 by (rule trim_lead_map)
  moreover have "trim_lead space_seqs (map f x) = map f (trim_lead space_seqs x)" for x
    using assms by (rule trim_lead_map)
  ultimately show ?thesis
    by (simp add: TrimSpace_def trim_left_def trim_right_def rev_map)
qed

lemma space_bytes: "d \<in> set (concat space_seqs) \<Longrightarrow> \<not> is_alpha d"
  by (auto simp: space_seqs_def is_alpha_def is_upper_def is_lower_def ord_def)

lemma lower_char_alpha: "is_upper c \<Longrightarrow> is_lower (lower_char c)"
  by (auto simp: lower_char_def is_upper_def is_lower_def ord_char_of)

lemma upper_char_alpha: "is_lower c \<Longrightarrow> is_upper (upper_char c)"
  by (auto simp: upper_char_def is_upper_def is_lower_def ord_char_of)

lemma TrimSpace_ToLower: "TrimSpace (ToLower s) = ToLower (TrimSpace s)"
  unfolding ToLower_def
proof (rule TrimSpace_map)
  fix c d assume "d \<in> set (concat space_seqs)"
  then have "\<not> is_alpha d" by (rule space_bytes)
  then show "lower_char c = d \<longleftrightarrow> c = d"
    using lower_char_alpha [of c] by (auto simp: is_alpha_def lower_char_def split: if_splits)
qed

lemma TrimSpace_ToUpper: "TrimSpace (ToUpper s) = ToUpper (TrimSpace s)"
  unfolding ToUpper_def
proof (rule TrimSpace_map)
  fix c d assume "d \<in> set (concat space_seqs)"
  then have "\<not> is_alpha d" by (rule space_bytes)
  then show "upper_char c = d \<longleftrightarrow> c = d"
    using upper_char_alpha [of c] by (auto simp: is_alpha_def upper_char_def split: if_splits)
qed

lemma TrimSpace_ToLower_TrimSpace [simp]:
  "TrimSpace (ToLower (TrimSpace s)) = ToLower (TrimSpace s)"
  by (simp add: TrimSpace_ToLower)

lemma TrimSpace_ToUpper_TrimSpace [simp]:
  "TrimSpace (ToUpper (TrimSpace s)) = ToUpper (TrimSpace s)"
  by (simp add: TrimSpace_ToUpper)

text \<open>A string that begins and ends with bytes that occur in no white-space rune is trimmed.\<close>

lemma lead_len_hd:
  "s \<noteq> [] \<Longrightarrow> hd s \<notin> set (concat ws) \<Longrightarrow> lead_len ws s = 0"
  by (cases s) (auto simp: lead_len_0 neq_Nil_conv)

lemma TrimSpace_solid:
  assumes "s \<noteq> [] \<Longrightarrow> hd s \<notin> set (concat space_seqs) \<and> last s \<notin> set (concat space_seqs)"
  shows "TrimSpace s = s"
proof (cases "s = []")
  case False
  with assms have "lead_len space_seqs s = 0" by (intro lead_len_hd) auto
  moreover have "lead_len (map rev space_seqs) (rev s) = 0"
    using False assms by (intro lead_len_hd) (auto simp: hd_rev)
  ultimately show ?thesis by (simp add: TrimSpace_def trim_left_def trim_right_def trim_lead_id)
qed simp

text \<open>Putting a byte that occurs in no white-space rune before a trimmed string.\<close>

lemma lead_len_snoc:
  "lead_len ws s = 0 \<Longrightarrow> c \<notin> set (concat ws) \<Longrightarrow> lead_len ws (s @ [c]) = 0"
  unfolding lead_len_0
proof (intro ballI impI notI)
  fix w
  assume clean: "\<forall>w\<in>set ws. w \<noteq> [] \<longrightarrow> \<not> HasPrefix s w" and c: "c \<notin> set (concat ws)"
    and w: "w \<in> set ws" "w \<noteq> []" and p: "HasPrefix (s @ [c]) w"
  from p obtain t where t: "s @ [c] = w @ t" by (auto simp: HasPrefix_iff)
  show False
  proof (cases t rule: rev_cases)
    case Nil
    with t have "c \<in> set w" by (metis append_Nil2 in_set_conv_decomp)
    with c w show ?thesis by auto
  next
    case (snoc t' d)
    with t have "HasPrefix s w" by (auto simp: HasPrefix_iff)
    with clean w show ?thesis by blast
  qed
qed

lemma TrimSpace_Cons:
  assumes c: "c \<notin> set (concat space_seqs)"
  shows "TrimSpace (c # TrimSpace s) = c # TrimSpace s"
proof -
  let ?t = "TrimSpace s"
  have "lead_len (map rev space_seqs) (rev ?t) = 0"
    by (simp add: TrimSpace_def trim_right_def)
  then have "lead_len (map rev space_seqs) (rev ?t @ [c]) = 0"
    using c by (intro lead_len_snoc) auto
  moreover have "lead_len space_seqs (c # ?t) = 0"
    using c by (intro lead_len_hd) auto
  ultimately show ?thesis
    by (simp add: TrimSpace_def [of "c # ?t"] trim_left_def trim_right_def trim_lead_id)
qed

subsection \<open>Decimal numerals\<close>

fun digits_of :: "nat \<Rightarrow> string" where
  "digits_of n = (if n < 10 then [char_of (48 + n)] else digits_of (n div 10) @ [char_of (48 + n mod 10)])"

declare digits_of.simps [simp del]

definition Itoa :: "int \<Rightarrow> string" where
  "Itoa i = (if i < 0 then CHR ''-'' # digits_of (nat (- i)) else digits_of (nat i))"

lemma digits_of_nonempty [simp]: "digits_of n \<noteq> []"
  by (subst digits_of.simps) simp

lemma digits_of_digit: "c \<in> set (digits_of n) \<Longrightarrow> is_digit c"
proof (induction n rule: digits_of.induct)
  case (1 n)
  show ?case
  proof (cases "n < 10")
    case True
    with "1.prems" show ?thesis
      by (simp add: digits_of.simps [of n] is_digit_def ord_def)
  next
    case False
    with "1.prems" consider "c \<in> set (digits_of (n div 10))" | "c = char_of (48 + n mod 10)"
      by (auto simp: digits_of.simps [of n])
    then show ?thesis
    proof cases
      case 1
      with "1.IH" False show ?thesis by simp
    next
      case 2
      then show ?thesis by (simp add: is_digit_def ord_def)
    qed
  qed
qed

lemma is_digit_solid: "is_digit c \<Longrightarrow> c \<notin> set (concat space_seqs)"
  by (auto simp: space_seqs_def is_digit_def ord_def)

lemma Itoa_solid: "0 \<le> i \<Longrightarrow> Itoa i \<noteq> [] \<and> last (Itoa i) \<notin> set (concat space_seqs)"
  using digits_of_digit [of "last (digits_of (nat i))" "nat i"] is_digit_solid
  by (auto simp: Itoa_def)

text \<open>The inverse on numerals, which makes \<open>Itoa\<close> injective.\<close>

definition digits_val :: "string \<Rightarrow> nat" where
  "digits_val s = foldl (\<lambda>a c. 10 * a + (ord c - 48)) 0 s"

lemma digits_val_digits_of: "digits_val (digits_of n) = n"
proof (induction n rule: digits_of.induct)
  case (1 n)
  show ?case
  proof (cases "n < 10")
    case True
    then show ?thesis by (simp add: digits_of.simps [of n] digits_val_def ord_def)
  next
    case False
    with "1" have "digits_val (digits_of (n div 10)) = n div 10" by simp
    with False show ?thesis
      by (simp add: digits_of.simps [of n] digits_val_def ord_def)
  qed
qed

lemma digits_of_inject: "digits_of m = digits_of n \<longleftrightarrow> m = n"
  by (metis digits_val_digits_of)

subsection \<open>HTTP header names\<close>

definition token_char :: "char \<Rightarrow> bool" where
  "token_char c = (is_alpha c \<or> is_digit c \<or> c \<in> set ''!#$%&*+-.^_`|~'' \<or> ord c = 39)"

fun canon_case :: "bool \<Rightarrow> string \<Rightarrow> string" where
  "canon_case up [] = []"
| "canon_case up (c # s) =
     (if up then upper_char c else lower_char c) # canon_case (c = CHR ''-'') s"

definition CanonicalMIMEHeaderKey :: "string \<Rightarrow> string" where
  "CanonicalMIMEHeaderKey s = (if list_all token_char s then canon_case True s else s)"

lemma not_alpha_case:
  "\<not> is_alpha d \<Longrightarrow> upper_char c = d \<longleftrightarrow> c = d" "\<not> is_alpha d \<Longrightarrow> lower_char c = d \<longleftrightarrow> c = d"
  using upper_char_alpha [of c] lower_char_alpha [of c]
  by (auto simp: is_alpha_def upper_char_def lower_char_def split: if_splits)

lemma case_dash [simp]:
  "upper_char c = CHR ''-'' \<longleftrightarrow> c = CHR ''-''" "lower_char c = CHR ''-'' \<longleftrightarrow> c = CHR ''-''"
  by (rule not_alpha_case, simp add: is_alpha_def is_upper_def is_lower_def ord_def)+

lemma token_char_case [simp]:
  "token_char (upper_char c) = token_char c" "token_char (lower_char c) = token_char c"
  using upper_char_alpha [of c] lower_char_alpha [of c]
  by (auto simp: token_char_def is_alpha_def upper_char_def lower_char_def split: if_splits)

lemma canon_case_idem [simp]: "canon_case up (canon_case up s) = canon_case up s"
  by (induction up s rule: canon_case.induct) auto

lemma canon_case_token [simp]: "list_all token_char (canon_case up s) = list_all token_char s"
  by (induction up s rule: canon_case.induct) auto

lemma canon_case_Nil [simp]: "canon_case up s = [] \<longleftrightarrow> s = []"
  by (cases s) auto

lemma CanonicalMIMEHeaderKey_idem [simp]:
  "CanonicalMIMEHeaderKey (CanonicalMIMEHeaderKey s) = CanonicalMIMEHeaderKey s"
  by (simp add: CanonicalMIMEHeaderKey_def)

lemma CanonicalMIMEHeaderKey_Nil [simp]: "CanonicalMIMEHeaderKey s = [] \<longleftrightarrow> s = []"
  by (simp add: CanonicalMIMEHeaderKey_def)

lemma token_char_solid: "token_char c \<Longrightarrow> c \<notin> set (concat space_seqs)"
  by (auto simp: space_seqs_def token_char_def is_alpha_def is_upper_def is_lower_def is_digit_def ord_def)

lemma TrimSpace_token: "list_all token_char s \<Longrightarrow> TrimSpace s = s"
  by (rule TrimSpace_solid) (metis hd_in_set last_in_set list_all_iff token_char_solid)

lemma TrimSpace_CanonicalMIMEHeaderKey:
  "TrimSpace (CanonicalMIMEHeaderKey (TrimSpace s)) = CanonicalMIMEHeaderKey (TrimSpace s)"
  by (cases "list_all token_char (TrimSpace s)")
    (simp_all add: CanonicalMIMEHeaderKey_def TrimSpace_token)

end
