(* ===== verification/Go_Url.thy ===== *)
theory Go_Url
  imports Go_Strings
begin

text \<open>
  The part of Go's \<open>net/url\<close> the proxy relies on: \<open>url.Parse\<close>, \<open>URL.String\<close>,
  \<open>URL.EscapedPath\<close>, \<open>URL.Hostname\<close>, \<open>URL.Port\<close>, \<open>url.ParseQuery\<close> and
  \<open>Values.Encode\<close>, as functions on byte strings.  An error is the inner error, without
  the \<open>parse "...":\<close> prefix \<open>url.Error\<close> puts before it.
\<close>

record URL =
  url_Scheme :: string
  url_Opaque :: string
  url_User :: "(string \<times> string option) option"
  url_Host :: string
  url_Path :: string
  url_RawPath :: string
  url_OmitHost :: bool
  url_ForceQuery :: bool
  url_RawQuery :: string
  url_Fragment :: string
  url_RawFragment :: string

definition empty_URL :: URL where
  "empty_URL = \<lparr>url_Scheme = [], url_Opaque = [], url_User = None, url_Host = [], url_Path = [],
     url_RawPath = [], url_OmitHost = False, url_ForceQuery = False, url_RawQuery = [],
     url_Fragment = [], url_RawFragment = []\<rparr>"

subsection \<open>Escaping\<close>

datatype encoding = encodePath | encodeHost | encodeZone | encodeUserPassword
  | encodeQueryComponent | encodeFragment

definition shouldEscape :: "char \<Rightarrow> encoding \<Rightarrow> bool" where
  "shouldEscape c mode =
     (if is_alpha c \<or> is_digit c then False
      else if (mode = encodeHost \<or> mode = encodeZone) \<and>
              (c \<in> set ''!$&()*+,;=:[]<>'' \<or> ord c = 39 \<or> ord c = 34) then False
      else if c \<in> set ''-_.~'' then False
      else if c \<in> set ''$&+,/:;=?@'' then
        (case mode of
           encodePath \<Rightarrow> c = CHR ''?''
         | encodeUserPassword \<Rightarrow> c \<in> set ''@/?:''
         | encodeQueryComponent \<Rightarrow> True
         | encodeFragment \<Rightarrow> False
         | _ \<Rightarrow> True)
      else if mode = encodeFragment \<and> c \<in> set ''!()*'' then False
      else True)"

definition ishex :: "char \<Rightarrow> bool" where
  "ishex c = (is_digit c \<or> (97 \<le> ord c \<and> ord c \<le> 102) \<or> (65 \<le> ord c \<and> ord c \<le> 70))"

definition unhex :: "char \<Rightarrow> nat" where
  "unhex c = (if is_digit c then ord c - 48
     else if 97 \<le> ord c \<and> ord c \<le> 102 then ord c - 97 + 10
     else if 65 \<le> ord c \<and> ord c \<le> 70 then ord c - 65 + 10 else 0)"

definition upperhex :: "nat \<Rightarrow> char" where
  "upperhex n = (if n < 10 then char_of (48 + n) else char_of (55 + n))"

fun escape :: "string \<Rightarrow> encoding \<Rightarrow> string" where
  "escape [] mode = []"
| "escape (c # s) mode =
     (if c = CHR '' '' \<and> mode = encodeQueryComponent then CHR ''+'' # escape s mode
      else if shouldEscape c mode
      then CHR ''%'' # upperhex (ord c div 16) # upperhex (ord c mod 16) # escape s mode
      else c # escape s mode)"

fun unescape :: "string \<Rightarrow> encoding \<Rightarrow> string result" where
  "unescape [] mode = Inr []"
| "unescape (c # s) mode =
     (if c = CHR ''%'' then
        (case s of
           a # b # t \<Rightarrow>
             if \<not> (ishex a \<and> ishex b) then err ''invalid URL escape'' []
             else if mode = encodeHost \<and> unhex a < 8 \<and> \<not> (a = CHR ''2'' \<and> b = CHR ''5'')
             then err ''invalid URL escape'' []
             else if mode = encodeZone \<and> \<not> (a = CHR ''2'' \<and> b = CHR ''5'')
               \<and> 16 * unhex a + unhex b \<noteq> 32
               \<and> shouldEscape (char_of (16 * unhex a + unhex b)) encodeHost
             then err ''invalid URL escape'' []
             else (case unescape t mode of Inl e \<Rightarrow> Inl e
                   | Inr r \<Rightarrow> Inr (char_of (16 * unhex a + unhex b) # r))
         | _ \<Rightarrow> err ''invalid URL escape'' [])
      else if (mode = encodeHost \<or> mode = encodeZone) \<and> ord c < 128 \<and> shouldEscape c mode
      then err ''invalid character in host name'' []
      else (case unescape s mode of Inl e \<Rightarrow> Inl e
            | Inr r \<Rightarrow> Inr ((if c = CHR ''+'' \<and> mode = encodeQueryComponent then CHR '' '' else c) # r)))"

lemma unhex_upperhex: "n < 16 \<Longrightarrow> unhex (upperhex n) = n \<and> ishex (upperhex n)"
  by (auto simp: unhex_def upperhex_def ishex_def is_digit_def ord_def)

lemma shouldEscape_percent [simp]: "shouldEscape (CHR ''%'') mode"
  by (simp add: shouldEscape_def is_alpha_def is_upper_def is_lower_def is_digit_def ord_def)

lemma shouldEscape_plus: "mode = encodeQueryComponent \<Longrightarrow> shouldEscape (CHR ''+'') mode"
  by (simp add: shouldEscape_def is_alpha_def is_upper_def is_lower_def is_digit_def ord_def)

text \<open>Unescaping undoes escaping in the modes that carry no host syntax.\<close>

lemma char_of_halves: "char_of (16 * (ord c div 16) + ord c mod 16) = c"
  by (simp add: ord_def)

lemma ord_less: "ord c < 256"
  by (simp add: ord_def)

lemma ord_div_16: "ord c div 16 < 16"
  using ord_less [of c] by simp

lemma unescape_escape:
  "mode \<notin> {encodeHost, encodeZone} \<Longrightarrow> unescape (escape s mode) mode = Inr s"
proof (induction s mode rule: escape.induct)
  case (2 c s mode)
  note ux = unhex_upperhex [OF ord_div_16 [of c]] unhex_upperhex [of "ord c mod 16"]
  show ?case
  proof (cases "shouldEscape c mode")
    case True
    with 2 ux show ?thesis by (auto simp: char_of_halves)
  next
    case False
    with shouldEscape_plus [of mode] have "c \<noteq> CHR ''%''" "mode = encodeQueryComponent \<Longrightarrow> c \<noteq> CHR ''+''"
      by auto
    with 2 False show ?thesis by auto
  qed
qed simp

subsection \<open>Parsing\<close>

fun scheme_scan :: "string \<Rightarrow> string \<Rightarrow> (string \<times> string) result" where
  \<comment> \<open>\<open>getScheme\<close>: the bytes before the position, and the rest\<close>
  "scheme_scan acc [] = Inr ([], acc)"
| "scheme_scan acc (c # s) =
     (if is_alpha c then scheme_scan (acc @ [c]) s
      else if is_digit c \<or> c \<in> set ''+-.''
      then (if acc = [] then Inr ([], c # s) else scheme_scan (acc @ [c]) s)
      else if c = CHR '':''
      then (if acc = [] then err ''missing protocol scheme'' [] else Inr (acc, s))
      else Inr ([], acc @ c # s))"

definition validOptionalPort :: "string \<Rightarrow> bool" where
  "validOptionalPort p = (case p of [] \<Rightarrow> True | c # ds \<Rightarrow> c = CHR '':'' \<and> list_all is_digit ds)"

definition parseHost :: "string \<Rightarrow> string result" where
  "parseHost host =
     (if HasPrefix host ''['' then
        (case LastIndexByte host (CHR '']'') of
           None \<Rightarrow> err ''missing ] in host'' []
         | Some i \<Rightarrow>
             if \<not> validOptionalPort (drop (Suc i) host) then err ''invalid port after host'' []
             else (case Index (take i host) ''%25'' of
                     None \<Rightarrow> unescape host encodeHost
                   | Some z \<Rightarrow>
                       (case unescape (take z host) encodeHost of Inl e \<Rightarrow> Inl e | Inr h1 \<Rightarrow>
                        (case unescape (drop z (take i host)) encodeZone of Inl e \<Rightarrow> Inl e | Inr h2 \<Rightarrow>
                         (case unescape (drop i host) encodeHost of Inl e \<Rightarrow> Inl e | Inr h3 \<Rightarrow>
                            Inr (h1 @ h2 @ h3))))))
      else (case LastIndexByte host (CHR '':'') of
              Some i \<Rightarrow> if \<not> validOptionalPort (drop i host) then err ''invalid port after host'' []
                        else unescape host encodeHost
            | None \<Rightarrow> unescape host encodeHost))"

definition validUserinfo :: "string \<Rightarrow> bool" where
  "validUserinfo s =
     list_all (\<lambda>c. is_alpha c \<or> is_digit c \<or> c \<in> set ''-._:~!$&()*+,;=%@'' \<or> ord c = 39) s"

definition parseAuthority :: "string \<Rightarrow> ((string \<times> string option) option \<times> string) result" where
  "parseAuthority a =
     (case LastIndexByte a (CHR ''@'') of
        None \<Rightarrow> (case parseHost a of Inl e \<Rightarrow> Inl e | Inr h \<Rightarrow> Inr (None, h))
      | Some i \<Rightarrow>
          (case parseHost (drop (Suc i) a) of Inl e \<Rightarrow> Inl e | Inr h \<Rightarrow>
             (let ui = take i a in
              if \<not> validUserinfo ui then err ''net/url: invalid userinfo'' []
              else (case IndexByte ui (CHR '':'') of
                      None \<Rightarrow> (case unescape ui encodeUserPassword of Inl e \<Rightarrow> Inl e
                               | Inr n \<Rightarrow> Inr (Some (n, None), h))
                    | Some j \<Rightarrow>
                        (case unescape (take j ui) encodeUserPassword of Inl e \<Rightarrow> Inl e | Inr n \<Rightarrow>
                         (case unescape (drop (Suc j) ui) encodeUserPassword of Inl e \<Rightarrow> Inl e | Inr w \<Rightarrow>
                            Inr (Some (n, Some w), h)))))))"

definition setPath :: "string \<Rightarrow> URL \<Rightarrow> URL result" where
  "setPath p u =
     (case unescape p encodePath of Inl e \<Rightarrow> Inl e
      | Inr path \<Rightarrow> Inr (u\<lparr>url_Path := path,
                         url_RawPath := (if p = escape path encodePath then [] else p)\<rparr>))"

definition setFragment :: "string \<Rightarrow> URL \<Rightarrow> URL result" where
  "setFragment f u =
     (case unescape f encodeFragment of Inl e \<Rightarrow> Inl e
      | Inr frag \<Rightarrow> Inr (u\<lparr>url_Fragment := frag,
                         url_RawFragment := (if f = escape frag encodeFragment then [] else f)\<rparr>))"

definition count_byte :: "string \<Rightarrow> char \<Rightarrow> nat" where
  "count_byte s c = length (filter (\<lambda>d. d = c) s)"

definition parse_no_fragment :: "string \<Rightarrow> URL result" where
  "parse_no_fragment raw =
     (if list_ex (\<lambda>c. ord c < 32 \<or> ord c = 127) raw
      then err ''net/url: invalid control character in URL'' []
      else if raw = ''*'' then Inr (empty_URL\<lparr>url_Path := ''*''\<rparr>)
      else case scheme_scan [] raw of Inl e \<Rightarrow> Inl e | Inr (scheme, rest) \<Rightarrow>
        (let sch = ToLower scheme;
             force = HasSuffix rest ''?'' \<and> count_byte rest (CHR ''?'') = 1;
             (rest2, query) = (if force then (butlast rest, []) else CutByte rest (CHR ''?''));
             u = empty_URL\<lparr>url_Scheme := sch, url_ForceQuery := force, url_RawQuery := query\<rparr>
         in if \<not> HasPrefix rest2 ''/'' \<and> sch \<noteq> [] then Inr (u\<lparr>url_Opaque := rest2\<rparr>)
            else if \<not> HasPrefix rest2 ''/'' \<and> IndexByte (fst (CutByte rest2 (CHR ''/''))) (CHR '':'') \<noteq> None
            then err ''first path segment in URL cannot contain colon'' []
            else if (sch \<noteq> [] \<or> \<not> HasPrefix rest2 ''///'') \<and> HasPrefix rest2 ''//''
            then (let auth_rest = drop 2 rest2;
                      (auth, path) = (case IndexByte auth_rest (CHR ''/'') of
                                        None \<Rightarrow> (auth_rest, [])
                                      | Some i \<Rightarrow> (take i auth_rest, drop i auth_rest))
                  in case parseAuthority auth of Inl e \<Rightarrow> Inl e
                     | Inr (user, host) \<Rightarrow> setPath path (u\<lparr>url_User := user, url_Host := host\<rparr>))
            else setPath rest2 (u\<lparr>url_OmitHost := (sch \<noteq> [] \<and> HasPrefix rest2 ''/'')\<rparr>)))"

definition url_Parse :: "string \<Rightarrow> URL result" where
  "url_Parse raw =
     (let (u, frag) = CutByte raw (CHR ''#'') in
      case parse_no_fragment u of Inl e \<Rightarrow> Inl e
      | Inr url \<Rightarrow> if frag = [] then Inr url else setFragment frag url)"

subsection \<open>Printing\<close>

definition validEncodedPath :: "string \<Rightarrow> bool" where
  "validEncodedPath s =
     list_all (\<lambda>c. c \<in> set ''!$&()*+,;=:@[]%'' \<or> ord c = 39 \<or> \<not> shouldEscape c encodePath) s"

definition EscapedPath :: "URL \<Rightarrow> string" where
  "EscapedPath u =
     (if url_RawPath u \<noteq> [] \<and> validEncodedPath (url_RawPath u)
         \<and> unescape (url_RawPath u) encodePath = Inr (url_Path u) then url_RawPath u
      else if url_Path u = ''*'' then ''*''
      else escape (url_Path u) encodePath)"

definition validEncodedFragment :: "string \<Rightarrow> bool" where
  "validEncodedFragment s =
     list_all (\<lambda>c. c \<in> set ''!$&()*+,;=:@[]%'' \<or> ord c = 39 \<or> \<not> shouldEscape c encodeFragment) s"

definition EscapedFragment :: "URL \<Rightarrow> string" where
  "EscapedFragment u =
     (if url_RawFragment u \<noteq> [] \<and> validEncodedFragment (url_RawFragment u)
         \<and> unescape (url_RawFragment u) encodeFragment = Inr (url_Fragment u) then url_RawFragment u
      else escape (url_Fragment u) encodeFragment)"

definition Userinfo_String :: "string \<times> string option \<Rightarrow> string" where
  "Userinfo_String ui = (case ui of (n, pw) \<Rightarrow> escape n encodeUserPassword @
     (case pw of None \<Rightarrow> [] | Some w \<Rightarrow> '':'' @ escape w encodeUserPassword))"

definition URL_String :: "URL \<Rightarrow> string" where
  "URL_String u =
     (let scheme = (if url_Scheme u \<noteq> [] then url_Scheme u @ '':'' else []);
          body = (if url_Opaque u \<noteq> [] then url_Opaque u
            else (let auth =
                    (if url_Scheme u \<noteq> [] \<or> url_Host u \<noteq> [] \<or> url_User u \<noteq> None then
                       (if url_OmitHost u \<and> url_Host u = [] \<and> url_User u = None then []
                        else (if url_Host u \<noteq> [] \<or> url_Path u \<noteq> [] \<or> url_User u \<noteq> None then ''//'' else [])
                          @ (case url_User u of None \<Rightarrow> [] | Some ui \<Rightarrow> Userinfo_String ui @ ''@'')
                          @ (if url_Host u \<noteq> [] then escape (url_Host u) encodeHost else []))
                     else []);
                   path = EscapedPath u;
                   slash = (if path \<noteq> [] \<and> hd path \<noteq> CHR ''/'' \<and> url_Host u \<noteq> [] then ''/'' else []);
                   dot = (if scheme @ auth @ slash = []
                             \<and> IndexByte (fst (CutByte path (CHR ''/''))) (CHR '':'') \<noteq> None
                          then ''./'' else [])
                 in auth @ slash @ dot @ path))
      in scheme @ body
         @ (if url_ForceQuery u \<or> url_RawQuery u \<noteq> [] then ''?'' @ url_RawQuery u else [])
         @ (if url_Fragment u \<noteq> [] then ''#'' @ EscapedFragment u else []))"

definition splitHostPort :: "string \<Rightarrow> string \<times> string" where
  "splitHostPort hp =
     (let (host, port) = (case LastIndexByte hp (CHR '':'') of
            Some i \<Rightarrow> if validOptionalPort (drop i hp) then (take i hp, drop (Suc i) hp) else (hp, [])
          | None \<Rightarrow> (hp, []))
      in (if HasPrefix host ''['' \<and> HasSuffix host '']'' then butlast (tl host) else host, port))"

definition URL_Hostname :: "URL \<Rightarrow> string" where
  "URL_Hostname u = fst (splitHostPort (url_Host u))"

definition URL_Port :: "URL \<Rightarrow> string" where
  "URL_Port u = snd (splitHostPort (url_Host u))"

subsection \<open>Query strings\<close>

text \<open>
  \<open>url.Values\<close>, a map from keys to lists of values.  \<open>ParseQuery\<close> reports the first
  error; the callers in this program drop the values then.
\<close>

type_synonym url_values = "(string \<times> string list) list"

definition values_get :: "url_values \<Rightarrow> string \<Rightarrow> string list" where
  "values_get m k = (case map_of m k of None \<Rightarrow> [] | Some vs \<Rightarrow> vs)"

definition Values_Add :: "string \<Rightarrow> string \<Rightarrow> url_values \<Rightarrow> url_values" where
  "Values_Add k v m = aput k (values_get m k @ [v]) m"

definition Values_Set :: "string \<Rightarrow> string \<Rightarrow> url_values \<Rightarrow> url_values" where
  "Values_Set k v m = aput k [v] m"

definition Values_Del :: "string \<Rightarrow> url_values \<Rightarrow> url_values" where
  "Values_Del k m = adel k m"

fun parse_pairs :: "string list \<Rightarrow> url_values \<Rightarrow> url_values result" where
  "parse_pairs [] m = Inr m"
| "parse_pairs (p # ps) m =
     (if CHR '';'' \<in> set p then err ''invalid semicolon separator in query'' []
      else if p = [] then parse_pairs ps m
      else (let (k, v) = CutByte p (CHR ''='') in
            case unescape k encodeQueryComponent of Inl e \<Rightarrow> Inl e | Inr k' \<Rightarrow>
            (case unescape v encodeQueryComponent of Inl e \<Rightarrow> Inl e | Inr v' \<Rightarrow>
               parse_pairs ps (Values_Add k' v' m))))"

definition ParseQuery :: "string \<Rightarrow> url_values result" where
  "ParseQuery q = parse_pairs (SplitByte q (CHR ''&'')) []"

text \<open>Byte-wise order of strings, as \<open>sort.Strings\<close> and \<open><\<close> use it.\<close>

fun string_less :: "string \<Rightarrow> string \<Rightarrow> bool" where
  "string_less s [] = False"
| "string_less [] (d # t) = True"
| "string_less (c # s) (d # t) = (ord c < ord d \<or> (c = d \<and> string_less s t))"

fun insert_by :: "('a \<Rightarrow> 'a \<Rightarrow> bool) \<Rightarrow> 'a \<Rightarrow> 'a list \<Rightarrow> 'a list" where
  "insert_by lt x [] = [x]"
| "insert_by lt x (y # ys) = (if lt y x then y # insert_by lt x ys else x # y # ys)"

text \<open>A stable sort by a strict order: \<open>sort.SliceStable\<close>, and \<open>sort.Strings\<close> and
  \<open>sort.Ints\<close>, whose equal elements cannot be told apart.\<close>

fun sort_by :: "('a \<Rightarrow> 'a \<Rightarrow> bool) \<Rightarrow> 'a list \<Rightarrow> 'a list" where
  "sort_by lt [] = []"
| "sort_by lt (x # xs) = insert_by lt x (sort_by lt xs)"

definition join_with :: "string \<Rightarrow> string list \<Rightarrow> string" where
  \<comment> \<open>\<open>strings.Join\<close>\<close>
  "join_with sep ss = (case ss of [] \<Rightarrow> [] | s # t \<Rightarrow> s @ concat (map (\<lambda>x. sep @ x) t))"

definition Values_Encode :: "url_values \<Rightarrow> string" where
  "Values_Encode m = join_with ''&''
     (concat (map (\<lambda>(k, vs). map (\<lambda>v. escape k encodeQueryComponent @ ''='' @ escape v encodeQueryComponent) vs)
        (sort_by (\<lambda>a b. string_less (fst a) (fst b)) m)))"

subsection \<open>Facts about sorting\<close>

lemma set_insert_by [simp]: "set (insert_by lt x ys) = insert x (set ys)"
  by (induction ys) auto

lemma set_sort_by: "set (sort_by lt xs) = set xs"
  by (induction xs) auto

lemma length_insert_by [simp]: "length (insert_by lt x ys) = Suc (length ys)"
  by (induction ys) auto

lemma length_sort_by [simp]: "length (sort_by lt xs) = length xs"
  by (induction xs) auto

lemma distinct_insert_by: "distinct (insert_by lt x ys) \<longleftrightarrow> x \<notin> set ys \<and> distinct ys"
  by (induction ys) auto

lemma distinct_sort_by [simp]: "distinct (sort_by lt xs) \<longleftrightarrow> distinct xs"
  by (induction xs) (auto simp: distinct_insert_by set_sort_by)

lemma strict_insert_by:
  fixes x :: "'a::linorder"
  shows "x \<notin> set ys \<Longrightarrow> sorted_wrt (<) ys \<Longrightarrow> sorted_wrt (<) (insert_by (<) x ys)"
  by (induction ys) auto

lemma strict_sort_by:
  fixes xs :: "'a::linorder list"
  shows "distinct xs \<Longrightarrow> sorted_wrt (<) (sort_by (<) xs)"
  by (induction xs) (auto intro: strict_insert_by simp: set_sort_by)

lemma strict_distinct: "sorted_wrt (<) (xs :: 'a::linorder list) \<Longrightarrow> distinct xs"
  by (induction xs) auto

lemma insert_by_hd: "(\<forall>y\<in>set ys. \<not> lt y x) \<Longrightarrow> insert_by lt x ys = x # ys"
  by (cases ys) auto

lemma sort_by_id: "sorted_wrt (<) (xs :: 'a::linorder list) \<Longrightarrow> sort_by (<) xs = xs"
  by (induction xs) (auto intro!: insert_by_hd simp: less_le_not_le)

subsection \<open>Sorting by an order that tells keys apart\<close>

lemma string_less_irrefl [simp]: "\<not> string_less s s"
  by (induction s) auto

lemma string_less_trans: "string_less a b \<Longrightarrow> string_less b c \<Longrightarrow> string_less a c"
proof (induction a b arbitrary: c rule: string_less.induct)
  case (3 x s y t)
  then show ?case by (cases c) (auto simp: ord_inject dest: less_trans)
qed (auto elim: string_less.elims)

lemma string_less_total: "s \<noteq> t \<Longrightarrow> string_less s t \<or> string_less t s"
  by (induction s t rule: string_less.induct) (auto simp: ord_inject neq_Nil_conv dest: linorder_neqE_nat)

text \<open>
  What \<open>sort.Slice\<close> is given: a strict order that compares any two elements with different keys.  A list with distinct
  keys then has one sorted form, whatever the algorithm.
\<close>

locale sort_order =
  fixes lt :: "'a \<Rightarrow> 'a \<Rightarrow> bool" and key :: "'a \<Rightarrow> 'k"
  assumes lt_irrefl: "\<not> lt a a"
    and lt_trans: "lt a b \<Longrightarrow> lt b c \<Longrightarrow> lt a c"
    and lt_total: "key a \<noteq> key b \<Longrightarrow> lt a b \<or> lt b a"
begin

lemma sorted_insert_by: "sorted_wrt lt ys \<Longrightarrow> key x \<notin> key ` set ys \<Longrightarrow> sorted_wrt lt (insert_by lt x ys)"
proof (induction ys)
  case (Cons y ys)
  show ?case
  proof (cases "lt y x")
    case False
    then have "lt x y" using Cons.prems(2) lt_total [of x y] by auto
    with Cons.prems False show ?thesis by (auto intro: lt_trans)
  qed (use Cons in auto)
qed simp

lemma sorted_sort_by: "distinct (map key xs) \<Longrightarrow> sorted_wrt lt (sort_by lt xs)"
  by (induction xs) (auto intro!: sorted_insert_by simp: set_sort_by)

lemma sorted_unique: "sorted_wrt lt xs \<Longrightarrow> sorted_wrt lt ys \<Longrightarrow> set xs = set ys \<Longrightarrow> xs = ys"
proof (induction xs arbitrary: ys)
  case (Cons x xs)
  then obtain y ys' where ys: "ys = y # ys'" by (cases ys) auto
  have "x = y"
  proof (rule ccontr)
    assume ne: "x \<noteq> y"
    with Cons.prems(3) ys have "x \<in> set ys'" "y \<in> set xs" by auto
    with Cons.prems(1,2) ys have "lt x y" "lt y x" by auto
    then show False using lt_trans lt_irrefl by blast
  qed
  moreover have "x \<notin> set xs" "y \<notin> set ys'" using Cons.prems(1,2) ys lt_irrefl \<open>x = y\<close> by auto
  ultimately have "set xs = set ys'" using Cons.prems(3) ys by (metis insert_ident list.simps(15))
  moreover have "sorted_wrt lt xs" "sorted_wrt lt ys'" using Cons.prems(1,2) ys by simp_all
  ultimately have "xs = ys'" by (blast intro: Cons.IH)
  with \<open>x = y\<close> ys show ?case by simp
qed simp

lemma sort_by_unique: "distinct (map key xs) \<Longrightarrow> distinct (map key ys) \<Longrightarrow> set xs = set ys \<Longrightarrow> sort_by lt xs = sort_by lt ys"
  by (intro sorted_unique sorted_sort_by) (simp_all add: set_sort_by)

end

abbreviation key_less :: "string \<times> 'a \<Rightarrow> string \<times> 'a \<Rightarrow> bool" where
  "key_less a b \<equiv> string_less (fst a) (fst b)"

interpretation keys: sort_order key_less fst
  by unfold_locales (auto intro: string_less_trans dest: string_less_total)

lemma sum_sort_by: "(\<Sum>x\<leftarrow>sort_by lt xs. (f x :: int)) = (\<Sum>x\<leftarrow>xs. f x)"
proof -
  have "(\<Sum>x\<leftarrow>insert_by lt x xs. f x) = f x + (\<Sum>x\<leftarrow>xs. f x)" for x xs by (induction xs) auto
  then show ?thesis by (induction xs) auto
qed

end
