(* ===== verification/Proxy_Config.thy ===== *)
theory Proxy_Config
  imports Go_Url
begin

text \<open>
  The proxy rules document: the structs of \<open>proxy_runtime.go\<close> and \<open>proxy_routing.go\<close> as
  records with the source's fields, and the normalisation every document goes through
  before it is validated, stored or handed to the health monitor.

  The cached \<open>compiled\<close> field of a path match holds the result of compiling its value
  and is not kept: the model compiles where the code may read the cache.
\<close>

subsection \<open>Data\<close>

record ProxyUpstream =
  up_Name :: string
  up_URL :: string
  up_Weight :: int
  up_Enabled :: bool

record ProxyRoutePathMatch =
  pm_Type :: string
  pm_Value :: string

record ProxyRouteMatch =
  ma_Hosts :: "string list"
  ma_Path :: "ProxyRoutePathMatch option"

record ProxyRoutePathRewrite =
  pr_Prefix :: string

record ProxyRouteHeaderOperations =
  ho_Set :: gomap
  ho_Add :: gomap
  ho_Remove :: "string list"

record ProxyRouteQueryOperations =
  qo_Set :: gomap
  qo_Add :: gomap
  qo_Remove :: "string list"
  qo_RemovePrefixes :: "string list"

record ProxyRouteAction =
  ac_Upstream :: string
  ac_CanaryUpstream :: string
  ac_CanaryWeightPct :: int
  ac_HashPolicy :: string
  ac_HashKey :: string
  ac_HostRewrite :: string
  ac_PathRewrite :: "ProxyRoutePathRewrite option"
  ac_QueryRewrite :: "ProxyRouteQueryOperations option"
  ac_RequestHeaders :: "ProxyRouteHeaderOperations option"
  ac_ResponseHeaders :: "ProxyRouteHeaderOperations option"

record ProxyRoute =
  ro_Name :: string
  ro_Enabled :: "bool option"
  ro_Priority :: int
  ro_Match :: ProxyRouteMatch
  ro_Action :: ProxyRouteAction

record ProxyDefaultRoute =
  dr_Name :: string
  dr_Enabled :: "bool option"
  dr_Action :: ProxyRouteAction

record ProxyRulesConfig =
  cf_UpstreamURL :: string
  cf_Upstreams :: "ProxyUpstream list"
  cf_LoadBalancingStrategy :: string
  cf_HashPolicy :: string
  cf_HashKey :: string
  cf_Routes :: "ProxyRoute list"
  cf_DefaultRoute :: "ProxyDefaultRoute option"
  cf_DialTimeout :: int
  cf_ResponseHeaderTimeout :: int
  cf_IdleConnTimeout :: int
  cf_MaxIdleConns :: int
  cf_MaxIdleConnsPerHost :: int
  cf_MaxConnsPerHost :: int
  cf_ForceHTTP2 :: bool
  cf_DisableCompression :: bool
  cf_ExpectContinueTimeout :: int
  cf_TLSInsecureSkipVerify :: bool
  cf_TLSClientCert :: string
  cf_TLSClientKey :: string
  cf_RetryAttempts :: int
  cf_RetryBackoffMS :: int
  cf_RetryPerTryTimeoutMS :: int
  cf_RetryStatusCodes :: "int list"
  cf_RetryMethods :: "string list"
  cf_PassiveHealthEnabled :: bool
  cf_PassiveFailureThreshold :: int
  cf_PassiveUnhealthyStatusCodes :: "int list"
  cf_CircuitBreakerEnabled :: bool
  cf_CircuitBreakerOpenSec :: int
  cf_CircuitBreakerHalfOpenRequests :: int
  cf_BufferRequestBody :: bool
  cf_MaxResponseBufferBytes :: int
  cf_FlushIntervalMS :: int
  cf_HealthCheckPath :: string
  cf_HealthCheckInterval :: int
  cf_HealthCheckTimeout :: int
  cf_ErrorHTMLFile :: string
  cf_ErrorRedirectURL :: string

definition zero_action :: ProxyRouteAction where
  "zero_action = \<lparr>ac_Upstream = [], ac_CanaryUpstream = [], ac_CanaryWeightPct = 0,
     ac_HashPolicy = [], ac_HashKey = [], ac_HostRewrite = [], ac_PathRewrite = None,
     ac_QueryRewrite = None, ac_RequestHeaders = None, ac_ResponseHeaders = None\<rparr>"

definition zero_config :: ProxyRulesConfig where
  "zero_config = \<lparr>cf_UpstreamURL = [], cf_Upstreams = [], cf_LoadBalancingStrategy = [],
     cf_HashPolicy = [], cf_HashKey = [], cf_Routes = [], cf_DefaultRoute = None,
     cf_DialTimeout = 0, cf_ResponseHeaderTimeout = 0, cf_IdleConnTimeout = 0,
     cf_MaxIdleConns = 0, cf_MaxIdleConnsPerHost = 0, cf_MaxConnsPerHost = 0,
     cf_ForceHTTP2 = False, cf_DisableCompression = False, cf_ExpectContinueTimeout = 0,
     cf_TLSInsecureSkipVerify = False, cf_TLSClientCert = [], cf_TLSClientKey = [],
     cf_RetryAttempts = 0, cf_RetryBackoffMS = 0, cf_RetryPerTryTimeoutMS = 0,
     cf_RetryStatusCodes = [], cf_RetryMethods = [], cf_PassiveHealthEnabled = False,
     cf_PassiveFailureThreshold = 0, cf_PassiveUnhealthyStatusCodes = [],
     cf_CircuitBreakerEnabled = False, cf_CircuitBreakerOpenSec = 0,
     cf_CircuitBreakerHalfOpenRequests = 0, cf_BufferRequestBody = False,
     cf_MaxResponseBufferBytes = 0, cf_FlushIntervalMS = 0, cf_HealthCheckPath = [],
     cf_HealthCheckInterval = 0, cf_HealthCheckTimeout = 0, cf_ErrorHTMLFile = [],
     cf_ErrorRedirectURL = []\<rparr>"

subsection \<open>Normalising one value\<close>

definition normalizeProxyHashPolicy :: "string \<Rightarrow> string" where
  "normalizeProxyHashPolicy v =
     (let p = ToLower (TrimSpace v) in if p = [] \<or> p = ''none'' then [] else p)"

definition normalizeProxyLoadBalancingStrategy :: "string \<Rightarrow> string" where
  "normalizeProxyLoadBalancingStrategy v =
     (let p = ToLower (TrimSpace v) in if p = [] \<or> p = ''round_robin'' then ''round_robin'' else p)"

definition normalizeProxyMethodList :: "string list \<Rightarrow> string list" where
  "normalizeProxyMethodList xs = clean_list (\<lambda>s. ToUpper (TrimSpace s)) xs"

definition valid_status :: "int \<Rightarrow> bool" where
  "valid_status c = (100 \<le> c \<and> c \<le> 599)"

definition normalizeProxyStatusCodeList :: "int list \<Rightarrow> int list" where
  "normalizeProxyStatusCodeList xs = sort_by (<) (dedup (filter valid_status xs))"

definition normalizeProxyRouteExactPath :: "string \<Rightarrow> string" where
  "normalizeProxyRouteExactPath v =
     (let out = TrimSpace v in
      if out = [] then [] else if \<not> HasPrefix out ''/'' then ''/'' @ out else out)"

definition normalizeProxyRoutePrefix :: "string \<Rightarrow> string" where
  "normalizeProxyRoutePrefix v =
     (let out = normalizeProxyRouteExactPath v in
      if out = [] \<or> out = ''/'' then ''/'' else TrimRightByte out (CHR ''/''))"

definition normalizeProxyHealthCheckPath :: "string \<Rightarrow> string" where
  "normalizeProxyHealthCheckPath v =
     (let x = TrimSpace v in
      if x = [] then [] else if \<not> HasPrefix x ''/'' then ''/'' @ x else x)"

definition canonicalProxyRouteHeaderName :: "string \<Rightarrow> string" where
  "canonicalProxyRouteHeaderName v = CanonicalMIMEHeaderKey (TrimSpace v)"

definition normalizeProxyHostPattern :: "string \<Rightarrow> string" where
  "normalizeProxyHostPattern v =
     (let w = ToLower (TrimSpace v) in
      if HasPrefix w ''*.'' then ''*.'' @ TrimSuffix (TrimPrefix w ''*.'') ''.''
      else TrimSuffix w ''.'')"

definition normalizeProxyRouteHosts :: "string list \<Rightarrow> string list" where
  "normalizeProxyRouteHosts xs = clean_list normalizeProxyHostPattern xs"

subsection \<open>Normalising the parts of a route\<close>

definition normalizeProxyRoutePathMatch :: "ProxyRoutePathMatch option \<Rightarrow> ProxyRoutePathMatch option" where
  "normalizeProxyRoutePathMatch m =
     (case m of None \<Rightarrow> None
      | Some p \<Rightarrow>
          (let t = ToLower (TrimSpace (pm_Type p)) in
           Some \<lparr>pm_Type = t,
                 pm_Value = (if t = ''prefix'' then normalizeProxyRoutePrefix (pm_Value p)
                             else if t = ''exact'' then normalizeProxyRouteExactPath (pm_Value p)
                             else TrimSpace (pm_Value p))\<rparr>))"

definition normalizeProxyRoutePathRewrite :: "ProxyRoutePathRewrite option \<Rightarrow> ProxyRoutePathRewrite option" where
  "normalizeProxyRoutePathRewrite r =
     map_option (\<lambda>p. \<lparr>pr_Prefix = normalizeProxyRoutePrefix (pr_Prefix p)\<rparr>) r"

definition normalizeProxyRouteHeaderOperations ::
  "ProxyRouteHeaderOperations option \<Rightarrow> ProxyRouteHeaderOperations option" where
  "normalizeProxyRouteHeaderOperations r =
     (case r of None \<Rightarrow> None
      | Some ops \<Rightarrow>
          (let set = rekey canonicalProxyRouteHeaderName (ho_Set ops);
               add = rekey canonicalProxyRouteHeaderName (ho_Add ops);
               rem = clean_list canonicalProxyRouteHeaderName (ho_Remove ops)
           in if set = [] \<and> add = [] \<and> rem = [] then None
              else Some \<lparr>ho_Set = set, ho_Add = add, ho_Remove = rem\<rparr>))"

definition trim_keys :: "gomap \<Rightarrow> gomap" where
  \<comment> \<open>the two loops over \<open>in.Set\<close> and \<open>in.Add\<close> of \<open>normalizeProxyRouteQueryOperations\<close>\<close>
  "trim_keys m = rekey TrimSpace (filter (\<lambda>(k, v). TrimSpace k \<noteq> []) m)"

definition normalizeProxyRouteQueryOperations ::
  "ProxyRouteQueryOperations option \<Rightarrow> ProxyRouteQueryOperations option" where
  "normalizeProxyRouteQueryOperations r =
     (case r of None \<Rightarrow> None
      | Some ops \<Rightarrow>
          (let set = trim_keys (qo_Set ops);
               add = trim_keys (qo_Add ops);
               rem = clean_list TrimSpace (qo_Remove ops);
               pre = clean_list TrimSpace (qo_RemovePrefixes ops)
           in if set = [] \<and> add = [] \<and> rem = [] \<and> pre = [] then None
              else Some \<lparr>qo_Set = set, qo_Add = add, qo_Remove = rem, qo_RemovePrefixes = pre\<rparr>))"

definition normalizeProxyRouteAction :: "ProxyRouteAction \<Rightarrow> ProxyRouteAction" where
  "normalizeProxyRouteAction a = a\<lparr>
     ac_Upstream := TrimSpace (ac_Upstream a),
     ac_CanaryUpstream := TrimSpace (ac_CanaryUpstream a),
     ac_HashPolicy := normalizeProxyHashPolicy (ac_HashPolicy a),
     ac_HashKey := TrimSpace (ac_HashKey a),
     ac_HostRewrite := TrimSpace (ac_HostRewrite a),
     ac_PathRewrite := normalizeProxyRoutePathRewrite (ac_PathRewrite a),
     ac_QueryRewrite := normalizeProxyRouteQueryOperations (ac_QueryRewrite a),
     ac_RequestHeaders := normalizeProxyRouteHeaderOperations (ac_RequestHeaders a),
     ac_ResponseHeaders := normalizeProxyRouteHeaderOperations (ac_ResponseHeaders a)\<rparr>"

definition normalize_route :: "nat \<Rightarrow> ProxyRoute \<Rightarrow> ProxyRoute" where
  \<comment> \<open>the loop body of \<open>normalizeProxyRoutes\<close> at index \<open>i\<close>\<close>
  "normalize_route i r =
     (let n = TrimSpace (ro_Name r) in
      r\<lparr>ro_Name := (if n = [] then ''route-'' @ Itoa (int i + 1) else n),
        ro_Match := \<lparr>ma_Hosts = normalizeProxyRouteHosts (ma_Hosts (ro_Match r)),
                     ma_Path = normalizeProxyRoutePathMatch (ma_Path (ro_Match r))\<rparr>,
        ro_Action := normalizeProxyRouteAction (ro_Action r)\<rparr>)"

definition normalizeProxyRoutes :: "ProxyRoute list \<Rightarrow> ProxyRoute list" where
  "normalizeProxyRoutes rs = mapi normalize_route rs"

definition normalizeProxyDefaultRoute :: "ProxyDefaultRoute option \<Rightarrow> ProxyDefaultRoute option" where
  "normalizeProxyDefaultRoute d =
     map_option (\<lambda>r. let n = TrimSpace (dr_Name r) in
        r\<lparr>dr_Name := (if n = [] then ''default'' else n),
          dr_Action := normalizeProxyRouteAction (dr_Action r)\<rparr>) d"

subsection \<open>Normalising the document\<close>

definition normalize_upstream :: "nat \<Rightarrow> ProxyUpstream \<Rightarrow> ProxyUpstream" where
  \<comment> \<open>the first loop body of \<open>normalizeProxyUpstreams\<close>\<close>
  "normalize_upstream i u =
     (let n = TrimSpace (up_Name u) in
      u\<lparr>up_Name := (if n = [] then ''upstream-'' @ Itoa (int i + 1) else n),
        up_URL := TrimSpace (up_URL u),
        up_Weight := (if up_Weight u \<le> 0 then 1 else up_Weight u)\<rparr>)"

definition normalizeProxyUpstreams :: "ProxyUpstream list \<Rightarrow> ProxyUpstream list" where
  "normalizeProxyUpstreams us =
     (let out = mapi normalize_upstream us in
      if list_ex up_Enabled out then out else map (\<lambda>u. u\<lparr>up_Enabled := True\<rparr>) out)"

definition or_default :: "int \<Rightarrow> int \<Rightarrow> int" where
  \<comment> \<open>\<open>if out.F == 0 { out.F = default }\<close>\<close>
  "or_default d v = (if v = 0 then d else v)"

definition normalizeProxyRulesConfig :: "ProxyRulesConfig \<Rightarrow> ProxyRulesConfig" where
  "normalizeProxyRulesConfig c = c\<lparr>
     cf_DialTimeout := or_default 5 (cf_DialTimeout c),
     cf_ResponseHeaderTimeout := or_default 10 (cf_ResponseHeaderTimeout c),
     cf_IdleConnTimeout := or_default 90 (cf_IdleConnTimeout c),
     cf_MaxIdleConns := or_default 100 (cf_MaxIdleConns c),
     cf_MaxIdleConnsPerHost := or_default 100 (cf_MaxIdleConnsPerHost c),
     cf_MaxConnsPerHost := or_default 200 (cf_MaxConnsPerHost c),
     cf_ExpectContinueTimeout := or_default 1 (cf_ExpectContinueTimeout c),
     cf_TLSClientCert := TrimSpace (cf_TLSClientCert c),
     cf_TLSClientKey := TrimSpace (cf_TLSClientKey c),
     cf_ErrorHTMLFile := TrimSpace (cf_ErrorHTMLFile c),
     cf_ErrorRedirectURL := TrimSpace (cf_ErrorRedirectURL c),
     cf_LoadBalancingStrategy := normalizeProxyLoadBalancingStrategy (cf_LoadBalancingStrategy c),
     cf_HashPolicy := normalizeProxyHashPolicy (cf_HashPolicy c),
     cf_HashKey := TrimSpace (cf_HashKey c),
     cf_RetryStatusCodes := normalizeProxyStatusCodeList (cf_RetryStatusCodes c),
     cf_RetryMethods := normalizeProxyMethodList (cf_RetryMethods c),
     cf_PassiveUnhealthyStatusCodes := normalizeProxyStatusCodeList (cf_PassiveUnhealthyStatusCodes c),
     cf_UpstreamURL := TrimSpace (cf_UpstreamURL c),
     cf_Upstreams := normalizeProxyUpstreams (cf_Upstreams c),
     cf_Routes := normalizeProxyRoutes (cf_Routes c),
     cf_DefaultRoute := normalizeProxyDefaultRoute (cf_DefaultRoute c),
     cf_HealthCheckPath := normalizeProxyHealthCheckPath (cf_HealthCheckPath c),
     cf_HealthCheckInterval := or_default 15 (cf_HealthCheckInterval c),
     cf_HealthCheckTimeout := or_default 2 (cf_HealthCheckTimeout c)\<rparr>"

subsection \<open>Idempotence\<close>

interpretation trim_norm: normaliser TrimSpace
  by unfold_locales simp

interpretation header_norm: normaliser canonicalProxyRouteHeaderName
  by unfold_locales (simp add: canonicalProxyRouteHeaderName_def TrimSpace_CanonicalMIMEHeaderKey)

interpretation method_norm: normaliser "\<lambda>s. ToUpper (TrimSpace s)"
  by unfold_locales simp

interpretation hash_norm: normaliser normalizeProxyHashPolicy
  by unfold_locales (simp add: normalizeProxyHashPolicy_def Let_def)

lemma lb_norm_fixed: "normalizeProxyLoadBalancingStrategy ''round_robin'' = ''round_robin''"
  by code_simp

interpretation lb_norm: normaliser normalizeProxyLoadBalancingStrategy
proof unfold_locales
  fix x
  show "normalizeProxyLoadBalancingStrategy (normalizeProxyLoadBalancingStrategy x)
    = normalizeProxyLoadBalancingStrategy x"
    using lb_norm_fixed
    by (cases "ToLower (TrimSpace x) = [] \<or> ToLower (TrimSpace x) = ''round_robin''")
      (simp_all add: normalizeProxyLoadBalancingStrategy_def [of x] Let_def,
       simp add: normalizeProxyLoadBalancingStrategy_def Let_def)
qed

lemma slash_solid: "CHR ''/'' \<notin> set (concat space_seqs)"
  by (simp add: space_seqs_def)

lemma exact_path_shape:
  "normalizeProxyRouteExactPath v = [] \<or>
   (HasPrefix (normalizeProxyRouteExactPath v) ''/'' \<and>
    TrimSpace (normalizeProxyRouteExactPath v) = normalizeProxyRouteExactPath v)"
  using TrimSpace_Cons [OF slash_solid]
  by (auto simp: normalizeProxyRouteExactPath_def Let_def)

lemma exact_path_fixed:
  "HasPrefix v ''/'' \<Longrightarrow> TrimSpace v = v \<Longrightarrow> normalizeProxyRouteExactPath v = v"
  by (cases v) (auto simp: normalizeProxyRouteExactPath_def)

lemma exact_path_Nil [simp]: "normalizeProxyRouteExactPath [] = []"
  by (simp add: normalizeProxyRouteExactPath_def)

interpretation exact_norm: normaliser normalizeProxyRouteExactPath
proof unfold_locales
  fix x
  show "normalizeProxyRouteExactPath (normalizeProxyRouteExactPath x) = normalizeProxyRouteExactPath x"
    using exact_path_shape [of x] by (elim disjE conjE) (simp_all add: exact_path_fixed)
qed

lemma health_path_exact: "normalizeProxyHealthCheckPath v = normalizeProxyRouteExactPath v"
  by (simp add: normalizeProxyHealthCheckPath_def normalizeProxyRouteExactPath_def)

lemma trim_keys_fixed: "(k, v) \<in> set (trim_keys m) \<Longrightarrow> TrimSpace k = k \<and> k \<noteq> []"
proof -
  assume "(k, v) \<in> set (trim_keys m)"
  then have "k \<in> fst ` set (trim_keys m)" by (auto intro: rev_image_eqI)
  then have "k \<in> fst ` set (map (\<lambda>(k, v). (TrimSpace k, v)) (filter (\<lambda>(k, v). TrimSpace k \<noteq> []) m))"
    by (simp add: trim_keys_def rekey_def keys_aput_all)
  then show "TrimSpace k = k \<and> k \<noteq> []" by auto
qed

lemma trim_keys_idem: "trim_keys (trim_keys m) = trim_keys m"
proof -
  have "filter (\<lambda>(k, v). TrimSpace k \<noteq> []) (trim_keys m) = trim_keys m"
    by (rule filter_all) (auto dest: trim_keys_fixed)
  then show ?thesis
    by (simp add: trim_keys_def [of "trim_keys m"]) (simp add: trim_keys_def trim_norm.rekey_idem)
qed

lemma header_ops_idem [norm_simps]:
  "normalizeProxyRouteHeaderOperations (normalizeProxyRouteHeaderOperations r)
    = normalizeProxyRouteHeaderOperations r"
  by (cases r)
    (auto simp: normalizeProxyRouteHeaderOperations_def Let_def header_norm.rekey_idem
      header_norm.clean_idem)

lemma query_ops_idem [norm_simps]:
  "normalizeProxyRouteQueryOperations (normalizeProxyRouteQueryOperations r)
    = normalizeProxyRouteQueryOperations r"
  by (cases r)
    (auto simp: normalizeProxyRouteQueryOperations_def Let_def trim_keys_idem trim_norm.clean_idem)

lemma status_list_set: "set (normalizeProxyStatusCodeList xs) = {c \<in> set xs. valid_status c}"
  by (auto simp: normalizeProxyStatusCodeList_def set_sort_by)

lemma status_list_sorted: "sorted_wrt (<) (normalizeProxyStatusCodeList xs)"
  by (simp add: normalizeProxyStatusCodeList_def strict_sort_by)

lemma status_list_idem [norm_simps]:
  "normalizeProxyStatusCodeList (normalizeProxyStatusCodeList xs) = normalizeProxyStatusCodeList xs"
proof -
  let ?ys = "normalizeProxyStatusCodeList xs"
  have "filter valid_status ?ys = ?ys" by (rule filter_all) (simp add: status_list_set)
  moreover have "distinct ?ys" using status_list_sorted [of xs] by (rule strict_distinct)
  moreover have "sort_by (<) ?ys = ?ys" using status_list_sorted by (rule sort_by_id)
  ultimately show ?thesis by (simp add: normalizeProxyStatusCodeList_def [of ?ys] dedup_id)
qed

text \<open>The upstream list: every weight positive, every name given, one upstream enabled.\<close>

lemma numbered_name_trimmed:
  "p \<noteq> [] \<Longrightarrow> hd p \<notin> set (concat space_seqs) \<Longrightarrow> TrimSpace (p @ Itoa (int i + 1)) = p @ Itoa (int i + 1)"
  by (rule TrimSpace_solid) (use Itoa_solid [of "int i + 1"] in auto)

lemma upstream_name_trimmed [simp]:
  "TrimSpace (''upstream-'' @ Itoa (int i + 1)) = ''upstream-'' @ Itoa (int i + 1)"
  by (rule numbered_name_trimmed) (simp_all add: space_seqs_def)

lemma route_name_trimmed [simp]:
  "TrimSpace (''route-'' @ Itoa (int i + 1)) = ''route-'' @ Itoa (int i + 1)"
  by (rule numbered_name_trimmed) (simp_all add: space_seqs_def)

lemma normalize_upstream_idem:
  "normalize_upstream i (normalize_upstream i u) = normalize_upstream i u"
  using upstream_name_trimmed [of i] by (simp add: normalize_upstream_def Let_def)

lemma normalize_upstream_enabled [simp]: "up_Enabled (normalize_upstream i u) = up_Enabled u"
  by (simp add: normalize_upstream_def Let_def)

definition good_upstream :: "ProxyUpstream \<Rightarrow> bool" where
  "good_upstream u = (up_Name u \<noteq> [] \<and> TrimSpace (up_Name u) = up_Name u
     \<and> TrimSpace (up_URL u) = up_URL u \<and> 0 < up_Weight u)"

lemma normalize_upstream_good: "good_upstream (normalize_upstream i u)"
  using upstream_name_trimmed [of i] by (simp add: good_upstream_def normalize_upstream_def Let_def)

lemma normalize_upstream_id: "good_upstream u \<Longrightarrow> normalize_upstream i u = u"
  by (simp add: good_upstream_def normalize_upstream_def Let_def)

lemma good_upstream_enabled [simp]: "good_upstream (u\<lparr>up_Enabled := b\<rparr>) = good_upstream u"
  by (simp add: good_upstream_def)

lemma upstreams_good: "u \<in> set (normalizeProxyUpstreams us) \<Longrightarrow> good_upstream u"
  by (auto simp: normalizeProxyUpstreams_def Let_def set_mapi normalize_upstream_good split: if_splits)

lemma upstreams_enabled: "us \<noteq> [] \<Longrightarrow> \<exists>u\<in>set (normalizeProxyUpstreams us). up_Enabled u"
proof -
  assume "us \<noteq> []"
  then have "hd (mapi normalize_upstream us) \<in> set (mapi normalize_upstream us)" by (intro hd_in_set) simp
  then show ?thesis by (auto simp: normalizeProxyUpstreams_def Let_def list_ex_iff)
qed

lemma upstreams_Nil [simp]: "normalizeProxyUpstreams us = [] \<longleftrightarrow> us = []"
  by (auto simp: normalizeProxyUpstreams_def Let_def)

lemma upstreams_idem [norm_simps]:
  "normalizeProxyUpstreams (normalizeProxyUpstreams us) = normalizeProxyUpstreams us"
proof (cases "us = []")
  case False
  let ?vs = "normalizeProxyUpstreams us"
  have "mapi normalize_upstream ?vs = ?vs"
    by (intro mapi_id normalize_upstream_id upstreams_good [of _ us] nth_mem)
  moreover have "list_ex up_Enabled ?vs"
    using upstreams_enabled [OF False] by (simp add: list_ex_iff)
  ultimately show ?thesis by (simp add: normalizeProxyUpstreams_def [of ?vs])
qed (simp add: normalizeProxyUpstreams_def mapi_def)

end
