(* ===== verification/Proxy_Validate.thy ===== *)
theory Proxy_Validate
  imports Proxy_Config
begin

text \<open>
  Validation of the proxy rules document: \<open>proxy_routing.go\<close> (routes, actions, header and
  query operations, host patterns), \<open>proxy_selection.go\<close> (hash policy, retry, passive
  health), \<open>proxy_runtime.go\<close> (the checks in their order, the primary target) and
  \<open>proxy_error_response.go\<close>.

  What the code asks of the outside is a field of the environment: compiling a regular
  expression (\<open>regexp\<close>), reading a file (\<open>os.ReadFile\<close>), loading a key pair
  (\<open>tls.LoadX509KeyPair\<close>) and the string under \<open>sub\<close> of a JSON object (empty when the
  bytes are not one or hold none).  Error texts are the source's, without quotation marks.
\<close>

record proxy_env =
  env_Compile :: "string \<Rightarrow> (string \<Rightarrow> bool) result"
  env_ReadFile :: "string \<Rightarrow> string result"
  env_LoadKeyPair :: "string \<Rightarrow> string \<Rightarrow> unit result"
  env_JSONSub :: "string \<Rightarrow> string"

subsection \<open>Upstream URLs\<close>

definition parseProxyUpstreamURL :: "string \<Rightarrow> string \<Rightarrow> URL result" where
  "parseProxyUpstreamURL field raw =
     bindR (wrapR ''%s parse error: %w'' [field] (url_Parse (TrimSpace raw))) (\<lambda>t.
       if url_Scheme t = [] \<or> url_Host t = [] then err ''%s must include scheme and host'' [field]
       else let s = ToLower (TrimSpace (url_Scheme t)) in
            if s \<noteq> ''http'' \<and> s \<noteq> ''https'' then err ''%s scheme must be http or https'' [field]
            else Inr t)"

definition url_ok :: "string \<Rightarrow> bool" where
  "url_ok raw = (\<exists>t. parseProxyUpstreamURL [] raw = Inr t)"

text \<open>Whether a reference parses does not depend on the field named in its error.\<close>

lemma parseProxyUpstreamURL_field:
  "parseProxyUpstreamURL f raw = Inr t \<longleftrightarrow> parseProxyUpstreamURL g raw = Inr t"
  by (cases "url_Parse (TrimSpace raw)") (simp_all add: parseProxyUpstreamURL_def wrapR_def Let_def)

lemma parseProxyUpstreamURL_trim [simp]:
  "parseProxyUpstreamURL f (TrimSpace raw) = parseProxyUpstreamURL f raw"
  by (simp add: parseProxyUpstreamURL_def)

lemma parsed_host: "parseProxyUpstreamURL f raw = Inr t \<Longrightarrow> url_Host t \<noteq> [] \<and> url_Scheme t \<noteq> []"
  by (cases "url_Parse (TrimSpace raw)")
    (auto simp: parseProxyUpstreamURL_def wrapR_def Let_def split: if_splits)

subsection \<open>Retry, hash policy, passive health\<close>

definition validateProxyHashPolicy :: "string \<Rightarrow> string \<Rightarrow> string \<Rightarrow> unit result" where
  "validateProxyHashPolicy policy key field =
     (let p = normalizeProxyHashPolicy policy in
      if p = [] then Inr ()
      else if p = ''client_ip'' \<or> p = ''jwt_sub'' then Inr ()
      else if p = ''header'' \<or> p = ''cookie''
      then guardR (TrimSpace key = []) (Errorf ''%s requires hash_key'' [field])
      else err ''%s must be one of none|client_ip|header|cookie|jwt_sub'' [field])"

definition validateProxyRetryMethods :: "string list \<Rightarrow> string \<Rightarrow> unit result" where
  "validateProxyRetryMethods xs field =
     eachR (\<lambda>m. guardR (TrimSpace m = []) (Errorf ''%s must not contain empty entries'' [field])) xs"

definition validateProxyRetryStatusCodes :: "int list \<Rightarrow> string \<Rightarrow> unit result" where
  "validateProxyRetryStatusCodes xs field =
     eachR (\<lambda>c. guardR (c < 100 \<or> 599 < c) (Errorf ''%s entries must be valid HTTP status codes'' [field])) xs"

definition validateProxyRetryConfiguration :: "ProxyRulesConfig \<Rightarrow> unit result" where
  "validateProxyRetryConfiguration c =
     (if cf_RetryAttempts c = 0 then Inr ()
      else if cf_RetryAttempts c < 0 \<or> 8 < cf_RetryAttempts c
      then err ''retry_attempts must be between 0 and 8'' []
      else if 10000 < cf_RetryBackoffMS c then err ''retry_backoff_ms must be <= 10000'' []
      else if 0 < cf_RetryPerTryTimeoutMS c \<and> cf_RetryPerTryTimeoutMS c < 50
      then err ''retry_per_try_timeout_ms must be >= 50 when set'' []
      else Inr ())"

definition validateProxyPassiveCircuitConfiguration :: "ProxyRulesConfig \<Rightarrow> unit result" where
  "validateProxyPassiveCircuitConfiguration c =
     seqR (if cf_PassiveHealthEnabled c
           then seqR (guardR (32 < cf_PassiveFailureThreshold c)
                        (Errorf ''passive_failure_threshold must be <= 32'' []))
                  (validateProxyRetryStatusCodes (cf_PassiveUnhealthyStatusCodes c)
                     ''passive_unhealthy_status_codes'')
           else Inr ())
       (if cf_CircuitBreakerEnabled c
        then seqR (guardR (3600 < cf_CircuitBreakerOpenSec c)
                     (Errorf ''circuit_breaker_open_sec must be <= 3600'' []))
               (guardR (16 < cf_CircuitBreakerHalfOpenRequests c)
                     (Errorf ''circuit_breaker_half_open_requests must be <= 16'' []))
        else Inr ())"

subsection \<open>Header and query operations\<close>

definition restricted_request_headers :: "string list" where
  "restricted_request_headers =
     [''Connection'', ''Host'', ''Keep-Alive'', ''Proxy-Authenticate'', ''Proxy-Authorization'',
      ''Proxy-Connection'', ''TE'', ''Trailer'', ''Transfer-Encoding'', ''Upgrade'',
      ''X-Forwarded-For'', ''X-Forwarded-Host'', ''X-Forwarded-Proto'']"

definition restricted_response_headers :: "string list" where
  "restricted_response_headers =
     [''Connection'', ''Content-Length'', ''Keep-Alive'', ''Proxy-Connection'', ''Set-Cookie'',
      ''TE'', ''Trailer'', ''Transfer-Encoding'', ''Upgrade'']"

definition header_name_pattern :: "string \<Rightarrow> bool" where
  \<comment> \<open>\<open>proxyRouteHeaderNamePattern\<close>: one or more token characters\<close>
  "header_name_pattern s = (s \<noteq> [] \<and> list_all token_char s)"

definition validateProxyRouteHeaderName :: "string \<Rightarrow> string list \<Rightarrow> string \<Rightarrow> unit result" where
  "validateProxyRouteHeaderName name restricted kind =
     (if name = [] then err ''header name is required'' []
      else if \<not> header_name_pattern name then err ''invalid header name'' []
      else if canonicalProxyRouteHeaderName name \<in> set restricted
      then err ''header is not allowed in %s'' [kind]
      else Inr ())"

fun claim_names :: "(string \<Rightarrow> string result) \<Rightarrow> bool \<Rightarrow> string \<Rightarrow> string \<Rightarrow> string list \<Rightarrow> gomap \<Rightarrow> gomap result" where
  \<comment> \<open>one of the three loops of the two functions below: check a name, report it when it is
      in \<open>seen\<close> already (unless it is the first loop), and record it\<close>
  "claim_names chk clash field op [] seen = Inr seen"
| "claim_names chk clash field op (n # ns) seen =
     bindR (chk n) (\<lambda>k.
       case (if clash then map_of seen k else None) of
         Some prev \<Rightarrow> err ''%s.%s.%s conflicts with %s.%s'' [field, op, k, field, prev]
       | None \<Rightarrow> claim_names chk clash field op ns (aput k op seen))"

definition validateProxyRouteHeaderOperations ::
  "ProxyRouteHeaderOperations \<Rightarrow> string \<Rightarrow> string list \<Rightarrow> string \<Rightarrow> unit result" where
  "validateProxyRouteHeaderOperations ops field restricted kind =
     (let chk = (\<lambda>op n. bindR (wrapR ''%s.%s.%s: %w'' [field, op, n]
                    (validateProxyRouteHeaderName n restricted kind)) (\<lambda>_. Inr n)) in
      bindR (claim_names (chk ''set'') False field ''set'' (map fst (ho_Set ops)) []) (\<lambda>seen1.
      bindR (claim_names (chk ''add'') True field ''add'' (map fst (ho_Add ops)) seen1) (\<lambda>seen2.
      bindR (claim_names (chk ''remove'') True field ''remove'' (ho_Remove ops) seen2) (\<lambda>_. Inr ()))))"

definition validateProxyRouteQueryOperations :: "ProxyRouteQueryOperations \<Rightarrow> string \<Rightarrow> unit result" where
  "validateProxyRouteQueryOperations ops field =
     (let chk = (\<lambda>op k. if TrimSpace k = [] then err ''%s.%s: query key is required'' [field, op]
                        else Inr (TrimSpace k)) in
      bindR (claim_names (chk ''set'') False field ''set'' (map fst (qo_Set ops)) []) (\<lambda>seen1.
      bindR (claim_names (chk ''add'') True field ''add'' (map fst (qo_Add ops)) seen1) (\<lambda>seen2.
      bindR (claim_names (chk ''remove'') True field ''remove'' (qo_Remove ops) seen2) (\<lambda>_.
        eachR (\<lambda>p. guardR (TrimSpace p = [])
           (Errorf ''%s.remove_prefixes: query prefix is required'' [field])) (qo_RemovePrefixes ops)))))"

subsection \<open>Hosts and paths\<close>

definition validateProxyRouteHostPattern :: "string \<Rightarrow> unit result" where
  "validateProxyRouteHostPattern host =
     (if host = [] then err ''host is required'' []
      else if Contains host ''/'' then err ''host must not contain /'' []
      else if Contains host ''*'' then
        (if \<not> HasPrefix host ''*.'' \<or> count_byte host (CHR ''*'') \<noteq> 1
         then err ''wildcard host must use the form *.example.com'' []
         else if TrimPrefix host ''*.'' = [] then err ''wildcard host suffix is required'' []
         else Inr ())
      else Inr ())"

definition validateProxyRouteOutboundHost :: "string \<Rightarrow> unit result" where
  "validateProxyRouteOutboundHost h =
     (let host = TrimSpace h in
      if host = [] then err ''host is required'' []
      else if Contains host ''://'' then err ''host rewrite must not include scheme'' []
      else if Contains host ''/'' then err ''host rewrite must not contain /'' []
      else if Contains host ''*'' then err ''host rewrite does not support wildcards'' []
      else (case url_Parse (''http://'' @ host) of
              Inl _ \<Rightarrow> err ''host rewrite must be a valid host or host:port'' []
            | Inr u \<Rightarrow> guardR (URL_Hostname u = []) (Errorf ''host rewrite must be a valid host or host:port'' [])))"

definition validateProxyRouteMatch :: "proxy_env \<Rightarrow> ProxyRouteMatch \<Rightarrow> string \<Rightarrow> unit result" where
  "validateProxyRouteMatch env m field =
     seqR (eachiR (\<lambda>i h. wrapR ''%s.hosts[%d]: %w'' [field, Itoa (int i)] (validateProxyRouteHostPattern h)) 0 (ma_Hosts m))
       (case ma_Path m of None \<Rightarrow> Inr ()
        | Some p \<Rightarrow>
            if pm_Type p \<notin> {''exact'', ''prefix'', ''regex''}
            then err ''%s.path.type must be exact, prefix, or regex'' [field]
            else if TrimSpace (pm_Value p) = [] then err ''%s.path.value is required'' [field]
            else if pm_Type p \<noteq> ''regex'' \<and> \<not> HasPrefix (pm_Value p) ''/''
            then err ''%s.path.value must start with /'' [field]
            else if pm_Type p = ''regex''
            then bindR (wrapR ''%s.path.value regex compile error: %w'' [field] (env_Compile env (pm_Value p))) (\<lambda>_. Inr ())
            else Inr ())"

subsection \<open>Actions and routes\<close>

definition proxyRouteEnabled :: "bool option \<Rightarrow> bool" where
  "proxyRouteEnabled v = (v = None \<or> v = Some True)"

definition proxyRulesHasLegacyUpstream :: "ProxyRulesConfig \<Rightarrow> bool" where
  "proxyRulesHasLegacyUpstream c = (TrimSpace (cf_UpstreamURL c) \<noteq> [] \<or> cf_Upstreams c \<noteq> [])"

definition named_upstream :: "ProxyUpstream list \<Rightarrow> string \<Rightarrow> ProxyUpstream option" where
  \<comment> \<open>\<open>namedUpstreams[name]\<close>: the map is filled in list order, so the last one wins\<close>
  "named_upstream us n = find (\<lambda>u. up_Name u = n) (rev us)"

definition name_count :: "ProxyUpstream list \<Rightarrow> string \<Rightarrow> nat" where
  "name_count us n = length (filter (\<lambda>u. up_Name u = n) us)"

definition validate_ref :: "ProxyRulesConfig \<Rightarrow> string \<Rightarrow> string \<Rightarrow> string \<Rightarrow> unit result" where
  \<comment> \<open>a non-empty upstream or canary reference: a URL, or the name of one enabled upstream\<close>
  "validate_ref c field what ref =
     (case parseProxyUpstreamURL (field @ what) ref of
        Inr _ \<Rightarrow> Inr ()
      | Inl _ \<Rightarrow>
          (case named_upstream (cf_Upstreams c) ref of
             None \<Rightarrow> err ''%s%s must be an absolute http(s) URL or a configured upstream name'' [field, what]
           | Some up \<Rightarrow>
               if 1 < name_count (cf_Upstreams c) ref
               then err ''%s%s references duplicated upstream name %q'' [field, what, ref]
               else if \<not> up_Enabled up
               then err ''%s%s references disabled upstream %q'' [field, what, ref]
               else Inr ()))"

definition validateProxyRouteAction :: "ProxyRouteAction \<Rightarrow> ProxyRulesConfig \<Rightarrow> string \<Rightarrow> unit result" where
  "validateProxyRouteAction a c field =
     (let upstream = TrimSpace (ac_Upstream a); canary = TrimSpace (ac_CanaryUpstream a) in
      seqR (guardR (upstream = [] \<and> \<not> proxyRulesHasLegacyUpstream c)
              (Errorf ''%s.upstream is required when upstream_url/upstreams are not set'' [field]))
     (seqR (if upstream \<noteq> [] then validate_ref c field ''.upstream'' upstream else Inr ())
     (seqR (if canary \<noteq> [] then
              seqR (guardR (upstream = []) (Errorf ''%s.canary_upstream requires %s.upstream'' [field, field]))
             (seqR (validate_ref c field ''.canary_upstream'' canary)
                   (guardR (ac_CanaryWeightPct a \<le> 0 \<or> 100 \<le> ac_CanaryWeightPct a)
                      (Errorf ''%s.canary_weight_percent must be between 1 and 99'' [field])))
            else guardR (ac_CanaryWeightPct a \<noteq> 0)
                   (Errorf ''%s.canary_weight_percent requires %s.canary_upstream'' [field, field]))
     (seqR (validateProxyHashPolicy (ac_HashPolicy a) (ac_HashKey a) (field @ ''.hash_policy''))
     (seqR (if TrimSpace (ac_HostRewrite a) \<noteq> []
            then wrapR ''%s.host_rewrite: %w'' [field] (validateProxyRouteOutboundHost (TrimSpace (ac_HostRewrite a)))
            else Inr ())
     (seqR (case ac_PathRewrite a of None \<Rightarrow> Inr ()
            | Some p \<Rightarrow> if TrimSpace (pr_Prefix p) = [] then err ''%s.path_rewrite.prefix is required'' [field]
                       else guardR (\<not> HasPrefix (pr_Prefix p) ''/'')
                              (Errorf ''%s.path_rewrite.prefix must start with /'' [field]))
     (seqR (case ac_QueryRewrite a of None \<Rightarrow> Inr ()
            | Some q \<Rightarrow> validateProxyRouteQueryOperations q (field @ ''.query_rewrite''))
     (seqR (case ac_RequestHeaders a of None \<Rightarrow> Inr ()
            | Some h \<Rightarrow> validateProxyRouteHeaderOperations h (field @ ''.request_headers'')
                         restricted_request_headers ''route request_headers'')
           (case ac_ResponseHeaders a of None \<Rightarrow> Inr ()
            | Some h \<Rightarrow> validateProxyRouteHeaderOperations h (field @ ''.response_headers'')
                         restricted_response_headers ''route response_headers'')))))))))"

definition proxyRoutesProvideFallback :: "ProxyRulesConfig \<Rightarrow> bool" where
  "proxyRoutesProvideFallback c =
     ((case cf_DefaultRoute c of None \<Rightarrow> False
       | Some d \<Rightarrow> proxyRouteEnabled (dr_Enabled d) \<and> TrimSpace (ac_Upstream (dr_Action d)) \<noteq> [])
      \<or> list_ex (\<lambda>r. proxyRouteEnabled (ro_Enabled r) \<and> ma_Hosts (ro_Match r) = []
           \<and> ma_Path (ro_Match r) = None \<and> TrimSpace (ac_Upstream (ro_Action r)) \<noteq> []) (cf_Routes c))"

definition validate_route :: "proxy_env \<Rightarrow> ProxyRulesConfig \<Rightarrow> nat \<Rightarrow> ProxyRoute \<Rightarrow> unit result" where
  \<comment> \<open>the body of the loop over the routes\<close>
  "validate_route env c i r =
     (let n = Itoa (int i) in
      seqR (validateProxyRouteMatch env (ro_Match r) (''routes['' @ n @ ''].match''))
     (seqR (validateProxyRouteAction (ro_Action r) c (''routes['' @ n @ ''].action''))
     (seqR (guardR (ac_PathRewrite (ro_Action r) \<noteq> None \<and> ma_Path (ro_Match r) = None)
              (Errorf ''routes[%d].action.path_rewrite requires match.path'' [n]))
           (guardR (ac_PathRewrite (ro_Action r) \<noteq> None
                    \<and> (case ma_Path (ro_Match r) of None \<Rightarrow> False | Some p \<Rightarrow> pm_Type p = ''regex''))
              (Errorf ''routes[%d].action.path_rewrite does not support regex path matches'' [n])))))"

definition validateProxyRoutes :: "proxy_env \<Rightarrow> ProxyRulesConfig \<Rightarrow> unit result" where
  "validateProxyRoutes env c =
     seqR (eachiR (\<lambda>i u. guardR (up_Weight u \<le> 0) (Errorf ''upstreams[%d].weight must be > 0'' [Itoa (int i)])) 0 (cf_Upstreams c))
    (seqR (eachiR (validate_route env c) 0 (cf_Routes c))
    (seqR (case cf_DefaultRoute c of None \<Rightarrow> Inr ()
           | Some d \<Rightarrow> if proxyRouteEnabled (dr_Enabled d)
                      then validateProxyRouteAction (dr_Action d) c ''default_route.action'' else Inr ())
          (guardR (\<not> proxyRulesHasLegacyUpstream c \<and> \<not> proxyRoutesProvideFallback c)
             (Errorf ''default_route or a catch-all route is required when upstream_url/upstreams are not set'' []))))"

subsection \<open>The primary target\<close>

definition proxyRouteConfiguredTarget :: "ProxyRulesConfig \<Rightarrow> string \<Rightarrow> (URL option) result" where
  "proxyRouteConfiguredTarget c ref =
     (let r = TrimSpace ref in
      if r = [] then Inr None
      else case parseProxyUpstreamURL ''action.upstream'' r of
             Inr t \<Rightarrow> Inr (Some t)
           | Inl _ \<Rightarrow>
               (case find (\<lambda>u. up_Name u = r) (cf_Upstreams c) of
                  None \<Rightarrow> Inr None
                | Some u \<Rightarrow> bindR (parseProxyUpstreamURL ''action.upstream'' (up_URL u)) (\<lambda>t. Inr (Some t))))"

fun fallback_from_routes :: "ProxyRulesConfig \<Rightarrow> ProxyRoute list \<Rightarrow> (URL option) result" where
  "fallback_from_routes c [] = Inr None"
| "fallback_from_routes c (r # rs) =
     (if \<not> proxyRouteEnabled (ro_Enabled r) then fallback_from_routes c rs
      else bindR (proxyRouteConfiguredTarget c (ac_Upstream (ro_Action r))) (\<lambda>t.
             case t of Some u \<Rightarrow> Inr (Some u) | None \<Rightarrow> fallback_from_routes c rs))"

definition proxyRouteFallbackTarget :: "ProxyRulesConfig \<Rightarrow> (URL option) result" where
  "proxyRouteFallbackTarget c =
     (case cf_DefaultRoute c of
        Some d \<Rightarrow>
          if proxyRouteEnabled (dr_Enabled d)
          then bindR (proxyRouteConfiguredTarget c (ac_Upstream (dr_Action d))) (\<lambda>t.
                 case t of Some u \<Rightarrow> Inr (Some u) | None \<Rightarrow> fallback_from_routes c (cf_Routes c))
          else fallback_from_routes c (cf_Routes c)
      | None \<Rightarrow> fallback_from_routes c (cf_Routes c))"

fun first_enabled_target :: "nat \<Rightarrow> ProxyUpstream list \<Rightarrow> URL option \<Rightarrow> (URL option) result" where
  \<comment> \<open>the loop of \<open>proxyPrimaryTarget\<close>; the third argument is \<open>firstEnabled\<close>\<close>
  "first_enabled_target i [] fst_en = Inr fst_en"
| "first_enabled_target i (u # us) fst_en =
     bindR (parseProxyUpstreamURL (''upstreams['' @ Itoa (int i) @ ''].url'') (up_URL u)) (\<lambda>t.
       if up_Weight u \<le> 0 then err ''upstreams[%d].weight must be > 0'' [Itoa (int i)]
       else first_enabled_target (Suc i) us (if up_Enabled u \<and> fst_en = None then Some t else fst_en))"

definition proxyPrimaryTarget :: "ProxyRulesConfig \<Rightarrow> URL result" where
  "proxyPrimaryTarget c =
     (if cf_Upstreams c = [] then
        (let raw = TrimSpace (cf_UpstreamURL c); c' = c\<lparr>cf_UpstreamURL := raw\<rparr> in
         if raw = [] then
           bindR (proxyRouteFallbackTarget c') (\<lambda>t.
             case t of Some u \<Rightarrow> Inr u | None \<Rightarrow> err ''upstream_url is required'' [])
         else parseProxyUpstreamURL ''upstream_url'' raw)
      else bindR (first_enabled_target 0 (cf_Upstreams c) None) (\<lambda>fe.
        case fe of Some t \<Rightarrow> Inr t
        | None \<Rightarrow> bindR (proxyRouteFallbackTarget c) (\<lambda>t.
             case t of Some u \<Rightarrow> Inr u | None \<Rightarrow> err ''at least one upstream must be enabled'' [])))"

subsection \<open>TLS and the error response\<close>

definition proxyDirectRouteTarget :: "string \<Rightarrow> URL option" where
  "proxyDirectRouteTarget ref =
     (case parseProxyUpstreamURL ''action.upstream'' (TrimSpace ref) of Inl _ \<Rightarrow> None | Inr t \<Rightarrow> Some t)"

definition url_is_https :: "string \<Rightarrow> bool" where
  "url_is_https raw = (case url_Parse (TrimSpace raw) of Inl _ \<Rightarrow> False
     | Inr t \<Rightarrow> EqualFold (url_Scheme t) ''https'')"

definition direct_is_https :: "string \<Rightarrow> bool" where
  "direct_is_https ref = (case proxyDirectRouteTarget ref of None \<Rightarrow> False
     | Some t \<Rightarrow> EqualFold (url_Scheme t) ''https'')"

definition proxyRulesHasHTTPSUpstream :: "ProxyRulesConfig \<Rightarrow> bool" where
  "proxyRulesHasHTTPSUpstream c =
     ((cf_Upstreams c = [] \<and> url_is_https (cf_UpstreamURL c))
      \<or> list_ex (\<lambda>u. up_Enabled u \<and> url_is_https (up_URL u)) (cf_Upstreams c)
      \<or> (case cf_DefaultRoute c of None \<Rightarrow> False | Some d \<Rightarrow> direct_is_https (ac_Upstream (dr_Action d)))
      \<or> list_ex (\<lambda>r. direct_is_https (ac_Upstream (ro_Action r))
                   \<or> direct_is_https (ac_CanaryUpstream (ro_Action r))) (cf_Routes c)
      \<or> (case cf_DefaultRoute c of None \<Rightarrow> False | Some d \<Rightarrow> direct_is_https (ac_CanaryUpstream (dr_Action d))))"

record tls_config =
  tls_InsecureSkipVerify :: bool
  tls_Certificates :: "(string \<times> string) list"

definition buildProxyTLSClientConfig :: "proxy_env \<Rightarrow> ProxyRulesConfig \<Rightarrow> (tls_config option) result" where
  "buildProxyTLSClientConfig env c =
     (let cert = TrimSpace (cf_TLSClientCert c); key = TrimSpace (cf_TLSClientKey c) in
      if (cert = []) \<noteq> (key = []) then err ''tls_client_cert and tls_client_key must be set together'' []
      else if cert = [] \<and> \<not> cf_TLSInsecureSkipVerify c then Inr None
      else if cert = [] then Inr (Some \<lparr>tls_InsecureSkipVerify = cf_TLSInsecureSkipVerify c, tls_Certificates = []\<rparr>)
      else bindR (wrapR ''load proxy tls client certificate: %w'' [] (env_LoadKeyPair env cert key)) (\<lambda>_.
             Inr (Some \<lparr>tls_InsecureSkipVerify = cf_TLSInsecureSkipVerify c, tls_Certificates = [(cert, key)]\<rparr>)))"

record proxyErrorResponse =
  er_htmlFile :: string
  er_htmlBody :: string
  er_htmlEnabled :: bool
  er_redirectURL :: string

definition validateProxyErrorRedirectURL :: "string \<Rightarrow> unit result" where
  "validateProxyErrorRedirectURL raw =
     (let v = TrimSpace raw in
      if v = [] \<or> HasPrefix v ''/'' then Inr ()
      else bindR (wrapR ''parse error: %w'' [] (url_Parse v)) (\<lambda>u.
        if url_Scheme u = [] \<or> url_Host u = [] then err ''must be an absolute URL or start with /'' []
        else if ToLower (TrimSpace (url_Scheme u)) \<in> {''http'', ''https''} then Inr ()
        else err ''scheme must be http or https'' []))"

definition newProxyErrorResponse :: "proxy_env \<Rightarrow> ProxyRulesConfig \<Rightarrow> proxyErrorResponse result" where
  "newProxyErrorResponse env c =
     (let html = TrimSpace (cf_ErrorHTMLFile c); redir = TrimSpace (cf_ErrorRedirectURL c) in
      if html \<noteq> [] \<and> redir \<noteq> []
      then err ''error_html_file and error_redirect_url are mutually exclusive'' []
      else bindR (if html \<noteq> [] then wrapR ''error_html_file read error: %w'' [] (env_ReadFile env html) else Inr []) (\<lambda>body.
        seqR (if redir \<noteq> [] then wrapR ''error_redirect_url %w'' [] (validateProxyErrorRedirectURL redir) else Inr ())
          (Inr \<lparr>er_htmlFile = html, er_htmlBody = body, er_htmlEnabled = (html \<noteq> []), er_redirectURL = redir\<rparr>)))"

subsection \<open>The whole check\<close>

definition check_pos :: "int \<Rightarrow> string \<Rightarrow> unit result" where
  "check_pos v name = guardR (v \<le> 0) (Errorf (name @ '' must be > 0'') [])"

definition check_nonneg :: "int \<Rightarrow> string \<Rightarrow> unit result" where
  "check_nonneg v name = guardR (v < 0) (Errorf (name @ '' must be >= 0'') [])"

definition validate_scalars :: "ProxyRulesConfig \<Rightarrow> unit result" where
  \<comment> \<open>the scalar checks, in the order of \<open>normalizeAndValidateProxyRules\<close>\<close>
  "validate_scalars c = eachR id
     [check_pos (cf_DialTimeout c) ''dial_timeout'',
      check_pos (cf_ResponseHeaderTimeout c) ''response_header_timeout'',
      check_pos (cf_IdleConnTimeout c) ''idle_conn_timeout'',
      check_pos (cf_MaxIdleConns c) ''max_idle_conns'',
      check_pos (cf_MaxIdleConnsPerHost c) ''max_idle_conns_per_host'',
      check_pos (cf_MaxConnsPerHost c) ''max_conns_per_host'',
      check_pos (cf_ExpectContinueTimeout c) ''expect_continue_timeout'',
      check_nonneg (cf_MaxResponseBufferBytes c) ''max_response_buffer_bytes'',
      check_nonneg (cf_FlushIntervalMS c) ''flush_interval_ms'',
      check_nonneg (cf_RetryAttempts c) ''retry_attempts'',
      check_nonneg (cf_RetryBackoffMS c) ''retry_backoff_ms'',
      check_nonneg (cf_RetryPerTryTimeoutMS c) ''retry_per_try_timeout_ms'',
      check_nonneg (cf_PassiveFailureThreshold c) ''passive_failure_threshold'',
      check_nonneg (cf_CircuitBreakerOpenSec c) ''circuit_breaker_open_sec'',
      check_nonneg (cf_CircuitBreakerHalfOpenRequests c) ''circuit_breaker_half_open_requests'',
      check_pos (cf_HealthCheckInterval c) ''health_check_interval_sec'',
      check_pos (cf_HealthCheckTimeout c) ''health_check_timeout_sec'',
      guardR (cf_HealthCheckPath c \<noteq> [] \<and> \<not> HasPrefix (cf_HealthCheckPath c) ''/'')
        (Errorf ''health_check_path must start with /'' []),
      guardR (cf_ErrorHTMLFile c \<noteq> [] \<and> cf_ErrorRedirectURL c \<noteq> [])
        (Errorf ''error_html_file and error_redirect_url are mutually exclusive'' [])]"

definition normalizeAndValidateProxyRules ::
  "proxy_env \<Rightarrow> ProxyRulesConfig \<Rightarrow> (ProxyRulesConfig \<times> URL \<times> proxyErrorResponse) result" where
  "normalizeAndValidateProxyRules env doc =
     (let c = normalizeProxyRulesConfig doc in
      seqR (validate_scalars c)
     (seqR (validateProxyHashPolicy (cf_HashPolicy c) (cf_HashKey c) ''hash_policy'')
     (seqR (validateProxyRetryStatusCodes (cf_RetryStatusCodes c) ''retry_status_codes'')
     (seqR (validateProxyRetryMethods (cf_RetryMethods c) ''retry_methods'')
     (seqR (validateProxyRetryConfiguration c)
     (seqR (validateProxyPassiveCircuitConfiguration c)
     (seqR (guardR ((cf_TLSClientCert c \<noteq> [] \<or> cf_TLSClientKey c \<noteq> []) \<and> \<not> proxyRulesHasHTTPSUpstream c)
              (Errorf ''tls_client_cert and tls_client_key require at least one https upstream'' []))
     (seqR (validateProxyRoutes env c)
     (bindR (proxyPrimaryTarget c) (\<lambda>target.
      bindR (buildProxyTLSClientConfig env c) (\<lambda>_.
      bindR (newProxyErrorResponse env c) (\<lambda>errRes.
        Inr (if cf_Upstreams c = [] then c\<lparr>cf_UpstreamURL := URL_String target\<rparr> else c, target, errRes)))))))))))))"

end
