(* ===== verification/Backend_Health.thy ===== *)
theory Backend_Health
  imports Proxy_Validate
begin

text \<open>
  The upstream health monitor of \<open>proxy_runtime.go\<close>: the state kept for each backend
  (health, passive failures, circuit breaker, requests in flight), the operations the
  transport calls around every attempt, the active health check, the aggregated status
  and the weighted round-robin and least-connections choice.

  An instant is a number of nanoseconds; a zero \<open>time.Time\<close> and an empty formatted
  timestamp are \<open>None\<close>.  A formatted timestamp is the instant it prints.  The backend
  list never holds \<open>nil\<close> (\<open>buildProxyBackendStates\<close> appends only new states), so the
  code's \<open>nil\<close> tests have no counterpart.
\<close>

datatype circuit = Closed | Open | HalfOpen

record proxyBackendState =
  bs_Key :: string
  bs_Name :: string
  bs_URL :: string
  bs_Target :: URL
  bs_Weight :: int
  bs_Enabled :: bool
  bs_Healthy :: bool
  bs_InFlight :: int
  bs_PassiveFailures :: int
  bs_CircuitState :: circuit
  bs_CircuitOpenedAt :: "int option"
  bs_CircuitReopenAt :: "int option"
  bs_HalfOpenRequests :: int
  bs_Endpoint :: string
  bs_CheckedAt :: "int option"
  bs_LastSuccessAt :: "int option"
  bs_LastFailureAt :: "int option"
  bs_ConsecutiveFailures :: int
  bs_LastError :: string
  bs_LastStatusCode :: int
  bs_LastLatencyMS :: int

record upstreamBackendStatus =
  be_Key :: string
  be_Name :: string
  be_URL :: string
  be_Enabled :: bool
  be_Healthy :: bool
  be_InFlight :: int
  be_PassiveFailures :: int
  be_CircuitState :: circuit
  be_CircuitOpenedAt :: "int option"
  be_CircuitReopenAt :: "int option"
  be_Endpoint :: string
  be_CheckedAt :: "int option"
  be_LastSuccessAt :: "int option"
  be_LastFailureAt :: "int option"
  be_ConsecutiveFailures :: int
  be_LastError :: string
  be_LastStatusCode :: int
  be_LastLatencyMS :: int

record upstreamHealthStatus =
  st_Enabled :: bool
  st_Status :: string
  st_Strategy :: string
  st_Endpoint :: string
  st_HealthCheckPath :: string
  st_HealthCheckInterval :: int
  st_HealthCheckTimeout :: int
  st_CheckedAt :: "int option"
  st_LastSuccessAt :: "int option"
  st_LastFailureAt :: "int option"
  st_ConsecutiveFailures :: int
  st_LastError :: string
  st_LastStatusCode :: int
  st_LastLatencyMS :: int
  st_ActiveBackends :: int
  st_HealthyBackends :: int
  st_Backends :: "upstreamBackendStatus list"

record upstreamHealthMonitor =
  hm_cfg :: ProxyRulesConfig
  hm_status :: upstreamHealthStatus
  hm_backends :: "proxyBackendState list"
  hm_wake :: bool
  hm_running :: bool
  hm_rrCursor :: "64 word"

definition disabled_status :: upstreamHealthStatus where
  \<comment> \<open>\<open>upstreamHealthStatus{Status: "disabled"}\<close>\<close>
  "disabled_status = \<lparr>st_Enabled = False, st_Status = ''disabled'', st_Strategy = [], st_Endpoint = [],
     st_HealthCheckPath = [], st_HealthCheckInterval = 0, st_HealthCheckTimeout = 0, st_CheckedAt = None,
     st_LastSuccessAt = None, st_LastFailureAt = None, st_ConsecutiveFailures = 0, st_LastError = [],
     st_LastStatusCode = 0, st_LastLatencyMS = 0, st_ActiveBackends = 0, st_HealthyBackends = 0,
     st_Backends = []\<rparr>"

subsection \<open>Parameters of the configuration\<close>

abbreviation second :: int where
  "second \<equiv> 1000000000"

definition proxyHealthCheckEnabled :: "ProxyRulesConfig \<Rightarrow> bool" where
  "proxyHealthCheckEnabled c = (TrimSpace (cf_HealthCheckPath c) \<noteq> [])"

definition proxyHealthCheckInterval :: "ProxyRulesConfig \<Rightarrow> int" where
  "proxyHealthCheckInterval c = (if cf_HealthCheckInterval c \<le> 0 then 15 else cf_HealthCheckInterval c) * second"

definition proxyHealthCheckTimeout :: "ProxyRulesConfig \<Rightarrow> int" where
  "proxyHealthCheckTimeout c = (if cf_HealthCheckTimeout c \<le> 0 then 2 else cf_HealthCheckTimeout c) * second"

definition proxyPassiveFailureThreshold :: "ProxyRulesConfig \<Rightarrow> int" where
  "proxyPassiveFailureThreshold c = (if 0 < cf_PassiveFailureThreshold c then cf_PassiveFailureThreshold c else 3)"

definition proxyCircuitOpenDuration :: "ProxyRulesConfig \<Rightarrow> int" where
  "proxyCircuitOpenDuration c = (if 0 < cf_CircuitBreakerOpenSec c then cf_CircuitBreakerOpenSec c * second else 30 * second)"

definition proxyCircuitHalfOpenRequests :: "ProxyRulesConfig \<Rightarrow> int" where
  "proxyCircuitHalfOpenRequests c = (if 0 < cf_CircuitBreakerHalfOpenRequests c then cf_CircuitBreakerHalfOpenRequests c else 1)"

definition proxyBackendLookupKey :: "string \<Rightarrow> string \<Rightarrow> string" where
  "proxyBackendLookupKey name raw = TrimSpace name @ ''|'' @ TrimSpace raw"

definition proxyHealthEndpoint :: "ProxyRulesConfig \<Rightarrow> URL \<Rightarrow> string" where
  "proxyHealthEndpoint c target = URL_String (target\<lparr>url_Path := cf_HealthCheckPath c, url_RawPath := [],
     url_RawQuery := [], url_Fragment := []\<rparr>)"

definition proxyBackendSelectableLocked :: "ProxyRulesConfig \<Rightarrow> proxyBackendState \<Rightarrow> int \<Rightarrow> bool" where
  "proxyBackendSelectableLocked c b now =
     (if \<not> bs_Enabled b then False
      else if cf_CircuitBreakerEnabled c \<and>
              (case bs_CircuitState b of
                 Open \<Rightarrow> (case bs_CircuitReopenAt b of None \<Rightarrow> False | Some t \<Rightarrow> now < t)
               | HalfOpen \<Rightarrow> proxyCircuitHalfOpenRequests c \<le> bs_HalfOpenRequests b
               | Closed \<Rightarrow> False) then False
      else if proxyHealthCheckEnabled c \<or> cf_PassiveHealthEnabled c then bs_Healthy b
      else True)"

subsection \<open>The aggregated status\<close>

definition backend_entry :: "proxyBackendState \<Rightarrow> upstreamBackendStatus" where
  \<comment> \<open>the entry \<open>refreshStatusLocked\<close> makes of one backend\<close>
  "backend_entry b = \<lparr>be_Key = bs_Key b, be_Name = bs_Name b, be_URL = bs_URL b,
     be_Enabled = bs_Enabled b, be_Healthy = bs_Healthy b, be_InFlight = bs_InFlight b,
     be_PassiveFailures = bs_PassiveFailures b, be_CircuitState = bs_CircuitState b,
     be_CircuitOpenedAt = bs_CircuitOpenedAt b, be_CircuitReopenAt = bs_CircuitReopenAt b,
     be_Endpoint = bs_Endpoint b, be_CheckedAt = bs_CheckedAt b, be_LastSuccessAt = bs_LastSuccessAt b,
     be_LastFailureAt = bs_LastFailureAt b, be_ConsecutiveFailures = bs_ConsecutiveFailures b,
     be_LastError = bs_LastError b, be_LastStatusCode = bs_LastStatusCode b,
     be_LastLatencyMS = bs_LastLatencyMS b\<rparr>"

definition status_text :: "bool \<Rightarrow> int \<Rightarrow> int \<Rightarrow> upstreamBackendStatus list \<Rightarrow> string" where
  \<comment> \<open>the final \<open>switch\<close> of \<open>refreshStatusLocked\<close>\<close>
  "status_text enabled healthy active bs =
     (if \<not> enabled then ''disabled''
      else if 0 < healthy \<and> healthy = active then ''healthy''
      else if 0 < healthy then ''degraded''
      else if 0 < active then (if list_ex (\<lambda>e. be_CheckedAt e \<noteq> None) bs then ''unhealthy'' else ''unknown'')
      else ''unknown'')"

definition refreshStatusLocked :: "upstreamHealthMonitor \<Rightarrow> upstreamHealthMonitor" where
  "refreshStatusLocked m =
     (let bs = hm_backends m;
          entries = map backend_entry bs;
          active = int (length (filter bs_Enabled bs));
          healthy = int (length (filter (\<lambda>b. bs_Enabled b \<and> bs_Healthy b) bs));
          agg = find be_Enabled entries;
          st = hm_status m
      in m\<lparr>hm_status := st\<lparr>
            st_Backends := entries,
            st_ActiveBackends := active,
            st_HealthyBackends := healthy,
            st_Endpoint := (case agg of None \<Rightarrow> [] | Some e \<Rightarrow> be_Endpoint e),
            st_CheckedAt := (case agg of None \<Rightarrow> None | Some e \<Rightarrow> be_CheckedAt e),
            st_LastSuccessAt := (case agg of None \<Rightarrow> None | Some e \<Rightarrow> be_LastSuccessAt e),
            st_LastFailureAt := (case agg of None \<Rightarrow> None | Some e \<Rightarrow> be_LastFailureAt e),
            st_ConsecutiveFailures := (case agg of None \<Rightarrow> 0 | Some e \<Rightarrow> be_ConsecutiveFailures e),
            st_LastError := (case agg of None \<Rightarrow> [] | Some e \<Rightarrow> be_LastError e),
            st_LastStatusCode := (case agg of None \<Rightarrow> 0 | Some e \<Rightarrow> be_LastStatusCode e),
            st_LastLatencyMS := (case agg of None \<Rightarrow> 0 | Some e \<Rightarrow> be_LastLatencyMS e),
            st_Status := status_text (st_Enabled st) healthy active entries\<rparr>\<rparr>)"

definition applyConfigLocked :: "ProxyRulesConfig \<Rightarrow> upstreamHealthMonitor \<Rightarrow> upstreamHealthMonitor" where
  "applyConfigLocked c m =
     (let enabled = proxyHealthCheckEnabled c;
          st = (hm_status m)\<lparr>
            st_Enabled := enabled,
            st_Strategy := cf_LoadBalancingStrategy c,
            st_HealthCheckPath := cf_HealthCheckPath c,
            st_HealthCheckInterval := cf_HealthCheckInterval c,
            st_HealthCheckTimeout := cf_HealthCheckTimeout c,
            st_Endpoint := (case hm_backends m of [] \<Rightarrow> [] | b # _ \<Rightarrow> bs_Endpoint b)\<rparr>;
          st' = (if enabled then st
                 else st\<lparr>st_Status := ''disabled'', st_ConsecutiveFailures := 0, st_LastError := [],
                         st_LastStatusCode := 0, st_LastLatencyMS := 0\<rparr>)
      in refreshStatusLocked (m\<lparr>hm_status := st'\<rparr>))"

subsection \<open>Building and replacing the backends\<close>

definition build_state :: "ProxyRulesConfig \<Rightarrow> proxyBackendState list \<Rightarrow> ProxyUpstream \<Rightarrow> URL \<Rightarrow> proxyBackendState" where
  \<comment> \<open>the state of one upstream, carried over from the previous state with the same key
      (\<open>prevMap\<close> keeps the last one)\<close>
  "build_state c prev u target =
     (let key = proxyBackendLookupKey (up_Name u) (URL_String target);
          fresh = \<lparr>bs_Key = key, bs_Name = up_Name u, bs_URL = URL_String target, bs_Target = target,
            bs_Weight = (if up_Weight u \<le> 0 then 1 else up_Weight u), bs_Enabled = up_Enabled u,
            bs_Healthy = True, bs_InFlight = 0, bs_PassiveFailures = 0, bs_CircuitState = Closed,
            bs_CircuitOpenedAt = None, bs_CircuitReopenAt = None, bs_HalfOpenRequests = 0,
            bs_Endpoint = proxyHealthEndpoint c target, bs_CheckedAt = None, bs_LastSuccessAt = None,
            bs_LastFailureAt = None, bs_ConsecutiveFailures = 0, bs_LastError = [], bs_LastStatusCode = 0,
            bs_LastLatencyMS = 0\<rparr>
      in case find (\<lambda>b. bs_Key b = key) (rev prev) of
           None \<Rightarrow> fresh
         | Some p \<Rightarrow> fresh\<lparr>bs_Healthy := bs_Healthy p, bs_InFlight := bs_InFlight p,
             bs_CheckedAt := bs_CheckedAt p, bs_LastSuccessAt := bs_LastSuccessAt p,
             bs_LastFailureAt := bs_LastFailureAt p, bs_ConsecutiveFailures := bs_ConsecutiveFailures p,
             bs_LastError := bs_LastError p, bs_LastStatusCode := bs_LastStatusCode p,
             bs_LastLatencyMS := bs_LastLatencyMS p, bs_PassiveFailures := bs_PassiveFailures p,
             bs_CircuitState := bs_CircuitState p, bs_CircuitOpenedAt := bs_CircuitOpenedAt p,
             bs_CircuitReopenAt := bs_CircuitReopenAt p, bs_HalfOpenRequests := bs_HalfOpenRequests p\<rparr>)"

fun build_states :: "ProxyRulesConfig \<Rightarrow> proxyBackendState list \<Rightarrow> nat \<Rightarrow> ProxyUpstream list \<Rightarrow> proxyBackendState list" where
  "build_states c prev i [] = []"
| "build_states c prev i (u # us) =
     (case parseProxyUpstreamURL (''upstreams['' @ Itoa (int i) @ ''].url'') (up_URL u) of
        Inl _ \<Rightarrow> build_states c prev (Suc i) us
      | Inr target \<Rightarrow> build_state c prev u target # build_states c prev (Suc i) us)"

definition buildProxyBackendStates :: "ProxyRulesConfig \<Rightarrow> proxyBackendState list \<Rightarrow> proxyBackendState list" where
  "buildProxyBackendStates c prev =
     build_states c prev 0
       (if cf_Upstreams c = []
        then [\<lparr>up_Name = ''primary'', up_URL = cf_UpstreamURL c, up_Weight = 1, up_Enabled = True\<rparr>]
        else cf_Upstreams c)"

definition newUpstreamHealthMonitor :: "ProxyRulesConfig \<Rightarrow> upstreamHealthMonitor" where
  "newUpstreamHealthMonitor initial =
     (let c = normalizeProxyRulesConfig initial;
          m = applyConfigLocked c \<lparr>hm_cfg = c, hm_status = disabled_status,
                hm_backends = buildProxyBackendStates c [], hm_wake = False, hm_running = False, hm_rrCursor = 0\<rparr>
      in if st_Enabled (hm_status m) then m\<lparr>hm_running := True\<rparr> else m)"

definition triggerWake :: "upstreamHealthMonitor \<Rightarrow> upstreamHealthMonitor" where
  \<comment> \<open>a non-blocking send on a channel of capacity one\<close>
  "triggerWake m = m\<lparr>hm_wake := True\<rparr>"

definition Update :: "ProxyRulesConfig \<Rightarrow> upstreamHealthMonitor \<Rightarrow> upstreamHealthMonitor" where
  "Update doc m =
     (let next = normalizeProxyRulesConfig doc;
          m1 = m\<lparr>hm_cfg := next, hm_backends := buildProxyBackendStates next (hm_backends m)\<rparr>;
          m2 = applyConfigLocked next m1;
          start = \<not> hm_running m2 \<and> st_Enabled (hm_status m2)
      in triggerWake (if start then m2\<lparr>hm_running := True\<rparr> else m2))"

subsection \<open>The operations around an attempt\<close>

fun update_first :: "string \<Rightarrow> (proxyBackendState \<Rightarrow> proxyBackendState) \<Rightarrow> proxyBackendState list \<Rightarrow> proxyBackendState list" where
  \<comment> \<open>\<open>for _, backend := range m.backends { if backend.Key != key { continue }; ...; break }\<close>\<close>
  "update_first key f [] = []"
| "update_first key f (b # bs) = (if bs_Key b = key then f b # bs else b # update_first key f bs)"

definition with_backend :: "string \<Rightarrow> (proxyBackendState \<Rightarrow> proxyBackendState) \<Rightarrow> upstreamHealthMonitor \<Rightarrow> upstreamHealthMonitor" where
  "with_backend key f m = refreshStatusLocked (m\<lparr>hm_backends := update_first key f (hm_backends m)\<rparr>)"

definition has_key :: "string \<Rightarrow> upstreamHealthMonitor \<Rightarrow> bool" where
  "has_key key m = list_ex (\<lambda>b. bs_Key b = key) (hm_backends m)"

definition release_backend :: "proxyBackendState \<Rightarrow> proxyBackendState" where
  "release_backend b = b\<lparr>
     bs_InFlight := (if 0 < bs_InFlight b then bs_InFlight b - 1 else bs_InFlight b),
     bs_HalfOpenRequests := (if 0 < bs_HalfOpenRequests b then bs_HalfOpenRequests b - 1 else bs_HalfOpenRequests b)\<rparr>"

definition ReleaseTarget :: "string \<Rightarrow> upstreamHealthMonitor \<Rightarrow> upstreamHealthMonitor" where
  "ReleaseTarget key m =
     (if TrimSpace key = [] then m else with_backend key release_backend m)"

definition acquire_backend :: "ProxyRulesConfig \<Rightarrow> int \<Rightarrow> proxyBackendState \<Rightarrow> proxyBackendState" where
  "acquire_backend c now b =
     (let b1 = (if cf_CircuitBreakerEnabled c \<and> bs_CircuitState b = Open
                   \<and> (case bs_CircuitReopenAt b of None \<Rightarrow> False | Some t \<Rightarrow> \<not> now < t)
                then b\<lparr>bs_CircuitState := HalfOpen\<rparr> else b);
          b2 = b1\<lparr>bs_InFlight := bs_InFlight b1 + 1\<rparr>
      in if bs_CircuitState b2 = HalfOpen then b2\<lparr>bs_HalfOpenRequests := bs_HalfOpenRequests b2 + 1\<rparr> else b2)"

definition AcquireTarget :: "int \<Rightarrow> string \<Rightarrow> upstreamHealthMonitor \<Rightarrow> bool \<times> upstreamHealthMonitor" where
  "AcquireTarget now key m =
     (if TrimSpace key = [] then (True, m)
      else case find (\<lambda>b. bs_Key b = key) (hm_backends m) of
             None \<Rightarrow> (True, m)
           | Some b \<Rightarrow>
               if \<not> proxyBackendSelectableLocked (hm_cfg m) b now then (False, m)
               else (True, with_backend key (acquire_backend (hm_cfg m) now) m))"

definition passive_failure_backend :: "ProxyRulesConfig \<Rightarrow> int \<Rightarrow> int \<Rightarrow> string option \<Rightarrow> proxyBackendState \<Rightarrow> proxyBackendState" where
  "passive_failure_backend c now status e b =
     (let b1 = b\<lparr>bs_LastFailureAt := Some now, bs_LastStatusCode := status,
                 bs_LastError := (case e of Some msg \<Rightarrow> msg
                    | None \<Rightarrow> if 0 < status then ''unexpected status code: '' @ Itoa status else bs_LastError b),
                 bs_PassiveFailures := bs_PassiveFailures b + 1\<rparr>;
          over = proxyPassiveFailureThreshold c \<le> bs_PassiveFailures b1;
          b2 = (if cf_PassiveHealthEnabled c \<and> over then b1\<lparr>bs_Healthy := False\<rparr> else b1)
      in if cf_CircuitBreakerEnabled c \<and> over
         then b2\<lparr>bs_CircuitState := Open, bs_CircuitOpenedAt := Some now,
                 bs_CircuitReopenAt := Some (now + proxyCircuitOpenDuration c)\<rparr>
         else b2)"

definition RecordPassiveFailure :: "int \<Rightarrow> string \<Rightarrow> int \<Rightarrow> string option \<Rightarrow> upstreamHealthMonitor \<Rightarrow> upstreamHealthMonitor" where
  "RecordPassiveFailure now key status e m =
     (if TrimSpace key = [] \<or> \<not> has_key key m then m
      else with_backend key (passive_failure_backend (hm_cfg m) now status e) m)"

definition close_circuit :: "proxyBackendState \<Rightarrow> proxyBackendState" where
  \<comment> \<open>the reset \<open>RecordPassiveSuccess\<close> and a good health check share\<close>
  "close_circuit b = b\<lparr>bs_LastError := [], bs_PassiveFailures := 0, bs_Healthy := True,
     bs_CircuitState := Closed, bs_CircuitOpenedAt := None, bs_CircuitReopenAt := None,
     bs_HalfOpenRequests := 0\<rparr>"

definition RecordPassiveSuccess :: "int \<Rightarrow> string \<Rightarrow> int \<Rightarrow> upstreamHealthMonitor \<Rightarrow> upstreamHealthMonitor" where
  "RecordPassiveSuccess now key status m =
     (if TrimSpace key = [] \<or> \<not> has_key key m then m
      else with_backend key (\<lambda>b. close_circuit (b\<lparr>bs_LastSuccessAt := Some now, bs_LastStatusCode := status\<rparr>)) m)"

definition record_result_backend :: "int \<Rightarrow> int \<Rightarrow> int \<Rightarrow> string option \<Rightarrow> proxyBackendState \<Rightarrow> proxyBackendState" where
  "record_result_backend checkedAt status latency e b =
     (let b1 = b\<lparr>bs_CheckedAt := Some checkedAt, bs_LastStatusCode := status, bs_LastLatencyMS := latency\<rparr> in
      case e of
        None \<Rightarrow> close_circuit (b1\<lparr>bs_LastSuccessAt := Some checkedAt, bs_ConsecutiveFailures := 0\<rparr>)
      | Some msg \<Rightarrow> b1\<lparr>bs_Healthy := False, bs_LastFailureAt := Some checkedAt,
                       bs_ConsecutiveFailures := bs_ConsecutiveFailures b1 + 1, bs_LastError := msg\<rparr>)"

definition recordResult :: "string \<Rightarrow> int \<Rightarrow> int \<Rightarrow> int \<Rightarrow> string option \<Rightarrow> upstreamHealthMonitor \<Rightarrow> upstreamHealthMonitor" where
  "recordResult key checkedAt status latency e m =
     with_backend key (record_result_backend checkedAt status latency e) m"

definition check_verdict :: "int \<Rightarrow> string option" where
  \<comment> \<open>the end of \<open>checkProxyBackendHealth\<close>: which status codes count as healthy\<close>
  "check_verdict status = (if 200 \<le> status \<and> status < 400 then None
     else Some (''unexpected status code: '' @ Itoa status))"

subsection \<open>Choosing a backend\<close>

definition proxyBackendLessLoaded :: "proxyBackendState \<Rightarrow> proxyBackendState \<Rightarrow> bool" where
  "proxyBackendLessLoaded a b =
     (let left = i64 (bs_InFlight a * bs_Weight b); right = i64 (bs_InFlight b * bs_Weight a) in
      if left = right then string_less (bs_Name a) (bs_Name b) else left < right)"

fun weighted_pick :: "int \<Rightarrow> int \<Rightarrow> ('a \<times> int) list \<Rightarrow> nat \<Rightarrow> nat option" where
  \<comment> \<open>\<open>acc := 0; for pos ... { acc += weight; if selected < acc { return pos } }\<close>\<close>
  "weighted_pick sel acc [] pos = None"
| "weighted_pick sel acc ((x, w) # xs) pos =
     (if sel < i64 (acc + w) then Some pos else weighted_pick sel (i64 (acc + w)) xs (Suc pos))"

definition total_weight :: "int list \<Rightarrow> int" where
  "total_weight ws = foldl (\<lambda>a w. i64 (a + w)) 0 ws"

definition selectBackendIndexLocked :: "upstreamHealthMonitor \<Rightarrow> (nat \<times> upstreamHealthMonitor) option" where
  "selectBackendIndexLocked m =
     (let bs = hm_backends m;
          cands = filter (\<lambda>i. bs_Enabled (bs ! i)) [0..<length bs];
          healthy = filter (\<lambda>i. \<not> st_Enabled (hm_status m) \<or> bs_Healthy (bs ! i)) cands
      in case (if healthy \<noteq> [] then healthy else cands) of
           [] \<Rightarrow> None
         | c # cs \<Rightarrow>
             if cf_LoadBalancingStrategy (hm_cfg m) = ''least_conn''
             then Some (foldl (\<lambda>best i. if proxyBackendLessLoaded (bs ! i) (bs ! best) then i else best) c cs, m)
             else (let total = total_weight (map (\<lambda>i. bs_Weight (bs ! i)) (c # cs)) in
                   if total \<le> 0 then Some (c, m)
                   else (let sel = uint (hm_rrCursor m) mod total;
                             m' = m\<lparr>hm_rrCursor := hm_rrCursor m + 1\<rparr>
                         in case weighted_pick sel 0 (map (\<lambda>i. (i, bs_Weight (bs ! i))) (c # cs)) 0 of
                              Some p \<Rightarrow> Some ((c # cs) ! p, m')
                            | None \<Rightarrow> Some (c, m'))))"

definition SelectTarget :: "upstreamHealthMonitor \<Rightarrow> (string \<times> string \<times> URL) option \<times> upstreamHealthMonitor" where
  "SelectTarget m =
     (case selectBackendIndexLocked m of
        None \<Rightarrow> (None, m)
      | Some (i, m') \<Rightarrow>
          (let b = hm_backends m' ! i in
           (Some (bs_Key b, bs_Name b, bs_Target b),
            refreshStatusLocked (m'\<lparr>hm_backends := (hm_backends m')[i := b\<lparr>bs_InFlight := bs_InFlight b + 1\<rparr>]\<rparr>))))"

subsection \<open>Frame facts\<close>

lemma refresh_frame [simp, frame_simps]:
  "hm_cfg (refreshStatusLocked m) = hm_cfg m"
  "hm_backends (refreshStatusLocked m) = hm_backends m"
  "hm_rrCursor (refreshStatusLocked m) = hm_rrCursor m"
  "hm_running (refreshStatusLocked m) = hm_running m"
  "hm_wake (refreshStatusLocked m) = hm_wake m"
  "st_Enabled (hm_status (refreshStatusLocked m)) = st_Enabled (hm_status m)"
  by (simp_all add: refreshStatusLocked_def Let_def)

lemma refresh_idem [simp]: "refreshStatusLocked (refreshStatusLocked m) = refreshStatusLocked m"
  by (simp add: refreshStatusLocked_def Let_def)

lemma with_backend_frame [simp, frame_simps]:
  "hm_cfg (with_backend key f m) = hm_cfg m"
  "hm_backends (with_backend key f m) = update_first key f (hm_backends m)"
  "hm_rrCursor (with_backend key f m) = hm_rrCursor m"
  "st_Enabled (hm_status (with_backend key f m)) = st_Enabled (hm_status m)"
  by (simp_all add: with_backend_def)

lemma applyConfig_frame [simp, frame_simps]:
  "hm_cfg (applyConfigLocked c m) = hm_cfg m"
  "hm_backends (applyConfigLocked c m) = hm_backends m"
  "hm_rrCursor (applyConfigLocked c m) = hm_rrCursor m"
  "hm_running (applyConfigLocked c m) = hm_running m"
  "st_Enabled (hm_status (applyConfigLocked c m)) = proxyHealthCheckEnabled c"
  by (simp_all add: applyConfigLocked_def Let_def)

lemma update_first_in: "b \<in> set (update_first key f bs) \<Longrightarrow> b \<in> set bs \<or> (\<exists>b0\<in>set bs. b = f b0 \<and> bs_Key b0 = key)"
  by (induction bs) (auto split: if_splits)

lemma update_first_find:
  "find (\<lambda>b. bs_Key b = key) bs = Some b \<Longrightarrow> bs_Key (f b) = key \<Longrightarrow>
   find (\<lambda>b. bs_Key b = key) (update_first key f bs) = Some (f b)"
  by (induction bs) (auto split: if_splits)

lemma update_first_other:
  "key' \<noteq> key \<Longrightarrow> (\<And>b. bs_Key (f b) = bs_Key b) \<Longrightarrow>
   find (\<lambda>b. bs_Key b = key') (update_first key f bs) = find (\<lambda>b. bs_Key b = key') bs"
  by (induction bs) auto

lemma length_update_first [simp]: "length (update_first key f bs) = length bs"
  by (induction bs) auto

lemma update_first_keys:
  "(\<And>b. bs_Key (f b) = bs_Key b) \<Longrightarrow> map bs_Key (update_first key f bs) = map bs_Key bs"
  by (induction bs) auto

lemma backend_ops_key [simp]:
  "bs_Key (release_backend b) = bs_Key b"
  "bs_Key (acquire_backend c now b) = bs_Key b"
  "bs_Key (passive_failure_backend c now st e b) = bs_Key b"
  "bs_Key (close_circuit b) = bs_Key b"
  "bs_Key (record_result_backend now st lat e b) = bs_Key b"
  by (simp_all add: release_backend_def acquire_backend_def passive_failure_backend_def
      close_circuit_def record_result_backend_def Let_def split: option.split)

end
