(* ===== verification/Backend_Protocol.thy ===== *)
theory Backend_Protocol
  imports Backend_Health
begin

text \<open>
  The health monitor as a state machine: every call the transport, the background checker
  and the configuration update make is an event, each under one lock acquisition, so any
  interleaving of concurrent requests is a sequence of events.  The invariants of the
  backend counters, the legal transitions of the circuit breaker, what an open circuit
  refuses, and two behaviours of the recovery logic.
\<close>

subsection \<open>Events\<close>

datatype hm_event =
    Acquire int string                     \<comment> \<open>\<open>AcquireTarget\<close> at an instant\<close>
  | PassiveFailure int string int "string option"
  | PassiveSuccess int string int
  | Release string circuit                 \<comment> \<open>of an attempt acquired in this circuit state\<close>
  | Sweep                                  \<comment> \<open>the checker takes its snapshot of the backends\<close>
  | Checked int int int "string option"    \<comment> \<open>and records the result of the next one\<close>
  | Abandon string                         \<comment> \<open>\<open>releaseProxyRouteDecision\<close> for a request that was not served\<close>
  | Reconfigure ProxyRulesConfig

text \<open>
  The world holds the monitor, the attempts acquired and not yet released, each with the
  circuit state its acquisition left (a \<open>HalfOpen\<close> one is a probe), and the keys the
  checker still has to visit.  An attempt is recorded or released only while it is held,
  as \<open>RoundTrip\<close> does; the checker takes a snapshot only when health checks are enabled.
\<close>

record hm_world =
  w_mon :: upstreamHealthMonitor
  w_held :: "(string \<times> circuit) list"
  w_sweep :: "string list"

definition circuit_of :: "string \<Rightarrow> upstreamHealthMonitor \<Rightarrow> circuit" where
  "circuit_of key m = (case find (\<lambda>b. bs_Key b = key) (hm_backends m) of None \<Rightarrow> Closed
     | Some b \<Rightarrow> bs_CircuitState b)"

definition held :: "string \<Rightarrow> hm_world \<Rightarrow> bool" where
  "held k w = (k \<in> fst ` set (w_held w))"

fun hm_exec :: "hm_event \<Rightarrow> hm_world \<Rightarrow> hm_world option" where
  "hm_exec (Acquire now k) w =
     (case AcquireTarget now k (w_mon w) of
        (True, m') \<Rightarrow> Some (w\<lparr>w_mon := m', w_held := (k, circuit_of k m') # w_held w\<rparr>)
      | (False, m') \<Rightarrow> Some (w\<lparr>w_mon := m'\<rparr>))"
| "hm_exec (PassiveFailure now k st e) w =
     (if held k w then Some (w\<lparr>w_mon := RecordPassiveFailure now k st e (w_mon w)\<rparr>) else None)"
| "hm_exec (PassiveSuccess now k st) w =
     (if held k w then Some (w\<lparr>w_mon := RecordPassiveSuccess now k st (w_mon w)\<rparr>) else None)"
| "hm_exec (Release k ci) w =
     (if (k, ci) \<in> set (w_held w)
      then Some (w\<lparr>w_mon := ReleaseTarget k (w_mon w), w_held := remove1 (k, ci) (w_held w)\<rparr>) else None)"
| "hm_exec (Abandon k) w = Some (w\<lparr>w_mon := ReleaseTarget k (w_mon w)\<rparr>)"
| "hm_exec Sweep w =
     (if w_sweep w = [] \<and> proxyHealthCheckEnabled (hm_cfg (w_mon w))
      then Some (w\<lparr>w_sweep := map bs_Key (filter bs_Enabled (hm_backends (w_mon w)))\<rparr>) else None)"
| "hm_exec (Checked now st lat e) w =
     (case w_sweep w of [] \<Rightarrow> None
      | k # ks \<Rightarrow> Some (w\<lparr>w_mon := recordResult k now st lat e (w_mon w), w_sweep := ks\<rparr>))"
| "hm_exec (Reconfigure doc) w = Some (w\<lparr>w_mon := Update doc (w_mon w)\<rparr>)"

fun hm_run :: "hm_event list \<Rightarrow> hm_world \<Rightarrow> hm_world option" where
  "hm_run [] w = Some w"
| "hm_run (e # es) w = (case hm_exec e w of None \<Rightarrow> None | Some w' \<Rightarrow> hm_run es w')"

definition hm_start :: "ProxyRulesConfig \<Rightarrow> hm_world" where
  "hm_start doc = \<lparr>w_mon = newUpstreamHealthMonitor doc, w_held = [], w_sweep = []\<rparr>"

inductive hm_reachable :: "ProxyRulesConfig \<Rightarrow> hm_world \<Rightarrow> bool" for doc where
  start: "hm_reachable doc (hm_start doc)"
| step: "hm_reachable doc w \<Longrightarrow> hm_exec e w = Some w' \<Longrightarrow> hm_reachable doc w'"

lemma hm_run_reachable: "hm_reachable doc w \<Longrightarrow> hm_run es w = Some w' \<Longrightarrow> hm_reachable doc w'"
proof (induction es arbitrary: w)
  case (Cons e es)
  from Cons.prems(2) obtain w1 where "hm_exec e w = Some w1" "hm_run es w1 = Some w'"
    by (auto split: option.splits)
  with Cons.prems(1) show ?case by (blast intro: hm_reachable.step Cons.IH)
qed simp

subsection \<open>A contract for predicates on one backend\<close>

text \<open>
  Every event applies one of five backend transformers, or rebuilds the backends from
  their predecessors.  A predicate the transformers keep holds of every backend in every
  reachable world.
\<close>

locale backend_invariant =
  fixes P :: "proxyBackendState \<Rightarrow> bool"
  assumes fresh: "P (build_state c [] u t)"
    and rebuilt: "P p \<Longrightarrow> bs_Key p = proxyBackendLookupKey (up_Name u) (URL_String t) \<Longrightarrow> P (build_state c [p] u t)"
    and acquired: "P b \<Longrightarrow> P (acquire_backend c now b)"
    and released: "P b \<Longrightarrow> P (release_backend b)"
    and failed: "P b \<Longrightarrow> P (passive_failure_backend c now st e b)"
    and succeeded: "P b \<Longrightarrow> P (close_circuit (b\<lparr>bs_LastSuccessAt := Some now, bs_LastStatusCode := st\<rparr>))"
    and checked: "P b \<Longrightarrow> P (record_result_backend now st lat e b)"
begin

lemma build_state_P: "\<forall>p\<in>set prev. P p \<Longrightarrow> P (build_state c prev u t)"
proof -
  assume prev: "\<forall>p\<in>set prev. P p"
  let ?key = "proxyBackendLookupKey (up_Name u) (URL_String t)"
  show ?thesis
  proof (cases "find (\<lambda>b. bs_Key b = ?key) (rev prev)")
    case None
    then have "build_state c prev u t = build_state c [] u t"
      by (simp add: build_state_def Let_def)
    then show ?thesis by (simp add: fresh)
  next
    case (Some p)
    then have p: "p \<in> set prev" "bs_Key p = ?key"
      by (auto simp: find_Some_iff dest: nth_mem) (metis length_rev nth_mem set_rev)
    with Some have "build_state c prev u t = build_state c [p] u t"
      by (simp add: build_state_def Let_def)
    with p prev show ?thesis by (simp add: rebuilt)
  qed
qed

lemma build_states_P: "\<forall>p\<in>set prev. P p \<Longrightarrow> b \<in> set (build_states c prev i us) \<Longrightarrow> P b"
  by (induction us arbitrary: i) (auto split: sum.splits intro: build_state_P)

lemma build_P:
  "\<forall>p\<in>set prev. P p \<Longrightarrow> b \<in> set (buildProxyBackendStates c prev) \<Longrightarrow> P b"
  unfolding buildProxyBackendStates_def by (rule build_states_P)

lemma update_first_P:
  assumes "\<And>b. P b \<Longrightarrow> P (f b)" "\<forall>b\<in>set bs. P b" "b \<in> set (update_first key f bs)"
  shows "P b"
  using update_first_in [OF assms(3)] assms(1,2) by blast

lemma exec_P:
  assumes inv: "\<forall>b\<in>set (hm_backends (w_mon w)). P b" and ex: "hm_exec e w = Some w'"
    and b: "b \<in> set (hm_backends (w_mon w'))"
  shows "P b"
proof (cases e)
  case (Acquire now k)
  with ex b inv show ?thesis
    by (auto simp: AcquireTarget_def split: if_splits option.splits
        intro: update_first_P [OF acquired inv])
next
  case (PassiveFailure now k st er)
  with ex b inv show ?thesis
    by (auto simp: RecordPassiveFailure_def split: if_splits intro: update_first_P [OF failed inv])
next
  case (PassiveSuccess now k st)
  with ex b inv show ?thesis
    by (auto simp: RecordPassiveSuccess_def split: if_splits intro: update_first_P [OF succeeded inv])
next
  case (Release k ci)
  with ex b inv show ?thesis
    by (auto simp: ReleaseTarget_def split: if_splits intro: update_first_P [OF released inv])
next
  case (Abandon k)
  with ex b inv show ?thesis
    by (auto simp: ReleaseTarget_def split: if_splits intro: update_first_P [OF released inv])
next
  case Sweep
  with ex b inv show ?thesis by (auto split: if_splits)
next
  case (Checked now st lat er)
  with ex b inv show ?thesis
    by (auto simp: recordResult_def split: list.splits intro: update_first_P [OF checked inv])
next
  case (Reconfigure doc)
  with ex b inv show ?thesis
    by (auto simp: Update_def Let_def triggerWake_def split: if_splits intro: build_P)
qed

lemma reachable_P: "hm_reachable doc w \<Longrightarrow> b \<in> set (hm_backends (w_mon w)) \<Longrightarrow> P b"
proof (induction arbitrary: b rule: hm_reachable.induct)
  case start
  then show ?case
    by (auto simp: hm_start_def newUpstreamHealthMonitor_def Let_def
        split: if_splits intro: build_P [of "[]"])
next
  case (step w e w')
  show ?case by (rule exec_P [OF _ step.hyps(2) step.prems]) (simp add: step.IH)
qed

end

definition backend_ok :: "proxyBackendState \<Rightarrow> bool" where
  "backend_ok b =
     (0 \<le> bs_HalfOpenRequests b \<and> bs_HalfOpenRequests b \<le> bs_InFlight b
      \<and> 0 \<le> bs_PassiveFailures b \<and> 0 \<le> bs_ConsecutiveFailures b \<and> 0 < bs_Weight b
      \<and> (bs_CircuitState b = Closed \<longrightarrow> bs_CircuitOpenedAt b = None \<and> bs_CircuitReopenAt b = None)
      \<and> (bs_CircuitState b \<noteq> Closed \<longrightarrow> bs_CircuitOpenedAt b \<noteq> None \<and> bs_CircuitReopenAt b \<noteq> None))"

interpretation counters: backend_invariant backend_ok
proof unfold_locales
  show "backend_ok (build_state c [] u t)" for c u t
    by (simp add: backend_ok_def build_state_def Let_def)
  show "backend_ok (build_state c [p] u t)"
    if "backend_ok p" "bs_Key p = proxyBackendLookupKey (up_Name u) (URL_String t)" for p c u t
    using that by (simp add: backend_ok_def build_state_def Let_def)
  show "backend_ok (acquire_backend c now b)" if "backend_ok b" for b c now
    using that by (auto simp: backend_ok_def acquire_backend_def Let_def)
  show "backend_ok (release_backend b)" if "backend_ok b" for b
    using that by (auto simp: backend_ok_def release_backend_def)
  show "backend_ok (passive_failure_backend c now st e b)" if "backend_ok b" for b c now st e
    using that by (auto simp: backend_ok_def passive_failure_backend_def Let_def)
  show "backend_ok (close_circuit (b\<lparr>bs_LastSuccessAt := Some now, bs_LastStatusCode := st\<rparr>))"
    if "backend_ok b" for b now st
    using that by (auto simp: backend_ok_def close_circuit_def)
  show "backend_ok (record_result_backend now st lat e b)" if "backend_ok b" for b now st lat e
    using that by (cases e) (auto simp: backend_ok_def record_result_backend_def close_circuit_def Let_def)
qed

subsection \<open>Following one backend\<close>

definition backend_of :: "string \<Rightarrow> hm_world \<Rightarrow> proxyBackendState option" where
  "backend_of k w = find (\<lambda>b. bs_Key b = k) (hm_backends (w_mon w))"

lemma find_update_first:
  "(\<And>b. bs_Key (f b) = bs_Key b) \<Longrightarrow>
   find (\<lambda>b. bs_Key b = k) (update_first k' f bs)
     = (if k' = k then map_option f (find (\<lambda>b. bs_Key b = k) bs) else find (\<lambda>b. bs_Key b = k) bs)"
  by (induction bs) auto

lemma has_key_find: "has_key k m \<longleftrightarrow> find (\<lambda>b. bs_Key b = k) (hm_backends m) \<noteq> None"
  by (induction "hm_backends m" arbitrary: m) (auto simp: has_key_def list_ex_iff find_None_iff)

text \<open>What each event other than a reconfiguration does to the backend of a key.\<close>

fun effect :: "hm_event \<Rightarrow> string \<Rightarrow> hm_world \<Rightarrow> proxyBackendState \<Rightarrow> proxyBackendState" where
  "effect (Acquire now k') k w b =
     (if k' = k \<and> TrimSpace k \<noteq> [] \<and> proxyBackendSelectableLocked (hm_cfg (w_mon w)) b now
      then acquire_backend (hm_cfg (w_mon w)) now b else b)"
| "effect (PassiveFailure now k' st e) k w b =
     (if k' = k \<and> TrimSpace k \<noteq> [] then passive_failure_backend (hm_cfg (w_mon w)) now st e b else b)"
| "effect (PassiveSuccess now k' st) k w b =
     (if k' = k \<and> TrimSpace k \<noteq> []
      then close_circuit (b\<lparr>bs_LastSuccessAt := Some now, bs_LastStatusCode := st\<rparr>) else b)"
| "effect (Release k' ci) k w b = (if k' = k \<and> TrimSpace k \<noteq> [] then release_backend b else b)"
| "effect (Abandon k') k w b = (if k' = k \<and> TrimSpace k \<noteq> [] then release_backend b else b)"
| "effect (Checked now st lat e) k w b =
     (if w_sweep w \<noteq> [] \<and> hd (w_sweep w) = k then record_result_backend now st lat e b else b)"
| "effect _ k w b = b"

definition reconfigures :: "hm_event \<Rightarrow> bool" where
  "reconfigures e = (case e of Reconfigure doc \<Rightarrow> True | _ \<Rightarrow> False)"

lemma exec_effect:
  assumes ex: "hm_exec e w = Some w'" and nr: "\<not> reconfigures e"
  shows "backend_of k w' = map_option (effect e k w) (backend_of k w)"
    and "hm_cfg (w_mon w') = hm_cfg (w_mon w)"
proof -
  have "backend_of k w' = map_option (effect e k w) (backend_of k w) \<and> hm_cfg (w_mon w') = hm_cfg (w_mon w)"
  proof (cases e)
    case (Acquire now k')
    with ex show ?thesis
      by (cases "backend_of k w")
        (auto simp: AcquireTarget_def backend_of_def find_update_first split: if_splits option.splits)
  next
    case (PassiveFailure now k' st er)
    with ex show ?thesis
      by (cases "backend_of k w")
        (auto simp: RecordPassiveFailure_def backend_of_def find_update_first has_key_find split: if_splits)
  next
    case (PassiveSuccess now k' st)
    with ex show ?thesis
      by (cases "backend_of k w")
        (auto simp: RecordPassiveSuccess_def backend_of_def find_update_first has_key_find split: if_splits)
  next
    case (Release k' ci)
    with ex show ?thesis
      by (cases "backend_of k w")
        (auto simp: ReleaseTarget_def backend_of_def find_update_first split: if_splits)
  next
    case (Abandon k')
    with ex show ?thesis
      by (cases "backend_of k w")
        (auto simp: ReleaseTarget_def backend_of_def find_update_first split: if_splits)
  next
    case Sweep
    with ex show ?thesis by (cases "backend_of k w") (auto simp: backend_of_def split: if_splits)
  next
    case (Checked now st lat er)
    with ex show ?thesis
      by (cases "backend_of k w")
        (auto simp: recordResult_def backend_of_def find_update_first split: list.splits if_splits)
  next
    case (Reconfigure doc)
    with nr show ?thesis by (simp add: reconfigures_def)
  qed
  then show "backend_of k w' = map_option (effect e k w) (backend_of k w)"
    and "hm_cfg (w_mon w') = hm_cfg (w_mon w)" by blast+
qed

subsection \<open>Concrete worlds\<close>

text \<open>A document with one upstream and a circuit breaker that opens at the first failure,
  one with passive health instead, and worlds reached from them.\<close>

definition probe_doc :: ProxyRulesConfig where
  "probe_doc = zero_config\<lparr>cf_UpstreamURL := ''http://a'', cf_CircuitBreakerEnabled := True,
     cf_PassiveFailureThreshold := 1, cf_CircuitBreakerHalfOpenRequests := 1\<rparr>"

definition probe_key :: string where
  "probe_key = ''primary|http://a''"

definition passive_doc :: ProxyRulesConfig where
  "passive_doc = zero_config\<lparr>cf_UpstreamURL := ''http://a'', cf_PassiveHealthEnabled := True,
     cf_PassiveFailureThreshold := 1\<rparr>"

definition world_after :: "ProxyRulesConfig \<Rightarrow> hm_event list \<Rightarrow> hm_world" where
  "world_after doc es = (case hm_run es (hm_start doc) of None \<Rightarrow> hm_start doc | Some w \<Rightarrow> w)"

definition held_world :: hm_world where
  "held_world = world_after probe_doc [Acquire 0 probe_key]"

definition tripped_world :: hm_world where
  "tripped_world = world_after probe_doc
     [Acquire 0 probe_key, PassiveFailure 0 probe_key 502 None, Release probe_key Closed]"

definition unhealthy_world :: hm_world where
  "unhealthy_world = world_after passive_doc
     [Acquire 0 probe_key, PassiveFailure 0 probe_key 502 None, Release probe_key Closed]"

subsection \<open>The circuit breaker as an abstract machine\<close>

datatype breaker_event = Trip int | Probe int | Reset

inductive breaker_step :: "circuit \<times> int option \<Rightarrow> breaker_event \<Rightarrow> circuit \<times> int option \<Rightarrow> bool" where
  trip: "breaker_step (c, r) (Trip t) (Open, Some t)"
| probe: "t \<le> now \<Longrightarrow> breaker_step (Open, Some t) (Probe now) (HalfOpen, Some t)"
| reset: "breaker_step (c, r) Reset (Closed, None)"

inductive_cases breaker_probeE: "breaker_step s (Probe now) s'"

definition breaker_of :: "proxyBackendState \<Rightarrow> circuit \<times> int option" where
  "breaker_of b = (bs_CircuitState b, bs_CircuitReopenAt b)"

text \<open>The abstract event a monitor event is allowed to be for a key.\<close>

fun breaker_label :: "ProxyRulesConfig \<Rightarrow> hm_event \<Rightarrow> breaker_event option" where
  "breaker_label c (Acquire now k) = Some (Probe now)"
| "breaker_label c (PassiveFailure now k st e) = Some (Trip (now + proxyCircuitOpenDuration c))"
| "breaker_label c (PassiveSuccess now k st) = Some Reset"
| "breaker_label c (Checked now st lat None) = Some Reset"
| "breaker_label c e = None"

lemma effect_breaker:
  assumes "reconfigures e = False" "breaker_of (effect e k w b) \<noteq> breaker_of b"
  shows "\<exists>l. breaker_label (hm_cfg (w_mon w)) e = Some l \<and> breaker_step (breaker_of b) l (breaker_of (effect e k w b))"
proof (cases e)
  case (Acquire now k')
  with assms show ?thesis
    by (auto simp: breaker_of_def acquire_backend_def Let_def
        intro!: breaker_step.probe split: if_splits option.splits)
next
  case (PassiveFailure now k' st er)
  with assms show ?thesis
    by (auto simp: breaker_of_def passive_failure_backend_def Let_def intro!: breaker_step.trip split: if_splits)
next
  case (PassiveSuccess now k' st)
  with assms show ?thesis
    by (auto simp: breaker_of_def close_circuit_def intro!: breaker_step.reset split: if_splits)
next
  case (Release k' ci)
  with assms show ?thesis by (simp add: breaker_of_def release_backend_def split: if_splits)
next
  case (Abandon k')
  with assms show ?thesis by (simp add: breaker_of_def release_backend_def split: if_splits)
next
  case (Checked now st lat er)
  with assms show ?thesis
    by (cases er) (auto simp: breaker_of_def record_result_backend_def close_circuit_def Let_def
        intro!: breaker_step.reset split: if_splits)
qed (use assms in \<open>auto simp: reconfigures_def\<close>)


lemma held_world_fails:
  "(case hm_exec (PassiveFailure 0 probe_key 502 None) held_world of None \<Rightarrow> False
    | Some w' \<Rightarrow> backend_of probe_key held_world \<noteq> None)"
  by code_simp


subsection \<open>What an open circuit refuses\<close>

definition open_until :: "string \<Rightarrow> int \<Rightarrow> hm_world \<Rightarrow> bool" where
  "open_until k t w = (cf_CircuitBreakerEnabled (hm_cfg (w_mon w)) \<and>
     (case backend_of k w of None \<Rightarrow> False
      | Some b \<Rightarrow> bs_CircuitState b = Open \<and>
          (case bs_CircuitReopenAt b of None \<Rightarrow> False | Some r \<Rightarrow> t \<le> r)))"

fun quiet :: "ProxyRulesConfig \<Rightarrow> string \<Rightarrow> int \<Rightarrow> hm_event \<Rightarrow> bool" where
  \<comment> \<open>an event before the instant \<open>t\<close> that neither reports a success for the key nor
      changes the configuration\<close>
  "quiet c k t (Acquire now k') = (now < t)"
| "quiet c k t (PassiveFailure now k' st e) = (k' = k \<longrightarrow> t \<le> now + proxyCircuitOpenDuration c)"
| "quiet c k t (PassiveSuccess now k' st) = (k' \<noteq> k)"
| "quiet c k t (Checked now st lat e) = (e \<noteq> None)"
| "quiet c k t (Reconfigure doc) = False"
| "quiet c k t e = True"

lemma open_refuses:
  "open_until k t w \<Longrightarrow> TrimSpace k \<noteq> [] \<Longrightarrow> now < t \<Longrightarrow> AcquireTarget now k (w_mon w) = (False, w_mon w)"
  by (auto simp: open_until_def AcquireTarget_def backend_of_def proxyBackendSelectableLocked_def
      split: option.splits)

lemma open_until_step:
  assumes "open_until k t w" "hm_exec e w = Some w'" "quiet (hm_cfg (w_mon w)) k t e"
  shows "open_until k t w'"
proof -
  have nr: "\<not> reconfigures e" using assms(3) by (cases e) (auto simp: reconfigures_def)
  note eff = exec_effect [OF assms(2) nr]
  from assms(1) obtain b r where b: "backend_of k w = Some b" "bs_CircuitState b = Open"
    "bs_CircuitReopenAt b = Some r" "t \<le> r" and cb: "cf_CircuitBreakerEnabled (hm_cfg (w_mon w))"
    by (auto simp: open_until_def split: option.splits)
  have "bs_CircuitState (effect e k w b) = Open
      \<and> (\<exists>r'. bs_CircuitReopenAt (effect e k w b) = Some r' \<and> t \<le> r')"
    using assms(3) b cb
    by (cases e) (auto simp: proxyBackendSelectableLocked_def passive_failure_backend_def Let_def
        release_backend_def record_result_backend_def split: option.splits)
  then show ?thesis using eff b cb by (auto simp: open_until_def)
qed

text \<open>
  C6: An open circuit refuses every acquisition before its reopen instant, whatever requests,
  failures, releases and failed health checks happen in between, as long as no success for
  the backend is recorded and the configuration is not replaced.
\<close>

theorem open_circuit_refuses_until_reopen:
  assumes "open_until k t w" "TrimSpace k \<noteq> []"
    and "hm_run es w = Some w'" "list_all (quiet (hm_cfg (w_mon w)) k t) es" "now < t"
  shows "AcquireTarget now k (w_mon w') = (False, w_mon w')"
proof -
  have "open_until k t w'"
    using assms(1,3,4)
  proof (induction es arbitrary: w)
    case (Cons e es)
    then obtain w1 where w1: "hm_exec e w = Some w1" "hm_run es w1 = Some w'"
      by (auto split: option.splits)
    have nr: "\<not> reconfigures e" using Cons.prems(3) by (cases e) (auto simp: reconfigures_def)
    show ?case
      using Cons.prems w1 exec_effect(2) [OF w1(1) nr]
      by (intro Cons.IH [of w1]) (auto intro: open_until_step)
  qed simp
  then show ?thesis using assms(2,5) by (rule open_refuses)
qed

lemma tripped_world_open: "open_until probe_key (30 * second) tripped_world"
  by code_simp

lemma tripped_world_run:
  "hm_run [Acquire 5 probe_key] tripped_world \<noteq> None
   \<and> list_all (quiet (hm_cfg (w_mon tripped_world)) probe_key (30 * second)) [Acquire 5 probe_key]"
  by code_simp

lemma probe_key_not_blank: "TrimSpace probe_key \<noteq> []"
  by code_simp

theorem open_circuit_refuses_until_reopen_witness:
  "\<exists>w'. hm_run [Acquire 5 probe_key] tripped_world = Some w' \<and>
     AcquireTarget 10 probe_key (w_mon w') = (False, w_mon w')"
proof -
  from tripped_world_run obtain w' where w': "hm_run [Acquire 5 probe_key] tripped_world = Some w'"
    by auto
  have "AcquireTarget 10 probe_key (w_mon w') = (False, w_mon w')"
    by (rule open_circuit_refuses_until_reopen [OF tripped_world_open probe_key_not_blank w'])
      (use tripped_world_run in simp_all)
  with w' show ?thesis by blast
qed

subsection \<open>Recovery\<close>

text \<open>
  With passive health on and no active check, a backend that was marked unhealthy and
  that no attempt holds is never admitted again: only a success of a held attempt or a
  good health check sets it healthy, and neither can happen.
\<close>

definition stuck :: "string \<Rightarrow> hm_world \<Rightarrow> bool" where
  "stuck k w = (cf_PassiveHealthEnabled (hm_cfg (w_mon w)) \<and> \<not> proxyHealthCheckEnabled (hm_cfg (w_mon w))
     \<and> w_sweep w = [] \<and> \<not> held k w
     \<and> (case backend_of k w of None \<Rightarrow> False | Some b \<Rightarrow> \<not> bs_Healthy b))"

lemma stuck_refuses:
  "stuck k w \<Longrightarrow> TrimSpace k \<noteq> [] \<Longrightarrow> AcquireTarget now k (w_mon w) = (False, w_mon w)"
  by (auto simp: stuck_def AcquireTarget_def backend_of_def proxyBackendSelectableLocked_def
      split: option.splits)

lemma held_remove1: "k \<notin> fst ` set hs \<Longrightarrow> k \<notin> fst ` set (remove1 h hs)"
  using set_remove1_subset [of h hs] by blast

lemma stuck_step:
  assumes "stuck k w" "TrimSpace k \<noteq> []" "hm_exec e w = Some w'" "\<not> reconfigures e"
  shows "stuck k w'"
proof -
  note eff = exec_effect [OF assms(3,4)]
  from assms(1) obtain b where b: "backend_of k w = Some b" "\<not> bs_Healthy b"
    and cfg: "cf_PassiveHealthEnabled (hm_cfg (w_mon w))" "\<not> proxyHealthCheckEnabled (hm_cfg (w_mon w))"
    and nh: "\<not> held k w" "w_sweep w = []"
    by (auto simp: stuck_def split: option.splits)
  have "\<not> bs_Healthy (effect e k w b)"
    using assms(3) b cfg nh
    by (cases e) (auto simp: proxyBackendSelectableLocked_def passive_failure_backend_def Let_def
        release_backend_def split: if_splits)
  moreover have "\<not> held k w' \<and> w_sweep w' = []"
  proof (cases e)
    case (Acquire now k')
    have "k' \<noteq> k" if "AcquireTarget now k' (w_mon w) = (True, m')" for m'
      using that stuck_refuses [OF assms(1,2), of now] by auto
    with Acquire assms(3) nh show ?thesis
      by (auto simp add: held_def simp del: image_iff split: prod.splits bool.splits)
  next
    case (Release k' ci)
    with assms(3) nh held_remove1 [of k "w_held w" "(k', ci)"] show ?thesis
      by (auto simp add: held_def simp del: image_iff split: if_splits)
  next
    case Sweep
    with assms(3) cfg show ?thesis by simp
  qed (use assms(3) nh in \<open>auto simp: held_def reconfigures_def split: if_splits list.splits\<close>)
  ultimately show ?thesis using eff b cfg by (simp add: stuck_def)
qed

text \<open>
  C7: With passive health enabled and no active health check, a backend that was marked
  unhealthy and that no attempt holds is refused for ever: no sequence of calls other than
  replacing the configuration makes it selectable again, however much time passes.
\<close>

theorem passive_unhealthy_is_absorbing:
  assumes "stuck k w" "TrimSpace k \<noteq> []" "hm_run es w = Some w'" "list_all (\<lambda>e. \<not> reconfigures e) es"
  shows "AcquireTarget now k (w_mon w') = (False, w_mon w')"
proof -
  have "stuck k w'"
    using assms(1,3,4)
    by (induction es arbitrary: w) (auto split: option.splits intro: stuck_step [OF _ assms(2)])
  then show ?thesis using assms(2) by (rule stuck_refuses)
qed

lemma unhealthy_world_stuck:
  "stuck probe_key unhealthy_world \<and> hm_run [Acquire 9 probe_key] unhealthy_world \<noteq> None
   \<and> list_all (\<lambda>e. \<not> reconfigures e) [Acquire 9 probe_key]"
  by code_simp

theorem passive_unhealthy_is_absorbing_witness:
  "\<exists>w'. hm_run [Acquire 9 probe_key] unhealthy_world = Some w' \<and>
     AcquireTarget (1000000 * second) probe_key (w_mon w') = (False, w_mon w')"
proof -
  from unhealthy_world_stuck obtain w' where w': "hm_run [Acquire 9 probe_key] unhealthy_world = Some w'"
    by auto
  with unhealthy_world_stuck passive_unhealthy_is_absorbing [OF _ probe_key_not_blank w']
  show ?thesis by blast
qed

text \<open>
  The half-open limit counts every release, also that of an attempt acquired before the
  circuit opened: with a limit of one, two probes can be in flight at once.
\<close>

definition probe_events :: "hm_event list" where
  "probe_events =
     [Acquire 0 probe_key, Acquire 0 probe_key, PassiveFailure 0 probe_key 502 None,
      Release probe_key Closed, Acquire (30 * second) probe_key, Release probe_key Closed,
      Acquire (30 * second) probe_key]"

definition probes :: "string \<Rightarrow> hm_world \<Rightarrow> nat" where
  "probes k w = length (filter (\<lambda>h. h = (k, HalfOpen)) (w_held w))"

lemma probe_run:
  "(case hm_run probe_events (hm_start probe_doc) of None \<Rightarrow> False
    | Some w \<Rightarrow> probes probe_key w = 2 \<and> circuit_of probe_key (w_mon w) = HalfOpen
        \<and> proxyCircuitHalfOpenRequests (hm_cfg (w_mon w)) = 1)"
  by code_simp

text \<open>
  The half-open limit is not a limit on concurrent probes.  A world is reachable, under a
  configured limit of one, in which the circuit is half open and two probes admitted in
  the half-open state are in flight: releasing an attempt acquired before the circuit
  opened lowers the probe counter.
\<close>

theorem half_open_limit_exceeded:
  "\<exists>w. hm_reachable probe_doc w \<and> circuit_of probe_key (w_mon w) = HalfOpen \<and>
       proxyCircuitHalfOpenRequests (hm_cfg (w_mon w)) = 1 \<and> probes probe_key w = 2"
proof -
  from probe_run obtain w where "hm_run probe_events (hm_start probe_doc) = Some w"
    "probes probe_key w = 2" "circuit_of probe_key (w_mon w) = HalfOpen"
    "proxyCircuitHalfOpenRequests (hm_cfg (w_mon w)) = 1"
    by (auto split: option.splits)
  then show ?thesis using hm_run_reachable [OF hm_reachable.start] by blast
qed

subsection \<open>Requests in flight\<close>

text \<open>
  As long as only attempts release what they acquired, the counter of a backend is the
  number of attempts that hold it.  The handler, however, releases the selected backend
  of every request it does not serve, and such a request holds nothing.
\<close>

definition abandons :: "hm_event \<Rightarrow> bool" where
  "abandons e = (case e of Abandon k \<Rightarrow> True | _ \<Rightarrow> False)"

definition holds :: "string \<Rightarrow> hm_world \<Rightarrow> nat" where
  "holds k w = length (filter (\<lambda>h. fst h = k) (w_held w))"

definition exact :: "string \<Rightarrow> hm_world \<Rightarrow> bool" where
  "exact k w = (\<forall>b. backend_of k w = Some b \<longrightarrow> bs_InFlight b = int (holds k w))"

lemma holds_remove1:
  "(k', ci) \<in> set hs \<Longrightarrow> length (filter (\<lambda>h. fst h = k) (remove1 (k', ci) hs))
     = length (filter (\<lambda>h. fst h = k) hs) - (if k' = k then 1 else 0)"
proof (induction hs)
  case (Cons h hs)
  have "0 < length (filter (\<lambda>h. fst h = k') hs)" if "(k', ci) \<in> set hs"
    using that by (auto simp: filter_empty_conv intro: bexI [of _ "(k', ci)"])
  with Cons show ?case by (cases "h = (k', ci)") auto
qed simp

lemma exact_step:
  assumes "exact k w" "TrimSpace k \<noteq> []" "hm_exec e w = Some w'" "\<not> reconfigures e" "\<not> abandons e"
  shows "exact k w'"
  unfolding exact_def
proof (intro allI impI)
  fix b' assume b': "backend_of k w' = Some b'"
  from exec_effect(1) [OF assms(3,4), of k] b' obtain b where b: "backend_of k w = Some b"
    and eff: "b' = effect e k w b" by (cases "backend_of k w") auto
  with assms(1) have n: "bs_InFlight b = int (holds k w)" by (simp add: exact_def)
  show "bs_InFlight b' = int (holds k w')"
  proof (cases e)
    case (Acquire now k')
    then have "fst (AcquireTarget now k (w_mon w)) = proxyBackendSelectableLocked (hm_cfg (w_mon w)) b now"
      using assms(2) b by (simp add: AcquireTarget_def backend_of_def)
    with Acquire assms(2,3) n eff show ?thesis
      by (cases "AcquireTarget now k' (w_mon w)")
        (auto simp: holds_def acquire_backend_def Let_def split: if_splits bool.splits)
  next
    case (Release k' ci)
    then have mem: "(k', ci) \<in> set (w_held w)" and w': "w_held w' = remove1 (k', ci) (w_held w)"
      using assms(3) by (auto split: if_splits)
    have "k' = k \<Longrightarrow> 0 < holds k w" using mem
      by (auto simp: holds_def filter_empty_conv intro: bexI [of _ "(k', ci)"])
    with Release assms(2) n eff mem w' show ?thesis
      by (auto simp: holds_def holds_remove1 release_backend_def of_nat_diff Suc_le_eq)
  next
    case (Checked now st lat er)
    with assms(3) n eff show ?thesis
      by (cases er) (auto simp: holds_def record_result_backend_def close_circuit_def Let_def split: list.splits)
  qed (use assms(3-5) n eff in \<open>auto simp: holds_def passive_failure_backend_def close_circuit_def
        Let_def reconfigures_def abandons_def split: if_splits\<close>)
qed

lemma fresh_inflight: "b \<in> set (buildProxyBackendStates c []) \<Longrightarrow> bs_InFlight b = 0"
proof -
  have "b \<in> set (build_states c [] i us) \<Longrightarrow> bs_InFlight b = 0" for i us
    by (induction us arbitrary: i) (auto simp: build_state_def Let_def split: sum.splits)
  then show "b \<in> set (buildProxyBackendStates c []) \<Longrightarrow> ?thesis"
    unfolding buildProxyBackendStates_def by blast
qed

lemma find_in_set: "find P xs = Some x \<Longrightarrow> x \<in> set xs"
  by (auto simp: find_Some_iff)

text \<open>
  While attempts alone acquire and release backends, the in-flight counter of every
  backend is exactly the number of attempts that hold it, in every interleaving of
  acquisitions, failures, successes, releases and health checks.
\<close>

theorem inflight_counts_held_attempts:
  assumes "hm_run es (hm_start doc) = Some w" "list_all (\<lambda>e. \<not> reconfigures e \<and> \<not> abandons e) es"
    and "TrimSpace k \<noteq> []" "backend_of k w = Some b"
  shows "bs_InFlight b = int (holds k w)"
proof -
  have "exact k w0 \<Longrightarrow> hm_run es w0 = Some w \<Longrightarrow> exact k w" for w0
    using assms(2)
    by (induction es arbitrary: w0) (auto split: option.splits intro: exact_step [OF _ assms(3)])
  moreover have "exact k (hm_start doc)"
    by (auto simp: exact_def backend_of_def hm_start_def holds_def newUpstreamHealthMonitor_def Let_def
        split: if_splits dest!: find_in_set fresh_inflight)
  ultimately show ?thesis using assms(1,4) by (simp add: exact_def)
qed

lemma held_world_run:
  "hm_run [Acquire 0 probe_key] (hm_start probe_doc) \<noteq> None
   \<and> (case hm_run [Acquire 0 probe_key] (hm_start probe_doc) of None \<Rightarrow> False
      | Some w \<Rightarrow> backend_of probe_key w \<noteq> None \<and> holds probe_key w = 1)"
  by code_simp

theorem inflight_counts_held_attempts_witness:
  "\<exists>w b. hm_run [Acquire 0 probe_key] (hm_start probe_doc) = Some w \<and>
     backend_of probe_key w = Some b \<and> bs_InFlight b = int (holds probe_key w) \<and> holds probe_key w = 1"
proof -
  from held_world_run obtain w b where w: "hm_run [Acquire 0 probe_key] (hm_start probe_doc) = Some w"
    and b: "backend_of probe_key w = Some b" and h: "holds probe_key w = 1"
    by (auto split: option.splits)
  have "bs_InFlight b = int (holds probe_key w)"
    by (rule inflight_counts_held_attempts [OF w _ probe_key_not_blank b])
      (simp add: reconfigures_def abandons_def)
  with w b h show ?thesis by blast
qed

definition abandon_events :: "hm_event list" where
  "abandon_events = [Acquire 0 probe_key, Abandon probe_key]"

lemma abandon_run:
  "(case hm_run abandon_events (hm_start probe_doc) of None \<Rightarrow> False
    | Some w \<Rightarrow> holds probe_key w = 1 \<and>
        (case backend_of probe_key w of None \<Rightarrow> False | Some b \<Rightarrow> bs_InFlight b = 0))"
  by code_simp

text \<open>
  The handler's deferred release of a request it did not serve breaks that count: with one
  attempt in flight on a backend, a request that is blocked after its route was resolved
  (country block, rate limit, WAF) lowers the in-flight counter of that backend to zero,
  although it never acquired it.
\<close>

theorem abandoned_request_frees_a_slot_it_never_held:
  "\<exists>w b. hm_reachable probe_doc w \<and> backend_of probe_key w = Some b \<and>
       holds probe_key w = 1 \<and> bs_InFlight b = 0"
proof -
  from abandon_run obtain w b where "hm_run abandon_events (hm_start probe_doc) = Some w"
    "holds probe_key w = 1" "backend_of probe_key w = Some b" "bs_InFlight b = 0"
    by (auto split: option.splits)
  then show ?thesis using hm_run_reachable [OF hm_reachable.start] by blast
qed

end
