(* ===== verification/Go_Http.thy ===== *)
theory Go_Http
  imports Go_Url "HOL-Library.Multiset"
begin

text \<open>
  The part of \<open>net/http\<close>, \<open>net\<close> and \<open>encoding/base64\<close> the request path relies on: headers
  with canonical names, cookies, host and port, the unpadded URL alphabet of base64.  A
  header is a map from canonical names to lists of values.  The contract a header and the
  values of a query share is a locale, from which the effect of a list of remove, set and
  add operations follows once for both.
\<close>

type_synonym http_header = "(string \<times> string list) list"

text \<open>
  The body of a request: none, a stream that is read once (and may fail when read), or bytes
  that \<open>GetBody\<close> can deliver again.
\<close>

datatype request_body = NoBody | Stream "string result" | Replayable string

record Request =
  rq_Method :: string
  rq_Host :: string
  rq_URL :: URL
  rq_Header :: http_header
  rq_RemoteAddr :: string
  rq_Body :: request_body
  rq_ContentLength :: int

subsection \<open>Headers\<close>

definition hdr_values :: "http_header \<Rightarrow> string \<Rightarrow> string list" where
  \<comment> \<open>\<open>h[k]\<close>\<close>
  "hdr_values h k = (case map_of h k of None \<Rightarrow> [] | Some vs \<Rightarrow> vs)"

definition Header_Get :: "http_header \<Rightarrow> string \<Rightarrow> string" where
  "Header_Get h k = (case hdr_values h (CanonicalMIMEHeaderKey k) of [] \<Rightarrow> [] | v # vs \<Rightarrow> v)"

definition Header_Set :: "string \<Rightarrow> string \<Rightarrow> http_header \<Rightarrow> http_header" where
  "Header_Set k v h = aput (CanonicalMIMEHeaderKey k) [v] h"

definition Header_Add :: "string \<Rightarrow> string \<Rightarrow> http_header \<Rightarrow> http_header" where
  "Header_Add k v h = (let c = CanonicalMIMEHeaderKey k in aput c (hdr_values h c @ [v]) h)"

definition Header_Del :: "string \<Rightarrow> http_header \<Rightarrow> http_header" where
  "Header_Del k h = adel (CanonicalMIMEHeaderKey k) h"

subsection \<open>The contract of headers and query values\<close>

definition apply_ops ::
  "(string \<Rightarrow> 'm \<Rightarrow> 'm) \<Rightarrow> (string \<Rightarrow> string \<Rightarrow> 'm \<Rightarrow> 'm) \<Rightarrow> (string \<Rightarrow> string \<Rightarrow> 'm \<Rightarrow> 'm) \<Rightarrow>
   string list \<Rightarrow> gomap \<Rightarrow> gomap \<Rightarrow> 'm \<Rightarrow> 'm" where
  \<comment> \<open>remove the names of \<open>rem\<close>, then set, then add, in the given orders\<close>
  "apply_ops del st ad rem sets adds m =
     fold (\<lambda>(k, v). ad k v) adds (fold (\<lambda>(k, v). st k v) sets (fold del rem m))"

definition values_for :: "(string \<Rightarrow> string) \<Rightarrow> gomap \<Rightarrow> string \<Rightarrow> string list" where
  \<comment> \<open>the values of the entries whose name is \<open>x\<close> up to \<open>f\<close>, in their order\<close>
  "values_for f kvs x = map snd (filter (\<lambda>(k, v). f k = x) kvs)"

locale named_values =
  fixes lookup :: "'m \<Rightarrow> string \<Rightarrow> string list"
    and del :: "string \<Rightarrow> 'm \<Rightarrow> 'm"
    and st :: "string \<Rightarrow> string \<Rightarrow> 'm \<Rightarrow> 'm"
    and ad :: "string \<Rightarrow> string \<Rightarrow> 'm \<Rightarrow> 'm"
    and canon :: "string \<Rightarrow> string"
  assumes lookup_del: "lookup (del k m) x = (if x = canon k then [] else lookup m x)"
    and lookup_set: "lookup (st k v m) x = (if x = canon k then [v] else lookup m x)"
    and lookup_add: "lookup (ad k v m) x = (if x = canon k then lookup m x @ [v] else lookup m x)"
begin

lemma lookup_dels: "lookup (fold del rem m) x = (if x \<in> canon ` set rem then [] else lookup m x)"
  by (induction rem arbitrary: m) (auto simp: lookup_del)

lemma lookup_sets:
  "lookup (fold (\<lambda>(k, v). st k v) kvs m) x
     = (if values_for canon kvs x = [] then lookup m x else [last (values_for canon kvs x)])"
  by (induction kvs arbitrary: m) (auto simp: lookup_set values_for_def)

lemma lookup_adds: "lookup (fold (\<lambda>(k, v). ad k v) kvs m) x = lookup m x @ values_for canon kvs x"
  by (induction kvs arbitrary: m) (auto simp: lookup_add values_for_def)

lemma lookup_apply:
  "lookup (apply_ops del st ad rem sets adds m) x =
     (if values_for canon sets x \<noteq> [] then [last (values_for canon sets x)]
      else if x \<in> canon ` set rem then [] else lookup m x) @ values_for canon adds x"
  by (simp add: apply_ops_def lookup_adds lookup_sets lookup_dels)

end

lemma values_for_single:
  assumes "distinct (map (f \<circ> fst) kvs)" "(k, v) \<in> set kvs"
  shows "values_for f kvs (f k) = [v]"
  using assms
proof (induction kvs)
  case (Cons a kvs)
  obtain k' v' where a: "a = (k', v')" by (cases a)
  show ?case
  proof (cases "(k, v) = a")
    case True
    have "values_for f kvs (f k) = []"
      using Cons.prems(1) True by (auto simp: values_for_def filter_empty_conv image_iff)
    with True show ?thesis by (auto simp: values_for_def)
  next
    case False
    then have mem: "(k, v) \<in> set kvs" using Cons.prems(2) by simp
    then have "f k' \<noteq> f k" using Cons.prems(1) a by (force simp: image_iff)
    with Cons mem a show ?thesis by (auto simp: values_for_def)
  qed
qed simp

lemma values_for_none: "x \<notin> f ` fst ` set kvs \<Longrightarrow> values_for f kvs x = []"
  by (force simp: values_for_def filter_empty_conv image_iff)

text \<open>When no two entries share a name, their order does not matter.\<close>

lemma values_for_permute:
  assumes "mset kvs = mset kvs'" "distinct (map (f \<circ> fst) kvs)"
  shows "values_for f kvs x = values_for f kvs' x"
proof -
  have sets: "set kvs = set kvs'" using assms(1) by (rule mset_eq_setD)
  have d': "distinct (map (f \<circ> fst) kvs')"
    using assms by (metis mset_eq_imp_distinct_iff mset_map)
  show ?thesis
  proof (cases "x \<in> f ` fst ` set kvs")
    case True
    then obtain k v where kv: "(k, v) \<in> set kvs" and x: "x = f k" by auto
    with sets have kv': "(k, v) \<in> set kvs'" by simp
    show ?thesis
      using values_for_single [OF assms(2) kv] values_for_single [OF d' kv'] x by simp
  next
    case False
    with sets show ?thesis by (simp add: values_for_none)
  qed
qed

interpretation header: named_values hdr_values Header_Del Header_Set Header_Add CanonicalMIMEHeaderKey
  by unfold_locales
    (simp_all add: hdr_values_def Header_Del_def Header_Set_def Header_Add_def Let_def)

interpretation query: named_values values_get Values_Del Values_Set Values_Add "\<lambda>k. k"
  by unfold_locales
    (simp_all add: values_get_def Values_Del_def Values_Set_def Values_Add_def)

subsection \<open>Cookies\<close>

definition ascii_space :: "char \<Rightarrow> bool" where
  "ascii_space c = (c = CHR '' '' \<or> c = CHR 0x09 \<or> c = CHR 0x0A \<or> c = CHR 0x0D)"

definition TrimString :: "string \<Rightarrow> string" where
  \<comment> \<open>\<open>textproto.TrimString\<close>\<close>
  "TrimString s = rev (dropWhile ascii_space (rev (dropWhile ascii_space s)))"

definition valid_cookie_byte :: "char \<Rightarrow> bool" where
  "valid_cookie_byte c = (32 \<le> ord c \<and> ord c < 127 \<and> c \<noteq> CHR 0x22 \<and> c \<noteq> CHR '';'' \<and> ord c \<noteq> 92)"

definition parseCookieValue :: "string \<Rightarrow> string option" where
  "parseCookieValue raw =
     (let v = (if 1 < length raw \<and> hd raw = CHR 0x22 \<and> last raw = CHR 0x22 then butlast (tl raw) else raw)
      in if list_all valid_cookie_byte v then Some v else None)"

definition cookies_of_line :: "string \<Rightarrow> (string \<times> string) list" where
  \<comment> \<open>the name-value pairs of one \<open>Cookie\<close> line\<close>
  "cookies_of_line line = concat (map (\<lambda>p.
     let part = TrimString p; (n, v) = CutByte part (CHR ''=''); name = TrimString n in
     if part = [] \<or> name = [] \<or> \<not> list_all token_char name then []
     else case parseCookieValue v of None \<Rightarrow> [] | Some w \<Rightarrow> [(name, w)])
     (SplitByte (TrimString line) (CHR '';'')))"

definition Request_Cookie :: "Request \<Rightarrow> string \<Rightarrow> string option" where
  \<comment> \<open>\<open>r.Cookie(name)\<close>: \<open>None\<close> is \<open>ErrNoCookie\<close>\<close>
  "Request_Cookie r name =
     (if name = [] then None
      else map_option snd (find (\<lambda>(n, v). n = name)
             (concat (map cookies_of_line (hdr_values (rq_Header r) ''Cookie'')))))"

subsection \<open>Hosts and ports\<close>

definition net_SplitHostPort :: "string \<Rightarrow> (string \<times> string) result" where
  "net_SplitHostPort hp =
     (case LastIndexByte hp (CHR '':'') of
        None \<Rightarrow> err ''missing port in address'' []
      | Some i \<Rightarrow>
          (if hp ! 0 = CHR ''['' then
             (case IndexByte hp (CHR '']'') of
                None \<Rightarrow> err ''missing ']' in address'' []
              | Some e \<Rightarrow>
                  if e + 1 = length hp then err ''missing port in address'' []
                  else if e + 1 \<noteq> i then
                    (if hp ! (e + 1) = CHR '':'' then err ''too many colons in address'' []
                     else err ''missing port in address'' [])
                  else if IndexByte (drop 1 hp) (CHR ''['') \<noteq> None then err ''unexpected '[' in address'' []
                  else if IndexByte (drop (e + 1) hp) (CHR '']'') \<noteq> None then err ''unexpected ']' in address'' []
                  else Inr (drop 1 (take e hp), drop (i + 1) hp))
           else if IndexByte (take i hp) (CHR '':'') \<noteq> None then err ''too many colons in address'' []
           else if IndexByte hp (CHR ''['') \<noteq> None then err ''unexpected '[' in address'' []
           else if IndexByte hp (CHR '']'') \<noteq> None then err ''unexpected ']' in address'' []
           else Inr (take i hp, drop (i + 1) hp)))"

definition net_JoinHostPort :: "string \<Rightarrow> string \<Rightarrow> string" where
  "net_JoinHostPort host port =
     (if IndexByte host (CHR '':'') \<noteq> None then ''['' @ host @ '']:'' @ port else host @ '':'' @ port)"

definition removeEmptyPort :: "string \<Rightarrow> string" where
  \<comment> \<open>of \<open>http.NewRequest\<close>: a colon after the last bracket and without a port is dropped\<close>
  "removeEmptyPort host =
     (let colon = LastIndexByte host (CHR '':''); bracket = LastIndexByte host (CHR '']'') in
      case colon of
        None \<Rightarrow> host
      | Some i \<Rightarrow> if (case bracket of None \<Rightarrow> True | Some j \<Rightarrow> j < i) then TrimSuffix host '':'' else host)"

definition NewRequest :: "string \<Rightarrow> Request result" where
  \<comment> \<open>\<open>http.NewRequest(http.MethodGet, raw, nil)\<close>\<close>
  "NewRequest raw =
     bindR (url_Parse raw) (\<lambda>u. let h = removeEmptyPort (url_Host u) in
       Inr \<lparr>rq_Method = ''GET'', rq_Host = h, rq_URL = u\<lparr>url_Host := h\<rparr>, rq_Header = [], rq_RemoteAddr = [],
         rq_Body = NoBody, rq_ContentLength = 0\<rparr>)"

definition SetXForwarded :: "bool \<Rightarrow> Request \<Rightarrow> http_header \<Rightarrow> http_header" where
  \<comment> \<open>of \<open>httputil.ProxyRequest\<close>: whether the inbound connection uses TLS, the inbound request,
      the outbound header\<close>
  "SetXForwarded tls inr h =
     (let h1 = (case net_SplitHostPort (rq_RemoteAddr inr) of
                  Inr (ip, p) \<Rightarrow>
                    (let prior = hdr_values h ''X-Forwarded-For'' in
                     Header_Set ''X-Forwarded-For'' (if prior = [] then ip else join_with '', '' prior @ '', '' @ ip) h)
                | Inl e \<Rightarrow> Header_Del ''X-Forwarded-For'' h)
      in Header_Set ''X-Forwarded-Proto'' (if tls then ''https'' else ''http'')
           (Header_Set ''X-Forwarded-Host'' (rq_Host inr) h1))"

subsection \<open>Base64\<close>

definition b64_val :: "char \<Rightarrow> nat option" where
  \<comment> \<open>the URL alphabet\<close>
  "b64_val c =
     (if is_upper c then Some (ord c - 65)
      else if is_lower c then Some (ord c - 71)
      else if is_digit c then Some (ord c + 4)
      else if c = CHR ''-'' then Some 62
      else if c = CHR ''_'' then Some 63 else None)"

fun b64_groups :: "nat list \<Rightarrow> string option" where
  "b64_groups [] = Some []"
| "b64_groups [a] = None"
| "b64_groups [a, b] = Some [char_of (4 * a + b div 16)]"
| "b64_groups [a, b, c] = Some [char_of (4 * a + b div 16), char_of (16 * (b mod 16) + c div 4)]"
| "b64_groups (a # b # c # d # s) =
     (case b64_groups s of None \<Rightarrow> None
      | Some r \<Rightarrow> Some (char_of (4 * a + b div 16) # char_of (16 * (b mod 16) + c div 4)
                         # char_of (64 * (c mod 4) + d) # r))"

definition RawURLDecode :: "string \<Rightarrow> string option" where
  \<comment> \<open>\<open>base64.RawURLEncoding.DecodeString\<close>: newlines are skipped, trailing bits ignored\<close>
  "RawURLDecode s =
     (let vs = map b64_val (filter (\<lambda>c. c \<noteq> CHR 0x0A \<and> c \<noteq> CHR 0x0D) s) in
      if None \<in> set vs then None else b64_groups (map the vs))"

end
