(* ===== verification/Rate_Identity.thy ===== *)
theory Rate_Identity
  imports Go_Http Go_Sha256
begin

text \<open>
  \<open>rate_limit_identity.go\<close>: the identity a rate-limit bucket is keyed by (session cookie,
  subject of a bearer token, client address, country), the normalisation of its settings,
  and the adaptive scaling of a policy by the risk score of a request.  The target
  selection uses the same token subject.

  Decoding the payload of a token with \<open>encoding/json\<close> is the parameter \<open>json_sub\<close>: the
  string stored under \<open>sub\<close> when the bytes are a JSON object that holds one, and the empty
  string when they are not or do not.
\<close>

record rateLimitIdentityConfig =
  ri_SessionCookieNames :: "string list"
  ri_JWTHeaderNames :: "string list"
  ri_JWTCookieNames :: "string list"
  ri_AdaptiveEnabled :: bool
  ri_AdaptiveScoreThreshold :: int
  ri_AdaptiveLimitFactorPct :: int
  ri_AdaptiveBurstFactorPct :: int

record rateLimitIdentity =
  id_Session :: string
  id_JWTSub :: string

record rateLimitAction =
  ra_Status :: int
  ra_RetryAfterSeconds :: int

record rateLimitPolicy =
  rp_Enabled :: bool
  rp_Limit :: int
  rp_WindowSeconds :: int
  rp_Burst :: int
  rp_KeyBy :: string
  rp_Action :: rateLimitAction

definition defaultRateLimitSessionCookieNames :: "string list" where
  "defaultRateLimitSessionCookieNames = [''session'', ''sid'', ''connect.sid'', ''_session'']"

definition defaultRateLimitJWTHeaderNames :: "string list" where
  "defaultRateLimitJWTHeaderNames = [''Authorization'', ''X-Auth-Token'']"

definition defaultRateLimitJWTCookieNames :: "string list" where
  "defaultRateLimitJWTCookieNames = [''token'', ''access_token'', ''jwt'']"

subsection \<open>Settings\<close>

fun fold_names :: "string list \<Rightarrow> string set \<Rightarrow> string list" where
  \<comment> \<open>trimmed, without empty entries, the first of every group equal up to letter case\<close>
  "fold_names [] seen = []"
| "fold_names (x # xs) seen =
     (let v = TrimSpace x; k = ToLower v in
      if v = [] then fold_names xs seen
      else if k \<in> seen then fold_names xs seen
      else v # fold_names xs (insert k seen))"

definition normalizeRateLimitNameList :: "string list \<Rightarrow> string list \<Rightarrow> string list" where
  "normalizeRateLimitNameList xs fallback =
     (let values = fold_names xs {} in if values \<noteq> [] then values else fallback)"

definition normalizeRateLimitIdentityConfig :: "rateLimitIdentityConfig \<Rightarrow> rateLimitIdentityConfig" where
  "normalizeRateLimitIdentityConfig c =
     (let c1 = c\<lparr>
        ri_SessionCookieNames := normalizeRateLimitNameList (ri_SessionCookieNames c) defaultRateLimitSessionCookieNames,
        ri_JWTHeaderNames := normalizeRateLimitNameList (ri_JWTHeaderNames c) defaultRateLimitJWTHeaderNames,
        ri_JWTCookieNames := normalizeRateLimitNameList (ri_JWTCookieNames c) defaultRateLimitJWTCookieNames\<rparr>
      in if ri_AdaptiveEnabled c1 then c1\<lparr>
           ri_AdaptiveScoreThreshold := (if ri_AdaptiveScoreThreshold c1 \<le> 0 then 6 else ri_AdaptiveScoreThreshold c1),
           ri_AdaptiveLimitFactorPct := (if ri_AdaptiveLimitFactorPct c1 \<le> 0 then 50 else ri_AdaptiveLimitFactorPct c1),
           ri_AdaptiveBurstFactorPct := (if ri_AdaptiveBurstFactorPct c1 \<le> 0 then 50 else ri_AdaptiveBurstFactorPct c1)\<rparr>
         else c1)"

subsection \<open>Identity of a request\<close>

definition clampRateLimitIdentityToken :: "string \<Rightarrow> string" where
  "clampRateLimitIdentityToken raw =
     (let v = TrimSpace raw in if v = [] then [] else if 128 < length v then take 128 v else v)"

definition parseJWTSubject :: "(string \<Rightarrow> string) \<Rightarrow> string \<Rightarrow> string" where
  "parseJWTSubject json_sub token =
     (if token = [] \<or> 4096 < length token then []
      else case SplitByte token (CHR ''.'') of
             header # payload # rest \<Rightarrow>
               if payload = [] \<or> 3072 < length payload then []
               else (case RawURLDecode payload of
                       None \<Rightarrow> []
                     | Some data \<Rightarrow> (let sub = json_sub data in
                                     if sub \<noteq> [] then clampRateLimitIdentityToken sub else []))
           | _ \<Rightarrow> [])"

fun extractRateLimitSession :: "Request \<Rightarrow> string list \<Rightarrow> string" where
  "extractRateLimitSession r [] = []"
| "extractRateLimitSession r (name # names) =
     (case Request_Cookie r name of
        None \<Rightarrow> extractRateLimitSession r names
      | Some c \<Rightarrow> (let value = clampRateLimitIdentityToken c in
                   if value \<noteq> [] then value else extractRateLimitSession r names))"

fun jwt_from_headers :: "(string \<Rightarrow> string) \<Rightarrow> Request \<Rightarrow> string list \<Rightarrow> string" where
  "jwt_from_headers json_sub r [] = []"
| "jwt_from_headers json_sub r (name # names) =
     (let token = TrimSpace (Header_Get (rq_Header r) name) in
      if token = [] then jwt_from_headers json_sub r names
      else (let t = (if Contains (ToLower name) ''authorization''
                     then TrimSpace (TrimPrefix (TrimSpace (TrimPrefix token ''Bearer '')) ''bearer '')
                     else token);
                sub = parseJWTSubject json_sub t
            in if sub \<noteq> [] then sub else jwt_from_headers json_sub r names))"

fun jwt_from_cookies :: "(string \<Rightarrow> string) \<Rightarrow> Request \<Rightarrow> string list \<Rightarrow> string" where
  "jwt_from_cookies json_sub r [] = []"
| "jwt_from_cookies json_sub r (name # names) =
     (case Request_Cookie r name of
        None \<Rightarrow> jwt_from_cookies json_sub r names
      | Some c \<Rightarrow> (let sub = parseJWTSubject json_sub (TrimSpace c) in
                   if sub \<noteq> [] then sub else jwt_from_cookies json_sub r names))"

definition extractRateLimitJWTSub :: "(string \<Rightarrow> string) \<Rightarrow> Request \<Rightarrow> string list \<Rightarrow> string list \<Rightarrow> string" where
  "extractRateLimitJWTSub json_sub r headerNames cookieNames =
     (let sub = jwt_from_headers json_sub r headerNames in
      if sub \<noteq> [] then sub else jwt_from_cookies json_sub r cookieNames)"

definition extractRateLimitIdentity :: "(string \<Rightarrow> string) \<Rightarrow> Request \<Rightarrow> rateLimitIdentityConfig \<Rightarrow> rateLimitIdentity" where
  "extractRateLimitIdentity json_sub r c =
     \<lparr>id_Session = extractRateLimitSession r (ri_SessionCookieNames c),
      id_JWTSub = extractRateLimitJWTSub json_sub r (ri_JWTHeaderNames c) (ri_JWTCookieNames c)\<rparr>"

definition fallbackRateLimitIdentity :: "string \<Rightarrow> string \<Rightarrow> string" where
  "fallbackRateLimitIdentity value ip = (if value \<noteq> [] then value else ip)"

definition buildRateLimitKey :: "string \<Rightarrow> string \<Rightarrow> string \<Rightarrow> rateLimitIdentity \<Rightarrow> string" where
  "buildRateLimitKey kind ip country ident =
     (let sessionKey = fallbackRateLimitIdentity (id_Session ident) ip;
          jwtKey = fallbackRateLimitIdentity (id_JWTSub ident) ip
      in if kind = ''country'' then country
         else if kind = ''ip_country'' then (if ip = [] then country else ip @ ''|'' @ country)
         else if kind = ''session'' then sessionKey
         else if kind = ''ip_session'' then (if ip = [] then sessionKey else ip @ ''|'' @ sessionKey)
         else if kind = ''jwt_sub'' then jwtKey
         else if kind = ''ip_jwt_sub'' then (if ip = [] then jwtKey else ip @ ''|'' @ jwtKey)
         else ip)"

definition hashRateLimitKey :: "string \<Rightarrow> string" where
  "hashRateLimitKey raw = hex_encode (take 8 (sha256 raw))"

subsection \<open>Adaptive scaling\<close>

definition clampAdaptivePercent :: "int \<Rightarrow> int" where
  "clampAdaptivePercent v = (if v < 10 then 10 else if 100 < v then 100 else v)"

definition scaleRateLimitValue :: "int \<Rightarrow> int \<Rightarrow> int \<Rightarrow> int" where
  "scaleRateLimitValue base pct mn =
     (if base \<le> 0 then 0
      else let scaled = quot (i64 (i64 (base * pct) + 99)) 100 in
           if scaled < mn then mn else scaled)"

definition applyAdaptiveRateLimit :: "rateLimitIdentityConfig \<Rightarrow> rateLimitPolicy \<Rightarrow> int \<Rightarrow> rateLimitPolicy \<times> bool" where
  "applyAdaptiveRateLimit c policy riskScore =
     (if \<not> ri_AdaptiveEnabled c \<or> riskScore < ri_AdaptiveScoreThreshold c then (policy, False)
      else let over = i64 (riskScore - ri_AdaptiveScoreThreshold c);
               limitPct = clampAdaptivePercent (i64 (ri_AdaptiveLimitFactorPct c - i64 (over * 10)));
               burstPct = clampAdaptivePercent (i64 (ri_AdaptiveBurstFactorPct c - i64 (over * 10)))
           in (policy\<lparr>rp_Limit := scaleRateLimitValue (rp_Limit policy) limitPct 1,
                      rp_Burst := scaleRateLimitValue (rp_Burst policy) burstPct 0\<rparr>, True))"

subsection \<open>Facts\<close>

lemma clamp_length: "length (clampRateLimitIdentityToken raw) \<le> 128"
  by (auto simp: clampRateLimitIdentityToken_def Let_def)

lemma parseJWTSubject_length: "length (parseJWTSubject js t) \<le> 128"
  by (auto simp: parseJWTSubject_def Let_def clamp_length split: list.split option.split)

lemma extractRateLimitSession_length: "length (extractRateLimitSession r names) \<le> 128"
  by (induction names) (auto simp: Let_def clamp_length split: option.split)

lemma jwt_from_headers_length: "length (jwt_from_headers js r names) \<le> 128"
  by (induction names) (auto simp: Let_def parseJWTSubject_length)

lemma jwt_from_cookies_length: "length (jwt_from_cookies js r names) \<le> 128"
  by (induction names) (auto simp: Let_def parseJWTSubject_length split: option.split)

lemma extractRateLimitJWTSub_length: "length (extractRateLimitJWTSub js r hs cs) \<le> 128"
  by (auto simp: extractRateLimitJWTSub_def Let_def jwt_from_headers_length jwt_from_cookies_length)

lemma clampAdaptive_range: "10 \<le> clampAdaptivePercent v \<and> clampAdaptivePercent v \<le> 100"
  by (simp add: clampAdaptivePercent_def)

text \<open>
  Scaling neither raises a value nor makes it negative, as long as the product with the
  percentage stays in the 64-bit range.
\<close>

definition scalable :: "int \<Rightarrow> bool" where
  "scalable v = (v * 100 + 99 < 2 ^ 63)"

lemma scale_bounds:
  assumes "scalable base" "10 \<le> pct" "pct \<le> 100" "mn \<le> 1" "0 \<le> mn"
  shows "0 \<le> scaleRateLimitValue base pct mn \<and> (0 \<le> base \<longrightarrow> scaleRateLimitValue base pct mn \<le> base)
    \<and> (0 < base \<longrightarrow> 0 < scaleRateLimitValue base pct mn)"
proof (cases "base \<le> 0")
  case False
  then have b: "0 < base" by simp
  have le: "base * pct \<le> base * 100" using b assms(3) by (intro mult_left_mono) simp_all
  have ge: "base * 10 \<le> base * pct" using b assms(2) by (intro mult_left_mono) simp_all
  have "base * pct + 99 < 2 ^ 63" using le assms(1) by (simp add: scalable_def)
  moreover have nn: "0 \<le> base * pct" using ge b by linarith
  ultimately have i: "i64 (i64 (base * pct) + 99) = base * pct + 99"
    by (subst i64_id [of "base * pct"]; simp add: i64_id)
  have q: "quot (base * pct + 99) 100 = (base * pct + 99) div 100"
    using ge b by (intro quot_nonneg) simp_all
  have "1 \<le> (base * pct + 99) div 100" using ge b by (simp add: pos_imp_zdiv_pos_iff int_one_le_iff_zero_less)
  moreover have "(base * pct + 99) div 100 \<le> base" using le by simp
  ultimately show ?thesis using b i q assms(4) by (auto simp: scaleRateLimitValue_def Let_def)
qed (auto simp: scaleRateLimitValue_def)

lemma scale_mono:
  assumes "scalable b" "0 \<le> a" "a \<le> b" "10 \<le> p" "p \<le> q" "q \<le> 100" "mn \<le> 1" "0 \<le> mn"
  shows "scaleRateLimitValue a p mn \<le> scaleRateLimitValue b q mn"
proof (cases "a = 0")
  case True
  then show ?thesis using scale_bounds [of b q mn] assms by (simp add: scaleRateLimitValue_def)
next
  case False
  then have pos: "0 < a" "0 < b" using assms by simp_all
  have le: "a * p \<le> b * q" using assms pos by (intro mult_mono) simp_all
  have top: "b * q + 99 < 2 ^ 63"
    using mult_left_mono [of q 100 b] pos assms(1,6) unfolding scalable_def by linarith
  have nn: "0 \<le> a * p" using pos assms by simp
  have "(a * p + 99) div 100 \<le> (b * q + 99) div 100" using le by (intro zdiv_mono1) simp_all
  moreover have "i64 (i64 (a * p) + 99) = a * p + 99" "i64 (i64 (b * q) + 99) = b * q + 99"
    using nn le top by (subst i64_id [of "a * p"]; simp add: i64_id; fail)
      (use nn le top in \<open>subst i64_id [of "b * q"]; simp add: i64_id\<close>)
  moreover have "quot (a * p + 99) 100 = (a * p + 99) div 100" "quot (b * q + 99) 100 = (b * q + 99) div 100"
    using nn le by (simp_all add: quot_nonneg)
  ultimately show ?thesis using pos by (simp add: scaleRateLimitValue_def Let_def)
qed

end
