(* ===== verification/Proxy_Selection.thy ===== *)
theory Proxy_Selection
  imports Backend_Health Rate_Identity
begin

text \<open>
  \<open>proxy_selection.go\<close>: the retry policy, the target candidates of a route action, and the
  order in which a request tries them.  The candidates a request may use (unmanaged, or
  selectable by the health monitor) come first, ordered by load, by the hash of a value of
  the request, or by a weighted cursor the whole process shares; the others follow.

  The cursor \<open>proxySelectionCursor\<close> is a 64-bit word passed in and returned; the maps of the
  retry policy are lists of their keys.
\<close>

record proxyRetryPolicy =
  rt_Attempts :: int
  rt_Backoff :: int
  rt_PerTryTimeout :: int
  rt_StatusCodes :: "int list"
  rt_Methods :: "string list"

record proxyRouteTargetCandidate =
  tc_Key :: string
  tc_Name :: string
  tc_Target :: URL
  tc_Weight :: int
  tc_Managed :: bool

record proxyRouteTargetSelectionOptions =
  so_HashPolicy :: string
  so_HashKey :: string
  so_UseLeastConn :: bool

record proxyCandidateAvailability =
  av_Selectable :: bool
  av_InFlight :: int

subsection \<open>The retry policy\<close>

abbreviation millisecond :: int where
  "millisecond \<equiv> 1000000"

definition proxyBuildRetryPolicy :: "ProxyRulesConfig \<Rightarrow> proxyRetryPolicy" where
  "proxyBuildRetryPolicy c =
     \<lparr>rt_Attempts = cf_RetryAttempts c,
      rt_Backoff = cf_RetryBackoffMS c * millisecond,
      rt_PerTryTimeout = (if 0 < cf_RetryPerTryTimeoutMS c then cf_RetryPerTryTimeoutMS c * millisecond else 0),
      rt_StatusCodes = (if cf_RetryStatusCodes c = [] then [502, 503, 504] else cf_RetryStatusCodes c),
      rt_Methods = map (\<lambda>m. ToUpper (TrimSpace m))
        (if cf_RetryMethods c = [] then [''GET'', ''HEAD'', ''OPTIONS''] else cf_RetryMethods c)\<rparr>"

definition retry_Enabled :: "proxyRetryPolicy \<Rightarrow> bool" where
  "retry_Enabled p = (0 < rt_Attempts p)"

definition AllowsMethod :: "proxyRetryPolicy \<Rightarrow> string \<Rightarrow> bool" where
  "AllowsMethod p m = (retry_Enabled p \<and> ToUpper (TrimSpace m) \<in> set (rt_Methods p))"

definition RetryableStatus :: "proxyRetryPolicy \<Rightarrow> int \<Rightarrow> bool" where
  "RetryableStatus p code = (code \<in> set (rt_StatusCodes p))"

subsection \<open>Candidates\<close>

definition proxyPositiveWeight :: "int \<Rightarrow> int" where
  "proxyPositiveWeight v = (if v \<le> 0 then 1 else v)"

definition proxyConfiguredUpstreams :: "ProxyRulesConfig \<Rightarrow> ProxyUpstream list" where
  "proxyConfiguredUpstreams c =
     (if cf_Upstreams c \<noteq> [] then cf_Upstreams c
      else if TrimSpace (cf_UpstreamURL c) = [] then []
      else [\<lparr>up_Name = ''primary'', up_URL = cf_UpstreamURL c, up_Weight = 1, up_Enabled = True\<rparr>])"

definition managed :: "string \<Rightarrow> URL \<Rightarrow> int \<Rightarrow> proxyRouteTargetCandidate" where
  \<comment> \<open>the candidate literal of a configured upstream\<close>
  "managed name target weight =
     \<lparr>tc_Key = proxyBackendLookupKey name (URL_String target), tc_Name = name, tc_Target = target,
      tc_Weight = proxyPositiveWeight weight, tc_Managed = True\<rparr>"

definition proxyRouteTargetCandidateFromRef ::
  "ProxyRulesConfig \<Rightarrow> string \<Rightarrow> int \<Rightarrow> proxyRouteTargetCandidate result" where
  "proxyRouteTargetCandidateFromRef c ref0 weight =
     (let ref = TrimSpace ref0 in
      case parseProxyUpstreamURL ''action.upstream'' ref of
        Inr target \<Rightarrow>
          (case find (\<lambda>u. TrimSpace (up_URL u) = URL_String target) (cf_Upstreams c) of
             Some u \<Rightarrow> Inr (managed (up_Name u) target weight)
           | None \<Rightarrow> Inr \<lparr>tc_Key = [], tc_Name = ref, tc_Target = target,
                         tc_Weight = proxyPositiveWeight weight, tc_Managed = False\<rparr>)
      | Inl _ \<Rightarrow>
          (case find (\<lambda>u. up_Name u = ref) (cf_Upstreams c) of
             None \<Rightarrow> err ''unknown upstream reference %q'' [ref]
           | Some u \<Rightarrow> bindR (parseProxyUpstreamURL ''action.upstream'' (up_URL u)) (\<lambda>target.
                Inr (managed (up_Name u) target weight))))"

fun candidates_of :: "ProxyUpstream list \<Rightarrow> proxyRouteTargetCandidate list result" where
  \<comment> \<open>the final loop of \<open>buildProxyRouteTargetCandidates\<close>\<close>
  "candidates_of [] = Inr []"
| "candidates_of (u # us) =
     bindR (parseProxyUpstreamURL ''upstream_url'' (up_URL u)) (\<lambda>target.
     bindR (candidates_of us) (\<lambda>rest. Inr (managed (up_Name u) target (up_Weight u) # rest)))"

definition selection_options :: "ProxyRulesConfig \<Rightarrow> ProxyRouteAction \<Rightarrow> proxyRouteTargetSelectionOptions" where
  \<comment> \<open>the head of \<open>buildProxyRouteTargetCandidates\<close>\<close>
  "selection_options c a =
     (if ac_HashPolicy a \<noteq> []
      then \<lparr>so_HashPolicy = ac_HashPolicy a, so_HashKey = ac_HashKey a,
            so_UseLeastConn = (cf_LoadBalancingStrategy c = ''least_conn'')\<rparr>
      else \<lparr>so_HashPolicy = cf_HashPolicy c, so_HashKey = cf_HashKey c,
            so_UseLeastConn = (cf_LoadBalancingStrategy c = ''least_conn'')\<rparr>)"

definition buildProxyRouteTargetCandidates ::
  "ProxyRulesConfig \<Rightarrow> ProxyRouteAction
     \<Rightarrow> (proxyRouteTargetCandidate list \<times> proxyRouteTargetSelectionOptions) result" where
  "buildProxyRouteTargetCandidates c a =
     (let options = selection_options c a in
      if TrimSpace (ac_CanaryUpstream a) \<noteq> [] then
        bindR (proxyRouteTargetCandidateFromRef c (ac_Upstream a) (100 - ac_CanaryWeightPct a)) (\<lambda>primary.
        bindR (proxyRouteTargetCandidateFromRef c (ac_CanaryUpstream a) (ac_CanaryWeightPct a)) (\<lambda>canary.
          Inr ([primary, canary], options\<lparr>so_UseLeastConn := False\<rparr>)))
      else if TrimSpace (ac_Upstream a) \<noteq> [] then
        bindR (proxyRouteTargetCandidateFromRef c (ac_Upstream a) 1) (\<lambda>cand. Inr ([cand], options))
      else bindR (candidates_of (proxyConfiguredUpstreams c)) (\<lambda>out. Inr (out, options)))"

subsection \<open>Availability\<close>

definition availability_of :: "upstreamHealthMonitor \<Rightarrow> int \<Rightarrow> proxyRouteTargetCandidate \<Rightarrow> proxyCandidateAvailability" where
  \<comment> \<open>the body of the loop over the candidates; the map of backends keeps the last of a key\<close>
  "availability_of m now c =
     (if \<not> tc_Managed c then \<lparr>av_Selectable = True, av_InFlight = 0\<rparr>
      else case find (\<lambda>b. bs_Key b = tc_Key c) (rev (hm_backends m)) of
             None \<Rightarrow> \<lparr>av_Selectable = True, av_InFlight = 0\<rparr>
           | Some b \<Rightarrow> \<lparr>av_Selectable = proxyBackendSelectableLocked (hm_cfg m) b now,
                        av_InFlight = bs_InFlight b\<rparr>)"

definition proxyCandidateAvailabilities ::
  "upstreamHealthMonitor option \<Rightarrow> int \<Rightarrow> proxyRouteTargetCandidate list \<Rightarrow> (string \<times> proxyCandidateAvailability) list" where
  "proxyCandidateAvailabilities health now cands =
     (case health of None \<Rightarrow> []
      | Some m \<Rightarrow> aput_all (map (\<lambda>c. (tc_Key c, availability_of m now c)) cands) [])"

definition available :: "(string \<times> proxyCandidateAvailability) list \<Rightarrow> string \<Rightarrow> proxyCandidateAvailability" where
  \<comment> \<open>\<open>availability[key]\<close>, with the zero value for a missing key\<close>
  "available av k = (case map_of av k of None \<Rightarrow> \<lparr>av_Selectable = False, av_InFlight = 0\<rparr> | Some a \<Rightarrow> a)"

definition is_eligible :: "(string \<times> proxyCandidateAvailability) list \<Rightarrow> proxyRouteTargetCandidate \<Rightarrow> bool" where
  "is_eligible av c = (\<not> tc_Managed c \<or> av_Selectable (available av (tc_Key c)))"

subsection \<open>Choosing the first target\<close>

definition requestRemoteIP :: "Request \<Rightarrow> string" where
  "requestRemoteIP r =
     (let host = TrimSpace (rq_RemoteAddr r) in
      case LastIndexByte host (CHR '':'') of
        None \<Rightarrow> host
      | Some i \<Rightarrow> if 0 < i then take i host else host)"

definition proxyRouteSelectionValue :: "proxy_env \<Rightarrow> Request \<Rightarrow> string \<Rightarrow> string \<Rightarrow> string" where
  "proxyRouteSelectionValue env r policy key =
     (let p = normalizeProxyHashPolicy policy in
      if p = ''client_ip'' then
        (let forwarded = TrimSpace (Header_Get (rq_Header r) ''X-Forwarded-For'') in
         if forwarded \<noteq> [] then TrimSpace (hd (SplitByte forwarded (CHR '','')))
         else requestRemoteIP r)
      else if p = ''header'' then TrimSpace (Header_Get (rq_Header r) key)
      else if p = ''cookie'' then
        (case Request_Cookie r key of None \<Rightarrow> [] | Some v \<Rightarrow> TrimSpace v)
      else if p = ''jwt_sub'' then
        extractRateLimitJWTSub (env_JSONSub env) r defaultRateLimitJWTHeaderNames defaultRateLimitJWTCookieNames
      else [])"

definition eligible_weights :: "proxyRouteTargetCandidate list \<Rightarrow> int list" where
  "eligible_weights es = map (\<lambda>c. proxyPositiveWeight (tc_Weight c)) es"

definition pick_position :: "int \<Rightarrow> int list \<Rightarrow> nat" where
  \<comment> \<open>the position whose cumulative weight exceeds the number; 0 when none does\<close>
  "pick_position n ws = (case weighted_pick n 0 (map (\<lambda>w. ((), w)) ws) 0 of Some p \<Rightarrow> p | None \<Rightarrow> 0)"

definition proxyWeightedCursorIndex :: "proxyRouteTargetCandidate list \<Rightarrow> 64 word \<Rightarrow> nat \<times> 64 word" where
  \<comment> \<open>\<open>atomic.AddUint64(&proxySelectionCursor, 1) - 1\<close> is the old cursor\<close>
  "proxyWeightedCursorIndex es cur =
     (let total = total_weight (eligible_weights es) in
      if total \<le> 0 then (0, cur)
      else (pick_position (uint cur mod total) (eligible_weights es), cur + 1))"

definition proxyWeightedHashIndex :: "proxyRouteTargetCandidate list \<Rightarrow> string \<Rightarrow> 64 word \<Rightarrow> nat \<times> 64 word" where
  "proxyWeightedHashIndex es value cur =
     (if TrimSpace value = [] then proxyWeightedCursorIndex es cur
      else let total = total_weight (eligible_weights es) in
           if total \<le> 0 then (0, cur)
           else (pick_position (uint (sha256_head64 value) mod total) (eligible_weights es), cur))"

definition less_loaded ::
  "(string \<times> proxyCandidateAvailability) list \<Rightarrow> proxyRouteTargetCandidate \<Rightarrow> proxyRouteTargetCandidate \<Rightarrow> bool" where
  "less_loaded av a b =
     (let left = i64 (av_InFlight (available av (tc_Key a)) * proxyPositiveWeight (tc_Weight b));
          right = i64 (av_InFlight (available av (tc_Key b)) * proxyPositiveWeight (tc_Weight a))
      in if left = right then string_less (tc_Name a) (tc_Name b) else left < right)"

definition to_front :: "nat \<Rightarrow> 'a list \<Rightarrow> 'a list" where
  "to_front i xs = xs ! i # take i xs @ drop (Suc i) xs"

definition orderProxyRouteCandidates ::
  "proxy_env \<Rightarrow> Request \<Rightarrow> proxyRouteTargetCandidate list \<Rightarrow> proxyRouteTargetSelectionOptions
     \<Rightarrow> upstreamHealthMonitor option \<Rightarrow> int \<Rightarrow> 64 word \<Rightarrow> proxyRouteTargetCandidate list \<times> 64 word" where
  "orderProxyRouteCandidates env r cands opts health now cur =
     (if length cands \<le> 1 then (cands, cur)
      else let av = proxyCandidateAvailabilities health now cands;
               es0 = filter (is_eligible av) cands;
               fb0 = filter (\<lambda>c. \<not> is_eligible av c) cands;
               (es, fb) = (if es0 = [] then (fb0, []) else (es0, fb0))
           in if so_UseLeastConn opts \<and> 1 < length es then (sort_by (less_loaded av) es @ fb, cur)
              else if so_HashPolicy opts \<noteq> [] then
                (case proxyWeightedHashIndex es (proxyRouteSelectionValue env r (so_HashPolicy opts) (so_HashKey opts)) cur of
                   (sel, cur') \<Rightarrow> (to_front sel es @ fb, cur'))
              else (case proxyWeightedCursorIndex es cur of
                      (sel, cur') \<Rightarrow> (rotate sel es @ fb, cur')))"

definition resolveProxyRouteTargets ::
  "proxy_env \<Rightarrow> Request \<Rightarrow> ProxyRulesConfig \<Rightarrow> ProxyRouteAction \<Rightarrow> upstreamHealthMonitor option \<Rightarrow> int \<Rightarrow> 64 word
     \<Rightarrow> (proxyRouteTargetCandidate list \<times> 64 word) result" where
  "resolveProxyRouteTargets env r c a health now cur =
     bindR (buildProxyRouteTargetCandidates c a) (\<lambda>(cands, opts).
       Inr (orderProxyRouteCandidates env r cands opts health now cur))"

subsection \<open>Weighted choice\<close>

lemma weighted_pick_bound: "weighted_pick n acc xs pos = Some p \<Longrightarrow> pos \<le> p \<and> p < pos + length xs"
  by (induction n acc xs pos rule: weighted_pick.induct) (fastforce split: if_splits)+

lemma pick_position_bound: "ws \<noteq> [] \<Longrightarrow> pick_position n ws < length ws"
  using weighted_pick_bound [of n 0 "map (\<lambda>w. ((), w)) ws" 0]
  by (auto simp: pick_position_def split: option.split)

lemma total_weight_sum:
  assumes "\<forall>w\<in>set ws. 0 \<le> w" "0 \<le> a" "a + sum_list ws < 2 ^ 63"
  shows "foldl (\<lambda>a w. i64 (a + w)) a ws = a + sum_list ws"
  using assms
proof (induction ws arbitrary: a)
  case (Cons w ws)
  then have "0 \<le> sum_list ws" by (simp add: sum_list_nonneg)
  with Cons.prems have "i64 (a + w) = a + w" by (intro i64_id) auto
  with Cons show ?case by simp
qed simp

lemma total_weight_eq: "\<forall>w\<in>set ws. 0 \<le> w \<Longrightarrow> sum_list ws < 2 ^ 63 \<Longrightarrow> total_weight ws = sum_list ws"
  using total_weight_sum [of ws 0] by (simp add: total_weight_def)

lemma weighted_pick_interval:
  assumes "\<forall>w\<in>set ws. 0 < w" "0 \<le> acc" "acc + sum_list ws < 2 ^ 63" "acc \<le> n" "n < acc + sum_list ws"
  shows "\<exists>p<length ws. weighted_pick n acc (map (\<lambda>w. ((), w)) ws) pos = Some (pos + p)
    \<and> acc + sum_list (take p ws) \<le> n \<and> n < acc + sum_list (take (Suc p) ws)"
  using assms
proof (induction ws arbitrary: acc pos)
  case (Cons w ws)
  then have s: "0 \<le> sum_list ws" by (auto intro!: sum_list_nonneg simp: less_imp_le)
  with Cons.prems have i: "i64 (acc + w) = acc + w" by (intro i64_id) auto
  show ?case
  proof (cases "n < acc + w")
    case True
    with Cons.prems i show ?thesis by (intro exI [of _ 0]) simp
  next
    case False
    have "\<exists>p<length ws. weighted_pick n (acc + w) (map (\<lambda>w. ((), w)) ws) (Suc pos) = Some (Suc pos + p)
      \<and> acc + w + sum_list (take p ws) \<le> n \<and> n < acc + w + sum_list (take (Suc p) ws)"
      using Cons.prems False by (intro Cons.IH) auto
    then obtain p where "p < length ws" "weighted_pick n (acc + w) (map (\<lambda>w. ((), w)) ws) (Suc pos) = Some (Suc pos + p)"
      "acc + w + sum_list (take p ws) \<le> n" "n < acc + w + sum_list (take (Suc p) ws)" by blast
    with False i show ?thesis by (intro exI [of _ "Suc p"]) (simp add: add.assoc)
  qed
qed simp

lemma prefix_sums_mono:
  "\<forall>w\<in>set ws. 0 \<le> (w :: int) \<Longrightarrow> p \<le> q \<Longrightarrow> sum_list (take p ws) \<le> sum_list (take q ws)"
proof (induction ws arbitrary: p q)
  case (Cons w ws)
  then show ?case
    by (cases p; cases q) (auto intro!: add_nonneg_nonneg sum_list_nonneg dest: in_set_takeD)
qed simp

lemma pick_position_iff:
  assumes pos: "\<forall>w\<in>set ws. 0 < w" and "sum_list ws < 2 ^ 63" "0 \<le> n" "n < sum_list ws" and p: "p < length ws"
  shows "pick_position n ws = p \<longleftrightarrow> sum_list (take p ws) \<le> n \<and> n < sum_list (take (Suc p) ws)"
proof -
  obtain q where q: "q < length ws" "pick_position n ws = q" "sum_list (take q ws) \<le> n"
    "n < sum_list (take (Suc q) ws)"
    using weighted_pick_interval [of ws 0 n 0] assms by (auto simp: pick_position_def)
  have mono: "Suc i \<le> j \<Longrightarrow> sum_list (take (Suc i) ws) \<le> sum_list (take j ws)" for i j
    by (intro prefix_sums_mono) (use pos in \<open>auto simp: less_imp_le\<close>)
  show ?thesis
    using q mono [of p q] mono [of q p] by (cases p q rule: linorder_cases) auto
qed

text \<open>Of the numbers below the total, exactly \<open>ws ! p\<close> are mapped to position \<open>p\<close>.\<close>

lemma pick_position_card:
  assumes pos: "\<forall>w\<in>set ws. 0 < w" and "sum_list ws < 2 ^ 63" and p: "p < length ws"
  shows "card {n \<in> {0..<sum_list ws}. pick_position n ws = p} = nat (ws ! p)"
proof -
  have nn: "\<forall>w\<in>set ws. 0 \<le> w" using pos by (auto simp: less_imp_le)
  have lo: "0 \<le> sum_list (take p ws)" using nn by (auto intro!: sum_list_nonneg dest: in_set_takeD)
  have hi: "sum_list (take (Suc p) ws) \<le> sum_list ws"
    using prefix_sums_mono [OF nn, of "Suc p" "length ws"] p by simp
  have "{n \<in> {0..<sum_list ws}. pick_position n ws = p} = {sum_list (take p ws)..<sum_list (take (Suc p) ws)}"
  proof (rule set_eqI)
    fix n
    show "n \<in> {n \<in> {0..<sum_list ws}. pick_position n ws = p}
      \<longleftrightarrow> n \<in> {sum_list (take p ws)..<sum_list (take (Suc p) ws)}"
      using pick_position_iff [OF pos assms(2) _ _ p, of n] lo hi by auto
  qed
  moreover have "sum_list (take (Suc p) ws) = sum_list (take p ws) + ws ! p"
    using p by (simp add: take_Suc_conv_app_nth)
  ultimately show ?thesis by simp
qed

text \<open>A full round of consecutive numbers visits every residue once.\<close>

lemma round_card:
  assumes "0 < (t :: int)"
  shows "card {i \<in> {0..<t}. P ((c + i) mod t)} = card {r \<in> {0..<t}. P r}"
proof (rule bij_betw_same_card [where f = "\<lambda>i. (c + i) mod t"])
  have inj: "inj_on (\<lambda>i. (c + i) mod t) {0..<t}"
  proof (rule inj_onI)
    fix x y assume x: "x \<in> {0..<t}" and y: "y \<in> {0..<t}" and eq: "(c + x) mod t = (c + y) mod t"
    then have "(c + x - c) mod t = (c + y - c) mod t" by (metis mod_diff_left_eq)
    with x y show "x = y" by simp
  qed
  have surj: "\<exists>i\<in>{0..<t}. (c + i) mod t = r" if "r \<in> {0..<t}" for r
    using that assms by (intro bexI [of _ "(r - c) mod t"]) (auto simp: mod_add_right_eq)
  have "(\<lambda>i. (c + i) mod t) ` {i \<in> {0..<t}. P ((c + i) mod t)} = {r \<in> {0..<t}. P r}" (is "?f ` ?A = ?B")
  proof (rule set_eqI, rule iffI)
    show "r \<in> ?B" if "r \<in> ?f ` ?A" for r using that assms by auto
    show "r \<in> ?f ` ?A" if r: "r \<in> ?B" for r
    proof -
      from r obtain i where "i \<in> {0..<t}" "(c + i) mod t = r" using surj [of r] by blast
      with r show ?thesis by (intro rev_image_eqI [of i]) simp_all
    qed
  qed
  moreover have "inj_on ?f ?A" using inj by (rule inj_on_subset) auto
  ultimately show "bij_betw ?f ?A ?B" by (simp add: bij_betw_def)
qed

subsection \<open>The order of the targets\<close>

lemma mset_insert_by [simp]: "mset (insert_by lt x ys) = add_mset x (mset ys)"
  by (induction ys) auto

lemma mset_sort_by [simp]: "mset (sort_by lt xs) = mset xs"
  by (induction xs) auto

lemma mset_to_front: "i < length xs \<Longrightarrow> mset (to_front i xs) = mset xs"
  unfolding to_front_def by (subst (4) id_take_nth_drop [of i xs]) auto

lemma mset_rotate: "mset (rotate n xs) = mset xs"
  by (metis add.commute append_take_drop_id mset_append rotate_drop_take)

lemma cursor_index_bound: "es \<noteq> [] \<Longrightarrow> fst (proxyWeightedCursorIndex es cur) < length es"
  using pick_position_bound [of "eligible_weights es"]
  by (auto simp: proxyWeightedCursorIndex_def eligible_weights_def Let_def)

lemma hash_index_bound: "es \<noteq> [] \<Longrightarrow> fst (proxyWeightedHashIndex es v cur) < length es"
  using pick_position_bound [of "eligible_weights es"] cursor_index_bound [of es cur]
  by (auto simp: proxyWeightedHashIndex_def eligible_weights_def Let_def)

text \<open>The shape the three policies share: the eligible targets reordered, then the rest.\<close>

lemma order_shape:
  assumes "1 < length cands" "av = proxyCandidateAvailabilities health now cands"
    and "es = (if filter (is_eligible av) cands = [] then filter (\<lambda>c. \<not> is_eligible av c) cands
               else filter (is_eligible av) cands)"
    and "fs = (if filter (is_eligible av) cands = [] then [] else filter (\<lambda>c. \<not> is_eligible av c) cands)"
    and "es \<noteq> []"
  shows "\<exists>es'. fst (orderProxyRouteCandidates env r cands opts health now cur) = es' @ fs \<and> mset es' = mset es"
proof -
  obtain h ch where h: "proxyWeightedHashIndex es (proxyRouteSelectionValue env r (so_HashPolicy opts) (so_HashKey opts)) cur = (h, ch)"
    by fastforce
  obtain w cw where w: "proxyWeightedCursorIndex es cur = (w, cw)" by fastforce
  have "h < length es" using hash_index_bound [OF assms(5)] h by (metis fst_conv)
  then have fr: "mset (to_front h es) = mset es" by (rule mset_to_front)
  have split: "(if filter (is_eligible av) cands = [] then (filter (\<lambda>c. \<not> is_eligible av c) cands, [])
      else (filter (is_eligible av) cands, filter (\<lambda>c. \<not> is_eligible av c) cands)) = (es, fs)"
    using assms(3,4) by simp
  have out: "fst (orderProxyRouteCandidates env r cands opts health now cur) =
      (if so_UseLeastConn opts \<and> 1 < length es then sort_by (less_loaded av) es
       else if so_HashPolicy opts \<noteq> [] then to_front h es else rotate w es) @ fs"
    using assms(1) h w unfolding orderProxyRouteCandidates_def assms(2) [symmetric] Let_def split
    by simp
  show ?thesis unfolding out by (intro exI conjI, rule refl) (auto simp: fr mset_rotate)
qed

lemma filter_parts: "mset (filter P xs) + mset (filter (\<lambda>c. \<not> P c) xs) = mset xs"
  by (simp add: multiset_partition [symmetric])

lemma ordered_perm:
  "mset (fst (orderProxyRouteCandidates env r cands opts health now cur)) = mset cands"
proof (cases "1 < length cands")
  case True
  let ?P = "is_eligible (proxyCandidateAvailabilities health now cands)"
  have ne: "filter ?P cands = [] \<Longrightarrow> filter (\<lambda>c. \<not> ?P c) cands = cands"
    by (auto simp: filter_empty_conv intro: filter_all)
  have "(if filter ?P cands = [] then filter (\<lambda>c. \<not> ?P c) cands else filter ?P cands) \<noteq> []"
    using True ne by auto
  from order_shape [OF True refl refl refl this] obtain es' where
    "fst (orderProxyRouteCandidates env r cands opts health now cur)
       = es' @ (if filter ?P cands = [] then [] else filter (\<lambda>c. \<not> ?P c) cands)"
    "mset es' = mset (if filter ?P cands = [] then filter (\<lambda>c. \<not> ?P c) cands else filter ?P cands)"
    by blast
  then show ?thesis using ne filter_parts [of ?P cands] by (auto split: if_splits)
qed (simp add: orderProxyRouteCandidates_def)

text \<open>
  Ordering loses and duplicates no target: whatever the policy, the health of the backends
  and the cursor, the ordered targets are a permutation of the candidates.
\<close>

theorem ordered_targets_permute_candidates:
  "mset (fst (orderProxyRouteCandidates env r cands opts health now cur)) = mset cands"
  by (rule ordered_perm)

text \<open>
  Every target a request may use (not managed by the health monitor, or selectable there)
  is tried before every target it may not: the order is a block of eligible targets
  followed by a block of the others.
\<close>

theorem eligible_targets_come_first:
  "\<exists>es fs. fst (orderProxyRouteCandidates env r cands opts health now cur) = es @ fs
     \<and> list_all (is_eligible (proxyCandidateAvailabilities health now cands)) es
     \<and> list_all (\<lambda>c. \<not> is_eligible (proxyCandidateAvailabilities health now cands) c) fs"
proof -
  let ?P = "is_eligible (proxyCandidateAvailabilities health now cands)"
  let ?es = "filter ?P cands" and ?fs = "filter (\<lambda>c. \<not> ?P c) cands"
  let ?out = "fst (orderProxyRouteCandidates env r cands opts health now cur)"
  have perm: "set ?out = set cands"
    using arg_cong [OF ordered_perm, of set_mset] by simp
  show ?thesis
  proof (cases "?es = [] \<or> length cands \<le> 1")
    case True
    then have "list_all ?P ?out \<or> list_all (\<lambda>c. \<not> ?P c) ?out"
    proof
      assume "?es = []" then show ?thesis using perm by (auto simp: filter_empty_conv list_all_iff)
    next
      assume "length cands \<le> 1"
      then show ?thesis by (cases cands) (auto simp: orderProxyRouteCandidates_def)
    qed
    then show ?thesis
    proof
      assume "list_all ?P ?out" then show ?thesis by (intro exI [of _ ?out] exI [of _ "[]"]) simp
    next
      assume "list_all (\<lambda>c. \<not> ?P c) ?out" then show ?thesis by (intro exI [of _ "[]"] exI [of _ ?out]) simp
    qed
  next
    case False
    with order_shape [OF _ refl refl refl, of cands health now env r opts cur]
    obtain es' where es': "?out = es' @ ?fs" "mset es' = mset ?es" by auto
    then have "set es' = set ?es" by (metis set_mset_mset)
    with es'(1) show ?thesis by (intro exI [of _ es'] exI [of _ ?fs]) (auto simp: list_all_iff)
  qed
qed

subsection \<open>Fairness and stickiness\<close>

fun cursor_picks :: "proxyRouteTargetCandidate list \<Rightarrow> 64 word \<Rightarrow> nat \<Rightarrow> nat list" where
  \<comment> \<open>the positions a sequence of requests picks among the same eligible targets\<close>
  "cursor_picks es cur 0 = []"
| "cursor_picks es cur (Suc n) =
     (case proxyWeightedCursorIndex es cur of (p, cur') \<Rightarrow> p # cursor_picks es cur' n)"

definition round_length :: "proxyRouteTargetCandidate list \<Rightarrow> int" where
  "round_length es = sum_list (eligible_weights es)"

lemma eligible_weights_pos: "w \<in> set (eligible_weights es) \<Longrightarrow> 0 < w"
  by (auto simp: eligible_weights_def proxyPositiveWeight_def)

lemma round_length_pos: "es \<noteq> [] \<Longrightarrow> 0 < round_length es"
  unfolding round_length_def
  by (cases es) (auto simp: eligible_weights_def proxyPositiveWeight_def
      intro!: add_pos_nonneg sum_list_nonneg)

lemma cursor_picks_map:
  assumes "es \<noteq> []" "round_length es < 2 ^ 63" "uint cur + int n < 2 ^ 64"
  shows "cursor_picks es cur n
    = map (\<lambda>i. pick_position ((uint cur + int i) mod round_length es) (eligible_weights es)) [0..<n]"
  using assms(3)
proof (induction n arbitrary: cur)
  case (Suc n)
  have total: "total_weight (eligible_weights es) = round_length es"
    using assms(2) eligible_weights_pos by (auto simp: round_length_def less_imp_le intro!: total_weight_eq)
  have u: "uint (cur + 1) = uint cur + 1"
    using Suc.prems by (simp add: uint_word_ariths)
  have "cursor_picks es (cur + 1) n
      = map (\<lambda>i. pick_position ((uint cur + int (Suc i)) mod round_length es) (eligible_weights es)) [0..<n]"
    using Suc.prems by (subst Suc.IH) (simp_all add: u add.assoc)
  moreover have "map (\<lambda>i. pick_position ((uint cur + int i) mod round_length es) (eligible_weights es)) [0..<Suc n]
      = pick_position (uint cur mod round_length es) (eligible_weights es)
        # map (\<lambda>i. pick_position ((uint cur + int (Suc i)) mod round_length es) (eligible_weights es)) [0..<n]"
    by (simp add: map_upt_Suc del: upt_Suc)
  ultimately show ?case
    using total round_length_pos [OF assms(1)]
    by (simp add: proxyWeightedCursorIndex_def Let_def del: upt_Suc)
qed simp

lemma count_upt: "0 \<le> t \<Longrightarrow> length (filter (\<lambda>i. P (int i)) [0..<nat t]) = card {i \<in> {0..<t}. P i}"
proof -
  assume t: "0 \<le> t"
  have "length (filter (\<lambda>i. P (int i)) [0..<nat t]) = card {i \<in> {0..<nat t}. P (int i)}"
    by (subst distinct_card [symmetric]) (auto intro: arg_cong [of _ _ card])
  also have "\<dots> = card (int ` {i \<in> {0..<nat t}. P (int i)})" by (simp add: card_image)
  also have "int ` {i \<in> {0..<nat t}. P (int i)} = {i \<in> {0..<t}. P i}"
    using t by (auto simp: image_iff intro!: exI [of _ "nat _"])
  finally show ?thesis .
qed


definition two_targets :: "proxyRouteTargetCandidate list" where
  "two_targets = [managed ''a'' (empty_URL\<lparr>url_Scheme := ''http'', url_Host := ''a''\<rparr>) 2,
                  managed ''b'' (empty_URL\<lparr>url_Scheme := ''http'', url_Host := ''b''\<rparr>) 1]"

lemma two_targets_round: "round_length two_targets = 3"
  by (simp add: round_length_def eligible_weights_def two_targets_def managed_def proxyPositiveWeight_def)


definition hash_order :: "string \<Rightarrow> proxyRouteTargetCandidate list \<Rightarrow> proxyRouteTargetCandidate list \<Rightarrow> proxyRouteTargetCandidate list" where
  "hash_order v es fs =
     (if es = [] then to_front (fst (proxyWeightedHashIndex fs v 0)) fs
      else to_front (fst (proxyWeightedHashIndex es v 0)) es @ fs)"

lemma hash_index_cursor:
  "TrimSpace v \<noteq> [] \<Longrightarrow> proxyWeightedHashIndex es v cur = (fst (proxyWeightedHashIndex es v 0), cur)"
  by (simp add: proxyWeightedHashIndex_def Let_def)

lemma order_by_hash:
  assumes "so_HashPolicy opts \<noteq> []" "\<not> so_UseLeastConn opts" "TrimSpace v \<noteq> []"
    and v: "proxyRouteSelectionValue env r (so_HashPolicy opts) (so_HashKey opts) = v"
    and P: "P = is_eligible (proxyCandidateAvailabilities h now cands)"
  shows "orderProxyRouteCandidates env r cands opts h now cur =
    ((if length cands \<le> 1 then cands
      else hash_order v (filter P cands) (filter (\<lambda>c. \<not> P c) cands)), cur)"
  unfolding orderProxyRouteCandidates_def P [symmetric] Let_def v hash_order_def
  using assms(1,2) by (simp add: hash_index_cursor [OF assms(3), of _ cur])

text \<open>
  A hash policy is sticky: two requests with the same non-blank selection value get the
  same order of targets, whatever the cursor and the loads are, as long as the same targets
  are eligible; and the cursor is not moved.
\<close>

theorem hash_policy_is_sticky:
  assumes "so_HashPolicy opts \<noteq> []" "\<not> so_UseLeastConn opts"
    and "proxyRouteSelectionValue env r (so_HashPolicy opts) (so_HashKey opts) = v"
    and "proxyRouteSelectionValue env r' (so_HashPolicy opts) (so_HashKey opts) = v" "TrimSpace v \<noteq> []"
    and "filter (is_eligible (proxyCandidateAvailabilities h now cands)) cands
       = filter (is_eligible (proxyCandidateAvailabilities h' now' cands)) cands"
  shows "orderProxyRouteCandidates env r cands opts h now cur
       = (fst (orderProxyRouteCandidates env r' cands opts h' now' cur'), cur)"
proof -
  let ?P = "is_eligible (proxyCandidateAvailabilities h now cands)"
  let ?Q = "is_eligible (proxyCandidateAvailabilities h' now' cands)"
  have "?P c = ?Q c" if "c \<in> set cands" for c
  proof -
    have "c \<in> set (filter ?P cands) \<longleftrightarrow> c \<in> set (filter ?Q cands)" using assms(6) by simp
    with that show ?thesis by simp
  qed
  then have "filter (\<lambda>c. \<not> ?P c) cands = filter (\<lambda>c. \<not> ?Q c) cands"
    by (intro filter_cong) auto
  with assms(6) show ?thesis
    by (simp add: order_by_hash [OF assms(1,2,5,3) refl] order_by_hash [OF assms(1,2,5,4) refl])
qed

text \<open>An environment and two requests of one user on different paths, for the witnesses.\<close>

definition plain_env :: proxy_env where
  "plain_env = \<lparr>env_Compile = (\<lambda>s. Inr (\<lambda>p. p = s)), env_ReadFile = (\<lambda>f. Inr f),
     env_LoadKeyPair = (\<lambda>c k. Inr ()), env_JSONSub = (\<lambda>d. d)\<rparr>"

definition user_request :: "string \<Rightarrow> Request" where
  "user_request path = \<lparr>rq_Method = ''GET'', rq_Host = ''h'', rq_URL = empty_URL\<lparr>url_Path := path\<rparr>,
     rq_Header = [(''X-User'', [''u''])], rq_RemoteAddr = ''10.0.0.1:99'',
     rq_Body = NoBody, rq_ContentLength = 0\<rparr>"

definition hash_options :: proxyRouteTargetSelectionOptions where
  "hash_options = \<lparr>so_HashPolicy = ''header'', so_HashKey = ''X-User'', so_UseLeastConn = False\<rparr>"

lemma user_value:
  "proxyRouteSelectionValue plain_env (user_request ''/a'') (so_HashPolicy hash_options) (so_HashKey hash_options) = ''u''"
  "proxyRouteSelectionValue plain_env (user_request ''/b'') (so_HashPolicy hash_options) (so_HashKey hash_options) = ''u''"
  "TrimSpace ''u'' \<noteq> []"
  by code_simp+

theorem hash_policy_is_sticky_witness:
  "orderProxyRouteCandidates plain_env (user_request ''/a'') two_targets hash_options None 0 3
    = (fst (orderProxyRouteCandidates plain_env (user_request ''/b'') two_targets hash_options None 9 8), 3)"
  by (rule hash_policy_is_sticky [OF _ _ user_value])
    (simp_all add: hash_options_def proxyCandidateAvailabilities_def)

end
