(* ===== verification/Proxy_Routing.thy ===== *)
theory Proxy_Routing
  imports Proxy_Selection
begin

text \<open>
  \<open>proxy_routing.go\<close>, the part that runs for every request: host and path matching, the
  order of the routes, path and query rewriting, header operations, the routing decision
  with its ordered targets, the outgoing URL and the dry run.

  A decision threads the cursor of the target selection.  A compiled regular expression
  is a predicate on paths, obtained from the environment at the place where the code may
  read it from the cache of the match.
\<close>

subsection \<open>Hosts\<close>

definition normalizeProxyRequestHost :: "string \<Rightarrow> string" where
  "normalizeProxyRequestHost h =
     (let host = TrimSpace (ToLower h) in
      if host = [] then []
      else case url_Parse (''http://'' @ host) of
             Inr u \<Rightarrow> (if URL_Hostname u \<noteq> [] then normalizeProxyHostPattern (URL_Hostname u)
                      else case net_SplitHostPort host of
                             Inr (n, p) \<Rightarrow> normalizeProxyHostPattern (TrimBytes (ToLower n) ''[]'')
                           | Inl _ \<Rightarrow> normalizeProxyHostPattern (TrimBytes host ''[]''))
           | Inl _ \<Rightarrow> (case net_SplitHostPort host of
                        Inr (n, p) \<Rightarrow> normalizeProxyHostPattern (TrimBytes (ToLower n) ''[]'')
                      | Inl _ \<Rightarrow> normalizeProxyHostPattern (TrimBytes host ''[]'')))"

definition proxyRouteHostMatches :: "string \<Rightarrow> string \<Rightarrow> bool" where
  "proxyRouteHostMatches pat reqHost =
     (let p = normalizeProxyHostPattern pat in
      if p = [] \<or> reqHost = [] then False
      else if HasPrefix p ''*.''
      then (let suffix = TrimPrefix p ''*.'' in reqHost \<noteq> suffix \<and> HasSuffix reqHost (''.'' @ suffix))
      else reqHost = p)"

definition proxyRouteHostsMatch :: "string list \<Rightarrow> string \<Rightarrow> bool" where
  "proxyRouteHostsMatch patterns host =
     (if patterns = [] then True
      else list_ex (\<lambda>p. proxyRouteHostMatches p (normalizeProxyRequestHost host)) patterns)"

subsection \<open>Paths\<close>

definition proxyRouteCompiledRegexp :: "proxy_env \<Rightarrow> ProxyRoutePathMatch \<Rightarrow> (string \<Rightarrow> bool) result" where
  "proxyRouteCompiledRegexp env m =
     (if pm_Type m \<noteq> ''regex'' then err ''regex path match is not configured'' []
      else env_Compile env (pm_Value m))"

definition proxyRoutePathMatchDetails :: "proxy_env \<Rightarrow> ProxyRoutePathMatch option \<Rightarrow> string \<Rightarrow> bool \<times> string" where
  "proxyRoutePathMatchDetails env match reqPath =
     (case match of
        None \<Rightarrow> (True, [])
      | Some m \<Rightarrow>
          (let path = (if reqPath = [] then ''/'' else reqPath) in
           if pm_Type m = ''exact'' then (path = pm_Value m, [])
           else if pm_Type m = ''prefix'' then
             (if pm_Value m = ''/'' then (True, path)
              else if path = pm_Value m then (True, [])
              else if HasPrefix path (pm_Value m @ ''/'') then (True, TrimPrefix path (pm_Value m))
              else (False, []))
           else if pm_Type m = ''regex'' then
             (case proxyRouteCompiledRegexp env m of Inl _ \<Rightarrow> (False, []) | Inr f \<Rightarrow> (f path, []))
           else (False, [])))"

definition proxyRouteMatches :: "proxy_env \<Rightarrow> ProxyRouteMatch \<Rightarrow> string \<Rightarrow> string \<Rightarrow> bool" where
  "proxyRouteMatches env m host reqPath =
     (if \<not> proxyRouteHostsMatch (ma_Hosts m) host then False
      else case ma_Path m of None \<Rightarrow> True
           | Some p \<Rightarrow> fst (proxyRoutePathMatchDetails env (Some p) reqPath))"

definition joinProxyRoutePath :: "string \<Rightarrow> string \<Rightarrow> string" where
  "joinProxyRoutePath prefix0 suffix =
     (let prefix = normalizeProxyRoutePrefix prefix0 in
      if prefix = ''/'' then
        (if suffix = [] then ''/'' else if HasPrefix suffix ''/'' then suffix else ''/'' @ suffix)
      else if suffix = [] then prefix
      else if HasPrefix suffix ''/'' then prefix @ suffix
      else prefix @ ''/'' @ suffix)"

definition rewriteProxyRoutePath ::
  "proxy_env \<Rightarrow> string \<Rightarrow> ProxyRoutePathMatch option \<Rightarrow> string \<Rightarrow> string result" where
  "rewriteProxyRoutePath env originalPath match rewritePrefix =
     (if (case match of None \<Rightarrow> False | Some m \<Rightarrow> pm_Type m = ''regex'')
      then err ''path rewrite does not support regex path matches'' []
      else case proxyRoutePathMatchDetails env match originalPath of
             (ok, suffix) \<Rightarrow>
               if \<not> ok then err ''path %q does not match route path rule'' [originalPath]
               else Inr (joinProxyRoutePath rewritePrefix suffix))"

subsection \<open>Headers and queries\<close>

definition applyProxyRouteHeaders :: "ProxyRouteHeaderOperations \<Rightarrow> http_header \<Rightarrow> http_header" where
  "applyProxyRouteHeaders ops h =
     apply_ops Header_Del Header_Set Header_Add (ho_Remove ops) (ho_Set ops) (ho_Add ops) h"

definition remove_prefixes :: "string list \<Rightarrow> url_values \<Rightarrow> url_values" where
  "remove_prefixes ps m = filter (\<lambda>(k, vs). \<not> list_ex (HasPrefix k) ps) m"

definition rewriteProxyRouteQuery :: "string \<Rightarrow> ProxyRouteQueryOperations option \<Rightarrow> string result" where
  "rewriteProxyRouteQuery rawQuery ops =
     (case ops of
        None \<Rightarrow> Inr rawQuery
      | Some q \<Rightarrow>
          bindR (wrapR ''query_rewrite parse error: %w'' [] (ParseQuery rawQuery)) (\<lambda>values.
            Inr (Values_Encode
              (apply_ops Values_Del Values_Set Values_Add [] (qo_Set q) (qo_Add q)
                (remove_prefixes (qo_RemovePrefixes q) (fold Values_Del (qo_Remove q) values))))))"

subsection \<open>The outgoing URL\<close>

definition proxySingleJoiningSlash :: "string \<Rightarrow> string \<Rightarrow> string" where
  "proxySingleJoiningSlash a b =
     (let aslash = HasSuffix a ''/''; bslash = HasPrefix b ''/'' in
      if aslash \<and> bslash then a @ drop 1 b
      else if \<not> aslash \<and> \<not> bslash then a @ ''/'' @ b
      else a @ b)"

definition joinProxyURLPath :: "URL \<Rightarrow> URL \<Rightarrow> string \<times> string" where
  "joinProxyURLPath a b =
     (if url_RawPath a = [] \<and> url_RawPath b = [] then (proxySingleJoiningSlash (url_Path a) (url_Path b), [])
      else let apath = EscapedPath a; bpath = EscapedPath b;
               aslash = HasSuffix apath ''/''; bslash = HasPrefix bpath ''/''
           in if aslash \<and> bslash then (url_Path a @ drop 1 (url_Path b), apath @ drop 1 bpath)
              else if \<not> aslash \<and> \<not> bslash then (url_Path a @ ''/'' @ url_Path b, apath @ ''/'' @ bpath)
              else (url_Path a @ url_Path b, apath @ bpath))"

definition rewriteProxyTargetURL :: "URL \<Rightarrow> string \<Rightarrow> string \<Rightarrow> string \<Rightarrow> URL \<Rightarrow> URL" where
  "rewriteProxyTargetURL target path rawPath rawQuery out =
     (let reqURL = empty_URL\<lparr>url_Path := path, url_RawPath := rawPath, url_RawQuery := rawQuery\<rparr>;
          joined = joinProxyURLPath target reqURL
      in out\<lparr>url_Scheme := url_Scheme target, url_Host := url_Host target,
            url_Path := fst joined, url_RawPath := snd joined,
            url_RawQuery := (if url_RawQuery target = [] \<or> rawQuery = [] then url_RawQuery target @ rawQuery
                             else url_RawQuery target @ ''&'' @ rawQuery)\<rparr>)"

definition rewriteProxyOutgoingURL :: "URL \<Rightarrow> string \<Rightarrow> string \<Rightarrow> string \<Rightarrow> Request \<Rightarrow> Request" where
  "rewriteProxyOutgoingURL target path rawPath query r =
     r\<lparr>rq_URL := rewriteProxyTargetURL target path rawPath query (rq_URL r)\<rparr>"

definition finalProxyRouteURL :: "URL \<Rightarrow> string \<Rightarrow> string \<Rightarrow> string \<Rightarrow> string" where
  "finalProxyRouteURL target path rawPath query =
     URL_String (rewriteProxyTargetURL target path rawPath query target)"

subsection \<open>The decision\<close>

datatype proxyRouteResolutionSource = ResolutionLegacy | ResolutionRoute | ResolutionDefault

record proxyRouteDecision =
  rd_Source :: proxyRouteResolutionSource
  rd_RouteName :: string
  rd_OriginalHost :: string
  rd_OriginalPath :: string
  rd_OriginalQuery :: string
  rd_RewrittenHost :: string
  rd_RewrittenPath :: string
  rd_RewrittenRawPath :: string
  rd_RewrittenQuery :: string
  rd_SelectedUpstream :: string
  rd_SelectedUpstreamURL :: string
  rd_Target :: URL
  rd_HealthKey :: string
  rd_OrderedTargets :: "proxyRouteTargetCandidate list"
  rd_RetryPolicy :: proxyRetryPolicy
  rd_RequestHeaderOps :: ProxyRouteHeaderOperations
  rd_ResponseHeaderOps :: ProxyRouteHeaderOperations
  rd_LogSelection :: bool

definition requestPath :: "Request \<Rightarrow> string" where
  "requestPath r = url_Path (rq_URL r)"

definition proxyRouteRawPath :: "Request \<Rightarrow> string" where
  "proxyRouteRawPath r = url_RawPath (rq_URL r)"

definition proxyRouteRawQuery :: "Request \<Rightarrow> string" where
  "proxyRouteRawQuery r = url_RawQuery (rq_URL r)"

definition resolveProxyRouteForwardedHost :: "string \<Rightarrow> string \<Rightarrow> string \<Rightarrow> string" where
  "resolveProxyRouteForwardedHost originalHost targetHost hostRewrite =
     (if TrimSpace hostRewrite \<noteq> [] then TrimSpace hostRewrite
      else if TrimSpace originalHost \<noteq> [] then TrimSpace originalHost
      else TrimSpace targetHost)"

definition header_ops_or_zero :: "ProxyRouteHeaderOperations option \<Rightarrow> ProxyRouteHeaderOperations" where
  "header_ops_or_zero h = (case h of None \<Rightarrow> \<lparr>ho_Set = [], ho_Add = [], ho_Remove = []\<rparr> | Some ops \<Rightarrow> ops)"

definition rewritten_paths ::
  "proxy_env \<Rightarrow> string \<Rightarrow> string \<Rightarrow> ProxyRoutePathMatch option \<Rightarrow> ProxyRouteAction \<Rightarrow> (string \<times> string) result" where
  \<comment> \<open>the path and the raw path after the rewrite of the action, if it has one\<close>
  "rewritten_paths env path rawPath match a =
     (case ac_PathRewrite a of
        None \<Rightarrow> Inr (path, rawPath)
      | Some rw \<Rightarrow>
          bindR (rewriteProxyRoutePath env path match (pr_Prefix rw)) (\<lambda>p.
          bindR (if rawPath \<noteq> [] then rewriteProxyRoutePath env rawPath match (pr_Prefix rw) else Inr rawPath) (\<lambda>rp.
            Inr (p, rp))))"

definition buildProxyRouteDecision ::
  "proxy_env \<Rightarrow> Request \<Rightarrow> string \<Rightarrow> string \<Rightarrow> string \<Rightarrow> string \<Rightarrow> proxyRouteResolutionSource
     \<Rightarrow> ProxyRoutePathMatch option \<Rightarrow> ProxyRouteAction \<Rightarrow> ProxyRulesConfig
     \<Rightarrow> upstreamHealthMonitor option \<Rightarrow> int \<Rightarrow> 64 word \<Rightarrow> proxyRouteDecision result \<times> 64 word" where
  "buildProxyRouteDecision env r host path rawPath name source match a c health now cur =
     (case resolveProxyRouteTargets env r c a health now cur of
        Inl e \<Rightarrow> (Inl e, cur)
      | Inr (targets, cur') \<Rightarrow>
          (case targets of
             [] \<Rightarrow> err ''no proxy targets available'' []
           | sel # _ \<Rightarrow>
               bindR (rewritten_paths env path rawPath match a) (\<lambda>(p, rp).
               bindR (rewriteProxyRouteQuery (proxyRouteRawQuery r) (ac_QueryRewrite a)) (\<lambda>q.
                 Inr \<lparr>rd_Source = source, rd_RouteName = name, rd_OriginalHost = host, rd_OriginalPath = path,
                   rd_OriginalQuery = proxyRouteRawQuery r,
                   rd_RewrittenHost = resolveProxyRouteForwardedHost host (url_Host (tc_Target sel)) (ac_HostRewrite a),
                   rd_RewrittenPath = p, rd_RewrittenRawPath = rp, rd_RewrittenQuery = q,
                   rd_SelectedUpstream = tc_Name sel, rd_SelectedUpstreamURL = URL_String (tc_Target sel),
                   rd_Target = tc_Target sel, rd_HealthKey = tc_Key sel, rd_OrderedTargets = targets,
                   rd_RetryPolicy = proxyBuildRetryPolicy c,
                   rd_RequestHeaderOps = header_ops_or_zero (ac_RequestHeaders a),
                   rd_ResponseHeaderOps = header_ops_or_zero (ac_ResponseHeaders a),
                   rd_LogSelection = (source \<noteq> ResolutionLegacy)\<rparr>)), cur'))"

definition sortedProxyRouteIndexes :: "ProxyRoute list \<Rightarrow> nat list" where
  "sortedProxyRouteIndexes rs =
     sort_by (\<lambda>i j. ro_Priority (rs ! i) < ro_Priority (rs ! j)) [0..<length rs]"

definition route_applies :: "proxy_env \<Rightarrow> string \<Rightarrow> string \<Rightarrow> ProxyRoute \<Rightarrow> bool" where
  \<comment> \<open>the two tests that skip a route\<close>
  "route_applies env host path route =
     (proxyRouteEnabled (ro_Enabled route) \<and> proxyRouteMatches env (ro_Match route) host path)"

definition logged :: "bool \<Rightarrow> proxyRouteDecision result \<times> 64 word \<Rightarrow> proxyRouteDecision result \<times> 64 word" where
  \<comment> \<open>\<open>decision.LogSelection = b\<close>\<close>
  "logged b rk = (case rk of (res, k) \<Rightarrow> (bindR res (\<lambda>d. Inr (d\<lparr>rd_LogSelection := b\<rparr>)), k))"

definition resolveProxyRouteDecision ::
  "proxy_env \<Rightarrow> Request \<Rightarrow> ProxyRulesConfig \<Rightarrow> upstreamHealthMonitor option \<Rightarrow> int \<Rightarrow> 64 word
     \<Rightarrow> proxyRouteDecision result \<times> 64 word" where
  "resolveProxyRouteDecision env r c health now cur =
     (let path = (if requestPath r = [] then ''/'' else requestPath r);
          rawPath = proxyRouteRawPath r;
          host = TrimSpace (rq_Host r)
      in case find (\<lambda>i. route_applies env host path (cf_Routes c ! i)) (sortedProxyRouteIndexes (cf_Routes c)) of
           Some i \<Rightarrow>
             (let route = cf_Routes c ! i in
              logged True (buildProxyRouteDecision env r host path rawPath (ro_Name route) ResolutionRoute
                             (ma_Path (ro_Match route)) (ro_Action route) c health now cur))
         | None \<Rightarrow>
             (case cf_DefaultRoute c of
                Some d \<Rightarrow>
                  if proxyRouteEnabled (dr_Enabled d)
                  then logged True (buildProxyRouteDecision env r host path rawPath (dr_Name d) ResolutionDefault
                                      None (dr_Action d) c health now cur)
                  else logged True (buildProxyRouteDecision env r host path rawPath ''legacy-upstream'' ResolutionLegacy
                                      None zero_action c health now cur)
              | None \<Rightarrow> logged (cf_Routes c \<noteq> [])
                          (buildProxyRouteDecision env r host path rawPath ''legacy-upstream'' ResolutionLegacy
                             None zero_action c health now cur)))"

subsection \<open>The selection the dry run of the admin API uses\<close>

definition proxyDefaultUpstreamName :: "ProxyRulesConfig \<Rightarrow> string" where
  "proxyDefaultUpstreamName c =
     (case find up_Enabled (cf_Upstreams c) of
        Some u \<Rightarrow> up_Name u
      | None \<Rightarrow> if TrimSpace (cf_UpstreamURL c) \<noteq> [] then ''primary'' else [])"

definition resolveProxyRouteTarget ::
  "ProxyRulesConfig \<Rightarrow> string \<Rightarrow> upstreamHealthMonitor option
     \<Rightarrow> (URL \<times> string \<times> string \<times> string) result \<times> upstreamHealthMonitor option" where
  "resolveProxyRouteTarget c ref0 health =
     (let ref = TrimSpace ref0;
          primary = bindR (proxyPrimaryTarget c) (\<lambda>t. Inr (t, proxyDefaultUpstreamName c, URL_String t, []))
      in if ref \<noteq> [] then
           ((case parseProxyUpstreamURL ''action.upstream'' ref of
               Inr t \<Rightarrow> Inr (t, ref, URL_String t, [])
             | Inl _ \<Rightarrow>
                 (case find (\<lambda>u. up_Name u = ref) (cf_Upstreams c) of
                    Some u \<Rightarrow> bindR (parseProxyUpstreamURL ''action.upstream'' (up_URL u)) (\<lambda>t.
                                Inr (t, up_Name u, URL_String t, []))
                  | None \<Rightarrow> err ''unknown upstream reference %q'' [ref])), health)
         else (case health of
                 None \<Rightarrow> (primary, None)
               | Some m \<Rightarrow>
                   (case SelectTarget m of
                      (Some (key, name, target), m') \<Rightarrow>
                        (Inr (target, if TrimSpace name \<noteq> [] then TrimSpace name else TrimSpace key,
                              URL_String target, key), Some m')
                    | (None, m') \<Rightarrow> (primary, Some m'))))"

record proxyRouteDryRunResult =
  dry_Source :: proxyRouteResolutionSource
  dry_RouteName :: string
  dry_OriginalHost :: string
  dry_OriginalPath :: string
  dry_OriginalQuery :: string
  dry_RewrittenHost :: string
  dry_RewrittenPath :: string
  dry_RewrittenQuery :: string
  dry_SelectedUpstream :: string
  dry_SelectedUpstreamURL :: string
  dry_FinalURL :: string

definition dry_result :: "proxyRouteDecision \<Rightarrow> proxyRouteDryRunResult" where
  "dry_result d =
     \<lparr>dry_Source = rd_Source d, dry_RouteName = rd_RouteName d, dry_OriginalHost = rd_OriginalHost d,
      dry_OriginalPath = rd_OriginalPath d, dry_OriginalQuery = rd_OriginalQuery d,
      dry_RewrittenHost = rd_RewrittenHost d, dry_RewrittenPath = rd_RewrittenPath d,
      dry_RewrittenQuery = rd_RewrittenQuery d, dry_SelectedUpstream = rd_SelectedUpstream d,
      dry_SelectedUpstreamURL = rd_SelectedUpstreamURL d,
      dry_FinalURL = finalProxyRouteURL (rd_Target d) (rd_RewrittenPath d) (rd_RewrittenRawPath d) (rd_RewrittenQuery d)\<rparr>"

definition proxyRouteDryRunWithHealth ::
  "proxy_env \<Rightarrow> ProxyRulesConfig \<Rightarrow> string \<Rightarrow> string \<Rightarrow> upstreamHealthMonitor option \<Rightarrow> int \<Rightarrow> 64 word
     \<Rightarrow> proxyRouteDryRunResult result \<times> 64 word" where
  "proxyRouteDryRunWithHealth env c host path health now cur =
     (let displayHost = (if TrimSpace host = [] then ''route.example.invalid'' else TrimSpace host) in
      case (case NewRequest (''http://'' @ host @ path) of
              Inr r \<Rightarrow> Inr r
            | Inl _ \<Rightarrow> NewRequest (''http://'' @ displayHost @ path)) of
        Inl e \<Rightarrow> (Inl e, cur)
      | Inr r \<Rightarrow>
          (case resolveProxyRouteDecision env (r\<lparr>rq_Host := displayHost\<rparr>) c health now cur of
             (res, cur') \<Rightarrow> (bindR res (\<lambda>d. Inr (dry_result d)), cur')))"

definition proxyRouteDryRun ::
  "proxy_env \<Rightarrow> ProxyRulesConfig \<Rightarrow> string \<Rightarrow> string \<Rightarrow> int \<Rightarrow> 64 word \<Rightarrow> proxyRouteDryRunResult result \<times> 64 word" where
  "proxyRouteDryRun env c host path now cur = proxyRouteDryRunWithHealth env c host path None now cur"

end
