(* ===== verification/Routing_Correct.thy ===== *)
theory Routing_Correct
  imports Proxy_Routing
begin

text \<open>
  What routing guarantees: the route chosen is the first applicable one by priority and
  position; an accepted document routes every request whose path needs no re-encoding;
  prefix rewriting is invertible; the header and query operations do not depend on the
  order in which Go visits its maps.
\<close>

subsection \<open>The order of the routes\<close>

definition before :: "('a \<Rightarrow> int) \<Rightarrow> ('a \<Rightarrow> nat) \<Rightarrow> 'a \<Rightarrow> 'a \<Rightarrow> bool" where
  "before f g i j = (f i < f j \<or> (f i = f j \<and> g i < g j))"

lemma insert_by_before:
  "sorted_wrt (before f g) ys \<Longrightarrow> \<forall>y\<in>set ys. g x < g y \<Longrightarrow>
   sorted_wrt (before f g) (insert_by (\<lambda>a b. f a < f b) x ys)"
  by (induction ys) (auto simp: before_def)

lemma sort_by_before:
  "sorted_wrt (\<lambda>a b. g a < g b) xs \<Longrightarrow> sorted_wrt (before f g) (sort_by (\<lambda>a b. f a < f b) xs)"
  by (induction xs) (auto intro!: insert_by_before simp: set_sort_by)

lemma find_first:
  "find P xs = Some i \<Longrightarrow> sorted_wrt R xs \<Longrightarrow> j \<in> set xs \<Longrightarrow> P j \<Longrightarrow> j = i \<or> R i j"
  by (induction xs) (auto split: if_splits)

definition goes_before :: "ProxyRoute list \<Rightarrow> nat \<Rightarrow> nat \<Rightarrow> bool" where
  "goes_before rs i j = (ro_Priority (rs ! i) < ro_Priority (rs ! j)
     \<or> (ro_Priority (rs ! i) = ro_Priority (rs ! j) \<and> i \<le> j))"

definition first_applicable :: "proxy_env \<Rightarrow> string \<Rightarrow> string \<Rightarrow> ProxyRoute list \<Rightarrow> nat option" where
  "first_applicable env host path rs =
     find (\<lambda>i. route_applies env host path (rs ! i)) (sortedProxyRouteIndexes rs)"

lemma set_sorted_indexes [simp]: "set (sortedProxyRouteIndexes rs) = {0..<length rs}"
  by (simp add: sortedProxyRouteIndexes_def set_sort_by)

lemma first_applicable_Some:
  assumes "first_applicable env host path rs = Some i"
  shows "i < length rs" "route_applies env host path (rs ! i)"
    and "\<And>j. j < length rs \<Longrightarrow> route_applies env host path (rs ! j) \<Longrightarrow> goes_before rs i j"
proof -
  let ?P = "\<lambda>i. route_applies env host path (rs ! i)" and ?f = "\<lambda>i. ro_Priority (rs ! i)"
  have s: "sorted_wrt (before ?f id) (sortedProxyRouteIndexes rs)"
    unfolding sortedProxyRouteIndexes_def by (rule sort_by_before) (simp add: sorted_wrt_upt)
  from assms have "i \<in> set (sortedProxyRouteIndexes rs) \<and> ?P i"
    by (auto simp: first_applicable_def find_Some_iff dest: nth_mem)
  then show "i < length rs" "?P i" by auto
  show "goes_before rs i j" if "j < length rs" "?P j" for j
    using find_first [OF assms [unfolded first_applicable_def] s, of j] that
    by (auto simp: before_def goes_before_def)
qed

lemma first_applicable_None:
  "first_applicable env host path rs = None \<Longrightarrow> j < length rs \<Longrightarrow> \<not> route_applies env host path (rs ! j)"
  by (auto simp: first_applicable_def find_None_iff)

lemma build_decision_fields:
  assumes "buildProxyRouteDecision env r host path rawPath name source match a c health now cur = (Inr d, cur')"
  shows "rd_Source d = source" "rd_RouteName d = name" "rd_RetryPolicy d = proxyBuildRetryPolicy c"
    "rd_RequestHeaderOps d = header_ops_or_zero (ac_RequestHeaders a)"
    "rd_ResponseHeaderOps d = header_ops_or_zero (ac_ResponseHeaders a)"
  using assms
  by (auto simp: buildProxyRouteDecision_def bindR_Inr split: sum.splits list.splits prod.splits)

definition decided_by :: "proxy_env \<Rightarrow> Request \<Rightarrow> ProxyRulesConfig \<Rightarrow> ProxyRouteAction \<Rightarrow> bool" where
  \<comment> \<open>the actions a request can be decided by: of a route, of an enabled default route, or none\<close>
  "decided_by env r c a = ((\<exists>i<length (cf_Routes c). a = ro_Action (cf_Routes c ! i))
     \<or> (\<exists>d. cf_DefaultRoute c = Some d \<and> proxyRouteEnabled (dr_Enabled d) \<and> a = dr_Action d)
     \<or> a = zero_action)"

lemma logged_Inr:
  "fst (logged b rk) = Inr d \<Longrightarrow> \<exists>d' k. rk = (Inr d', k) \<and> d = d'\<lparr>rd_LogSelection := b\<rparr>"
  by (cases rk) (auto simp: logged_def bindR_Inr)

text \<open>The decision by cases on the first applicable route and the default route.\<close>

definition route_path :: "Request \<Rightarrow> string" where
  "route_path r = (if requestPath r = [] then ''/'' else requestPath r)"

lemma resolve_cases:
  "resolveProxyRouteDecision env r c health now cur =
     (case first_applicable env (TrimSpace (rq_Host r)) (route_path r) (cf_Routes c) of
        Some i \<Rightarrow> logged True (buildProxyRouteDecision env r (TrimSpace (rq_Host r)) (route_path r) (proxyRouteRawPath r)
                   (ro_Name (cf_Routes c ! i)) ResolutionRoute (ma_Path (ro_Match (cf_Routes c ! i)))
                   (ro_Action (cf_Routes c ! i)) c health now cur)
      | None \<Rightarrow>
          (case cf_DefaultRoute c of
             Some d \<Rightarrow>
               if proxyRouteEnabled (dr_Enabled d)
               then logged True (buildProxyRouteDecision env r (TrimSpace (rq_Host r)) (route_path r) (proxyRouteRawPath r)
                      (dr_Name d) ResolutionDefault None (dr_Action d) c health now cur)
               else logged True (buildProxyRouteDecision env r (TrimSpace (rq_Host r)) (route_path r) (proxyRouteRawPath r)
                      ''legacy-upstream'' ResolutionLegacy None zero_action c health now cur)
           | None \<Rightarrow> logged (cf_Routes c \<noteq> []) (buildProxyRouteDecision env r (TrimSpace (rq_Host r)) (route_path r)
                      (proxyRouteRawPath r) ''legacy-upstream'' ResolutionLegacy None zero_action c health now cur)))"
  unfolding resolveProxyRouteDecision_def Let_def first_applicable_def route_path_def by (rule refl)

lemma resolve_fallback:
  assumes "first_applicable env (TrimSpace (rq_Host r)) (route_path r) (cf_Routes c) = None"
  shows "\<exists>b name s a. s \<noteq> ResolutionRoute \<and> resolveProxyRouteDecision env r c health now cur =
    logged b (buildProxyRouteDecision env r (TrimSpace (rq_Host r)) (route_path r) (proxyRouteRawPath r)
      name s None a c health now cur)"
proof (cases "cf_DefaultRoute c")
  case None
  with assms show ?thesis
    by (intro exI [of _ "cf_Routes c \<noteq> []"] exI [of _ "''legacy-upstream''"] exI [of _ ResolutionLegacy]
        exI [of _ zero_action]) (simp add: resolve_cases)
next
  case (Some d)
  show ?thesis
  proof (cases "proxyRouteEnabled (dr_Enabled d)")
    case True
    with assms Some show ?thesis
      by (intro exI [of _ True] exI [of _ "dr_Name d"] exI [of _ ResolutionDefault]
          exI [of _ "dr_Action d"]) (simp add: resolve_cases)
  next
    case False
    with assms Some show ?thesis
      by (intro exI [of _ True] exI [of _ "''legacy-upstream''"] exI [of _ ResolutionLegacy]
          exI [of _ zero_action]) (simp add: resolve_cases)
  qed
qed

text \<open>
  C4: A request takes the first route that applies to it, in the order of priority and then of
  position in the document: a decision made by a route names an enabled, matching route
  and every other route that applies comes later; a decision made otherwise means that no
  route applies.
\<close>

theorem first_matching_route_wins:
  assumes "fst (resolveProxyRouteDecision env r c health now cur) = Inr d"
  shows "(rd_Source d = ResolutionRoute \<and>
      (\<exists>i<length (cf_Routes c). rd_RouteName d = ro_Name (cf_Routes c ! i)
         \<and> route_applies env (TrimSpace (rq_Host r)) (route_path r) (cf_Routes c ! i)
         \<and> (\<forall>j<length (cf_Routes c). route_applies env (TrimSpace (rq_Host r)) (route_path r) (cf_Routes c ! j)
               \<longrightarrow> goes_before (cf_Routes c) i j)))
    \<or> (rd_Source d \<noteq> ResolutionRoute \<and>
      (\<forall>j<length (cf_Routes c). \<not> route_applies env (TrimSpace (rq_Host r)) (route_path r) (cf_Routes c ! j)))"
proof (cases "first_applicable env (TrimSpace (rq_Host r)) (route_path r) (cf_Routes c)")
  case (Some i)
  then obtain d' k where "buildProxyRouteDecision env r (TrimSpace (rq_Host r)) (route_path r) (proxyRouteRawPath r)
      (ro_Name (cf_Routes c ! i)) ResolutionRoute (ma_Path (ro_Match (cf_Routes c ! i)))
      (ro_Action (cf_Routes c ! i)) c health now cur = (Inr d', k)" "d = d'\<lparr>rd_LogSelection := True\<rparr>"
    using assms by (auto simp: resolve_cases dest: logged_Inr)
  then have "rd_Source d = ResolutionRoute" "rd_RouteName d = ro_Name (cf_Routes c ! i)"
    using build_decision_fields(1,2) by auto
  with first_applicable_Some [OF Some] show ?thesis by blast
next
  case None
  from resolve_fallback [OF None, of health now cur] assms obtain b name s a d' k
    where "s \<noteq> ResolutionRoute" "d = d'\<lparr>rd_LogSelection := b\<rparr>"
    and "buildProxyRouteDecision env r (TrimSpace (rq_Host r)) (route_path r) (proxyRouteRawPath r)
      name s None a c health now cur = (Inr d', k)"
    by (metis logged_Inr)
  then have "rd_Source d \<noteq> ResolutionRoute" using build_decision_fields(1) by auto
  with first_applicable_None [OF None] show ?thesis by blast
qed

lemma decision_origin:
  assumes "fst (resolveProxyRouteDecision env r c health now cur) = Inr d"
  shows "\<exists>a. decided_by env r c a \<and> rd_RetryPolicy d = proxyBuildRetryPolicy c
    \<and> rd_RequestHeaderOps d = header_ops_or_zero (ac_RequestHeaders a)
    \<and> rd_ResponseHeaderOps d = header_ops_or_zero (ac_ResponseHeaders a)"
proof -
  have one: ?thesis if b: "fst (logged l (buildProxyRouteDecision env r h p rp name s m a c health now cur)) = Inr d"
    and a: "decided_by env r c a" for l h p rp name s m a
  proof -
    from logged_Inr [OF b] obtain d' k where
      "buildProxyRouteDecision env r h p rp name s m a c health now cur = (Inr d', k)"
      "d = d'\<lparr>rd_LogSelection := l\<rparr>" by blast
    with build_decision_fields(3-5) a show ?thesis by (intro exI [of _ a]) auto
  qed
  show ?thesis
  proof (cases "first_applicable env (TrimSpace (rq_Host r)) (route_path r) (cf_Routes c)")
    case (Some i)
    note b = assms [unfolded resolve_cases Some option.case]
    show ?thesis by (rule one [OF b]) (use first_applicable_Some(1) [OF Some] in \<open>auto simp: decided_by_def\<close>)
  next
    case none: None
    note b = assms [unfolded resolve_cases none option.case]
    show ?thesis
    proof (cases "cf_DefaultRoute c")
      case None
      show ?thesis by (rule one [OF b [unfolded None option.case]]) (simp add: decided_by_def)
    next
      case (Some dr)
      note b = b [unfolded Some option.case]
      show ?thesis
      proof (cases "proxyRouteEnabled (dr_Enabled dr)")
        case True
        then show ?thesis by (intro one [OF b [unfolded if_P [OF True]]]) (simp add: decided_by_def Some)
      next
        case False
        then show ?thesis by (intro one [OF b [unfolded if_not_P [OF False]]]) (simp add: decided_by_def)
      qed
    qed
  qed
qed

subsection \<open>Targets of an accepted document\<close>

text \<open>\<open>url_ok\<close> is independent of the field the error of a URL would name.\<close>

lemma url_ok_parse: "url_ok raw \<Longrightarrow> \<exists>t. parseProxyUpstreamURL f raw = Inr t"
  unfolding url_ok_def using parseProxyUpstreamURL_field by blast

lemma parse_url_ok: "parseProxyUpstreamURL f raw = Inr t \<Longrightarrow> url_ok raw"
  unfolding url_ok_def using parseProxyUpstreamURL_field by blast

lemma url_ok_trim [simp]: "url_ok (TrimSpace raw) = url_ok raw"
  by (simp add: url_ok_def)

lemma url_ok_nonblank: "url_ok raw \<Longrightarrow> TrimSpace raw \<noteq> []"
proof
  assume "url_ok raw" "TrimSpace raw = []"
  then have "url_ok []" by (metis url_ok_trim)
  moreover have "case parseProxyUpstreamURL [] [] of Inl e \<Rightarrow> True | Inr t \<Rightarrow> False" by code_simp
  ultimately show False by (auto simp: url_ok_def)
qed

definition usable :: "ProxyRulesConfig \<Rightarrow> bool" where
  \<comment> \<open>every upstream reference the document itself holds parses\<close>
  "usable c = (list_all (\<lambda>u. url_ok (up_URL u)) (cf_Upstreams c)
     \<and> (cf_Upstreams c = [] \<longrightarrow> url_ok (cf_UpstreamURL c)))"

lemma first_enabled_parses:
  "first_enabled_target i us fe = Inr r \<Longrightarrow> u \<in> set us \<Longrightarrow> url_ok (up_URL u)"
  by (induction us arbitrary: i fe) (auto simp: bindR_Inr split: if_splits dest: parse_url_ok)

lemma primary_parses:
  "proxyPrimaryTarget c = Inr t \<Longrightarrow> cf_Upstreams c \<noteq> [] \<Longrightarrow> list_all (\<lambda>u. url_ok (up_URL u)) (cf_Upstreams c)"
  by (auto simp: proxyPrimaryTarget_def list_all_iff bindR_Inr dest: first_enabled_parses)

lemma candidates_of_ok:
  "list_all (\<lambda>u. url_ok (up_URL u)) us \<Longrightarrow> \<exists>cs. candidates_of us = Inr cs \<and> length cs = length us"
proof (induction us)
  case (Cons u us)
  then obtain cs where "candidates_of us = Inr cs" "length cs = length us" by auto
  moreover from Cons.prems obtain t where "parseProxyUpstreamURL ''upstream_url'' (up_URL u) = Inr t"
    using url_ok_parse by fastforce
  ultimately show ?case by simp
qed simp

lemma find_named:
  "named_upstream us n = Some v \<Longrightarrow> \<exists>u\<in>set us. find (\<lambda>u. up_Name u = n) us = Some u"
proof -
  assume "named_upstream us n = Some v"
  then have "v \<in> set us" "up_Name v = n"
    by (auto simp: named_upstream_def find_Some_iff) (metis length_rev nth_mem set_rev)
  then have "find (\<lambda>u. up_Name u = n) us \<noteq> None" by (auto simp: find_None_iff)
  then obtain u where "find (\<lambda>u. up_Name u = n) us = Some u" by auto
  then show ?thesis by (auto simp: find_Some_iff)
qed

lemma ref_candidate:
  assumes "validate_ref c f w (TrimSpace ref) = Inr ()" "list_all (\<lambda>u. url_ok (up_URL u)) (cf_Upstreams c)"
  shows "\<exists>cand. proxyRouteTargetCandidateFromRef c ref weight = Inr cand"
proof (cases "url_ok ref")
  case True
  then obtain t where t: "parseProxyUpstreamURL ''action.upstream'' ref = Inr t" using url_ok_parse by blast
  then show ?thesis
    by (cases "find (\<lambda>u. TrimSpace (up_URL u) = URL_String t) (cf_Upstreams c)")
      (simp_all add: proxyRouteTargetCandidateFromRef_def)
next
  case False
  then obtain e e' where e: "parseProxyUpstreamURL ''action.upstream'' ref = Inl e"
    "parseProxyUpstreamURL (f @ w) ref = Inl e'"
    using parse_url_ok by (metis sum.exhaust_sel)
  with assms(1) obtain v where "named_upstream (cf_Upstreams c) (TrimSpace ref) = Some v"
    by (auto simp: validate_ref_def split: option.splits)
  then obtain u where u: "u \<in> set (cf_Upstreams c)" "find (\<lambda>u. up_Name u = TrimSpace ref) (cf_Upstreams c) = Some u"
    using find_named by blast
  with assms(2) have "url_ok (up_URL u)" by (simp add: list_all_iff)
  then obtain t where "parseProxyUpstreamURL ''action.upstream'' (up_URL u) = Inr t"
    using url_ok_parse by blast
  with e u show ?thesis by (simp add: proxyRouteTargetCandidateFromRef_def)
qed

lemma legacy_candidates:
  assumes "usable c"
  shows "\<exists>cs. candidates_of (proxyConfiguredUpstreams c) = Inr cs \<and> cs \<noteq> []"
proof -
  have "list_all (\<lambda>u. url_ok (up_URL u)) (proxyConfiguredUpstreams c)" "proxyConfiguredUpstreams c \<noteq> []"
    using assms url_ok_nonblank by (auto simp: usable_def proxyConfiguredUpstreams_def)
  then show ?thesis using candidates_of_ok by (metis length_0_conv)
qed

lemma action_candidates:
  assumes "validateProxyRouteAction a c f = Inr ()" "usable c"
  shows "\<exists>cs opts. buildProxyRouteTargetCandidates c a = Inr (cs, opts) \<and> cs \<noteq> []"
proof -
  let ?up = "TrimSpace (ac_Upstream a)" and ?can = "TrimSpace (ac_CanaryUpstream a)"
  have urls: "list_all (\<lambda>u. url_ok (up_URL u)) (cf_Upstreams c)" using assms(2) by (simp add: usable_def)
  have up: "?up \<noteq> [] \<Longrightarrow> validate_ref c f ''.upstream'' ?up = Inr ()"
    and can: "?can \<noteq> [] \<Longrightarrow> ?up \<noteq> [] \<and> validate_ref c f ''.canary_upstream'' ?can = Inr ()"
    using assms(1) by (auto simp: validateProxyRouteAction_def Let_def split: if_splits)
  show ?thesis
  proof (cases "?can = []")
    case False
    with up can obtain p k where "proxyRouteTargetCandidateFromRef c (ac_Upstream a) (100 - ac_CanaryWeightPct a) = Inr p"
      "proxyRouteTargetCandidateFromRef c (ac_CanaryUpstream a) (ac_CanaryWeightPct a) = Inr k"
      using ref_candidate [OF _ urls] by metis
    with False show ?thesis by (simp add: buildProxyRouteTargetCandidates_def Let_def)
  next
    case True
    note no_canary = True
    show ?thesis
    proof (cases "?up = []")
      case False
      with up obtain p where "proxyRouteTargetCandidateFromRef c (ac_Upstream a) 1 = Inr p"
        using ref_candidate [OF _ urls] by metis
      with False no_canary show ?thesis by (simp add: buildProxyRouteTargetCandidates_def Let_def)
    next
      case True
      with no_canary legacy_candidates [OF assms(2)] show ?thesis
        by (auto simp: buildProxyRouteTargetCandidates_def Let_def)
    qed
  qed
qed

text \<open>What acceptance says of the parts of the document.\<close>

lemma ref_ignores_url: "validate_ref (c\<lparr>cf_UpstreamURL := s\<rparr>) = validate_ref c"
  by (intro ext) (simp add: validate_ref_def cong: sum.case_cong option.case_cong)

lemma action_ignores_url:
  "cf_Upstreams c = [] \<Longrightarrow> TrimSpace s \<noteq> [] \<Longrightarrow> validateProxyRouteAction a c f = Inr () \<Longrightarrow>
   validateProxyRouteAction a (c\<lparr>cf_UpstreamURL := s\<rparr>) f = Inr ()"
  by (cases "TrimSpace (ac_CanaryUpstream a) = []")
    (simp_all add: validateProxyRouteAction_def Let_def proxyRulesHasLegacyUpstream_def ref_ignores_url
      split: if_splits)

definition accepted :: "proxy_env \<Rightarrow> ProxyRulesConfig \<Rightarrow> ProxyRulesConfig \<Rightarrow> bool" where
  "accepted env doc c = (\<exists>t er. normalizeAndValidateProxyRules env doc = Inr (c, t, er))"

lemma accepted_parts:
  assumes "accepted env doc c"
  obtains c0 t where "c0 = normalizeProxyRulesConfig doc" "validateProxyRoutes env c0 = Inr ()"
    "validate_scalars c0 = Inr ()" "validateProxyRetryConfiguration c0 = Inr ()"
    "validateProxyPassiveCircuitConfiguration c0 = Inr ()" "proxyPrimaryTarget c0 = Inr t"
    "c = (if cf_Upstreams c0 = [] then c0\<lparr>cf_UpstreamURL := URL_String t\<rparr> else c0)"
  using assms by (auto simp: accepted_def normalizeAndValidateProxyRules_def Let_def bindR_Inr)

lemma accepted_usable:
  assumes "accepted env doc c" "cf_Upstreams c \<noteq> [] \<or> url_ok (cf_UpstreamURL c)"
  shows "usable c"
proof -
  from assms(1) obtain c0 t where c0: "proxyPrimaryTarget c0 = Inr t"
    and c: "c = (if cf_Upstreams c0 = [] then c0\<lparr>cf_UpstreamURL := URL_String t\<rparr> else c0)"
    by (rule accepted_parts)
  show ?thesis
  proof (cases "cf_Upstreams c0 = []")
    case True
    with c assms(2) show ?thesis by (simp add: usable_def)
  next
    case False
    with c primary_parses [OF c0] show ?thesis by (simp add: usable_def)
  qed
qed

lemma accepted_route:
  assumes "accepted env doc c" "usable c" "i < length (cf_Routes c)"
  shows "\<exists>f. validateProxyRouteAction (ro_Action (cf_Routes c ! i)) c f = Inr ()"
    and "ac_PathRewrite (ro_Action (cf_Routes c ! i)) \<noteq> None \<Longrightarrow>
      \<exists>m. ma_Path (ro_Match (cf_Routes c ! i)) = Some m \<and> pm_Type m \<noteq> ''regex''"
proof -
  from assms(1) obtain c0 t where v: "validateProxyRoutes env c0 = Inr ()"
    and c: "c = (if cf_Upstreams c0 = [] then c0\<lparr>cf_UpstreamURL := URL_String t\<rparr> else c0)"
    by (rule accepted_parts)
  have len: "i < length (cf_Routes c0)" and same: "cf_Routes c ! i = cf_Routes c0 ! i"
    using c assms(3) by (auto split: if_splits)
  from v len have r: "validate_route env c0 i (cf_Routes c0 ! i) = Inr ()"
    by (auto simp: validateProxyRoutes_def eachiR_Inr)
  then obtain f where a: "validateProxyRouteAction (ro_Action (cf_Routes c0 ! i)) c0 f = Inr ()"
    by (auto simp: validate_route_def Let_def)
  show "\<exists>f. validateProxyRouteAction (ro_Action (cf_Routes c ! i)) c f = Inr ()"
  proof (cases "cf_Upstreams c0 = []")
    case True
    with c assms(2) have "TrimSpace (URL_String t) \<noteq> []"
      by (intro url_ok_nonblank) (simp add: usable_def)
    with True c a same show ?thesis by (auto intro: action_ignores_url)
  next
    case False
    with c a same show ?thesis by auto
  qed
  show "ac_PathRewrite (ro_Action (cf_Routes c ! i)) \<noteq> None \<Longrightarrow>
      \<exists>m. ma_Path (ro_Match (cf_Routes c ! i)) = Some m \<and> pm_Type m \<noteq> ''regex''"
    using r same by (auto simp: validate_route_def Let_def)
qed

lemma accepted_default:
  assumes "accepted env doc c" "usable c" "cf_DefaultRoute c = Some d" "proxyRouteEnabled (dr_Enabled d)"
  shows "\<exists>f. validateProxyRouteAction (dr_Action d) c f = Inr ()"
proof -
  from assms(1) obtain c0 t where v: "validateProxyRoutes env c0 = Inr ()"
    and c: "c = (if cf_Upstreams c0 = [] then c0\<lparr>cf_UpstreamURL := URL_String t\<rparr> else c0)"
    by (rule accepted_parts)
  have d: "cf_DefaultRoute c0 = Some d" using c assms(3) by (auto split: if_splits)
  with v assms(4) have a: "validateProxyRouteAction (dr_Action d) c0 ''default_route.action'' = Inr ()"
    by (auto simp: validateProxyRoutes_def)
  show ?thesis
  proof (cases "cf_Upstreams c0 = []")
    case True
    with c assms(2) have "TrimSpace (URL_String t) \<noteq> []"
      by (intro url_ok_nonblank) (simp add: usable_def)
    with True c a show ?thesis by (auto intro: action_ignores_url)
  next
    case False
    with c a show ?thesis by auto
  qed
qed

subsection \<open>Every request is routed\<close>

lemma targets_exist:
  assumes "buildProxyRouteTargetCandidates c a = Inr (cs, opts)" "cs \<noteq> []"
  shows "\<exists>ts k. resolveProxyRouteTargets env r c a health now cur = Inr (ts, k) \<and> ts \<noteq> []"
proof -
  obtain ts k where o: "orderProxyRouteCandidates env r cs opts health now cur = (ts, k)" by fastforce
  then have "mset ts = mset cs" using ordered_perm [of env r cs opts health now cur] by simp
  with assms(2) have "ts \<noteq> []" by auto
  with assms(1) o show ?thesis by (simp add: resolveProxyRouteTargets_def)
qed

lemma matched_rewrite:
  assumes "fst (proxyRoutePathMatchDetails env (Some m) path)" "pm_Type m \<noteq> ''regex''"
  shows "\<exists>p. rewriteProxyRoutePath env path (Some m) pre = Inr p"
  using assms by (auto simp: rewriteProxyRoutePath_def split: prod.splits)

lemma decision_exists:
  assumes cand: "buildProxyRouteTargetCandidates c a = Inr (cs, opts)" "cs \<noteq> []"
    and paths: "\<exists>pp. rewritten_paths env path raw match a = Inr pp"
    and q: "\<exists>vs. ParseQuery (proxyRouteRawQuery r) = Inr vs"
  shows "\<exists>d. fst (buildProxyRouteDecision env r host path raw name s match a c health now cur) = Inr d
    \<and> rd_OrderedTargets d \<noteq> []"
proof -
  obtain t ts k where ts: "resolveProxyRouteTargets env r c a health now cur = Inr (t # ts, k)"
    using targets_exist [OF cand] by (metis list.exhaust)
  obtain q' where "rewriteProxyRouteQuery (proxyRouteRawQuery r) (ac_QueryRewrite a) = Inr q'"
    using q by (cases "ac_QueryRewrite a") (auto simp: rewriteProxyRouteQuery_def wrapR_def)
  moreover obtain p rp where "rewritten_paths env path raw match a = Inr (p, rp)" using paths by auto
  ultimately show ?thesis using ts by (simp add: buildProxyRouteDecision_def)
qed

lemma logged_exists:
  "\<exists>d. fst rk = Inr d \<and> rd_OrderedTargets d \<noteq> [] \<Longrightarrow>
   \<exists>d. fst (logged b rk) = Inr d \<and> rd_OrderedTargets d \<noteq> []"
  by (cases rk) (auto simp: logged_def)


subsection \<open>A concrete document\<close>

definition route_doc :: ProxyRulesConfig where
  "route_doc = zero_config\<lparr>
     cf_Upstreams := [\<lparr>up_Name = ''a'', up_URL = ''http://a:8080/base'', up_Weight = 2, up_Enabled = True\<rparr>],
     cf_Routes := [
       \<lparr>ro_Name = ''late'', ro_Enabled = None, ro_Priority = 20,
        ro_Match = \<lparr>ma_Hosts = [], ma_Path = Some \<lparr>pm_Type = ''prefix'', pm_Value = ''/api''\<rparr>\<rparr>,
        ro_Action = zero_action\<lparr>ac_Upstream := ''a''\<rparr>\<rparr>,
       \<lparr>ro_Name = ''api'', ro_Enabled = None, ro_Priority = 10,
        ro_Match = \<lparr>ma_Hosts = [''*.example.com''], ma_Path = Some \<lparr>pm_Type = ''prefix'', pm_Value = ''/api/''\<rparr>\<rparr>,
        ro_Action = zero_action\<lparr>ac_Upstream := ''a'', ac_PathRewrite := Some \<lparr>pr_Prefix = ''/v1''\<rparr>\<rparr>\<rparr>]\<rparr>"

definition route_conf :: ProxyRulesConfig where
  "route_conf = (case normalizeAndValidateProxyRules plain_env route_doc of
     Inl e \<Rightarrow> zero_config | Inr (c, t, er) \<Rightarrow> c)"

definition get_request :: "string \<Rightarrow> string \<Rightarrow> Request" where
  \<comment> \<open>a request for a host and the path of a URL\<close>
  "get_request host path = (case NewRequest (''http://'' @ host @ path) of
     Inl e \<Rightarrow> user_request path | Inr r \<Rightarrow> r)"

lemma route_conf_accepted: "accepted plain_env route_doc route_conf"
proof -
  have "case normalizeAndValidateProxyRules plain_env route_doc of Inl e \<Rightarrow> False | Inr r \<Rightarrow> True"
    by code_simp
  then obtain c t er where "normalizeAndValidateProxyRules plain_env route_doc = Inr (c, t, er)"
    by (auto split: sum.splits)
  then show ?thesis by (simp add: accepted_def route_conf_def)
qed

lemma route_conf_upstreams: "cf_Upstreams route_conf \<noteq> []"
  by code_simp

lemma api_request_plain:
  "proxyRouteRawPath (get_request ''www.example.com'' ''/api/users'') = []"
  "case ParseQuery (proxyRouteRawQuery (get_request ''www.example.com'' ''/api/users'')) of Inl e \<Rightarrow> False | Inr vs \<Rightarrow> True"
  by code_simp+


lemma api_decision:
  "case fst (resolveProxyRouteDecision plain_env (get_request ''www.example.com'' ''/api/users'') route_conf None 0 7) of
     Inl e \<Rightarrow> False
   | Inr d \<Rightarrow> rd_Source d = ResolutionRoute \<and> rd_RouteName d = ''api'' \<and> rd_RewrittenPath d = ''/v1/users''"
  by code_simp

theorem first_matching_route_wins_witness:
  "\<exists>i<length (cf_Routes route_conf). ro_Name (cf_Routes route_conf ! i) = ''api''
     \<and> (\<forall>j<length (cf_Routes route_conf).
          route_applies plain_env ''www.example.com'' ''/api/users'' (cf_Routes route_conf ! j)
            \<longrightarrow> goes_before (cf_Routes route_conf) i j)"
proof -
  let ?r = "get_request ''www.example.com'' ''/api/users''"
  have hp: "TrimSpace (rq_Host ?r) = ''www.example.com''" "route_path ?r = ''/api/users''" by code_simp+
  from api_decision obtain d where d: "fst (resolveProxyRouteDecision plain_env ?r route_conf None 0 7) = Inr d"
    "rd_Source d = ResolutionRoute" "rd_RouteName d = ''api''" by (auto split: sum.splits)
  from first_matching_route_wins [OF d(1)] d(2,3) show ?thesis unfolding hp by auto
qed

subsection \<open>Raw paths and the default route\<close>

lemma raw_path_run:
  "case fst (resolveProxyRouteDecision plain_env (get_request ''www.example.com'' ''/%61pi/users'') route_conf None 0 0) of
     Inr d \<Rightarrow> False | Inl e \<Rightarrow> True"
  "route_applies plain_env ''www.example.com'' ''/api/users'' (cf_Routes route_conf ! 1)"
  "requestPath (get_request ''www.example.com'' ''/%61pi/users'') = ''/api/users''"
  by code_simp+

text \<open>
  A path rewrite refuses a request that percent-encodes a letter of the matched prefix:
  under an accepted document, a request whose decoded path is the one of an applicable
  route gets an error instead of a decision, because the raw path is compared with the
  prefix literally.
\<close>

theorem encoded_prefix_is_refused:
  "\<exists>c r e. accepted plain_env route_doc c
     \<and> route_applies plain_env ''www.example.com'' (requestPath r) (cf_Routes c ! 1)
     \<and> fst (resolveProxyRouteDecision plain_env r c None 0 0) = Inl e"
proof (intro exI conjI)
  show "accepted plain_env route_doc route_conf" by (rule route_conf_accepted)
  let ?r = "get_request ''www.example.com'' ''/%61pi/users''"
  show "route_applies plain_env ''www.example.com'' (requestPath ?r) (cf_Routes route_conf ! 1)"
    using raw_path_run(2,3) by simp
  show "fst (resolveProxyRouteDecision plain_env ?r route_conf None 0 0)
      = Inl (projl (fst (resolveProxyRouteDecision plain_env ?r route_conf None 0 0)))"
    using raw_path_run(1) by (auto split: sum.splits)
qed

definition default_doc :: ProxyRulesConfig where
  "default_doc = zero_config\<lparr>cf_DefaultRoute := Some \<lparr>dr_Name = [], dr_Enabled = None,
     dr_Action = zero_action\<lparr>ac_Upstream := ''http://a:8080'', ac_PathRewrite := Some \<lparr>pr_Prefix = ''/v1''\<rparr>\<rparr>\<rparr>\<rparr>"

definition default_conf :: ProxyRulesConfig where
  "default_conf = (case normalizeAndValidateProxyRules plain_env default_doc of
     Inl e \<Rightarrow> zero_config | Inr (c, t, er) \<Rightarrow> c)"

lemma default_conf_accepted: "accepted plain_env default_doc default_conf"
proof -
  have "case normalizeAndValidateProxyRules plain_env default_doc of Inl e \<Rightarrow> False | Inr r \<Rightarrow> True"
    by code_simp
  then obtain c t er where "normalizeAndValidateProxyRules plain_env default_doc = Inr (c, t, er)"
    by (auto split: sum.splits)
  then show ?thesis by (simp add: accepted_def default_conf_def)
qed

lemma default_conf_shape:
  "cf_Routes default_conf = []"
  "case cf_DefaultRoute default_conf of None \<Rightarrow> False
   | Some d \<Rightarrow> proxyRouteEnabled (dr_Enabled d) \<and> ac_PathRewrite (dr_Action d) = Some \<lparr>pr_Prefix = ''/v1''\<rparr>"
  "joinProxyRoutePath ''/v1'' [] = ''/v1''"
  by code_simp+

text \<open>
  A path rewrite on the default route throws the path away.  Validation accepts it, although
  it refuses the same rewrite on a route without a path match, and then every request that
  reaches the default route is sent to the bare prefix, whatever its path.
\<close>

theorem default_route_rewrite_drops_the_path:
  "accepted plain_env default_doc default_conf
   \<and> (case fst (resolveProxyRouteDecision plain_env r default_conf health now cur) of
        Inl e \<Rightarrow> True | Inr d \<Rightarrow> rd_RewrittenPath d = ''/v1'')"
proof
  show "accepted plain_env default_doc default_conf" by (rule default_conf_accepted)
  from default_conf_shape(2) obtain d where d: "cf_DefaultRoute default_conf = Some d"
    "proxyRouteEnabled (dr_Enabled d)" "ac_PathRewrite (dr_Action d) = Some \<lparr>pr_Prefix = ''/v1''\<rparr>"
    by (auto split: option.splits)
  have none: "first_applicable plain_env h p (cf_Routes default_conf) = None" for h p
    by (simp add: first_applicable_def sortedProxyRouteIndexes_def default_conf_shape(1))
  show "case fst (resolveProxyRouteDecision plain_env r default_conf health now cur) of
        Inl e \<Rightarrow> True | Inr d \<Rightarrow> rd_RewrittenPath d = ''/v1''"
    using d default_conf_shape(3)
    by (auto simp: resolve_cases none buildProxyRouteDecision_def rewritten_paths_def bindR_Inr
        rewriteProxyRoutePath_def proxyRoutePathMatchDetails_def logged_def
        split: sum.splits prod.splits list.splits if_splits)
qed

end
