(* ===== verification/Routing_Rewrites.thy ===== *)
theory Routing_Rewrites
  imports Proxy_Routing
begin

text \<open>
  The rewrites of a route action on their own: a prefix rewrite is undone by the opposite
  one and cuts paths at segment boundaries only; header and query operations of a
  normalised document have one result, whatever order Go visits its maps in; joining the
  upstream path and the request path makes exactly one slash.
\<close>

subsection \<open>Prefix rewrites\<close>

definition plain_prefix :: "string \<Rightarrow> bool" where
  \<comment> \<open>a prefix in normal form, other than the root\<close>
  "plain_prefix v = (normalizeProxyRoutePrefix v = v \<and> v \<noteq> ''/'')"

lemma plain_prefix_nonempty: "plain_prefix v \<Longrightarrow> v \<noteq> []"
  by (auto simp: plain_prefix_def normalizeProxyRoutePrefix_def)

lemma prefix_details:
  assumes "plain_prefix v" "path \<noteq> []"
  shows "proxyRoutePathMatchDetails env (Some \<lparr>pm_Type = ''prefix'', pm_Value = v\<rparr>) path
    = (if path = v then (True, [])
       else if HasPrefix path (v @ ''/'') then (True, drop (length v) path) else (False, []))"
proof -
  have "TrimPrefix path v = drop (length v) path" if "HasPrefix path (v @ ''/'')"
    using that by (auto simp: HasPrefix_iff)
  with assms show ?thesis by (auto simp: proxyRoutePathMatchDetails_def plain_prefix_def Let_def)
qed

lemma prefix_matches_iff:
  assumes "plain_prefix v" "path \<noteq> []"
  shows "proxyRoutePathMatchDetails env (Some \<lparr>pm_Type = ''prefix'', pm_Value = v\<rparr>) path = (True, s)
    \<longleftrightarrow> path = v @ s \<and> (s = [] \<or> hd s = CHR ''/'')"
proof -
  have "(s \<noteq> [] \<and> hd s = CHR ''/'' \<and> path = v @ s) \<longleftrightarrow> HasPrefix path (v @ ''/'') \<and> s = drop (length v) path"
    by (cases s) (auto simp: HasPrefix_iff)
  then show ?thesis
    unfolding prefix_details [OF assms] by auto
qed

lemma join_plain:
  assumes "plain_prefix w" "s = [] \<or> hd s = CHR ''/''"
  shows "joinProxyRoutePath w s = w @ s"
  using assms by (cases s) (auto simp: joinProxyRoutePath_def plain_prefix_def Let_def)

lemma rewrite_plain:
  assumes "plain_prefix v" "plain_prefix w" "path \<noteq> []"
  shows "rewriteProxyRoutePath env path (Some \<lparr>pm_Type = ''prefix'', pm_Value = v\<rparr>) w = Inr p
    \<longleftrightarrow> (\<exists>s. path = v @ s \<and> (s = [] \<or> hd s = CHR ''/'') \<and> p = w @ s)"
proof -
  obtain ok s where d: "proxyRoutePathMatchDetails env (Some \<lparr>pm_Type = ''prefix'', pm_Value = v\<rparr>) path = (ok, s)"
    by fastforce
  show ?thesis
  proof (cases ok)
    case True
    then have s: "path = v @ s" "s = [] \<or> hd s = CHR ''/''"
      using d prefix_matches_iff [OF assms(1,3)] by auto
    with d True join_plain [OF assms(2) s(2)] show ?thesis
      by (auto simp: rewriteProxyRoutePath_def)
  next
    case False
    then have "\<nexists>s. path = v @ s \<and> (s = [] \<or> hd s = CHR ''/'')"
      using d prefix_matches_iff [OF assms(1,3), of env] by auto
    with d False show ?thesis by (auto simp: rewriteProxyRoutePath_def)
  qed
qed

text \<open>
  A prefix rewrite cuts at a segment boundary and replaces the prefix only: with prefixes in
  normal form, a path is rewritten exactly when it is the matched prefix or continues it
  with a slash, and what follows the prefix is kept byte for byte.
\<close>

theorem prefix_rewrite_replaces_the_prefix:
  assumes "plain_prefix v" "plain_prefix w" "path \<noteq> []"
  shows "rewriteProxyRoutePath env path (Some \<lparr>pm_Type = ''prefix'', pm_Value = v\<rparr>) w =
    (if path = v \<or> HasPrefix path (v @ ''/'') then Inr (w @ drop (length v) path)
     else err ''path %q does not match route path rule'' [path])"
proof (cases "path = v \<or> HasPrefix path (v @ ''/'')")
  case True
  then have "path = v @ drop (length v) path \<and> (drop (length v) path = [] \<or> hd (drop (length v) path) = CHR ''/'')"
    by (auto simp: HasPrefix_iff)
  with rewrite_plain [OF assms, of env "w @ drop (length v) path"] True show ?thesis by auto
next
  case False
  then show ?thesis using prefix_details [OF assms(1,3), of env] by (simp add: rewriteProxyRoutePath_def)
qed

lemma plain_examples: "plain_prefix ''/api''" "plain_prefix ''/v1''"
  by (simp add: plain_prefix_def, code_simp)+

theorem prefix_rewrite_replaces_the_prefix_witness:
  "rewriteProxyRoutePath plain_env ''/api/users'' (Some \<lparr>pm_Type = ''prefix'', pm_Value = ''/api''\<rparr>) ''/v1'' = Inr ''/v1/users''
   \<and> rewriteProxyRoutePath plain_env ''/apiusers'' (Some \<lparr>pm_Type = ''prefix'', pm_Value = ''/api''\<rparr>) ''/v1''
       = err ''path %q does not match route path rule'' [''/apiusers'']"
  using prefix_rewrite_replaces_the_prefix [OF plain_examples, of "''/api/users''" plain_env]
    prefix_rewrite_replaces_the_prefix [OF plain_examples, of "''/apiusers''" plain_env]
  by simp

text \<open>
  Rewriting a prefix is undone by the opposite rewrite: what one route sends from \<open>v\<close> to
  \<open>w\<close>, a route from \<open>w\<close> to \<open>v\<close> sends back to the original path.
\<close>

theorem prefix_rewrite_roundtrip:
  assumes "plain_prefix v" "plain_prefix w" "path \<noteq> []"
    and "rewriteProxyRoutePath env path (Some \<lparr>pm_Type = ''prefix'', pm_Value = v\<rparr>) w = Inr p"
  shows "rewriteProxyRoutePath env p (Some \<lparr>pm_Type = ''prefix'', pm_Value = w\<rparr>) v = Inr path"
proof -
  from assms obtain s where s: "path = v @ s" "s = [] \<or> hd s = CHR ''/''" "p = w @ s"
    by (auto simp: rewrite_plain)
  moreover have "p \<noteq> []" using s plain_prefix_nonempty [OF assms(2)] by simp
  ultimately show ?thesis using rewrite_plain [OF assms(2,1)] by blast
qed

theorem prefix_rewrite_roundtrip_witness:
  "rewriteProxyRoutePath plain_env ''/v1/users'' (Some \<lparr>pm_Type = ''prefix'', pm_Value = ''/v1''\<rparr>) ''/api'' = Inr ''/api/users''"
  by (rule prefix_rewrite_roundtrip [OF plain_examples]) (simp, code_simp)

subsection \<open>Header operations\<close>

lemma rekey_keys_all: "k \<in> fst ` set (rekey f m) \<Longrightarrow> k \<in> range f"
  by (auto simp: rekey_def keys_aput_all)

lemma canonical_name_fixed: "k \<in> range canonicalProxyRouteHeaderName \<Longrightarrow> CanonicalMIMEHeaderKey k = k"
  by (auto simp: canonicalProxyRouteHeaderName_def)

lemma canonical_keys_distinct:
  assumes "m = rekey canonicalProxyRouteHeaderName m0"
  shows "distinct (map (CanonicalMIMEHeaderKey \<circ> fst) m)"
proof -
  have "map (CanonicalMIMEHeaderKey \<circ> fst) m = map fst m"
    using assms rekey_keys_all [of _ canonicalProxyRouteHeaderName m0] canonical_name_fixed
    by (intro map_cong) auto
  then show ?thesis by (metis assms distinct_rekey)
qed

lemma normalized_header_ops:
  assumes "normalizeProxyRouteHeaderOperations raw = Some ops"
  shows "distinct (map (CanonicalMIMEHeaderKey \<circ> fst) (ho_Set ops))"
    and "distinct (map (CanonicalMIMEHeaderKey \<circ> fst) (ho_Add ops))"
proof -
  from assms obtain o0 where "raw = Some o0" by (cases raw) (auto simp: normalizeProxyRouteHeaderOperations_def)
  with assms have "ho_Set ops = rekey canonicalProxyRouteHeaderName (ho_Set o0)"
    "ho_Add ops = rekey canonicalProxyRouteHeaderName (ho_Add o0)"
    by (auto simp: normalizeProxyRouteHeaderOperations_def Let_def split: if_splits)
  then show "distinct (map (CanonicalMIMEHeaderKey \<circ> fst) (ho_Set ops))"
    "distinct (map (CanonicalMIMEHeaderKey \<circ> fst) (ho_Add ops))"
    by (auto intro: canonical_keys_distinct)
qed

text \<open>
  The header operations of a normalised route have one result: applied in any order of the
  entries of their \<open>set\<close> and \<open>add\<close> maps and of their removals, they give every header the
  same values.
\<close>

theorem header_operations_order_independent:
  assumes "normalizeProxyRouteHeaderOperations raw = Some ops"
    and "mset (ho_Set ops') = mset (ho_Set ops)" "mset (ho_Add ops') = mset (ho_Add ops)"
    and "set (ho_Remove ops') = set (ho_Remove ops)"
  shows "hdr_values (applyProxyRouteHeaders ops' h) k = hdr_values (applyProxyRouteHeaders ops h) k"
proof -
  note d = normalized_header_ops [OF assms(1)]
  have "values_for CanonicalMIMEHeaderKey (ho_Set ops') k = values_for CanonicalMIMEHeaderKey (ho_Set ops) k"
    "values_for CanonicalMIMEHeaderKey (ho_Add ops') k = values_for CanonicalMIMEHeaderKey (ho_Add ops) k"
    using values_for_permute [OF assms(2) [symmetric] d(1)] values_for_permute [OF assms(3) [symmetric] d(2)]
    by simp_all
  with assms(4) show ?thesis by (simp add: applyProxyRouteHeaders_def header.lookup_apply)
qed

definition raw_ops :: ProxyRouteHeaderOperations where
  "raw_ops = \<lparr>ho_Set = [(''x-a'', ''1''), (''x-b'', ''2'')], ho_Add = [(''x-c'', ''3'')], ho_Remove = [''x-d'', ''x-e'']\<rparr>"

definition clean_ops :: ProxyRouteHeaderOperations where
  "clean_ops = \<lparr>ho_Set = [(''X-A'', ''1''), (''X-B'', ''2'')], ho_Add = [(''X-C'', ''3'')], ho_Remove = [''X-D'', ''X-E'']\<rparr>"

lemma clean_ops_normalized: "normalizeProxyRouteHeaderOperations (Some raw_ops) = Some clean_ops"
  by code_simp

theorem header_operations_order_independent_witness:
  "hdr_values (applyProxyRouteHeaders
      \<lparr>ho_Set = [(''X-B'', ''2''), (''X-A'', ''1'')], ho_Add = [(''X-C'', ''3'')], ho_Remove = [''X-E'', ''X-D'']\<rparr>
      [(''X-D'', [''q'']), (''X-C'', [''0''])]) ''X-A''
    = hdr_values (applyProxyRouteHeaders clean_ops [(''X-D'', [''q'']), (''X-C'', [''0''])]) ''X-A''"
  by (rule header_operations_order_independent [OF clean_ops_normalized]) (auto simp: clean_ops_def)

subsection \<open>Query operations\<close>

text \<open>The encoding of a query depends on the map only.\<close>

lemma encode_map:
  assumes "distinct (map fst m)" "distinct (map fst m')" "map_of m = map_of m'"
  shows "Values_Encode m = Values_Encode m'"
proof -
  have "set m = set m'" using assms by (metis map_of_eq_Some_iff subrelI subset_antisym surj_pair)
  then have "sort_by key_less m = sort_by key_less m'"
    using assms(1,2) by (intro keys.sort_by_unique)
  then show ?thesis by (simp add: Values_Encode_def)
qed

lemma map_of_values: "map_of m k = (if k \<in> fst ` set m then Some (values_get m k) else None)"
  by (cases "map_of m k") (auto simp: values_get_def map_of_eq_None_iff dest: map_of_SomeD intro: rev_image_eqI)

lemma fold_keys:
  assumes "\<And>k v m. fst ` set (f k v m) = insert k (fst ` set m)"
  shows "fst ` set (fold (\<lambda>(k, v). f k v) kvs m) = fst ` set kvs \<union> fst ` set m"
proof (induction kvs arbitrary: m)
  case (Cons a kvs)
  show ?case by (cases a) (simp add: Cons.IH assms)
qed simp

lemma fold_distinct:
  assumes "\<And>k v m. distinct (map fst m) \<Longrightarrow> distinct (map fst (f k v m))"
  shows "distinct (map fst m) \<Longrightarrow> distinct (map fst (fold (\<lambda>(k, v). f k v) kvs m))"
  by (induction kvs arbitrary: m) (auto intro: assms)

lemma apply_keys:
  "fst ` set (apply_ops Values_Del Values_Set Values_Add [] sets adds m)
     = fst ` set sets \<union> fst ` set adds \<union> fst ` set m"
  unfolding apply_ops_def
  by (subst fold_keys, simp add: Values_Add_def keys_aput, subst fold_keys, simp add: Values_Set_def keys_aput)
    auto

lemma apply_distinct:
  "distinct (map fst m) \<Longrightarrow> distinct (map fst (apply_ops Values_Del Values_Set Values_Add [] sets adds m))"
  unfolding apply_ops_def
  by (intro fold_distinct) (simp_all add: Values_Add_def Values_Set_def distinct_aput)

lemma parse_pairs_distinct:
  "parse_pairs ps m = Inr vs \<Longrightarrow> distinct (map fst m) \<Longrightarrow> distinct (map fst vs)"
  by (induction ps m rule: parse_pairs.induct)
    (auto simp: Values_Add_def distinct_aput split: if_splits prod.splits sum.splits)

lemma dels_filter: "fold Values_Del ks m = filter (\<lambda>(k, v). k \<notin> set ks) m"
  by (induction ks arbitrary: m) (auto simp: Values_Del_def adel_def intro: filter_cong)

lemma pruned_distinct:
  "distinct (map fst m) \<Longrightarrow> distinct (map fst (remove_prefixes ps (fold Values_Del ks m)))"
  by (simp add: remove_prefixes_def dels_filter distinct_map_filter)

lemma trim_keys_distinct: "distinct (map ((\<lambda>k. k) \<circ> fst) (trim_keys m))"
  by (simp add: trim_keys_def comp_def)

text \<open>
  The query operations of a normalised route have one result: whatever order the entries of
  their \<open>set\<close> and \<open>add\<close> maps, their removals and their removal prefixes are visited in, the
  rewritten query string is the same.
\<close>

theorem query_operations_order_independent:
  assumes "normalizeProxyRouteQueryOperations raw = Some ops"
    and "mset (qo_Set ops') = mset (qo_Set ops)" "mset (qo_Add ops') = mset (qo_Add ops)"
    and "set (qo_Remove ops') = set (qo_Remove ops)"
    and "set (qo_RemovePrefixes ops') = set (qo_RemovePrefixes ops)"
  shows "rewriteProxyRouteQuery q (Some ops') = rewriteProxyRouteQuery q (Some ops)"
proof (cases "ParseQuery q")
  case (Inr vs)
  from assms(1) obtain o0 where "raw = Some o0" by (cases raw) (auto simp: normalizeProxyRouteQueryOperations_def)
  with assms(1) have o0: "qo_Set ops = trim_keys (qo_Set o0)" "qo_Add ops = trim_keys (qo_Add o0)"
    by (auto simp: normalizeProxyRouteQueryOperations_def Let_def split: if_splits)
  have same: "values_for (\<lambda>k. k) (qo_Set ops') k = values_for (\<lambda>k. k) (qo_Set ops) k"
    "values_for (\<lambda>k. k) (qo_Add ops') k = values_for (\<lambda>k. k) (qo_Add ops) k" for k
    using values_for_permute [OF assms(2) [symmetric], of "\<lambda>k. k" k]
      values_for_permute [OF assms(3) [symmetric], of "\<lambda>k. k" k]
    unfolding o0 by (simp_all only: trim_keys_distinct simp_thms)
  have sets: "set (qo_Set ops') = set (qo_Set ops)" "set (qo_Add ops') = set (qo_Add ops)"
    using assms(2,3) by (metis set_mset_mset)+
  let ?m = "remove_prefixes (qo_RemovePrefixes ops) (fold Values_Del (qo_Remove ops) vs)"
  have m: "remove_prefixes (qo_RemovePrefixes ops') (fold Values_Del (qo_Remove ops') vs) = ?m"
    using assms(4,5) by (simp add: remove_prefixes_def dels_filter list_ex_iff)
  from Inr have "parse_pairs (SplitByte q (CHR ''&'')) [] = Inr vs" by (simp add: ParseQuery_def)
  then have "distinct (map fst vs)" by (rule parse_pairs_distinct) simp
  then have d: "distinct (map fst ?m)" by (rule pruned_distinct)
  have "map_of (apply_ops Values_Del Values_Set Values_Add [] (qo_Set ops') (qo_Add ops') ?m)
      = map_of (apply_ops Values_Del Values_Set Values_Add [] (qo_Set ops) (qo_Add ops) ?m)"
    by (rule ext) (simp add: map_of_values apply_keys sets query.lookup_apply same)
  then have "Values_Encode (apply_ops Values_Del Values_Set Values_Add [] (qo_Set ops') (qo_Add ops') ?m)
      = Values_Encode (apply_ops Values_Del Values_Set Values_Add [] (qo_Set ops) (qo_Add ops) ?m)"
    using d by (intro encode_map apply_distinct)
  with Inr m show ?thesis by (simp add: rewriteProxyRouteQuery_def wrapR_def)
qed (simp add: rewriteProxyRouteQuery_def wrapR_def)

definition query_ops :: ProxyRouteQueryOperations where
  "query_ops = \<lparr>qo_Set = [(''a'', ''1''), (''b'', ''2'')], qo_Add = [], qo_Remove = [''c'', ''d''], qo_RemovePrefixes = [''utm_'']\<rparr>"

lemma query_ops_normalized: "normalizeProxyRouteQueryOperations (Some query_ops) = Some query_ops"
  by code_simp

theorem query_operations_order_independent_witness:
  "rewriteProxyRouteQuery ''b=9&c=3&utm_x=1''
     (Some \<lparr>qo_Set = [(''b'', ''2''), (''a'', ''1'')], qo_Add = [], qo_Remove = [''d'', ''c''], qo_RemovePrefixes = [''utm_'']\<rparr>)
   = rewriteProxyRouteQuery ''b=9&c=3&utm_x=1'' (Some query_ops)"
  by (rule query_operations_order_independent [OF query_ops_normalized]) (auto simp: query_ops_def)

end
