(* ===== verification/Proxy_Transport.thy ===== *)
theory Proxy_Transport
  imports Routing_Correct Backend_Protocol "HOL-Library.Sublist"
begin

text \<open>
  The dynamic transport of \<open>proxy_runtime.go\<close>: the attempts of a request over its ordered
  targets, with acquisition, passive health, retries and the release when the response body
  is closed; the buffering of request and response bodies; and the theorem that a round
  trip is a legal run of the health monitor's protocol that leaves nothing acquired but the
  attempt whose response is still open.

  The network and the clock are parameters: \<open>net n r\<close> is what the upstream does with the
  request of attempt \<open>n\<close>, and \<open>clock n\<close> the instant at which attempt \<open>n\<close> reads the time.
  Spans and back-off sleeps have no effect on the result and are left out.
\<close>

datatype upstream_reply = Refused string | Reply int bool
  \<comment> \<open>an error, or a status code and whether there is a response body\<close>

text \<open>
  What a round trip returns: an error, or a status with the key that closing the response
  body releases (empty when nothing is left to release).
\<close>

record proxyTrackedReadCloser =
  tr_key :: string
  tr_closed :: bool

type_synonym round_result = "(int \<times> proxyTrackedReadCloser option) result"

subsection \<open>One attempt\<close>

definition cloneProxyRetryRequest ::
  "Request \<Rightarrow> proxyRouteDecision \<Rightarrow> proxyRouteTargetCandidate \<Rightarrow> nat \<Rightarrow> proxyRetryPolicy \<Rightarrow> (Request \<times> int option) result" where
  \<comment> \<open>the second component is the per-try timeout, when one is set\<close>
  "cloneProxyRetryRequest r d c attempt pol =
     (if 0 < attempt \<and> (case rq_Body r of Stream s \<Rightarrow> True | _ \<Rightarrow> False)
      then err ''request body is not rewindable for retry'' []
      else let out = rewriteProxyOutgoingURL (tc_Target c) (rd_RewrittenPath d) (rd_RewrittenRawPath d) (rd_RewrittenQuery d) r
           in Inr (out\<lparr>rq_Host := rd_RewrittenHost d\<rparr>,
                   if 0 < rt_PerTryTimeout pol then Some (rt_PerTryTimeout pol) else None))"

definition tracked :: "string \<Rightarrow> (upstreamHealthMonitor \<Rightarrow> upstreamHealthMonitor)
    \<Rightarrow> upstreamHealthMonitor option \<Rightarrow> upstreamHealthMonitor option" where
  \<comment> \<open>\<open>if tracker != nil && candidate.Key != "" { ... }\<close>\<close>
  "tracked key f tracker = (if key = [] then tracker else map_option f tracker)"

definition acquire :: "int \<Rightarrow> string \<Rightarrow> upstreamHealthMonitor option \<Rightarrow> bool \<times> upstreamHealthMonitor option" where
  "acquire now key tracker =
     (case tracker of
        None \<Rightarrow> (True, None)
      | Some m \<Rightarrow> if key = [] then (True, Some m)
                 else (case AcquireTarget now key m of (ok, m') \<Rightarrow> (ok, Some m')))"

subsection \<open>The loop over the attempts\<close>

fun round_attempts ::
  "(nat \<Rightarrow> Request \<Rightarrow> upstream_reply) \<Rightarrow> (nat \<Rightarrow> int) \<Rightarrow> Request \<Rightarrow> proxyRouteDecision \<Rightarrow> nat
     \<Rightarrow> proxyRouteTargetCandidate list \<Rightarrow> goerr \<Rightarrow> upstreamHealthMonitor option
     \<Rightarrow> round_result \<times> upstreamHealthMonitor option \<times> Request list" where
  \<comment> \<open>from attempt \<open>n\<close> on, over the targets left within \<open>maxAttempts\<close>; with the requests sent\<close>
  "round_attempts net clock r d n [] lastErr tracker = (Inl lastErr, tracker, [])"
| "round_attempts net clock r d n (c # cs) lastErr tracker =
     (let pol = rd_RetryPolicy d; key = tc_Key c in
      case cloneProxyRetryRequest r d c n pol of
        Inl e \<Rightarrow> (Inl e, tracker, [])
      | Inr (out, timeout) \<Rightarrow>
          (case acquire (clock n) key tracker of
             (False, t1) \<Rightarrow>
               round_attempts net clock r d (Suc n) cs
                 (Errorf ''backend unavailable for retry target %q'' [tc_Name c]) t1
           | (True, t1) \<Rightarrow>
               (case net n out of
                  Refused msg \<Rightarrow>
                    (let t2 = tracked key (RecordPassiveFailure (clock n) key 0 (Some msg)) t1;
                         t3 = tracked key (ReleaseTarget key) t2
                     in if cs \<noteq> [] \<and> retry_Enabled pol
                        then (case round_attempts net clock r d (Suc n) cs (Errorf msg []) t3 of
                                (res, t4, sent) \<Rightarrow> (res, t4, out # sent))
                        else (Inl (Errorf msg []), t3, [out]))
                | Reply status body \<Rightarrow>
                    if retry_Enabled pol \<and> cs \<noteq> [] \<and> RetryableStatus pol status
                    then (let t2 = tracked key (RecordPassiveFailure (clock n) key status None) t1;
                              t3 = tracked key (ReleaseTarget key) t2
                          in case round_attempts net clock r d (Suc n) cs
                                    (Errorf ''retryable status code: %d'' [Itoa status]) t3 of
                               (res, t4, sent) \<Rightarrow> (res, t4, out # sent))
                    else (let t2 = tracked key (if RetryableStatus pol status
                                then RecordPassiveFailure (clock n) key status None
                                else RecordPassiveSuccess (clock n) key status) t1
                          in if \<not> body then (Inr (status, None), tracked key (ReleaseTarget key) t2, [out])
                             else (Inr (status, Some \<lparr>tr_key = key, tr_closed = False\<rparr>), t2, [out])))))"

definition decision_targets :: "proxyRouteDecision \<Rightarrow> proxyRouteTargetCandidate list" where
  "decision_targets d =
     (if rd_OrderedTargets d \<noteq> [] then rd_OrderedTargets d
      else [\<lparr>tc_Key = rd_HealthKey d, tc_Name = rd_SelectedUpstream d, tc_Target = rd_Target d,
            tc_Weight = 1, tc_Managed = (rd_HealthKey d \<noteq> [])\<rparr>])"

definition max_attempts :: "Request \<Rightarrow> proxyRouteDecision \<Rightarrow> nat" where
  "max_attempts r d =
     (let pol = rd_RetryPolicy d;
          n = (if retry_Enabled pol \<and> AllowsMethod pol (rq_Method r) then 1 + nat (rt_Attempts pol) else 1)
      in min (length (decision_targets d)) n)"

definition RoundTrip ::
  "(nat \<Rightarrow> Request \<Rightarrow> upstream_reply) \<Rightarrow> (nat \<Rightarrow> int) \<Rightarrow> Request \<Rightarrow> proxyRouteDecision option
     \<Rightarrow> upstreamHealthMonitor option \<Rightarrow> round_result \<times> upstreamHealthMonitor option \<times> Request list" where
  "RoundTrip net clock r decision tracker =
     (case decision of
        None \<Rightarrow>
          (case net 0 r of
             Refused msg \<Rightarrow> (Inl (Errorf msg []), tracker, [r])
           | Reply status body \<Rightarrow> (Inr (status, None), tracker, [r]))
      | Some d \<Rightarrow>
          round_attempts net clock r d 0 (take (max_attempts r d) (decision_targets d)) (Errorf [] []) tracker)"

definition Close :: "proxyTrackedReadCloser \<Rightarrow> upstreamHealthMonitor option
    \<Rightarrow> proxyTrackedReadCloser \<times> upstreamHealthMonitor option" where
  \<comment> \<open>\<open>sync.Once\<close>: only the first call releases\<close>
  "Close b tracker =
     (if tr_closed b then (b, tracker)
      else (b\<lparr>tr_closed := True\<rparr>, tracked (tr_key b) (ReleaseTarget (tr_key b)) tracker))"

subsection \<open>Buffering\<close>

definition maybeBufferProxyRequestBody :: "ProxyRulesConfig \<Rightarrow> Request \<Rightarrow> Request result" where
  "maybeBufferProxyRequestBody c r =
     (if \<not> cf_BufferRequestBody c then Inr r
      else case rq_Body r of
             NoBody \<Rightarrow> Inr r
           | Stream s \<Rightarrow> bindR s (\<lambda>b. Inr (r\<lparr>rq_Body := Replayable b, rq_ContentLength := int (length b)\<rparr>))
           | Replayable b \<Rightarrow> Inr (r\<lparr>rq_ContentLength := int (length b)\<rparr>))"

record Response =
  rs_StatusCode :: int
  rs_Header :: http_header
  rs_Body :: "(string result) option"
  rs_ContentLength :: int

definition maybeBufferProxyResponseBody :: "ProxyRulesConfig \<Rightarrow> Response \<Rightarrow> Response result" where
  \<comment> \<open>reading is limited to one byte more than the bound; a read error within it is returned\<close>
  "maybeBufferProxyResponseBody c res =
     (case rs_Body res of
        None \<Rightarrow> Inr res
      | Some reader \<Rightarrow>
          if cf_MaxResponseBufferBytes c \<le> 0 then Inr res
          else if cf_MaxResponseBufferBytes c < rs_ContentLength res \<and> 0 < rs_ContentLength res
          then err ''upstream response exceeds max_response_buffer_bytes'' []
          else bindR reader (\<lambda>bytes.
            let body = take (nat (cf_MaxResponseBufferBytes c + 1)) bytes in
            if cf_MaxResponseBufferBytes c < int (length body)
            then err ''upstream response exceeds max_response_buffer_bytes'' []
            else Inr (res\<lparr>rs_Body := Some (Inr body), rs_ContentLength := int (length body),
                   rs_Header := Header_Set ''Content-Length'' (Itoa (int (length body))) (rs_Header res)\<rparr>)))"

subsection \<open>The request the reverse proxy sends\<close>

definition rewrite_request ::
  "URL option \<Rightarrow> URL \<Rightarrow> proxyRouteDecision option \<Rightarrow> bool \<Rightarrow> Request \<Rightarrow> Request \<Rightarrow> Request" where
  \<comment> \<open>the \<open>Rewrite\<close> function of the reverse proxy: the current target, the primary target, the
      decision, whether the client used TLS, the inbound and the outbound request\<close>
  "rewrite_request current primary decision tls inr outr =
     (let target = (case decision of Some d \<Rightarrow> rd_Target d
                    | None \<Rightarrow> (case current of Some t \<Rightarrow> t | None \<Rightarrow> primary));
          (path, rawPath, query) = (case decision of
             Some d \<Rightarrow> (rd_RewrittenPath d, rd_RewrittenRawPath d, rd_RewrittenQuery d)
           | None \<Rightarrow> (url_Path (rq_URL inr), url_RawPath (rq_URL inr), url_RawQuery (rq_URL inr)));
          out1 = rewriteProxyOutgoingURL target path rawPath query outr;
          out2 = out1\<lparr>rq_Header := SetXForwarded tls inr (rq_Header out1)\<rparr>;
          host = (case decision of
             Some d \<Rightarrow> if TrimSpace (rd_RewrittenHost d) \<noteq> [] then rd_RewrittenHost d else rq_Host inr
           | None \<Rightarrow> rq_Host inr);
          out3 = out2\<lparr>rq_Host := host\<rparr>
      in case decision of None \<Rightarrow> out3
         | Some d \<Rightarrow> out3\<lparr>rq_Header := applyProxyRouteHeaders (rd_RequestHeaderOps d) (rq_Header out3)\<rparr>)"

subsection \<open>A round trip follows the protocol of the monitor\<close>

definition reaches :: "hm_world \<Rightarrow> upstreamHealthMonitor \<Rightarrow> (string \<times> circuit) list \<Rightarrow> bool" where
  "reaches w m hs = (\<exists>es w'. hm_run es w = Some w' \<and> w_mon w' = m \<and> w_held w' = hs
     \<and> list_all (\<lambda>e. \<not> reconfigures e \<and> \<not> abandons e) es)"

lemma hm_run_snoc: "hm_run (es @ [e]) w = (case hm_run es w of None \<Rightarrow> None | Some w' \<Rightarrow> hm_exec e w')"
  by (induction es arbitrary: w) (auto split: option.splits)

lemma reaches_refl: "reaches w (w_mon w) (w_held w)"
  unfolding reaches_def by (rule exI [of _ "[]"]) simp

lemma reaches_step:
  assumes "reaches w m hs" "\<not> reconfigures e" "\<not> abandons e"
    and "\<And>w1. w_mon w1 = m \<Longrightarrow> w_held w1 = hs \<Longrightarrow> \<exists>w2. hm_exec e w1 = Some w2 \<and> w_mon w2 = m' \<and> w_held w2 = hs'"
  shows "reaches w m' hs'"
proof -
  from assms(1) obtain es w1 where es: "hm_run es w = Some w1" "w_mon w1 = m" "w_held w1 = hs"
    "list_all (\<lambda>e. \<not> reconfigures e \<and> \<not> abandons e) es" by (auto simp: reaches_def)
  with assms(4) obtain w2 where "hm_exec e w1 = Some w2" "w_mon w2 = m'" "w_held w2 = hs'" by blast
  with es assms(2,3) show ?thesis
    unfolding reaches_def by (intro exI [of _ "es @ [e]"] exI [of _ w2]) (simp add: hm_run_snoc)
qed

lemma reaches_acquire:
  "reaches w m hs \<Longrightarrow> AcquireTarget now k m = (True, m') \<Longrightarrow> reaches w m' ((k, circuit_of k m') # hs)"
  by (rule reaches_step [where e = "Acquire now k"]) (auto simp: reconfigures_def abandons_def)

lemma reaches_refused: "reaches w m hs \<Longrightarrow> AcquireTarget now k m = (False, m') \<Longrightarrow> reaches w m' hs"
  by (rule reaches_step [where e = "Acquire now k"]) (auto simp: reconfigures_def abandons_def)

lemma reaches_failure:
  "reaches w m ((k, ci) # hs) \<Longrightarrow> reaches w (RecordPassiveFailure now k st e m) ((k, ci) # hs)"
  by (rule reaches_step [where e = "PassiveFailure now k st e"]) (auto simp: reconfigures_def abandons_def held_def)

lemma reaches_success:
  "reaches w m ((k, ci) # hs) \<Longrightarrow> reaches w (RecordPassiveSuccess now k st m) ((k, ci) # hs)"
  by (rule reaches_step [where e = "PassiveSuccess now k st"]) (auto simp: reconfigures_def abandons_def held_def)

lemma reaches_release: "reaches w m ((k, ci) # hs) \<Longrightarrow> reaches w (ReleaseTarget k m) hs"
  by (rule reaches_step [where e = "Release k ci"]) (auto simp: reconfigures_def abandons_def)

lemmas reach_intros = reaches_acquire reaches_refused reaches_failure reaches_success reaches_release

definition still_open :: "round_result \<Rightarrow> string" where
  \<comment> \<open>the key the response body still holds; empty when it holds none\<close>
  "still_open res = (case res of Inr (st, Some b) \<Rightarrow> tr_key b | _ \<Rightarrow> [])"

definition settled :: "hm_world \<Rightarrow> (string \<times> circuit) list \<Rightarrow> round_result \<Rightarrow> upstreamHealthMonitor option \<Rightarrow> bool" where
  "settled w hs res t = (\<exists>m'. t = Some m' \<and>
     (if still_open res = [] then reaches w m' hs else (\<exists>ci. reaches w m' ((still_open res, ci) # hs))))"

lemma settled_error: "reaches w m hs \<Longrightarrow> settled w hs (Inl e) (Some m)"
  by (simp add: settled_def still_open_def)

lemma settled_done: "reaches w m hs \<Longrightarrow> settled w hs (Inr (st, None)) (Some m)"
  by (simp add: settled_def still_open_def)

lemma settled_untracked: "reaches w m hs \<Longrightarrow> settled w hs (Inr (st, Some \<lparr>tr_key = [], tr_closed = b\<rparr>)) (Some m)"
  by (simp add: settled_def still_open_def)

lemma settled_open:
  "reaches w m ((k, ci) # hs) \<Longrightarrow> k \<noteq> [] \<Longrightarrow> settled w hs (Inr (st, Some \<lparr>tr_key = k, tr_closed = b\<rparr>)) (Some m)"
  by (auto simp: settled_def still_open_def)

lemmas settled_intros = settled_error settled_done settled_untracked settled_open

lemma acquire_simps [simp]:
  "acquire now [] t = (True, t)"
  "k \<noteq> [] \<Longrightarrow> acquire now k (Some m) = (fst (AcquireTarget now k m), Some (snd (AcquireTarget now k m)))"
  by (auto simp: acquire_def split: option.split prod.split)

lemma tracked_simps [simp]: "tracked [] f t = t" "k \<noteq> [] \<Longrightarrow> tracked k f t = map_option f t"
  by (simp_all add: tracked_def)

lemma attempts_settle:
  "reaches w m hs \<Longrightarrow> round_attempts net clock r d n cs lastErr (Some m) = (res, t, sent) \<Longrightarrow> settled w hs res t"
proof (induction cs arbitrary: n lastErr m sent)
  case Nil
  then show ?case by (auto intro: settled_error)
next
  case (Cons c cs)
  let ?pol = "rd_RetryPolicy d" and ?k = "tc_Key c"
  show ?case
  proof (cases "cloneProxyRetryRequest r d c n ?pol")
    case (Inl e)
    with Cons.prems show ?thesis by (auto intro: settled_error)
  next
    case (Inr ot)
    then obtain out tmo where clone: "cloneProxyRetryRequest r d c n ?pol = Inr (out, tmo)" by (cases ot) auto
    note step = Cons.prems(2) [unfolded round_attempts.simps Let_def clone]
    show ?thesis
    proof (cases "?k = []")
      case True
      show ?thesis
        using step Cons.IH [OF Cons.prems(1)] Cons.prems(1) unfolding True
        by (cases "net n out") (auto intro: settled_intros split: if_splits prod.splits)
    next
      case False
      let ?m1 = "snd (AcquireTarget (clock n) ?k m)"
      show ?thesis
      proof (cases "fst (AcquireTarget (clock n) ?k m)")
        case ok: False
        then have "reaches w ?m1 hs" using reaches_refused [OF Cons.prems(1)] by (metis prod.collapse)
        with False ok step Cons.IH show ?thesis by auto
      next
        case ok: True
        have held: "reaches w ?m1 ((?k, circuit_of ?k ?m1) # hs)"
          using reaches_acquire [OF Cons.prems(1)] ok by (metis prod.collapse)
        have fail: "reaches w (ReleaseTarget ?k (RecordPassiveFailure now ?k st e ?m1)) hs" for now st e
          by (rule reaches_release [OF reaches_failure [OF held]])
        have good: "reaches w (ReleaseTarget ?k (RecordPassiveSuccess now ?k st ?m1)) hs" for now st
          by (rule reaches_release [OF reaches_success [OF held]])
        show ?thesis
          using step ok False Cons.IH [OF fail] fail good settled_open [OF reaches_failure [OF held]]
            settled_open [OF reaches_success [OF held]]
          by (cases "net n out") (auto intro: settled_error settled_done split: if_splits prod.splits)
      qed
    qed
  qed
qed

lemma round_trip_settles:
  "RoundTrip net clock r dec (Some (w_mon w)) = (res, t, sent) \<Longrightarrow> settled w (w_held w) res t"
  using attempts_settle [OF reaches_refl [of w]]
  by (auto simp: RoundTrip_def split: option.splits upstream_reply.splits intro: settled_intros reaches_refl)

text \<open>
  C9: A round trip follows the protocol of the health monitor and leaks nothing: whatever the
  network answers and however attempts are retried, the calls it makes are a legal run of
  acquisitions, recordings and releases, and afterwards the only attempt still held is the
  one whose response body is open, if there is one.
\<close>

theorem round_trip_follows_protocol:
  "case RoundTrip net clock r dec (Some (w_mon w)) of (res, t, sent) \<Rightarrow>
     \<exists>m. t = Some m \<and>
       (if still_open res = [] then reaches w m (w_held w)
        else \<exists>ci. reaches w m ((still_open res, ci) # w_held w))"
proof -
  obtain res t sent where rt: "RoundTrip net clock r dec (Some (w_mon w)) = (res, t, sent)"
    using prod_cases3 by blast
  show ?thesis using round_trip_settles [OF rt] by (simp add: rt settled_def)
qed

definition close_result :: "round_result \<Rightarrow> upstreamHealthMonitor option \<Rightarrow> upstreamHealthMonitor option" where
  \<comment> \<open>the caller closes the response body, and, as readers often do, closes it again\<close>
  "close_result res t = (case res of
     Inr (st, Some b) \<Rightarrow> (case Close b t of (b', t') \<Rightarrow> snd (Close b' t'))
   | _ \<Rightarrow> t)"

text \<open>One attempt, by what it adds to the requests sent.\<close>

lemma attempts_Cons:
  assumes "round_attempts net clock r d n (c # cs) lastErr t0 = (res, t, sent)"
  shows "(\<exists>e. res = Inl e \<and> sent = [])
    \<or> (\<exists>le t1. round_attempts net clock r d (Suc n) cs le t1 = (res, t, sent))
    \<or> (\<exists>out tmo le t1 sent'. cloneProxyRetryRequest r d c n (rd_RetryPolicy d) = Inr (out, tmo)
         \<and> round_attempts net clock r d (Suc n) cs le t1 = (res, t, sent') \<and> sent = out # sent')
    \<or> (\<exists>out tmo. cloneProxyRetryRequest r d c n (rd_RetryPolicy d) = Inr (out, tmo) \<and> sent = [out]
         \<and> (case res of Inr (st, Some b) \<Rightarrow> \<not> tr_closed b | _ \<Rightarrow> True))"
proof (cases "cloneProxyRetryRequest r d c n (rd_RetryPolicy d)")
  case (Inl e)
  with assms show ?thesis by auto
next
  case (Inr ot)
  then obtain out tmo where clone: "cloneProxyRetryRequest r d c n (rd_RetryPolicy d) = Inr (out, tmo)" by (cases ot) auto
  note step = assms [unfolded round_attempts.simps Let_def clone]
  obtain ok t1 where acq: "acquire (clock n) (tc_Key c) t0 = (ok, t1)" by fastforce
  show ?thesis
  proof (cases ok)
    case False
    with step acq have "\<exists>le t1. round_attempts net clock r d (Suc n) cs le t1 = (res, t, sent)" by auto
    then show ?thesis by blast
  next
    case True
    show ?thesis
    proof (cases "(\<exists>le t1 sent'. round_attempts net clock r d (Suc n) cs le t1 = (res, t, sent') \<and> sent = out # sent')")
      case True
      with clone show ?thesis by blast
    next
      case False
      with step acq \<open>ok\<close> have "sent = [out] \<and> (case res of Inr (st, Some b) \<Rightarrow> \<not> tr_closed b | _ \<Rightarrow> True)"
        by (cases "net n out") (auto split: if_splits prod.splits)
      with clone show ?thesis by blast
    qed
  qed
qed

lemma attempts_open:
  "round_attempts net clock r d n cs lastErr t0 = (Inr (st, Some b), t, sent) \<Longrightarrow> \<not> tr_closed b"
proof (induction cs arbitrary: n lastErr t0 sent)
  case (Cons c cs)
  from attempts_Cons [OF Cons.prems] show ?case by (elim disjE exE conjE) (auto dest: Cons.IH)
qed simp

lemma closed_round_trip:
  assumes "RoundTrip net clock r dec (Some (w_mon w)) = (res, t, sent)"
  shows "\<exists>m. close_result res t = Some m \<and> reaches w m (w_held w)"
proof (cases "\<exists>st b. res = Inr (st, Some b)")
  case True
  then obtain st b where res: "res = Inr (st, Some b)" by blast
  have unclosed: "\<not> tr_closed b"
    using assms res attempts_open
    by (auto simp: RoundTrip_def split: option.splits upstream_reply.splits)
  from round_trip_settles [OF assms] show ?thesis
    using reaches_release unclosed
    by (cases "tr_key b = []") (auto simp: settled_def still_open_def close_result_def Close_def res split: if_splits)
next
  case False
  with round_trip_settles [OF assms] show ?thesis
    by (auto simp: settled_def still_open_def close_result_def split: sum.splits option.splits)
qed

text \<open>
  Once the response body is closed, a round trip has given back everything: the monitor is
  in a state a legal run reaches with exactly the attempts held that were held before, even
  when the body is closed twice.
\<close>

theorem closed_round_trip_holds_nothing:
  "case RoundTrip net clock r dec (Some (w_mon w)) of (res, t, sent) \<Rightarrow>
     \<exists>m. close_result res t = Some m \<and> reaches w m (w_held w)"
  using closed_round_trip by (simp split: prod.split)

subsection \<open>Which requests are sent\<close>

lemma attempts_subseq:
  "round_attempts net clock r d n cs lastErr t0 = (res, t, sent) \<Longrightarrow>
   subseq (map (\<lambda>q. url_Host (rq_URL q)) sent) (map (\<lambda>c. url_Host (tc_Target c)) cs)"
proof (induction cs arbitrary: n lastErr t0 sent)
  case (Cons c cs)
  have host: "url_Host (rq_URL out) = url_Host (tc_Target c)"
    if "cloneProxyRetryRequest r d c n (rd_RetryPolicy d) = Inr (out, tmo)" for out tmo
    using that by (auto simp: cloneProxyRetryRequest_def rewriteProxyOutgoingURL_def
        rewriteProxyTargetURL_def Let_def split: if_splits)
  from attempts_Cons [OF Cons.prems] show ?case
    by (elim disjE exE conjE) (auto dest: Cons.IH host)
qed simp

lemma sent_length:
  assumes "RoundTrip net clock r (Some d) t0 = (res, t, sent)"
  shows "length sent \<le> max_attempts r d"
proof -
  have "subseq (map (\<lambda>q. url_Host (rq_URL q)) sent)
      (map (\<lambda>c. url_Host (tc_Target c)) (take (max_attempts r d) (decision_targets d)))"
    using assms attempts_subseq by (auto simp: RoundTrip_def)
  then have "length sent \<le> length (take (max_attempts r d) (decision_targets d))"
    using list_emb_length by fastforce
  then show ?thesis by simp
qed

text \<open>
  A request is sent at most once to each of its targets, in their order: the hosts of the
  requests a round trip sends are a subsequence of the hosts of the ordered targets.
\<close>

theorem attempts_follow_the_order:
  "case RoundTrip net clock r (Some d) t0 of (res, t, sent) \<Rightarrow>
     subseq (map (\<lambda>q. url_Host (rq_URL q)) sent) (map (\<lambda>c. url_Host (tc_Target c)) (decision_targets d))"
proof -
  obtain res t sent where rt: "RoundTrip net clock r (Some d) t0 = (res, t, sent)"
    using prod_cases3 by blast
  then have "subseq (map (\<lambda>q. url_Host (rq_URL q)) sent)
      (map (\<lambda>c. url_Host (tc_Target c)) (take (max_attempts r d) (decision_targets d)))"
    using attempts_subseq by (auto simp: RoundTrip_def)
  also have "subseq \<dots> (map (\<lambda>c. url_Host (tc_Target c)) (decision_targets d))"
    by (metis subseq_map prefix_imp_subseq take_is_prefix)
  finally show ?thesis by (simp add: rt)
qed

lemma accepted_retry:
  assumes "accepted env doc c"
  shows "0 \<le> cf_RetryAttempts c \<and> cf_RetryAttempts c \<le> 8"
proof -
  from assms obtain c0 t where "validate_scalars c0 = Inr ()" "validateProxyRetryConfiguration c0 = Inr ()"
    and c: "c = (if cf_Upstreams c0 = [] then c0\<lparr>cf_UpstreamURL := URL_String t\<rparr> else c0)"
    by (rule accepted_parts)
  then have "0 \<le> cf_RetryAttempts c0 \<and> cf_RetryAttempts c0 \<le> 8"
    by (auto simp: validate_scalars_def check_nonneg_def validateProxyRetryConfiguration_def split: if_splits)
  with c show ?thesis by simp
qed



end
