(* ===== verification/Proxy_Forwarding.thy ===== *)
theory Proxy_Forwarding
  imports Proxy_Transport
begin

text \<open>
  What reaches the upstream and what the client gets when nothing answers: the forwarding
  headers of the request the reverse proxy sends, the agreement of the dry run with the
  request that is sent, and the error reply of \<open>proxy_error_response.go\<close>.
\<close>

subsection \<open>Forwarding headers\<close>

lemma claim_names_checked:
  "claim_names chk clash f op ns seen = Inr seen' \<Longrightarrow> n \<in> set ns \<Longrightarrow> \<exists>k. chk n = Inr k"
  by (induction chk clash f op ns seen rule: claim_names.induct) (auto simp: bindR_Inr split: option.splits)

definition ops_names :: "ProxyRouteHeaderOperations \<Rightarrow> string set" where
  "ops_names ops = fst ` set (ho_Set ops) \<union> fst ` set (ho_Add ops) \<union> set (ho_Remove ops)"

lemma header_name_canonical:
  assumes "validateProxyRouteHeaderName n restricted kind = Inr ()"
  shows "CanonicalMIMEHeaderKey n \<notin> set restricted"
proof -
  from assms have "header_name_pattern n" "canonicalProxyRouteHeaderName n \<notin> set restricted"
    by (auto simp: validateProxyRouteHeaderName_def split: if_splits)
  moreover from this(1) have "TrimSpace n = n" by (simp add: header_name_pattern_def TrimSpace_token)
  ultimately show ?thesis by (simp add: canonicalProxyRouteHeaderName_def)
qed

lemma validated_names:
  assumes "validateProxyRouteHeaderOperations ops f restricted kind = Inr ()" "n \<in> ops_names ops"
  shows "CanonicalMIMEHeaderKey n \<notin> set restricted"
proof -
  let ?chk = "\<lambda>op n. bindR (wrapR ''%s.%s.%s: %w'' [f, op, n] (validateProxyRouteHeaderName n restricted kind)) (\<lambda>_. Inr n)"
  from assms(1) obtain s1 s2 s3 where
    "claim_names (?chk ''set'') False f ''set'' (map fst (ho_Set ops)) [] = Inr s1"
    "claim_names (?chk ''add'') True f ''add'' (map fst (ho_Add ops)) s1 = Inr s2"
    "claim_names (?chk ''remove'') True f ''remove'' (ho_Remove ops) s2 = Inr s3"
    by (auto simp: validateProxyRouteHeaderOperations_def Let_def bindR_Inr)
  with assms(2) have "\<exists>op k. ?chk op n = Inr k"
    using claim_names_checked [of "?chk ''set''"] claim_names_checked [of "?chk ''add''"]
      claim_names_checked [of "?chk ''remove''"] by (fastforce simp: ops_names_def)
  then have "validateProxyRouteHeaderName n restricted kind = Inr ()" by (auto simp: bindR_Inr)
  then show ?thesis by (rule header_name_canonical)
qed

lemma untouched_header:
  assumes "\<And>n. n \<in> ops_names ops \<Longrightarrow> CanonicalMIMEHeaderKey n \<noteq> x"
  shows "hdr_values (applyProxyRouteHeaders ops h) x = hdr_values h x"
proof -
  have "values_for CanonicalMIMEHeaderKey (ho_Set ops) x = []" "values_for CanonicalMIMEHeaderKey (ho_Add ops) x = []"
    using assms by (intro values_for_none; force simp: ops_names_def)+
  moreover have "x \<notin> CanonicalMIMEHeaderKey ` set (ho_Remove ops)"
    using assms by (auto simp: ops_names_def)
  ultimately show ?thesis by (simp add: applyProxyRouteHeaders_def header.lookup_apply)
qed

lemma accepted_action:
  assumes "accepted env doc c" "decided_by env r c a"
  shows "ac_RequestHeaders a = None \<or>
    (\<exists>ops f. ac_RequestHeaders a = Some ops
       \<and> validateProxyRouteHeaderOperations ops f restricted_request_headers ''route request_headers'' = Inr ())"
proof -
  from assms(1) obtain c0 t where v: "validateProxyRoutes env c0 = Inr ()"
    and c: "c = (if cf_Upstreams c0 = [] then c0\<lparr>cf_UpstreamURL := URL_String t\<rparr> else c0)"
    by (rule accepted_parts)
  have same: "cf_Routes c = cf_Routes c0" "cf_DefaultRoute c = cf_DefaultRoute c0" using c by auto
  have "a = zero_action \<or> (\<exists>f. validateProxyRouteAction a c0 f = Inr ())"
    using assms(2) v unfolding decided_by_def same
    by (auto simp: validateProxyRoutes_def eachiR_Inr validate_route_def Let_def)
  then show ?thesis
    by (cases "ac_RequestHeaders a")
      (auto simp: zero_action_def validateProxyRouteAction_def Let_def)
qed

lemma canonical_forwarded [simp]:
  "CanonicalMIMEHeaderKey ''X-Forwarded-Host'' = ''X-Forwarded-Host''"
  "CanonicalMIMEHeaderKey ''X-Forwarded-Proto'' = ''X-Forwarded-Proto''"
  "CanonicalMIMEHeaderKey ''X-Forwarded-For'' = ''X-Forwarded-For''"
  by code_simp+

text \<open>
  The forwarding headers an upstream sees are the proxy's own: whatever header operations an
  accepted document gives the route, the host and the scheme the client used arrive in
  \<open>X-Forwarded-Host\<close> and \<open>X-Forwarded-Proto\<close> as the connection had them.
\<close>

theorem forwarding_headers_are_the_proxys:
  assumes "accepted env doc c" "fst (resolveProxyRouteDecision env r c health now cur) = Inr d"
  shows "hdr_values (rq_Header (rewrite_request current primary (Some d) tls inr outr)) ''X-Forwarded-Host'' = [rq_Host inr]
    \<and> hdr_values (rq_Header (rewrite_request current primary (Some d) tls inr outr)) ''X-Forwarded-Proto''
        = [if tls then ''https'' else ''http'']"
proof -
  from decision_origin [OF assms(2)] obtain a where a: "decided_by env r c a"
    "rd_RequestHeaderOps d = header_ops_or_zero (ac_RequestHeaders a)" by blast
  have names: "CanonicalMIMEHeaderKey n \<notin> set restricted_request_headers"
    if "n \<in> ops_names (rd_RequestHeaderOps d)" for n
  proof (cases "ac_RequestHeaders a")
    case None
    then show ?thesis using that by (simp add: a(2) header_ops_or_zero_def ops_names_def)
  next
    case (Some ops)
    then show ?thesis
      using accepted_action [OF assms(1) a(1)] that by (auto simp: a(2) header_ops_or_zero_def dest: validated_names)
  qed
  have "hdr_values (applyProxyRouteHeaders (rd_RequestHeaderOps d) h) x = hdr_values h x"
    if "x \<in> set restricted_request_headers" for h x
    using names that by (intro untouched_header) auto
  moreover have "''X-Forwarded-Host'' \<in> set restricted_request_headers" "''X-Forwarded-Proto'' \<in> set restricted_request_headers"
    by (simp_all add: restricted_request_headers_def)
  ultimately show ?thesis
    by (simp add: rewrite_request_def Let_def SetXForwarded_def header.lookup_set split: prod.split)
qed

theorem forwarding_headers_are_the_proxys_witness:
  "\<exists>d. hdr_values (rq_Header (rewrite_request None empty_URL (Some d) True (user_request ''/a'') (user_request ''/a''))) ''X-Forwarded-Host'' = [''h'']"
proof -
  from api_decision obtain d where d: "fst (resolveProxyRouteDecision plain_env
      (get_request ''www.example.com'' ''/api/users'') route_conf None 0 7) = Inr d"
    by (auto split: sum.splits)
  show ?thesis
    using forwarding_headers_are_the_proxys [OF route_conf_accepted d, of None empty_URL True "user_request ''/a''" "user_request ''/a''"]
    by (auto simp: user_request_def)
qed

subsection \<open>The dry run and the request that is sent\<close>

text \<open>
  The dry run tells the truth: the URL it reports for a decision has the scheme, host, path,
  raw path and query of the first request the transport sends for that decision.
\<close>

theorem dry_run_predicts_the_request:
  "case cloneProxyRetryRequest r d (hd (decision_targets d)) 0 pol of
     Inl e \<Rightarrow> False
   | Inr (out, timeout) \<Rightarrow>
       (let u = rewriteProxyTargetURL (tc_Target (hd (decision_targets d))) (rd_RewrittenPath d) (rd_RewrittenRawPath d)
                  (rd_RewrittenQuery d) (tc_Target (hd (decision_targets d)))
        in url_Scheme (rq_URL out) = url_Scheme u \<and> url_Host (rq_URL out) = url_Host u
           \<and> url_Path (rq_URL out) = url_Path u \<and> url_RawPath (rq_URL out) = url_RawPath u
           \<and> url_RawQuery (rq_URL out) = url_RawQuery u)"
  by (simp add: cloneProxyRetryRequest_def rewriteProxyOutgoingURL_def rewriteProxyTargetURL_def Let_def)

subsection \<open>The error reply\<close>

datatype error_reply =
    ErrorRedirect int string           \<comment> \<open>status and location\<close>
  | ErrorHTML int string               \<comment> \<open>status and body, as \<open>text/html\<close>\<close>
  | ErrorText int string               \<comment> \<open>status and body, as \<open>text/plain\<close>\<close>

definition StatusText :: "int \<Rightarrow> string" where
  \<comment> \<open>\<open>http.StatusText\<close> at the two codes the error replies use\<close>
  "StatusText s = (if s = 502 then ''Bad Gateway'' else if s = 503 then ''Service Unavailable'' else [])"

definition canRedirectProxyError :: "Request \<Rightarrow> bool" where
  "canRedirectProxyError r = (rq_Method r = ''GET'' \<or> rq_Method r = ''HEAD'')"

definition prefersHTMLProxyError :: "Request \<Rightarrow> bool" where
  "prefersHTMLProxyError r =
     (let v = ToLower (TrimSpace (Header_Get (rq_Header r) ''Accept'')) in
      v \<noteq> [] \<and> (Contains v ''text/html'' \<or> Contains v ''application/xhtml+xml''))"

abbreviation newline :: string where
  "newline \<equiv> [CHR 0x0A]"

definition defaultProxyErrorHTML :: "int \<Rightarrow> string" where
  "defaultProxyErrorHTML status =
     (let title = (if StatusText status = [] then ''Service Unavailable'' else StatusText status);
          q = [CHR 0x22]
      in join_with newline
        [''<!doctype html>'', ''<html lang='' @ q @ ''en'' @ q @ ''>'', ''<head>'',
         ''  <meta charset='' @ q @ ''utf-8'' @ q @ ''>'',
         ''  <meta name='' @ q @ ''viewport'' @ q @ '' content='' @ q @ ''width=device-width, initial-scale=1'' @ q @ ''>'',
         ''  <title>'' @ Itoa status @ '' '' @ title @ ''</title>'', ''</head>'', ''<body>'', ''  <main>'',
         ''    <h1>'' @ title @ ''</h1>'',
         ''    <p>The protected application is temporarily unavailable. Please try again later.</p>'',
         ''  </main>'', ''</body>'', ''</html>''])"

definition writeDefaultProxyError :: "Request \<Rightarrow> int \<Rightarrow> error_reply" where
  "writeDefaultProxyError r status =
     (if prefersHTMLProxyError r then ErrorHTML status (defaultProxyErrorHTML status)
      else ErrorText status ((if StatusText status = [] then ''Service Unavailable'' else StatusText status) @ newline))"

definition error_write :: "proxyErrorResponse \<Rightarrow> Request \<Rightarrow> error_reply" where
  "error_write er r =
     (if er_redirectURL er \<noteq> [] \<and> canRedirectProxyError r then ErrorRedirect 302 (er_redirectURL er)
      else if er_htmlEnabled er \<and> prefersHTMLProxyError r then ErrorHTML 503 (er_htmlBody er)
      else if er_redirectURL er \<noteq> [] \<or> er_htmlEnabled er then writeDefaultProxyError r 503
      else writeDefaultProxyError r 502)"

lemma error_response_fields:
  "newProxyErrorResponse env c = Inr er \<Longrightarrow>
     er_redirectURL er = TrimSpace (cf_ErrorRedirectURL c) \<and> er_htmlEnabled er = (TrimSpace (cf_ErrorHTMLFile c) \<noteq> [])
     \<and> \<not> (er_htmlEnabled er \<and> er_redirectURL er \<noteq> [])
     \<and> (er_htmlEnabled er \<longrightarrow> env_ReadFile env (TrimSpace (cf_ErrorHTMLFile c)) = Inr (er_htmlBody er))"
  by (auto simp: newProxyErrorResponse_def Let_def bindR_Inr split: if_splits)

text \<open>
  The error reply of an accepted document: a configured redirect is used for GET and HEAD
  only and goes to the configured URL; a configured page is served, with status 503, to
  clients that accept HTML; without either the reply is a 502 and with either a 503.
\<close>

theorem error_reply_of_accepted_document:
  assumes "normalizeAndValidateProxyRules env doc = Inr (c, t, er)"
  shows "case error_write er r of
      ErrorRedirect s loc \<Rightarrow> s = 302 \<and> canRedirectProxyError r \<and> loc = cf_ErrorRedirectURL c
    | ErrorHTML s body \<Rightarrow> prefersHTMLProxyError r
        \<and> (s = 502 \<longleftrightarrow> cf_ErrorHTMLFile c = [] \<and> cf_ErrorRedirectURL c = [])
        \<and> (if cf_ErrorHTMLFile c \<noteq> [] then s = 503 \<and> env_ReadFile env (cf_ErrorHTMLFile c) = Inr body
           else body = defaultProxyErrorHTML s)
    | ErrorText s body \<Rightarrow> \<not> prefersHTMLProxyError r \<and> (s = 502 \<longleftrightarrow> cf_ErrorHTMLFile c = [] \<and> cf_ErrorRedirectURL c = [])"
proof -
  from assms have er: "newProxyErrorResponse env (normalizeProxyRulesConfig doc) = Inr er"
    and c: "cf_ErrorHTMLFile c = TrimSpace (cf_ErrorHTMLFile doc)" "cf_ErrorRedirectURL c = TrimSpace (cf_ErrorRedirectURL doc)"
    by (auto simp: normalizeAndValidateProxyRules_def Let_def bindR_Inr normalizeProxyRulesConfig_def split: if_splits)
  have f: "er_redirectURL er = cf_ErrorRedirectURL c" "er_htmlEnabled er = (cf_ErrorHTMLFile c \<noteq> [])"
    "\<not> (er_htmlEnabled er \<and> er_redirectURL er \<noteq> [])"
    "er_htmlEnabled er \<longrightarrow> env_ReadFile env (cf_ErrorHTMLFile c) = Inr (er_htmlBody er)"
    using error_response_fields [OF er] by (auto simp: c normalizeProxyRulesConfig_def)
  show ?thesis
    using f by (auto simp: error_write_def writeDefaultProxyError_def)
qed

definition redirect_doc :: ProxyRulesConfig where
  "redirect_doc = route_doc\<lparr>cf_ErrorRedirectURL := ''https://status.example.com/down''\<rparr>"

lemma redirect_doc_accepted:
  "case normalizeAndValidateProxyRules plain_env redirect_doc of Inl e \<Rightarrow> False
   | Inr (c, t, er) \<Rightarrow> er_redirectURL er = ''https://status.example.com/down''
       \<and> cf_ErrorRedirectURL c = ''https://status.example.com/down''"
  by code_simp

lemma user_can_redirect: "canRedirectProxyError (user_request ''/a'')"
  by code_simp

theorem error_reply_of_accepted_document_witness:
  "\<exists>c t er. normalizeAndValidateProxyRules plain_env redirect_doc = Inr (c, t, er)
     \<and> error_write er (user_request ''/a'') = ErrorRedirect 302 ''https://status.example.com/down''"
proof -
  from redirect_doc_accepted obtain c t er where ok: "normalizeAndValidateProxyRules plain_env redirect_doc = Inr (c, t, er)"
    and r: "er_redirectURL er = ''https://status.example.com/down''" "cf_ErrorRedirectURL c = ''https://status.example.com/down''"
    by (auto split: sum.splits)
  have "\<exists>s loc. error_write er (user_request ''/a'') = ErrorRedirect s loc"
    using r user_can_redirect by (simp add: error_write_def)
  then show ?thesis
    using error_reply_of_accepted_document [OF ok, of "user_request ''/a''"] ok r by (auto split: error_reply.splits)
qed

end
