(* ===== verification/Storage.thy ===== *)
theory Storage
  imports Go_Strings Go_Sha256
begin

text \<open>
  Where a component keeps its configuration: a file and a row of the table \<open>config_blobs\<close> of the
  database (\<open>logs_db.go\<close>).  Every access asks \<open>so_Faults\<close> whether it fails: \<open>Some e\<close> at the head is
  an error of that access, \<open>None\<close> and an empty list are none.  A write that fails leaves what it
  would have replaced, since the file is replaced by a rename (\<open>fileio.go\<close>) and the row by one
  statement.
\<close>

record storage =
  so_File :: "string option"
  so_Backups :: "string list"               \<comment> \<open>contents of the \<open>.bak\<close> copies, newest first\<close>
  so_Store :: bool                          \<comment> \<open>\<open>getLogsStatsStore() != nil\<close>\<close>
  so_Blob :: "(string \<times> string) option"    \<comment> \<open>text and entity tag of the component in \<open>config_blobs\<close>\<close>
  so_Faults :: "(goerr option) list"

definition store_write :: "(storage \<Rightarrow> storage) \<Rightarrow> storage \<Rightarrow> unit result \<times> storage" where
  "store_write f st = (case so_Faults st of
       [] \<Rightarrow> (Inr (), f st)
     | None # fs \<Rightarrow> (Inr (), f (st\<lparr>so_Faults := fs\<rparr>))
     | Some e # fs \<Rightarrow> (Inl e, st\<lparr>so_Faults := fs\<rparr>))"

definition store_read :: "(storage \<Rightarrow> 'a) \<Rightarrow> storage \<Rightarrow> 'a result \<times> storage" where
  "store_read g st = (case so_Faults st of
       [] \<Rightarrow> (Inr (g st), st)
     | None # fs \<Rightarrow> (Inr (g st), st\<lparr>so_Faults := fs\<rparr>)
     | Some e # fs \<Rightarrow> (Inl e, st\<lparr>so_Faults := fs\<rparr>))"

definition ReadFile :: "storage \<Rightarrow> string result \<times> storage" where
  "ReadFile st = (case store_read so_File st of
       (Inl e, st') \<Rightarrow> (Inl e, st')
     | (Inr None, st') \<Rightarrow> (err ''open: no such file or directory'' [], st')
     | (Inr (Some raw), st') \<Rightarrow> (Inr raw, st'))"

definition readFileMaybe :: "storage \<Rightarrow> (string \<times> bool) result \<times> storage" where
  "readFileMaybe st = (case store_read so_File st of
       (Inl e, st') \<Rightarrow> (Inl e, st')
     | (Inr None, st') \<Rightarrow> (Inr ([], False), st')
     | (Inr (Some raw), st') \<Rightarrow> (Inr (raw, True), st'))"

definition GetConfigBlob :: "storage \<Rightarrow> ((string \<times> string) option) result \<times> storage" where
  \<comment> \<open>\<open>None\<close> is \<open>found == false\<close>\<close>
  "GetConfigBlob st = store_read so_Blob st"

definition ComputeETag :: "string \<Rightarrow> string" where
  "ComputeETag b = ''W/'' @ [CHR 0x22] @ ''sha256:'' @ hex_encode (sha256 b) @ [CHR 0x22]"

text \<open>
  \<open>AtomicWriteWithBackup\<close> copies a file that exists to one whose name ends in the current second
  before it replaces it.
\<close>

definition AtomicWriteWithBackup :: "string \<Rightarrow> storage \<Rightarrow> unit result \<times> storage" where
  "AtomicWriteWithBackup raw st = store_write (\<lambda>s. s\<lparr>so_File := Some raw\<rparr>)
     (case so_File st of None \<Rightarrow> st | Some old \<Rightarrow> st\<lparr>so_Backups := old # so_Backups st\<rparr>)"

definition UpsertConfigBlob :: "string \<Rightarrow> string \<Rightarrow> storage \<Rightarrow> unit result \<times> storage" where
  "UpsertConfigBlob raw etag st =
     (let e = TrimSpace etag; e' = (if e = [] then hex_encode (sha256 raw) else e) in
      store_write (\<lambda>s. s\<lparr>so_Blob := Some (raw, e')\<rparr>) st)"

subsection \<open>Outcomes of an access\<close>

definition failures :: "storage \<Rightarrow> nat" where
  "failures st = length (filter (\<lambda>f. f \<noteq> None) (so_Faults st))"

lemma store_write_cases:
  obtains (ok) st0 where "store_write f st = (Inr (), f st0)" "failures st0 = failures st"
      "so_File st0 = so_File st" "so_Store st0 = so_Store st" "so_Blob st0 = so_Blob st" "so_Backups st0 = so_Backups st"
      "so_Faults st0 = tl (so_Faults st)"
  | (failed) e st0 where "store_write f st = (Inl e, st0)" "failures st = Suc (failures st0)"
      "so_File st0 = so_File st" "so_Store st0 = so_Store st" "so_Blob st0 = so_Blob st" "so_Backups st0 = so_Backups st"
proof (cases "so_Faults st")
  case Nil
  then show ?thesis by (intro ok [of st]) (simp_all add: store_write_def)
next
  case (Cons x fs)
  show ?thesis
  proof (cases x)
    case None
    with Cons show ?thesis by (intro ok [of "st\<lparr>so_Faults := fs\<rparr>"]) (simp_all add: store_write_def failures_def)
  next
    case (Some e)
    with Cons show ?thesis by (intro failed [of e "st\<lparr>so_Faults := fs\<rparr>"]) (simp_all add: store_write_def failures_def)
  qed
qed

lemma ETag_trimmed [simp]: "TrimSpace (ComputeETag b) = ComputeETag b" "ComputeETag b \<noteq> []"
proof -
  have "hd (ComputeETag b) = CHR ''W''" "last (ComputeETag b) = CHR 0x22"
    by (simp_all add: ComputeETag_def)
  moreover have "CHR ''W'' \<notin> set (concat space_seqs)" "CHR 0x22 \<notin> set (concat space_seqs)"
    by code_simp+
  ultimately show "TrimSpace (ComputeETag b) = ComputeETag b" by (intro TrimSpace_solid) simp
qed (simp add: ComputeETag_def)

lemma store_read_cases:
  obtains (ok) st0 where "store_read g st = (Inr (g st), st0)" "failures st0 = failures st"
      "so_File st0 = so_File st" "so_Store st0 = so_Store st" "so_Blob st0 = so_Blob st"
  | (failed) e st0 where "store_read g st = (Inl e, st0)" "failures st = Suc (failures st0)"
      "so_File st0 = so_File st" "so_Store st0 = so_Store st" "so_Blob st0 = so_Blob st"
proof (cases "so_Faults st")
  case Nil
  then show ?thesis by (intro ok [of st]) (simp_all add: store_read_def)
next
  case (Cons x fs)
  show ?thesis
  proof (cases x)
    case None
    with Cons show ?thesis by (intro ok [of "st\<lparr>so_Faults := fs\<rparr>"]) (simp_all add: store_read_def failures_def)
  next
    case (Some e)
    with Cons show ?thesis by (intro failed [of e "st\<lparr>so_Faults := fs\<rparr>"]) (simp_all add: store_read_def failures_def)
  qed
qed

lemma file_write_cases:
  obtains (ok) st1 where "AtomicWriteWithBackup raw st = (Inr (), st1)" "failures st1 = failures st"
      "so_File st1 = Some raw" "so_Store st1 = so_Store st" "so_Blob st1 = so_Blob st"
  | (failed) e st1 where "AtomicWriteWithBackup raw st = (Inl e, st1)" "failures st = Suc (failures st1)"
      "so_File st1 = so_File st" "so_Store st1 = so_Store st" "so_Blob st1 = so_Blob st"
proof -
  let ?st = "case so_File st of None \<Rightarrow> st | Some old \<Rightarrow> st\<lparr>so_Backups := old # so_Backups st\<rparr>"
  have st: "failures ?st = failures st" "so_File ?st = so_File st" "so_Store ?st = so_Store st" "so_Blob ?st = so_Blob st"
    by (simp_all add: failures_def split: option.split)
  show ?thesis
    by (cases rule: store_write_cases [of "\<lambda>s. s\<lparr>so_File := Some raw\<rparr>" ?st])
      (use st in \<open>auto intro: ok failed simp: AtomicWriteWithBackup_def failures_def\<close>)
qed

lemma blob_write_cases:
  obtains (ok) st1 where "UpsertConfigBlob raw (ComputeETag b) st = (Inr (), st1)" "failures st1 = failures st"
      "so_File st1 = so_File st" "so_Store st1 = so_Store st" "so_Blob st1 = Some (raw, ComputeETag b)"
  | (failed) e st1 where "UpsertConfigBlob raw (ComputeETag b) st = (Inl e, st1)" "failures st = Suc (failures st1)"
      "so_File st1 = so_File st" "so_Store st1 = so_Store st" "so_Blob st1 = so_Blob st"
  by (cases rule: store_write_cases [of "\<lambda>s. s\<lparr>so_Blob := Some (raw, ComputeETag b)\<rparr>" st])
    (auto intro: ok failed simp: UpsertConfigBlob_def failures_def Let_def)

end
