(* ===== verification/Proxy_Runtime.thy ===== *)
theory Proxy_Runtime
  imports Proxy_Transport Storage
begin

text \<open>
  The running proxy of \<open>proxy_runtime.go\<close>: the document in force, where it is kept (memory,
  the configuration file, the database blob), and the operations that replace it: start-up,
  apply with \<open>If-Match\<close>, rollback and the periodic synchronisation with the database.

  The file system and the database are the \<open>storage\<close> of the theory \<open>Storage\<close>.  \<open>encoding/json\<close> is a \<open>json_codec\<close>: the decoder of the
  rules document returns the rest of the input, the encoder is \<open>MarshalIndent\<close>.
\<close>

subsection \<open>Writing the document\<close>

record json_codec =
  jc_Decode :: "string \<Rightarrow> (ProxyRulesConfig \<times> string) result"
  jc_MarshalIndent :: "ProxyRulesConfig \<Rightarrow> string"

definition persistProxyConfigRaw :: "string \<Rightarrow> string \<Rightarrow> storage \<Rightarrow> unit result \<times> storage" where
  "persistProxyConfigRaw path raw st =
     (if TrimSpace path = [] then (err ''proxy config path is empty'' [], st) else AtomicWriteWithBackup raw st)"

definition upsertProxyConfigBlob :: "string \<Rightarrow> string \<Rightarrow> storage \<Rightarrow> unit result \<times> storage" where
  "upsertProxyConfigBlob raw etag st =
     (if \<not> so_Store st then (Inr (), st)
      else UpsertConfigBlob raw (if TrimSpace etag = [] then ComputeETag raw else etag) st)"

subsection \<open>Preparing a document\<close>

record proxyRulesPreparedUpdate =
  pu_cfg :: ProxyRulesConfig
  pu_target :: URL
  pu_raw :: string
  pu_etag :: string
  pu_errRes :: proxyErrorResponse

definition parseProxyRulesRaw ::
  "proxy_env \<Rightarrow> json_codec \<Rightarrow> string \<Rightarrow> (ProxyRulesConfig \<times> URL \<times> proxyErrorResponse) result" where
  \<comment> \<open>the second \<open>Decode\<close> reports \<open>io.EOF\<close> exactly when only JSON white space is left\<close>
  "parseProxyRulesRaw env jc raw =
     bindR (jc_Decode jc raw) (\<lambda>(doc, rest).
       if list_all (\<lambda>c. c \<in> {CHR '' '', CHR 0x09, CHR 0x0A, CHR 0x0D}) rest
       then normalizeAndValidateProxyRules env doc
       else err ''invalid json'' [])"

definition mustJSON :: "json_codec \<Rightarrow> ProxyRulesConfig \<Rightarrow> string" where
  "mustJSON jc c = jc_MarshalIndent jc c @ [CHR 0x0A]"

definition prepareProxyRulesRaw :: "proxy_env \<Rightarrow> json_codec \<Rightarrow> string \<Rightarrow> proxyRulesPreparedUpdate result" where
  "prepareProxyRulesRaw env jc raw =
     bindR (parseProxyRulesRaw env jc raw) (\<lambda>(c, target, errRes).
       let normalizedRaw = mustJSON jc c in
       Inr \<lparr>pu_cfg = c, pu_target = target, pu_raw = normalizedRaw,
            pu_etag = ComputeETag normalizedRaw, pu_errRes = errRes\<rparr>)"

definition ValidateProxyRulesRaw :: "proxy_env \<Rightarrow> json_codec \<Rightarrow> string \<Rightarrow> ProxyRulesConfig result" where
  "ValidateProxyRulesRaw env jc raw = bindR (prepareProxyRulesRaw env jc raw) (\<lambda>p. Inr (pu_cfg p))"

subsection \<open>The transport\<close>

record http_Transport =
  tr_DialTimeout :: int
  tr_MaxIdleConns :: int
  tr_MaxIdleConnsPerHost :: int
  tr_MaxConnsPerHost :: int
  tr_IdleConnTimeout :: int
  tr_ExpectContinueTimeout :: int
  tr_ResponseHeaderTimeout :: int
  tr_ForceAttemptHTTP2 :: bool
  tr_DisableCompression :: bool
  tr_TLSClientConfig :: "tls_config option"

definition buildProxyTransport :: "proxy_env \<Rightarrow> ProxyRulesConfig \<Rightarrow> http_Transport" where
  "buildProxyTransport env c =
     \<lparr>tr_DialTimeout = i64 (cf_DialTimeout c * second),
      tr_MaxIdleConns = cf_MaxIdleConns c,
      tr_MaxIdleConnsPerHost = cf_MaxIdleConnsPerHost c,
      tr_MaxConnsPerHost = cf_MaxConnsPerHost c,
      tr_IdleConnTimeout = i64 (cf_IdleConnTimeout c * second),
      tr_ExpectContinueTimeout = i64 (cf_ExpectContinueTimeout c * second),
      tr_ResponseHeaderTimeout = i64 (cf_ResponseHeaderTimeout c * second),
      tr_ForceAttemptHTTP2 = cf_ForceHTTP2 c,
      tr_DisableCompression = cf_DisableCompression c,
      tr_TLSClientConfig = (case buildProxyTLSClientConfig env c of Inl e \<Rightarrow> None | Inr t \<Rightarrow> t)\<rparr>"

definition newDynamicProxyTransport :: "proxy_env \<Rightarrow> ProxyRulesConfig \<Rightarrow> http_Transport result" where
  "newDynamicProxyTransport env c =
     bindR (buildProxyTLSClientConfig env c) (\<lambda>_. Inr (buildProxyTransport env c))"

definition transport_Update :: "proxy_env \<Rightarrow> ProxyRulesConfig \<Rightarrow> http_Transport result" where
  \<comment> \<open>the new round tripper, when the TLS settings can be loaded\<close>
  "transport_Update env c =
     bindR (buildProxyTLSClientConfig env c) (\<lambda>_. Inr (buildProxyTransport env c))"

subsection \<open>The runtime\<close>

type_synonym proxyRollbackEntry = "string \<times> string"   \<comment> \<open>raw document and time stamp\<close>

record proxyRuntime =
  rt_configPath :: string
  rt_raw :: string
  rt_etag :: string
  rt_cfg :: ProxyRulesConfig
  rt_target :: URL
  rt_FlushInterval :: int
  rt_transport :: http_Transport
  rt_health :: upstreamHealthMonitor
  rt_errRes :: proxyErrorResponse
  rt_rollbackMax :: int
  rt_rollbackStack :: "proxyRollbackEntry list"

datatype apply_error = Conflict string | Failed goerr

definition clampProxyRollbackMax :: "int \<Rightarrow> int" where
  "clampProxyRollbackMax v = (if v \<le> 0 then 8 else if 64 < v then 64 else v)"

definition pushRollbackLocked :: "proxyRollbackEntry \<Rightarrow> proxyRuntime \<Rightarrow> proxyRuntime" where
  "pushRollbackLocked entry rt =
     (if TrimSpace (fst entry) = [] then rt
      else if rt_rollbackMax rt \<le> 0 then rt
      else let stack = rt_rollbackStack rt @ [entry];
               trim = int (length stack) - rt_rollbackMax rt
           in rt\<lparr>rt_rollbackStack := (if 0 < trim then drop (nat trim) stack else stack)\<rparr>)"

definition flush_interval :: "ProxyRulesConfig \<Rightarrow> int" where
  "flush_interval c = i64 (cf_FlushIntervalMS c * 1000000)"

definition InitProxyRuntime ::
  "proxy_env \<Rightarrow> json_codec \<Rightarrow> string \<Rightarrow> int \<Rightarrow> storage \<Rightarrow> proxyRuntime result" where
  "InitProxyRuntime env jc configPath rollbackMax st =
     (let path = TrimSpace configPath in
      if path = [] then err ''proxy config path is required'' []
      else bindR (wrapR ''read proxy config (%s): %w'' [path] (fst (ReadFile st))) (\<lambda>raw.
        bindR (wrapR ''invalid proxy config (%s): %w'' [path] (prepareProxyRulesRaw env jc raw)) (\<lambda>p.
        bindR (wrapR ''build proxy transport: %w'' [] (newDynamicProxyTransport env (pu_cfg p))) (\<lambda>t.
          Inr \<lparr>rt_configPath = path, rt_raw = pu_raw p, rt_etag = pu_etag p, rt_cfg = pu_cfg p,
               rt_target = pu_target p, rt_FlushInterval = flush_interval (pu_cfg p), rt_transport = t,
               rt_health = newUpstreamHealthMonitor (pu_cfg p), rt_errRes = pu_errRes p,
               rt_rollbackMax = clampProxyRollbackMax rollbackMax, rt_rollbackStack = []\<rparr>))))"

definition store_and_swap ::
  "proxy_env \<Rightarrow> proxyRulesPreparedUpdate \<Rightarrow> proxyRuntime \<Rightarrow> storage \<Rightarrow> http_Transport result \<times> storage" where
  \<comment> \<open>the writes and the transport update that apply and rollback share, each failure undone
      with what was in force; the results of the undoing writes are dropped\<close>
  "store_and_swap env p rt st =
     (case persistProxyConfigRaw (rt_configPath rt) (pu_raw p) st of
        (Inl e, st1) \<Rightarrow> (Inl e, st1)
      | (Inr _, st1) \<Rightarrow>
          (case upsertProxyConfigBlob (pu_raw p) (pu_etag p) st1 of
             (Inl e, st2) \<Rightarrow> (Inl e, snd (persistProxyConfigRaw (rt_configPath rt) (rt_raw rt) st2))
           | (Inr _, st2) \<Rightarrow>
               (case transport_Update env (pu_cfg p) of
                  Inl e \<Rightarrow> (Inl e, snd (upsertProxyConfigBlob (rt_raw rt) (rt_etag rt)
                                     (snd (persistProxyConfigRaw (rt_configPath rt) (rt_raw rt) st2))))
                | Inr t \<Rightarrow> (Inr t, st2))))"

definition install :: "proxyRulesPreparedUpdate \<Rightarrow> http_Transport \<Rightarrow> proxyRuntime \<Rightarrow> proxyRuntime" where
  "install p t rt = rt\<lparr>rt_transport := t, rt_raw := pu_raw p, rt_etag := pu_etag p, rt_cfg := pu_cfg p,
     rt_target := pu_target p, rt_errRes := pu_errRes p, rt_FlushInterval := flush_interval (pu_cfg p),
     rt_health := Update (pu_cfg p) (rt_health rt)\<rparr>"

definition ApplyProxyRulesRaw ::
  "proxy_env \<Rightarrow> proxy_env \<Rightarrow> json_codec \<Rightarrow> string \<Rightarrow> string \<Rightarrow> string \<Rightarrow> proxyRuntime \<times> storage
     \<Rightarrow> (apply_error + string \<times> ProxyRulesConfig) \<times> proxyRuntime \<times> storage" where
  \<comment> \<open>the outside world while the document is prepared and while the transport is replaced, the
      codec, the time stamp, the two arguments, the state\<close>
  "ApplyProxyRulesRaw env env' jc now ifMatch raw = (\<lambda>(rt, st).
     (case prepareProxyRulesRaw env jc raw of
        Inl e \<Rightarrow> (Inl (Failed e), rt, st)
      | Inr p \<Rightarrow>
          (if TrimSpace ifMatch \<noteq> [] \<and> TrimSpace ifMatch \<noteq> rt_etag rt then (Inl (Conflict (rt_etag rt)), rt, st)
           else case store_and_swap env' p rt st of
                  (Inl e, st') \<Rightarrow> (Inl (Failed e), rt, st')
                | (Inr t, st') \<Rightarrow> (Inr (pu_etag p, pu_cfg p),
                    pushRollbackLocked (rt_raw rt, now) (install p t rt), st'))))"

definition RollbackProxyRules ::
  "proxy_env \<Rightarrow> proxy_env \<Rightarrow> json_codec \<Rightarrow> proxyRuntime \<times> storage
     \<Rightarrow> (string \<times> ProxyRulesConfig \<times> proxyRollbackEntry) result \<times> proxyRuntime \<times> storage" where
  "RollbackProxyRules env env' jc = (\<lambda>(rt, st).
     (if rt_rollbackStack rt = [] then (err ''no rollback snapshot'' [], rt, st)
      else let entry = last (rt_rollbackStack rt);
               rt0 = rt\<lparr>rt_rollbackStack := butlast (rt_rollbackStack rt)\<rparr>
           in case prepareProxyRulesRaw env jc (fst entry) of
                Inl e \<Rightarrow> (Inl e, pushRollbackLocked entry rt0, st)
              | Inr p \<Rightarrow>
                  (case store_and_swap env' p rt0 st of
                     (Inl e, st') \<Rightarrow> (Inl e, pushRollbackLocked entry rt0, st')
                   | (Inr t, st') \<Rightarrow> (Inr (pu_etag p, pu_cfg p, entry), install p t rt0, st'))))"

definition SyncProxyStorage ::
  "proxy_env \<Rightarrow> proxy_env \<Rightarrow> json_codec \<Rightarrow> proxyRuntime \<times> storage \<Rightarrow> unit result \<times> proxyRuntime \<times> storage" where
  "SyncProxyStorage env env' jc = (\<lambda>(rt, st0).
     (case readFileMaybe st0 of (Inl e, st1) \<Rightarrow> (Inl e, rt, st1) | (Inr (rawFile, _), st1) \<Rightarrow>
      if \<not> so_Store st1 then (Inr (), rt, st1)
      else case GetConfigBlob st1 of
        (Inl e, st) \<Rightarrow> (Inl e, rt, st)
      | (Inr (Some (blobRaw, blobETag)), st) \<Rightarrow>
          (case prepareProxyRulesRaw env jc blobRaw of
             Inl e \<Rightarrow> (Inl e, rt, st)
           | Inr p \<Rightarrow>
               (case (if rawFile \<noteq> blobRaw
                      then persistProxyConfigRaw (rt_configPath rt) (pu_raw p) st else (Inr (), st)) of
                  (Inl e, st2) \<Rightarrow> (Inl e, rt, st2)
                | (Inr _, st2) \<Rightarrow>
               (case (if TrimSpace blobETag = []
                      then UpsertConfigBlob (pu_raw p) (pu_etag p) st2 else (Inr (), st2)) of
                  (Inl e, st3) \<Rightarrow> (Inl e, rt, st3)
                | (Inr _, st3) \<Rightarrow>
               (case transport_Update env' (pu_cfg p) of
                  Inl e \<Rightarrow> (Inl e, rt, snd (upsertProxyConfigBlob (rt_raw rt) (rt_etag rt)
                                      (snd (persistProxyConfigRaw (rt_configPath rt) (rt_raw rt) st3))))
                | Inr t \<Rightarrow> (Inr (), (install p t rt)\<lparr>rt_errRes := rt_errRes rt\<rparr>, st3)))))
      | (Inr None, st) \<Rightarrow>
          (if rawFile = [] then (err ''proxy config file is empty: %s'' [rt_configPath rt], rt, st)
           else case prepareProxyRulesRaw env jc rawFile of
                  Inl e \<Rightarrow> (Inl e, rt, st)
                | Inr p \<Rightarrow> (case UpsertConfigBlob (pu_raw p) (pu_etag p) st of (r, st') \<Rightarrow> (r, rt, st')))))"

definition ProxyRulesSnapshot ::
  "proxyRuntime option \<Rightarrow> string \<times> string \<times> ProxyRulesConfig \<times> upstreamHealthStatus \<times> nat" where
  "ProxyRulesSnapshot inst = (case inst of
       None \<Rightarrow> ([], [], normalizeProxyRulesConfig zero_config, disabled_status, 0)
     | Some rt \<Rightarrow> (rt_raw rt, rt_etag rt, rt_cfg rt, hm_status (rt_health rt), length (rt_rollbackStack rt)))"

end
