(* ===== verification/Runtime_Correct.thy ===== *)
theory Runtime_Correct
  imports Proxy_Runtime
begin

text \<open>
  Correctness of the operations on the running proxy: everything in memory belongs to one
  validated document, the copies in memory, file and database agree across a failure, an
  apply guarded by \<open>If-Match\<close> loses no update, a rollback restores what an apply replaced,
  and what the periodic synchronisation leaves behind.
\<close>

subsection \<open>Storage lemmas\<close>

lemma persist_cases:
  assumes "TrimSpace path \<noteq> []"
  obtains (ok) st1 where "persistProxyConfigRaw path raw st = (Inr (), st1)" "failures st1 = failures st"
      "so_File st1 = Some raw" "so_Store st1 = so_Store st" "so_Blob st1 = so_Blob st"
  | (failed) e st1 where "persistProxyConfigRaw path raw st = (Inl e, st1)" "failures st = Suc (failures st1)"
      "so_File st1 = so_File st" "so_Store st1 = so_Store st" "so_Blob st1 = so_Blob st"
  by (cases rule: file_write_cases [of raw st]) (use assms in \<open>auto intro: ok failed simp: persistProxyConfigRaw_def\<close>)

lemma upsert_cases:
  obtains (ok) st1 where "upsertProxyConfigBlob raw (ComputeETag b) st = (Inr (), st1)" "failures st1 = failures st"
      "so_File st1 = so_File st" "so_Store st1 = so_Store st"
      "so_Blob st1 = (if so_Store st then Some (raw, ComputeETag b) else so_Blob st)"
  | (failed) e st1 where "upsertProxyConfigBlob raw (ComputeETag b) st = (Inl e, st1)" "failures st = Suc (failures st1)"
      "so_File st1 = so_File st" "so_Store st1 = so_Store st" "so_Blob st1 = so_Blob st" "so_Store st"
proof (cases "so_Store st")
  case True
  show ?thesis
    by (cases rule: blob_write_cases [of raw b st])
      (use True in \<open>auto intro: ok failed simp: upsertProxyConfigBlob_def\<close>)
next
  case False
  then show ?thesis by (intro ok [of st]) (simp_all add: upsertProxyConfigBlob_def)
qed

lemma store_and_swap_Inr:
  assumes "store_and_swap env p rt st = (Inr t, st')" "TrimSpace (rt_configPath rt) \<noteq> []" "pu_etag p = ComputeETag b"
  shows "transport_Update env (pu_cfg p) = Inr t \<and> so_File st' = Some (pu_raw p) \<and> so_Store st' = so_Store st
    \<and> so_Blob st' = (if so_Store st then Some (pu_raw p, pu_etag p) else so_Blob st)"
proof (cases rule: persist_cases [OF assms(2), of "pu_raw p" st, case_names ok failed])
  case (ok st1)
  note one = ok
  show ?thesis
    by (cases rule: upsert_cases [of "pu_raw p" b st1, case_names ok failed])
      (use assms one in \<open>auto simp: store_and_swap_def split: sum.splits\<close>)
next
  case (failed e st1)
  with assms show ?thesis by (simp add: store_and_swap_def)
qed

lemma restore_both:
  assumes "TrimSpace (rt_configPath rt) \<noteq> []" "rt_etag rt = ComputeETag b" "failures st = 0"
  shows "so_File (snd (upsertProxyConfigBlob (rt_raw rt) (rt_etag rt) (snd (persistProxyConfigRaw (rt_configPath rt) (rt_raw rt) st))))
      = Some (rt_raw rt)
    \<and> so_Store (snd (upsertProxyConfigBlob (rt_raw rt) (rt_etag rt) (snd (persistProxyConfigRaw (rt_configPath rt) (rt_raw rt) st))))
      = so_Store st
    \<and> so_Blob (snd (upsertProxyConfigBlob (rt_raw rt) (rt_etag rt) (snd (persistProxyConfigRaw (rt_configPath rt) (rt_raw rt) st))))
      = (if so_Store st then Some (rt_raw rt, rt_etag rt) else so_Blob st)"
proof (cases rule: persist_cases [OF assms(1), of "rt_raw rt" st, case_names ok failed])
  case (ok st1)
  note one = ok
  show ?thesis
    by (cases rule: upsert_cases [of "rt_raw rt" b st1, case_names ok failed]) (use assms one in auto)
next
  case (failed e st1)
  with assms(3) show ?thesis by simp
qed

definition copies_agree :: "proxyRuntime \<Rightarrow> storage \<Rightarrow> bool" where
  "copies_agree rt st = (so_File st = Some (rt_raw rt)
     \<and> (so_Store st \<longrightarrow> so_Blob st = Some (rt_raw rt, rt_etag rt)))"

definition update_fails :: "proxy_env \<Rightarrow> proxyRulesPreparedUpdate result \<Rightarrow> bool" where
  "update_fails env r = (\<exists>p e. r = Inr p \<and> transport_Update env (pu_cfg p) = Inl e)"

lemma store_and_swap_Inl:
  assumes "store_and_swap env p rt st = (Inl e, st')" "TrimSpace (rt_configPath rt) \<noteq> []"
    "rt_etag rt = ComputeETag b" "pu_etag p = ComputeETag b'" "copies_agree rt st"
    "failures st + (if update_fails env (Inr p) then 1 else 0) \<le> 1"
  shows "so_File st' = so_File st \<and> so_Store st' = so_Store st \<and> so_Blob st' = so_Blob st"
proof (cases rule: persist_cases [OF assms(2), of "pu_raw p" st, case_names ok failed])
  case (ok st1)
  note one = ok
  show ?thesis
  proof (cases rule: upsert_cases [of "pu_raw p" b' st1, case_names ok failed])
    case (ok st2)
    show ?thesis
    proof (cases "transport_Update env (pu_cfg p)")
      case (Inl e2)
      with assms(6) one ok have "failures st2 = 0" by (auto simp: update_fails_def)
      from restore_both [OF assms(2,3) this] show ?thesis
        using assms one ok Inl by (auto simp: store_and_swap_def copies_agree_def)
    qed (use assms one ok in \<open>simp add: store_and_swap_def\<close>)
  next
    case (failed e2 st2)
    show ?thesis
      by (cases rule: persist_cases [OF assms(2), of "rt_raw rt" st2, case_names ok failed])
        (use assms one failed in \<open>auto simp: store_and_swap_def copies_agree_def split: if_splits\<close>)
  qed
next
  case (failed e1 st1)
  with assms show ?thesis by (simp add: store_and_swap_def)
qed

subsection \<open>The runtime holds one document\<close>

definition installed :: "proxyRuntime \<Rightarrow> bool" where
  \<comment> \<open>what is in memory was prepared from one accepted document\<close>
  "installed rt = ((\<exists>env doc er. normalizeAndValidateProxyRules env doc = Inr (rt_cfg rt, rt_target rt, er))
     \<and> rt_etag rt = ComputeETag (rt_raw rt) \<and> rt_FlushInterval rt = flush_interval (rt_cfg rt)
     \<and> (\<exists>env tls. buildProxyTLSClientConfig env (rt_cfg rt) = Inr tls \<and> rt_transport rt = buildProxyTransport env (rt_cfg rt))
     \<and> hm_cfg (rt_health rt) = normalizeProxyRulesConfig (rt_cfg rt))"

definition history_ok :: "proxyRuntime \<Rightarrow> bool" where
  "history_ok rt = (0 < rt_rollbackMax rt \<and> rt_rollbackMax rt \<le> 64
     \<and> int (length (rt_rollbackStack rt)) \<le> rt_rollbackMax rt
     \<and> (\<forall>e\<in>set (rt_rollbackStack rt). TrimSpace (fst e) \<noteq> [])
     \<and> TrimSpace (rt_configPath rt) \<noteq> [])"

lemma prepared_parts:
  assumes "prepareProxyRulesRaw env jc raw = Inr p"
  obtains doc where "normalizeAndValidateProxyRules env doc = Inr (pu_cfg p, pu_target p, pu_errRes p)"
    "pu_raw p = mustJSON jc (pu_cfg p)" "pu_etag p = ComputeETag (pu_raw p)"
  using assms that
  by (auto simp: prepareProxyRulesRaw_def parseProxyRulesRaw_def bindR_Inr Let_def split: if_splits)

lemma Update_cfg [simp]: "hm_cfg (Update c m) = normalizeProxyRulesConfig c"
  by (simp add: Update_def applyConfigLocked_def refreshStatusLocked_def triggerWake_def Let_def)

lemma transport_Update_Inr:
  "transport_Update env c = Inr t \<longleftrightarrow> (\<exists>tls. buildProxyTLSClientConfig env c = Inr tls \<and> t = buildProxyTransport env c)"
  by (auto simp: transport_Update_def bindR_Inr)

lemma install_installed:
  assumes "prepareProxyRulesRaw env jc raw = Inr p" "transport_Update env' (pu_cfg p) = Inr t"
  shows "installed (install p t rt)"
proof -
  from assms(1) obtain doc where "normalizeAndValidateProxyRules env doc = Inr (pu_cfg p, pu_target p, pu_errRes p)"
    "pu_etag p = ComputeETag (pu_raw p)" by (rule prepared_parts)
  then show ?thesis
    using assms(2) unfolding transport_Update_Inr by (auto simp: installed_def install_def)
qed

lemma install_frame [simp]:
  "rt_configPath (install p t rt) = rt_configPath rt" "rt_rollbackMax (install p t rt) = rt_rollbackMax rt"
  "rt_rollbackStack (install p t rt) = rt_rollbackStack rt" "rt_raw (install p t rt) = pu_raw p"
  "rt_etag (install p t rt) = pu_etag p" "rt_cfg (install p t rt) = pu_cfg p"
  "rt_target (install p t rt) = pu_target p" "rt_errRes (install p t rt) = pu_errRes p"
  "rt_FlushInterval (install p t rt) = flush_interval (pu_cfg p)"
  by (simp_all add: install_def)

lemma history_install [simp]: "history_ok (install p t rt) = history_ok rt"
  by (simp add: history_ok_def)

lemma push_frame [simp]:
  "rt_raw (pushRollbackLocked e rt) = rt_raw rt" "rt_etag (pushRollbackLocked e rt) = rt_etag rt"
  "rt_cfg (pushRollbackLocked e rt) = rt_cfg rt" "rt_target (pushRollbackLocked e rt) = rt_target rt"
  "rt_errRes (pushRollbackLocked e rt) = rt_errRes rt" "rt_FlushInterval (pushRollbackLocked e rt) = rt_FlushInterval rt"
  "rt_transport (pushRollbackLocked e rt) = rt_transport rt" "rt_health (pushRollbackLocked e rt) = rt_health rt"
  "rt_configPath (pushRollbackLocked e rt) = rt_configPath rt"
  "rt_rollbackMax (pushRollbackLocked e rt) = rt_rollbackMax rt"
  "installed (pushRollbackLocked e rt) = installed rt"
  by (auto simp: pushRollbackLocked_def installed_def Let_def)

lemma history_push:
  assumes "history_ok rt"
  shows "history_ok (pushRollbackLocked e rt)"
proof -
  have "set (drop n (rt_rollbackStack rt @ [e])) \<subseteq> insert e (set (rt_rollbackStack rt))" for n
    using set_drop_subset [of n "rt_rollbackStack rt @ [e]"] by auto
  with assms show ?thesis
    by (force simp: history_ok_def pushRollbackLocked_def Let_def split: if_splits)
qed

lemma push_popped:
  assumes "history_ok rt" "rt_rollbackStack rt \<noteq> []"
  shows "pushRollbackLocked (last (rt_rollbackStack rt)) (rt\<lparr>rt_rollbackStack := butlast (rt_rollbackStack rt)\<rparr>) = rt"
  using assms by (auto simp: history_ok_def pushRollbackLocked_def Let_def)


subsection \<open>Runs of the runtime\<close>

text \<open>
  One step of the running proxy: an operation of this file, a call on its monitor, or a change
  of the storage from outside (another process writes the file or the blob, a later write is
  going to fail).
\<close>

datatype rt_event =
    Apply proxy_env proxy_env string string string     \<comment> \<open>two worlds, time, \<open>If-Match\<close>, document\<close>
  | Rollback proxy_env proxy_env
  | Sync proxy_env proxy_env
  | Monitor hm_event "(string \<times> circuit) list" "string list"
  | Outside storage

fun rt_step :: "json_codec \<Rightarrow> rt_event \<Rightarrow> proxyRuntime \<times> storage \<Rightarrow> bool \<times> proxyRuntime \<times> storage" where
  \<comment> \<open>whether the operation reports success, and the new state\<close>
  "rt_step jc (Apply env env' now ifMatch raw) s =
     (case ApplyProxyRulesRaw env env' jc now ifMatch raw s of (r, s') \<Rightarrow> (\<not> isl r, s'))"
| "rt_step jc (Rollback env env') s = (case RollbackProxyRules env env' jc s of (r, s') \<Rightarrow> (\<not> isl r, s'))"
| "rt_step jc (Sync env env') s = (case SyncProxyStorage env env' jc s of (r, s') \<Rightarrow> (\<not> isl r, s'))"
| "rt_step jc (Monitor e hs sweep) (rt, st) =
     (if reconfigures e then (False, rt, st)
      else case hm_exec e \<lparr>w_mon = rt_health rt, w_held = hs, w_sweep = sweep\<rparr> of
             None \<Rightarrow> (False, rt, st)
           | Some w \<Rightarrow> (True, rt\<lparr>rt_health := w_mon w\<rparr>, st))"
| "rt_step jc (Outside st') (rt, st) = (True, rt, st')"

inductive rt_reachable :: "json_codec \<Rightarrow> proxyRuntime \<times> storage \<Rightarrow> bool" for jc where
  init: "InitProxyRuntime env jc path rollbackMax st = Inr rt \<Longrightarrow> rt_reachable jc (rt, st)"
| step: "rt_reachable jc s \<Longrightarrow> rt_step jc e s = (ok, s') \<Longrightarrow> rt_reachable jc s'"

definition runtime_ok :: "proxyRuntime \<Rightarrow> bool" where
  "runtime_ok rt = (installed rt \<and> history_ok rt)"

lemma runtime_push_install:
  assumes "history_ok rt" "prepareProxyRulesRaw env jc raw = Inr p" "transport_Update env' (pu_cfg p) = Inr t"
  shows "runtime_ok (install p t rt) \<and> runtime_ok (pushRollbackLocked e (install p t rt))"
  using assms install_installed [OF assms(2,3)] by (simp add: runtime_ok_def history_push)

lemma swapped_transport:
  "store_and_swap env p rt st = (Inr t, st') \<Longrightarrow> transport_Update env (pu_cfg p) = Inr t"
  by (auto simp: store_and_swap_def split: prod.splits sum.splits)

lemma apply_ok:
  assumes "runtime_ok rt" "ApplyProxyRulesRaw env env' jc now ifMatch raw (rt, st) = (r, rt', st')"
  shows "runtime_ok rt'"
proof -
  from assms(1) have h: "history_ok rt" by (simp add: runtime_ok_def)
  show ?thesis
    using assms runtime_push_install [OF h]
    by (auto simp: ApplyProxyRulesRaw_def split: sum.splits if_splits prod.splits dest!: swapped_transport)
qed

lemma rollback_ok:
  assumes "runtime_ok rt" "RollbackProxyRules env env' jc (rt, st) = (r, rt', st')"
  shows "runtime_ok rt'"
proof (cases "rt_rollbackStack rt = []")
  case False
  let ?rt0 = "rt\<lparr>rt_rollbackStack := butlast (rt_rollbackStack rt)\<rparr>"
  from assms(1) False have h: "history_ok ?rt0"
    by (auto simp: runtime_ok_def history_ok_def dest: in_set_butlastD)
  have same: "pushRollbackLocked (last (rt_rollbackStack rt)) ?rt0 = rt"
    using assms(1) False by (intro push_popped) (simp_all add: runtime_ok_def)
  show ?thesis
    using assms False same runtime_push_install [OF h]
    by (auto simp: RollbackProxyRules_def Let_def split: sum.splits prod.splits dest!: swapped_transport)
qed (use assms in \<open>simp add: RollbackProxyRules_def\<close>)

lemma sync_ok:
  assumes "runtime_ok rt" "SyncProxyStorage env env' jc (rt, st) = (r, rt', st')"
  shows "runtime_ok rt'"
proof -
  from assms(1) have h: "history_ok rt" by (simp add: runtime_ok_def)
  have err: "runtime_ok (x\<lparr>rt_errRes := e\<rparr>) = runtime_ok x" for x e
    by (simp add: runtime_ok_def installed_def history_ok_def)
  show ?thesis
    using assms runtime_push_install [OF h]
    by (auto simp: SyncProxyStorage_def Let_def err split: sum.splits if_splits prod.splits option.splits)
qed

lemma runtime_ok_health:
  "hm_cfg h = hm_cfg (rt_health rt) \<Longrightarrow> runtime_ok (rt\<lparr>rt_health := h\<rparr>) = runtime_ok rt"
  by (simp add: runtime_ok_def installed_def history_ok_def)

lemma step_ok:
  assumes "runtime_ok rt" "rt_step jc e (rt, st) = (ok, rt', st')"
  shows "runtime_ok rt'"
proof (cases e)
  case (Monitor ev hs sweep)
  have "hm_cfg (w_mon w) = hm_cfg (rt_health rt)"
    if "hm_exec ev \<lparr>w_mon = rt_health rt, w_held = hs, w_sweep = sweep\<rparr> = Some w" "\<not> reconfigures ev" for w
    using exec_effect(2) [OF that] by simp
  with assms Monitor show ?thesis
    by (auto simp: runtime_ok_health split: if_splits option.splits)
qed (use assms in \<open>auto split: prod.splits dest: apply_ok rollback_ok sync_ok\<close>)

lemma new_monitor_cfg: "hm_cfg (newUpstreamHealthMonitor c) = normalizeProxyRulesConfig c"
  by (simp add: newUpstreamHealthMonitor_def Let_def)

lemma init_ok:
  assumes "InitProxyRuntime env jc path rollbackMax st = Inr rt"
  shows "runtime_ok rt"
proof -
  from assms obtain raw p tls where p: "prepareProxyRulesRaw env jc raw = Inr p"
    and tls: "buildProxyTLSClientConfig env (pu_cfg p) = Inr tls" and path: "TrimSpace path \<noteq> []"
    and rt: "rt = \<lparr>rt_configPath = TrimSpace path, rt_raw = pu_raw p, rt_etag = pu_etag p, rt_cfg = pu_cfg p,
       rt_target = pu_target p, rt_FlushInterval = flush_interval (pu_cfg p),
       rt_transport = buildProxyTransport env (pu_cfg p),
       rt_health = newUpstreamHealthMonitor (pu_cfg p), rt_errRes = pu_errRes p,
       rt_rollbackMax = clampProxyRollbackMax rollbackMax, rt_rollbackStack = []\<rparr>"
    by (auto simp: InitProxyRuntime_def Let_def bindR_Inr newDynamicProxyTransport_def split: if_splits)
  from p obtain doc where "normalizeAndValidateProxyRules env doc = Inr (pu_cfg p, pu_target p, pu_errRes p)"
    "pu_etag p = ComputeETag (pu_raw p)" by (rule prepared_parts)
  with tls path show ?thesis
    by (auto simp: rt runtime_ok_def installed_def history_ok_def clampProxyRollbackMax_def new_monitor_cfg)
qed

lemma reachable_ok: "rt_reachable jc s \<Longrightarrow> runtime_ok (fst s)"
proof (induction rule: rt_reachable.induct)
  case (step s e ok s')
  then show ?case using step_ok [of "fst s" jc e "snd s" ok "fst s'" "snd s'"] by simp
qed (simp add: init_ok)


subsection \<open>A failure does not split the copies\<close>

fun edits :: "rt_event \<Rightarrow> bool" where
  "edits (Apply env env' now ifMatch raw) = True"
| "edits (Rollback env env') = True"
| "edits e = False"

fun edit_failures :: "json_codec \<Rightarrow> rt_event \<Rightarrow> proxyRuntime \<times> storage \<Rightarrow> nat" where
  \<comment> \<open>how many of the writes to come fail, and whether the transport refuses the document\<close>
  "edit_failures jc (Apply env env' now ifMatch raw) (rt, st) =
     failures st + (if update_fails env' (prepareProxyRulesRaw env jc raw) then 1 else 0)"
| "edit_failures jc (Rollback env env') (rt, st) =
     failures st + (if update_fails env' (prepareProxyRulesRaw env jc (fst (last (rt_rollbackStack rt)))) then 1 else 0)"
| "edit_failures jc e (rt, st) = failures st"

lemma swap_result:
  assumes "prepareProxyRulesRaw env jc raw = Inr p" "TrimSpace (rt_configPath rt) \<noteq> []" "rt_etag rt = ComputeETag b"
    "copies_agree rt st" "failures st + (if update_fails env' (Inr p) then 1 else 0) \<le> 1"
    "store_and_swap env' p rt st = (r, st')"
  shows "case r of Inl e \<Rightarrow> so_File st' = so_File st \<and> so_Store st' = so_Store st \<and> so_Blob st' = so_Blob st
    | Inr t \<Rightarrow> so_File st' = Some (pu_raw p) \<and> (so_Store st' \<longrightarrow> so_Blob st' = Some (pu_raw p, pu_etag p))"
proof -
  from assms(1) have e: "pu_etag p = ComputeETag (pu_raw p)" by (rule prepared_parts)
  show ?thesis
    using store_and_swap_Inl [OF _ assms(2,3) e assms(4,5)] store_and_swap_Inr [OF _ assms(2) e] assms(6)
    by (cases r) auto
qed

lemma rollback_eq:
  assumes "rt_rollbackStack rt \<noteq> []" "history_ok rt"
  shows "RollbackProxyRules env env' jc (rt, st) =
    (case prepareProxyRulesRaw env jc (fst (last (rt_rollbackStack rt))) of
       Inl e \<Rightarrow> (Inl e, rt, st)
     | Inr p \<Rightarrow>
         (case store_and_swap env' p (rt\<lparr>rt_rollbackStack := butlast (rt_rollbackStack rt)\<rparr>) st of
            (Inl e, st') \<Rightarrow> (Inl e, rt, st')
          | (Inr t, st') \<Rightarrow> (Inr (pu_etag p, pu_cfg p, last (rt_rollbackStack rt)),
              install p t (rt\<lparr>rt_rollbackStack := butlast (rt_rollbackStack rt)\<rparr>), st')))"
  using assms push_popped [OF assms(2,1)]
  by (simp add: RollbackProxyRules_def Let_def split: sum.split prod.split)

text \<open>
  C12: One failure never splits the three copies of the document.  When memory, file and
  database agree and at most one of the writes and the transport update of an apply or a rollback fails, they
  agree afterwards; an operation that reports an error has left the running proxy, the file
  and the database as they were.
\<close>

theorem one_failure_keeps_the_copies_together:
  assumes "rt_reachable jc (rt, st)" "copies_agree rt st" "edits e" "edit_failures jc e (rt, st) \<le> 1"
    "rt_step jc e (rt, st) = (ok, rt', st')"
  shows "copies_agree rt' st' \<and> (\<not> ok \<longrightarrow> rt' = rt \<and> so_File st' = so_File st \<and> so_Blob st' = so_Blob st)"
proof -
  from reachable_ok [OF assms(1)] have ok: "runtime_ok rt" by simp
  then have path: "TrimSpace (rt_configPath rt) \<noteq> []" and tag: "rt_etag rt = ComputeETag (rt_raw rt)"
    by (simp_all add: runtime_ok_def history_ok_def installed_def)
  show ?thesis
  proof (cases e)
    case (Apply env env' now ifMatch raw)
    show ?thesis
    proof (cases "prepareProxyRulesRaw env jc raw")
      case (Inr p)
      show ?thesis
        using assms(2,4,5) Apply Inr swap_result [OF Inr path tag assms(2), of env']
        by (fastforce simp: ApplyProxyRulesRaw_def copies_agree_def split: if_splits prod.splits sum.splits)
    qed (use assms(2,5) Apply in \<open>simp add: ApplyProxyRulesRaw_def\<close>)
  next
    case (Rollback env env')
    show ?thesis
    proof (cases "rt_rollbackStack rt = []")
      case True
      then show ?thesis using assms(2,5) Rollback by (simp add: RollbackProxyRules_def)
    next
      case False
      note eq = rollback_eq [OF False, of env env' jc st]
      have hist: "history_ok rt" using ok by (simp add: runtime_ok_def)
      let ?rt0 = "rt\<lparr>rt_rollbackStack := butlast (rt_rollbackStack rt)\<rparr>"
      have agree: "copies_agree ?rt0 st" using assms(2) by (simp add: copies_agree_def)
      show ?thesis
      proof (cases "prepareProxyRulesRaw env jc (fst (last (rt_rollbackStack rt)))")
        case (Inr p)
        show ?thesis
          using assms(2,4,5) Rollback Inr swap_result [OF Inr, of ?rt0 "rt_raw rt" st env'] path tag agree
          by (fastforce simp: eq [OF hist] copies_agree_def split: prod.splits sum.splits)
      qed (use assms(2,5) Rollback eq [OF hist] in simp)
    qed
  qed (use assms(3) in simp_all)
qed

subsection \<open>Lost updates\<close>

text \<open>
  No update is lost between two administrators who started from the same document: once an
  apply with an entity tag has changed the document, a second apply with that tag changes
  nothing, and answers with a conflict naming the new tag when its document is acceptable.
\<close>

theorem guarded_apply_loses_no_update:
  assumes "TrimSpace tag \<noteq> []"
    "ApplyProxyRulesRaw env1 env1' jc now1 tag raw1 (rt, st) = (Inr (etag1, c1), rt1, st1)"
    "etag1 \<noteq> rt_etag rt"
  shows "TrimSpace tag = rt_etag rt \<and> rt_etag rt1 = etag1
    \<and> (case ApplyProxyRulesRaw env2 env2' jc now2 tag raw2 (rt1, st1) of (r, rt2, st2) \<Rightarrow>
          isl r \<and> rt2 = rt1 \<and> st2 = st1
          \<and> (\<not> isl (prepareProxyRulesRaw env2 jc raw2) \<longrightarrow> r = Inl (Conflict etag1)))"
proof -
  have "TrimSpace tag = rt_etag rt \<and> rt_etag rt1 = etag1"
    using assms by (auto simp: ApplyProxyRulesRaw_def split: sum.splits if_splits prod.splits)
  with assms show ?thesis
    by (cases "prepareProxyRulesRaw env2 jc raw2") (simp_all add: ApplyProxyRulesRaw_def)
qed

subsection \<open>Rollback undoes apply\<close>

lemma store_and_swap_ok:
  assumes "TrimSpace (rt_configPath rt) \<noteq> []" "pu_etag p = ComputeETag b" "failures st = 0"
    "transport_Update env (pu_cfg p) = Inr t"
  shows "\<exists>st'. store_and_swap env p rt st = (Inr t, st')"
proof (cases rule: persist_cases [OF assms(1), of "pu_raw p" st, case_names ok failed])
  case (ok st1)
  note one = ok
  show ?thesis
    by (cases rule: upsert_cases [of "pu_raw p" b st1, case_names ok failed])
      (use assms one in \<open>auto simp: store_and_swap_def\<close>)
qed (use assms(3) in simp)

lemma push_last:
  assumes "history_ok rt" "TrimSpace (fst e) \<noteq> []"
  shows "rt_rollbackStack (pushRollbackLocked e rt) \<noteq> []" "last (rt_rollbackStack (pushRollbackLocked e rt)) = e"
    "int (length (rt_rollbackStack rt)) < rt_rollbackMax rt \<Longrightarrow>
      butlast (rt_rollbackStack (pushRollbackLocked e rt)) = rt_rollbackStack rt"
  using assms by (auto simp: pushRollbackLocked_def history_ok_def Let_def nat_le_iff last_drop)

text \<open>
  A rollback restores what the last apply replaced, in memory, in the file and in the
  database, when no write fails and the replaced document still prepares to itself; unless
  the history was full, it is back to what it was too.
\<close>

theorem apply_then_rollback_restores:
  assumes "rt_reachable jc (rt, st)" "TrimSpace (rt_raw rt) \<noteq> []"
    "prepareProxyRulesRaw env2 jc (rt_raw rt) = Inr \<lparr>pu_cfg = rt_cfg rt, pu_target = rt_target rt,
       pu_raw = rt_raw rt, pu_etag = rt_etag rt, pu_errRes = rt_errRes rt\<rparr>"
    "transport_Update env2' (rt_cfg rt) = Inr t"
    "ApplyProxyRulesRaw env1 env1' jc now tag raw (rt, st) = (Inr res, rt1, st1)" "so_Faults st1 = []"
    "RollbackProxyRules env2 env2' jc (rt1, st1) = (r, rt2, st2)"
  shows "r = Inr (rt_etag rt, rt_cfg rt, (rt_raw rt, now)) \<and> copies_agree rt2 st2
    \<and> rt_raw rt2 = rt_raw rt \<and> rt_etag rt2 = rt_etag rt \<and> rt_cfg rt2 = rt_cfg rt \<and> rt_target rt2 = rt_target rt
    \<and> rt_errRes rt2 = rt_errRes rt \<and> rt_FlushInterval rt2 = rt_FlushInterval rt
    \<and> (int (length (rt_rollbackStack rt)) < rt_rollbackMax rt \<longrightarrow> rt_rollbackStack rt2 = rt_rollbackStack rt)"
proof -
  from reachable_ok [OF assms(1)] have ok: "runtime_ok rt" by simp
  from assms(5) obtain p t1 where p: "prepareProxyRulesRaw env1 jc raw = Inr p" "transport_Update env1' (pu_cfg p) = Inr t1"
    and rt1: "rt1 = pushRollbackLocked (rt_raw rt, now) (install p t1 rt)"
    by (auto simp: ApplyProxyRulesRaw_def split: sum.splits if_splits prod.splits dest!: swapped_transport)
  let ?rt1 = "install p t1 rt"
  have hist: "history_ok ?rt1" using ok by (simp add: runtime_ok_def)
  note last = push_last [OF hist, of "(rt_raw rt, now)", unfolded fst_conv, OF assms(2)]
  let ?p = "\<lparr>pu_cfg = rt_cfg rt, pu_target = rt_target rt, pu_raw = rt_raw rt, pu_etag = rt_etag rt, pu_errRes = rt_errRes rt\<rparr>"
  let ?rt0 = "rt1\<lparr>rt_rollbackStack := butlast (rt_rollbackStack rt1)\<rparr>"
  have path: "TrimSpace (rt_configPath ?rt0) \<noteq> []" using ok by (simp add: rt1 runtime_ok_def history_ok_def)
  have tag: "pu_etag ?p = ComputeETag (rt_raw rt)" and flush: "rt_FlushInterval rt = flush_interval (rt_cfg rt)"
    using ok by (simp_all add: runtime_ok_def installed_def)
  have "failures st1 = 0" using assms(6) by (simp add: failures_def)
  with store_and_swap_ok [OF path tag] assms(4) obtain st' where sw: "store_and_swap env2' ?p ?rt0 st1 = (Inr t, st')"
    by fastforce
  have "RollbackProxyRules env2 env2' jc (rt1, st1) = (Inr (rt_etag rt, rt_cfg rt, (rt_raw rt, now)), install ?p t ?rt0, st')"
    using last sw assms(3) rollback_eq [of rt1 env2 env2' jc st1] history_push [OF hist] by (simp add: rt1)
  with assms(7) have r: "r = Inr (rt_etag rt, rt_cfg rt, (rt_raw rt, now))" "rt2 = install ?p t ?rt0" "st2 = st'" by simp_all
  show ?thesis
    using store_and_swap_Inr [OF sw path tag] last(3) flush r by (auto simp: copies_agree_def rt1)
qed

subsection \<open>Synchronisation with a blob that is not in normal form\<close>

text \<open>
  Synchronisation does not settle when the database holds a document that is not written the way
  the proxy writes it: the file gets the rewritten text and the blob keeps its own, so every
  later run finds them different, rewrites the file and leaves one more backup.
\<close>

theorem sync_of_unnormalised_blob_never_settles:
  assumes "TrimSpace (rt_configPath rt) \<noteq> []" "so_Store st" "so_Blob st = Some (b, tag)" "TrimSpace tag \<noteq> []"
    "prepareProxyRulesRaw env jc b = Inr p" "pu_raw p \<noteq> b" "transport_Update env' (pu_cfg p) = Inr t"
    "so_Faults st = []" "so_File st = Some f" "f \<noteq> b"
  shows "length (so_Backups (snd (((\<lambda>s. snd (SyncProxyStorage env env' jc s)) ^^ n) (rt, st)))) = length (so_Backups st) + n"
proof -
  define ok where "ok = (\<lambda>(r :: proxyRuntime, s :: storage). TrimSpace (rt_configPath r) \<noteq> [] \<and> so_Store s \<and> so_Blob s = Some (b, tag)
    \<and> so_Faults s = [] \<and> (\<exists>f. so_File s = Some f \<and> f \<noteq> b))"
  have step: "ok (snd (SyncProxyStorage env env' jc s)) \<and>
      length (so_Backups (snd (snd (SyncProxyStorage env env' jc s)))) = Suc (length (so_Backups (snd s)))" if "ok s" for s
    using that assms(4-7)
    by (cases s) (auto simp: ok_def SyncProxyStorage_def readFileMaybe_def GetConfigBlob_def store_read_def
      persistProxyConfigRaw_def AtomicWriteWithBackup_def store_write_def install_def)
  have "ok (((\<lambda>s. snd (SyncProxyStorage env env' jc s)) ^^ n) (rt, st))
    \<and> length (so_Backups (snd (((\<lambda>s. snd (SyncProxyStorage env env' jc s)) ^^ n) (rt, st)))) = length (so_Backups st) + n"
  proof (induction n)
    case 0
    show ?case using assms by (simp add: ok_def)
  next
    case (Suc n)
    then show ?case using step by simp
  qed
  then show ?thesis by blast
qed

subsection \<open>A concrete run\<close>

text \<open>A codec for documents that only name an upstream: the document is the URL on a line.\<close>

definition line_codec :: json_codec where
  "line_codec = \<lparr>jc_Decode = (\<lambda>s. Inr (zero_config\<lparr>cf_UpstreamURL := s\<rparr>, [])),
     jc_MarshalIndent = (\<lambda>c. cf_UpstreamURL c)\<rparr>"

definition doc_a :: string where "doc_a = ''http://a'' @ [CHR 0x0A]"
definition doc_b :: string where "doc_b = ''http://b'' @ [CHR 0x0A]"

definition demo_storage :: storage where
  "demo_storage = \<lparr>so_File = Some doc_a, so_Backups = [], so_Store = False, so_Blob = None, so_Faults = []\<rparr>"

definition demo_prep :: "string \<Rightarrow> proxyRulesPreparedUpdate" where
  "demo_prep s = projr (prepareProxyRulesRaw plain_env line_codec s)"

definition demo_rt :: proxyRuntime where
  "demo_rt = projr (InitProxyRuntime plain_env line_codec ''proxy.json'' 2 demo_storage)"

lemma line_parse:
  "case parseProxyRulesRaw plain_env line_codec doc_a of Inl e \<Rightarrow> False
   | Inr (c, t, er) \<Rightarrow> cf_UpstreamURL c = ''http://a'' \<and> buildProxyTLSClientConfig plain_env c = Inr None"
  "case parseProxyRulesRaw plain_env line_codec doc_b of Inl e \<Rightarrow> False
   | Inr (c, t, er) \<Rightarrow> cf_UpstreamURL c = ''http://b'' \<and> buildProxyTLSClientConfig plain_env c = Inr None"
  by code_simp+

lemma demo_prepared:
  "prepareProxyRulesRaw plain_env line_codec doc_a = Inr (demo_prep doc_a)" "pu_raw (demo_prep doc_a) = doc_a"
  "prepareProxyRulesRaw plain_env line_codec doc_b = Inr (demo_prep doc_b)" "pu_raw (demo_prep doc_b) = doc_b"
  "buildProxyTLSClientConfig plain_env (pu_cfg (demo_prep doc_a)) = Inr None"
  "buildProxyTLSClientConfig plain_env (pu_cfg (demo_prep doc_b)) = Inr None"
  using line_parse
  by (auto simp: demo_prep_def prepareProxyRulesRaw_def Let_def mustJSON_def line_codec_def doc_a_def doc_b_def
      split: sum.splits)

lemma demo_path: "TrimSpace ''proxy.json'' = ''proxy.json''" "TrimSpace doc_a \<noteq> []" "doc_a \<noteq> doc_b"
    "doc_a \<noteq> ''http://a''"
  by code_simp+

lemma demo_init: "InitProxyRuntime plain_env line_codec ''proxy.json'' 2 demo_storage = Inr demo_rt"
  and demo_fields: "rt_raw demo_rt = doc_a" "rt_etag demo_rt = pu_etag (demo_prep doc_a)"
    "rt_cfg demo_rt = pu_cfg (demo_prep doc_a)" "rt_target demo_rt = pu_target (demo_prep doc_a)"
    "rt_errRes demo_rt = pu_errRes (demo_prep doc_a)" "rt_rollbackStack demo_rt = []" "rt_rollbackMax demo_rt = 2"
    "rt_configPath demo_rt = ''proxy.json''"
  by (simp_all add: demo_rt_def InitProxyRuntime_def Let_def demo_path demo_storage_def demo_prepared wrapR_def
      newDynamicProxyTransport_def clampProxyRollbackMax_def ReadFile_def store_read_def)

lemma demo_reachable: "rt_reachable line_codec (demo_rt, demo_storage)"
  by (rule rt_reachable.init [OF demo_init])

lemma demo_agree: "copies_agree demo_rt demo_storage"
  by (simp add: copies_agree_def demo_storage_def demo_fields)

lemma demo_update:
  "transport_Update plain_env (pu_cfg (demo_prep doc_a)) = Inr (buildProxyTransport plain_env (pu_cfg (demo_prep doc_a)))"
  "transport_Update plain_env (pu_cfg (demo_prep doc_b)) = Inr (buildProxyTransport plain_env (pu_cfg (demo_prep doc_b)))"
  by (simp_all add: transport_Update_def demo_prepared)


lemma demo_apply:
  "\<exists>rt' st'. ApplyProxyRulesRaw plain_env plain_env line_codec ''t1'' [] doc_b (demo_rt, demo_storage)
     = (Inr (pu_etag (demo_prep doc_b), pu_cfg (demo_prep doc_b)), rt', st') \<and> so_Faults st' = []"
  by (simp add: ApplyProxyRulesRaw_def demo_prepared store_and_swap_def persistProxyConfigRaw_def AtomicWriteWithBackup_def demo_storage_def
      store_write_def upsertProxyConfigBlob_def demo_update demo_fields demo_path)

theorem one_failure_keeps_the_copies_together_witness:
  "\<exists>ok rt' st'. rt_step line_codec (Apply plain_env plain_env ''t1'' [] doc_b)
       (demo_rt, demo_storage\<lparr>so_Faults := [Some (Errorf ''disk full'' [])]\<rparr>) = (ok, rt', st')
     \<and> copies_agree rt' st' \<and> \<not> ok \<and> rt' = demo_rt \<and> so_File st' = Some doc_a"
proof -
  let ?st = "demo_storage\<lparr>so_Faults := [Some (Errorf ''disk full'' [])]\<rparr>"
  let ?e = "Apply plain_env plain_env ''t1'' [] doc_b"
  obtain ok rt' st' where step: "rt_step line_codec ?e (demo_rt, ?st) = (ok, rt', st')" by (metis prod_cases3)
  have "rt_reachable line_codec (demo_rt, ?st)"
    using rt_reachable.step [OF demo_reachable, of "Outside ?st"] by simp
  moreover have "copies_agree demo_rt ?st" using demo_agree by (simp add: copies_agree_def)
  moreover have "edit_failures line_codec ?e (demo_rt, ?st) \<le> 1"
    by (simp add: failures_def update_fails_def demo_prepared demo_update)
  moreover have "edits ?e" by simp
  ultimately have "copies_agree rt' st' \<and> (\<not> ok \<longrightarrow> rt' = demo_rt \<and> so_File st' = so_File ?st \<and> so_Blob st' = so_Blob ?st)"
    using step by (intro one_failure_keeps_the_copies_together [where jc = line_codec and e = ?e])
  moreover have "\<not> ok"
    using step by (auto simp: ApplyProxyRulesRaw_def demo_prepared store_and_swap_def persistProxyConfigRaw_def AtomicWriteWithBackup_def
      demo_storage_def store_write_def demo_fields demo_path)
  ultimately show ?thesis using step by (auto simp: demo_storage_def)
qed

theorem apply_then_rollback_restores_witness:
  "\<exists>rt1 st1 r rt2 st2. ApplyProxyRulesRaw plain_env plain_env line_codec ''t1'' [] doc_b (demo_rt, demo_storage)
      = (Inr (pu_etag (demo_prep doc_b), pu_cfg (demo_prep doc_b)), rt1, st1)
    \<and> RollbackProxyRules plain_env plain_env line_codec (rt1, st1) = (r, rt2, st2)
    \<and> rt_raw rt2 = doc_a \<and> copies_agree rt2 st2"
proof -
  from demo_apply obtain rt1 st1 where ap: "ApplyProxyRulesRaw plain_env plain_env line_codec ''t1'' [] doc_b (demo_rt, demo_storage)
      = (Inr (pu_etag (demo_prep doc_b), pu_cfg (demo_prep doc_b)), rt1, st1)" and fl: "so_Faults st1 = []" by blast
  obtain r rt2 st2 where rb: "RollbackProxyRules plain_env plain_env line_codec (rt1, st1) = (r, rt2, st2)"
    by (metis prod_cases3)
  have prep: "prepareProxyRulesRaw plain_env line_codec (rt_raw demo_rt) = Inr \<lparr>pu_cfg = rt_cfg demo_rt, pu_target = rt_target demo_rt,
       pu_raw = rt_raw demo_rt, pu_etag = rt_etag demo_rt, pu_errRes = rt_errRes demo_rt\<rparr>"
    by (simp add: demo_fields demo_prepared)
  show ?thesis
    using apply_then_rollback_restores [OF demo_reachable _ prep _ ap fl rb] demo_path demo_update ap rb
    by (auto simp: demo_fields)
qed

theorem guarded_apply_loses_no_update_witness:
  "\<exists>rt1 st1. ApplyProxyRulesRaw plain_env plain_env line_codec ''t1'' ''old'' doc_b (demo_rt\<lparr>rt_etag := ''old''\<rparr>, demo_storage)
      = (Inr (pu_etag (demo_prep doc_b), pu_cfg (demo_prep doc_b)), rt1, st1)
    \<and> fst (ApplyProxyRulesRaw plain_env plain_env line_codec ''t2'' ''old'' doc_a (rt1, st1))
      = Inl (Conflict (pu_etag (demo_prep doc_b)))"
proof -
  have old: "TrimSpace ''old'' = ''old''" by code_simp
  have tag: "pu_etag (demo_prep doc_b) \<noteq> ''old''"
    using demo_prepared(3) by (rule prepared_parts) (simp add: ComputeETag_def)
  obtain rt1 st1 where ap: "ApplyProxyRulesRaw plain_env plain_env line_codec ''t1'' ''old'' doc_b (demo_rt\<lparr>rt_etag := ''old''\<rparr>, demo_storage)
      = (Inr (pu_etag (demo_prep doc_b), pu_cfg (demo_prep doc_b)), rt1, st1)"
    by (simp add: ApplyProxyRulesRaw_def demo_prepared store_and_swap_def persistProxyConfigRaw_def AtomicWriteWithBackup_def demo_storage_def
      store_write_def upsertProxyConfigBlob_def demo_update demo_fields demo_path old)
  show ?thesis
    using guarded_apply_loses_no_update [OF _ ap, where ?env2.0 = plain_env and ?env2'.0 = plain_env
      and ?now2.0 = "''t2''" and ?raw2.0 = doc_a] old tag ap demo_prepared(1)
    by (auto split: prod.splits)
qed

theorem sync_of_unnormalised_blob_never_settles_witness:
  "length (so_Backups (snd (((\<lambda>s. snd (SyncProxyStorage plain_env plain_env line_codec s)) ^^ 100)
     (demo_rt, demo_storage\<lparr>so_Store := True, so_Blob := Some (''http://a'', ''t'')\<rparr>)))) = 100"
proof -
  have p: "prepareProxyRulesRaw plain_env line_codec ''http://a'' = Inr (demo_prep doc_a)"
  proof -
    have "parseProxyRulesRaw plain_env line_codec ''http://a'' = parseProxyRulesRaw plain_env line_codec doc_a"
      by code_simp
    then show ?thesis using demo_prepared(1) by (simp add: prepareProxyRulesRaw_def)
  qed
  have t: "TrimSpace ''t'' \<noteq> []" by code_simp
  have "length (so_Backups (snd (((\<lambda>s. snd (SyncProxyStorage plain_env plain_env line_codec s)) ^^ 100)
     (demo_rt, demo_storage\<lparr>so_Store := True, so_Blob := Some (''http://a'', ''t'')\<rparr>))))
    = length (so_Backups (demo_storage\<lparr>so_Store := True, so_Blob := Some (''http://a'', ''t'')\<rparr>)) + 100"
    by (rule sync_of_unnormalised_blob_never_settles [OF _ _ _ t p _ demo_update(1)])
      (use demo_path in \<open>simp_all add: demo_fields demo_prepared demo_storage_def\<close>)
  then show ?thesis by (simp add: demo_storage_def)
qed

end
