(* ===== verification/Proxy_Admin.thy ===== *)
theory Proxy_Admin
  imports Runtime_Correct
begin

text \<open>
  The administration handlers of \<open>proxy_admin.go\<close> over the running proxy, and the upstream
  probe of \<open>proxy_runtime.go\<close>.  A handler is a function from the decoded request body (an error
  of \<open>ShouldBindJSON\<close> is \<open>Inl\<close>) and the state to the reply and the new state; dialling an address
  is a parameter that returns the latency in milliseconds or an error.
\<close>

subsection \<open>The upstream probe\<close>

definition proxyDialAddress :: "URL \<Rightarrow> string result" where
  "proxyDialAddress target =
     (let host = TrimSpace (url_Host target) in
      if host = [] then err ''upstream host is required'' []
      else case net_SplitHostPort host of
        Inr _ \<Rightarrow> Inr host
      | Inl _ \<Rightarrow>
          (let host' = URL_Hostname target; port = URL_Port target; scheme = ToLower (TrimSpace (url_Scheme target)) in
           if host' = [] then err ''upstream host is required'' []
           else if port \<noteq> [] then Inr (net_JoinHostPort host' port)
           else if scheme = ''http'' then Inr (net_JoinHostPort host' ''80'')
           else if scheme = ''https'' then Inr (net_JoinHostPort host' ''443'')
           else err ''unsupported upstream scheme: %s'' [url_Scheme target]))"

definition probeProxyUpstream ::
  "proxy_env \<Rightarrow> (string \<Rightarrow> int \<Rightarrow> int result) \<Rightarrow> ProxyRulesConfig \<Rightarrow> int \<Rightarrow> string \<times> int \<times> goerr option" where
  \<comment> \<open>address, latency, error\<close>
  "probeProxyUpstream env dial doc timeout =
     (case normalizeAndValidateProxyRules env doc of
        Inl e \<Rightarrow> ([], 0, Some e)
      | Inr (c, target, er) \<Rightarrow>
          (case proxyDialAddress target of
             Inl e \<Rightarrow> ([], 0, Some e)
           | Inr address \<Rightarrow> (case dial address timeout of
                 Inl e \<Rightarrow> (address, 0, Some e)
               | Inr ms \<Rightarrow> (address, ms, None))))"

definition clamp_probe_timeout :: "int \<Rightarrow> int" where
  "clamp_probe_timeout timeout =
     (let t1 = (if timeout \<le> 0 then 2 * second else timeout);
          t2 = (if t1 < 100 * millisecond then 100 * millisecond else t1)
      in if 10 * second < t2 then 10 * second else t2)"

definition ProxyProbe ::
  "proxy_env \<Rightarrow> json_codec \<Rightarrow> (string \<Rightarrow> int \<Rightarrow> int result) \<Rightarrow> proxyRuntime option \<Rightarrow> string \<Rightarrow> int
     \<Rightarrow> ProxyRulesConfig \<times> string \<times> int \<times> goerr option" where
  "ProxyProbe env jc dial inst raw timeout =
     (case (if TrimSpace raw = [] then Inr (fst (snd (snd (ProxyRulesSnapshot inst))))
            else ValidateProxyRulesRaw env jc raw) of
        Inl e \<Rightarrow> (zero_config, [], 0, Some e)
      | Inr c \<Rightarrow> (c, probeProxyUpstream env dial c (clamp_probe_timeout timeout)))"

subsection \<open>Replies\<close>

datatype admin_reply =
    ReplyBind goerr                                     \<comment> \<open>400 with the binding error\<close>
  | ReplyError int string
  | ReplyConflict string                                \<comment> \<open>409 with the current entity tag\<close>
  | ReplyMessages int goerr "ProxyRulesConfig option"   \<comment> \<open>\<open>ok: false\<close> with one message\<close>
  | ReplyState "string \<times> string \<times> ProxyRulesConfig \<times> upstreamHealthStatus \<times> nat"
  | ReplyValid ProxyRulesConfig
  | ReplyApplied string ProxyRulesConfig
  | ReplyRolledBack string ProxyRulesConfig proxyRollbackEntry
  | ReplyProbeFailed ProxyRulesConfig string int goerr  \<comment> \<open>503: address, timeout in ms, message\<close>
  | ReplyProbed ProxyRulesConfig string int int
  | ReplyDryRun ProxyRulesConfig proxyRouteDryRunResult

fun reply_status :: "admin_reply \<Rightarrow> int" where
  "reply_status (ReplyBind e) = 400"
| "reply_status (ReplyError s m) = s"
| "reply_status (ReplyConflict t) = 409"
| "reply_status (ReplyMessages s e c) = s"
| "reply_status (ReplyProbeFailed c a t e) = 503"
| "reply_status _ = 200"

subsection \<open>Handlers\<close>

text \<open>
  The state is the runtime with its storage and the cursor of weighted selection; every
  handler runs with an initialised runtime.
\<close>

type_synonym admin_state = "proxyRuntime \<times> storage \<times> 64 word"

definition GetProxyRules :: "admin_state \<Rightarrow> admin_reply \<times> admin_state" where
  "GetProxyRules s = (ReplyState (ProxyRulesSnapshot (Some (fst s))), s)"

definition ValidateProxyRules :: "proxy_env \<Rightarrow> json_codec \<Rightarrow> string result \<Rightarrow> admin_state \<Rightarrow> admin_reply \<times> admin_state" where
  "ValidateProxyRules env jc body s =
     (case body of
        Inl e \<Rightarrow> (ReplyBind e, s)
      | Inr raw \<Rightarrow> (case ValidateProxyRulesRaw env jc raw of
            Inl e \<Rightarrow> (ReplyMessages 422 e None, s)
          | Inr c \<Rightarrow> (ReplyValid c, s)))"

definition ProbeProxyRules ::
  "proxy_env \<Rightarrow> json_codec \<Rightarrow> (string \<Rightarrow> int \<Rightarrow> int result) \<Rightarrow> (string \<times> int) result \<Rightarrow> admin_state
     \<Rightarrow> admin_reply \<times> admin_state" where
  \<comment> \<open>an empty body is the document and the timeout of the zero value\<close>
  "ProbeProxyRules env jc dial body s =
     (case (case body of Inl (Errorf f as) \<Rightarrow> if f = ''EOF'' \<and> as = [] then Inr ([], 0) else Inl (Errorf f as) | r \<Rightarrow> r) of
        Inl e \<Rightarrow> (ReplyBind e, s)
      | Inr (raw, timeoutMS) \<Rightarrow>
          (if timeoutMS < 0 then (ReplyMessages 400 (Errorf ''timeout_ms must be >= 0'' []) None, s)
           else let timeout = (if 0 < timeoutMS then i64 (timeoutMS * millisecond) else 2 * second) in
             (case ProxyProbe env jc dial (Some (fst s)) raw timeout of
                (c, address, latency, Some e) \<Rightarrow> (ReplyProbeFailed c address (quot timeout millisecond) e, s)
              | (c, address, latency, None) \<Rightarrow> (ReplyProbed c address latency (quot timeout millisecond), s))))"

definition DryRunProxyRulesHandler ::
  "proxy_env \<Rightarrow> json_codec \<Rightarrow> int \<Rightarrow> (string \<times> string \<times> string) result \<Rightarrow> admin_state \<Rightarrow> admin_reply \<times> admin_state" where
  "DryRunProxyRulesHandler env jc now body = (\<lambda>(rt, st, cur).
     (case body of
        Inl e \<Rightarrow> (ReplyBind e, rt, st, cur)
      | Inr (raw, host, p) \<Rightarrow>
          (let path0 = TrimSpace p in
           if path0 = [] then (ReplyMessages 400 (Errorf ''path is required'' []) None, rt, st, cur)
           else let path = (if HasPrefix path0 ''/'' then path0 else ''/'' @ path0) in
             (case (if TrimSpace raw = [] then Inr (rt_cfg rt, Some (rt_health rt))
                    else bindR (ValidateProxyRulesRaw env jc raw) (\<lambda>c. Inr (c, None))) of
                Inl e \<Rightarrow> (ReplyMessages 422 e None, rt, st, cur)
              | Inr (c, health) \<Rightarrow>
                  (case proxyRouteDryRunWithHealth env c (TrimSpace host) path health now cur of
                     (Inl e, cur') \<Rightarrow> (ReplyMessages 422 e (Some c), rt, st, cur')
                   | (Inr d, cur') \<Rightarrow> (ReplyDryRun c d, rt, st, cur'))))))"

definition PutProxyRules ::
  "proxy_env \<Rightarrow> proxy_env \<Rightarrow> json_codec \<Rightarrow> string \<Rightarrow> string \<Rightarrow> string result \<Rightarrow> admin_state \<Rightarrow> admin_reply \<times> admin_state" where
  \<comment> \<open>worlds, codec, time stamp, the \<open>If-Match\<close> header, the body\<close>
  "PutProxyRules env env' jc now header body = (\<lambda>(rt, st, cur).
     (case body of
        Inl e \<Rightarrow> (ReplyBind e, rt, st, cur)
      | Inr raw \<Rightarrow>
          (let ifMatch = TrimSpace header in
           if ifMatch = [] then (ReplyError 428 ''If-Match header is required'', rt, st, cur)
           else case ApplyProxyRulesRaw env env' jc now ifMatch raw (rt, st) of
             (Inl (Conflict tag), rt', st') \<Rightarrow> (ReplyConflict tag, rt', st', cur)
           | (Inl (Failed e), rt', st') \<Rightarrow> (ReplyMessages 422 e None, rt', st', cur)
           | (Inr (etag, c), rt', st') \<Rightarrow> (ReplyApplied etag c, rt', st', cur))))"

text \<open>
  The rollback handler recognises the empty history by the text of the error; here by the error
  itself.
\<close>

definition RollbackProxyRulesHandler ::
  "proxy_env \<Rightarrow> proxy_env \<Rightarrow> json_codec \<Rightarrow> admin_state \<Rightarrow> admin_reply \<times> admin_state" where
  "RollbackProxyRulesHandler env env' jc = (\<lambda>(rt, st, cur).
     (case RollbackProxyRules env env' jc (rt, st) of
        (Inl e, rt', st') \<Rightarrow>
          (if e = Errorf ''no rollback snapshot'' [] then (ReplyError 409 ''no rollback snapshot'', rt', st', cur)
           else (ReplyMessages 422 e None, rt', st', cur))
      | (Inr (etag, c, entry), rt', st') \<Rightarrow> (ReplyRolledBack etag c entry, rt', st', cur)))"

datatype admin_request =
    Get
  | Put proxy_env proxy_env string string "string result"
  | Action string proxy_env proxy_env int "(string \<times> int \<times> string \<times> string) result"
      \<comment> \<open>the path parameter, worlds, time, and the fields \<open>raw\<close>, \<open>timeout_ms\<close>, \<open>host\<close>, \<open>path\<close>\<close>

definition ProxyRulesAction ::
  "json_codec \<Rightarrow> (string \<Rightarrow> int \<Rightarrow> int result) \<Rightarrow> string \<Rightarrow> proxy_env \<Rightarrow> proxy_env \<Rightarrow> int
     \<Rightarrow> (string \<times> int \<times> string \<times> string) result \<Rightarrow> admin_state \<Rightarrow> admin_reply \<times> admin_state" where
  "ProxyRulesAction jc dial param env env' now body s =
     (let action = TrimPrefix (TrimSpace param) '':'' in
      if action = ''validate'' then ValidateProxyRules env jc (bindR body (\<lambda>(raw, t, h, p). Inr raw)) s
      else if action = ''probe'' then ProbeProxyRules env jc dial (bindR body (\<lambda>(raw, t, h, p). Inr (raw, t))) s
      else if action = ''dry-run'' then DryRunProxyRulesHandler env jc now (bindR body (\<lambda>(raw, t, h, p). Inr (raw, h, p))) s
      else if action = ''rollback'' then RollbackProxyRulesHandler env env' jc s
      else (ReplyError 404 ''unknown proxy-rules action'', s))"

fun admin :: "json_codec \<Rightarrow> (string \<Rightarrow> int \<Rightarrow> int result) \<Rightarrow> admin_request \<Rightarrow> admin_state \<Rightarrow> admin_reply \<times> admin_state" where
  "admin jc dial Get s = GetProxyRules s"
| "admin jc dial (Put env env' now header body) s = PutProxyRules env env' jc now header body s"
| "admin jc dial (Action param env env' now body) s = ProxyRulesAction jc dial param env env' now body s"

subsection \<open>What a request may change\<close>

lemma put_changes:
  assumes "PutProxyRules env env' jc now header body (rt, st, cur) = (reply, rt', st', cur')"
  shows "rt' = rt \<or> reply_status reply = 200 \<and> TrimSpace header = rt_etag rt"
  using assms
  by (auto simp: PutProxyRules_def ApplyProxyRulesRaw_def Let_def
      split: sum.splits if_splits prod.splits apply_error.splits)

lemma rollback_changes:
  assumes "RollbackProxyRulesHandler env env' jc (rt, st, cur) = (reply, rt', st', cur')" "history_ok rt"
  shows "rt' = rt \<or> reply_status reply = 200"
  using assms rollback_eq [of rt env env' jc st]
  by (cases "rt_rollbackStack rt = []")
    (auto simp: RollbackProxyRulesHandler_def RollbackProxyRules_def [of env env' jc]
      split: sum.splits if_splits prod.splits)

lemma read_only:
  "ValidateProxyRules env jc b s = (reply, s') \<Longrightarrow> s' = s"
  "ProbeProxyRules env jc dial b' s = (reply, s') \<Longrightarrow> s' = s"
  "DryRunProxyRulesHandler env jc now b'' s = (reply, s') \<Longrightarrow> fst s' = fst s \<and> fst (snd s') = fst (snd s)"
  by (auto simp: ValidateProxyRules_def ProbeProxyRules_def DryRunProxyRulesHandler_def Let_def
      split: sum.splits if_splits prod.splits option.splits)

text \<open>
  No administration request changes the running proxy except a document put with the current
  entity tag and a rollback, and these only when they answer 200; every other reply, every
  validation, probe and dry run leaves it as it was.
\<close>

theorem admin_changes_only_by_put_and_rollback:
  assumes "rt_reachable jc (rt, st)" "admin jc dial req (rt, st, cur) = (reply, rt', st', cur')" "rt' \<noteq> rt"
  shows "reply_status reply = 200 \<and>
    (case req of
       Get \<Rightarrow> False
     | Put env env' now header body \<Rightarrow> TrimSpace header = rt_etag rt
     | Action param env env' now body \<Rightarrow> TrimPrefix (TrimSpace param) '':'' = ''rollback'')"
proof -
  have hist: "history_ok rt" using reachable_ok [OF assms(1)] by (simp add: runtime_ok_def)
  show ?thesis
  proof (cases req)
    case (Action param env env' now body)
    then show ?thesis
      using assms(2,3)
      by (auto simp: ProxyRulesAction_def Let_def split: if_splits dest: read_only dest!: rollback_changes [OF _ hist])
  qed (use assms(2,3) in \<open>auto simp: GetProxyRules_def dest!: put_changes\<close>)
qed

theorem admin_changes_only_by_put_and_rollback_witness:
  "\<exists>reply rt' st' cur'. admin line_codec (\<lambda>a t. Inr 1)
       (Put plain_env plain_env ''t1'' (rt_etag demo_rt) (Inr doc_b)) (demo_rt, demo_storage, 0) = (reply, rt', st', cur')
     \<and> rt' \<noteq> demo_rt \<and> reply_status reply = 200"
proof -
  let ?req = "Put plain_env plain_env ''t1'' (rt_etag demo_rt) (Inr doc_b)"
  obtain reply rt' st' cur' where run: "admin line_codec (\<lambda>a t. Inr 1) ?req (demo_rt, demo_storage, 0) = (reply, rt', st', cur')"
    by (metis prod_cases4)
  have tag: "TrimSpace (rt_etag demo_rt) = rt_etag demo_rt" "rt_etag demo_rt \<noteq> []"
    using runtime_ok_def [of demo_rt] reachable_ok [OF demo_reachable] by (auto simp: installed_def)
  have "rt_raw rt' = doc_b"
    using run by (auto simp: PutProxyRules_def ApplyProxyRulesRaw_def demo_prepared store_and_swap_def persistProxyConfigRaw_def AtomicWriteWithBackup_def
      demo_storage_def store_write_def upsertProxyConfigBlob_def demo_update demo_fields(8) demo_path tag)
  then have "rt' \<noteq> demo_rt" using demo_path demo_fields by auto
  then show ?thesis
    using admin_changes_only_by_put_and_rollback [OF demo_reachable run] run by auto
qed

end
