(* ===== verification/Go_Text.thy ===== *)
theory Go_Text
  imports Go_Url
begin

text \<open>
  The text routines of the Go standard library the rule files are read with:
  \<open>bufio.Scanner\<close> over lines, \<open>strings.Fields\<close>, \<open>strings.SplitN(s, "=", 2)\<close>, \<open>path.Clean\<close> and
  \<open>strconv.Atoi\<close>.
\<close>

subsection \<open>Lines\<close>

abbreviation newline :: char where "newline \<equiv> CHR 0x0A"

definition dropCR :: "string \<Rightarrow> string" where
  "dropCR l = (if l \<noteq> [] \<and> last l = CHR 0x0D then butlast l else l)"

text \<open>
  \<open>bufio.Scanner\<close> with the default split function and buffer: the lines without their
  terminators, and whether a line of 65,536 bytes or more stopped the scan
  (\<open>bufio.ErrTooLong\<close>).
\<close>

definition scan_lines :: "string \<Rightarrow> string list \<times> bool" where
  "scan_lines s =
     (let ls = SplitByte s newline;
          ls' = (if last ls = [] then butlast ls else ls);
          good = takeWhile (\<lambda>l. int (length l) < 65536) ls'
      in (map dropCR good, length good < length ls'))"

subsection \<open>Fields\<close>

fun next_word :: "string \<Rightarrow> string \<times> string" where
  "next_word [] = ([], [])"
| "next_word (c # s) =
     (if lead_len space_seqs (c # s) \<noteq> 0 then ([], c # s)
      else (case next_word s of (w, rest) \<Rightarrow> (c # w, rest)))"

lemma next_word_append: "next_word s = (w, rest) \<Longrightarrow> s = w @ rest"
  by (induction s arbitrary: w) (auto split: if_splits prod.splits)

lemma next_word_length: "length (snd (next_word s)) \<le> length s"
  using next_word_append [of s "fst (next_word s)" "snd (next_word s)"]
  by (metis le_add2 length_append prod.collapse)

lemma trim_left_length: "length (trim_left s) \<le> length s"
  using trim_lead_suffix [of s space_seqs] by (metis le_add2 length_append trim_left_def)

lemma trim_left_lead [simp]: "lead_len space_seqs (trim_left s) = 0"
  by (simp add: trim_left_def)

function Fields :: "string \<Rightarrow> string list" where
  "Fields s = (let t = trim_left s in
     if t = [] then [] else fst (next_word t) # Fields (snd (next_word t)))"
  by pat_completeness auto
termination
proof (relation "measure length")
  fix s x :: string
  assume x: "x = trim_left s" "x \<noteq> []"
  from x(2) obtain c t where t: "x = c # t" by (meson neq_Nil_conv)
  have "lead_len space_seqs (c # t) = 0" using x t trim_left_lead [of s] by simp
  then have "length (snd (next_word x)) \<le> length t"
    using next_word_length [of t] by (cases "next_word t") (simp add: t)
  also have "\<dots> < length s" using trim_left_length [of s] x(1) [symmetric] t by simp
  finally show "(snd (next_word x), s) \<in> measure length" by simp
qed simp

declare Fields.simps [simp del]

text \<open>Words without white space joined by single blanks are read back.\<close>

definition solid :: "string \<Rightarrow> bool" where
  "solid w = (w \<noteq> [] \<and> (\<forall>c\<in>set w. c \<notin> set (concat space_seqs)))"

lemma lead_len_solid: "c \<notin> set (concat space_seqs) \<Longrightarrow> lead_len space_seqs (c # s) = 0"
  by (rule lead_len_hd) simp_all

lemma next_word_solid:
  assumes "\<forall>c\<in>set w. c \<notin> set (concat space_seqs)"
  shows "next_word (w @ '' '' @ s) = (w, '' '' @ s)" "next_word w = (w, [])"
proof -
  have sp: "lead_len space_seqs (CHR '' '' # s) \<noteq> 0"
    by (simp add: space_seqs_def)
  show "next_word (w @ '' '' @ s) = (w, '' '' @ s)"
    using assms
  proof (induction w)
    case Nil
    then show ?case using sp by simp
  next
    case (Cons c w)
    then show ?case using lead_len_solid [of c] by simp
  qed
  show "next_word w = (w, [])"
    using assms by (induction w) (auto simp: lead_len_solid)
qed

lemma trim_left_solid: "solid w \<Longrightarrow> trim_left (w @ s) = w @ s"
  by (cases w) (simp_all add: solid_def trim_left_def trim_lead_id lead_len_solid)

lemma lead_len_blank: "lead_len space_seqs (CHR '' '' # s) = 1"
  by (simp add: space_seqs_def)

lemma trim_left_blank: "trim_left ('' '' @ s) = trim_left s"
  by (simp add: trim_left_def trim_lead.simps [of space_seqs "CHR '' '' # s"] lead_len_blank)

lemma Fields_Nil [simp]: "Fields [] = []"
  using trim_left_length [of "[]"] by (simp add: Fields.simps)

lemma Fields_blank: "Fields ('' '' @ s) = Fields s"
  by (subst (1 2) Fields.simps) (simp only: trim_left_blank)

lemma Fields_join: "\<forall>w\<in>set ws. solid w \<Longrightarrow> Fields (join_with '' '' ws) = ws"
proof (induction ws rule: induct_list012)
  case 1
  then show ?case by (simp add: join_with_def)
next
  case (2 w)
  then have w: "solid w" by simp
  then have "next_word w = (w, [])" by (intro next_word_solid) (simp add: solid_def)
  with w trim_left_solid [OF w, of "[]"] show ?case
    by (simp add: Fields.simps [of w] join_with_def solid_def)
next
  case (3 w v ws)
  then have w: "solid w" by simp
  have j: "join_with '' '' (w # v # ws) = w @ '' '' @ join_with '' '' (v # ws)" by (simp add: join_with_def)
  have "next_word (join_with '' '' (w # v # ws)) = (w, '' '' @ join_with '' '' (v # ws))"
    unfolding j using w by (intro next_word_solid) (simp add: solid_def)
  then have "Fields (join_with '' '' (w # v # ws)) = w # Fields ('' '' @ join_with '' '' (v # ws))"
    using w trim_left_solid [OF w] by (subst Fields.simps) (simp add: j solid_def)
  with 3 show ?case by (simp only: Fields_blank) simp
qed

subsection \<open>Splitting and numbers\<close>

definition SplitN2 :: "string \<Rightarrow> char \<Rightarrow> string list" where
  \<comment> \<open>\<open>strings.SplitN(s, sep, 2)\<close> for a one-byte separator\<close>
  "SplitN2 s c = (case IndexByte s c of None \<Rightarrow> [s] | Some i \<Rightarrow> [take i s, drop (Suc i) s])"

definition Atoi :: "string \<Rightarrow> int option" where
  \<comment> \<open>\<open>strconv.Atoi\<close>: a sign and decimal digits, in the range of a 64-bit integer\<close>
  "Atoi s =
     (let neg = (s \<noteq> [] \<and> hd s = CHR ''-''); plus = (s \<noteq> [] \<and> hd s = CHR ''+'');
          ds = (if neg \<or> plus then tl s else s);
          v = (if neg then - int (digits_val ds) else int (digits_val ds))
      in if ds \<noteq> [] \<and> list_all is_digit ds \<and> - (2 ^ 63) \<le> v \<and> v < 2 ^ 63 then Some v else None)"

lemma Atoi_Itoa: "0 \<le> t \<Longrightarrow> t < 2 ^ 63 \<Longrightarrow> Atoi (Itoa t) = Some t"
proof -
  assume t: "0 \<le> t" "t < 2 ^ 63"
  obtain c s where cs: "digits_of (nat t) = c # s" by (meson digits_of_nonempty list.exhaust)
  have d: "\<forall>x\<in>set (digits_of (nat t)). is_digit x" by (simp add: digits_of_digit)
  then have "c \<noteq> CHR ''-''" "c \<noteq> CHR ''+''" unfolding cs by (auto simp: is_digit_def ord_def)
  then show ?thesis
    using t d digits_val_digits_of [of "nat t"] by (simp add: Atoi_def Itoa_def Let_def cs list_all_iff)
qed

subsection \<open>Joining and splitting\<close>

lemma SplitByte_no: "c \<notin> set w \<Longrightarrow> SplitByte w c = [w]"
  by (induction w) auto

lemma SplitByte_first: "c \<notin> set w \<Longrightarrow> SplitByte (w @ c # s) c = w # SplitByte s c"
  by (induction w) auto

lemma SplitByte_one: "c \<notin> set s \<Longrightarrow> c \<notin> set t \<Longrightarrow> SplitByte (s @ [c] @ t) c = [s, t]"
  by (simp add: SplitByte_first SplitByte_no)

lemma SplitByte_join: "ws \<noteq> [] \<Longrightarrow> \<forall>w\<in>set ws. c \<notin> set w \<Longrightarrow> SplitByte (join_with [c] ws) c = ws"
proof (induction ws rule: induct_list012)
  case (3 w v ws)
  then show ?case by (simp add: join_with_def SplitByte_first)
qed (simp_all add: join_with_def SplitByte_no)

lemma join_snoc: "ws \<noteq> [] \<Longrightarrow> join_with sep ws @ sep @ t = join_with sep (ws @ [t])"
  by (induction ws rule: induct_list012) (simp_all add: join_with_def)

lemma join_ends:
  "ws \<noteq> [] \<Longrightarrow> \<forall>w\<in>set ws. w \<noteq> [] \<Longrightarrow> join_with sep ws \<noteq> [] \<and> hd (join_with sep ws) = hd (hd ws)
    \<and> last (join_with sep ws) = last (last ws)"
  by (induction ws rule: induct_list012) (auto simp: join_with_def)

lemma set_join: "set (join_with sep ws) \<subseteq> \<Union> (set ` set ws) \<union> set sep"
  by (induction ws rule: induct_list012) (auto simp: join_with_def)

lemma scan_lines_join:
  assumes "ls \<noteq> []" "\<forall>l\<in>set ls. newline \<notin> set l \<and> (l = [] \<or> last l \<noteq> CHR 0x0D) \<and> int (length l) < 65536"
  shows "scan_lines (join_with [newline] ls @ [newline]) = (ls, False)"
proof -
  have sb: "SplitByte (join_with [newline] ls @ [newline]) newline = ls @ [[]]"
    using join_snoc [of ls "[newline]" "[]"] SplitByte_join [of "ls @ [[]]" newline] assms by simp
  have tw: "takeWhile (\<lambda>l. int (length l) < 65536) ls = ls"
    unfolding takeWhile_eq_all_conv using assms(2) by blast
  have dc: "map dropCR ls = ls" using assms(2) by (intro map_id_on) (auto simp: dropCR_def)
  show ?thesis unfolding scan_lines_def sb Let_def last_snoc butlast_snoc simp_thms if_True tw dc by simp
qed

subsection \<open>Path cleaning\<close>

definition clean_step :: "bool \<Rightarrow> string list \<Rightarrow> string \<Rightarrow> string list" where
  \<comment> \<open>the elements kept so far, last first\<close>
  "clean_step rooted out e =
     (if e = [] \<or> e = ''.'' then out
      else if e = ''..'' then
        (case out of [] \<Rightarrow> if rooted then [] else [''..'']
         | x # xs \<Rightarrow> if x = ''..'' then ''..'' # out else xs)
      else e # out)"

definition path_Clean :: "string \<Rightarrow> string" where
  "path_Clean p =
     (if p = [] then ''.''
      else let rooted = (hd p = CHR ''/'');
               out = rev (foldl (clean_step rooted) [] (SplitByte p (CHR ''/'')))
           in if rooted then ''/'' @ join_with ''/'' out
              else if out = [] then ''.'' else join_with ''/'' out)"

end
