(* ===== verification/Rules_File.thy ===== *)
theory Rules_File
  imports Storage
begin

text \<open>
  The rule documents of the security components (rate limits, country blocks, bot defence,
  semantic scoring, notifications, bypasses) are kept and served the same way, in code that is
  repeated in every \<open>*_rules.go\<close>: the operations here take what distinguishes a component as
  arguments, \<open>check\<close> (the parser of the handlers) and \<open>load\<close> (the parser of its reload), and the component
  theories instantiate them.  \<open>sync_blob_file\<close> is \<open>config_blob_sync.go\<close>.
\<close>

record 'rt rules_state =
  ru_path :: string
  ru_runtime :: 'rt
  ru_storage :: storage

datatype 'v rules_reply =
    RulesBind goerr                          \<comment> \<open>400\<close>
  | RulesConflict string                     \<comment> \<open>409 with the current entity tag\<close>
  | RulesInvalid goerr                       \<comment> \<open>422\<close>
  | RulesError goerr                         \<comment> \<open>500\<close>
  | RulesRolledBack goerr                    \<comment> \<open>500, the database refused the document\<close>
  | RulesStored string 'v                    \<comment> \<open>200 with the new entity tag\<close>
  | RulesValid 'v
  | RulesDocument string string "'v option"  \<comment> \<open>tag, text, parsed database text or the running rules\<close>

definition reload_rules :: "(string \<Rightarrow> 'rt result) \<Rightarrow> 'rt rules_state \<Rightarrow> unit result \<times> 'rt rules_state" where
  "reload_rules load s =
     (if ru_path s = [] then (err ''path is empty'' [], s)
      else case ReadFile (ru_storage s) of
        (Inl e, st) \<Rightarrow> (Inl e, s\<lparr>ru_storage := st\<rparr>)
      | (Inr raw, st) \<Rightarrow> (case load raw of
            Inl e \<Rightarrow> (Inl e, s\<lparr>ru_storage := st\<rparr>)
          | Inr rt \<Rightarrow> (Inr (), s\<lparr>ru_runtime := rt, ru_storage := st\<rparr>)))"

definition ensure_file :: "string \<Rightarrow> storage \<Rightarrow> unit result \<times> storage" where
  \<comment> \<open>a missing file is created with the default text\<close>
  "ensure_file defaultRaw st =
     (case store_read so_File st of
        (Inl e, st1) \<Rightarrow> (Inl e, st1)
      | (Inr (Some f), st1) \<Rightarrow> (Inr (), st1)
      | (Inr None, st1) \<Rightarrow> store_write (\<lambda>s. s\<lparr>so_File := Some defaultRaw\<rparr>) st1)"

definition file_or_empty :: "storage \<Rightarrow> string \<times> storage" where
  \<comment> \<open>\<open>raw, _ := os.ReadFile(path)\<close>\<close>
  "file_or_empty st = (case ReadFile st of (Inl e, st') \<Rightarrow> ([], st') | (Inr raw, st') \<Rightarrow> (raw, st'))"

definition tag_or_etag :: "string \<Rightarrow> string \<Rightarrow> string" where
  "tag_or_etag tag raw = (if TrimSpace tag = [] then ComputeETag raw else tag)"

definition current_document :: "(string \<Rightarrow> 'v result) \<Rightarrow> storage \<Rightarrow> (string \<times> string) result \<times> storage" where
  \<comment> \<open>the text and the entity tag a write is checked against: the database row when it holds an
      acceptable text, else the file\<close>
  "current_document check st =
     (case file_or_empty st of (raw, st1) \<Rightarrow>
        if \<not> so_Store st1 then (Inr (raw, ComputeETag raw), st1)
        else case GetConfigBlob st1 of
          (Inl e, st2) \<Rightarrow> (Inl e, st2)
        | (Inr None, st2) \<Rightarrow> (Inr (raw, ComputeETag raw), st2)
        | (Inr (Some (b, t)), st2) \<Rightarrow>
            (if isl (check b) then (Inr (raw, ComputeETag raw), st2) else (Inr (b, tag_or_etag t b), st2)))"

definition put_check :: "(string \<Rightarrow> 'v result) \<Rightarrow> string \<Rightarrow> 'rt rules_state \<Rightarrow> ('v rules_reply + string) \<times> 'rt rules_state" where
  \<comment> \<open>the first half of a put: the text to restore on failure, when the \<open>If-Match\<close> header fits\<close>
  "put_check check ifMatch s =
     (case current_document check (ru_storage s) of
        (Inl e, st) \<Rightarrow> (Inl (RulesError e), s\<lparr>ru_storage := st\<rparr>)
      | (Inr (curRaw, curETag), st) \<Rightarrow>
          (if ifMatch \<noteq> [] \<and> ifMatch \<noteq> curETag then (Inl (RulesConflict curETag), s\<lparr>ru_storage := st\<rparr>)
           else (Inr curRaw, s\<lparr>ru_storage := st\<rparr>)))"

definition write_rules :: "string \<Rightarrow> 'rt rules_state \<Rightarrow> unit result \<times> 'rt rules_state" where
  "write_rules raw s = (case AtomicWriteWithBackup raw (ru_storage s) of (r, st) \<Rightarrow> (r, s\<lparr>ru_storage := st\<rparr>))"

definition restore_rules :: "(string \<Rightarrow> 'rt result) \<Rightarrow> string \<Rightarrow> 'rt rules_state \<Rightarrow> 'rt rules_state" where
  \<comment> \<open>\<open>_ = AtomicWriteWithBackup(path, curRaw); _ = Reload()\<close>\<close>
  "restore_rules load curRaw s = snd (reload_rules load (snd (write_rules curRaw s)))"

definition put_commit ::
  "(string \<Rightarrow> 'v result) \<Rightarrow> (string \<Rightarrow> 'rt result) \<Rightarrow> string \<Rightarrow> string result \<Rightarrow> 'rt rules_state
     \<Rightarrow> 'v rules_reply \<times> 'rt rules_state" where
  \<comment> \<open>the second half: the body, its check, the write, the reload, the database row\<close>
  "put_commit check load curRaw body s =
     (case body of
        Inl e \<Rightarrow> (RulesBind e, s)
      | Inr raw \<Rightarrow>
     (case check raw of
        Inl e \<Rightarrow> (RulesInvalid e, s)
      | Inr v \<Rightarrow>
     (case write_rules raw s of
        (Inl e, s1) \<Rightarrow> (RulesError e, s1)
      | (Inr _, s1) \<Rightarrow>
     (case reload_rules load s1 of
        (Inl e, s2) \<Rightarrow> (RulesError e, restore_rules load curRaw s2)
      | (Inr _, s2) \<Rightarrow>
          (if \<not> so_Store (ru_storage s2) then (RulesStored (ComputeETag raw) v, s2)
           else case UpsertConfigBlob raw (ComputeETag raw) (ru_storage s2) of
             (Inl e, st) \<Rightarrow> (RulesRolledBack e, restore_rules load curRaw (s2\<lparr>ru_storage := st\<rparr>))
           | (Inr _, st) \<Rightarrow> (RulesStored (ComputeETag raw) v, s2\<lparr>ru_storage := st\<rparr>))))))"

definition put_rules ::
  "(string \<Rightarrow> 'v result) \<Rightarrow> (string \<Rightarrow> 'rt result) \<Rightarrow> string \<Rightarrow> string result \<Rightarrow> 'rt rules_state
     \<Rightarrow> 'v rules_reply \<times> 'rt rules_state" where
  "put_rules check load ifMatch body s =
     (case put_check check ifMatch s of
        (Inl reply, s1) \<Rightarrow> (reply, s1)
      | (Inr curRaw, s1) \<Rightarrow> put_commit check load curRaw body s1)"

definition get_rules :: "(string \<Rightarrow> 'v result) \<Rightarrow> 'rt rules_state \<Rightarrow> 'v rules_reply \<times> 'rt rules_state" where
  "get_rules check s =
     (case file_or_empty (ru_storage s) of (raw, st1) \<Rightarrow>
        if \<not> so_Store st1 then (RulesDocument (ComputeETag raw) raw None, s\<lparr>ru_storage := st1\<rparr>)
        else case GetConfigBlob st1 of
          (Inl e, st2) \<Rightarrow> (RulesDocument (ComputeETag raw) raw None, s\<lparr>ru_storage := st2\<rparr>)
        | (Inr None, st2) \<Rightarrow>
            (RulesDocument (ComputeETag raw) raw None,
             s\<lparr>ru_storage := (if raw = [] then st2 else snd (UpsertConfigBlob raw (ComputeETag raw) st2))\<rparr>)
        | (Inr (Some (b, t)), st2) \<Rightarrow>
            (case check b of
               Inl e \<Rightarrow> (RulesDocument (ComputeETag raw) raw None, s\<lparr>ru_storage := st2\<rparr>)
             | Inr v \<Rightarrow> (RulesDocument (tag_or_etag t b) b (Some v), s\<lparr>ru_storage := st2\<rparr>)))"

definition validate_rules :: "(string \<Rightarrow> 'v result) \<Rightarrow> string result \<Rightarrow> 'v rules_reply" where
  "validate_rules check body =
     (case body of
        Inl e \<Rightarrow> RulesBind e
      | Inr raw \<Rightarrow> (case check raw of Inl e \<Rightarrow> RulesInvalid e | Inr v \<Rightarrow> RulesValid v))"

definition sync_blob_file ::
  "(string \<Rightarrow> unit result) \<Rightarrow> (string \<Rightarrow> 'rt result) option \<Rightarrow> bool \<Rightarrow> bool \<Rightarrow> 'rt rules_state
     \<Rightarrow> unit result \<times> 'rt rules_state" where
  \<comment> \<open>the validation, the loader of the reload when there is one, \<open>ForceUpsertOnFound\<close> and
      \<open>SkipWriteIfEqual\<close>\<close>
  "sync_blob_file validate load force skip s =
     (if \<not> so_Store (ru_storage s) \<or> TrimSpace (ru_path s) = [] then (Inr (), s)
      else case readFileMaybe (ru_storage s) of
        (Inl e, st) \<Rightarrow> (Inl e, s\<lparr>ru_storage := st\<rparr>)
      | (Inr (fileRaw, hadFile), st0) \<Rightarrow>
     (case GetConfigBlob st0 of
        (Inl e, st) \<Rightarrow> (Inl e, s\<lparr>ru_storage := st\<rparr>)
      | (Inr None, st) \<Rightarrow>
          (if fileRaw = [] then (Inr (), s\<lparr>ru_storage := st\<rparr>)
           else case UpsertConfigBlob fileRaw (ComputeETag fileRaw) st of (r, st') \<Rightarrow> (r, s\<lparr>ru_storage := st'\<rparr>))
      | (Inr (Some (dbRaw, dbETag)), st) \<Rightarrow>
     (case validate dbRaw of
        Inl e \<Rightarrow> (Inl e, s\<lparr>ru_storage := st\<rparr>)
      | Inr _ \<Rightarrow>
          (let changed = (\<not> hadFile \<or> fileRaw \<noteq> dbRaw); s1 = s\<lparr>ru_storage := st\<rparr> in
     (case (if skip \<and> \<not> changed then (Inr (), s1) else write_rules dbRaw s1) of
        (Inl e, s2) \<Rightarrow> (Inl e, s2)
      | (Inr _, s2) \<Rightarrow>
     (case (case load of Some l \<Rightarrow> if changed then reload_rules l s2 else (Inr (), s2) | None \<Rightarrow> (Inr (), s2)) of
        (Inl e, s3) \<Rightarrow> (Inl e, s3)
      | (Inr _, s3) \<Rightarrow>
          (if force \<or> TrimSpace dbETag = []
           then case UpsertConfigBlob dbRaw (tag_or_etag dbETag dbRaw) (ru_storage s3) of
                  (r, st') \<Rightarrow> (r, s3\<lparr>ru_storage := st'\<rparr>)
           else (Inr (), s3))))))))"

subsection \<open>Outcomes of the steps of a put\<close>

definition same_content :: "storage \<Rightarrow> storage \<Rightarrow> bool" where
  "same_content st st' = (so_File st' = so_File st \<and> so_Store st' = so_Store st \<and> so_Blob st' = so_Blob st)"

lemma ReadFile_cases:
  assumes "so_File st = Some f"
  obtains (ok) st0 where "ReadFile st = (Inr f, st0)" "failures st0 = failures st" "same_content st st0"
  | (failed) e st0 where "ReadFile st = (Inl e, st0)" "failures st = Suc (failures st0)" "same_content st st0"
  by (cases rule: store_read_cases [of so_File st])
    (use assms in \<open>auto intro: ok failed simp: ReadFile_def same_content_def\<close>)

lemma reload_cases:
  assumes "ru_path s \<noteq> []" "so_File (ru_storage s) = Some f" "load f = Inr rt"
  obtains (ok) st0 where "reload_rules load s = (Inr (), s\<lparr>ru_runtime := rt, ru_storage := st0\<rparr>)"
      "failures st0 = failures (ru_storage s)" "same_content (ru_storage s) st0"
  | (failed) e st0 where "reload_rules load s = (Inl e, s\<lparr>ru_storage := st0\<rparr>)"
      "failures (ru_storage s) = Suc (failures st0)" "same_content (ru_storage s) st0"
  using assms(2)
  by (cases rule: ReadFile_cases) (use assms in \<open>auto intro: ok failed simp: reload_rules_def\<close>)

lemma write_rules_cases:
  obtains (ok) st0 where "write_rules raw s = (Inr (), s\<lparr>ru_storage := st0\<rparr>)" "failures st0 = failures (ru_storage s)"
      "so_File st0 = Some raw" "so_Store st0 = so_Store (ru_storage s)" "so_Blob st0 = so_Blob (ru_storage s)"
  | (failed) e st0 where "write_rules raw s = (Inl e, s\<lparr>ru_storage := st0\<rparr>)"
      "failures (ru_storage s) = Suc (failures st0)" "same_content (ru_storage s) st0"
  by (cases rule: file_write_cases [of raw "ru_storage s"])
    (auto intro: ok failed simp: write_rules_def same_content_def)

lemma restore_ok:
  assumes "ru_path s \<noteq> []" "failures (ru_storage s) = 0" "load f = Inr rt"
  shows "ru_path (restore_rules load f s) = ru_path s \<and> ru_runtime (restore_rules load f s) = rt
    \<and> so_File (ru_storage (restore_rules load f s)) = Some f
    \<and> so_Store (ru_storage (restore_rules load f s)) = so_Store (ru_storage s)
    \<and> so_Blob (ru_storage (restore_rules load f s)) = so_Blob (ru_storage s)"
proof (cases rule: write_rules_cases [of f s])
  case (ok st0)
  then have onfile: "so_File (ru_storage (s\<lparr>ru_storage := st0\<rparr>)) = Some f" and path: "ru_path (s\<lparr>ru_storage := st0\<rparr>) \<noteq> []"
    using assms(1) by simp_all
  show ?thesis
    by (cases rule: reload_cases [of "s\<lparr>ru_storage := st0\<rparr>" f load rt, OF path onfile assms(3), case_names ok failed])
      (use assms ok in \<open>auto simp: restore_rules_def same_content_def\<close>)
qed (use assms in simp)

text \<open>Memory, file and database hold the same document.\<close>

definition rules_agree :: "(string \<Rightarrow> 'rt result) \<Rightarrow> string \<Rightarrow> 'rt rules_state \<Rightarrow> bool" where
  "rules_agree load f s = (so_File (ru_storage s) = Some f \<and> load f = Inr (ru_runtime s)
     \<and> (so_Store (ru_storage s) \<longrightarrow> so_Blob (ru_storage s) = Some (f, ComputeETag f)))"

lemma put_check_outcome:
  assumes "so_File (ru_storage s) = Some f" "so_Store (ru_storage s) \<longrightarrow> so_Blob (ru_storage s) = Some (f, t)"
    "put_check check tag s = (r, s1)"
  shows "same_content (ru_storage s) (ru_storage s1) \<and> ru_runtime s1 = ru_runtime s \<and> ru_path s1 = ru_path s
    \<and> failures (ru_storage s1) \<le> failures (ru_storage s)
    \<and> (case r of Inl reply \<Rightarrow> (\<forall>t v. reply \<noteq> RulesStored t v)
        | Inr curRaw \<Rightarrow> curRaw = f \<or> failures (ru_storage s1) < failures (ru_storage s))"
proof -
  obtain raw st1 where r: "file_or_empty (ru_storage s) = (raw, st1)" by fastforce
  have one: "same_content (ru_storage s) st1" "failures st1 \<le> failures (ru_storage s)"
    "raw = f \<or> failures st1 < failures (ru_storage s)"
    by (cases rule: ReadFile_cases [OF assms(1), case_names ok failed]; use r in \<open>simp add: file_or_empty_def\<close>)+
  show ?thesis
  proof (cases "so_Store st1")
    case False
    then show ?thesis
      using assms(3) one r by (auto simp: put_check_def current_document_def split: if_splits)
  next
    case True
    then have b: "so_Blob st1 = Some (f, t)" using assms(2) one by (simp add: same_content_def)
    show ?thesis
      by (cases rule: store_read_cases [of so_Blob st1])
        (use assms(3) one r True b in
          \<open>auto simp: put_check_def current_document_def GetConfigBlob_def same_content_def split: if_splits\<close>)
  qed
qed

lemma put_commit_outcome:
  assumes "rules_agree load f s" "ru_path s \<noteq> []" "curRaw = f \<or> failures (ru_storage s) = 0" "failures (ru_storage s) \<le> 1"
    "\<And>r v. check r = Inr v \<Longrightarrow> \<exists>rt. load r = Inr rt" "put_commit check load curRaw body s = (reply, s')"
  shows "case reply of
      RulesStored t v \<Rightarrow> \<exists>raw. body = Inr raw \<and> check raw = Inr v \<and> t = ComputeETag raw \<and> rules_agree load raw s'
    | _ \<Rightarrow> same_content (ru_storage s) (ru_storage s') \<and> ru_runtime s' = ru_runtime s"
proof (cases "\<exists>raw v. body = Inr raw \<and> check raw = Inr v")
  case True
  then obtain raw v where raw: "body = Inr raw" "check raw = Inr v" by blast
  from assms(5) [OF this(2)] obtain rt where rt: "load raw = Inr rt" by blast
  show ?thesis
  proof (cases rule: write_rules_cases [of raw s])
    case (ok st1)
    note w = ok
    let ?s1 = "s\<lparr>ru_storage := st1\<rparr>"
    have onfile: "so_File (ru_storage ?s1) = Some raw" and path: "ru_path ?s1 \<noteq> []" using ok assms(2) by simp_all
    from assms(1) have old: "load f = Inr (ru_runtime s)" by (simp add: rules_agree_def)
    show ?thesis
    proof (cases rule: reload_cases [of ?s1 raw load rt, OF path onfile rt, case_names ok failed])
      case (ok st2)
      let ?s2 = "s\<lparr>ru_runtime := rt, ru_storage := st2\<rparr>"
      show ?thesis
      proof (cases rule: blob_write_cases [of raw raw st2])
        case one: (ok st3)
        then show ?thesis
          using assms(6) raw rt w ok by (auto simp: put_commit_def rules_agree_def same_content_def)
      next
        case (failed e st3)
        have "restore_rules load curRaw (?s2\<lparr>ru_storage := st3\<rparr>) = restore_rules load f (?s2\<lparr>ru_storage := st3\<rparr>)"
          and z: "failures st3 = 0"
          using assms(3,4) failed ok w by auto
        then show ?thesis
          using assms(1,6) raw rt w ok failed restore_ok [of "?s2\<lparr>ru_storage := st3\<rparr>" load f, OF _ _ old] assms(2)
          by (auto simp: put_commit_def rules_agree_def same_content_def)
      qed
    next
      case (failed e st2)
      have "curRaw = f" and z: "failures st2 = 0" using assms(3,4) failed w by auto
      then show ?thesis
        using assms(1,6) raw rt w failed restore_ok [of "s\<lparr>ru_storage := st2\<rparr>" load f, OF _ _ old] assms(2)
        by (auto simp: put_commit_def rules_agree_def same_content_def)
    qed
  qed (use assms(6) raw in \<open>auto simp: put_commit_def\<close>)
qed (use assms(6) in \<open>auto simp: put_commit_def same_content_def split: sum.splits\<close>)


subsection \<open>Two writers, and a reload that failed\<close>

lemma put_commit_faultless:
  assumes "ru_path s \<noteq> []" "so_Faults (ru_storage s) = []" "check raw = Inr v" "load raw = Inr rt"
    "put_commit check load curRaw (Inr raw) s = (reply, s')"
  shows "reply = RulesStored (ComputeETag raw) v \<and> ru_runtime s' = rt \<and> ru_path s' = ru_path s
    \<and> so_File (ru_storage s') = Some raw \<and> so_Faults (ru_storage s') = []
    \<and> so_Store (ru_storage s') = so_Store (ru_storage s)
    \<and> (so_Store (ru_storage s) \<longrightarrow> so_Blob (ru_storage s') = Some (raw, ComputeETag raw))"
  using assms
  by (auto simp: put_commit_def write_rules_def AtomicWriteWithBackup_def store_write_def reload_rules_def ReadFile_def
      store_read_def UpsertConfigBlob_def Let_def split: option.splits if_splits)

lemma put_check_faultless:
  assumes "rules_agree load f s" "so_Faults (ru_storage s) = []"
  shows "put_check check (ComputeETag f) s = (Inr f, s)"
  using assms
  by (auto simp: put_check_def current_document_def file_or_empty_def ReadFile_def store_read_def GetConfigBlob_def
      rules_agree_def tag_or_etag_def)

text \<open>
  Entity tags do not protect concurrent writers of a rule document: the check of the tag and the
  write are not one step, so two writers that hold the same tag can both pass the check, both
  succeed, and the first document is lost.
\<close>

theorem concurrent_puts_lose_an_update:
  assumes "rules_agree load f s" "ru_path s \<noteq> []" "so_Faults (ru_storage s) = []"
    "check raw1 = Inr v1" "load raw1 = Inr rt1" "check raw2 = Inr v2" "load raw2 = Inr rt2"
    "put_check check (ComputeETag f) s = (c1, s1)" "put_check check (ComputeETag f) s1 = (c2, s2)"
    "put_commit check load (projr c1) (Inr raw1) s2 = (reply1, s3)"
    "put_commit check load (projr c2) (Inr raw2) s3 = (reply2, s4)"
  shows "reply1 = RulesStored (ComputeETag raw1) v1 \<and> reply2 = RulesStored (ComputeETag raw2) v2
    \<and> rules_agree load raw2 s4"
proof -
  have c: "c1 = Inr f" "s1 = s" "c2 = Inr f" "s2 = s"
    using assms(8,9) put_check_faultless [OF assms(1,3), of check] by simp_all
  have one: "reply1 = RulesStored (ComputeETag raw1) v1 \<and> ru_path s3 = ru_path s \<and> so_Faults (ru_storage s3) = []
      \<and> so_Store (ru_storage s3) = so_Store (ru_storage s)"
    using put_commit_faultless [of s check raw1 v1 load rt1 "projr c1" reply1 s3] assms(2-5,10) c by simp
  then show ?thesis
    using put_commit_faultless [of s3 check raw2 v2 load rt2 "projr c2" reply2 s4] assms(2,6,7,11)
    by (simp add: rules_agree_def)
qed

text \<open>
  A reload that fails during synchronisation is never repeated: the file already holds the
  database text, so every later synchronisation finds nothing to do and the old rules stay
  in force.
\<close>

theorem sync_forgets_a_failed_reload:
  assumes "so_Store (ru_storage s)" "TrimSpace (ru_path s) \<noteq> []" "so_File (ru_storage s) = Some f" "f \<noteq> b"
    "so_Blob (ru_storage s) = Some (b, t)" "TrimSpace t \<noteq> []" "validate b = Inr ()"
    "so_Faults (ru_storage s) = [None, None, None, Some e]"
    "sync_blob_file validate (Some load) False True s = (r, s1)"
  shows "r = Inl e \<and> ru_runtime s1 = ru_runtime s \<and> so_File (ru_storage s1) = Some b
    \<and> sync_blob_file validate (Some load) False True s1 = (Inr (), s1)"
proof -
  from assms(2) have path: "ru_path s \<noteq> []" by auto
  show ?thesis
    using assms path
    by (auto simp: sync_blob_file_def readFileMaybe_def store_read_def GetConfigBlob_def write_rules_def
        AtomicWriteWithBackup_def store_write_def reload_rules_def ReadFile_def Let_def)
qed

subsection \<open>Concrete runs\<close>

text \<open>Documents that stand for themselves.\<close>

definition text_state :: "(goerr option) list \<Rightarrow> string rules_state" where
  "text_state faults = \<lparr>ru_path = ''rules.json'', ru_runtime = ''old'',
     ru_storage = \<lparr>so_File = Some ''old'', so_Backups = [], so_Store = True,
       so_Blob = Some (''old'', ComputeETag ''old''), so_Faults = faults\<rparr>\<rparr>"

lemma text_state_agrees: "rules_agree Inr ''old'' (text_state faults)"
  by (simp add: rules_agree_def text_state_def)


theorem concurrent_puts_lose_an_update_witness:
  "\<exists>c1 s1 c2 s2 s3 s4.
     put_check Inr (ComputeETag ''old'') (text_state []) = (c1, s1) \<and> put_check Inr (ComputeETag ''old'') s1 = (c2, s2)
     \<and> put_commit Inr Inr (projr c1) (Inr ''a'') s2 = (RulesStored (ComputeETag ''a'') ''a'', s3)
     \<and> put_commit Inr Inr (projr c2) (Inr ''b'') s3 = (RulesStored (ComputeETag ''b'') ''b'', s4)"
proof -
  obtain c1 s1 where 1: "put_check Inr (ComputeETag ''old'') (text_state []) = (c1 :: string rules_reply + string, s1)" by fastforce
  obtain c2 s2 where 2: "put_check Inr (ComputeETag ''old'') s1 = (c2 :: string rules_reply + string, s2)" by fastforce
  obtain reply1 s3 where 3: "put_commit Inr Inr (projr c1) (Inr ''a'') s2 = (reply1 :: string rules_reply, s3)" by fastforce
  obtain reply2 s4 where 4: "put_commit Inr Inr (projr c2) (Inr ''b'') s3 = (reply2 :: string rules_reply, s4)" by fastforce
  have "reply1 = RulesStored (ComputeETag ''a'') ''a'' \<and> reply2 = RulesStored (ComputeETag ''b'') ''b''
    \<and> rules_agree Inr ''b'' s4"
    by (rule concurrent_puts_lose_an_update [OF text_state_agrees _ _ _ _ _ _ 1 2 3 4]) (simp_all add: text_state_def)
  then show ?thesis using 1 2 3 4 by blast
qed

theorem sync_forgets_a_failed_reload_witness:
  "\<exists>e s1. sync_blob_file (\<lambda>r. Inr ()) (Some Inr) False True
       ((text_state [None, None, None, Some (Errorf ''io'' [])])\<lparr>ru_storage := (ru_storage (text_state [None, None, None, Some (Errorf ''io'' [])]))\<lparr>so_Blob := Some (''db'', ''t'')\<rparr>\<rparr>)
       = (Inl e, s1) \<and> ru_runtime s1 = ''old''
     \<and> sync_blob_file (\<lambda>r. Inr ()) (Some Inr) False True s1 = (Inr (), s1)"
proof -
  let ?s = "(text_state [None, None, None, Some (Errorf ''io'' [])])\<lparr>ru_storage := (ru_storage (text_state [None, None, None, Some (Errorf ''io'' [])]))\<lparr>so_Blob := Some (''db'', ''t'')\<rparr>\<rparr>"
  obtain r s1 where run: "sync_blob_file (\<lambda>r. Inr ()) (Some Inr) False True ?s = (r, s1)" by fastforce
  have trim: "TrimSpace ''rules.json'' \<noteq> []" "TrimSpace ''t'' \<noteq> []" by code_simp+
  have "r = Inl (Errorf ''io'' []) \<and> ru_runtime s1 = ru_runtime ?s \<and> so_File (ru_storage s1) = Some ''db''
    \<and> sync_blob_file (\<lambda>r. Inr ()) (Some Inr) False True s1 = (Inr (), s1)"
    by (rule sync_forgets_a_failed_reload [OF _ _ _ _ _ trim(2) _ _ run, where f = "''old''" and b = "''db''"])
      (simp_all add: text_state_def trim)
  then show ?thesis using run by (auto simp: text_state_def)
qed

end
