(* ===== verification/Country_Block.thy ===== *)
theory Country_Block
  imports Go_Text Rules_File
begin

text \<open>
  Country blocking: \<open>country.go\<close>, \<open>country_block_store.go\<close> and the handlers of
  \<open>country_block_rules.go\<close>.  The running state is the sorted list of blocked codes.
\<close>

subsection \<open>Country codes\<close>

definition normalizeCountryCode :: "string \<Rightarrow> string" where
  "normalizeCountryCode raw =
     (let v = TrimSpace (ToUpper raw) in
      if v = [] \<or> v = ''-'' \<or> v = ''N/A'' \<or> v = ''NULL'' then ''UNKNOWN'' else v)"

definition normalizeCountryFilter :: "string \<Rightarrow> string" where
  "normalizeCountryFilter raw =
     (let v = TrimSpace (ToUpper raw) in if v = [] \<or> v = ''ALL'' then [] else normalizeCountryCode v)"

definition normalizeCountryFromAny :: "string option \<Rightarrow> string" where
  \<comment> \<open>a value that is not a string counts as the empty one\<close>
  "normalizeCountryFromAny raw = normalizeCountryCode (case raw of None \<Rightarrow> [] | Some s \<Rightarrow> s)"

definition countryMatchesFilter :: "string option \<Rightarrow> string \<Rightarrow> bool" where
  "countryMatchesFilter raw flt = (flt = [] \<or> normalizeCountryFromAny raw = flt)"

subsection \<open>The block list\<close>

definition before_hash :: "string \<Rightarrow> string" where
  "before_hash line = (case Index line ''#'' of None \<Rightarrow> line | Some i \<Rightarrow> take i line)"

definition country_code :: "nat \<Rightarrow> string \<Rightarrow> string result" where
  "country_code n code =
     (if code = ''UNKNOWN'' then Inr code
      else if length code \<noteq> 2
      then err ''line %d: country code must be ISO-3166 alpha-2 (e.g. JP, US)'' [Itoa (int n)]
      else if \<not> list_all is_upper code then err ''line %d: invalid country code: %s'' [Itoa (int n), code]
      else Inr code)"

definition country_line :: "nat \<Rightarrow> string \<Rightarrow> (string option) result" where
  \<comment> \<open>the code on a line, \<open>None\<close> for a blank one\<close>
  "country_line n raw =
     (let line = TrimSpace (before_hash raw) in
      if line = [] then Inr None
      else case Fields line of
        [part] \<Rightarrow> bindR (country_code n (normalizeCountryCode part)) (\<lambda>code. Inr (Some code))
      | _ \<Rightarrow> err ''line %d: expected one country code per line'' [Itoa (int n)])"

fun country_lines :: "nat \<Rightarrow> string list \<Rightarrow> string list \<Rightarrow> (string list) result" where
  \<comment> \<open>the codes in order of first occurrence; the second list holds those already seen\<close>
  "country_lines n seen [] = Inr (rev seen)"
| "country_lines n seen (l # ls) =
     bindR (country_line n l) (\<lambda>c.
       case c of None \<Rightarrow> country_lines (Suc n) seen ls
       | Some code \<Rightarrow> country_lines (Suc n) (if code \<in> set seen then seen else code # seen) ls)"

definition ParseCountryBlockRaw :: "string \<Rightarrow> (string list) result" where
  "ParseCountryBlockRaw raw =
     (case scan_lines raw of (ls, tooLong) \<Rightarrow>
        bindR (country_lines 1 [] ls) (\<lambda>out.
          if tooLong then err ''bufio.Scanner: token too long'' [] else Inr (sort_by string_less out)))"

definition IsCountryBlocked :: "string list \<Rightarrow> string \<Rightarrow> bool" where
  "IsCountryBlocked codes country = (normalizeCountryCode country \<in> set codes)"

definition GetBlockedCountries :: "string list \<Rightarrow> string list" where
  "GetBlockedCountries codes = sort_by string_less codes"

definition ReloadCountryBlock :: "string list rules_state \<Rightarrow> unit result \<times> string list rules_state" where
  "ReloadCountryBlock s = reload_rules ParseCountryBlockRaw s"

definition ensureCountryBlockFile :: "storage \<Rightarrow> unit result \<times> storage" where
  "ensureCountryBlockFile st = ensure_file (''# one country code per line (JP, US, UNKNOWN)'' @ [newline]) st"

definition InitCountryBlock :: "string \<Rightarrow> string list rules_state \<Rightarrow> unit result \<times> string list rules_state" where
  "InitCountryBlock path s =
     (let target = TrimSpace path in
      if target = [] then (err ''country block path is empty'' [], s)
      else case ensureCountryBlockFile (ru_storage s) of
        (Inl e, st) \<Rightarrow> (Inl e, s\<lparr>ru_storage := st\<rparr>)
      | (Inr _, st) \<Rightarrow> ReloadCountryBlock (s\<lparr>ru_path := target, ru_storage := st\<rparr>))"

subsection \<open>Handlers\<close>

definition GetCountryBlockRules :: "string list rules_state \<Rightarrow> string list rules_reply \<times> string list rules_state" where
  "GetCountryBlockRules s = get_rules ParseCountryBlockRaw s"

definition ValidateCountryBlockRules :: "string result \<Rightarrow> string list rules_reply" where
  "ValidateCountryBlockRules body = validate_rules ParseCountryBlockRaw body"

definition PutCountryBlockRules ::
  "string \<Rightarrow> string result \<Rightarrow> string list rules_state \<Rightarrow> string list rules_reply \<times> string list rules_state" where
  "PutCountryBlockRules ifMatch body s = put_rules ParseCountryBlockRaw ParseCountryBlockRaw ifMatch body s"

definition SyncCountryBlockStorage :: "string list rules_state \<Rightarrow> unit result \<times> string list rules_state" where
  "SyncCountryBlockStorage s =
     sync_blob_file (\<lambda>raw. bindR (ParseCountryBlockRaw raw) (\<lambda>_. Inr ())) (Some ParseCountryBlockRaw) False True s"

subsection \<open>What is blocked\<close>

definition code_ok :: "string \<Rightarrow> bool" where
  "code_ok c = (c = ''UNKNOWN'' \<or> length c = 2 \<and> list_all is_upper c)"

lemma country_code_Inr: "country_code n code = Inr c \<longleftrightarrow> c = code \<and> code_ok code"
  unfolding country_code_def code_ok_def by (simp split: if_split) blast

lemma country_line_Inr:
  "country_line n raw = Inr r \<longleftrightarrow>
     (if TrimSpace (before_hash raw) = [] then r = None
      else \<exists>part. Fields (TrimSpace (before_hash raw)) = [part] \<and> code_ok (normalizeCountryCode part)
             \<and> r = Some (normalizeCountryCode part))"
proof (cases "TrimSpace (before_hash raw) = []")
  case False
  show ?thesis
  proof (cases "\<exists>part. Fields (TrimSpace (before_hash raw)) = [part]")
    case True
    then obtain part where "Fields (TrimSpace (before_hash raw)) = [part]" by blast
    with False show ?thesis
      using country_code_Inr [of n "normalizeCountryCode part" "normalizeCountryCode part"]
      by (auto simp: country_line_def bindR_Inr country_code_Inr)
  next
    case one: False
    then have "country_line n raw = err ''line %d: expected one country code per line'' [Itoa (int n)]"
      using False by (cases "Fields (TrimSpace (before_hash raw))"; cases "tl (Fields (TrimSpace (before_hash raw)))")
        (simp_all add: country_line_def)
    with one False show ?thesis by simp
  qed
qed (auto simp: country_line_def)

lemma country_line_any: "country_line n l = Inr c \<Longrightarrow> country_line k l = Inr c"
  unfolding country_line_Inr .

lemma country_lines_Cons:
  "country_lines n seen (l # ls) = Inr out \<longleftrightarrow>
     (\<exists>c. country_line 0 l = Inr c \<and>
        country_lines (Suc n) (case c of None \<Rightarrow> seen | Some code \<Rightarrow> if code \<in> set seen then seen else code # seen) ls = Inr out)"
proof -
  have eq: "country_line n l = Inr c \<longleftrightarrow> country_line 0 l = Inr c" for c
    by (blast intro: country_line_any)
  show ?thesis by (simp add: bindR_Inr eq) (auto split: option.splits)
qed

lemma country_lines_set:
  "country_lines n seen ls = Inr out \<Longrightarrow>
     set out = set seen \<union> {c. \<exists>l\<in>set ls. country_line 0 l = Inr (Some c)} \<and> (distinct seen \<longrightarrow> distinct out)
     \<and> (\<forall>l\<in>set ls. \<exists>c. country_line 0 l = Inr c)"
proof (induction ls arbitrary: n seen)
  case (Cons l ls)
  then obtain c where c: "country_line 0 l = Inr c"
    and rest: "country_lines (Suc n) (case c of None \<Rightarrow> seen | Some code \<Rightarrow> if code \<in> set seen then seen else code # seen) ls = Inr out"
    unfolding country_lines_Cons by blast
  from Cons.IH [OF rest] c show ?case by (auto split: option.splits if_splits)
qed auto

text \<open>
  A request is blocked exactly when some line of the accepted list names its country, up to
  letter case and white space, a missing country counting as \<open>UNKNOWN\<close>; the list holds each
  code once, and only \<open>UNKNOWN\<close> and two-letter codes.
\<close>

theorem country_blocked_iff_listed:
  assumes "ParseCountryBlockRaw raw = Inr codes"
  shows "(IsCountryBlocked codes country \<longleftrightarrow>
      (\<exists>l\<in>set (fst (scan_lines raw)). \<exists>part. TrimSpace (before_hash l) \<noteq> []
         \<and> Fields (TrimSpace (before_hash l)) = [part] \<and> normalizeCountryCode part = normalizeCountryCode country))
    \<and> distinct codes \<and> (\<forall>c\<in>set codes. c = ''UNKNOWN'' \<or> length c = 2 \<and> list_all is_upper c)"
proof -
  obtain ls t where sl: "scan_lines raw = (ls, t)" by fastforce
  from assms sl obtain out where out: "country_lines 1 [] ls = Inr out" "codes = sort_by string_less out"
    by (auto simp: ParseCountryBlockRaw_def bindR_Inr split: if_splits)
  from country_lines_set [OF out(1)]
  have codes: "set codes = {c. \<exists>l\<in>set ls. country_line 0 l = Inr (Some c)}" "distinct codes"
    and ok: "\<forall>l\<in>set ls. \<exists>c. country_line 0 l = Inr c"
    by (simp_all add: out(2) set_sort_by distinct_sort_by)
  have each: "(\<exists>part. TrimSpace (before_hash l) \<noteq> [] \<and> Fields (TrimSpace (before_hash l)) = [part] \<and> normalizeCountryCode part = c)
      \<longleftrightarrow> country_line 0 l = Inr (Some c)" if "l \<in> set ls" for l c
    using ok that unfolding country_line_Inr by (auto split: if_splits)
  have "\<forall>c\<in>set codes. code_ok c" unfolding codes country_line_Inr by (auto split: if_splits)
  then show ?thesis
    using codes each by (auto simp: sl IsCountryBlocked_def code_ok_def)
qed

definition demo_list :: string where
  "demo_list = ''jp # Japan'' @ [newline] @ ''unknown''"

theorem country_blocked_iff_listed_witness:
  "\<exists>codes. ParseCountryBlockRaw demo_list = Inr codes
     \<and> IsCountryBlocked codes '' JP'' \<and> IsCountryBlocked codes [] \<and> \<not> IsCountryBlocked codes ''US''"
proof -
  have "case ParseCountryBlockRaw demo_list of Inl e \<Rightarrow> False
      | Inr codes \<Rightarrow> codes = [''JP'', ''UNKNOWN'']"
    by code_simp
  then have run: "ParseCountryBlockRaw demo_list = Inr [''JP'', ''UNKNOWN'']"
    by (auto split: sum.splits)
  have f: "fst (scan_lines demo_list) = [''jp # Japan'', ''unknown'']"
    "TrimSpace (before_hash ''jp # Japan'') = ''jp''" "TrimSpace (before_hash ''unknown'') = ''unknown''"
    "Fields ''jp'' = [''jp'']" "Fields ''unknown'' = [''unknown'']"
    "normalizeCountryCode ''jp'' = ''JP''" "normalizeCountryCode ''unknown'' = ''UNKNOWN''"
    "normalizeCountryCode '' JP'' = ''JP''" "normalizeCountryCode [] = ''UNKNOWN''" "normalizeCountryCode ''US'' = ''US''"
    by code_simp+
  show ?thesis
    using country_blocked_iff_listed [OF run, of "'' JP''"] country_blocked_iff_listed [OF run, of "[]"]
      country_blocked_iff_listed [OF run, of "''US''"] run
    by (simp add: f)
qed

end
