(* ===== verification/Bypass_Rules.thy ===== *)
theory Bypass_Rules
  imports Country_Block Go_Http
begin

text \<open>
  Paths that skip the web application firewall or get an extra rule file:
  \<open>bypassconf\<close> (normalisation, matching, the parser), the handlers of \<open>bypass_rules.go\<close> and
  \<open>selectWAFEngine\<close> of \<open>proxy.go\<close>.  Whether an extra rule file exists is asked of the outside
  world.
\<close>

record bypass_Entry =
  be_Path :: string
  be_ExtraRule :: string

datatype MatchResult = ACTION_NONE | ACTION_BYPASS | ACTION_RULE string

datatype stat_result = Exists | NotExist | StatError

subsection \<open>Normalisation and matching\<close>

definition PathUnescape :: "string \<Rightarrow> string result" where
  "PathUnescape p = unescape p encodePath"

definition bypass_normalize :: "string \<Rightarrow> string" where
  "bypass_normalize p =
     (if p = [] then ''/''
      else let p1 = (case PathUnescape p of Inr u \<Rightarrow> u | Inl _ \<Rightarrow> p);
               p2 = (if HasPrefix p1 ''/'' then p1 else ''/'' @ p1);
               clean = path_Clean p2
           in if HasSuffix p2 ''/'' \<and> clean \<noteq> ''/'' then clean @ ''/'' else clean)"

definition strip_slash :: "string \<Rightarrow> string" where
  "strip_slash s = (if s = ''/'' then s else TrimSuffix s ''/'')"

definition eqLoosely :: "string \<Rightarrow> string \<Rightarrow> bool" where
  "eqLoosely a b = (strip_slash a = strip_slash b)"

definition pathMatches :: "string \<Rightarrow> string \<Rightarrow> bool" where
  "pathMatches reqPath rulePath =
     (let n = bypass_normalize rulePath in
      eqLoosely reqPath n \<or> (HasSuffix n ''/'' \<and> HasPrefix reqPath n))"

fun match_entries :: "string \<Rightarrow> bool \<Rightarrow> bypass_Entry list \<Rightarrow> MatchResult" where
  "match_entries p bypassHit [] = (if bypassHit then ACTION_BYPASS else ACTION_NONE)"
| "match_entries p bypassHit (e # es) =
     (if \<not> pathMatches p (be_Path e) then match_entries p bypassHit es
      else if be_ExtraRule e \<noteq> [] then ACTION_RULE (be_ExtraRule e)
      else match_entries p True es)"

definition bypass_Match :: "bypass_Entry list \<Rightarrow> string \<Rightarrow> MatchResult" where
  "bypass_Match entries reqPath = match_entries (bypass_normalize reqPath) False entries"

definition selectWAFEngine :: "'w option \<Rightarrow> (string \<Rightarrow> 'w result) \<Rightarrow> bypass_Entry list \<Rightarrow> string \<Rightarrow> 'w option" where
  \<comment> \<open>the base engine, the engine of an extra rule file, the entries, the path; \<open>None\<close> skips the firewall\<close>
  "selectWAFEngine base extra entries reqPath =
     (case bypass_Match entries reqPath of
        ACTION_BYPASS \<Rightarrow> None
      | ACTION_RULE f \<Rightarrow> (case extra f of Inl e \<Rightarrow> base | Inr w \<Rightarrow> Some w)
      | ACTION_NONE \<Rightarrow> base)"

subsection \<open>The file\<close>

definition bypass_line :: "nat \<Rightarrow> string \<Rightarrow> (bypass_Entry option) result" where
  "bypass_line n raw =
     (let line = TrimSpace (before_hash raw) in
      if line = [] then Inr None
      else let parts = Fields line in
        if parts = [] then Inr None
        else if 2 < length parts then err (''line %d: expected '<path>' or '<path> <rule.conf>'' @ [CHR 0x27]) [Itoa (int n)]
        else if \<not> HasPrefix (hd parts) ''/'' then err (''line %d: path must start with '/'' @ [CHR 0x27]) [Itoa (int n)]
        else if length parts = 2
        then (let rule = TrimSpace (parts ! 1) in
              if \<not> HasSuffix (ToLower rule) ''.conf'' then err ''line %d: extra rule must be .conf file'' [Itoa (int n)]
              else Inr (Some \<lparr>be_Path = bypass_normalize (hd parts), be_ExtraRule = rule\<rparr>))
        else Inr (Some \<lparr>be_Path = bypass_normalize (hd parts), be_ExtraRule = []\<rparr>))"

fun bypass_lines :: "nat \<Rightarrow> string list \<Rightarrow> (bypass_Entry list) result" where
  "bypass_lines n [] = Inr []"
| "bypass_lines n (l # ls) = bindR (bypass_line n l) (\<lambda>e. bindR (bypass_lines (Suc n) ls) (\<lambda>es.
     Inr (case e of None \<Rightarrow> es | Some x \<Rightarrow> x # es)))"

definition bypass_Parse :: "string \<Rightarrow> (bypass_Entry list) result" where
  "bypass_Parse s =
     (case scan_lines s of (ls, tooLong) \<Rightarrow>
        bindR (bypass_lines 1 ls) (\<lambda>es. if tooLong then err ''bufio.Scanner: token too long'' [] else Inr es))"

definition validateRaw :: "(string \<Rightarrow> stat_result) \<Rightarrow> bool \<Rightarrow> string \<Rightarrow> nat result" where
  \<comment> \<open>the file system, \<open>config.StrictOverride\<close> and the text\<close>
  "validateRaw stat strict s =
     bindR (bypass_Parse s) (\<lambda>es.
     bindR (eachR (\<lambda>e. if be_ExtraRule e = [] then Inr ()
                      else case stat (be_ExtraRule e) of
                        Exists \<Rightarrow> Inr ()
                      | NotExist \<Rightarrow> guardR strict (Errorf ''extra rule not found: %s'' [be_ExtraRule e])
                      | StatError \<Rightarrow> err ''extra rule not found: %s'' [be_ExtraRule e]) es) (\<lambda>_.
       Inr (length es)))"

definition bypass_reload :: "bypass_Entry list rules_state \<Rightarrow> unit result \<times> bypass_Entry list rules_state" where
  "bypass_reload s = reload_rules bypass_Parse s"

subsection \<open>Handlers\<close>

definition GetBypassRules ::
  "(string \<Rightarrow> stat_result) \<Rightarrow> bool \<Rightarrow> bypass_Entry list rules_state \<Rightarrow> nat rules_reply \<times> bypass_Entry list rules_state" where
  "GetBypassRules stat strict s = get_rules (validateRaw stat strict) s"

definition ValidateBypassRules :: "(string \<Rightarrow> stat_result) \<Rightarrow> bool \<Rightarrow> string result \<Rightarrow> nat rules_reply" where
  "ValidateBypassRules stat strict body = validate_rules (validateRaw stat strict) body"

definition PutBypassRules ::
  "(string \<Rightarrow> stat_result) \<Rightarrow> bool \<Rightarrow> string \<Rightarrow> string result \<Rightarrow> bypass_Entry list rules_state
     \<Rightarrow> nat rules_reply \<times> bypass_Entry list rules_state" where
  "PutBypassRules stat strict ifMatch body s = put_rules (validateRaw stat strict) bypass_Parse ifMatch body s"

definition SyncBypassStorage ::
  "(string \<Rightarrow> stat_result) \<Rightarrow> bool \<Rightarrow> bypass_Entry list rules_state \<Rightarrow> unit result \<times> bypass_Entry list rules_state" where
  "SyncBypassStorage stat strict s =
     sync_blob_file (\<lambda>raw. bindR (validateRaw stat strict raw) (\<lambda>_. Inr ())) (Some bypass_Parse) False True s"

subsection \<open>What is bypassed\<close>

lemma match_entries_iff:
  "match_entries p hit es =
     (case find (\<lambda>e. pathMatches p (be_Path e) \<and> be_ExtraRule e \<noteq> []) es of
        Some e \<Rightarrow> ACTION_RULE (be_ExtraRule e)
      | None \<Rightarrow> if hit \<or> list_ex (\<lambda>e. pathMatches p (be_Path e)) es then ACTION_BYPASS else ACTION_NONE)"
  by (induction es arbitrary: hit) (auto split: option.split)

text \<open>
  C14: The first matching entry with an extra rule file decides, wherever it stands among the
  others; a path skips the firewall exactly when some entry matches it and no matching entry
  names an extra rule file.
\<close>

theorem extra_rule_beats_bypass:
  "bypass_Match es p =
     (case find (\<lambda>e. pathMatches (bypass_normalize p) (be_Path e) \<and> be_ExtraRule e \<noteq> []) es of
        Some e \<Rightarrow> ACTION_RULE (be_ExtraRule e)
      | None \<Rightarrow> if list_ex (\<lambda>e. pathMatches (bypass_normalize p) (be_Path e)) es then ACTION_BYPASS else ACTION_NONE)"
  by (simp add: bypass_Match_def match_entries_iff)

text \<open>
  A doubly encoded path skips the firewall without lying under a bypassed directory.  The
  request path is decoded once by the server and once more by the matcher, so with the single
  entry \<open>/static/\<close> the request \<open>/admin%252f..%252fstatic/x\<close> is bypassed, while the upstream
  gets that path, whose first element is not \<open>static\<close>.
\<close>

theorem doubly_encoded_path_skips_the_firewall:
  "case NewRequest ''http://h/admin%252f..%252fstatic/x'' of
     Inl e \<Rightarrow> False
   | Inr r \<Rightarrow> url_Path (rq_URL r) = ''/admin%2f..%2fstatic/x''
       \<and> path_Clean (url_Path (rq_URL r)) = url_Path (rq_URL r)
       \<and> EscapedPath (rq_URL r) = ''/admin%252f..%252fstatic/x''
       \<and> selectWAFEngine (Some ()) (\<lambda>f. Inr ()) [\<lparr>be_Path = ''/static/'', be_ExtraRule = []\<rparr>] (url_Path (rq_URL r)) = None"
  by code_simp

end
