(* ===== verification/Go_Netip.thy ===== *)
theory Go_Netip
  imports Go_Text Go_Sha256 "HOL-Library.Word"
begin

unbundle bit_operations_syntax

text \<open>
  The parts of \<open>net/netip\<close> the allow lists use: parsing addresses and prefixes, printing
  prefixes, and membership of an address in a prefix.  An IPv6 address is its 128 bits and
  its zone; an IPv4-mapped one stays an IPv6 address.
\<close>

datatype Addr = IPv4 "32 word" | IPv6 "128 word" string

record Prefix =
  pfx_Addr :: Addr
  pfx_Bits :: nat

subsection \<open>Addresses\<close>

definition octet_of :: "string \<Rightarrow> int option" where
  \<comment> \<open>one to three digits without a leading zero, at most 255\<close>
  "octet_of f = (if f \<noteq> [] \<and> list_all is_digit f \<and> (f = ''0'' \<or> hd f \<noteq> CHR ''0'') \<and> length f \<le> 3
                    \<and> digits_val f \<le> 255
                 then Some (int (digits_val f)) else None)"

definition parseIPv4 :: "string \<Rightarrow> int option" where
  "parseIPv4 s = (case map octet_of (SplitByte s (CHR ''.'')) of
       [Some a, Some b, Some c, Some d] \<Rightarrow> Some (((a * 256 + b) * 256 + c) * 256 + d)
     | _ \<Rightarrow> None)"

definition hex_val :: "string \<Rightarrow> int" where
  "hex_val s = foldl (\<lambda>a c. 16 * a + int (unhex c)) 0 s"

fun v6_groups :: "nat \<Rightarrow> int list \<Rightarrow> nat option \<Rightarrow> string \<Rightarrow> (int list \<times> nat option \<times> string) option" where
  \<comment> \<open>at most so many more 16-bit groups; the groups read, the place of the ellipsis, the rest\<close>
  "v6_groups 0 gs el s = Some (gs, el, s)"
| "v6_groups (Suc n) gs el s =
     (let h = takeWhile ishex s; t = dropWhile ishex s in
      if h = [] \<or> 4 < length h then None
      else if t \<noteq> [] \<and> hd t = CHR ''.'' then
        (if el = None \<and> length gs \<noteq> 6 then None
         else if 6 < length gs then None
         else case parseIPv4 s of None \<Rightarrow> None
            | Some v \<Rightarrow> Some (gs @ [v div 65536, v mod 65536], el, []))
      else let gs' = gs @ [hex_val h] in
        if t = [] then Some (gs', el, [])
        else if hd t \<noteq> CHR '':'' \<or> tl t = [] then None
        else if hd (tl t) = CHR '':'' then
          (if el \<noteq> None then None
           else if tl (tl t) = [] then Some (gs', Some (length gs'), [])
           else v6_groups n gs' (Some (length gs')) (tl (tl t)))
        else v6_groups n gs' el (tl t))"

definition v6_val :: "int list \<Rightarrow> int" where
  "v6_val gs = foldl (\<lambda>a g. 65536 * a + g) 0 gs"

definition parseIPv6 :: "string \<Rightarrow> Addr option" where
  "parseIPv6 inp =
     (let (s, zone, ok) = (case IndexByte inp (CHR ''%'') of
            None \<Rightarrow> (inp, [], True)
          | Some i \<Rightarrow> (take i inp, drop (Suc i) inp, drop (Suc i) inp \<noteq> []));
          el = (if HasPrefix s ''::'' then Some 0 else None);
          s' = (if HasPrefix s ''::'' then drop 2 s else s)
      in if \<not> ok then None
         else if el \<noteq> None \<and> s' = [] then Some (IPv6 0 zone)
         else case v6_groups 8 [] el s' of
           None \<Rightarrow> None
         | Some (gs, el', rest) \<Rightarrow>
             (if rest \<noteq> [] then None
              else if length gs < 8 then
                (case el' of None \<Rightarrow> None
                 | Some k \<Rightarrow> Some (IPv6 (of_int (v6_val (take k gs @ replicate (8 - length gs) 0 @ drop k gs))) zone))
              else if el' \<noteq> None then None
              else Some (IPv6 (of_int (v6_val gs)) zone)))"

fun addr_kind :: "string \<Rightarrow> char option" where
  "addr_kind [] = None"
| "addr_kind (c # s) = (if c \<in> set ''.:%'' then Some c else addr_kind s)"

definition ParseAddr :: "string \<Rightarrow> Addr result" where
  "ParseAddr s = (case (case addr_kind s of
        Some c \<Rightarrow> if c = CHR ''.'' then map_option (\<lambda>v. IPv4 (of_int v)) (parseIPv4 s)
                 else if c = CHR '':'' then parseIPv6 s else None
      | None \<Rightarrow> None) of
       None \<Rightarrow> err ''ParseAddr(%q)'' [s] | Some a \<Rightarrow> Inr a)"

definition Is6 :: "Addr \<Rightarrow> bool" where
  "Is6 a = (case a of IPv4 v \<Rightarrow> False | IPv6 v z \<Rightarrow> True)"

definition withoutZone :: "Addr \<Rightarrow> Addr" where
  "withoutZone a = (case a of IPv4 v \<Rightarrow> IPv4 v | IPv6 v z \<Rightarrow> IPv6 v [])"

definition PrefixFrom :: "Addr \<Rightarrow> nat \<Rightarrow> Prefix" where
  "PrefixFrom a bits = \<lparr>pfx_Addr = withoutZone a, pfx_Bits = bits\<rparr>"

definition ParsePrefix :: "string \<Rightarrow> Prefix result" where
  "ParsePrefix s =
     (case LastIndexByte s (CHR ''/'') of
        None \<Rightarrow> err ''netip.ParsePrefix(%q): no /'' [s]
      | Some i \<Rightarrow>
          bindR (ParseAddr (take i s)) (\<lambda>ip.
            let bitsStr = drop (Suc i) s; maxBits = (if Is6 ip then 128 else 32) in
            if withoutZone ip \<noteq> ip then err ''netip.ParsePrefix(%q): IPv6 zones cannot be present in a prefix'' [s]
            else if 1 < length bitsStr \<and> \<not> (is_digit (hd bitsStr) \<and> hd bitsStr \<noteq> CHR ''0'')
            then err ''netip.ParsePrefix(%q): bad bits after slash'' [s]
            else case Atoi bitsStr of
              None \<Rightarrow> err ''netip.ParsePrefix(%q): bad bits after slash'' [s]
            | Some bits \<Rightarrow> if bits < 0 \<or> maxBits < bits then err ''netip.ParsePrefix(%q): prefix length out of range'' [s]
                          else Inr (PrefixFrom ip (nat bits))))"

definition Prefix_Contains :: "Prefix \<Rightarrow> Addr \<Rightarrow> bool" where
  "Prefix_Contains p a =
     (case (pfx_Addr p, a) of
        (IPv4 v, IPv4 w) \<Rightarrow> drop_bit (32 - pfx_Bits p) (v XOR w) = 0
      | (IPv6 v z, IPv6 w z') \<Rightarrow> z' = [] \<and> drop_bit (128 - pfx_Bits p) (v XOR w) = 0
      | _ \<Rightarrow> False)"

subsection \<open>Printing\<close>

fun hex_digits :: "nat \<Rightarrow> nat \<Rightarrow> string" where
  \<comment> \<open>lower case, without leading zeros; the first argument bounds the number of digits\<close>
  "hex_digits 0 n = []"
| "hex_digits (Suc k) n = (if n < 16 then [hex_digit (int n)] else hex_digits k (n div 16) @ [hex_digit (int (n mod 16))])"

definition v4_String :: "32 word \<Rightarrow> string" where
  "v4_String v = (let n = uint v in
     join_with ''.'' (map Itoa [n div 16777216, n div 65536 mod 256, n div 256 mod 256, n mod 256]))"

definition v6_words :: "128 word \<Rightarrow> int list" where
  "v6_words v = map (\<lambda>i. uint v div 2 ^ (16 * (7 - i)) mod 65536) [0..<8]"

fun zero_run :: "int list \<Rightarrow> nat" where
  "zero_run [] = 0"
| "zero_run (g # gs) = (if g = 0 then Suc (zero_run gs) else 0)"

definition longest_zeros :: "int list \<Rightarrow> nat \<times> nat" where
  \<comment> \<open>start and length of the first longest run of two zero words or more; length 0 when none\<close>
  "longest_zeros gs = foldl (\<lambda>(st, ln) i. let l = zero_run (drop i gs) in
     if 2 \<le> l \<and> ln < l then (i, l) else (st, ln)) (0, 0) [0..<length gs]"

definition v6_String :: "128 word \<Rightarrow> string" where
  "v6_String v =
     (let gs = v6_words v; show = (\<lambda>g. hex_digits 4 (nat g)); (st, ln) = longest_zeros gs in
      if ln = 0 then join_with '':'' (map show gs)
      else join_with '':'' (map show (take st gs)) @ ''::'' @ join_with '':'' (map show (drop (st + ln) gs)))"

definition Addr_String :: "Addr \<Rightarrow> string" where
  "Addr_String a = (case a of
       IPv4 v \<Rightarrow> v4_String v
     | IPv6 v z \<Rightarrow>
         (let base = (if drop_bit 32 v = 0xFFFF then ''::ffff:'' @ v4_String (ucast v) else v6_String v)
          in if z = [] then base else base @ ''%'' @ z))"

definition Prefix_String :: "Prefix \<Rightarrow> string" where
  "Prefix_String p = Addr_String (pfx_Addr p) @ ''/'' @ Itoa (int (pfx_Bits p))"

subsection \<open>Membership\<close>

lemma xor_eq_0: "v XOR w = 0 \<longleftrightarrow> v = (w :: 'a :: len word)"
proof
  assume "v XOR w = 0"
  then have "(v XOR w) XOR w = w" by simp
  then show "v = w" by (simp add: xor.assoc)
qed simp

lemma uint_drop_bit: "uint (drop_bit n w) = uint w div 2 ^ n" for w :: "'a :: len word"
  unfolding unsigned_drop_bit_eq by (simp add: drop_bit_eq_div take_bit_int_eq_self)

lemma contains_v4:
  "Prefix_Contains \<lparr>pfx_Addr = IPv4 v, pfx_Bits = b\<rparr> (IPv4 w) \<longleftrightarrow> uint v div 2 ^ (32 - b) = uint w div 2 ^ (32 - b)"
proof -
  have "drop_bit n v = drop_bit n w \<longleftrightarrow> uint v div 2 ^ n = uint w div 2 ^ n" for n
    by (metis uint_drop_bit word_uint_eqI)
  then show ?thesis by (simp add: Prefix_Contains_def xor_eq_0)
qed

lemma contains_self: "Prefix_Contains (PrefixFrom a n) (withoutZone a)"
  by (cases a) (simp_all add: PrefixFrom_def withoutZone_def Prefix_Contains_def)

end
