(* ===== verification/Rate_Limit.thy ===== *)
theory Rate_Limit
  imports Rate_Identity Country_Block Go_Netip
begin

text \<open>
  The request rate limiter: \<open>rate_limit_store.go\<close> and the handlers of
  \<open>rate_limit_rules.go\<close>.  Decoding the document with \<open>encoding/json\<close> (unknown fields
  refused) is the parameter \<open>decode\<close>, compiling an expression with \<open>regexp\<close> the parameter
  \<open>compile\<close>, which gives the matcher of a valid one.  A \<open>map[string]struct{}\<close> is the list of
  its keys.
\<close>

record rateLimitRule =
  rr_Name :: string
  rr_MatchType :: string
  rr_MatchValue :: string
  rr_Methods :: "string list"
  rr_Policy :: rateLimitPolicy

record rateLimitConfig =
  rc_Enabled :: bool
  rc_AllowlistIPs :: "string list"
  rc_AllowlistCountries :: "string list"
  rc_DefaultPolicy :: rateLimitPolicy
  rc_Rules :: "rateLimitRule list"
  rc_Identity :: rateLimitIdentityConfig

record compiledRateLimitRule =
  cr_Raw :: rateLimitRule
  cr_Policy :: rateLimitPolicy
  cr_Methods :: "string list"
  cr_Regex :: "(string \<Rightarrow> bool) option"
  cr_PolicyID :: string

record runtimeRateLimitConfig =
  rt_Raw :: rateLimitConfig
  rt_AllowlistPrefixes :: "Prefix list"
  rt_AllowCountries :: "string list"
  rt_Rules :: "compiledRateLimitRule list"
  rt_DefaultPolicy :: rateLimitPolicy

record rateCounter =
  rn_WindowID :: int
  rn_Count :: int
  rn_Updated :: int

record rateLimitDecision =
  rd_Allowed :: bool
  rd_Status :: int
  rd_RetryAfterSeconds :: int
  rd_PolicyID :: string
  rd_Key :: string
  rd_Limit :: int
  rd_BaseLimit :: int
  rd_WindowSeconds :: int
  rd_KeyBy :: string
  rd_Adaptive :: bool
  rd_RiskScore :: int

record rateLimitStats =
  rx_Requests :: "64 word"
  rx_Allowed :: "64 word"
  rx_Blocked :: "64 word"
  rx_AdaptiveDecisions :: "64 word"

text \<open>The running rules with their counters, which a reload replaces together.\<close>

record limiter =
  lm_Runtime :: "runtimeRateLimitConfig option"
  lm_Counters :: "(string \<times> rateCounter) list"
  lm_Sweep :: int

subsection \<open>The document\<close>

definition rateLimitKeys :: "string list" where
  "rateLimitKeys = [''ip'', ''country'', ''ip_country'', ''session'', ''ip_session'', ''jwt_sub'', ''ip_jwt_sub'']"

definition normalizeRateLimitPolicy :: "rateLimitPolicy \<Rightarrow> string \<Rightarrow> rateLimitPolicy result" where
  "normalizeRateLimitPolicy p0 field =
     (let p = (if ra_Status (rp_Action p0) = 0 then p0\<lparr>rp_Action := (rp_Action p0)\<lparr>ra_Status := 429\<rparr>\<rparr> else p0);
          kb = ToLower (TrimSpace (rp_KeyBy p));
          q = p\<lparr>rp_KeyBy := (if kb = [] then ''ip'' else kb)\<rparr>
      in bindR (guardR (ra_Status (rp_Action p) < 400 \<or> 599 < ra_Status (rp_Action p))
                  (Errorf ''%s.action.status must be 400-599'' [field])) (\<lambda>_.
         bindR (guardR (ra_RetryAfterSeconds (rp_Action p) < 0)
                  (Errorf ''%s.action.retry_after_seconds must be >= 0'' [field])) (\<lambda>_.
         bindR (guardR (rp_Burst p < 0) (Errorf ''%s.burst must be >= 0'' [field])) (\<lambda>_.
         bindR (guardR (rp_KeyBy q \<notin> set rateLimitKeys)
                  (Errorf ''%s.key_by must be ip|country|ip_country|session|ip_session|jwt_sub|ip_jwt_sub'' [field])) (\<lambda>_.
         bindR (guardR (rp_Enabled q \<and> rp_Limit q \<le> 0) (Errorf ''%s.limit must be > 0 when enabled'' [field])) (\<lambda>_.
         bindR (guardR (rp_Enabled q \<and> rp_WindowSeconds q \<le> 0) (Errorf ''%s.window_seconds must be > 0 when enabled'' [field])) (\<lambda>_.
           Inr q)))))))"

definition zero_policy :: rateLimitPolicy where
  "zero_policy = \<lparr>rp_Enabled = False, rp_Limit = 0, rp_WindowSeconds = 0, rp_Burst = 0, rp_KeyBy = [],
     rp_Action = \<lparr>ra_Status = 0, ra_RetryAfterSeconds = 0\<rparr>\<rparr>"

definition builtin_policy :: rateLimitPolicy where
  "builtin_policy = \<lparr>rp_Enabled = True, rp_Limit = 120, rp_WindowSeconds = 60, rp_Burst = 20, rp_KeyBy = ''ip'',
     rp_Action = \<lparr>ra_Status = 429, ra_RetryAfterSeconds = 60\<rparr>\<rparr>"

definition allow_prefix :: "string \<Rightarrow> Prefix result" where
  "allow_prefix entry =
     (case ParsePrefix entry of
        Inr pfx \<Rightarrow> Inr pfx
      | Inl _ \<Rightarrow> (case ParseAddr entry of
           Inl _ \<Rightarrow> err ''invalid allowlist_ips entry: %s'' [entry]
         | Inr a \<Rightarrow> Inr (PrefixFrom a (if Is6 a then 128 else 32))))"

fun allow_prefixes :: "string list \<Rightarrow> (Prefix list) result" where
  "allow_prefixes [] = Inr []"
| "allow_prefixes (raw # raws) =
     (let entry = TrimSpace raw in
      if entry = [] then allow_prefixes raws
      else bindR (allow_prefix entry) (\<lambda>p. bindR (allow_prefixes raws) (\<lambda>ps. Inr (p # ps))))"

definition sortedKeys :: "string list \<Rightarrow> string list" where
  "sortedKeys m = sort_by string_less m"

definition sortedMethodList :: "string list \<Rightarrow> string list" where
  "sortedMethodList methods = sort_by string_less methods"

definition trim_rule :: "rateLimitRule \<Rightarrow> rateLimitRule" where
  "trim_rule r = r\<lparr>rr_MatchType := ToLower (TrimSpace (rr_MatchType r)), rr_MatchValue := TrimSpace (rr_MatchValue r)\<rparr>"

definition rule_field :: "nat \<Rightarrow> string" where
  "rule_field i = ''rules['' @ Itoa (int i) @ '']''"

definition compile_rule :: "(string \<Rightarrow> (string \<Rightarrow> bool) result) \<Rightarrow> nat \<Rightarrow> rateLimitRule \<Rightarrow> compiledRateLimitRule result" where
  "compile_rule compile i rule0 =
     (let rule = trim_rule rule0; n = Itoa (int i) in
      bindR (guardR (rr_MatchType rule = []) (Errorf ''rules[%d]: match_type is required'' [n])) (\<lambda>_.
      bindR (guardR (rr_MatchValue rule = []) (Errorf ''rules[%d]: match_value is required'' [n])) (\<lambda>_.
      bindR (guardR (rr_MatchType rule \<notin> set [''exact'', ''prefix'', ''regex''])
               (Errorf ''rules[%d]: match_type must be exact|prefix|regex'' [n])) (\<lambda>_.
      bindR (normalizeRateLimitPolicy (rr_Policy rule) (rule_field i @ ''.policy'')) (\<lambda>policy.
      let c = \<lparr>cr_Raw = rule, cr_Policy = policy,
               cr_Methods = clean_list (\<lambda>m. ToUpper (TrimSpace m)) (rr_Methods rule), cr_Regex = None,
               cr_PolicyID = ''rule:'' @ n @ '':'' @ TrimSpace (rr_Name rule)\<rparr>
      in if rr_MatchType rule = ''regex''
         then (case compile (rr_MatchValue rule) of
                 Inl e \<Rightarrow> Inl (Wrapf ''rules[%d]: invalid regex: %v'' [n] e)
               | Inr re \<Rightarrow> Inr (c\<lparr>cr_Regex := Some re\<rparr>))
         else Inr c)))))"

fun compile_rules ::
  "(string \<Rightarrow> (string \<Rightarrow> bool) result) \<Rightarrow> nat \<Rightarrow> rateLimitRule list \<Rightarrow> (compiledRateLimitRule list) result" where
  "compile_rules compile i [] = Inr []"
| "compile_rules compile i (r # rs) =
     bindR (compile_rule compile i r) (\<lambda>c. bindR (compile_rules compile (Suc i) rs) (\<lambda>cs. Inr (c # cs)))"

definition rule_back :: "compiledRateLimitRule \<Rightarrow> rateLimitRule" where
  "rule_back c = (cr_Raw c)\<lparr>rr_Policy := cr_Policy c, rr_Methods := sortedMethodList (cr_Methods c)\<rparr>"

text \<open>
  The call of \<open>sort.Slice\<close> compares positions, not rules, so it finds the list in order and
  leaves it.
\<close>

definition buildRateLimitRuntimeFromRaw ::
  "(string \<Rightarrow> rateLimitConfig result) \<Rightarrow> (string \<Rightarrow> (string \<Rightarrow> bool) result) \<Rightarrow> string \<Rightarrow> runtimeRateLimitConfig result" where
  "buildRateLimitRuntimeFromRaw decode compile raw =
     bindR (decode raw) (\<lambda>cfg0.
     let cfg = cfg0\<lparr>rc_Identity := normalizeRateLimitIdentityConfig (rc_Identity cfg0),
                    rc_DefaultPolicy := (if rc_DefaultPolicy cfg0 = zero_policy then builtin_policy else rc_DefaultPolicy cfg0)\<rparr>;
         countries = clean_list normalizeCountryCode (rc_AllowlistCountries cfg)
     in bindR (normalizeRateLimitPolicy (rc_DefaultPolicy cfg) ''default_policy'') (\<lambda>dp.
        bindR (allow_prefixes (rc_AllowlistIPs cfg)) (\<lambda>pfxs.
        bindR (compile_rules compile 0 (rc_Rules cfg)) (\<lambda>cs.
          Inr \<lparr>rt_Raw = cfg\<lparr>rc_DefaultPolicy := dp, rc_AllowlistCountries := sortedKeys countries,
                           rc_AllowlistIPs := map Prefix_String pfxs, rc_Rules := map rule_back cs\<rparr>,
               rt_AllowlistPrefixes = pfxs, rt_AllowCountries = countries, rt_Rules = cs, rt_DefaultPolicy = dp\<rparr>))))"

definition ValidateRateLimitRaw ::
  "(string \<Rightarrow> rateLimitConfig result) \<Rightarrow> (string \<Rightarrow> (string \<Rightarrow> bool) result) \<Rightarrow> string \<Rightarrow> runtimeRateLimitConfig result" where
  "ValidateRateLimitRaw decode compile raw = buildRateLimitRuntimeFromRaw decode compile raw"

subsection \<open>Which policy applies\<close>

definition matchesPathRule :: "compiledRateLimitRule \<Rightarrow> string \<Rightarrow> bool" where
  "matchesPathRule rule path =
     (if rr_MatchType (cr_Raw rule) = ''exact'' then path = rr_MatchValue (cr_Raw rule)
      else if rr_MatchType (cr_Raw rule) = ''prefix'' then HasPrefix path (rr_MatchValue (cr_Raw rule))
      else if rr_MatchType (cr_Raw rule) = ''regex''
      then (case cr_Regex rule of None \<Rightarrow> False | Some re \<Rightarrow> re path)
      else False)"

definition matchesMethod :: "string list \<Rightarrow> string \<Rightarrow> bool" where
  "matchesMethod methods m = (methods = [] \<or> ToUpper (TrimSpace m) \<in> set methods)"

fun pick_rule :: "compiledRateLimitRule list \<Rightarrow> string \<Rightarrow> string \<Rightarrow> compiledRateLimitRule option" where
  "pick_rule [] m path = None"
| "pick_rule (rule # rules) m path =
     (if \<not> rp_Enabled (cr_Policy rule) then pick_rule rules m path
      else if \<not> matchesMethod (cr_Methods rule) m then pick_rule rules m path
      else if \<not> matchesPathRule rule path then pick_rule rules m path
      else Some rule)"

definition pickRateLimitPolicy :: "runtimeRateLimitConfig \<Rightarrow> string \<Rightarrow> string \<Rightarrow> rateLimitPolicy \<times> string" where
  "pickRateLimitPolicy rt m path =
     (case pick_rule (rt_Rules rt) m path of
        Some rule \<Rightarrow> (cr_Policy rule, cr_PolicyID rule)
      | None \<Rightarrow> (rt_DefaultPolicy rt, ''default''))"

definition isAllowlistedCountry :: "runtimeRateLimitConfig \<Rightarrow> string \<Rightarrow> bool" where
  "isAllowlistedCountry rt country = (country \<in> set (rt_AllowCountries rt))"

definition isAllowlistedIP :: "runtimeRateLimitConfig \<Rightarrow> string \<Rightarrow> bool" where
  "isAllowlistedIP rt ip =
     (if ip = [] then False
      else case ParseAddr ip of
        Inl e \<Rightarrow> False
      | Inr a \<Rightarrow> list_ex (\<lambda>p. Prefix_Contains p a) (rt_AllowlistPrefixes rt))"

definition normalizeClientIP :: "string \<Rightarrow> string" where
  "normalizeClientIP ip =
     (let v = TrimSpace ip in
      case Index v '','' of None \<Rightarrow> v | Some i \<Rightarrow> TrimSpace (take i v))"

subsection \<open>Counting\<close>

definition fresh_counter :: rateCounter where
  "fresh_counter = \<lparr>rn_WindowID = 0, rn_Count = 0, rn_Updated = 0\<rparr>"

definition unix :: "int \<Rightarrow> int" where
  "unix now = now div 1000000000"

definition sweep_before :: "int \<Rightarrow> (string \<times> rateCounter) list \<Rightarrow> (string \<times> rateCounter) list" where
  "sweep_before t m = filter (\<lambda>(k, v). \<not> rn_Updated v < t) m"

definition count_hit :: "string \<Rightarrow> int \<Rightarrow> int \<Rightarrow> int \<Rightarrow> limiter \<Rightarrow> bool \<times> limiter" where
  \<comment> \<open>the section under \<open>rateCounterMu\<close>: the counter, its window, the hits allowed in it, the instant\<close>
  "count_hit k windowID maxHits now lm =
     (let sweep = i64 (lm_Sweep lm + 1);
          c0 = (case map_of (lm_Counters lm) k of None \<Rightarrow> fresh_counter | Some c \<Rightarrow> c);
          c1 = (if rn_WindowID c0 \<noteq> windowID then c0\<lparr>rn_WindowID := windowID, rn_Count := 0\<rparr> else c0);
          allowed = (rn_Count c1 < maxHits);
          c2 = (if allowed then c1\<lparr>rn_Count := rn_Count c1 + 1\<rparr> else c1);
          m = aput k (c2\<lparr>rn_Updated := now\<rparr>) (lm_Counters lm);
          m' = (if sweep mod 1000 = 0 then sweep_before (now - 600 * 1000000000) m else m)
      in (allowed, lm\<lparr>lm_Counters := m', lm_Sweep := sweep\<rparr>))"

definition allow_decision :: rateLimitDecision where
  "allow_decision = \<lparr>rd_Allowed = True, rd_Status = 0, rd_RetryAfterSeconds = 0, rd_PolicyID = [], rd_Key = [],
     rd_Limit = 0, rd_BaseLimit = 0, rd_WindowSeconds = 0, rd_KeyBy = [], rd_Adaptive = False, rd_RiskScore = 0\<rparr>"

definition request_identity :: "(string \<Rightarrow> string) \<Rightarrow> Request option \<Rightarrow> rateLimitIdentityConfig \<Rightarrow> rateLimitIdentity" where
  \<comment> \<open>\<open>extractRateLimitIdentity\<close> with its test for \<open>nil\<close>\<close>
  "request_identity json_sub r c =
     (case r of None \<Rightarrow> \<lparr>id_Session = [], id_JWTSub = []\<rparr> | Some q \<Rightarrow> extractRateLimitIdentity json_sub q c)"

definition count_request :: "rateLimitStats \<Rightarrow> rateLimitStats" where
  "count_request x = x\<lparr>rx_Requests := rx_Requests x + 1\<rparr>"

definition count_allowed :: "rateLimitStats \<Rightarrow> rateLimitStats" where
  "count_allowed x = x\<lparr>rx_Allowed := rx_Allowed x + 1\<rparr>"

definition count_blocked :: "rateLimitStats \<Rightarrow> rateLimitStats" where
  "count_blocked x = x\<lparr>rx_Blocked := rx_Blocked x + 1\<rparr>"

definition count_adaptive :: "rateLimitStats \<Rightarrow> rateLimitStats" where
  "count_adaptive x = x\<lparr>rx_AdaptiveDecisions := rx_AdaptiveDecisions x + 1\<rparr>"

definition EvaluateRateLimit ::
  "(string \<Rightarrow> string) \<Rightarrow> Request option \<Rightarrow> string \<Rightarrow> string \<Rightarrow> int \<Rightarrow> int \<Rightarrow> limiter \<Rightarrow> rateLimitStats
     \<Rightarrow> rateLimitDecision \<times> limiter \<times> rateLimitStats" where
  "EvaluateRateLimit json_sub r clientIP country riskScore now lm x0 =
     (case lm_Runtime lm of
        None \<Rightarrow> (allow_decision, lm, x0)
      | Some rt \<Rightarrow>
     if \<not> rc_Enabled (rt_Raw rt) then (allow_decision, lm, x0)
     else let x = count_request x0; ip = normalizeClientIP clientIP; cc = normalizeCountryCode country in
     if isAllowlistedIP rt ip \<or> isAllowlistedCountry rt cc then (allow_decision, lm, count_allowed x)
     else let (m, path) = (case r of None \<Rightarrow> (''GET'', []) | Some q \<Rightarrow> (rq_Method q, url_Path (rq_URL q)));
              (policy, policyID) = pickRateLimitPolicy rt m path in
     if \<not> rp_Enabled policy then (allow_decision, lm, count_allowed x)
     else let identity = request_identity json_sub r (rc_Identity (rt_Raw rt));
              (effective, adaptive) = applyAdaptiveRateLimit (rc_Identity (rt_Raw rt)) policy riskScore;
              x1 = (if adaptive then count_adaptive x else x);
              key = buildRateLimitKey (rp_KeyBy effective) ip cc identity in
     if key = [] then (allow_decision, lm, count_allowed x1)
     else let baseHits = i64 (rp_Limit policy + rp_Burst policy);
              maxHits = i64 (rp_Limit effective + rp_Burst effective) in
     if maxHits \<le> 0 \<or> rp_WindowSeconds effective \<le> 0 then (allow_decision, lm, count_allowed x1)
     else let windowID = quot (unix now) (rp_WindowSeconds effective) in
     (case count_hit (policyID @ ''|'' @ key) windowID maxHits now lm of (allowed, lm') \<Rightarrow>
     if allowed then (allow_decision, lm', count_allowed x1)
     else let retry0 = ra_RetryAfterSeconds (rp_Action effective);
              left = i64 (i64 ((windowID + 1) * rp_WindowSeconds effective) - unix now);
              retry = (if retry0 \<le> 0 then if left < 1 then 1 else left else retry0);
              status = ra_Status (rp_Action effective)
     in (\<lparr>rd_Allowed = False, rd_Status = (if status = 0 then 429 else status), rd_RetryAfterSeconds = retry,
          rd_PolicyID = policyID, rd_Key = hashRateLimitKey key, rd_Limit = maxHits, rd_BaseLimit = baseHits,
          rd_WindowSeconds = rp_WindowSeconds effective, rd_KeyBy = rp_KeyBy effective, rd_Adaptive = adaptive,
          rd_RiskScore = riskScore\<rparr>, lm', count_blocked x1)))"

definition GetRateLimitConfig :: "limiter \<Rightarrow> rateLimitConfig option" where
  \<comment> \<open>\<open>None\<close> is the empty configuration\<close>
  "GetRateLimitConfig lm = map_option rt_Raw (lm_Runtime lm)"

subsection \<open>File and handlers\<close>

definition quoted :: "string \<Rightarrow> string" where
  \<comment> \<open>double quotes written as grave accents\<close>
  "quoted s = map (\<lambda>c. if c = CHR 0x60 then CHR 0x22 else c) s"

definition defaultRaw :: string where
  "defaultRaw = concat (map (\<lambda>l. quoted l @ [newline])
     [''{'',
      ''  `enabled`: true,'',
      ''  `allowlist_ips`: [],'',
      ''  `allowlist_countries`: [],'',
      ''  `session_cookie_names`: [`session`, `sid`],'',
      ''  `jwt_header_names`: [`Authorization`],'',
      ''  `jwt_cookie_names`: [`token`, `access_token`],'',
      ''  `adaptive_enabled`: false,'',
      ''  `adaptive_score_threshold`: 6,'',
      ''  `adaptive_limit_factor_percent`: 50,'',
      ''  `adaptive_burst_factor_percent`: 50,'',
      ''  `default_policy`: {'',
      ''    `enabled`: true,'',
      ''    `limit`: 120,'',
      ''    `window_seconds`: 60,'',
      ''    `burst`: 20,'',
      ''    `key_by`: `ip`,'',
      ''    `action`: {'',
      ''      `status`: 429,'',
      ''      `retry_after_seconds`: 60'',
      ''    }'',
      ''  },'',
      ''  `rules`: ['',
      ''    {'',
      ''      `name`: `login`,'',
      ''      `match_type`: `prefix`,'',
      ''      `match_value`: `/login`,'',
      ''      `methods`: [`POST`],'',
      ''      `policy`: {'',
      ''        `enabled`: true,'',
      ''        `limit`: 10,'',
      ''        `window_seconds`: 60,'',
      ''        `burst`: 0,'',
      ''        `key_by`: `ip`,'',
      ''        `action`: {'',
      ''          `status`: 429,'',
      ''          `retry_after_seconds`: 60'',
      ''        }'',
      ''      }'',
      ''    }'',
      ''  ]'',
      ''}''])"

definition ensureRateLimitFile :: "storage \<Rightarrow> unit result \<times> storage" where
  "ensureRateLimitFile st = ensure_file defaultRaw st"

definition load_limiter ::
  "(string \<Rightarrow> rateLimitConfig result) \<Rightarrow> (string \<Rightarrow> (string \<Rightarrow> bool) result) \<Rightarrow> string \<Rightarrow> limiter result" where
  \<comment> \<open>a reload installs the rules and empties the counters\<close>
  "load_limiter decode compile raw =
     bindR (buildRateLimitRuntimeFromRaw decode compile raw) (\<lambda>rt.
       Inr \<lparr>lm_Runtime = Some rt, lm_Counters = [], lm_Sweep = 0\<rparr>)"

definition ReloadRateLimit ::
  "(string \<Rightarrow> rateLimitConfig result) \<Rightarrow> (string \<Rightarrow> (string \<Rightarrow> bool) result) \<Rightarrow> limiter rules_state
     \<Rightarrow> unit result \<times> limiter rules_state" where
  "ReloadRateLimit decode compile s = reload_rules (load_limiter decode compile) s"

definition InitRateLimit ::
  "(string \<Rightarrow> rateLimitConfig result) \<Rightarrow> (string \<Rightarrow> (string \<Rightarrow> bool) result) \<Rightarrow> string \<Rightarrow> limiter rules_state
     \<Rightarrow> unit result \<times> limiter rules_state" where
  "InitRateLimit decode compile path s =
     (let target = TrimSpace path in
      if target = [] then (err ''rate limit path is empty'' [], s)
      else case ensureRateLimitFile (ru_storage s) of
        (Inl e, st) \<Rightarrow> (Inl e, s\<lparr>ru_storage := st\<rparr>)
      | (Inr _, st) \<Rightarrow> ReloadRateLimit decode compile (s\<lparr>ru_path := target, ru_storage := st\<rparr>))"

definition GetRateLimitRules ::
  "(string \<Rightarrow> rateLimitConfig result) \<Rightarrow> (string \<Rightarrow> (string \<Rightarrow> bool) result) \<Rightarrow> limiter rules_state
     \<Rightarrow> runtimeRateLimitConfig rules_reply \<times> limiter rules_state" where
  "GetRateLimitRules decode compile s = get_rules (ValidateRateLimitRaw decode compile) s"

definition ValidateRateLimitRules ::
  "(string \<Rightarrow> rateLimitConfig result) \<Rightarrow> (string \<Rightarrow> (string \<Rightarrow> bool) result) \<Rightarrow> string result
     \<Rightarrow> runtimeRateLimitConfig rules_reply" where
  "ValidateRateLimitRules decode compile body = validate_rules (ValidateRateLimitRaw decode compile) body"

definition PutRateLimitRules ::
  "(string \<Rightarrow> rateLimitConfig result) \<Rightarrow> (string \<Rightarrow> (string \<Rightarrow> bool) result) \<Rightarrow> string \<Rightarrow> string result \<Rightarrow> limiter rules_state
     \<Rightarrow> runtimeRateLimitConfig rules_reply \<times> limiter rules_state" where
  "PutRateLimitRules decode compile ifMatch body s =
     put_rules (ValidateRateLimitRaw decode compile) (load_limiter decode compile) ifMatch body s"

definition SyncRateLimitStorage ::
  "(string \<Rightarrow> rateLimitConfig result) \<Rightarrow> (string \<Rightarrow> (string \<Rightarrow> bool) result) \<Rightarrow> limiter rules_state
     \<Rightarrow> unit result \<times> limiter rules_state" where
  "SyncRateLimitStorage decode compile s =
     sync_blob_file (\<lambda>raw. bindR (ValidateRateLimitRaw decode compile raw) (\<lambda>_. Inr ()))
       (Some (load_limiter decode compile)) False True s"

end
