(* ===== verification/Rate_Limit_Correct.thy ===== *)
theory Rate_Limit_Correct
  imports Rate_Limit
begin

text \<open>
  The limiter is a fixed-window limiter: what \<open>EvaluateRateLimit\<close> decides over a sequence of
  requests is what a table of counts per bucket and window decides, although the counters
  keep one window per bucket and the sweep forgets those not used for ten minutes.
\<close>

subsection \<open>Counters against the table of counts\<close>

type_synonym bucket = "string \<times> int \<times> int \<times> int"  \<comment> \<open>counter key, window length, window, hits allowed\<close>

fun fixed_window :: "bucket option list \<Rightarrow> (string \<times> int \<Rightarrow> int) \<Rightarrow> bool list" where
  \<comment> \<open>the abstract limiter; a request without a bucket is exempt\<close>
  "fixed_window [] u = []"
| "fixed_window (None # bs) u = True # fixed_window bs u"
| "fixed_window (Some (k, W, w, m) # bs) u =
     (if u (k, w) < m then True # fixed_window bs (u((k, w) := u (k, w) + 1)) else False # fixed_window bs u)"

definition count_of :: "(string \<times> rateCounter) list \<Rightarrow> string \<Rightarrow> int \<Rightarrow> int" where
  "count_of m k w = (case map_of m k of None \<Rightarrow> 0 | Some c \<Rightarrow> if rn_WindowID c = w then rn_Count c else 0)"

definition counters_ok :: "(string \<Rightarrow> int) \<Rightarrow> int \<Rightarrow> (string \<times> rateCounter) list \<Rightarrow> (string \<times> int \<Rightarrow> int) \<Rightarrow> bool" where
  \<comment> \<open>at instant \<open>T\<close>: the counters show the table for every current window, and the table is empty
      for the later ones\<close>
  "counters_ok W T m u = (distinct (map fst m) \<and> (\<forall>k. 0 < W k \<longrightarrow>
       count_of m k (unix T div W k) = u (k, unix T div W k)
     \<and> (\<forall>w. unix T div W k < w \<longrightarrow> u (k, w) = 0)
     \<and> (\<forall>c. map_of m k = Some c \<longrightarrow> rn_WindowID c = unix (rn_Updated c) div W k \<and> rn_Updated c \<le> T)))"

lemma unix_mono: "a \<le> b \<Longrightarrow> unix a \<le> unix b"
  by (simp add: unix_def zdiv_mono1)

lemma unix_600: "a + 600 * 1000000000 \<le> b \<Longrightarrow> unix a + 600 \<le> unix b"
proof -
  assume "a + 600 * 1000000000 \<le> b"
  then have "unix (a + 600 * 1000000000) \<le> unix b" by (rule unix_mono)
  moreover have "unix (a + 600 * 1000000000) = unix a + 600" by (simp add: unix_def)
  ultimately show ?thesis by simp
qed

lemma counters_ok_later:
  assumes "counters_ok W T m u" "T \<le> now"
  shows "counters_ok W now m u"
  unfolding counters_ok_def
proof (intro conjI allI impI)
  show "distinct (map fst m)" using assms(1) by (simp add: counters_ok_def)
  fix k assume W: "0 < W k"
  let ?a = "unix T div W k" and ?b = "unix now div W k"
  have ab: "?a \<le> ?b" using W assms(2) by (intro zdiv_mono1 unix_mono) simp_all
  from assms(1) W have zero: "\<And>w. ?a < w \<Longrightarrow> u (k, w) = 0" and cur: "count_of m k ?a = u (k, ?a)"
    and st: "\<And>c. map_of m k = Some c \<Longrightarrow> rn_WindowID c = unix (rn_Updated c) div W k \<and> rn_Updated c \<le> T"
    by (auto simp: counters_ok_def)
  show "count_of m k ?b = u (k, ?b)"
  proof (cases "?a = ?b")
    case True
    with cur show ?thesis by simp
  next
    case False
    with ab have "?a < ?b" by simp
    moreover have "count_of m k ?b = 0"
    proof (cases "map_of m k")
      case (Some c)
      then have "rn_WindowID c \<le> ?a" using st [OF Some] W by (auto intro!: zdiv_mono1 unix_mono)
      with \<open>?a < ?b\<close> Some show ?thesis by (simp add: count_of_def)
    qed (simp add: count_of_def)
    ultimately show ?thesis using zero by simp
  qed
  show "u (k, w) = 0" if "?b < w" for w using zero that ab by force
  show "rn_WindowID c = unix (rn_Updated c) div W k" if "map_of m k = Some c" for c
    using st [OF that] by simp
  show "rn_Updated c \<le> now" if "map_of m k = Some c" for c
    using st [OF that] assms(2) by simp
qed

lemma map_of_sweep:
  "distinct (map fst m) \<Longrightarrow> map_of (sweep_before t m) k =
     (case map_of m k of Some v \<Rightarrow> if rn_Updated v < t then None else Some v | None \<Rightarrow> None)"
proof (induction m)
  case (Cons x m)
  then show ?case
    by (cases x) (auto simp: sweep_before_def map_of_eq_None_iff image_iff split: option.split dest!: map_of_SomeD)
qed (simp add: sweep_before_def)

text \<open>The sweep only forgets windows that are over.\<close>

lemma counters_ok_sweep:
  assumes "counters_ok W now m u" "\<And>k. 0 < W k \<Longrightarrow> W k \<le> 600" "t = now - 600 * 1000000000"
  shows "counters_ok W now (sweep_before t m) u"
  unfolding counters_ok_def
proof (intro conjI allI impI)
  have d: "distinct (map fst m)" using assms(1) by (simp add: counters_ok_def)
  then show "distinct (map fst (sweep_before t m))"
    by (simp add: sweep_before_def distinct_map_filter)
  fix k assume W: "0 < W k"
  note sw = map_of_sweep [OF d, of t k]
  from assms(1) W have cur: "count_of m k (unix now div W k) = u (k, unix now div W k)"
    and zero: "\<And>w. unix now div W k < w \<Longrightarrow> u (k, w) = 0"
    and st: "\<And>c. map_of m k = Some c \<Longrightarrow> rn_WindowID c = unix (rn_Updated c) div W k \<and> rn_Updated c \<le> now"
    by (auto simp: counters_ok_def)
  have old: "rn_WindowID c \<noteq> unix now div W k" if "map_of m k = Some c" "rn_Updated c < t" for c
  proof -
    have "unix (rn_Updated c) + W k \<le> unix now"
      using unix_600 [of "rn_Updated c" now] that(2) assms(2) [OF W] assms(3) by simp
    then have "(unix (rn_Updated c) + W k) div W k \<le> unix now div W k" using W by (intro zdiv_mono1) simp_all
    moreover have "(unix (rn_Updated c) + W k) div W k = unix (rn_Updated c) div W k + 1"
      using W by (intro div_add_self2) simp
    ultimately show ?thesis using st [OF that(1)] by simp
  qed
  show "count_of (sweep_before t m) k (unix now div W k) = u (k, unix now div W k)"
    using cur old by (auto simp: count_of_def sw split: option.splits if_splits)
  show "u (k, w) = 0" if "unix now div W k < w" for w using zero that .
  show "rn_WindowID c = unix (rn_Updated c) div W k" "rn_Updated c \<le> now"
    if "map_of (sweep_before t m) k = Some c" for c
    using that st by (auto simp: sw split: option.splits if_splits)
qed

lemma count_hit_ok:
  assumes "counters_ok W T (lm_Counters lm) u" "T \<le> now" "\<And>k. 0 < W k \<Longrightarrow> W k \<le> 600" "0 < W k"
    "w = unix now div W k" "count_hit k w mx now lm = (allowed, lm')"
  shows "(allowed \<longleftrightarrow> u (k, w) < mx) \<and> lm_Runtime lm' = lm_Runtime lm
    \<and> counters_ok W now (lm_Counters lm') (if allowed then u((k, w) := u (k, w) + 1) else u)"
proof -
  from counters_ok_later [OF assms(1,2)] have ok: "counters_ok W now (lm_Counters lm) u" .
  define c0 where "c0 = (case map_of (lm_Counters lm) k of None \<Rightarrow> fresh_counter | Some c \<Rightarrow> c)"
  define c1 where "c1 = (if rn_WindowID c0 \<noteq> w then c0\<lparr>rn_WindowID := w, rn_Count := 0\<rparr> else c0)"
  define c2 where "c2 = (if rn_Count c1 < mx then c1\<lparr>rn_Count := rn_Count c1 + 1\<rparr> else c1)"
  define m where "m = aput k (c2\<lparr>rn_Updated := now\<rparr>) (lm_Counters lm)"
  define u' where "u' = (if rn_Count c1 < mx then u((k, w) := u (k, w) + 1) else u)"
  have "count_of (lm_Counters lm) k w = u (k, w)" using ok assms(4,5) by (simp add: counters_ok_def)
  then have c1: "rn_Count c1 = u (k, w)"
    by (auto simp: c1_def c0_def count_of_def fresh_counter_def split: option.splits)
  have c2: "rn_WindowID c2 = w" by (simp add: c2_def c1_def)
  have new: "counters_ok W now m u'"
    unfolding counters_ok_def
  proof (intro conjI allI impI)
    show "distinct (map fst m)" using ok unfolding m_def by (intro distinct_aput) (simp add: counters_ok_def)
    fix k' assume W': "0 < W k'"
    from ok W' have old: "count_of (lm_Counters lm) k' (unix now div W k') = u (k', unix now div W k')"
      "\<And>w. unix now div W k' < w \<Longrightarrow> u (k', w) = 0"
      "\<And>c. map_of (lm_Counters lm) k' = Some c \<Longrightarrow> rn_WindowID c = unix (rn_Updated c) div W k' \<and> rn_Updated c \<le> now"
      by (auto simp: counters_ok_def)
    show "count_of m k' (unix now div W k') = u' (k', unix now div W k')"
    proof (cases "k' = k")
      case True
      have "count_of m k w = rn_Count c2" by (simp add: count_of_def m_def c2)
      then show ?thesis using True c1 assms(5) by (simp add: u'_def c2_def)
    next
      case False
      then show ?thesis using old(1) by (simp add: count_of_def m_def u'_def)
    qed
    show "u' (k', w') = 0" if "unix now div W k' < w'" for w'
      using old(2) that assms(5) by (auto simp: u'_def)
    show "rn_WindowID c = unix (rn_Updated c) div W k'" "rn_Updated c \<le> now" if "map_of m k' = Some c" for c
      using that old(3) assms(5) c2 by (auto simp: m_def split: if_splits)
  qed
  have "count_hit k w mx now lm = (rn_Count c1 < mx,
      lm\<lparr>lm_Counters := (if i64 (lm_Sweep lm + 1) mod 1000 = 0 then sweep_before (now - 600 * 1000000000) m else m),
         lm_Sweep := i64 (lm_Sweep lm + 1)\<rparr>)"
    unfolding count_hit_def Let_def m_def c2_def c1_def c0_def by (rule refl)
  with assms(6) have run: "allowed = (rn_Count c1 < mx)" "lm_Runtime lm' = lm_Runtime lm"
    "lm_Counters lm' = (if i64 (lm_Sweep lm + 1) mod 1000 = 0 then sweep_before (now - 600 * 1000000000) m else m)"
    by auto
  have "counters_ok W now (lm_Counters lm') u'"
    unfolding run(3) using new counters_ok_sweep [OF new assms(3) refl] by (simp split: if_split)
  then show ?thesis using run c1 by (simp add: u'_def)
qed

subsection \<open>Buckets\<close>

text \<open>What a counter key says: the rule and, within it, whom.\<close>

lemma digit_prefix_eq:
  assumes "xs @ c # s = ys @ c # t" "\<forall>x\<in>set xs. is_digit x" "\<forall>x\<in>set ys. is_digit x" "\<not> is_digit c"
  shows "xs = ys \<and> s = t"
  using assms
proof (induction xs arbitrary: ys)
  case Nil
  then show ?case by (cases ys) auto
next
  case (Cons x xs)
  then show ?case by (cases ys) auto
qed

lemma rule_key_eq:
  "''rule:'' @ Itoa (int i) @ '':'' @ s = ''rule:'' @ Itoa (int j) @ '':'' @ t \<longleftrightarrow> i = j \<and> s = t"
proof
  assume eq: "''rule:'' @ Itoa (int i) @ '':'' @ s = ''rule:'' @ Itoa (int j) @ '':'' @ t"
  have colon: "\<not> is_digit CHR '':''" by (simp add: is_digit_def ord_def)
  have "Itoa (int i) = Itoa (int j) \<and> s = t"
    by (rule digit_prefix_eq [OF _ _ _ colon]) (use eq in \<open>auto simp: Itoa_def digits_of_digit\<close>)
  then show "i = j \<and> s = t" by (simp add: Itoa_def digits_of_inject)
qed simp

definition ids_ok :: "compiledRateLimitRule list \<Rightarrow> bool" where
  "ids_ok rules = (\<forall>i<length rules. \<exists>n. cr_PolicyID (rules ! i) = ''rule:'' @ Itoa (int i) @ '':'' @ n)"

lemma compile_rule_id:
  "compile_rule compile i r = Inr c \<Longrightarrow> cr_PolicyID c = ''rule:'' @ Itoa (int i) @ '':'' @ TrimSpace (rr_Name r)"
  by (auto simp: compile_rule_def Let_def bindR_Inr trim_rule_def split: if_splits sum.splits)

lemma compile_rules_nth:
  "compile_rules compile k rs = Inr cs \<Longrightarrow> length cs = length rs \<and> (\<forall>i<length rs. compile_rule compile (k + i) (rs ! i) = Inr (cs ! i))"
proof (induction rs arbitrary: k cs)
  case (Cons r rs)
  from Cons.prems obtain c cs' where c: "compile_rule compile k r = Inr c" "compile_rules compile (Suc k) rs = Inr cs'"
    "cs = c # cs'" by (auto simp: bindR_Inr)
  from Cons.IH [OF this(2)] c show ?case by (auto simp: nth_Cons split: nat.split)
qed simp

lemma compile_rules_ids:
  assumes "compile_rules compile 0 rs = Inr cs"
  shows "ids_ok cs"
  unfolding ids_ok_def
proof (intro allI impI)
  fix i assume "i < length cs"
  with compile_rules_nth [OF assms] have "compile_rule compile i (rs ! i) = Inr (cs ! i)" by simp
  from compile_rule_id [OF this] show "\<exists>n. cr_PolicyID (cs ! i) = ''rule:'' @ Itoa (int i) @ '':'' @ n" by blast
qed

text \<open>The parts of a document that was accepted.\<close>

lemma built_parts:
  assumes "buildRateLimitRuntimeFromRaw decode compile raw = Inr rt"
  shows "\<exists>cfg0 dp. decode raw = Inr cfg0
    \<and> normalizeRateLimitPolicy dp ''default_policy'' = Inr (rt_DefaultPolicy rt)
    \<and> compile_rules compile 0 (rc_Rules cfg0) = Inr (rt_Rules rt)
    \<and> rc_Identity (rt_Raw rt) = normalizeRateLimitIdentityConfig (rc_Identity cfg0)"
  using assms unfolding buildRateLimitRuntimeFromRaw_def Let_def bindR_Inr by auto

lemma built_ids: "buildRateLimitRuntimeFromRaw decode compile raw = Inr rt \<Longrightarrow> ids_ok (rt_Rules rt)"
  using built_parts compile_rules_ids by blast

lemma pick_rule_in: "pick_rule rules m path = Some r \<Longrightarrow> r \<in> set rules \<and> rp_Enabled (cr_Policy r)"
  by (induction rules) (auto split: if_splits)

definition pick_of :: "runtimeRateLimitConfig \<Rightarrow> rateLimitPolicy \<Rightarrow> string \<Rightarrow> bool" where
  "pick_of rt p pid = (p = rt_DefaultPolicy rt \<and> pid = ''default'' \<or> (\<exists>r\<in>set (rt_Rules rt). p = cr_Policy r \<and> pid = cr_PolicyID r))"

lemma pick_is: "pickRateLimitPolicy rt m path = (p, pid) \<Longrightarrow> pick_of rt p pid"
  by (auto simp: pickRateLimitPolicy_def pick_of_def dest: pick_rule_in split: option.splits)

text \<open>A counter key belongs to one policy.\<close>

lemma key_policy:
  assumes "ids_ok (rt_Rules rt)" "pick_of rt p pid" "pick_of rt q qid" "pid @ ''|'' @ k = qid @ ''|'' @ l"
  shows "p = q"
proof -
  have idx: "\<exists>i<length (rt_Rules rt). \<exists>n. r = rt_Rules rt ! i \<and> cr_PolicyID r = ''rule:'' @ Itoa (int i) @ '':'' @ n"
    if "r \<in> set (rt_Rules rt)" for r
    using that assms(1) unfolding ids_ok_def in_set_conv_nth by blast
  from assms(2,3) consider "p = rt_DefaultPolicy rt \<and> q = rt_DefaultPolicy rt"
    | r where "r \<in> set (rt_Rules rt)" "pid = cr_PolicyID r \<and> qid = ''default'' \<or> qid = cr_PolicyID r \<and> pid = ''default''"
    | r s where "r \<in> set (rt_Rules rt)" "s \<in> set (rt_Rules rt)" "p = cr_Policy r" "pid = cr_PolicyID r" "q = cr_Policy s" "qid = cr_PolicyID s"
    by (auto simp: pick_of_def)
  then show ?thesis
  proof cases
    case 2
    with idx [OF 2(1)] assms(4) show ?thesis by auto
  next
    case 3
    from idx [OF 3(1)] obtain i n where i: "r = rt_Rules rt ! i" "pid = ''rule:'' @ Itoa (int i) @ '':'' @ n" using 3 by auto
    from idx [OF 3(2)] obtain j n' where j: "s = rt_Rules rt ! j" "qid = ''rule:'' @ Itoa (int j) @ '':'' @ n'" using 3 by auto
    from assms(4) have "''rule:'' @ Itoa (int i) @ '':'' @ (n @ ''|'' @ k) = ''rule:'' @ Itoa (int j) @ '':'' @ (n' @ ''|'' @ l)"
      unfolding i(2) j(2) by simp
    then have "i = j" unfolding rule_key_eq by simp
    with 3 i j show ?thesis by simp
  qed simp
qed

subsection \<open>A sequence of requests\<close>

record rate_call =
  ca_Request :: "Request option"
  ca_ClientIP :: string
  ca_Country :: string
  ca_Risk :: int
  ca_Now :: int

fun serve_calls ::
  "(string \<Rightarrow> string) \<Rightarrow> rate_call list \<Rightarrow> limiter \<Rightarrow> rateLimitStats \<Rightarrow> rateLimitDecision list \<times> limiter \<times> rateLimitStats" where
  "serve_calls js [] lm x = ([], lm, x)"
| "serve_calls js (c # cs) lm x =
     (case EvaluateRateLimit js (ca_Request c) (ca_ClientIP c) (ca_Country c) (ca_Risk c) (ca_Now c) lm x of
        (d, lm1, x1) \<Rightarrow> (case serve_calls js cs lm1 x1 of (ds, lm2, x2) \<Rightarrow> (d # ds, lm2, x2)))"

definition call_policy :: "runtimeRateLimitConfig \<Rightarrow> rate_call \<Rightarrow> rateLimitPolicy \<times> string" where
  "call_policy rt c = (case ca_Request c of
       None \<Rightarrow> pickRateLimitPolicy rt ''GET'' []
     | Some q \<Rightarrow> pickRateLimitPolicy rt (rq_Method q) (url_Path (rq_URL q)))"

definition rate_bucket :: "(string \<Rightarrow> string) \<Rightarrow> runtimeRateLimitConfig \<Rightarrow> rate_call \<Rightarrow> bucket option" where
  "rate_bucket js rt c =
     (let ip = normalizeClientIP (ca_ClientIP c); cc = normalizeCountryCode (ca_Country c);
          policy = fst (call_policy rt c);
          effective = fst (applyAdaptiveRateLimit (rc_Identity (rt_Raw rt)) policy (ca_Risk c));
          key = buildRateLimitKey (rp_KeyBy effective) ip cc (request_identity js (ca_Request c) (rc_Identity (rt_Raw rt)));
          maxHits = i64 (rp_Limit effective + rp_Burst effective)
      in if \<not> rc_Enabled (rt_Raw rt) \<or> isAllowlistedIP rt ip \<or> isAllowlistedCountry rt cc \<or> \<not> rp_Enabled policy
            \<or> key = [] \<or> maxHits \<le> 0 \<or> rp_WindowSeconds effective \<le> 0
         then None
         else Some (snd (call_policy rt c) @ ''|'' @ key, rp_WindowSeconds effective,
                    quot (unix (ca_Now c)) (rp_WindowSeconds effective), maxHits))"

lemma Evaluate_bucket:
  assumes "lm_Runtime lm = Some rt"
    "EvaluateRateLimit js (ca_Request c) (ca_ClientIP c) (ca_Country c) (ca_Risk c) (ca_Now c) lm x = (d, lm', x')"
  shows "case rate_bucket js rt c of
      None \<Rightarrow> rd_Allowed d \<and> lm' = lm
    | Some (k, W, w, m) \<Rightarrow> count_hit k w m (ca_Now c) lm = (rd_Allowed d, lm')"
proof -
  obtain p pid where p: "call_policy rt c = (p, pid)" by fastforce
  obtain e ad where e: "applyAdaptiveRateLimit (rc_Identity (rt_Raw rt)) p (ca_Risk c) = (e, ad)" by fastforce
  let ?key = "buildRateLimitKey (rp_KeyBy e) (normalizeClientIP (ca_ClientIP c)) (normalizeCountryCode (ca_Country c))
    (request_identity js (ca_Request c) (rc_Identity (rt_Raw rt)))"
  obtain a l where h: "count_hit (pid @ ''|'' @ ?key) (quot (unix (ca_Now c)) (rp_WindowSeconds e))
    (i64 (rp_Limit e + rp_Burst e)) (ca_Now c) lm = (a, l)" by fastforce
  have pick: "(case (case ca_Request c of None \<Rightarrow> (''GET'', []) | Some q \<Rightarrow> (rq_Method q, url_Path (rq_URL q))) of
      (m, path) \<Rightarrow> f (pickRateLimitPolicy rt m path)) = f (p, pid)" for f :: "_ \<Rightarrow> rateLimitDecision \<times> limiter \<times> rateLimitStats"
    using p by (simp add: call_policy_def split: option.splits)
  show ?thesis
    using assms(2) h unfolding EvaluateRateLimit_def rate_bucket_def Let_def pick assms(1) p e option.case prod.case fst_conv snd_conv
    by (auto simp: allow_decision_def split: if_splits)
qed

lemma adaptive_same: "rp_WindowSeconds (fst (applyAdaptiveRateLimit i p risk)) = rp_WindowSeconds p
    \<and> rp_KeyBy (fst (applyAdaptiveRateLimit i p risk)) = rp_KeyBy p \<and> rp_Action (fst (applyAdaptiveRateLimit i p risk)) = rp_Action p"
  by (simp add: applyAdaptiveRateLimit_def Let_def)

lemma bucket_policy:
  assumes "rate_bucket js rt c = Some (k, W, w, m)"
  shows "\<exists>p pid key. pick_of rt p pid \<and> k = pid @ ''|'' @ key \<and> W = rp_WindowSeconds p \<and> 0 < W
    \<and> w = quot (unix (ca_Now c)) W \<and> m = i64 (rp_Limit (fst (applyAdaptiveRateLimit (rc_Identity (rt_Raw rt)) p (ca_Risk c)))
        + rp_Burst (fst (applyAdaptiveRateLimit (rc_Identity (rt_Raw rt)) p (ca_Risk c))))"
proof -
  obtain p pid where p: "call_policy rt c = (p, pid)" by fastforce
  then have "pick_of rt p pid" by (auto simp: call_policy_def split: option.splits dest: pick_is)
  with assms p show ?thesis
    by (auto simp: rate_bucket_def Let_def adaptive_same split: if_splits)
qed

definition short_windows :: "runtimeRateLimitConfig \<Rightarrow> bool" where
  "short_windows rt = (rp_WindowSeconds (rt_DefaultPolicy rt) \<le> 600
     \<and> list_all (\<lambda>r. rp_WindowSeconds (cr_Policy r) \<le> 600) (rt_Rules rt))"

lemma pick_short: "short_windows rt \<Longrightarrow> pick_of rt p pid \<Longrightarrow> rp_WindowSeconds p \<le> 600"
  by (auto simp: short_windows_def pick_of_def list_all_iff)

text \<open>The window length is a function of the counter key.\<close>

lemma key_window:
  assumes "ids_ok (rt_Rules rt)" "short_windows rt"
  obtains W where "\<And>c k V w m. rate_bucket js rt c = Some (k, V, w, m) \<Longrightarrow> W k = V \<and> 0 < V" "\<And>k. W k \<le> 600"
proof -
  define W where "W k = (if \<exists>c V w m. rate_bucket js rt c = Some (k, V, w, m)
    then (SOME V. \<exists>c w m. rate_bucket js rt c = Some (k, V, w, m)) else 0)" for k
  have same: "V = V'" if 1: "rate_bucket js rt c = Some (k, V, w, m)" and 2: "rate_bucket js rt c' = Some (k, V', w', m')"
    for c c' k V V' w w' m m'
    using bucket_policy [OF 1] bucket_policy [OF 2] key_policy [OF assms(1)] by (metis (no_types, opaque_lifting))
  have W: "W k = V" if b: "rate_bucket js rt c = Some (k, V, w, m)" for c k V w m
  proof -
    have "(SOME V. \<exists>c w m. rate_bucket js rt c = Some (k, V, w, m)) = V"
      by (rule some_equality) (use b same in blast)+
    moreover have "\<exists>c V w m. rate_bucket js rt c = Some (k, V, w, m)" using b by blast
    ultimately show ?thesis by (simp add: W_def)
  qed
  have "W k \<le> 600" for k
  proof (cases "\<exists>c V w m. rate_bucket js rt c = Some (k, V, w, m)")
    case True
    then obtain c V w m where b: "rate_bucket js rt c = Some (k, V, w, m)" by blast
    from bucket_policy [OF b] pick_short [OF assms(2)] show ?thesis using W [OF b] by auto
  qed (simp add: W_def)
  moreover have "0 < V" if "rate_bucket js rt c = Some (k, V, w, m)" for c k V w m
    using bucket_policy [OF that] by blast
  ultimately show thesis using that W by blast
qed

lemma serve_refines:
  assumes "\<And>c k V w m. rate_bucket js rt c = Some (k, V, w, m) \<Longrightarrow> W k = V \<and> 0 < V" "\<And>k. W k \<le> 600"
    "lm_Runtime lm = Some rt" "counters_ok W T (lm_Counters lm) u" "sorted (T # map ca_Now cs)" "0 \<le> T"
  shows "map rd_Allowed (fst (serve_calls js cs lm x)) = fixed_window (map (rate_bucket js rt) cs) u"
  using assms(3-)
proof (induction cs arbitrary: lm x u T)
  case (Cons c cs)
  obtain d lm1 x1 where d: "EvaluateRateLimit js (ca_Request c) (ca_ClientIP c) (ca_Country c) (ca_Risk c) (ca_Now c) lm x = (d, lm1, x1)"
    using prod_cases3 by blast
  obtain ds lm2 x2 where ds: "serve_calls js cs lm1 x1 = (ds, lm2, x2)" using prod_cases3 by blast
  have now: "T \<le> ca_Now c" "sorted (ca_Now c # map ca_Now cs)" "0 \<le> ca_Now c" using Cons.prems(3,4) by auto
  note ev = Evaluate_bucket [OF Cons.prems(1) d]
  show ?case
  proof (cases "rate_bucket js rt c")
    case None
    with ev have "rd_Allowed d" "lm1 = lm" by simp_all
    with Cons.IH [OF Cons.prems(1) counters_ok_later [OF Cons.prems(2) now(1)] now(2,3), of x1] None d ds
    show ?thesis by simp
  next
    case (Some b)
    obtain k V w m where b: "b = (k, V, w, m)" using prod_cases4 by blast
    with Some have bk: "rate_bucket js rt c = Some (k, V, w, m)" by simp
    have W: "W k = V" "0 < W k" using assms(1) [OF bk] by auto
    have "w = quot (unix (ca_Now c)) V" using bucket_policy [OF bk] by blast
    moreover have "0 \<le> unix (ca_Now c)" using now(3) by (simp add: unix_def)
    ultimately have w: "w = unix (ca_Now c) div W k" using W by (simp add: quot_nonneg)
    have hit: "count_hit k w m (ca_Now c) lm = (rd_Allowed d, lm1)" using ev bk by simp
    from count_hit_ok [OF Cons.prems(2) now(1) assms(2) W(2) w hit]
    have "rd_Allowed d = (u (k, w) < m)" and lm1: "lm_Runtime lm1 = Some rt"
      "counters_ok W (ca_Now c) (lm_Counters lm1) (if rd_Allowed d then u((k, w) := u (k, w) + 1) else u)"
      using Cons.prems(1) by auto
    with Cons.IH [OF lm1 now(2,3), of x1] bk d ds show ?thesis by (simp add: fun_upd_def)
  qed
qed simp

lemma serve_refines_built:
  assumes "buildRateLimitRuntimeFromRaw decode compile raw = Inr rt" "lm_Runtime lm = Some rt" "lm_Counters lm = []"
    "short_windows rt" "sorted (map ca_Now cs)" "list_all (\<lambda>c. 0 \<le> ca_Now c) cs"
  shows "map rd_Allowed (fst (serve_calls js cs lm x)) = fixed_window (map (rate_bucket js rt) cs) (\<lambda>_. 0)"
proof -
  obtain W where W: "\<And>c k V w m. rate_bucket js rt c = Some (k, V, w, m) \<Longrightarrow> W k = V \<and> 0 < V" "\<And>k. W k \<le> 600"
    using key_window [OF built_ids [OF assms(1)] assms(4), of js] by blast
  have ok: "counters_ok W 0 (lm_Counters lm) (\<lambda>_. 0)" using assms(3) by (simp add: counters_ok_def count_of_def)
  have sorted: "sorted (0 # map ca_Now cs)" using assms(5,6) by (auto simp: list_all_iff)
  show ?thesis by (rule serve_refines [OF W assms(2) ok sorted]) simp_all
qed

text \<open>
  C15: The limiter is a fixed-window limiter.  Over any sequence of requests at instants that
  do not decrease, starting from a reload, it allows exactly the requests which a table that
  counts the hits of every bucket in every window since then allows, provided no window is
  longer than the ten minutes after which the sweep forgets a counter.
\<close>

theorem rate_limit_is_a_fixed_window:
  assumes "buildRateLimitRuntimeFromRaw decode compile raw = Inr rt" "lm_Runtime lm = Some rt" "lm_Counters lm = []"
    "short_windows rt" "sorted (map ca_Now cs)" "list_all (\<lambda>c. 0 \<le> ca_Now c) cs"
  shows "map rd_Allowed (fst (serve_calls js cs lm x)) = fixed_window (map (rate_bucket js rt) cs) (\<lambda>_. 0)"
  by (rule serve_refines_built [OF assms])

subsection \<open>Bounds\<close>

definition in_bucket :: "string \<Rightarrow> int \<Rightarrow> bucket option \<Rightarrow> bool" where
  "in_bucket k w b = (case b of None \<Rightarrow> False | Some (k', W, w', m) \<Rightarrow> k' = k \<and> w' = w)"

definition allowed_in :: "string \<Rightarrow> int \<Rightarrow> bucket option list \<Rightarrow> bool list \<Rightarrow> nat" where
  \<comment> \<open>the requests of a bucket in a window that were let through\<close>
  "allowed_in k w bs ds = length (filter (\<lambda>(b, d). d \<and> in_bucket k w b) (zip bs ds))"

lemma fixed_window_bound:
  assumes "\<And>W m. Some (k, W, w, m) \<in> set bs \<Longrightarrow> m \<le> M" "u (k, w) \<le> M"
  shows "int (allowed_in k w bs (fixed_window bs u)) + u (k, w) \<le> M"
  using assms
proof (induction bs u rule: fixed_window.induct)
  case (2 bs u)
  then show ?case by (simp add: allowed_in_def in_bucket_def)
next
  case (3 k' W w' m bs u)
  show ?case
  proof (cases "u (k', w') < m")
    case True
    let ?u = "u((k', w') := u (k', w') + 1)"
    have "\<And>W m. Some (k, W, w, m) \<in> set bs \<Longrightarrow> m \<le> M" using "3.prems"(1) by (meson list.set_intros(2))
    moreover have "?u (k, w) \<le> M" using "3.prems"(1) [of W m] "3.prems"(2) True by auto
    ultimately have "int (allowed_in k w bs (fixed_window bs ?u)) + ?u (k, w) \<le> M" using "3.IH"(1) [OF True] by blast
    then show ?thesis using True by (auto simp: allowed_in_def in_bucket_def split: if_splits)
  next
    case False
    have "\<And>W m. Some (k, W, w, m) \<in> set bs \<Longrightarrow> m \<le> M" using "3.prems"(1) by (meson list.set_intros(2))
    with "3.IH"(2) [OF False] "3.prems"(2) have "int (allowed_in k w bs (fixed_window bs u)) + u (k, w) \<le> M" by blast
    then show ?thesis using False by (simp add: allowed_in_def)
  qed
qed (simp add: allowed_in_def)

lemma adaptive_le:
  assumes "0 \<le> rp_Limit p" "0 \<le> rp_Burst p" "scalable (rp_Limit p)" "scalable (rp_Burst p)"
  shows "i64 (rp_Limit (fst (applyAdaptiveRateLimit i p risk)) + rp_Burst (fst (applyAdaptiveRateLimit i p risk)))
    \<le> rp_Limit p + rp_Burst p"
proof -
  have top: "rp_Limit p + rp_Burst p < 2 ^ 63" using assms by (simp add: scalable_def)
  show ?thesis
  proof (cases "\<not> ri_AdaptiveEnabled i \<or> risk < ri_AdaptiveScoreThreshold i")
    case True
    with top assms(1,2) show ?thesis by (simp add: applyAdaptiveRateLimit_def i64_id)
  next
    case False
    then obtain a b where e: "rp_Limit (fst (applyAdaptiveRateLimit i p risk)) = scaleRateLimitValue (rp_Limit p) (clampAdaptivePercent a) 1"
        "rp_Burst (fst (applyAdaptiveRateLimit i p risk)) = scaleRateLimitValue (rp_Burst p) (clampAdaptivePercent b) 0"
      by (auto simp: applyAdaptiveRateLimit_def Let_def)
    have "0 \<le> scaleRateLimitValue (rp_Limit p) (clampAdaptivePercent a) 1"
      "scaleRateLimitValue (rp_Limit p) (clampAdaptivePercent a) 1 \<le> rp_Limit p"
      "0 \<le> scaleRateLimitValue (rp_Burst p) (clampAdaptivePercent b) 0"
      "scaleRateLimitValue (rp_Burst p) (clampAdaptivePercent b) 0 \<le> rp_Burst p"
      using scale_bounds [of "rp_Limit p" "clampAdaptivePercent a" 1] scale_bounds [of "rp_Burst p" "clampAdaptivePercent b" 0]
        clampAdaptive_range [of a] clampAdaptive_range [of b] assms by auto
    then show ?thesis unfolding e using top by (subst i64_id) simp_all
  qed
qed

text \<open>
  No client exceeds its budget.  In every window of a policy, whatever the risk scores of
  the requests and whatever other requests come in between, at most \<open>limit + burst\<close> requests
  with the same identity are allowed.
\<close>

theorem window_budget_is_kept:
  assumes "buildRateLimitRuntimeFromRaw decode compile raw = Inr rt" "lm_Runtime lm = Some rt" "lm_Counters lm = []"
    "short_windows rt" "sorted (map ca_Now cs)" "list_all (\<lambda>c. 0 \<le> ca_Now c) cs"
    "pick_of rt p pid" "0 \<le> rp_Limit p" "0 \<le> rp_Burst p" "scalable (rp_Limit p)" "scalable (rp_Burst p)"
  shows "int (allowed_in (pid @ ''|'' @ key) w (map (rate_bucket js rt) cs) (map rd_Allowed (fst (serve_calls js cs lm x))))
    \<le> rp_Limit p + rp_Burst p"
proof -
  have "m \<le> rp_Limit p + rp_Burst p"
    if "Some (pid @ ''|'' @ key, W, w, m) \<in> set (map (rate_bucket js rt) cs)" for W m
  proof -
    from that obtain c where b: "rate_bucket js rt c = Some (pid @ ''|'' @ key, W, w, m)" by auto
    from bucket_policy [OF b] obtain q qid l where q: "pick_of rt q qid" "pid @ ''|'' @ key = qid @ ''|'' @ l"
      "m = i64 (rp_Limit (fst (applyAdaptiveRateLimit (rc_Identity (rt_Raw rt)) q (ca_Risk c)))
        + rp_Burst (fst (applyAdaptiveRateLimit (rc_Identity (rt_Raw rt)) q (ca_Risk c))))" by blast
    from key_policy [OF built_ids [OF assms(1)] assms(7) q(1,2)] have "p = q" .
    with q(3) adaptive_le [OF assms(8-11)] show ?thesis by simp
  qed
  moreover have "0 \<le> rp_Limit p + rp_Burst p" using assms(8,9) by simp
  ultimately have "int (allowed_in (pid @ ''|'' @ key) w (map (rate_bucket js rt) cs)
      (fixed_window (map (rate_bucket js rt) cs) (\<lambda>_. 0))) + (\<lambda>_. 0) (pid @ ''|'' @ key, w) \<le> rp_Limit p + rp_Burst p"
    by (intro fixed_window_bound) auto
  moreover have "map rd_Allowed (fst (serve_calls js cs lm x)) = fixed_window (map (rate_bucket js rt) cs) (\<lambda>_. 0)"
    by (rule serve_refines_built [OF assms(1-6)])
  ultimately show ?thesis by simp
qed

subsection \<open>Accepted documents\<close>

definition policy_ok :: "rateLimitPolicy \<Rightarrow> bool" where
  "policy_ok p = (400 \<le> ra_Status (rp_Action p) \<and> ra_Status (rp_Action p) \<le> 599 \<and> 0 \<le> ra_RetryAfterSeconds (rp_Action p)
     \<and> 0 \<le> rp_Burst p \<and> rp_KeyBy p \<in> set rateLimitKeys \<and> (rp_Enabled p \<longrightarrow> 0 < rp_Limit p \<and> 0 < rp_WindowSeconds p))"

lemma normalizePolicy_ok: "normalizeRateLimitPolicy p f = Inr q \<Longrightarrow> policy_ok q"
  by (auto simp: normalizeRateLimitPolicy_def Let_def bindR_Inr guardR_def policy_ok_def split: if_splits)

definition rule_ok :: "compiledRateLimitRule \<Rightarrow> bool" where
  "rule_ok c = (policy_ok (cr_Policy c) \<and> rr_MatchValue (cr_Raw c) \<noteq> []
     \<and> rr_MatchType (cr_Raw c) \<in> set [''exact'', ''prefix'', ''regex'']
     \<and> ((cr_Regex c \<noteq> None) = (rr_MatchType (cr_Raw c) = ''regex''))
     \<and> distinct (cr_Methods c) \<and> list_all (\<lambda>m. m \<noteq> [] \<and> ToUpper m = m) (cr_Methods c))"

lemma compile_rule_ok:
  assumes "compile_rule compile i r = Inr c"
  shows "rule_ok c"
proof -
  have ms: "list_all (\<lambda>m. m \<noteq> [] \<and> ToUpper m = m) (clean_list (\<lambda>m. ToUpper (TrimSpace m)) ms)" for ms
    by (auto simp: list_all_iff dest!: clean_list_fixed)
  show ?thesis
    using assms ms
    by (auto simp: compile_rule_def Let_def bindR_Inr guardR_def rule_ok_def trim_rule_def
        dest: normalizePolicy_ok split: if_splits sum.splits)
qed

lemma accepted_parts_ok:
  assumes "buildRateLimitRuntimeFromRaw decode compile raw = Inr rt"
  shows "policy_ok (rt_DefaultPolicy rt) \<and> list_all rule_ok (rt_Rules rt) \<and> distinct (map cr_PolicyID (rt_Rules rt))
    \<and> ''default'' \<notin> set (map cr_PolicyID (rt_Rules rt))"
proof -
  note b = assms
  obtain cfg0 :: rateLimitConfig and dp :: rateLimitPolicy where dp: "normalizeRateLimitPolicy dp ''default_policy'' = Inr (rt_DefaultPolicy rt)"
    and cs: "compile_rules compile 0 (rc_Rules cfg0) = Inr (rt_Rules rt)" using built_parts [OF b] by blast
  have "list_all rule_ok (rt_Rules rt)"
    using compile_rules_nth [OF cs] compile_rule_ok by (fastforce simp: list_all_length)
  moreover have "distinct (map cr_PolicyID (rt_Rules rt))"
    unfolding distinct_conv_nth
  proof (intro allI impI)
    fix i j assume ij: "i < length (map cr_PolicyID (rt_Rules rt))" "j < length (map cr_PolicyID (rt_Rules rt))" "i \<noteq> j"
    with built_ids [OF b] obtain n n' where "cr_PolicyID (rt_Rules rt ! i) = ''rule:'' @ Itoa (int i) @ '':'' @ n"
      "cr_PolicyID (rt_Rules rt ! j) = ''rule:'' @ Itoa (int j) @ '':'' @ n'" unfolding ids_ok_def length_map by blast
    with ij show "map cr_PolicyID (rt_Rules rt) ! i \<noteq> map cr_PolicyID (rt_Rules rt) ! j"
      using rule_key_eq [of i n j n'] by simp
  qed
  moreover have "''default'' \<notin> set (map cr_PolicyID (rt_Rules rt))"
  proof
    assume "''default'' \<in> set (map cr_PolicyID (rt_Rules rt))"
    then obtain i where i: "i < length (rt_Rules rt)" "cr_PolicyID (rt_Rules rt ! i) = ''default''"
      by (auto simp: in_set_conv_nth)
    with built_ids [OF b] obtain n where "cr_PolicyID (rt_Rules rt ! i) = ''rule:'' @ Itoa (int i) @ '':'' @ n"
      unfolding ids_ok_def by blast
    with i show False by simp
  qed
  ultimately show ?thesis using normalizePolicy_ok [OF dp] by blast
qed


subsection \<open>The reply to a blocked request\<close>

lemma blocked_decision:
  assumes "lm_Runtime lm = Some rt"
    "EvaluateRateLimit js (ca_Request c) (ca_ClientIP c) (ca_Country c) (ca_Risk c) (ca_Now c) lm x = (d, lm', x')"
    "\<not> rd_Allowed d"
  shows "\<exists>p pid k W w m. pick_of rt p pid \<and> rate_bucket js rt c = Some (k, W, w, m) \<and> W = rp_WindowSeconds p \<and> rp_Enabled p
    \<and> rd_Status d = (if ra_Status (rp_Action p) = 0 then 429 else ra_Status (rp_Action p)) \<and> rd_PolicyID d = pid
    \<and> rd_RetryAfterSeconds d = (if ra_RetryAfterSeconds (rp_Action p) \<le> 0
        then max 1 (i64 (i64 ((w + 1) * W) - unix (ca_Now c))) else ra_RetryAfterSeconds (rp_Action p))"
proof -
  obtain p pid where p: "call_policy rt c = (p, pid)" by fastforce
  then have po: "pick_of rt p pid" by (auto simp: call_policy_def split: option.splits dest: pick_is)
  obtain e ad where e: "applyAdaptiveRateLimit (rc_Identity (rt_Raw rt)) p (ca_Risk c) = (e, ad)" by fastforce
  have same: "rp_WindowSeconds e = rp_WindowSeconds p" "rp_Action e = rp_Action p"
    using adaptive_same [of "rc_Identity (rt_Raw rt)" p "ca_Risk c"] e by simp_all
  let ?key = "buildRateLimitKey (rp_KeyBy e) (normalizeClientIP (ca_ClientIP c)) (normalizeCountryCode (ca_Country c))
    (request_identity js (ca_Request c) (rc_Identity (rt_Raw rt)))"
  obtain a l where h: "count_hit (pid @ ''|'' @ ?key) (quot (unix (ca_Now c)) (rp_WindowSeconds p))
    (i64 (rp_Limit e + rp_Burst e)) (ca_Now c) lm = (a, l)" by fastforce
  have pick: "(case (case ca_Request c of None \<Rightarrow> (''GET'', []) | Some q \<Rightarrow> (rq_Method q, url_Path (rq_URL q))) of
      (m, path) \<Rightarrow> f (pickRateLimitPolicy rt m path)) = f (p, pid)" for f :: "_ \<Rightarrow> rateLimitDecision \<times> limiter \<times> rateLimitStats"
    using p by (simp add: call_policy_def split: option.splits)
  have "rate_bucket js rt c = Some (pid @ ''|'' @ ?key, rp_WindowSeconds p,
        quot (unix (ca_Now c)) (rp_WindowSeconds p), i64 (rp_Limit e + rp_Burst e)) \<and> rp_Enabled p
    \<and> rd_Status d = (if ra_Status (rp_Action p) = 0 then 429 else ra_Status (rp_Action p)) \<and> rd_PolicyID d = pid
    \<and> rd_RetryAfterSeconds d = (if ra_RetryAfterSeconds (rp_Action p) \<le> 0
        then max 1 (i64 (i64 ((quot (unix (ca_Now c)) (rp_WindowSeconds p) + 1) * rp_WindowSeconds p) - unix (ca_Now c)))
        else ra_RetryAfterSeconds (rp_Action p))"
    using assms(2,3) h
    unfolding EvaluateRateLimit_def rate_bucket_def Let_def pick assms(1) p e option.case prod.case fst_conv snd_conv same
    by (auto simp: allow_decision_def max_def split: if_splits)
  with po show ?thesis by blast
qed

text \<open>
  The reply to a blocked request carries an error status and a positive waiting time; when
  the policy sets none, waiting that long leads exactly to the start of the next window of
  the policy, and no shorter time does.
\<close>

theorem blocked_reply_waits_for_the_next_window:
  assumes "buildRateLimitRuntimeFromRaw decode compile raw = Inr rt" "lm_Runtime lm = Some rt"
    "EvaluateRateLimit js r ip cc risk now lm x = (d, lm', x')" "\<not> rd_Allowed d" "0 \<le> now" "now < 2 ^ 62"
    "list_all (\<lambda>c. rp_WindowSeconds (cr_Policy c) < 2 ^ 62) (rt_Rules rt)" "rp_WindowSeconds (rt_DefaultPolicy rt) < 2 ^ 62"
  shows "400 \<le> rd_Status d \<and> rd_Status d \<le> 599 \<and> 1 \<le> rd_RetryAfterSeconds d
    \<and> (\<exists>p. pick_of rt p (rd_PolicyID d) \<and> (ra_RetryAfterSeconds (rp_Action p) = 0 \<longrightarrow>
          (unix now + rd_RetryAfterSeconds d) mod rp_WindowSeconds p = 0
        \<and> rd_RetryAfterSeconds d \<le> rp_WindowSeconds p))"
proof -
  let ?c = "\<lparr>ca_Request = r, ca_ClientIP = ip, ca_Country = cc, ca_Risk = risk, ca_Now = now\<rparr>"
  obtain p pid k W w m where b: "pick_of rt p pid" "rate_bucket js rt ?c = Some (k, W, w, m)" "W = rp_WindowSeconds p" "rp_Enabled p"
    "rd_Status d = (if ra_Status (rp_Action p) = 0 then 429 else ra_Status (rp_Action p))" "rd_PolicyID d = pid"
    "rd_RetryAfterSeconds d = (if ra_RetryAfterSeconds (rp_Action p) \<le> 0
        then max 1 (i64 (i64 ((w + 1) * W) - unix now)) else ra_RetryAfterSeconds (rp_Action p))"
    using blocked_decision [OF assms(2), of js ?c x d lm' x'] assms(3,4) by auto
  have ok: "policy_ok p"
    using accepted_parts_ok [OF assms(1)] b(1) by (auto simp: pick_of_def list_all_iff rule_ok_def)
  have W: "0 < W" "W < 2 ^ 62"
    using ok b(1,3,4) assms(7,8) by (auto simp: policy_ok_def pick_of_def list_all_iff)
  have w: "w = unix now div W" "0 \<le> unix now" "unix now < 2 ^ 62"
    using bucket_policy [OF b(2)] W(1) assms(5,6) by (auto simp: quot_nonneg unix_def)
  have next_start: "(w + 1) * W = unix now - unix now mod W + W"
    by (simp add: w(1) minus_mod_eq_div_mult algebra_simps)
  have md: "0 \<le> unix now mod W" "unix now mod W < W" "unix now mod W \<le> unix now"
    using W w by (simp_all add: zmod_le_nonneg_dividend)
  have "unix now < 4611686018427387904" "W < 4611686018427387904" using w(3) W(2) by simp_all
  with next_start md W w have top: "0 \<le> (w + 1) * W" "(w + 1) * W < 9223372036854775808" "(w + 1) * W - unix now = W - unix now mod W"
    "W - unix now mod W < 9223372036854775808" "0 \<le> W - unix now mod W"
    by linarith+
  then have left: "i64 (i64 ((w + 1) * W) - unix now) = W - unix now mod W"
    by (subst i64_id [of "(w + 1) * W"]; simp add: i64_id)
  have "unix now + (W - unix now mod W) = (w + 1) * W" using next_start by simp
  then have "(unix now + (W - unix now mod W)) mod W = 0" by simp
  then show ?thesis
    using b ok left md by (auto simp: policy_ok_def)
qed

subsection \<open>Counters that are lost\<close>

text \<open>
  A budget does not hold when a window is longer than ten minutes, or when the instants of two
  requests at the edge of a window arrive in the other order.  A client that used up its
  budget more than ten minutes ago is allowed again in the same window after the sweep that
  some other request triggers; and one that used it up in this window is allowed again after
  a request that carries an instant of the window before.
\<close>

theorem counters_are_forgotten_early:
  assumes "distinct (map fst (lm_Counters lm))" "map_of (lm_Counters lm) k = Some c" "rn_WindowID c = w" "mx \<le> rn_Count c"
    "0 < mx" "k' \<noteq> k" "i64 (lm_Sweep lm + 1) mod 1000 = 0" "rn_Updated c + 600 * 1000000000 < now" "w' \<noteq> w"
  shows "\<not> fst (count_hit k w mx now lm)
    \<and> fst (count_hit k w mx now (snd (count_hit k' v mx' now lm)))
    \<and> fst (count_hit k w mx now (snd (count_hit k w' mx earlier lm)))"
  using assms
  by (auto simp: count_hit_def Let_def map_of_sweep distinct_aput i64_def fresh_counter_def)

subsection \<open>Concrete runs\<close>

definition demo_config :: rateLimitConfig where
  "demo_config = \<lparr>rc_Enabled = True, rc_AllowlistIPs = [], rc_AllowlistCountries = [''jp''],
     rc_DefaultPolicy = zero_policy,
     rc_Rules = [\<lparr>rr_Name = ''login'', rr_MatchType = ''prefix'', rr_MatchValue = ''/'', rr_Methods = [],
       rr_Policy = \<lparr>rp_Enabled = True, rp_Limit = 1, rp_WindowSeconds = 60, rp_Burst = 0, rp_KeyBy = '' IP'',
         rp_Action = \<lparr>ra_Status = 0, ra_RetryAfterSeconds = 0\<rparr>\<rparr>\<rparr>],
     rc_Identity = \<lparr>ri_SessionCookieNames = [], ri_JWTHeaderNames = [], ri_JWTCookieNames = [], ri_AdaptiveEnabled = False,
       ri_AdaptiveScoreThreshold = 0, ri_AdaptiveLimitFactorPct = 0, ri_AdaptiveBurstFactorPct = 0\<rparr>\<rparr>"

abbreviation demo_build :: "runtimeRateLimitConfig result" where
  "demo_build \<equiv> buildRateLimitRuntimeFromRaw (\<lambda>_. Inr demo_config) (\<lambda>_. err [] []) []"

definition demo_policy :: rateLimitPolicy where
  "demo_policy = \<lparr>rp_Enabled = True, rp_Limit = 1, rp_WindowSeconds = 60, rp_Burst = 0, rp_KeyBy = ''ip'',
     rp_Action = \<lparr>ra_Status = 429, ra_RetryAfterSeconds = 0\<rparr>\<rparr>"

definition demo_rule :: compiledRateLimitRule where
  "demo_rule = \<lparr>cr_Raw = hd (rc_Rules demo_config), cr_Policy = demo_policy, cr_Methods = [], cr_Regex = None,
     cr_PolicyID = ''rule:0:login''\<rparr>"

definition demo_rules :: runtimeRateLimitConfig where
  "demo_rules = \<lparr>rt_Raw = demo_config\<lparr>rc_AllowlistCountries := [''JP''], rc_DefaultPolicy := builtin_policy,
       rc_Rules := [(hd (rc_Rules demo_config))\<lparr>rr_Policy := demo_policy\<rparr>],
       rc_Identity := normalizeRateLimitIdentityConfig (rc_Identity demo_config)\<rparr>,
     rt_AllowlistPrefixes = [], rt_AllowCountries = [''JP''], rt_Rules = [demo_rule], rt_DefaultPolicy = builtin_policy\<rparr>"

lemma demo_builds: "demo_build = Inr demo_rules"
proof -
  have r: "compile_rule (\<lambda>_. err [] []) 0 (hd (rc_Rules demo_config)) = Inr demo_rule"
  proof -
    have "TrimSpace ''prefix'' = ''prefix''" "ToLower ''prefix'' = ''prefix''" "TrimSpace ''/'' = ''/''"
      "TrimSpace ''login'' = ''login''" "Itoa 0 = ''0''" "ToLower (TrimSpace '' IP'') = ''ip''"
      by code_simp+
    then show ?thesis
      by (simp add: compile_rule_def trim_rule_def demo_config_def demo_rule_def demo_policy_def bindR_def guardR_def
          normalizeRateLimitPolicy_def rateLimitKeys_def Let_def)
  qed
  have c: "clean_list normalizeCountryCode [''jp''] = [''JP'']" "sortedKeys [''JP''] = [''JP'']" "sortedMethodList [] = []"
    by code_simp+
  have dp: "normalizeRateLimitPolicy builtin_policy ''default_policy'' = Inr builtin_policy"
  proof -
    have "ToLower (TrimSpace ''ip'') = ''ip''" by code_simp
    then show ?thesis
      by (simp add: normalizeRateLimitPolicy_def builtin_policy_def bindR_def guardR_def rateLimitKeys_def Let_def)
  qed
  have "rc_Rules demo_config = [hd (rc_Rules demo_config)]" by (simp add: demo_config_def)
  then have cs: "compile_rules (\<lambda>_. err [] []) 0 (rc_Rules demo_config) = Inr [demo_rule]"
  proof -
    have "compile_rules (\<lambda>_. err [] []) 0 [hd (rc_Rules demo_config)] = Inr [demo_rule]"
      by (simp only: compile_rules.simps r bindR_def sum.case)
    with \<open>rc_Rules demo_config = _\<close> show ?thesis by simp
  qed
  have cfg: "rc_DefaultPolicy demo_config = zero_policy" "rc_AllowlistIPs demo_config = []"
    "rc_AllowlistCountries demo_config = [''jp'']" by (simp_all add: demo_config_def)
  have one: "bindR (Inr x) f = f x" for x :: 'a and f :: "'a \<Rightarrow> 'b result" by (simp add: bindR_def)
  have "map rule_back [demo_rule] = [(hd (rc_Rules demo_config))\<lparr>rr_Policy := demo_policy\<rparr>]"
    by (simp add: rule_back_def demo_rule_def demo_config_def c)
  then show ?thesis
    unfolding buildRateLimitRuntimeFromRaw_def Let_def
    by (simp add: one dp cs c cfg demo_rules_def)
qed

definition demo_limiter :: limiter where
  "demo_limiter = \<lparr>lm_Runtime = Some demo_rules, lm_Counters = [], lm_Sweep = 0\<rparr>"

definition demo_call :: "string \<Rightarrow> int \<Rightarrow> rate_call" where
  "demo_call ip now = \<lparr>ca_Request = Some \<lparr>rq_Method = ''GET'', rq_Host = ''h'',
       rq_URL = empty_URL\<lparr>url_Path := ''/x''\<rparr>, rq_Header = [], rq_RemoteAddr = [],
       rq_Body = NoBody, rq_ContentLength = 0\<rparr>,
     ca_ClientIP = ip, ca_Country = [], ca_Risk = 0, ca_Now = now\<rparr>"

definition demo_calls :: "rate_call list" where
  "demo_calls = [demo_call ''1.1.1.1'' 61000000000, demo_call ''1.1.1.1'' 119000000000, demo_call ''10.1.1.1'' 119000000000,
     demo_call ''1.1.1.1'' 120000000000]"

definition demo_stats :: rateLimitStats where
  "demo_stats = \<lparr>rx_Requests = 0, rx_Allowed = 0, rx_Blocked = 0, rx_AdaptiveDecisions = 0\<rparr>"

lemma demo_facts:
  "lm_Runtime demo_limiter = Some demo_rules" "lm_Counters demo_limiter = []" "short_windows demo_rules"
  "sorted (map ca_Now demo_calls)" "list_all (\<lambda>c. 0 \<le> ca_Now c) demo_calls"
  by (simp add: demo_limiter_def, simp add: demo_limiter_def, code_simp, code_simp, code_simp)

theorem rate_limit_is_a_fixed_window_witness:
  "map rd_Allowed (fst (serve_calls (\<lambda>_. []) demo_calls demo_limiter demo_stats)) = [True, False, True, True]"
proof -
  have "fixed_window (map (rate_bucket (\<lambda>_. []) demo_rules) demo_calls) (\<lambda>_. 0) = [True, False, True, True]"
    by code_simp
  then show ?thesis by (simp only: rate_limit_is_a_fixed_window [OF demo_builds demo_facts])
qed

theorem window_budget_is_kept_witness:
  "int (allowed_in (''rule:0:login'' @ ''|'' @ ''1.1.1.1'') 1 (map (rate_bucket (\<lambda>_. []) demo_rules) demo_calls)
     (map rd_Allowed (fst (serve_calls (\<lambda>_. []) demo_calls demo_limiter demo_stats)))) \<le> 1"
proof -
  let ?p = "cr_Policy (hd (rt_Rules demo_rules))"
  have "rt_Rules demo_rules \<noteq> []" "cr_PolicyID (hd (rt_Rules demo_rules)) = ''rule:0:login''" by code_simp+
  then have pick: "pick_of demo_rules ?p ''rule:0:login''" by (auto simp: pick_of_def intro!: bexI [of _ "hd (rt_Rules demo_rules)"])
  have num: "rp_Limit ?p = 1" "rp_Burst ?p = 0" by code_simp+
  show ?thesis
    using window_budget_is_kept [OF demo_builds demo_facts pick, of "''1.1.1.1''" 1 "\<lambda>_. []" demo_stats]
    by (simp add: num scalable_def)
qed


theorem blocked_reply_waits_for_the_next_window_witness:
  "\<exists>lm d lm' x'. EvaluateRateLimit (\<lambda>_. []) (ca_Request (demo_call [] 0)) ''1.1.1.1'' [] 0 119000000000 lm demo_stats
     = (d, lm', x') \<and> \<not> rd_Allowed d \<and> 1 \<le> rd_RetryAfterSeconds d"
proof -
  let ?lm = "demo_limiter\<lparr>lm_Counters := [(''rule:0:login|1.1.1.1'', \<lparr>rn_WindowID = 1, rn_Count = 1, rn_Updated = 0\<rparr>)]\<rparr>"
  let ?c = "demo_call ''1.1.1.1'' 119000000000"
  obtain d lm' x' where run: "EvaluateRateLimit (\<lambda>_. []) (ca_Request (demo_call [] 0)) ''1.1.1.1'' [] 0 119000000000 ?lm demo_stats
     = (d, lm', x')" using prod_cases3 by blast
  have lm: "lm_Runtime ?lm = Some demo_rules" by (simp add: demo_limiter_def)
  have b: "rate_bucket (\<lambda>_. []) demo_rules ?c = Some (''rule:0:login|1.1.1.1'', 60, 1, 1)" by code_simp
  have blocked: "\<not> rd_Allowed d"
    using Evaluate_bucket [OF lm, of "\<lambda>_. []" ?c demo_stats d lm' x'] run
    by (simp add: b) (simp add: demo_call_def count_hit_def Let_def)
  have small: "list_all (\<lambda>c. rp_WindowSeconds (cr_Policy c) < 2 ^ 62) (rt_Rules demo_rules)"
    "rp_WindowSeconds (rt_DefaultPolicy demo_rules) < 2 ^ 62" by code_simp+
  from blocked_reply_waits_for_the_next_window [OF demo_builds lm run blocked _ _ small]
  have "1 \<le> rd_RetryAfterSeconds d" by simp
  then show ?thesis using run blocked by blast
qed

theorem counters_are_forgotten_early_witness:
  "\<exists>lm. \<not> fst (count_hit ''a'' 0 1 3000000000000 lm)
     \<and> fst (count_hit ''a'' 0 1 3000000000000 (snd (count_hit ''b'' 0 1 3000000000000 lm)))"
  using counters_are_forgotten_early [of "\<lparr>lm_Runtime = None,
      lm_Counters = [(''a'', \<lparr>rn_WindowID = 0, rn_Count = 1, rn_Updated = 0\<rparr>)], lm_Sweep = 999\<rparr>" "''a''"
      "\<lparr>rn_WindowID = 0, rn_Count = 1, rn_Updated = 0\<rparr>" 0 1 "''b''" 3000000000000 1 0 1 0]
  by (auto simp: i64_def)

end
