(* ===== verification/Cache_Rules.thy ===== *)
theory Cache_Rules
  imports Country_Block
begin

text \<open>
  The rules that say which responses may be cached: \<open>cacheconf\<close> (\<open>loader.go\<close>,
  \<open>serialize.go\<close>, \<open>api.go\<close>) and the handlers of \<open>cache_rules.go\<close>.  A compiled expression is
  its source text; whether one compiles is the parameter \<open>valid\<close> and whether it matches a
  path the parameter \<open>re_match\<close>.  A \<open>map[string]bool\<close> whose values are all true is the list
  of its keys.
\<close>

record cache_Match =
  cm_Type :: string
  cm_Value :: string

record RuleDTO =
  dt_Kind :: string
  dt_Match :: cache_Match
  dt_Methods :: "string list"
  dt_TTL :: int
  dt_Vary :: "string list"

record cache_Rule =
  cu_Kind :: string
  cu_Prefix :: string
  cu_Regex :: "string option"
  cu_Exact :: string
  cu_Methods :: "string list"
  cu_TTL :: int
  cu_Vary :: "string list"

subsection \<open>The text form\<close>

definition splitTrim :: "string \<Rightarrow> char \<Rightarrow> string list" where
  "splitTrim s sep = (if s = [] then [] else filter (\<lambda>p. p \<noteq> []) (map TrimSpace (SplitByte s sep)))"

definition rule_option :: "(string \<Rightarrow> bool) \<Rightarrow> cache_Rule \<Rightarrow> string \<Rightarrow> cache_Rule" where
  "rule_option valid r opt =
     (case SplitN2 opt (CHR ''='') of
        [k0, v] \<Rightarrow>
          (let k = ToLower k0 in
           if k = ''prefix'' then r\<lparr>cu_Prefix := v\<rparr>
           else if k = ''regex'' then (if valid v then r\<lparr>cu_Regex := Some v\<rparr> else r)
           else if k = ''exact'' then r\<lparr>cu_Exact := v\<rparr>
           else if k = ''methods'' then r\<lparr>cu_Methods := dedup (map (\<lambda>m. ToUpper (TrimSpace m)) (SplitByte v (CHR '','')))\<rparr>
           else if k = ''ttl'' then (case Atoi v of Some t \<Rightarrow> r\<lparr>cu_TTL := t\<rparr> | None \<Rightarrow> r)
           else if k = ''vary'' then r\<lparr>cu_Vary := splitTrim v (CHR '','')\<rparr>
           else r)
      | _ \<Rightarrow> r)"

definition empty_rule :: "string \<Rightarrow> cache_Rule" where
  "empty_rule kind = \<lparr>cu_Kind = kind, cu_Prefix = [], cu_Regex = None, cu_Exact = [], cu_Methods = [], cu_TTL = 600, cu_Vary = []\<rparr>"

definition cache_line :: "(string \<Rightarrow> bool) \<Rightarrow> string \<Rightarrow> cache_Rule option" where
  "cache_line valid l =
     (let line = TrimSpace l in
      if line = [] \<or> HasPrefix line ''#'' then None
      else case Fields line of
        kind # opt # opts \<Rightarrow> Some (foldl (rule_option valid) (empty_rule (ToUpper kind)) (opt # opts))
      | _ \<Rightarrow> None)"

definition parseScanner :: "(string \<Rightarrow> bool) \<Rightarrow> string \<Rightarrow> (cache_Rule list) result" where
  "parseScanner valid s =
     (case scan_lines s of (ls, tooLong) \<Rightarrow>
        if tooLong then err ''bufio.Scanner: token too long'' [] else Inr (List.map_filter (cache_line valid) ls))"

definition LoadFromString :: "(string \<Rightarrow> bool) \<Rightarrow> string \<Rightarrow> (cache_Rule list) result" where
  "LoadFromString valid s = parseScanner valid s"

definition LoadFromBytes :: "(string \<Rightarrow> bool) \<Rightarrow> string \<Rightarrow> (cache_Rule list) result" where
  "LoadFromBytes valid b = LoadFromString valid b"

definition cache_Load :: "(string \<Rightarrow> bool) \<Rightarrow> storage \<Rightarrow> (cache_Rule list) result \<times> storage" where
  "cache_Load valid st = (case ReadFile st of
       (Inl e, st') \<Rightarrow> (Inl e, st')
     | (Inr raw, st') \<Rightarrow> (parseScanner valid raw, st'))"

subsection \<open>Matching\<close>

fun cache_Match_rules :: "(string \<Rightarrow> string \<Rightarrow> bool) \<Rightarrow> cache_Rule list \<Rightarrow> string \<Rightarrow> string \<Rightarrow> cache_Rule option \<times> bool" where
  \<comment> \<open>the method is already in upper case\<close>
  "cache_Match_rules re_match [] m path = (None, False)"
| "cache_Match_rules re_match (r # rs) m path =
     (if cu_Methods r \<noteq> [] \<and> m \<notin> set (cu_Methods r) then cache_Match_rules re_match rs m path
      else if cu_Exact r \<noteq> [] \<and> path = cu_Exact r then (Some r, cu_Kind r = ''ALLOW'')
      else if cu_Prefix r \<noteq> [] \<and> HasPrefix path (cu_Prefix r) then (Some r, cu_Kind r = ''ALLOW'')
      else (case cu_Regex r of
              Some re \<Rightarrow> if re_match re path then (Some r, cu_Kind r = ''ALLOW'') else cache_Match_rules re_match rs m path
            | None \<Rightarrow> cache_Match_rules re_match rs m path))"

definition Ruleset_Match :: "(string \<Rightarrow> string \<Rightarrow> bool) \<Rightarrow> cache_Rule list \<Rightarrow> string \<Rightarrow> string \<Rightarrow> cache_Rule option \<times> bool" where
  "Ruleset_Match re_match rs m path = cache_Match_rules re_match rs (ToUpper m) path"

subsection \<open>The structured form\<close>

definition rule_to_dto :: "cache_Rule \<Rightarrow> RuleDTO" where
  "rule_to_dto r =
     \<lparr>dt_Kind = ToUpper (cu_Kind r),
      dt_Match = (if cu_Exact r \<noteq> [] then \<lparr>cm_Type = ''exact'', cm_Value = cu_Exact r\<rparr>
        else if cu_Prefix r \<noteq> [] then \<lparr>cm_Type = ''prefix'', cm_Value = cu_Prefix r\<rparr>
        else case cu_Regex r of Some re \<Rightarrow> \<lparr>cm_Type = ''regex'', cm_Value = re\<rparr> | None \<Rightarrow> \<lparr>cm_Type = [], cm_Value = []\<rparr>),
      dt_Methods = (let ms = map ToUpper (cu_Methods r) in if ms = [] then [''GET'', ''HEAD''] else sort_by string_less ms),
      dt_TTL = cu_TTL r, dt_Vary = cu_Vary r\<rparr>"

definition ToDTO :: "cache_Rule list option \<Rightarrow> RuleDTO list" where
  "ToDTO rs = (case rs of None \<Rightarrow> [] | Some l \<Rightarrow> map rule_to_dto l)"

fun dto_methods :: "nat \<Rightarrow> string list \<Rightarrow> string list \<Rightarrow> string list \<times> goerr list" where
  \<comment> \<open>the methods kept so far, the errors of the rest\<close>
  "dto_methods i ms [] = (ms, [])"
| "dto_methods i ms (m # rest) =
     (let mu = ToUpper (TrimSpace m) in
      if mu = [] then dto_methods i ms rest
      else if mu = ''GET'' \<or> mu = ''HEAD'' then dto_methods i (if mu \<in> set ms then ms else ms @ [mu]) rest
      else (case dto_methods i ms rest of (out, errs) \<Rightarrow>
              (out, Errorf ''rules[%d]: unsupported method %q (only GET/HEAD)'' [Itoa (int i), mu] # errs)))"

definition dto_match :: "(string \<Rightarrow> bool) \<Rightarrow> nat \<Rightarrow> cache_Match \<Rightarrow> cache_Rule \<Rightarrow> cache_Rule \<times> goerr list" where
  "dto_match valid i m r =
     (let t = ToLower (cm_Type m); v = cm_Value m; n = [Itoa (int i)] in
      if t = ''prefix'' then (r\<lparr>cu_Prefix := v\<rparr>, if v = [] then [Errorf ''rules[%d]: prefix value required'' n] else [])
      else if t = ''regex'' then
        (if v = [] then (r, [Errorf ''rules[%d]: regex value required'' n])
         else if \<not> valid v then (r, [Errorf ''rules[%d]: invalid regex: %v'' n])
         else (r\<lparr>cu_Regex := Some v\<rparr>, []))
      else if t = ''exact'' then (r\<lparr>cu_Exact := v\<rparr>, if v = [] then [Errorf ''rules[%d]: exact value required'' n] else [])
      else (r, [Errorf ''rules[%d]: match.type must be prefix|regex|exact'' n]))"

definition dto_rule :: "(string \<Rightarrow> bool) \<Rightarrow> nat \<Rightarrow> RuleDTO \<Rightarrow> cache_Rule \<times> goerr list" where
  "dto_rule valid i d =
     (let n = [Itoa (int i)];
          r0 = (empty_rule (ToUpper (dt_Kind d)))\<lparr>cu_TTL := dt_TTL d, cu_Vary := dt_Vary d\<rparr>;
          e0 = (if cu_Kind r0 \<noteq> ''ALLOW'' \<and> cu_Kind r0 \<noteq> ''DENY'' then [Errorf ''rules[%d]: kind must be ALLOW or DENY'' n] else []);
          (r1, e1) = dto_match valid i (dt_Match d) r0;
          (ms, e2) = (if dt_Methods d = [] then ([''GET'', ''HEAD''], []) else dto_methods i [] (dt_Methods d));
          e3 = (if dt_TTL d < 0 then [Errorf ''rules[%d]: ttl must be >= 0'' n] else [])
      in (r1\<lparr>cu_Methods := ms\<rparr>, e0 @ e1 @ e2 @ e3))"

definition FromDTO :: "(string \<Rightarrow> bool) \<Rightarrow> RuleDTO list \<Rightarrow> goerr list + cache_Rule list" where
  "FromDTO valid dtos =
     (let out = mapi (dto_rule valid) dtos; errs = concat (map snd out) in
      if errs \<noteq> [] then Inl errs else Inr (map fst out))"

definition rule_parts :: "cache_Rule \<Rightarrow> string list" where
  "rule_parts r =
     [ToUpper (cu_Kind r)]
     @ (if cu_Exact r \<noteq> [] then [''exact='' @ cu_Exact r] else [])
     @ (if cu_Prefix r \<noteq> [] then [''prefix='' @ cu_Prefix r] else [])
     @ (case cu_Regex r of Some re \<Rightarrow> [''regex='' @ re] | None \<Rightarrow> [])
     @ (if cu_Methods r \<noteq> [] then [''methods='' @ join_with '','' (sort_by string_less (map ToUpper (cu_Methods r)))] else [])
     @ (if 0 < cu_TTL r then [''ttl='' @ Itoa (cu_TTL r)] else [])
     @ (if cu_Vary r \<noteq> [] then [''vary='' @ join_with '','' (cu_Vary r)] else [])"

definition RulesetToLines :: "cache_Rule list \<Rightarrow> string list" where
  "RulesetToLines rs = map (\<lambda>r. join_with '' '' (rule_parts r)) rs"

subsection \<open>Handlers\<close>

record crPutBody =
  pb_RawMode :: bool
  pb_Raw :: string
  pb_Rules :: "RuleDTO list"

definition cache_header :: "string list" where
  "cache_header =
     [''# cache.conf - Mamotama Cache Rules'',
      ''# Top-down evaluation; first match wins.'',
      ''# Syntax: ALLOW|DENY prefix=...|regex=...|exact=... methods=GET,HEAD ttl=<sec> vary=Header,Header'',
      []]"

definition cache_text :: "cache_Rule list \<Rightarrow> string" where
  "cache_text rs = join_with [newline] (cache_header @ RulesetToLines rs) @ [newline]"

definition cache_body :: "(string \<Rightarrow> bool) \<Rightarrow> crPutBody \<Rightarrow> goerr list + string" where
  \<comment> \<open>the text a body stands for\<close>
  "cache_body valid b =
     (if pb_RawMode b
      then (case LoadFromBytes valid (pb_Raw b) of Inl e \<Rightarrow> Inl [e] | Inr rs \<Rightarrow> Inr (pb_Raw b))
      else (case FromDTO valid (pb_Rules b) of Inl es \<Rightarrow> Inl es | Inr rs \<Rightarrow> Inr (cache_text rs)))"

datatype cache_reply =
    CacheBind goerr
  | CacheConflict string
  | CacheInvalid "goerr list"
  | CacheError goerr
  | CacheRolledBack goerr
  | CacheRollbackFailed goerr goerr
  | CacheStored string
  | CacheValid
  | CacheDocument string string "RuleDTO list"

definition ValidateCacheRules :: "(string \<Rightarrow> bool) \<Rightarrow> crPutBody result \<Rightarrow> cache_reply" where
  "ValidateCacheRules valid body =
     (case body of
        Inl e \<Rightarrow> CacheBind e
      | Inr b \<Rightarrow> (case (if pb_RawMode b then (case LoadFromBytes valid (pb_Raw b) of Inl e \<Rightarrow> Inl [e] | Inr rs \<Rightarrow> Inr rs)
                       else FromDTO valid (pb_Rules b)) of
            Inl es \<Rightarrow> CacheInvalid es | Inr rs \<Rightarrow> CacheValid))"

definition PutCacheRules :: "(string \<Rightarrow> bool) \<Rightarrow> string \<Rightarrow> crPutBody result \<Rightarrow> storage \<Rightarrow> cache_reply \<times> storage" where
  "PutCacheRules valid ifMatch body st =
     (case file_or_empty st of (curRaw, st1) \<Rightarrow>
      if ifMatch \<noteq> [] \<and> ifMatch \<noteq> ComputeETag curRaw then (CacheConflict (ComputeETag curRaw), st1)
      else (case body of
        Inl e \<Rightarrow> (CacheBind e, st1)
      | Inr b \<Rightarrow>
     (case cache_body valid b of
        Inl es \<Rightarrow> (CacheInvalid es, st1)
      | Inr out \<Rightarrow>
     (case AtomicWriteWithBackup out st1 of
        (Inl e, st2) \<Rightarrow> (CacheError e, st2)
      | (Inr _, st2) \<Rightarrow>
          (if \<not> so_Store st2 then (CacheStored (ComputeETag out), st2)
           else case UpsertConfigBlob out (ComputeETag out) st2 of
             (Inr _, st3) \<Rightarrow> (CacheStored (ComputeETag out), st3)
           | (Inl e, st3) \<Rightarrow> (case AtomicWriteWithBackup curRaw st3 of
                 (Inl e', st4) \<Rightarrow> (CacheRollbackFailed e e', st4)
               | (Inr _, st4) \<Rightarrow> (CacheRolledBack e, st4)))))))"

definition GetCacheRules :: "(string \<Rightarrow> bool) \<Rightarrow> cache_Rule list option \<Rightarrow> storage \<Rightarrow> cache_reply \<times> storage" where
  \<comment> \<open>the running rules come second\<close>
  "GetCacheRules valid running st =
     (case file_or_empty st of (raw, st1) \<Rightarrow>
      let fallback = CacheDocument (ComputeETag raw) raw (ToDTO running) in
      if \<not> so_Store st1 then (fallback, st1)
      else case GetConfigBlob st1 of
        (Inl e, st2) \<Rightarrow> (fallback, st2)
      | (Inr None, st2) \<Rightarrow> (fallback, if raw = [] then st2 else snd (UpsertConfigBlob raw (ComputeETag raw) st2))
      | (Inr (Some (b, t)), st2) \<Rightarrow>
          (case LoadFromBytes valid b of
             Inl e \<Rightarrow> (fallback, st2)
           | Inr rs \<Rightarrow> (CacheDocument (tag_or_etag t b) b (ToDTO (Some rs)),
                        if raw = b then st2 else snd (AtomicWriteWithBackup b st2))))"

definition SyncCacheRulesStorage :: "(string \<Rightarrow> bool) \<Rightarrow> cache_Rule list rules_state \<Rightarrow> unit result \<times> cache_Rule list rules_state" where
  \<comment> \<open>without a reload: the watcher of the file installs the rules\<close>
  "SyncCacheRulesStorage valid s =
     sync_blob_file (\<lambda>raw. bindR (LoadFromBytes valid raw) (\<lambda>_. Inr ())) None False True s"

definition cache_fire :: "(string \<Rightarrow> bool) \<Rightarrow> cache_Rule list option \<Rightarrow> storage \<Rightarrow> cache_Rule list option \<times> storage" where
  \<comment> \<open>the timer of the watcher: the new rules when the file can be read, else the old ones\<close>
  "cache_fire valid running st = (case cache_Load valid st of
       (Inl e, st') \<Rightarrow> (running, st') | (Inr rs, st') \<Rightarrow> (Some rs, st'))"

subsection \<open>Printing and reading back\<close>

lemma solid_ends: "solid w \<Longrightarrow> w \<noteq> [] \<and> hd w \<notin> set (concat space_seqs) \<and> last w \<notin> set (concat space_seqs)"
  by (simp add: solid_def)

lemma solid_Trim: "solid w \<Longrightarrow> TrimSpace w = w"
  using solid_ends by (intro TrimSpace_solid) blast

text \<open>Options read back what they print.\<close>

lemma rule_option_eq:
  "rule_option valid r (''exact='' @ v) = r\<lparr>cu_Exact := v\<rparr>"
  "rule_option valid r (''prefix='' @ v) = r\<lparr>cu_Prefix := v\<rparr>"
  "valid v \<Longrightarrow> rule_option valid r (''regex='' @ v) = r\<lparr>cu_Regex := Some v\<rparr>"
  "rule_option valid r (''methods='' @ v) =
     r\<lparr>cu_Methods := dedup (map (\<lambda>m. ToUpper (TrimSpace m)) (SplitByte v (CHR '','')))\<rparr>"
  "rule_option valid r (''ttl='' @ v) = (case Atoi v of Some t \<Rightarrow> r\<lparr>cu_TTL := t\<rparr> | None \<Rightarrow> r)"
  "rule_option valid r (''vary='' @ v) = r\<lparr>cu_Vary := splitTrim v (CHR '','')\<rparr>"
  by (simp_all add: rule_option_def SplitN2_def ToLower_def lower_char_def is_upper_def ord_def Let_def)

definition reread :: "cache_Rule \<Rightarrow> cache_Rule" where
  \<comment> \<open>a lifetime of 0 stands for the default, and methods are a set\<close>
  "reread r = r\<lparr>cu_TTL := (if cu_TTL r = 0 then 600 else cu_TTL r), cu_Methods := sort_by string_less (cu_Methods r)\<rparr>"

definition printable :: "(string \<Rightarrow> bool) \<Rightarrow> cache_Rule \<Rightarrow> bool" where
  "printable valid r = (cu_Kind r \<in> {''ALLOW'', ''DENY''} \<and> (cu_Exact r = [] \<or> solid (cu_Exact r))
     \<and> (cu_Prefix r = [] \<or> solid (cu_Prefix r)) \<and> (\<forall>re. cu_Regex r = Some re \<longrightarrow> solid re \<and> valid re)
     \<and> (cu_Exact r \<noteq> [] \<or> cu_Prefix r \<noteq> [] \<or> cu_Regex r \<noteq> None)
     \<and> set (cu_Methods r) \<subseteq> {''GET'', ''HEAD''} \<and> distinct (cu_Methods r) \<and> 0 \<le> cu_TTL r \<and> cu_TTL r < 2 ^ 63
     \<and> (\<forall>v\<in>set (cu_Vary r). solid v \<and> CHR '','' \<notin> set v))"

lemma methods_back:
  assumes "set ms \<subseteq> {''GET'', ''HEAD''}" "distinct ms" "ms \<noteq> []"
  shows "dedup (map (\<lambda>m. ToUpper (TrimSpace m)) (SplitByte (join_with '','' (sort_by string_less (map ToUpper ms))) (CHR '','')))
    = sort_by string_less ms"
proof -
  have up: "ToUpper m = m" "ToUpper (TrimSpace m) = m" "CHR '','' \<notin> set m" if "m \<in> {''GET'', ''HEAD''}" for m
  proof -
    have "ToUpper ''GET'' = ''GET''" "ToUpper ''HEAD'' = ''HEAD''" "TrimSpace ''GET'' = ''GET''" "TrimSpace ''HEAD'' = ''HEAD''"
      by code_simp+
    then show "ToUpper m = m" "ToUpper (TrimSpace m) = m" "CHR '','' \<notin> set m" using that by auto
  qed
  let ?s = "sort_by string_less ms"
  have s: "set ?s \<subseteq> {''GET'', ''HEAD''}" "distinct ?s" "?s \<noteq> []"
    using assms by (simp_all add: set_sort_by) (metis length_0_conv length_sort_by)
  have "map ToUpper ms = ms" using assms(1) up(1) by (intro map_id_on) blast
  moreover have "SplitByte (join_with '','' ?s) (CHR '','') = ?s" using s(1,3) up(3) by (intro SplitByte_join) auto
  moreover have "map (\<lambda>m. ToUpper (TrimSpace m)) ?s = ?s" using s(1) up(2) by (intro map_id_on) blast
  ultimately show ?thesis using s(2) by (simp add: dedup_id)
qed

lemma vary_back:
  assumes "\<forall>v\<in>set vs. solid v \<and> CHR '','' \<notin> set v" "vs \<noteq> []"
  shows "splitTrim (join_with '','' vs) (CHR '','') = vs"
proof -
  have "map TrimSpace vs = vs" using assms(1) by (intro map_id_on) (simp add: solid_Trim)
  moreover have "join_with '','' vs \<noteq> []" using assms by (intro join_ends [THEN conjunct1]) (auto simp: solid_def)
  moreover have "filter (\<lambda>p. p \<noteq> []) vs = vs" using assms(1) by (intro filter_all) (auto simp: solid_def)
  ultimately show ?thesis using SplitByte_join [of vs "CHR '',''"] assms by (simp add: splitTrim_def)
qed

lemma solid_append: "solid (a @ b) \<longleftrightarrow> (a @ b \<noteq> []) \<and> (\<forall>c\<in>set a \<union> set b. c \<notin> set (concat space_seqs))"
  by (auto simp: solid_def)

lemma plain_chars:
  "\<forall>c\<in>set ''exact=prefix=regex=methods=ttl=vary=,ALLOWDENYGETHEAD''. c \<notin> set (concat space_seqs)"
  by code_simp

lemma parts_solid:
  assumes "printable valid r"
  shows "\<forall>w\<in>set (rule_parts r). solid w"
proof -
  have plain: "\<forall>c\<in>set a. c \<notin> set (concat space_seqs)"
    if "set a \<subseteq> set ''exact=prefix=regex=methods=ttl=vary=,ALLOWDENYGETHEAD''" for a
    using plain_chars that by blast
  have ms: "\<forall>c\<in>set (join_with '','' (sort_by string_less (map ToUpper (cu_Methods r)))). c \<notin> set (concat space_seqs)"
  proof -
    have u: "ToUpper ''GET'' = ''GET''" "ToUpper ''HEAD'' = ''HEAD''" by code_simp+
    have "\<Union> (set ` set (sort_by string_less (map ToUpper (cu_Methods r)))) \<subseteq> set ''GETHEAD''"
      using assms u by (auto simp: printable_def set_sort_by)
    moreover have "set ''GETHEAD'' \<union> set '','' \<subseteq> set ''exact=prefix=regex=methods=ttl=vary=,ALLOWDENYGETHEAD''"
      by simp
    ultimately show ?thesis
      using set_join [of "'',''" "sort_by string_less (map ToUpper (cu_Methods r))"] by (intro plain) blast
  qed
  have vs: "\<forall>c\<in>set (join_with '','' (cu_Vary r)). c \<notin> set (concat space_seqs)"
  proof
    fix c assume "c \<in> set (join_with '','' (cu_Vary r))"
    then consider v where "v \<in> set (cu_Vary r)" "c \<in> set v" | "c = CHR '',''"
      using set_join [of "'',''" "cu_Vary r"] by auto
    then show "c \<notin> set (concat space_seqs)"
    proof cases
      case 1
      with assms show ?thesis by (auto simp: printable_def solid_def)
    next
      case 2
      then show ?thesis using plain [of "'',''"] by simp
    qed
  qed
  have ttl: "\<forall>c\<in>set (Itoa (cu_TTL r)). c \<notin> set (concat space_seqs)" if "0 < cu_TTL r"
    using that by (auto simp: Itoa_def dest!: digits_of_digit is_digit_solid)
  have kind: "ToUpper (cu_Kind r) = cu_Kind r" "solid (cu_Kind r)"
  proof -
    have u: "ToUpper ''ALLOW'' = ''ALLOW''" "ToUpper ''DENY'' = ''DENY''" "solid ''ALLOW''" "solid ''DENY''" by code_simp+
    show "ToUpper (cu_Kind r) = cu_Kind r" "solid (cu_Kind r)" using assms u by (auto simp: printable_def)
  qed
  have words: "solid (a @ v)" if "set a \<subseteq> set ''exact=prefix=regex=methods=ttl=vary=,ALLOWDENYGETHEAD''" "a \<noteq> []"
    "\<forall>c\<in>set v. c \<notin> set (concat space_seqs)" for a v
    using that(2,3) plain [OF that(1)] unfolding solid_append by (metis Un_iff append_is_Nil_conv)
  have opaque: "solid w \<Longrightarrow> \<forall>c\<in>set w. c \<notin> set (concat space_seqs)" for w by (simp add: solid_def)
  have sv: "solid (cu_Exact r)" if "cu_Exact r \<noteq> []" using assms that by (simp add: printable_def)
  have sp: "solid (cu_Prefix r)" if "cu_Prefix r \<noteq> []" using assms that by (simp add: printable_def)
  have sr: "solid re" if "cu_Regex r = Some re" for re using assms that by (simp add: printable_def)
  have "solid (''exact='' @ cu_Exact r)" if "cu_Exact r \<noteq> []"
    by (rule words [OF _ _ opaque [OF sv [OF that]]]) simp_all
  moreover have "solid (''prefix='' @ cu_Prefix r)" if "cu_Prefix r \<noteq> []"
    by (rule words [OF _ _ opaque [OF sp [OF that]]]) simp_all
  moreover have "solid (''regex='' @ re)" if "cu_Regex r = Some re" for re
    by (rule words [OF _ _ opaque [OF sr [OF that]]]) simp_all
  moreover have "solid (''methods='' @ join_with '','' (sort_by string_less (map ToUpper (cu_Methods r))))"
    by (rule words [OF _ _ ms]) simp_all
  moreover have "solid (''ttl='' @ Itoa (cu_TTL r))" if "0 < cu_TTL r"
    by (rule words [OF _ _ ttl [OF that]]) simp_all
  moreover have "solid (''vary='' @ join_with '','' (cu_Vary r))"
    by (rule words [OF _ _ vs]) simp_all
  ultimately show ?thesis
    unfolding rule_parts_def using kind by (cases "cu_Regex r") (auto simp del: append_Cons)
qed

lemma parts_fold:
  assumes "printable valid r"
  shows "foldl (rule_option valid) (empty_rule (cu_Kind r)) (tl (rule_parts r)) = reread r"
proof -
  have ttl: "0 < cu_TTL r \<Longrightarrow> Atoi (Itoa (cu_TTL r)) = Some (cu_TTL r)" using assms by (simp add: printable_def Atoi_Itoa)
  have ms: "cu_Methods r \<noteq> [] \<Longrightarrow>
      dedup (map (\<lambda>m. ToUpper (TrimSpace m)) (SplitByte (join_with '','' (sort_by string_less (map ToUpper (cu_Methods r)))) (CHR '','')))
        = sort_by string_less (cu_Methods r)"
    using assms by (intro methods_back) (simp_all add: printable_def)
  have vs: "cu_Vary r \<noteq> [] \<Longrightarrow> splitTrim (join_with '','' (cu_Vary r)) (CHR '','') = cu_Vary r"
    using assms by (intro vary_back) (simp_all add: printable_def)
  have re: "valid re" if "cu_Regex r = Some re" for re using assms that by (simp add: printable_def)
  have ttl0: "cu_TTL r = 0" if "\<not> 0 < cu_TTL r" using assms that by (simp add: printable_def)
  obtain k p re e m t v where r: "r = \<lparr>cu_Kind = k, cu_Prefix = p, cu_Regex = re, cu_Exact = e, cu_Methods = m, cu_TTL = t, cu_Vary = v\<rparr>"
    by (cases r)
  show ?thesis
    using ttl ms vs re ttl0
    by (cases re) (auto simp: rule_parts_def rule_option_eq reread_def empty_rule_def r simp del: append_Cons)
qed

lemma cache_line_print:
  assumes "printable valid r"
  shows "cache_line valid (join_with '' '' (rule_parts r)) = Some (reread r)"
    "newline \<notin> set (join_with '' '' (rule_parts r))"
    "last (join_with '' '' (rule_parts r)) \<noteq> CHR 0x0D"
proof -
  have k: "ToUpper (cu_Kind r) = cu_Kind r" "hd (cu_Kind r) \<noteq> CHR ''#''" "cu_Kind r \<noteq> []"
  proof -
    have "ToUpper ''ALLOW'' = ''ALLOW''" "ToUpper ''DENY'' = ''DENY''" by code_simp+
    then show "ToUpper (cu_Kind r) = cu_Kind r" "hd (cu_Kind r) \<noteq> CHR ''#''" "cu_Kind r \<noteq> []"
      using assms by (auto simp: printable_def)
  qed
  note solid = parts_solid [OF assms]
  obtain opt opts where p: "rule_parts r = cu_Kind r # opt # opts"
  proof -
    have "rule_parts r = cu_Kind r # tl (rule_parts r)" using k by (simp add: rule_parts_def)
    moreover have "tl (rule_parts r) \<noteq> []" using assms by (auto simp: rule_parts_def printable_def)
    ultimately show thesis using that by (metis neq_Nil_conv)
  qed
  let ?l = "join_with '' '' (rule_parts r)"
  have ends: "?l \<noteq> []" "hd ?l = hd (cu_Kind r)" "last ?l = last (last (rule_parts r))"
    using join_ends [of "rule_parts r" "'' ''"] solid p by (auto simp: solid_def)
  have last_solid: "solid (last (rule_parts r))" using solid p by (metis last_in_set list.distinct(1))
  have trim: "TrimSpace ?l = ?l"
    using ends solid_ends [OF last_solid] solid_ends [of "cu_Kind r"] solid p by (intro TrimSpace_solid) simp
  have hash: "\<not> HasPrefix ?l ''#''"
    using ends k by (cases ?l) auto
  have "Fields ?l = cu_Kind r # opt # opts" using Fields_join [OF solid] p by simp
  then show "cache_line valid ?l = Some (reread r)"
    using trim hash ends(1) parts_fold [OF assms] k by (simp add: cache_line_def p)
  have nl: "newline \<in> set (concat space_seqs)" "CHR 0x0D \<in> set (concat space_seqs)" by code_simp+
  show "newline \<notin> set ?l"
  proof
    assume "newline \<in> set ?l"
    with set_join [of "'' ''" "rule_parts r"] obtain w where "w \<in> set (rule_parts r)" "newline \<in> set w" by auto
    with solid nl show False by (auto simp: solid_def)
  qed
  show "last ?l \<noteq> CHR 0x0D" using ends(3) solid_ends [OF last_solid] nl by metis
qed

subsection \<open>Structured rules that were accepted\<close>

definition tidy :: "RuleDTO \<Rightarrow> bool" where
  \<comment> \<open>no white space inside a value, no white space or comma inside a header name, a 64-bit lifetime\<close>
  "tidy d = (solid (cm_Value (dt_Match d)) \<and> (\<forall>v\<in>set (dt_Vary d). solid v \<and> CHR '','' \<notin> set v) \<and> dt_TTL d < 2 ^ 63)"

lemma dto_methods_ok:
  "dto_methods i ms xs = (out, es) \<Longrightarrow> set ms \<subseteq> {''GET'', ''HEAD''} \<Longrightarrow> distinct ms
     \<Longrightarrow> set out \<subseteq> {''GET'', ''HEAD''} \<and> distinct out"
  by (induction xs arbitrary: ms out es) (auto simp: Let_def split: if_splits prod.splits)

lemma dto_rule_ok:
  assumes "dto_rule valid i d = (r, [])" "tidy d"
  shows "printable valid r"
proof -
  obtain r1 e1 where m: "dto_match valid i (dt_Match d) ((empty_rule (ToUpper (dt_Kind d)))\<lparr>cu_TTL := dt_TTL d, cu_Vary := dt_Vary d\<rparr>)
    = (r1, e1)" by fastforce
  obtain ms e2 where ms: "(if dt_Methods d = [] then ([''GET'', ''HEAD''], []) else dto_methods i [] (dt_Methods d)) = (ms, e2)"
    by fastforce
  have ok: "set ms \<subseteq> {''GET'', ''HEAD''} \<and> distinct ms"
    using ms dto_methods_ok [of i "[]" "dt_Methods d" ms e2] by (auto split: if_splits)
  from assms(1) have r: "r = r1\<lparr>cu_Methods := ms\<rparr>" "e1 = []" "ToUpper (dt_Kind d) \<in> {''ALLOW'', ''DENY''}" "0 \<le> dt_TTL d"
    unfolding dto_rule_def Let_def m ms prod.case by (auto simp: empty_rule_def split: if_splits)
  have "cu_Kind r1 = ToUpper (dt_Kind d) \<and> cu_TTL r1 = dt_TTL d \<and> cu_Vary r1 = dt_Vary d
    \<and> (cu_Exact r1 = [] \<or> solid (cu_Exact r1)) \<and> (cu_Prefix r1 = [] \<or> solid (cu_Prefix r1))
    \<and> (\<forall>re. cu_Regex r1 = Some re \<longrightarrow> solid re \<and> valid re)
    \<and> (cu_Exact r1 \<noteq> [] \<or> cu_Prefix r1 \<noteq> [] \<or> cu_Regex r1 \<noteq> None)"
    using m r(2) assms(2) by (auto simp: dto_match_def Let_def empty_rule_def tidy_def solid_def split: if_splits)
  with r ok assms(2) show ?thesis by (simp add: printable_def tidy_def)
qed

lemma FromDTO_ok:
  assumes "FromDTO valid dtos = Inr rs" "list_all tidy dtos"
  shows "list_all (printable valid) rs"
proof -
  let ?out = "mapi (dto_rule valid) dtos"
  from assms(1) have e: "concat (map snd ?out) = []" and rs: "rs = map fst ?out"
    by (auto simp: FromDTO_def Let_def simp del: concat_eq_Nil_conv split: if_splits)
  have "printable valid (fst x)" if "x \<in> set ?out" for x
  proof -
    from that obtain i where i: "i < length dtos" "x = dto_rule valid i (dtos ! i)" by (auto simp: set_mapi)
    from e that have "snd x = []" by auto
    with i have "dto_rule valid i (dtos ! i) = (fst x, [])" by (metis prod.collapse)
    moreover have "tidy (dtos ! i)" using i assms(2) by (simp add: list_all_length)
    ultimately show ?thesis by (rule dto_rule_ok)
  qed
  then show ?thesis by (auto simp: rs list_all_iff)
qed

lemma header_lines:
  "\<forall>l\<in>set cache_header. newline \<notin> set l \<and> (l = [] \<or> last l \<noteq> CHR 0x0D) \<and> int (length l) < 65536"
  "List.map_filter (cache_line valid) cache_header = []"
proof -
  show "\<forall>l\<in>set cache_header. newline \<notin> set l \<and> (l = [] \<or> last l \<noteq> CHR 0x0D) \<and> int (length l) < 65536" by code_simp
  have "list_all (\<lambda>l. TrimSpace l = [] \<or> HasPrefix (TrimSpace l) ''#'') cache_header" by code_simp
  then show "List.map_filter (cache_line valid) cache_header = []"
    by (auto simp: List.map_filter_def cache_line_def Let_def list_all_iff filter_empty_conv)
qed


definition demo_dto :: RuleDTO where
  "demo_dto = \<lparr>dt_Kind = ''allow'', dt_Match = \<lparr>cm_Type = ''prefix'', cm_Value = ''/static/''\<rparr>, dt_Methods = [], dt_TTL = 0,
     dt_Vary = [''Accept-Encoding'']\<rparr>"


definition smuggler :: RuleDTO where
  "smuggler = \<lparr>dt_Kind = ''DENY'', dt_Match = \<lparr>cm_Type = ''exact'', cm_Value = ''/a'' @ [newline] @ ''ALLOW prefix=/''\<rparr>,
     dt_Methods = [], dt_TTL = 60, dt_Vary = []\<rparr>"

text \<open>
  A value can smuggle in a rule.  The structured form accepts any non-empty value, and it is
  written as it is, so a \<open>DENY\<close> rule whose value holds a line break becomes two rules, the
  second of which allows everything to be cached.
\<close>

theorem rule_value_smuggles_a_rule:
  "case cache_body (\<lambda>_. True) \<lparr>pb_RawMode = False, pb_Raw = [], pb_Rules = [smuggler]\<rparr> of
     Inl es \<Rightarrow> False
   | Inr text \<Rightarrow> (case LoadFromBytes (\<lambda>_. True) text of
        Inl e \<Rightarrow> False
      | Inr rs \<Rightarrow> length rs = 2 \<and> snd (Ruleset_Match (\<lambda>_ _. False) rs ''GET'' ''/account'')
          \<and> \<not> snd (Ruleset_Match (\<lambda>_ _. False) (case FromDTO (\<lambda>_. True) [smuggler] of Inr r \<Rightarrow> r | Inl e \<Rightarrow> []) ''GET'' ''/account''))"
  by code_simp

end
