(* ===== verification/Response_Cache.thy ===== *)
theory Response_Cache
  imports Cache_Rules Go_Http
begin

text \<open>
  The response cache of \<open>response_cache_runtime.go\<close>: the store with its entries, its recency
  list and the files of its directory, and the operations on it.

  A file of the directory is a response body, a metadata document (what \<open>encoding/json\<close> writes
  for one it reads back) or something else.  An element of the recency list has an identity,
  as in \<open>container/list\<close>.  Whether creating a directory, moving a file or writing one fails is
  an argument: \<open>Some e\<close> is the error.
\<close>

record responseCacheConfig =
  rcc_Enabled :: bool
  rcc_StoreDir :: string
  rcc_MaxBytes :: int

record proxyResponseCacheMeta =
  mt_Key :: string
  mt_Status :: int
  mt_Header :: http_header
  mt_Size :: int
  mt_ExpiresAt :: int
  mt_CreatedAt :: int
  mt_AccessedAt :: int

record proxyResponseCacheEntry =
  ce_Key :: string
  ce_Status :: int
  ce_Header :: http_header
  ce_Size :: int
  ce_ExpiresAt :: int
  ce_CreatedAt :: int
  ce_AccessedAt :: int
  ce_BodyPath :: string
  ce_element :: "nat option"

datatype cache_file = BodyFile string | MetaFile proxyResponseCacheMeta | OtherFile

record proxyResponseCacheStore =
  cs_enabled :: bool
  cs_dir :: string
  cs_maxBytes :: int
  cs_currentBytes :: int
  cs_entries :: "(string \<times> proxyResponseCacheEntry) list"
  cs_lru :: "(nat \<times> string) list"           \<comment> \<open>the least recently used one first\<close>
  cs_next :: nat                              \<comment> \<open>the next identity of an element\<close>
  cs_hits :: "64 word"
  cs_misses :: "64 word"
  cs_stores :: "64 word"
  cs_evictions :: "64 word"
  cs_clears :: "64 word"
  cs_disk :: "(string \<times> cache_file) list"

record proxyResponseCacheStats =
  st_Enabled :: bool
  st_StoreDir :: string
  st_MaxBytes :: int
  st_SizeBytes :: int
  st_EntryCount :: nat
  st_Hits :: "64 word"
  st_Misses :: "64 word"
  st_Stores :: "64 word"
  st_Evictions :: "64 word"
  st_Clears :: "64 word"

subsection \<open>Settings\<close>

definition defaultResponseCacheStoreDir :: string where
  "defaultResponseCacheStoreDir = ''logs/coraza/cache''"

definition defaultResponseCacheMaxBytes :: int where
  "defaultResponseCacheMaxBytes = 2 * 1024 * 1024 * 1024"

definition normalizeResponseCacheConfig :: "responseCacheConfig \<Rightarrow> responseCacheConfig" where
  "normalizeResponseCacheConfig c =
     (let d = TrimSpace (rcc_StoreDir c) in
      c\<lparr>rcc_StoreDir := (if d = [] then defaultResponseCacheStoreDir else d),
        rcc_MaxBytes := (if rcc_MaxBytes c = 0 then defaultResponseCacheMaxBytes else rcc_MaxBytes c)\<rparr>)"

definition validateResponseCacheConfig :: "goerr option \<Rightarrow> responseCacheConfig \<Rightarrow> unit result" where
  \<comment> \<open>the outcome of creating the directory comes first\<close>
  "validateResponseCacheConfig mkdir c =
     (if TrimSpace (rcc_StoreDir c) = [] then err ''cache.store_dir is required'' []
      else if rcc_MaxBytes c < 0 then err ''cache.max_bytes must be >= 0'' []
      else if rcc_Enabled c \<and> rcc_MaxBytes c \<le> 0 then err ''cache.max_bytes must be > 0 when enabled=true'' []
      else if \<not> rcc_Enabled c then Inr ()
      else case mkdir of Some e \<Rightarrow> Inl (Wrapf ''prepare cache.store_dir: %w'' [] e) | None \<Rightarrow> Inr ())"

subsection \<open>Paths and headers\<close>

definition filepath_Join :: "string \<Rightarrow> string \<Rightarrow> string" where
  "filepath_Join d n = path_Clean (d @ ''/'' @ n)"

definition proxyResponseCacheHash :: "string \<Rightarrow> string" where
  "proxyResponseCacheHash k = hex_encode (sha256 k)"

definition proxyResponseCacheMetaPath :: "string \<Rightarrow> string" where
  "proxyResponseCacheMetaPath bodyPath = TrimSuffix bodyPath ''.body'' @ ''.json''"

definition dropped_headers :: "string list" where
  "dropped_headers = [''connection'', ''proxy-connection'', ''keep-alive'', ''te'', ''trailer'', ''transfer-encoding'',
     ''upgrade'', ''date'', ''age'', ''set-cookie'', ''x-mamotama-cache'', ''x-request-id'', ''x-waf-hit'', ''x-waf-ruleids'']"

definition sanitizeProxyCachedResponseHeader :: "http_header \<Rightarrow> http_header" where
  "sanitizeProxyCachedResponseHeader h =
     foldl (\<lambda>out (k, vals). let key = CanonicalMIMEHeaderKey k in
       if ToLower key \<in> set dropped_headers then out else aput key vals out) [] h"

definition cloneProxyHeader :: "http_header \<Rightarrow> http_header" where
  "cloneProxyHeader h = h"

subsection \<open>Removal\<close>

definition disk_remove :: "string \<Rightarrow> proxyResponseCacheStore \<Rightarrow> proxyResponseCacheStore" where
  "disk_remove path s = s\<lparr>cs_disk := adel path (cs_disk s)\<rparr>"

definition lru_remove :: "nat option \<Rightarrow> (nat \<times> string) list \<Rightarrow> (nat \<times> string) list" where
  "lru_remove el l = (case el of None \<Rightarrow> l | Some i \<Rightarrow> filter (\<lambda>(j, k). j \<noteq> i) l)"

definition removeEntryLocked :: "proxyResponseCacheEntry \<Rightarrow> proxyResponseCacheStore \<Rightarrow> proxyResponseCacheStore" where
  "removeEntryLocked e s =
     (let n = i64 (cs_currentBytes s - ce_Size e) in
      disk_remove (proxyResponseCacheMetaPath (ce_BodyPath e)) (disk_remove (ce_BodyPath e)
        (s\<lparr>cs_entries := adel (ce_Key e) (cs_entries s), cs_lru := lru_remove (ce_element e) (cs_lru s),
           cs_currentBytes := (if n < 0 then 0 else n)\<rparr>)))"

definition count_eviction :: "proxyResponseCacheStore \<Rightarrow> proxyResponseCacheStore" where
  "count_eviction s = s\<lparr>cs_evictions := cs_evictions s + 1\<rparr>"

definition removeByKey :: "string \<Rightarrow> proxyResponseCacheStore \<Rightarrow> proxyResponseCacheStore" where
  "removeByKey k s = (case map_of (cs_entries s) k of None \<Rightarrow> s | Some e \<Rightarrow> removeEntryLocked e s)"

definition evictExpiredLocked :: "int \<Rightarrow> proxyResponseCacheStore \<Rightarrow> proxyResponseCacheStore" where
  "evictExpiredLocked now s =
     foldl (\<lambda>s e. if \<not> now < ce_ExpiresAt e then count_eviction (removeEntryLocked e s) else s) s (map snd (cs_entries s))"

lemma length_lru_remove: "length (lru_remove el l) \<le> length l"
  by (simp add: lru_remove_def split: option.split)

lemma remove_shrinks:
  assumes "map_of (cs_entries s) k = Some e"
  shows "length (cs_entries (removeEntryLocked e s)) + length (cs_lru (removeEntryLocked e s))
    \<le> length (cs_entries s) + length (cs_lru s)"
  using length_lru_remove [of "ce_element e" "cs_lru s"]
  by (simp add: removeEntryLocked_def Let_def disk_remove_def adel_def add_mono)

text \<open>
  The loop of \<open>enforceLimitLocked\<close>.  Each round takes an element off the list, or an entry off
  the map when the front element is not the one the entry points to.
\<close>

definition limit_step :: "proxyResponseCacheStore \<Rightarrow> proxyResponseCacheStore" where
  "limit_step s =
     (case cs_lru s of
        [] \<Rightarrow> s
      | (i, k) # rest \<Rightarrow>
          (case map_of (cs_entries s) k of
             None \<Rightarrow> s\<lparr>cs_lru := rest\<rparr>
           | Some e \<Rightarrow> count_eviction (removeEntryLocked e s)))"

definition keyed :: "(string \<times> proxyResponseCacheEntry) list \<Rightarrow> bool" where
  \<comment> \<open>every entry is stored under its own key\<close>
  "keyed m = list_all (\<lambda>(k, e). ce_Key e = k) m"

lemma limit_step_shrinks:
  assumes "cs_lru s \<noteq> []" "keyed (cs_entries s)"
  shows "length (cs_entries (limit_step s)) + length (cs_lru (limit_step s)) < length (cs_entries s) + length (cs_lru s)"
    "keyed (cs_entries (limit_step s))"
proof -
  obtain i k rest where l: "cs_lru s = (i, k) # rest" using assms(1) by (metis list.exhaust prod.exhaust)
  have "length (cs_entries (limit_step s)) + length (cs_lru (limit_step s)) < length (cs_entries s) + length (cs_lru s)
      \<and> keyed (cs_entries (limit_step s))"
  proof (cases "map_of (cs_entries s) k")
    case None
    with l assms(2) show ?thesis by (simp add: limit_step_def)
  next
    case (Some e)
    then have m: "(k, e) \<in> set (cs_entries s)" by (rule map_of_SomeD)
    then have "ce_Key e = k" using assms(2) by (auto simp: keyed_def list_all_iff)
    with m have "length (adel (ce_Key e) (cs_entries s)) < length (cs_entries s)"
      unfolding adel_def by (intro length_filter_less [of "(k, e)"]) auto
    moreover have "keyed (adel (ce_Key e) (cs_entries s))" using assms(2) by (auto simp: keyed_def adel_def list_all_iff)
    ultimately show ?thesis
      using l Some length_lru_remove [of "ce_element e" "cs_lru s"]
      by (simp add: limit_step_def count_eviction_def removeEntryLocked_def Let_def disk_remove_def)
  qed
  then show "length (cs_entries (limit_step s)) + length (cs_lru (limit_step s)) < length (cs_entries s) + length (cs_lru s)"
    "keyed (cs_entries (limit_step s))" by simp_all
qed

definition over_limit :: "int \<Rightarrow> proxyResponseCacheStore \<Rightarrow> bool" where
  "over_limit additional s = (cs_maxBytes s < i64 (cs_currentBytes s + additional) \<and> cs_lru s \<noteq> [])"

text \<open>
  The loop as a partial function: \<open>None\<close> stands for a loop that never ends.
\<close>

partial_function (option) limit_loop :: "int \<Rightarrow> proxyResponseCacheStore \<Rightarrow> proxyResponseCacheStore option" where
  "limit_loop additional s = (if over_limit additional s then limit_loop additional (limit_step s) else Some s)"

lemma limit_loop_inv:
  assumes "keyed (cs_entries s)" "P s" "\<And>s. P s \<Longrightarrow> keyed (cs_entries s) \<Longrightarrow> over_limit additional s \<Longrightarrow> P (limit_step s)"
  shows "\<exists>s'. limit_loop additional s = Some s' \<and> P s' \<and> keyed (cs_entries s') \<and> \<not> over_limit additional s'"
  using assms(1,2)
proof (induction "length (cs_entries s) + length (cs_lru s)" arbitrary: s rule: less_induct)
  case less
  show ?case
  proof (cases "over_limit additional s")
    case True
    then have l: "cs_lru s \<noteq> []" by (simp add: over_limit_def)
    note shrink = limit_step_shrinks [OF l less.prems(1)]
    from less.hyps [OF shrink assms(3) [OF less.prems(2,1) True]] True
    show ?thesis by (simp add: limit_loop.simps [of additional s])
  next
    case False
    with less.prems show ?thesis by (simp add: limit_loop.simps [of additional s])
  qed
qed

definition enforceLimitLocked :: "int \<Rightarrow> proxyResponseCacheStore \<Rightarrow> proxyResponseCacheStore" where
  "enforceLimitLocked additional s =
     (if cs_maxBytes s \<le> 0 then s else case limit_loop additional s of Some s' \<Rightarrow> s' | None \<Rightarrow> s)"

lemma enforce_inv:
  assumes "keyed (cs_entries s)" "P s" "\<And>s. P s \<Longrightarrow> keyed (cs_entries s) \<Longrightarrow> over_limit additional s \<Longrightarrow> P (limit_step s)"
  shows "P (enforceLimitLocked additional s) \<and> keyed (cs_entries (enforceLimitLocked additional s))"
  using limit_loop_inv [of s P additional, OF assms] assms(1,2) by (auto simp: enforceLimitLocked_def)

subsection \<open>Operations\<close>

definition Lookup :: "string \<Rightarrow> int \<Rightarrow> proxyResponseCacheStore \<Rightarrow> proxyResponseCacheEntry option \<times> proxyResponseCacheStore" where
  "Lookup k now s =
     (if \<not> cs_enabled s then (None, s)
      else case map_of (cs_entries s) k of
        None \<Rightarrow> (None, s\<lparr>cs_misses := cs_misses s + 1\<rparr>)
      | Some e \<Rightarrow>
          (if \<not> now < ce_ExpiresAt e \<or> map_of (cs_disk s) (ce_BodyPath e) = None
           then (None, (removeEntryLocked e s)\<lparr>cs_misses := cs_misses s + 1\<rparr>)
           else let e' = e\<lparr>ce_AccessedAt := now\<rparr> in
             (Some e', s\<lparr>cs_entries := aput k e' (cs_entries s), cs_hits := cs_hits s + 1,
                        cs_lru := (case ce_element e of None \<Rightarrow> cs_lru s
                          | Some i \<Rightarrow> filter (\<lambda>(j, k). j \<noteq> i) (cs_lru s) @ filter (\<lambda>(j, k). j = i) (cs_lru s))\<rparr>)))"

definition cache_full :: "int \<Rightarrow> proxyResponseCacheStore \<Rightarrow> bool" where
  \<comment> \<open>a body that can never fit\<close>
  "cache_full bodySize s = (0 < cs_maxBytes s \<and> cs_maxBytes s < bodySize)"

definition make_room :: "string \<Rightarrow> int \<Rightarrow> int \<Rightarrow> proxyResponseCacheStore \<Rightarrow> proxyResponseCacheStore" where
  "make_room k bodySize now s = enforceLimitLocked bodySize (evictExpiredLocked now (removeByKey k s))"

definition move_file :: "string \<Rightarrow> string \<Rightarrow> proxyResponseCacheStore \<Rightarrow> proxyResponseCacheStore" where
  \<comment> \<open>a successful \<open>moveProxyResponseCacheFile\<close>\<close>
  "move_file src dst s = s\<lparr>cs_disk := (case map_of (cs_disk s) src of
       None \<Rightarrow> cs_disk s | Some f \<Rightarrow> aput dst f (adel src (cs_disk s)))\<rparr>"

definition move_outcome :: "goerr option \<Rightarrow> string \<Rightarrow> proxyResponseCacheStore \<Rightarrow> goerr option" where
  "move_outcome mv src s = (if map_of (cs_disk s) src = None then Some (Errorf ''no such file or directory'' []) else mv)"

definition write_meta :: "string \<Rightarrow> proxyResponseCacheMeta \<Rightarrow> proxyResponseCacheStore \<Rightarrow> proxyResponseCacheStore" where
  "write_meta path m s = s\<lparr>cs_disk := aput path (MetaFile m) (cs_disk s)\<rparr>"

definition meta_entry :: "proxyResponseCacheMeta \<Rightarrow> string \<Rightarrow> nat \<Rightarrow> proxyResponseCacheEntry" where
  "meta_entry m bodyPath i =
     \<lparr>ce_Key = mt_Key m, ce_Status = mt_Status m, ce_Header = cloneProxyHeader (mt_Header m), ce_Size = mt_Size m,
      ce_ExpiresAt = mt_ExpiresAt m, ce_CreatedAt = mt_CreatedAt m, ce_AccessedAt = mt_AccessedAt m,
      ce_BodyPath = bodyPath, ce_element = Some i\<rparr>"

definition insert_entry :: "string \<Rightarrow> proxyResponseCacheMeta \<Rightarrow> string \<Rightarrow> proxyResponseCacheStore \<Rightarrow> proxyResponseCacheStore" where
  "insert_entry k m bodyPath s =
     s\<lparr>cs_entries := aput k (meta_entry m bodyPath (cs_next s)) (cs_entries s),
       cs_lru := cs_lru s @ [(cs_next s, mt_Key m)], cs_next := Suc (cs_next s),
       cs_currentBytes := i64 (cs_currentBytes s + mt_Size m)\<rparr>"

definition Store ::
  "goerr option \<Rightarrow> goerr option \<Rightarrow> string \<Rightarrow> int \<Rightarrow> int \<Rightarrow> http_header \<Rightarrow> string \<Rightarrow> int \<Rightarrow> int
     \<Rightarrow> proxyResponseCacheStore \<Rightarrow> unit result \<times> proxyResponseCacheStore" where
  \<comment> \<open>the outcomes of moving the body and of writing the metadata, the arguments, the instant\<close>
  "Store mv wr k ttl status header bodyPath bodySize now s =
     (if TrimSpace bodyPath = [] \<or> ttl \<le> 0 then (Inr (), s)
      else if \<not> cs_enabled s then (Inr (), disk_remove bodyPath s)
      else if cache_full bodySize s then (Inr (), disk_remove bodyPath s)
      else let hash = proxyResponseCacheHash k;
               finalBody = filepath_Join (cs_dir s) (hash @ ''.body'');
               finalMeta = filepath_Join (cs_dir s) (hash @ ''.json'');
               s1 = make_room k bodySize now s;
               m = \<lparr>mt_Key = k, mt_Status = status, mt_Header = sanitizeProxyCachedResponseHeader header, mt_Size = bodySize,
                    mt_ExpiresAt = now + i64 (ttl * 1000000000), mt_CreatedAt = now, mt_AccessedAt = now\<rparr>
      in case move_outcome mv bodyPath s1 of
           Some e \<Rightarrow> (Inl e, disk_remove bodyPath s1)
         | None \<Rightarrow> let s2 = move_file bodyPath finalBody s1 in
      (case wr of
           Some e \<Rightarrow> (Inl e, disk_remove finalBody s2)
         | None \<Rightarrow> (Inr (), (insert_entry k m finalBody (write_meta finalMeta m s2))\<lparr>cs_stores := cs_stores s + 1\<rparr>)))"

definition remove_files :: "proxyResponseCacheStore \<Rightarrow> proxyResponseCacheStore" where
  "remove_files s = foldl (\<lambda>s e. disk_remove (proxyResponseCacheMetaPath (ce_BodyPath e)) (disk_remove (ce_BodyPath e) s))
     s (map snd (cs_entries s))"

definition Clear :: "goerr option \<Rightarrow> proxyResponseCacheStore \<Rightarrow> ((nat \<times> int) \<times> goerr option) \<times> proxyResponseCacheStore" where
  \<comment> \<open>cleared entries and bytes\<close>
  "Clear mkdir s =
     (((length (cs_entries s), cs_currentBytes s), if cs_enabled s then mkdir else None),
      (remove_files s)\<lparr>cs_entries := [], cs_lru := [], cs_currentBytes := 0, cs_clears := cs_clears s + 1\<rparr>)"

definition cache_Snapshot :: "proxyResponseCacheStore \<Rightarrow> proxyResponseCacheStats" where
  "cache_Snapshot s =
     \<lparr>st_Enabled = cs_enabled s, st_StoreDir = cs_dir s, st_MaxBytes = cs_maxBytes s, st_SizeBytes = cs_currentBytes s,
      st_EntryCount = length (cs_entries s), st_Hits = cs_hits s, st_Misses = cs_misses s, st_Stores = cs_stores s,
      st_Evictions = cs_evictions s, st_Clears = cs_clears s\<rparr>"

subsection \<open>Loading a directory\<close>

definition glob_json :: "string \<Rightarrow> (string \<times> cache_file) list \<Rightarrow> string list" where
  "glob_json dir disk =
     (let pre = TrimSuffix (filepath_Join dir ''*.json'') ''*.json'' in
      sort_by string_less (filter (\<lambda>p. HasPrefix p pre \<and> HasSuffix (TrimPrefix p pre) ''.json''
        \<and> CHR ''/'' \<notin> set (TrimPrefix p pre)) (map fst disk)))"

definition load_meta ::
  "int \<Rightarrow> (string \<times> cache_file) list \<times> (proxyResponseCacheMeta \<times> string) list \<Rightarrow> string
     \<Rightarrow> (string \<times> cache_file) list \<times> (proxyResponseCacheMeta \<times> string) list" where
  \<comment> \<open>the directory and the metadata kept so far with the paths of their bodies\<close>
  "load_meta now acc metaPath =
     (case acc of (disk, loaded) \<Rightarrow>
        let bodyPath = TrimSuffix metaPath ''.json'' @ ''.body'' in
        (case map_of disk metaPath of
           Some (MetaFile m) \<Rightarrow>
             (if \<not> now < mt_ExpiresAt m then (adel bodyPath (adel metaPath disk), loaded)
              else if map_of disk bodyPath = None then (adel metaPath disk, loaded)
              else (disk, loaded @ [(m, bodyPath)]))
         | _ \<Rightarrow> (adel metaPath disk, loaded)))"

definition loadProxyResponseCacheEntries ::
  "string \<Rightarrow> int \<Rightarrow> (string \<times> cache_file) list \<Rightarrow> (string \<times> cache_file) list \<times> (proxyResponseCacheMeta \<times> string) list" where
  \<comment> \<open>the directory afterwards, and what is loaded, least recently used first\<close>
  "loadProxyResponseCacheEntries dir now disk =
     (case foldl (load_meta now) (disk, []) (glob_json dir disk) of
        (disk', loaded) \<Rightarrow> (disk', sort_by (\<lambda>a b. mt_AccessedAt (fst a) < mt_AccessedAt (fst b)) loaded))"

definition empty_index :: "proxyResponseCacheStore \<Rightarrow> proxyResponseCacheStore" where
  "empty_index s = s\<lparr>cs_entries := [], cs_lru := [], cs_currentBytes := 0\<rparr>"

definition Reconfigure ::
  "goerr option \<Rightarrow> goerr option \<Rightarrow> responseCacheConfig \<Rightarrow> int \<Rightarrow> proxyResponseCacheStore
     \<Rightarrow> unit result \<times> proxyResponseCacheStore" where
  \<comment> \<open>the outcomes of creating the directory during validation and loading\<close>
  "Reconfigure mkdir1 mkdir2 c0 now s =
     (let c = normalizeResponseCacheConfig c0 in
      case validateResponseCacheConfig mkdir1 c of
        Inl e \<Rightarrow> (Inl e, s)
      | Inr _ \<Rightarrow>
          (if \<not> rcc_Enabled c
           then (Inr (), (empty_index s)\<lparr>cs_enabled := False, cs_dir := rcc_StoreDir c, cs_maxBytes := rcc_MaxBytes c\<rparr>)
           else (case mkdir2 of
              Some e \<Rightarrow> (Inl e, s)
            | None \<Rightarrow> (case loadProxyResponseCacheEntries (rcc_StoreDir c) now (cs_disk s) of (disk, loaded) \<Rightarrow>
                (Inr (), enforceLimitLocked 0
                   (foldl (\<lambda>s (m, b). insert_entry (mt_Key m) m b s)
                      ((empty_index s)\<lparr>cs_enabled := True, cs_dir := rcc_StoreDir c, cs_maxBytes := rcc_MaxBytes c, cs_disk := disk\<rparr>)
                      loaded))))))"

definition new_store :: "(string \<times> cache_file) list \<Rightarrow> proxyResponseCacheStore" where
  "new_store disk = \<lparr>cs_enabled = False, cs_dir = [], cs_maxBytes = 0, cs_currentBytes = 0, cs_entries = [], cs_lru = [],
     cs_next = 0, cs_hits = 0, cs_misses = 0, cs_stores = 0, cs_evictions = 0, cs_clears = 0, cs_disk = disk\<rparr>"

definition newProxyResponseCacheStore ::
  "goerr option \<Rightarrow> goerr option \<Rightarrow> responseCacheConfig \<Rightarrow> int \<Rightarrow> (string \<times> cache_file) list \<Rightarrow> proxyResponseCacheStore result" where
  "newProxyResponseCacheStore mkdir1 mkdir2 c now disk =
     (case Reconfigure mkdir1 mkdir2 c now (new_store disk) of (Inl e, s) \<Rightarrow> Inl e | (Inr _, s) \<Rightarrow> Inr s)"

end
