(* ===== verification/Cache_Store_Correct.thy ===== *)
theory Cache_Store_Correct
  imports Response_Cache
begin

text \<open>
  The invariant of the response cache store: the recency list and the entries name each other
  one to one, the byte count is the sum of the sizes, and it stays within the limit.
\<close>

definition sizes :: "(string \<times> proxyResponseCacheEntry) list \<Rightarrow> int" where
  "sizes m = sum_list (map (\<lambda>(k, e). ce_Size e) m)"

definition index_ok :: "proxyResponseCacheStore \<Rightarrow> bool" where
  "index_ok s = (keyed (cs_entries s) \<and> distinct (map fst (cs_entries s)) \<and> distinct (map fst (cs_lru s))
     \<and> (\<forall>(i, k)\<in>set (cs_lru s). i < cs_next s)
     \<and> (\<forall>k e. (k, e) \<in> set (cs_entries s) \<longrightarrow> (\<exists>i. ce_element e = Some i \<and> (i, k) \<in> set (cs_lru s)) \<and> 0 \<le> ce_Size e)
     \<and> (\<forall>i k. (i, k) \<in> set (cs_lru s) \<longrightarrow> (\<exists>e. (k, e) \<in> set (cs_entries s) \<and> ce_element e = Some i))
     \<and> cs_currentBytes s = sizes (cs_entries s) \<and> sizes (cs_entries s) < 2 ^ 63)"

definition cache_wf :: "proxyResponseCacheStore \<Rightarrow> bool" where
  "cache_wf s = (index_ok s \<and> cs_maxBytes s < 2 ^ 62 \<and> (0 < cs_maxBytes s \<longrightarrow> cs_currentBytes s \<le> cs_maxBytes s))"

subsection \<open>Sums of sizes\<close>

lemma sizes_nonneg: "(\<And>k e. (k, e) \<in> set m \<Longrightarrow> 0 \<le> ce_Size e) \<Longrightarrow> 0 \<le> sizes m"
  unfolding sizes_def by (rule sum_list_nonneg) auto

lemma adel_other: "k \<notin> fst ` set m \<Longrightarrow> adel k m = m"
  unfolding adel_def by (rule filter_all) force

lemma sizes_adel: "distinct (map fst m) \<Longrightarrow> (k, e) \<in> set m \<Longrightarrow> sizes (adel k m) = sizes m - ce_Size e"
proof (induction m)
  case (Cons x m)
  obtain k' e' where x: "x = (k', e')" by (cases x)
  show ?case
  proof (cases "k' = k")
    case True
    with Cons.prems x have "e' = e" "k \<notin> fst ` set m" by (force simp: image_iff)+
    with adel_other [of k m] True x show ?thesis by (simp add: sizes_def adel_def)
  next
    case False
    with Cons x show ?thesis by (simp add: sizes_def adel_def)
  qed
qed simp

lemma sizes_aput_fresh: "k \<notin> fst ` set m \<Longrightarrow> sizes (aput k e m) = sizes m + ce_Size e"
  by (simp add: aput_fresh sizes_def)

lemma sizes_aput_same: "map_of m k = Some e \<Longrightarrow> ce_Size e' = ce_Size e \<Longrightarrow> sizes (aput k e' m) = sizes m"
  by (induction k e' m rule: aput.induct) (auto simp: sizes_def split: if_splits)

lemma set_adel: "set (adel k m) = {x \<in> set m. fst x \<noteq> k}"
  by (auto simp: adel_def)

lemma set_aput: "distinct (map fst m) \<Longrightarrow> set (aput k v m) = insert (k, v) {x \<in> set m. fst x \<noteq> k}"
  by (induction k v m rule: aput.induct) (auto simp: image_iff)

lemma entry_unique: "distinct (map fst m) \<Longrightarrow> (k, e) \<in> set m \<Longrightarrow> (k, e') \<in> set m \<Longrightarrow> e = e'"
  by (metis eq_key_imp_eq_value)

subsection \<open>Removal\<close>

lemma index_sizes: "index_ok s \<Longrightarrow> 0 \<le> cs_currentBytes s \<and> cs_currentBytes s < 2 ^ 63"
  using sizes_nonneg [of "cs_entries s"] by (auto simp: index_ok_def)

lemma index_entry: "index_ok s \<Longrightarrow> (k, e) \<in> set (cs_entries s) \<Longrightarrow> \<exists>i. ce_element e = Some i \<and> (i, k) \<in> set (cs_lru s) \<and> 0 \<le> ce_Size e"
  unfolding index_ok_def by blast

lemma index_lru: "index_ok s \<Longrightarrow> (i, k) \<in> set (cs_lru s) \<Longrightarrow> \<exists>e. (k, e) \<in> set (cs_entries s) \<and> ce_element e = Some i"
  unfolding index_ok_def by blast

lemma index_size_le:
  assumes "index_ok s" "map_of (cs_entries s) k = Some e"
  shows "0 \<le> ce_Size e \<and> ce_Size e \<le> cs_currentBytes s"
proof -
  from assms(2) have m: "(k, e) \<in> set (cs_entries s)" by (rule map_of_SomeD)
  have "0 \<le> sizes (adel k (cs_entries s))"
    by (rule sizes_nonneg) (use assms(1) in \<open>auto simp: set_adel index_ok_def\<close>)
  with sizes_adel [OF _ m] assms(1) m show ?thesis by (auto simp: index_ok_def)
qed

lemma remove_ok:
  assumes "index_ok s" "map_of (cs_entries s) k = Some e"
  shows "index_ok (removeEntryLocked e s) \<and> cs_entries (removeEntryLocked e s) = adel k (cs_entries s)
    \<and> cs_currentBytes (removeEntryLocked e s) = cs_currentBytes s - ce_Size e
    \<and> cs_maxBytes (removeEntryLocked e s) = cs_maxBytes s \<and> cs_enabled (removeEntryLocked e s) = cs_enabled s
    \<and> cs_dir (removeEntryLocked e s) = cs_dir s"
proof -
  from assms(2) have m: "(k, e) \<in> set (cs_entries s)" by (rule map_of_SomeD)
  with assms(1) have key: "ce_Key e = k" by (auto simp: index_ok_def keyed_def list_all_iff)
  from index_entry [OF assms(1) m] obtain i where i: "ce_element e = Some i" "(i, k) \<in> set (cs_lru s)" by blast
  have d: "distinct (map fst (cs_entries s))" "distinct (map fst (cs_lru s))" using assms(1) by (simp_all add: index_ok_def)
  have sz: "sizes (adel k (cs_entries s)) = cs_currentBytes s - ce_Size e"
    using sizes_adel [OF d(1) m] assms(1) by (simp add: index_ok_def)
  have bytes: "i64 (cs_currentBytes s - ce_Size e) = cs_currentBytes s - ce_Size e" "0 \<le> cs_currentBytes s - ce_Size e"
    using index_sizes [OF assms(1)] index_size_le [OF assms] by (simp_all add: i64_id)
  have only: "k' = k" if "(i, k') \<in> set (cs_lru s)" for k' using entry_unique [OF d(2) i(2) that] by simp
  have lru: "set (lru_remove (ce_element e) (cs_lru s)) = {x \<in> set (cs_lru s). fst x \<noteq> i}"
    by (auto simp: lru_remove_def i)
  have backwd: "\<exists>e'. (k', e') \<in> set (cs_entries s) \<and> k' \<noteq> k \<and> ce_element e' = Some j"
    if "(j, k') \<in> set (cs_lru s)" "j \<noteq> i" for j k'
  proof -
    from index_lru [OF assms(1) that(1)] obtain e' where e': "(k', e') \<in> set (cs_entries s)" "ce_element e' = Some j"
      by blast
    with entry_unique [OF d(1) m] i that(2) show ?thesis by fastforce
  qed
  have forth: "\<exists>j. ce_element e' = Some j \<and> (j, k') \<in> set (cs_lru s) \<and> j \<noteq> i \<and> 0 \<le> ce_Size e'"
    if "(k', e') \<in> set (cs_entries s)" "k' \<noteq> k" for k' e'
    using index_entry [OF assms(1) that(1)] that(2) only by blast
  have "index_ok (removeEntryLocked e s)"
    unfolding index_ok_def removeEntryLocked_def Let_def disk_remove_def key bytes(1)
    using assms(1) d bytes(2) sz lru backwd forth index_sizes [OF assms(1)] index_size_le [OF assms]
    by (auto simp: set_adel index_ok_def keyed_def list_all_iff distinct_adel lru_remove_def i distinct_map_filter)
  then show ?thesis using bytes key by (simp add: removeEntryLocked_def Let_def disk_remove_def)
qed

lemma index_ok_count [simp]: "index_ok (count_eviction s) = index_ok s"
  by (simp add: index_ok_def count_eviction_def)

lemma removeByKey_ok:
  assumes "index_ok s"
  shows "index_ok (removeByKey k s) \<and> cs_entries (removeByKey k s) = adel k (cs_entries s)
    \<and> cs_currentBytes (removeByKey k s) \<le> cs_currentBytes s
    \<and> cs_maxBytes (removeByKey k s) = cs_maxBytes s \<and> cs_enabled (removeByKey k s) = cs_enabled s
    \<and> cs_dir (removeByKey k s) = cs_dir s"
proof (cases "map_of (cs_entries s) k")
  case None
  then have "k \<notin> fst ` set (cs_entries s)" by (simp add: map_of_eq_None_iff)
  then have "adel k (cs_entries s) = cs_entries s" by (rule adel_other)
  with None assms show ?thesis by (simp add: removeByKey_def)
next
  case (Some e)
  with remove_ok [OF assms Some] index_size_le [OF assms Some] show ?thesis by (simp add: removeByKey_def)
qed

lemma evict_fold:
  assumes "index_ok s" "distinct (map ce_Key es)" "\<And>e. e \<in> set es \<Longrightarrow> map_of (cs_entries s) (ce_Key e) = Some e"
  shows "let t = foldl (\<lambda>s e. if \<not> now < ce_ExpiresAt e then count_eviction (removeEntryLocked e s) else s) s es in
    index_ok t \<and> set (cs_entries t) \<subseteq> set (cs_entries s) \<and> cs_currentBytes t \<le> cs_currentBytes s
    \<and> cs_maxBytes t = cs_maxBytes s \<and> cs_enabled t = cs_enabled s \<and> cs_dir t = cs_dir s"
  using assms
proof (induction es arbitrary: s)
  case (Cons e es)
  let ?s = "if \<not> now < ce_ExpiresAt e then count_eviction (removeEntryLocked e s) else s"
  have e: "map_of (cs_entries s) (ce_Key e) = Some e" using Cons.prems(3) by simp
  note r = remove_ok [OF Cons.prems(1) e] index_size_le [OF Cons.prems(1) e]
  have ok: "index_ok ?s" using r Cons.prems(1) by simp
  have "map_of (cs_entries ?s) (ce_Key f) = Some f" if "f \<in> set es" for f
    using Cons.prems(2,3) that r by (force simp: count_eviction_def image_iff)
  from Cons.IH [OF ok _ this] Cons.prems(2)
  have "let t = foldl (\<lambda>s e. if \<not> now < ce_ExpiresAt e then count_eviction (removeEntryLocked e s) else s) ?s es in
    index_ok t \<and> set (cs_entries t) \<subseteq> set (cs_entries ?s) \<and> cs_currentBytes t \<le> cs_currentBytes ?s
    \<and> cs_maxBytes t = cs_maxBytes ?s \<and> cs_enabled t = cs_enabled ?s \<and> cs_dir t = cs_dir ?s" by simp
  moreover have "set (cs_entries ?s) \<subseteq> set (cs_entries s)" "cs_currentBytes ?s \<le> cs_currentBytes s"
    "cs_maxBytes ?s = cs_maxBytes s" "cs_enabled ?s = cs_enabled s" "cs_dir ?s = cs_dir s"
    using r by (auto simp: count_eviction_def set_adel)
  ultimately show ?case unfolding Let_def foldl_Cons by auto
qed simp

lemma index_keys: "index_ok s \<Longrightarrow> map ce_Key (map snd (cs_entries s)) = map fst (cs_entries s)"
  by (auto simp: index_ok_def keyed_def list_all_iff)

lemma evict_ok:
  assumes "index_ok s"
  shows "let t = evictExpiredLocked now s in
    index_ok t \<and> set (cs_entries t) \<subseteq> set (cs_entries s) \<and> cs_currentBytes t \<le> cs_currentBytes s
    \<and> cs_maxBytes t = cs_maxBytes s \<and> cs_enabled t = cs_enabled s \<and> cs_dir t = cs_dir s"
  unfolding evictExpiredLocked_def
proof (rule evict_fold [OF assms])
  have d: "distinct (map fst (cs_entries s))" using assms by (simp add: index_ok_def)
  then show "distinct (map ce_Key (map snd (cs_entries s)))" by (simp only: index_keys [OF assms])
  fix e assume "e \<in> set (map snd (cs_entries s))"
  then obtain k where m: "(k, e) \<in> set (cs_entries s)" by auto
  with assms have "ce_Key e = k" by (auto simp: index_ok_def keyed_def list_all_iff)
  with m d show "map_of (cs_entries s) (ce_Key e) = Some e" by simp
qed

subsection \<open>The limit\<close>

lemma limit_step_ok:
  assumes "index_ok s" "cs_lru s \<noteq> []"
  shows "index_ok (limit_step s) \<and> set (cs_entries (limit_step s)) \<subseteq> set (cs_entries s)
    \<and> cs_currentBytes (limit_step s) \<le> cs_currentBytes s \<and> cs_maxBytes (limit_step s) = cs_maxBytes s
    \<and> cs_enabled (limit_step s) = cs_enabled s \<and> cs_dir (limit_step s) = cs_dir s"
proof -
  obtain i k rest where l: "cs_lru s = (i, k) # rest" using assms(2) by (metis list.exhaust prod.exhaust)
  with index_lru [OF assms(1), of i k] obtain e where "(k, e) \<in> set (cs_entries s)" by auto
  then have e: "map_of (cs_entries s) k = Some e" using assms(1) by (simp add: index_ok_def)
  from remove_ok [OF assms(1) e] index_size_le [OF assms(1) e] l e show ?thesis
    by (auto simp: limit_step_def count_eviction_def [of "removeEntryLocked e s"] set_adel
        index_ok_count [unfolded count_eviction_def])
qed

lemma enforce_ok:
  assumes "index_ok s" "0 < cs_maxBytes s" "cs_maxBytes s < 2 ^ 62" "0 \<le> additional" "additional \<le> cs_maxBytes s"
    "cs_currentBytes s \<le> 2 ^ 62"
  shows "let t = enforceLimitLocked additional s in
    index_ok t \<and> set (cs_entries t) \<subseteq> set (cs_entries s) \<and> cs_currentBytes t + additional \<le> cs_maxBytes s
    \<and> cs_maxBytes t = cs_maxBytes s \<and> cs_enabled t = cs_enabled s \<and> cs_dir t = cs_dir s"
proof -
  define P where "P t \<longleftrightarrow> index_ok t \<and> set (cs_entries t) \<subseteq> set (cs_entries s) \<and> cs_currentBytes t \<le> cs_currentBytes s
    \<and> cs_maxBytes t = cs_maxBytes s \<and> cs_enabled t = cs_enabled s \<and> cs_dir t = cs_dir s" for t
  have keyed: "keyed (cs_entries s)" using assms(1) by (simp add: index_ok_def)
  have start: "P s" using assms(1) by (simp add: P_def)
  have step: "P (limit_step t)" if "P t" "keyed (cs_entries t)" "over_limit additional t" for t
    using limit_step_ok [of t] that unfolding P_def over_limit_def by auto
  from limit_loop_inv [of s P additional, OF keyed start step]
  obtain t where t: "limit_loop additional s = Some t" "P t" "\<not> over_limit additional t" by blast
  have "cs_currentBytes t + additional \<le> cs_maxBytes s"
  proof (cases "cs_lru t = []")
    case True
    then have "cs_entries t = []"
      using t(2) index_entry [of t] by (cases "cs_entries t") (auto simp: P_def)
    then have "cs_currentBytes t = 0" using t(2) by (simp add: P_def index_ok_def sizes_def)
    with assms(5) show ?thesis by simp
  next
    case False
    have "0 \<le> cs_currentBytes t" "cs_currentBytes t \<le> 2 ^ 62"
      using t(2) assms(6) index_sizes [of t] by (auto simp: P_def)
    then have "i64 (cs_currentBytes t + additional) = cs_currentBytes t + additional"
      using assms(3-5) by (simp add: i64_id)
    with False t(2,3) show ?thesis by (simp add: over_limit_def P_def)
  qed
  with t(1,2) assms(2) show ?thesis by (simp add: enforceLimitLocked_def P_def Let_def)
qed

subsection \<open>Insertion\<close>

lemma insert_ok:
  assumes "index_ok s" "mt_Key m = k" "k \<notin> fst ` set (cs_entries s)" "0 \<le> mt_Size m" "cs_currentBytes s + mt_Size m < 2 ^ 63"
  shows "index_ok (insert_entry k m b s) \<and> cs_currentBytes (insert_entry k m b s) = cs_currentBytes s + mt_Size m"
proof -
  have bytes: "i64 (cs_currentBytes s + mt_Size m) = cs_currentBytes s + mt_Size m"
    using index_sizes [OF assms(1)] assms(4,5) by (simp add: i64_id)
  have new: "cs_next s \<notin> fst ` set (cs_lru s)" using assms(1) by (auto simp: index_ok_def)
  have ent: "aput k e (cs_entries s) = cs_entries s @ [(k, e)]" for e using assms(3) by (rule aput_fresh)
  let ?e = "meta_entry m b (cs_next s)"
  have fwd: "(\<exists>i. ce_element e = Some i \<and> (i, k') \<in> set (cs_lru s) \<union> {(cs_next s, k)}) \<and> 0 \<le> ce_Size e"
    if "(k', e) \<in> set (cs_entries s) \<union> {(k, ?e)}" for k' e
    using that index_entry [OF assms(1)] assms(4) by (auto simp: meta_entry_def)
  have bwd: "\<exists>e. (k', e) \<in> set (cs_entries s) \<union> {(k, ?e)} \<and> ce_element e = Some i"
    if "(i, k') \<in> set (cs_lru s) \<union> {(cs_next s, k)}" for i k'
  proof (cases "(i, k') \<in> set (cs_lru s)")
    case True
    from index_lru [OF assms(1) this] show ?thesis by blast
  next
    case False
    with that have "i = cs_next s" "k' = k" by auto
    then show ?thesis by (intro exI [of _ ?e]) (simp add: meta_entry_def)
  qed
  have "sizes (cs_entries s @ [(k, ?e)]) = cs_currentBytes s + mt_Size m"
    using assms(1) by (simp add: sizes_def index_ok_def meta_entry_def)
  moreover have bytes': "i64 (sizes (cs_entries s) + mt_Size m) = sizes (cs_entries s) + mt_Size m"
    using bytes assms(1) by (simp add: index_ok_def)
  moreover have "\<forall>(i, k)\<in>set (cs_lru s @ [(cs_next s, k)]). i < Suc (cs_next s)" using assms(1) by (auto simp: index_ok_def)
  moreover have "keyed (cs_entries s @ [(k, ?e)])" using assms(1,2) by (simp add: index_ok_def keyed_def meta_entry_def)
  ultimately have "index_ok (insert_entry k m b s)"
    using assms(1-3,5) new fwd bwd unfolding index_ok_def insert_entry_def
    by (simp add: ent bytes')
  then show ?thesis using bytes by (simp add: insert_entry_def)
qed

lemma index_ok_disk: "index_ok (s\<lparr>cs_disk := d\<rparr>) = index_ok s"
  by (simp add: index_ok_def)

lemma index_ok_counters:
  "index_ok (s\<lparr>cs_hits := a\<rparr>) = index_ok s" "index_ok (s\<lparr>cs_misses := a\<rparr>) = index_ok s"
  "index_ok (s\<lparr>cs_stores := a\<rparr>) = index_ok s" "index_ok (s\<lparr>cs_clears := a\<rparr>) = index_ok s"
  by (simp_all add: index_ok_def)

subsection \<open>The operations keep the invariant\<close>

lemma make_room_ok:
  assumes "cache_wf s" "0 < cs_maxBytes s" "0 \<le> n" "n \<le> cs_maxBytes s"
  shows "index_ok (make_room k n now s) \<and> k \<notin> fst ` set (cs_entries (make_room k n now s))
    \<and> cs_currentBytes (make_room k n now s) + n \<le> cs_maxBytes s \<and> cs_maxBytes (make_room k n now s) = cs_maxBytes s
    \<and> cs_enabled (make_room k n now s) = cs_enabled s \<and> cs_dir (make_room k n now s) = cs_dir s
    \<and> set (cs_entries (make_room k n now s)) \<subseteq> set (cs_entries s)"
proof -
  from assms(1) have ix: "index_ok s" and top: "cs_maxBytes s < 2 ^ 62" and le: "cs_currentBytes s \<le> cs_maxBytes s"
    using assms(2) by (auto simp: cache_wf_def)
  let ?a = "removeByKey k s" let ?b = "evictExpiredLocked now ?a"
  note a = removeByKey_ok [OF ix, of k]
  note b = evict_ok [of ?a now, unfolded Let_def, OF a [THEN conjunct1]]
  have "cs_currentBytes ?b \<le> 2 ^ 62" using a b le top by linarith
  then have c: "let t = enforceLimitLocked n ?b in
    index_ok t \<and> set (cs_entries t) \<subseteq> set (cs_entries ?b) \<and> cs_currentBytes t + n \<le> cs_maxBytes ?b
    \<and> cs_maxBytes t = cs_maxBytes ?b \<and> cs_enabled t = cs_enabled ?b \<and> cs_dir t = cs_dir ?b"
    using a b assms(2-4) top by (intro enforce_ok) simp_all
  have "k \<notin> fst ` set (cs_entries ?a)" using a by (auto simp: set_adel)
  then show ?thesis
    using a b c unfolding make_room_def Let_def by (auto simp: set_adel)
qed

lemma Lookup_ok:
  assumes "cache_wf s" "Lookup k now s = (r, s')"
  shows "cache_wf s'"
proof -
  from assms(1) have ix: "index_ok s" by (simp add: cache_wf_def)
  show ?thesis
  proof (cases "map_of (cs_entries s) k")
    case None
    with assms show ?thesis by (auto simp: Lookup_def cache_wf_def index_ok_counters split: if_splits)
  next
    case (Some e)
    then have m: "(k, e) \<in> set (cs_entries s)" by (rule map_of_SomeD)
    then have key: "ce_Key e = k" using ix by (auto simp: index_ok_def keyed_def list_all_iff)
    note rm = remove_ok [OF ix Some] index_size_le [OF ix Some]
    obtain i where i: "ce_element e = Some i" using index_entry [OF ix m] by blast
    let ?l = "filter (\<lambda>(j, k). j \<noteq> i) (cs_lru s) @ filter (\<lambda>(j, k). j = i) (cs_lru s)"
    let ?e = "e\<lparr>ce_AccessedAt := now\<rparr>"
    let ?t = "s\<lparr>cs_entries := aput k ?e (cs_entries s), cs_hits := cs_hits s + 1, cs_lru := ?l\<rparr>"
    have d: "distinct (map fst (cs_entries s))" using ix by (simp add: index_ok_def)
    have ents: "set (aput k ?e (cs_entries s)) = insert (k, ?e) {x \<in> set (cs_entries s). fst x \<noteq> k}" by (rule set_aput [OF d])
    have lset: "set ?l = set (cs_lru s)" by auto
    have ld: "distinct (map fst ?l)"
      using ix by (auto simp: index_ok_def distinct_map_filter)
    have sz: "sizes (aput k ?e (cs_entries s)) = sizes (cs_entries s)" using Some by (intro sizes_aput_same) simp_all
    have "\<exists>e'. (k', e') \<in> set (aput k ?e (cs_entries s)) \<and> ce_element e' = Some j" if "(j, k') \<in> set (cs_lru s)" for j k'
    proof -
      from index_lru [OF ix that] obtain e' where e': "(k', e') \<in> set (cs_entries s)" "ce_element e' = Some j" by blast
      show ?thesis
      proof (cases "k' = k")
        case True
        with e' entry_unique [OF d m] have "ce_element ?e = Some j" by simp
        with True ents show ?thesis by blast
      next
        case False
        with e' ents show ?thesis by auto
      qed
    qed
    moreover have "(\<exists>j. ce_element e' = Some j \<and> (j, k') \<in> set (cs_lru s)) \<and> 0 \<le> ce_Size e'"
      if "(k', e') \<in> set (aput k ?e (cs_entries s))" for k' e'
      using that index_entry [OF ix] index_entry [OF ix m] unfolding ents by auto
    ultimately have hit: "index_ok ?t"
      using ix key ents lset ld sz d unfolding index_ok_def by (simp add: distinct_aput keyed_def list_all_iff)
    then show ?thesis
      using assms rm Some i unfolding Lookup_def cache_wf_def Let_def
      by (auto simp: index_ok_counters split: if_splits)
  qed
qed

lemma wf_disk: "cache_wf (s\<lparr>cs_disk := d\<rparr>) = cache_wf s"
  by (simp add: cache_wf_def index_ok_disk)

lemma wf_move: "cache_wf (move_file a b s) = cache_wf s"
  by (simp add: move_file_def wf_disk)

lemma Store_ok:
  assumes "cache_wf s" "0 < cs_maxBytes s \<or> \<not> cs_enabled s" "0 \<le> n" "Store mv wr k ttl status h path n now s = (r, s')"
  shows "cache_wf s'"
proof (cases "TrimSpace path = [] \<or> ttl \<le> 0 \<or> \<not> cs_enabled s \<or> cache_full n s")
  case True
  with assms show ?thesis by (auto simp: Store_def disk_remove_def wf_disk split: if_splits)
next
  case False
  let ?s1 = "make_room k n now s"
  have mx: "0 < cs_maxBytes s" "n \<le> cs_maxBytes s" using False assms(2) by (auto simp: cache_full_def)
  note room = make_room_ok [OF assms(1) mx(1) assms(3) mx(2), of k now]
  have wf1: "cache_wf ?s1" using room assms(1,3) by (auto simp: cache_wf_def)
  have ins: "cache_wf ((insert_entry k m b (write_meta p m (move_file q b ?s1)))\<lparr>cs_stores := c\<rparr>)"
    if "mt_Key m = k" "mt_Size m = n" for m b p q c
  proof -
    let ?t = "write_meta p m (move_file q b ?s1)"
    have same: "index_ok ?t" "cs_entries ?t = cs_entries ?s1" "cs_currentBytes ?t = cs_currentBytes ?s1" "cs_maxBytes ?t = cs_maxBytes ?s1"
      using room by (simp_all add: write_meta_def move_file_def index_ok_disk)
    have "cs_currentBytes ?s1 + n < 2 ^ 63" using room assms(1) by (auto simp: cache_wf_def)
    with insert_ok [of ?t m k b] same room that assms(3)
    have "index_ok (insert_entry k m b ?t)" "cs_currentBytes (insert_entry k m b ?t) = cs_currentBytes ?s1 + n" by simp_all
    with room assms(1) show ?thesis
      by (simp add: cache_wf_def index_ok_counters insert_entry_def write_meta_def move_file_def)
  qed
  show ?thesis
    using assms(4) False wf1 ins unfolding Store_def Let_def
    by (auto simp: disk_remove_def wf_disk wf_move split: option.splits if_splits)
qed

lemma remove_files_same:
  "cs_enabled (remove_files s) = cs_enabled s \<and> cs_maxBytes (remove_files s) = cs_maxBytes s"
proof -
  have "cs_enabled (foldl (\<lambda>s e. disk_remove (proxyResponseCacheMetaPath (ce_BodyPath e)) (disk_remove (ce_BodyPath e) s)) t es)
      = cs_enabled t
    \<and> cs_maxBytes (foldl (\<lambda>s e. disk_remove (proxyResponseCacheMetaPath (ce_BodyPath e)) (disk_remove (ce_BodyPath e) s)) t es)
      = cs_maxBytes t" for t es
    by (induction es arbitrary: t) (simp_all add: disk_remove_def)
  then show ?thesis by (simp add: remove_files_def)
qed

lemma Clear_ok:
  assumes "cache_wf s" "Clear mkdir s = (r, s')"
  shows "cache_wf s' \<and> cs_enabled s' = cs_enabled s \<and> cs_maxBytes s' = cs_maxBytes s"
  using assms remove_files_same [of s] by (auto simp: Clear_def cache_wf_def index_ok_def keyed_def sizes_def)

subsection \<open>Loading\<close>

definition load_ok :: "(proxyResponseCacheMeta \<times> string) list \<Rightarrow> bool" where
  \<comment> \<open>a directory with one document per key, no negative size, and less than \<open>2 ^ 62\<close> bytes\<close>
  "load_ok ms = (distinct (map (mt_Key \<circ> fst) ms) \<and> list_all (\<lambda>m. 0 \<le> mt_Size (fst m)) ms
     \<and> sum_list (map (mt_Size \<circ> fst) ms) < 2 ^ 62)"

lemma load_fold:
  assumes "index_ok s" "distinct (map (mt_Key \<circ> fst) ms)" "mt_Key ` fst ` set ms \<inter> fst ` set (cs_entries s) = {}"
    "list_all (\<lambda>m. 0 \<le> mt_Size (fst m)) ms" "cs_currentBytes s + sum_list (map (mt_Size \<circ> fst) ms) < 2 ^ 62"
  shows "let t = foldl (\<lambda>s (m, b). insert_entry (mt_Key m) m b s) s ms in
    index_ok t \<and> cs_currentBytes t < 2 ^ 62 \<and> cs_maxBytes t = cs_maxBytes s"
  using assms
proof (induction ms arbitrary: s)
  case (Cons x ms)
  obtain m b where x: "x = (m, b)" by (cases x)
  let ?s = "insert_entry (mt_Key m) m b s"
  have nn: "0 \<le> sum_list (map (mt_Size \<circ> fst) ms)"
    using Cons.prems(4) by (intro sum_list_nonneg) (auto simp: list_all_iff)
  have room: "cs_currentBytes s + mt_Size m < 2 ^ 63" using Cons.prems(5) nn x by (simp add: o_def)
  have fresh: "mt_Key m \<notin> fst ` set (cs_entries s)" "0 \<le> mt_Size m" using Cons.prems(3,4) x by auto
  from insert_ok [OF Cons.prems(1) refl fresh room]
  have ok: "index_ok ?s" and b: "cs_currentBytes ?s = cs_currentBytes s + mt_Size m" by simp_all
  have "fst ` set (cs_entries ?s) = insert (mt_Key m) (fst ` set (cs_entries s))" by (simp add: insert_entry_def keys_aput)
  with Cons.prems(2,3) x have "mt_Key ` fst ` set ms \<inter> fst ` set (cs_entries ?s) = {}" by auto
  moreover have "cs_currentBytes ?s + sum_list (map (mt_Size \<circ> fst) ms) < 2 ^ 62" using Cons.prems(5) x b by (simp add: o_def)
  ultimately have "let t = foldl (\<lambda>s (m, b). insert_entry (mt_Key m) m b s) ?s ms in
    index_ok t \<and> cs_currentBytes t < 2 ^ 62 \<and> cs_maxBytes t = cs_maxBytes ?s"
    using Cons.IH [OF ok] Cons.prems(2,4) by (simp add: o_def)
  then show ?case using x by (simp add: insert_entry_def)
qed simp

lemma Reconfigure_ok:
  assumes "cache_wf s" "load_ok (snd (loadProxyResponseCacheEntries (rcc_StoreDir (normalizeResponseCacheConfig c)) now (cs_disk s)))"
    "rcc_MaxBytes c < 2 ^ 62" "Reconfigure mk1 mk2 c now s = (r, s')"
  shows "cache_wf s' \<and> (r = Inr () \<longrightarrow> cs_enabled s' \<longrightarrow> 0 < cs_maxBytes s')"
proof -
  let ?c = "normalizeResponseCacheConfig c"
  have top: "rcc_MaxBytes ?c < 2 ^ 62"
    using assms(3) by (simp add: normalizeResponseCacheConfig_def defaultResponseCacheMaxBytes_def Let_def)
  show ?thesis
  proof (cases "validateResponseCacheConfig mk1 ?c")
    case (Inl e)
    with assms(1,4) show ?thesis by (auto simp: Reconfigure_def Let_def)
  next
    case (Inr u)
    show ?thesis
    proof (cases "rcc_Enabled ?c")
      case False
      with Inr assms(4) top show ?thesis
        by (auto simp: Reconfigure_def Let_def empty_index_def cache_wf_def index_ok_def keyed_def sizes_def)
    next
      case en: True
      show ?thesis
      proof (cases mk2)
        case (Some e)
        with Inr en assms(1,4) show ?thesis by (auto simp: Reconfigure_def Let_def)
      next
        case None
        obtain disk ms where load: "loadProxyResponseCacheEntries (rcc_StoreDir ?c) now (cs_disk s) = (disk, ms)" by fastforce
        have pos: "0 < rcc_MaxBytes ?c" using Inr en by (simp add: validateResponseCacheConfig_def split: if_splits)
        let ?e = "(empty_index s)\<lparr>cs_enabled := True, cs_dir := rcc_StoreDir ?c, cs_maxBytes := rcc_MaxBytes ?c, cs_disk := disk\<rparr>"
        let ?t = "foldl (\<lambda>s (m, b). insert_entry (mt_Key m) m b s) ?e ms"
        have "index_ok ?e" "cs_currentBytes ?e = 0" "cs_entries ?e = []"
          by (simp_all add: empty_index_def index_ok_def keyed_def sizes_def)
        with load_fold [of ?e ms] assms(2) load
        have t: "index_ok ?t" "cs_currentBytes ?t < 2 ^ 62" "cs_maxBytes ?t = rcc_MaxBytes ?c"
          by (simp_all add: load_ok_def Let_def)
        have "let u = enforceLimitLocked 0 ?t in
          index_ok u \<and> set (cs_entries u) \<subseteq> set (cs_entries ?t) \<and> cs_currentBytes u + 0 \<le> cs_maxBytes ?t
          \<and> cs_maxBytes u = cs_maxBytes ?t \<and> cs_enabled u = cs_enabled ?t \<and> cs_dir u = cs_dir ?t"
          by (rule enforce_ok) (use t pos top in simp_all)
        then have "cache_wf (enforceLimitLocked 0 ?t) \<and> 0 < cs_maxBytes (enforceLimitLocked 0 ?t)"
          using t(3) pos top by (simp add: cache_wf_def Let_def)
        with assms(4) Inr en None load show ?thesis by (auto simp: Reconfigure_def Let_def)
      qed
    qed
  qed
qed

subsection \<open>Reachable stores\<close>

inductive cache_step :: "proxyResponseCacheStore \<Rightarrow> proxyResponseCacheStore \<Rightarrow> bool" where
  lookup: "cache_step s (snd (Lookup k now s))"
| store: "0 \<le> n \<Longrightarrow> cache_step s (snd (Store mv wr k ttl status h path n now s))"
| remove: "cache_step s (removeByKey k s)"
| clear: "cache_step s (snd (Clear mkdir s))"
| temp: "cache_step s (s\<lparr>cs_disk := d\<rparr>)"    \<comment> \<open>temporary files come and go\<close>
| reconfigure: "load_ok (snd (loadProxyResponseCacheEntries (rcc_StoreDir (normalizeResponseCacheConfig c)) now (cs_disk s)))
    \<Longrightarrow> rcc_MaxBytes c < 2 ^ 62 \<Longrightarrow> cache_step s (snd (Reconfigure mk1 mk2 c now s))"

inductive cache_reachable :: "proxyResponseCacheStore \<Rightarrow> bool" where
  start: "cache_reachable (new_store disk)"
| step: "cache_reachable s \<Longrightarrow> cache_step s s' \<Longrightarrow> cache_reachable s'"

lemma Lookup_limit: "Lookup k now s = (r, s') \<Longrightarrow> cs_enabled s' = cs_enabled s \<and> cs_maxBytes s' = cs_maxBytes s"
  by (auto simp: Lookup_def Let_def removeEntryLocked_def disk_remove_def split: if_splits option.splits)

lemma removeByKey_limit: "cs_enabled (removeByKey k s) = cs_enabled s \<and> cs_maxBytes (removeByKey k s) = cs_maxBytes s"
  by (auto simp: removeByKey_def Let_def removeEntryLocked_def disk_remove_def split: option.split)

lemma Store_limit:
  assumes "cache_wf s" "cs_enabled s \<longrightarrow> 0 < cs_maxBytes s" "0 \<le> n" "Store mv wr k ttl status h path n now s = (r, s')"
  shows "cs_enabled s' = cs_enabled s \<and> cs_maxBytes s' = cs_maxBytes s"
proof (cases "TrimSpace path = [] \<or> ttl \<le> 0 \<or> \<not> cs_enabled s \<or> cache_full n s")
  case True
  with assms(4) show ?thesis by (auto simp: Store_def disk_remove_def split: if_splits)
next
  case False
  then have "0 < cs_maxBytes s" "n \<le> cs_maxBytes s" using assms(2) by (auto simp: cache_full_def)
  from make_room_ok [OF assms(1) this(1) assms(3) this(2), of k now] assms(4) False show ?thesis
    by (auto simp: Store_def Let_def disk_remove_def move_file_def write_meta_def insert_entry_def split: option.splits if_splits)
qed

lemma cache_step_ok:
  assumes "cache_step s s'" "cache_wf s \<and> (cs_enabled s \<longrightarrow> 0 < cs_maxBytes s)"
  shows "cache_wf s' \<and> (cs_enabled s' \<longrightarrow> 0 < cs_maxBytes s')"
  using assms
proof (cases rule: cache_step.cases)
  case (lookup k now)
  obtain r t where run: "Lookup k now s = (r, t)" by fastforce
  show ?thesis using assms(2) lookup run Lookup_ok [OF _ run] Lookup_limit [OF run] by auto
next
  case (store n mv wr k ttl status h path now)
  obtain r t where run: "Store mv wr k ttl status h path n now s = (r, t)" by fastforce
  show ?thesis
    using assms(2) store run Store_ok [OF _ _ _ run] Store_limit [OF _ _ _ run] by auto
next
  case (remove k)
  then show ?thesis
    using assms(2) removeByKey_ok [of s k] removeByKey_limit [of k s] by (auto simp: cache_wf_def)
next
  case (clear mkdir)
  obtain r t where run: "Clear mkdir s = (r, t)" by fastforce
  with clear run assms(2) Clear_ok [OF _ run] show ?thesis by auto
next
  case (temp d)
  then show ?thesis using assms(2) by (simp add: wf_disk)
next
  case (reconfigure c now mk1 mk2)
  obtain r t where run: "Reconfigure mk1 mk2 c now s = (r, t)" by fastforce
  have "r \<noteq> Inr () \<Longrightarrow> t = s"
    using run by (auto simp: Reconfigure_def Let_def split: sum.splits if_splits option.splits prod.splits)
  with Reconfigure_ok [OF _ reconfigure(2,3) run] assms(2) reconfigure(1) run show ?thesis
    by (cases "r = Inr ()") auto
qed


text \<open>
  C19: The loop that makes room for a response ends, also on a store whose recency list does not
  match its entries, and leaves room unless nothing is left to evict; a reachable store
  always has the room.
\<close>

theorem making_room_terminates:
  assumes "list_all (\<lambda>(k, e). ce_Key e = k) (cs_entries s)"
  shows "\<exists>t. limit_loop additional s = Some t
    \<and> (cs_lru t = [] \<or> i64 (cs_currentBytes t + additional) \<le> cs_maxBytes t)
    \<and> (cache_wf s \<longrightarrow> 0 < cs_maxBytes s \<longrightarrow> 0 \<le> additional \<longrightarrow> additional \<le> cs_maxBytes s
        \<longrightarrow> cs_currentBytes t + additional \<le> cs_maxBytes s)"
proof -
  from assms have "keyed (cs_entries s)" by (simp add: keyed_def)
  from limit_loop_inv [of s "\<lambda>_. True" additional, OF this]
  obtain t where t: "limit_loop additional s = Some t" "\<not> over_limit additional t" by auto
  moreover have "cs_currentBytes t + additional \<le> cs_maxBytes s"
    if "cache_wf s" "0 < cs_maxBytes s" "0 \<le> additional" "additional \<le> cs_maxBytes s"
  proof -
    have "let t = enforceLimitLocked additional s in
      index_ok t \<and> set (cs_entries t) \<subseteq> set (cs_entries s) \<and> cs_currentBytes t + additional \<le> cs_maxBytes s
      \<and> cs_maxBytes t = cs_maxBytes s \<and> cs_enabled t = cs_enabled s \<and> cs_dir t = cs_dir s"
      by (rule enforce_ok) (use that in \<open>auto simp: cache_wf_def\<close>)
    with t(1) that(2) show ?thesis by (simp add: enforceLimitLocked_def Let_def)
  qed
  ultimately show ?thesis by (auto simp: over_limit_def)
qed

subsection \<open>Concrete stores\<close>

definition demo_entry :: "string \<Rightarrow> int \<Rightarrow> nat \<Rightarrow> proxyResponseCacheEntry" where
  "demo_entry k n i = \<lparr>ce_Key = k, ce_Status = 200, ce_Header = [], ce_Size = n, ce_ExpiresAt = 10, ce_CreatedAt = 0,
     ce_AccessedAt = 0, ce_BodyPath = ''/c/'' @ k, ce_element = Some i\<rparr>"

definition demo_store :: proxyResponseCacheStore where
  "demo_store = (new_store [])\<lparr>cs_enabled := True, cs_maxBytes := 10, cs_currentBytes := 7,
     cs_entries := [(''a'', demo_entry ''a'' 3 0), (''b'', demo_entry ''b'' 4 1)], cs_lru := [(0, ''a''), (1, ''b'')], cs_next := 2\<rparr>"

theorem making_room_terminates_witness:
  "\<exists>t. limit_loop 6 demo_store = Some t \<and> cs_currentBytes t + 6 \<le> 10"
proof -
  have wf: "cache_wf demo_store"
    by (auto simp: cache_wf_def index_ok_def demo_store_def new_store_def keyed_def sizes_def demo_entry_def)
  have "list_all (\<lambda>(k, e). ce_Key e = k) (cs_entries demo_store)" by (simp add: demo_store_def demo_entry_def)
  from making_room_terminates [OF this, of 6] wf show ?thesis by (auto simp: demo_store_def)
qed


end
