(* ===== verification/Cache_Serving.thy ===== *)
theory Cache_Serving
  imports Cache_Store_Correct
begin

text \<open>
  The response cache in front of the proxy: which requests and responses take part, the key,
  \<open>ServeProxyWithCache\<close>, and the operations on its settings
  (\<open>response_cache_runtime.go\<close>).  Reading and writing the settings with \<open>encoding/json\<close> are
  the parameters \<open>decode\<close> and \<open>encode\<close>; \<open>mk n\<close> is the outcome of the \<open>n\<close>-th creation of a
  directory during an operation.
\<close>

subsection \<open>Requests and responses\<close>

definition RequestURI :: "URL \<Rightarrow> string" where
  "RequestURI u =
     (let base = (if url_Opaque u = [] then (if EscapedPath u = [] then ''/'' else EscapedPath u)
                  else if HasPrefix (url_Opaque u) ''//'' then url_Scheme u @ '':'' @ url_Opaque u
                  else url_Opaque u)
      in if url_ForceQuery u \<or> url_RawQuery u \<noteq> [] then base @ ''?'' @ url_RawQuery u else base)"

definition Header_Values :: "http_header \<Rightarrow> string \<Rightarrow> string list" where
  "Header_Values h k = hdr_values h (CanonicalMIMEHeaderKey k)"

definition shouldBypassProxyResponseCache :: "Request \<Rightarrow> bool" where
  "shouldBypassProxyResponseCache r =
     (if rq_Method r \<noteq> ''GET'' \<and> rq_Method r \<noteq> ''HEAD'' then True
      else if TrimSpace (Header_Get (rq_Header r) ''Authorization'') \<noteq> [] then True
      else if TrimSpace (Header_Get (rq_Header r) ''Cookie'') \<noteq> [] then True
      else let cacheControl = ToLower (join_with '','' (Header_Values (rq_Header r) ''Cache-Control'')) in
        if Contains cacheControl ''no-cache'' \<or> Contains cacheControl ''no-store'' then True
        else EqualFold (TrimSpace (Header_Get (rq_Header r) ''Pragma'')) ''no-cache'')"

definition shouldStoreProxyResponse :: "int \<Rightarrow> http_header \<Rightarrow> bool" where
  "shouldStoreProxyResponse status h =
     (if status \<notin> set [200, 203, 204, 206, 301, 302, 404, 410] then False
      else if Header_Values h ''Set-Cookie'' \<noteq> [] then False
      else let cacheControl = ToLower (join_with '','' (Header_Values h ''Cache-Control'')) in
        if Contains cacheControl ''no-store'' \<or> Contains cacheControl ''private'' then False
        else TrimSpace (Header_Get h ''Vary'') \<noteq> ''*'')"

definition key_header :: "Request \<Rightarrow> string \<Rightarrow> string" where
  "key_header r headerName =
     (let name = CanonicalMIMEHeaderKey (TrimSpace headerName)
      in [newline] @ name @ '':'' @ join_with '','' (Header_Values (rq_Header r) name))"

definition proxyResponseCacheKey :: "Request \<Rightarrow> string list \<Rightarrow> string" where
  "proxyResponseCacheKey r vary =
     (if rq_Method r = ''HEAD'' then ''GET'' else rq_Method r) @ [newline] @ ToLower (TrimSpace (rq_Host r)) @ [newline]
     @ RequestURI (rq_URL r) @ concat (map (key_header r) vary)"

subsection \<open>Serving\<close>

record proxy_reply =
  cy_Status :: int
  cy_Header :: http_header
  cy_Body :: string

record serve_env =
  sv_lookup :: int                       \<comment> \<open>the instants of the lookup and of the store\<close>
  sv_store :: int
  sv_base :: http_header                 \<comment> \<open>the response header when the handler is entered\<close>
  sv_origin :: "http_header \<Rightarrow> proxy_reply"   \<comment> \<open>\<open>ServeProxy\<close> on a writer with that header\<close>
  sv_waf :: "bool \<times> string"
  sv_temp :: "string result"
  sv_tmpErr :: bool                      \<comment> \<open>writing the temporary file failed\<close>
  sv_copyErr :: bool                     \<comment> \<open>sending a cached body failed\<close>
  sv_move :: "goerr option"
  sv_write :: "goerr option"

definition cached_header :: "bool \<times> string \<Rightarrow> http_header \<Rightarrow> http_header \<Rightarrow> http_header" where
  \<comment> \<open>the marks of the firewall, the header so far, the stored header\<close>
  "cached_header waf dst h =
     (let reqID = Header_Get dst ''X-Request-ID'';
          out = foldl (\<lambda>d (k, vals). foldl (\<lambda>d v. Header_Add k v d) d vals) [] h;
          out1 = (if reqID \<noteq> [] then Header_Set ''X-Request-ID'' reqID out else out);
          out2 = (if fst waf
                  then (let o2 = Header_Set ''X-WAF-Hit'' ''1'' out1
                        in if snd waf \<noteq> [] then Header_Set ''X-WAF-RuleIDs'' (snd waf) o2 else o2)
                  else out1)
      in Header_Set ''X-Mamotama-Cache'' ''HIT'' out2)"

definition writeProxyCachedResponse ::
  "bool \<times> string \<Rightarrow> http_header \<Rightarrow> Request \<Rightarrow> proxyResponseCacheEntry \<Rightarrow> (string \<times> cache_file) list \<Rightarrow> proxy_reply option" where
  \<comment> \<open>\<open>None\<close> when the body cannot be opened\<close>
  "writeProxyCachedResponse waf dst r e disk =
     (case map_of disk (ce_BodyPath e) of
        None \<Rightarrow> None
      | Some f \<Rightarrow>
          Some \<lparr>cy_Status = ce_Status e, cy_Header = cached_header waf dst (ce_Header e),
                cy_Body = (if rq_Method r = ''HEAD'' \<or> ce_Status e = 204 then []
                           else case f of BodyFile b \<Rightarrow> b | _ \<Rightarrow> [])\<rparr>)"

definition serve_miss ::
  "serve_env \<Rightarrow> cache_Rule \<Rightarrow> string \<Rightarrow> Request \<Rightarrow> proxyResponseCacheStore \<Rightarrow> proxy_reply \<times> proxyResponseCacheStore" where
  \<comment> \<open>the response goes to the client and to a temporary file, which becomes an entry\<close>
  "serve_miss env rule k r s =
     (case sv_temp env of
        Inl e \<Rightarrow> (sv_origin env (sv_base env), s)
      | Inr tmp \<Rightarrow>
          (let reply = sv_origin env (Header_Set ''X-Mamotama-Cache'' ''MISS'' (sv_base env));
               s1 = s\<lparr>cs_disk := aput tmp (BodyFile (cy_Body reply)) (cs_disk s)\<rparr>
           in if sv_tmpErr env \<or> rq_Method r \<noteq> ''GET'' \<or> \<not> shouldStoreProxyResponse (cy_Status reply) (cy_Header reply)
              then (reply, disk_remove tmp s1)
              else (case Store (sv_move env) (sv_write env) k (if cu_TTL rule \<le> 0 then 600 else cu_TTL rule)
                           (cy_Status reply) (cy_Header reply) tmp (int (length (cy_Body reply))) (sv_store env) s1 of
                      (Inl e, s2) \<Rightarrow> (reply, disk_remove tmp s2)
                    | (Inr _, s2) \<Rightarrow> (reply, s2))))"

definition serve_cached ::
  "(string \<Rightarrow> string \<Rightarrow> bool) \<Rightarrow> serve_env \<Rightarrow> cache_Rule list \<Rightarrow> Request \<Rightarrow> proxyResponseCacheStore
     \<Rightarrow> proxy_reply \<times> proxyResponseCacheStore" where
  "serve_cached re_match env rs r s =
     (if shouldBypassProxyResponseCache r then (sv_origin env (sv_base env), s)
      else case Ruleset_Match re_match rs (rq_Method r) (url_Path (rq_URL r)) of
        (Some rule, True) \<Rightarrow>
          (let k = proxyResponseCacheKey r (cu_Vary rule) in
           case Lookup k (sv_lookup env) s of
             (None, s1) \<Rightarrow> serve_miss env rule k r s1
           | (Some e, s1) \<Rightarrow>
               (case writeProxyCachedResponse (sv_waf env) (sv_base env) r e (cs_disk s1) of
                  Some reply \<Rightarrow> if sv_copyErr env then serve_miss env rule k r (removeByKey k s1) else (reply, s1)
                | None \<Rightarrow> serve_miss env rule k r (removeByKey k s1)))
      | _ \<Rightarrow> (sv_origin env (sv_base env), s))"

record responseCacheRuntime =
  rcr_configPath :: string
  rcr_raw :: string
  rcr_etag :: string
  rcr_cfg :: responseCacheConfig
  rcr_store :: "proxyResponseCacheStore option"

definition ServeProxyWithCache ::
  "(string \<Rightarrow> string \<Rightarrow> bool) \<Rightarrow> serve_env \<Rightarrow> cache_Rule list option \<Rightarrow> Request \<Rightarrow> responseCacheRuntime option
     \<Rightarrow> proxy_reply \<times> responseCacheRuntime option" where
  "ServeProxyWithCache re_match env rules r rt =
     (case rt of
        None \<Rightarrow> (sv_origin env (sv_base env), rt)
      | Some t \<Rightarrow>
          (case (rcr_store t, rules) of
             (Some s, Some rs) \<Rightarrow>
               (if \<not> rcc_Enabled (rcr_cfg t) then (sv_origin env (sv_base env), rt)
                else case serve_cached re_match env rs r s of
                  (reply, s') \<Rightarrow> (reply, Some (t\<lparr>rcr_store := Some s'\<rparr>)))
           | _ \<Rightarrow> (sv_origin env (sv_base env), rt)))"

subsection \<open>Settings\<close>

record preparedResponseCacheConfig =
  pc_cfg :: responseCacheConfig
  pc_raw :: string
  pc_etag :: string

datatype cache_apply_error = ResponseCacheConflict string | ResponseCacheError goerr

definition prepareResponseCacheRaw ::
  "(string \<Rightarrow> responseCacheConfig result) \<Rightarrow> (responseCacheConfig \<Rightarrow> string) \<Rightarrow> goerr option \<Rightarrow> string
     \<Rightarrow> preparedResponseCacheConfig result" where
  "prepareResponseCacheRaw decode encode mkdir raw =
     bindR (decode raw) (\<lambda>c0.
     let c = normalizeResponseCacheConfig c0 in
     bindR (validateResponseCacheConfig mkdir c) (\<lambda>_.
       Inr \<lparr>pc_cfg = c, pc_raw = encode c, pc_etag = ComputeETag (encode c)\<rparr>))"

definition ValidateResponseCacheRaw ::
  "(string \<Rightarrow> responseCacheConfig result) \<Rightarrow> (responseCacheConfig \<Rightarrow> string) \<Rightarrow> goerr option \<Rightarrow> string
     \<Rightarrow> responseCacheConfig result" where
  "ValidateResponseCacheRaw decode encode mkdir raw =
     bindR (prepareResponseCacheRaw decode encode mkdir raw) (\<lambda>p. Inr (pc_cfg p))"

definition persistResponseCacheConfigRaw :: "string \<Rightarrow> storage \<Rightarrow> unit result \<times> storage" where
  "persistResponseCacheConfigRaw raw st = AtomicWriteWithBackup raw st"

definition InitResponseCacheRuntime ::
  "(string \<Rightarrow> responseCacheConfig result) \<Rightarrow> (responseCacheConfig \<Rightarrow> string) \<Rightarrow> (nat \<Rightarrow> goerr option) \<Rightarrow> string \<Rightarrow> int
     \<Rightarrow> (string \<times> cache_file) list \<Rightarrow> storage \<Rightarrow> responseCacheRuntime result \<times> storage" where
  "InitResponseCacheRuntime decode encode mk path0 now disk st =
     (let path = TrimSpace path0 in
      if path = [] then (err ''cache store config path is required'' [], st)
      else case store_read so_File st of
        (Inl e, st1) \<Rightarrow> (Inl (Wrapf ''read cache store config (%s): %w'' [path] e), st1)
      | (Inr found, st1) \<Rightarrow>
     (case (case found of
              Some raw \<Rightarrow> (Inr raw, st1)
            | None \<Rightarrow>
                (let raw = encode (normalizeResponseCacheConfig \<lparr>rcc_Enabled = False, rcc_StoreDir = [], rcc_MaxBytes = 0\<rparr>) in
                 case mk 0 of
                   Some e \<Rightarrow> (Inl e, st1)
                 | None \<Rightarrow> (case persistResponseCacheConfigRaw raw st1 of
                       (Inl e, st2) \<Rightarrow> (Inl e, st2) | (Inr _, st2) \<Rightarrow> (Inr raw, st2)))) of
        (Inl e, st2) \<Rightarrow> (Inl e, st2)
      | (Inr raw, st2) \<Rightarrow>
     (case prepareResponseCacheRaw decode encode (mk 1) raw of
        Inl e \<Rightarrow> (Inl (Wrapf ''invalid cache store config (%s): %w'' [path] e), st2)
      | Inr p \<Rightarrow>
     (case newProxyResponseCacheStore (mk 2) (mk 3) (pc_cfg p) now disk of
        Inl e \<Rightarrow> (Inl (Wrapf ''build response cache: %w'' [] e), st2)
      | Inr s \<Rightarrow> (Inr \<lparr>rcr_configPath = path, rcr_raw = pc_raw p, rcr_etag = pc_etag p, rcr_cfg = pc_cfg p, rcr_store = Some s\<rparr>, st2)))))"

definition ApplyResponseCacheRaw ::
  "(string \<Rightarrow> responseCacheConfig result) \<Rightarrow> (responseCacheConfig \<Rightarrow> string) \<Rightarrow> (nat \<Rightarrow> goerr option) \<Rightarrow> int \<Rightarrow> string \<Rightarrow> string
     \<Rightarrow> responseCacheRuntime option \<times> storage \<Rightarrow> (cache_apply_error + string \<times> responseCacheConfig) \<times> responseCacheRuntime option \<times> storage" where
  "ApplyResponseCacheRaw decode encode mk now ifMatch raw sys =
     (case sys of
        (None, st) \<Rightarrow> (Inl (ResponseCacheError (Errorf ''response cache runtime is not initialized'' [])), sys)
      | (Some rt, st) \<Rightarrow>
     (case prepareResponseCacheRaw decode encode (mk 0) raw of
        Inl e \<Rightarrow> (Inl (ResponseCacheError e), sys)
      | Inr p \<Rightarrow>
     if TrimSpace ifMatch \<noteq> [] \<and> TrimSpace ifMatch \<noteq> rcr_etag rt then (Inl (ResponseCacheConflict (rcr_etag rt)), sys)
     else (case persistResponseCacheConfigRaw (pc_raw p) st of
        (Inl e, st1) \<Rightarrow> (Inl (ResponseCacheError e), Some rt, st1)
      | (Inr _, st1) \<Rightarrow>
     (case (if so_Store st1 then UpsertConfigBlob (pc_raw p) (pc_etag p) st1 else (Inr (), st1)) of
        (Inl e, st2) \<Rightarrow> (Inl (ResponseCacheError e), Some rt, snd (persistResponseCacheConfigRaw (rcr_raw rt) st2))
      | (Inr _, st2) \<Rightarrow>
          (let installed = rt\<lparr>rcr_raw := pc_raw p, rcr_etag := pc_etag p, rcr_cfg := pc_cfg p\<rparr> in
           case rcr_store rt of
             None \<Rightarrow> (case newProxyResponseCacheStore (mk 1) (mk 2) (pc_cfg p) now [] of
                 Inl e \<Rightarrow> (Inl (ResponseCacheError e), Some rt, snd (persistResponseCacheConfigRaw (rcr_raw rt) st2))
               | Inr s \<Rightarrow> (Inr (pc_etag p, pc_cfg p), Some (installed\<lparr>rcr_store := Some s\<rparr>), st2))
           | Some s \<Rightarrow> (case Reconfigure (mk 1) (mk 2) (pc_cfg p) now s of
                 (Inl e, s1) \<Rightarrow>
                   (Inl (ResponseCacheError e),
                    Some (rt\<lparr>rcr_store := Some (snd (Reconfigure (mk 3) (mk 4) (rcr_cfg rt) now s1))\<rparr>),
                    snd (persistResponseCacheConfigRaw (rcr_raw rt) st2))
               | (Inr _, s1) \<Rightarrow> (Inr (pc_etag p, pc_cfg p), Some (installed\<lparr>rcr_store := Some s1\<rparr>), st2)))))))"

definition ResponseCacheSnapshot ::
  "responseCacheRuntime option \<Rightarrow> string \<times> string \<times> responseCacheConfig \<times> proxyResponseCacheStats option" where
  \<comment> \<open>\<open>None\<close>: the counters are all zero\<close>
  "ResponseCacheSnapshot rt =
     (case rt of
        None \<Rightarrow> ([], [], normalizeResponseCacheConfig \<lparr>rcc_Enabled = False, rcc_StoreDir = [], rcc_MaxBytes = 0\<rparr>, None)
      | Some t \<Rightarrow> (rcr_raw t, rcr_etag t, rcr_cfg t, map_option cache_Snapshot (rcr_store t)))"

definition ClearResponseCache ::
  "goerr option \<Rightarrow> responseCacheRuntime option \<Rightarrow> (goerr + (nat \<times> int)) \<times> responseCacheRuntime option" where
  "ClearResponseCache mkdir rt =
     (case rt of
        None \<Rightarrow> (err ''response cache runtime is not initialized'' [], rt)
      | Some t \<Rightarrow> (case rcr_store t of
           None \<Rightarrow> (err ''response cache runtime is not initialized'' [], rt)
         | Some s \<Rightarrow> (case Clear mkdir s of
              ((n, None), s') \<Rightarrow> (Inr n, Some (t\<lparr>rcr_store := Some s'\<rparr>))
            | ((n, Some e), s') \<Rightarrow> (Inl e, Some (t\<lparr>rcr_store := Some s'\<rparr>)))))"

record proxyCacheStorePutBody =
  ps_Enabled :: bool
  ps_StoreDir :: string
  ps_MaxBytes :: int

datatype cache_store_reply =
    StoreBind goerr
  | StoreConflict string
  | StoreInvalid goerr
  | StoreApplied string responseCacheConfig
  | StoreValid responseCacheConfig

definition ValidateResponseCacheStore ::
  "(string \<Rightarrow> responseCacheConfig result) \<Rightarrow> (responseCacheConfig \<Rightarrow> string) \<Rightarrow> goerr option \<Rightarrow> string result \<Rightarrow> cache_store_reply" where
  "ValidateResponseCacheStore decode encode mkdir body =
     (case body of
        Inl e \<Rightarrow> StoreBind e
      | Inr raw \<Rightarrow> (case ValidateResponseCacheRaw decode encode mkdir raw of Inl e \<Rightarrow> StoreInvalid e | Inr c \<Rightarrow> StoreValid c))"

definition PutResponseCacheStore ::
  "(string \<Rightarrow> responseCacheConfig result) \<Rightarrow> (responseCacheConfig \<Rightarrow> string) \<Rightarrow> (nat \<Rightarrow> goerr option) \<Rightarrow> int \<Rightarrow> string
     \<Rightarrow> proxyCacheStorePutBody result \<Rightarrow> responseCacheRuntime option \<times> storage
     \<Rightarrow> cache_store_reply \<times> responseCacheRuntime option \<times> storage" where
  "PutResponseCacheStore decode encode mk now ifMatch body sys =
     (case body of
        Inl e \<Rightarrow> (StoreBind e, sys)
      | Inr b \<Rightarrow>
          (let c = normalizeResponseCacheConfig \<lparr>rcc_Enabled = ps_Enabled b, rcc_StoreDir = ps_StoreDir b, rcc_MaxBytes = ps_MaxBytes b\<rparr>
           in case ApplyResponseCacheRaw decode encode mk now ifMatch (encode c) sys of
                (Inl (ResponseCacheConflict t), sys') \<Rightarrow> (StoreConflict t, sys')
              | (Inl (ResponseCacheError e), sys') \<Rightarrow> (StoreInvalid e, sys')
              | (Inr (t, c'), sys') \<Rightarrow> (StoreApplied t c', sys')))"

end
