(* ===== verification/Cache_Serving_Correct.thy ===== *)
theory Cache_Serving_Correct
  imports Cache_Serving
begin

text \<open>
  What the response cache guarantees to clients: a recorded response comes back unchanged,
  only responses that may be shared are recorded, and the key tells apart what it covers.
\<close>

subsection \<open>Paths in the store\<close>

lemma SplitByte_snoc: "c \<notin> set n \<Longrightarrow> SplitByte (d @ c # n) c = SplitByte d c @ [n]"
proof (induction d)
  case Nil
  then show ?case by (simp add: SplitByte_no)
next
  case (Cons x d)
  have "SplitByte d c \<noteq> []" by (induction d) (auto split: list.split)
  with Cons show ?case by (auto split: list.split)
qed

lemma join_last: "ws \<noteq> [] \<Longrightarrow> \<exists>x. join_with sep ws = x @ last ws"
  by (induction ws rule: induct_list012) (auto simp: join_with_def)

lemma Join_last:
  assumes "CHR ''/'' \<notin> set n" "n \<noteq> []" "n \<noteq> ''.''" "n \<noteq> ''..''"
  shows "\<exists>x. filepath_Join d n = x @ n"
proof -
  let ?p = "d @ ''/'' @ n" and ?r = "hd (d @ ''/'' @ n) = CHR ''/''"
  define out where "out = rev (foldl (clean_step ?r) [] (SplitByte ?p (CHR ''/'')))"
  have "SplitByte ?p (CHR ''/'') = SplitByte d (CHR ''/'') @ [n]" using SplitByte_snoc [OF assms(1), of d] by simp
  then have out: "out \<noteq> []" "last out = n" using assms(2-4) by (simp_all add: out_def clean_step_def)
  then obtain x where x: "join_with ''/'' out = x @ n" using join_last [of out "''/''"] by auto
  have "filepath_Join d n = (if ?r then ''/'' @ join_with ''/'' out else if out = [] then ''.'' else join_with ''/'' out)"
    unfolding filepath_Join_def path_Clean_def Let_def out_def by simp
  then show ?thesis using x out by auto
qed

lemma be_bytes_range: "b \<in> set (be_bytes n v) \<Longrightarrow> 0 \<le> b \<and> b < 256"
  by (auto simp: be_bytes_def)

lemma hash_slash: "CHR ''/'' \<notin> set (proxyResponseCacheHash k)"
proof -
  have digit: "hex_digit i \<noteq> CHR ''/''" if "0 \<le> i" "i < 16" for i
  proof
    assume "hex_digit i = CHR ''/''"
    then have "ord (hex_digit i) = 47" by (simp add: ord_def)
    then show False using that by (auto simp: hex_digit_def ord_char_of split: if_splits)
  qed
  have "0 \<le> b \<and> b < 256" if "b \<in> set (sha256 k)" for b
    using that be_bytes_range by (auto simp: sha256_def)
  then have range: "0 \<le> b div 16" "b div 16 < 16" if "b \<in> set (sha256 k)" for b
    using that by fastforce+
  have "hex_digit (b div 16) \<noteq> CHR ''/''" "hex_digit (b mod 16) \<noteq> CHR ''/''" if "b \<in> set (sha256 k)" for b
    using digit [OF range [OF that]] digit [of "b mod 16"] by simp_all
  then show ?thesis unfolding proxyResponseCacheHash_def hex_encode_def by fastforce
qed

lemma body_not_meta:
  "filepath_Join d (proxyResponseCacheHash k @ ''.body'') \<noteq> filepath_Join d (proxyResponseCacheHash k @ ''.json'')"
proof -
  let ?h = "proxyResponseCacheHash k"
  obtain x where x: "filepath_Join d (?h @ ''.body'') = x @ ?h @ ''.body''"
    using Join_last [of "?h @ ''.body''" d] hash_slash [of k] by auto
  obtain y where y: "filepath_Join d (?h @ ''.json'') = y @ ?h @ ''.json''"
    using Join_last [of "?h @ ''.json''" d] hash_slash [of k] by auto
  have "last (filepath_Join d (?h @ ''.body'')) = CHR ''y''" "last (filepath_Join d (?h @ ''.json'')) = CHR ''n''"
    unfolding x y by simp_all
  then show ?thesis by auto
qed

subsection \<open>A recorded response comes back\<close>

definition storable_here ::
  "(string \<Rightarrow> string \<Rightarrow> bool) \<Rightarrow> serve_env \<Rightarrow> cache_Rule list \<Rightarrow> cache_Rule \<Rightarrow> string \<Rightarrow> Request \<Rightarrow> proxyResponseCacheStore \<Rightarrow> bool" where
  \<comment> \<open>a request whose response is recorded: a \<open>GET\<close> that a rule allows and no entry answers, a response
      that may be stored and fits, and no failing file operation\<close>
  "storable_here re_match env rs rule tmp r s =
     (let reply = sv_origin env (Header_Set ''X-Mamotama-Cache'' ''MISS'' (sv_base env)) in
      cache_wf s \<and> cs_enabled s \<and> 0 < cs_maxBytes s
      \<and> \<not> shouldBypassProxyResponseCache r \<and> rq_Method r = ''GET''
      \<and> Ruleset_Match re_match rs (rq_Method r) (url_Path (rq_URL r)) = (Some rule, True)
      \<and> map_of (cs_entries s) (proxyResponseCacheKey r (cu_Vary rule)) = None
      \<and> sv_temp env = Inr tmp \<and> TrimSpace tmp \<noteq> [] \<and> \<not> sv_tmpErr env \<and> sv_move env = None \<and> sv_write env = None
      \<and> list_all (\<lambda>(k, e). ce_BodyPath e \<noteq> tmp \<and> proxyResponseCacheMetaPath (ce_BodyPath e) \<noteq> tmp) (cs_entries s)
      \<and> shouldStoreProxyResponse (cy_Status reply) (cy_Header reply)
      \<and> int (length (cy_Body reply)) \<le> cs_maxBytes s \<and> 0 \<le> cu_TTL rule \<and> cu_TTL rule < 2 ^ 31)"

definition lifetime :: "cache_Rule \<Rightarrow> int" where
  "lifetime rule = (if cu_TTL rule \<le> 0 then 600 else cu_TTL rule) * 1000000000"

text \<open>Making room only deletes files of entries.\<close>

definition keeps_file :: "string \<Rightarrow> proxyResponseCacheStore \<Rightarrow> bool" where
  "keeps_file p s = list_all (\<lambda>(k, e). ce_BodyPath e \<noteq> p \<and> proxyResponseCacheMetaPath (ce_BodyPath e) \<noteq> p) (cs_entries s)"

lemma remove_keeps:
  assumes "keeps_file p s" "(k, e) \<in> set (cs_entries s)"
  shows "keeps_file p (removeEntryLocked e s) \<and> map_of (cs_disk (removeEntryLocked e s)) p = map_of (cs_disk s) p"
  using assms by (auto simp: keeps_file_def list_all_iff removeEntryLocked_def disk_remove_def Let_def set_adel)

lemma count_keeps [simp]:
  "keeps_file p (count_eviction s) = keeps_file p s" "cs_disk (count_eviction s) = cs_disk s"
  by (simp_all add: keeps_file_def count_eviction_def)

lemma evict_keeps:
  assumes "keeps_file p s" "set es \<subseteq> snd ` set (cs_entries s)" "distinct (map ce_Key es)" "keyed (cs_entries s)"
  shows "let t = foldl (\<lambda>s e. if \<not> now < ce_ExpiresAt e then count_eviction (removeEntryLocked e s) else s) s es in
    keeps_file p t \<and> map_of (cs_disk t) p = map_of (cs_disk s) p"
  using assms
proof (induction es arbitrary: s)
  case (Cons e es)
  let ?s = "if \<not> now < ce_ExpiresAt e then count_eviction (removeEntryLocked e s) else s"
  from Cons.prems(2) obtain k where m: "(k, e) \<in> set (cs_entries s)" by auto
  note rm = remove_keeps [OF Cons.prems(1) m]
  have sub: "set es \<subseteq> snd ` set (cs_entries ?s)"
  proof
    fix f assume f: "f \<in> set es"
    then obtain j where j: "(j, f) \<in> set (cs_entries s)" using Cons.prems(2) by auto
    then have "ce_Key f = j" using Cons.prems(4) by (auto simp: keyed_def list_all_iff)
    moreover have "ce_Key f \<noteq> ce_Key e" using Cons.prems(3) f by (auto simp: image_iff)
    ultimately have "(j, f) \<in> set (cs_entries ?s)"
      using j by (auto simp: removeEntryLocked_def disk_remove_def Let_def count_eviction_def set_adel)
    then show "f \<in> snd ` set (cs_entries ?s)" by force
  qed
  have "keyed (cs_entries ?s)"
    using Cons.prems(4) by (auto simp: keyed_def list_all_iff removeEntryLocked_def disk_remove_def Let_def count_eviction_def set_adel)
  from Cons.IH [OF _ sub _ this] rm Cons.prems(1,3) show ?case by (simp add: Let_def split: if_splits)
qed simp

lemma limit_keeps:
  assumes "keeps_file p s"
  shows "keeps_file p (limit_step s) \<and> map_of (cs_disk (limit_step s)) p = map_of (cs_disk s) p"
proof (cases "cs_lru s")
  case (Cons x rest)
  obtain i k where x: "x = (i, k)" by (cases x)
  show ?thesis
  proof (cases "map_of (cs_entries s) k")
    case None
    with Cons x assms show ?thesis by (simp add: limit_step_def keeps_file_def)
  next
    case (Some e)
    from remove_keeps [OF assms map_of_SomeD [OF Some]] Some Cons x show ?thesis by (simp add: limit_step_def)
  qed
qed (use assms in \<open>simp add: limit_step_def\<close>)

lemma make_room_keeps:
  assumes "keeps_file p s" "cache_wf s"
  shows "map_of (cs_disk (make_room k n now s)) p = map_of (cs_disk s) p"
proof -
  have ix: "index_ok s" using assms(2) by (simp add: cache_wf_def)
  let ?a = "removeByKey k s" let ?b = "evictExpiredLocked now ?a"
  have a: "keeps_file p ?a \<and> map_of (cs_disk ?a) p = map_of (cs_disk s) p"
    using remove_keeps [OF assms(1)] assms(1) by (auto simp: removeByKey_def split: option.split dest: map_of_SomeD)
  have ixa: "index_ok ?a" using removeByKey_ok [OF ix] by blast
  then have "distinct (map fst (cs_entries ?a))" and ky: "keyed (cs_entries ?a)" by (auto simp: index_ok_def)
  then have "distinct (map ce_Key (map snd (cs_entries ?a)))" unfolding index_keys [OF ixa] by simp
  with ky have b: "keeps_file p ?b \<and> map_of (cs_disk ?b) p = map_of (cs_disk ?a) p"
    using evict_keeps [of p ?a "map snd (cs_entries ?a)" now] a by (simp add: evictExpiredLocked_def Let_def)
  have ixb: "index_ok ?b" using evict_ok [OF ixa] by (simp add: Let_def)
  have "keyed (cs_entries ?b)" using ixb by (simp add: index_ok_def)
  from enforce_inv [of ?b "\<lambda>t. keeps_file p t \<and> map_of (cs_disk t) p = map_of (cs_disk ?b) p" n, OF this]
  show ?thesis using a b limit_keeps by (auto simp: make_room_def)
qed

lemma wf_lookup_none: "cache_wf s \<Longrightarrow> cs_enabled s \<Longrightarrow> map_of (cs_entries s) k = None
    \<Longrightarrow> Lookup k now s = (None, s\<lparr>cs_misses := cs_misses s + 1\<rparr>)"
  by (simp add: Lookup_def)

lemma recorded_comes_back:
  assumes "storable_here re_match env rs rule tmp r s" "serve_cached re_match env rs r s = (reply, s')"
    "\<not> shouldBypassProxyResponseCache r'"
    "Ruleset_Match re_match rs (rq_Method r') (url_Path (rq_URL r')) = (Some rule, True)"
    "proxyResponseCacheKey r' (cu_Vary rule) = proxyResponseCacheKey r (cu_Vary rule)"
    "sv_lookup env' < sv_store env + lifetime rule" "\<not> sv_copyErr env'"
  shows "reply = sv_origin env (Header_Set ''X-Mamotama-Cache'' ''MISS'' (sv_base env))
    \<and> fst (serve_cached re_match env' rs r' s') =
       \<lparr>cy_Status = cy_Status reply,
        cy_Header = cached_header (sv_waf env') (sv_base env') (sanitizeProxyCachedResponseHeader (cy_Header reply)),
        cy_Body = (if rq_Method r' = ''HEAD'' \<or> cy_Status reply = 204 then [] else cy_Body reply)\<rparr>"
proof -
  let ?rep = "sv_origin env (Header_Set ''X-Mamotama-Cache'' ''MISS'' (sv_base env))"
  let ?k = "proxyResponseCacheKey r (cu_Vary rule)" and ?n = "int (length (cy_Body ?rep))"
  note a = assms(1) [unfolded storable_here_def Let_def]
  define s1 where "s1 = s\<lparr>cs_misses := cs_misses s + 1, cs_disk := aput tmp (BodyFile (cy_Body ?rep)) (cs_disk s)\<rparr>"
  have wf1: "cache_wf s1" using a by (simp add: s1_def cache_wf_def index_ok_disk index_ok_counters)
  let ?ttl = "if cu_TTL rule \<le> 0 then 600 else cu_TTL rule"
  let ?room = "make_room ?k ?n (sv_store env) s1"
  let ?body = "filepath_Join (cs_dir s1) (proxyResponseCacheHash ?k @ ''.body'')"
  let ?meta = "filepath_Join (cs_dir s1) (proxyResponseCacheHash ?k @ ''.json'')"
  have s1: "cs_enabled s1" "0 < cs_maxBytes s1" "?n \<le> cs_maxBytes s1" using a by (simp_all add: s1_def)
  have keep: "keeps_file tmp s1" using a by (simp add: keeps_file_def s1_def)
  have disk: "map_of (cs_disk ?room) tmp = Some (BodyFile (cy_Body ?rep))"
    using make_room_keeps [OF keep wf1, of ?k ?n "sv_store env"] by (simp add: s1_def)
  note room = make_room_ok [OF wf1 s1(2) _ s1(3), of ?k "sv_store env"]
  let ?m = "\<lparr>mt_Key = ?k, mt_Status = cy_Status ?rep, mt_Header = sanitizeProxyCachedResponseHeader (cy_Header ?rep), mt_Size = ?n,
    mt_ExpiresAt = sv_store env + i64 (?ttl * 1000000000), mt_CreatedAt = sv_store env, mt_AccessedAt = sv_store env\<rparr>"
  have ttl: "i64 (?ttl * 1000000000) = lifetime rule"
    using a unfolding lifetime_def by (subst i64_id) auto
  define s2 where "s2 = (insert_entry ?k ?m ?body (write_meta ?meta ?m (move_file tmp ?body ?room)))\<lparr>cs_stores := cs_stores s1 + 1\<rparr>"
  have store: "Store None None ?k ?ttl (cy_Status ?rep) (cy_Header ?rep) tmp ?n (sv_store env) s1 = (Inr (), s2)"
    using a s1 disk unfolding Store_def Let_def s2_def by (simp add: cache_full_def move_outcome_def)
  have look: "Lookup ?k (sv_lookup env) s = (None, s\<lparr>cs_misses := cs_misses s + 1\<rparr>)"
    using a by (intro wf_lookup_none) simp_all
  have serve: "serve_cached re_match env rs r s = (?rep, s2)"
  proof -
    have byp: "\<not> shouldBypassProxyResponseCache r"
      and rule: "Ruleset_Match re_match rs (rq_Method r) (url_Path (rq_URL r)) = (Some rule, True)" using a by blast+
    have "serve_cached re_match env rs r s = serve_miss env rule ?k r (s\<lparr>cs_misses := cs_misses s + 1\<rparr>)"
      unfolding serve_cached_def Let_def using byp by (simp add: rule look)
    moreover have "serve_miss env rule ?k r (s\<lparr>cs_misses := cs_misses s + 1\<rparr>) = (?rep, s2)"
      using a store unfolding serve_miss_def Let_def by (simp add: s1_def)
    ultimately show ?thesis by simp
  qed
  let ?e = "meta_entry ?m ?body (cs_next (write_meta ?meta ?m (move_file tmp ?body ?room)))"
  have ent: "map_of (cs_entries s2) ?k = Some ?e" by (simp add: s2_def insert_entry_def)
  have dsk: "map_of (cs_disk s2) ?body = Some (BodyFile (cy_Body ?rep))"
    using disk body_not_meta [of "cs_dir s1" ?k]
    by (simp add: s2_def insert_entry_def write_meta_def move_file_def)
  have en: "cs_enabled s2" using room s1 by (simp add: s2_def insert_entry_def write_meta_def move_file_def)
  have live: "sv_lookup env' < ce_ExpiresAt ?e" using assms(6) ttl by (simp add: meta_entry_def)
  obtain s3 where look2: "Lookup ?k (sv_lookup env') s2 = (Some (?e\<lparr>ce_AccessedAt := sv_lookup env'\<rparr>), s3)" and "cs_disk s3 = cs_disk s2"
    using en ent dsk live by (simp add: Lookup_def Let_def meta_entry_def)
  then have "fst (serve_cached re_match env' rs r' s2) =
       \<lparr>cy_Status = cy_Status ?rep,
        cy_Header = cached_header (sv_waf env') (sv_base env') (sanitizeProxyCachedResponseHeader (cy_Header ?rep)),
        cy_Body = (if rq_Method r' = ''HEAD'' \<or> cy_Status ?rep = 204 then [] else cy_Body ?rep)\<rparr>"
    using assms(3,4,5,7) dsk
    by (simp add: serve_cached_def Let_def writeProxyCachedResponse_def meta_entry_def cloneProxyHeader_def)
  then show ?thesis using assms(2) serve by simp
qed


subsection \<open>Keys\<close>

lemma key_join:
  "proxyResponseCacheKey r vary = join_with [newline]
     ((if rq_Method r = ''HEAD'' then ''GET'' else rq_Method r) # ToLower (TrimSpace (rq_Host r)) # RequestURI (rq_URL r)
      # map (\<lambda>h. tl (key_header r h)) vary)"
proof -
  have "[newline] @ tl (key_header r h) = key_header r h" for h by (simp add: key_header_def Let_def)
  then have "concat (map (key_header r) vary) = concat (map (\<lambda>x. [newline] @ x) (map (\<lambda>h. tl (key_header r h)) vary))"
    by (induction vary) auto
  then show ?thesis by (simp add: proxyResponseCacheKey_def join_with_def comp_def)
qed

definition one_line :: "string list \<Rightarrow> Request \<Rightarrow> bool" where
  \<comment> \<open>no line break in what the key is made of, as in every request the server accepts\<close>
  "one_line vary r = (newline \<notin> set (rq_Method r) \<and> newline \<notin> set (ToLower (TrimSpace (rq_Host r)))
     \<and> newline \<notin> set (RequestURI (rq_URL r)) \<and> list_all (\<lambda>h. newline \<notin> set (tl (key_header r h))) vary)"

text \<open>
  Two requests share a cached response exactly when they agree on the method up to \<open>HEAD\<close>, on
  the host up to letter case and surrounding space, on path and query, and on every header
  the rule names, its values joined by commas.
\<close>

theorem cache_key_separates:
  assumes "one_line vary r" "one_line vary r'"
  shows "proxyResponseCacheKey r vary = proxyResponseCacheKey r' vary \<longleftrightarrow>
    (if rq_Method r = ''HEAD'' then ''GET'' else rq_Method r) = (if rq_Method r' = ''HEAD'' then ''GET'' else rq_Method r')
    \<and> ToLower (TrimSpace (rq_Host r)) = ToLower (TrimSpace (rq_Host r')) \<and> RequestURI (rq_URL r) = RequestURI (rq_URL r')
    \<and> list_all (\<lambda>h. join_with '','' (Header_Values (rq_Header r) (CanonicalMIMEHeaderKey (TrimSpace h)))
        = join_with '','' (Header_Values (rq_Header r') (CanonicalMIMEHeaderKey (TrimSpace h)))) vary"
proof -
  let ?parts = "\<lambda>r. (if rq_Method r = ''HEAD'' then ''GET'' else rq_Method r) # ToLower (TrimSpace (rq_Host r))
    # RequestURI (rq_URL r) # map (\<lambda>h. tl (key_header r h)) vary"
  have split: "SplitByte (proxyResponseCacheKey q vary) newline = ?parts q" if "one_line vary q" for q
    unfolding key_join using that by (intro SplitByte_join) (auto simp: one_line_def list_all_iff)
  have "proxyResponseCacheKey r vary = proxyResponseCacheKey r' vary \<longleftrightarrow> ?parts r = ?parts r'"
    using split [OF assms(1)] split [OF assms(2)] key_join by metis
  moreover have "map (\<lambda>h. tl (key_header r h)) vary = map (\<lambda>h. tl (key_header r' h)) vary \<longleftrightarrow>
      list_all (\<lambda>h. join_with '','' (Header_Values (rq_Header r) (CanonicalMIMEHeaderKey (TrimSpace h)))
        = join_with '','' (Header_Values (rq_Header r') (CanonicalMIMEHeaderKey (TrimSpace h)))) vary"
    by (auto simp: key_header_def Let_def list_all_iff)
  ultimately show ?thesis by simp
qed

subsection \<open>What is recorded\<close>

definition shareable :: "string \<Rightarrow> proxyResponseCacheEntry \<Rightarrow> bool" where
  "shareable k e = (\<exists>r vary h. k = proxyResponseCacheKey r vary \<and> rq_Method r = ''GET'' \<and> \<not> shouldBypassProxyResponseCache r
     \<and> shouldStoreProxyResponse (ce_Status e) h \<and> ce_Header e = sanitizeProxyCachedResponseHeader h)"

definition all_shareable :: "proxyResponseCacheStore \<Rightarrow> bool" where
  "all_shareable s = (keyed (cs_entries s) \<and> (\<forall>(k, e)\<in>set (cs_entries s). shareable k e))"

lemma shareable_remove: "all_shareable s \<Longrightarrow> all_shareable (removeEntryLocked e s)"
  by (auto simp: all_shareable_def removeEntryLocked_def disk_remove_def Let_def set_adel keyed_def list_all_iff)

lemma shareable_frame [simp]:
  "all_shareable (s\<lparr>cs_disk := d\<rparr>) = all_shareable s" "all_shareable (s\<lparr>cs_misses := c\<rparr>) = all_shareable s"
  "all_shareable (s\<lparr>cs_stores := c\<rparr>) = all_shareable s" "all_shareable (s\<lparr>cs_lru := l\<rparr>) = all_shareable s"
  "all_shareable (count_eviction s) = all_shareable s" "all_shareable (disk_remove p s) = all_shareable s"
  "all_shareable (move_file a b s) = all_shareable s" "all_shareable (write_meta a m s) = all_shareable s"
  by (simp_all add: all_shareable_def count_eviction_def disk_remove_def move_file_def write_meta_def)

lemma shareable_removeByKey: "all_shareable s \<Longrightarrow> all_shareable (removeByKey k s)"
  by (auto simp: removeByKey_def shareable_remove split: option.split)

lemma shareable_make_room: "all_shareable s \<Longrightarrow> all_shareable (make_room k n now s)"
proof -
  assume a: "all_shareable s"
  have fold: "all_shareable (foldl (\<lambda>s e. if \<not> now < ce_ExpiresAt e then count_eviction (removeEntryLocked e s) else s) t es)"
    if "all_shareable t" for t es
    using that by (induction es arbitrary: t) (simp_all add: shareable_remove)
  let ?b = "evictExpiredLocked now (removeByKey k s)"
  have b: "all_shareable ?b" using fold shareable_removeByKey [OF a] by (simp add: evictExpiredLocked_def)
  have step: "all_shareable (limit_step t)" if "all_shareable t" for t
    using that by (auto simp: limit_step_def shareable_remove split: list.split option.split)
  from b have "keyed (cs_entries ?b)" by (simp add: all_shareable_def)
  from enforce_inv [of ?b all_shareable n, OF this b step] show ?thesis by (simp add: make_room_def)
qed

lemma shareable_Lookup: "all_shareable s \<Longrightarrow> Lookup k now s = (r, s') \<Longrightarrow> all_shareable s'"
proof -
  assume a: "all_shareable s" "Lookup k now s = (r, s')"
  have hit: "all_shareable (s\<lparr>cs_entries := aput k (e\<lparr>ce_AccessedAt := t\<rparr>) (cs_entries s), cs_hits := c\<rparr>)"
    if e: "map_of (cs_entries s) k = Some e" for e t c
  proof -
    from map_of_SomeD [OF e] a(1) have "shareable k e" "ce_Key e = k" by (auto simp: all_shareable_def keyed_def list_all_iff)
    then have "shareable k (e\<lparr>ce_AccessedAt := t\<rparr>)" "ce_Key (e\<lparr>ce_AccessedAt := t\<rparr>) = k" by (simp_all add: shareable_def)
    moreover have "set (aput k v m) \<subseteq> insert (k, v) (set m)" for v :: proxyResponseCacheEntry and m
      by (induction k v m rule: aput.induct) auto
    ultimately show ?thesis using a(1) unfolding all_shareable_def keyed_def list_all_iff by fastforce
  qed
  from a show ?thesis
    by (auto simp: Lookup_def Let_def shareable_remove hit split: if_splits option.splits)
qed

lemma shareable_Store:
  assumes "all_shareable s" "Store mv wr k ttl status h path n now s = (x, s')"
    "k = proxyResponseCacheKey r vary" "rq_Method r = ''GET''" "\<not> shouldBypassProxyResponseCache r" "shouldStoreProxyResponse status h"
  shows "all_shareable s'"
proof -
  have ins: "all_shareable (insert_entry k m b t)"
    if "all_shareable t" "mt_Key m = k" "mt_Status m = status" "mt_Header m = sanitizeProxyCachedResponseHeader h" for m b t
  proof -
    have "shareable k (meta_entry m b (cs_next t))" "ce_Key (meta_entry m b (cs_next t)) = k"
      using assms(3-6) that unfolding shareable_def by (auto simp: meta_entry_def cloneProxyHeader_def)
    moreover have "set (aput k v m) \<subseteq> insert (k, v) (set m)" for v :: proxyResponseCacheEntry and m
      by (induction k v m rule: aput.induct) auto
    ultimately show ?thesis
      using that(1) unfolding all_shareable_def keyed_def list_all_iff insert_entry_def by fastforce
  qed
  show ?thesis
    using assms(1,2) unfolding Store_def Let_def
    by (auto simp: shareable_make_room ins split: if_splits option.splits)
qed

lemma shareable_miss:
  assumes "all_shareable s" "\<not> shouldBypassProxyResponseCache r"
  shows "all_shareable (snd (serve_miss env rule (proxyResponseCacheKey r vary) r s))"
proof (cases "sv_temp env")
  case (Inr tmp)
  let ?rep = "sv_origin env (Header_Set ''X-Mamotama-Cache'' ''MISS'' (sv_base env))"
  let ?s = "s\<lparr>cs_disk := aput tmp (BodyFile (cy_Body ?rep)) (cs_disk s)\<rparr>"
  obtain x s2 where st: "Store (sv_move env) (sv_write env) (proxyResponseCacheKey r vary) (if cu_TTL rule \<le> 0 then 600 else cu_TTL rule)
    (cy_Status ?rep) (cy_Header ?rep) tmp (int (length (cy_Body ?rep))) (sv_store env) ?s = (x, s2)" by fastforce
  have s: "all_shareable ?s" using assms(1) by simp
  show ?thesis
  proof (cases "sv_tmpErr env \<or> rq_Method r \<noteq> ''GET'' \<or> \<not> shouldStoreProxyResponse (cy_Status ?rep) (cy_Header ?rep)")
    case True
    with Inr assms(1) show ?thesis by (simp add: serve_miss_def Let_def)
  next
    case False
    with shareable_Store [OF s st refl _ assms(2)] have "all_shareable s2" by simp
    with False Inr st show ?thesis by (cases x) (simp_all add: serve_miss_def Let_def)
  qed
qed (use assms in \<open>simp add: serve_miss_def\<close>)

lemma shareable_serve:
  assumes "all_shareable s"
  shows "all_shareable (snd (serve_cached re_match env rs r s))"
proof (cases "shouldBypassProxyResponseCache r")
  case False
  obtain rule allow where m: "Ruleset_Match re_match rs (rq_Method r) (url_Path (rq_URL r)) = (rule, allow)" by fastforce
  show ?thesis
  proof (cases "rule = None \<or> \<not> allow")
    case True
    with False m assms show ?thesis by (cases rule) (auto simp: serve_cached_def)
  next
    case hit: False
    then obtain ru where ru: "rule = Some ru" "allow" by auto
    obtain e s1 where l: "Lookup (proxyResponseCacheKey r (cu_Vary ru)) (sv_lookup env) s = (e, s1)" by fastforce
    note s1 = shareable_Lookup [OF assms l]
    show ?thesis
      using False m ru l s1 shareable_miss [OF s1 False] shareable_miss [OF shareable_removeByKey [OF s1] False]
      by (auto simp: serve_cached_def Let_def split: option.split)
  qed
qed (use assms in \<open>simp add: serve_cached_def\<close>)

inductive serve_reachable :: "(string \<Rightarrow> string \<Rightarrow> bool) \<Rightarrow> proxyResponseCacheStore \<Rightarrow> bool" for re_match where
  empty: "cs_entries s = [] \<Longrightarrow> serve_reachable re_match s"
| serve: "serve_reachable re_match s \<Longrightarrow> serve_reachable re_match (snd (serve_cached re_match env rs r s))"
| remove: "serve_reachable re_match s \<Longrightarrow> serve_reachable re_match (removeByKey k s)"
| clear: "serve_reachable re_match s \<Longrightarrow> serve_reachable re_match (snd (Clear mkdir s))"

lemma sanitize_drops:
  assumes "ToLower x \<in> set dropped_headers"
  shows "hdr_values (sanitizeProxyCachedResponseHeader h) x = []"
proof -
  have "hdr_values (foldl (\<lambda>out (k, vals). let key = CanonicalMIMEHeaderKey k in
      if ToLower key \<in> set dropped_headers then out else aput key vals out) o0 h) x = []"
    if "hdr_values o0 x = []" for o0
    using that
  proof (induction h arbitrary: o0)
    case (Cons a h)
    obtain k vals where a: "a = (k, vals)" by (cases a)
    have "hdr_values (aput (CanonicalMIMEHeaderKey k) vals o0) x = []"
      if "ToLower (CanonicalMIMEHeaderKey k) \<notin> set dropped_headers"
    proof -
      have "x \<noteq> CanonicalMIMEHeaderKey k" using assms that by auto
      then show ?thesis using Cons.prems by (simp add: hdr_values_def)
    qed
    with Cons a show ?case by (simp add: Let_def)
  qed simp
  then show ?thesis by (simp add: sanitizeProxyCachedResponseHeader_def hdr_values_def)
qed


text \<open>
  A partial response answers whole requests.  The key does not cover \<open>Range\<close>, and status 206
  may be stored, so after one request for a range the same request without it is answered,
  for the whole lifetime, with status 206 and that part of the body.
\<close>

theorem partial_response_answers_whole_requests:
  assumes "storable_here re_match env rs rule tmp r s" "serve_cached re_match env rs r s = (reply, s')"
    "cy_Status reply = 206" "''Range'' \<notin> (\<lambda>h. CanonicalMIMEHeaderKey (CanonicalMIMEHeaderKey (TrimSpace h))) ` set (cu_Vary rule)"
    "sv_lookup env' < sv_store env + lifetime rule" "\<not> sv_copyErr env'"
  shows "cy_Status (fst (serve_cached re_match env' rs (r\<lparr>rq_Header := Header_Del ''Range'' (rq_Header r)\<rparr>) s')) = 206
    \<and> cy_Body (fst (serve_cached re_match env' rs (r\<lparr>rq_Header := Header_Del ''Range'' (rq_Header r)\<rparr>) s')) = cy_Body reply"
proof -
  let ?r = "r\<lparr>rq_Header := Header_Del ''Range'' (rq_Header r)\<rparr>"
  have canon: "CanonicalMIMEHeaderKey ''Range'' = ''Range''" by code_simp
  have other: "hdr_values (Header_Del ''Range'' (rq_Header r)) x = hdr_values (rq_Header r) x" if "x \<noteq> ''Range''" for x
    using that header.lookup_del [of "''Range''" "rq_Header r" x] by (simp add: canon)
  have names: "CanonicalMIMEHeaderKey ''Authorization'' = ''Authorization''" "CanonicalMIMEHeaderKey ''Cookie'' = ''Cookie''"
    "CanonicalMIMEHeaderKey ''Cache-Control'' = ''Cache-Control''" "CanonicalMIMEHeaderKey ''Pragma'' = ''Pragma''" by code_simp+
  note a = assms(1) [unfolded storable_here_def Let_def]
  have get: "rq_Method r = ''GET''" using a by blast
  have "shouldBypassProxyResponseCache ?r = shouldBypassProxyResponseCache r"
    by (simp add: shouldBypassProxyResponseCache_def Header_Get_def Header_Values_def names other)
  then have byp: "\<not> shouldBypassProxyResponseCache ?r" using a by blast
  have "map (key_header ?r) (cu_Vary rule) = map (key_header r) (cu_Vary rule)"
    using assms(4) by (auto simp: key_header_def Let_def Header_Values_def image_iff intro!: arg_cong [of _ _ "join_with _"] other)
  then have key: "proxyResponseCacheKey ?r (cu_Vary rule) = proxyResponseCacheKey r (cu_Vary rule)"
    by (simp add: proxyResponseCacheKey_def cong: map_cong)
  have "Ruleset_Match re_match rs (rq_Method r) (url_Path (rq_URL r)) = (Some rule, True)" using a by blast
  then have match: "Ruleset_Match re_match rs (rq_Method ?r) (url_Path (rq_URL ?r)) = (Some rule, True)" by simp
  from recorded_comes_back [OF assms(1,2) byp match key assms(5,6)] show ?thesis using assms(3) get by simp
qed

subsection \<open>Concrete runs\<close>

definition demo_request :: Request where
  "demo_request = \<lparr>rq_Method = ''GET'', rq_Host = ''h'', rq_URL = empty_URL\<lparr>url_Path := ''/x''\<rparr>,
     rq_Header = [(''Range'', [''bytes=0-3''])], rq_RemoteAddr = [], rq_Body = NoBody, rq_ContentLength = 0\<rparr>"

definition demo_cache_rule :: cache_Rule where
  "demo_cache_rule = (empty_rule ''ALLOW'')\<lparr>cu_Prefix := ''/'', cu_Vary := [''Accept'']\<rparr>"

definition demo_reply :: proxy_reply where
  "demo_reply = \<lparr>cy_Status = 206, cy_Header = [], cy_Body = ''part''\<rparr>"

definition demo_env :: "int \<Rightarrow> serve_env" where
  "demo_env now = \<lparr>sv_lookup = now, sv_store = now, sv_base = [], sv_origin = (\<lambda>_. demo_reply), sv_waf = (False, []),
     sv_temp = Inr ''/c/tmp'', sv_tmpErr = False, sv_copyErr = False, sv_move = None, sv_write = None\<rparr>"

definition demo_cache :: proxyResponseCacheStore where
  "demo_cache = (new_store [])\<lparr>cs_enabled := True, cs_dir := ''/c'', cs_maxBytes := 100\<rparr>"

lemma demo_storable: "storable_here (\<lambda>_ _. False) (demo_env 0) [demo_cache_rule] demo_cache_rule ''/c/tmp'' demo_request demo_cache"
proof -
  have "\<not> shouldBypassProxyResponseCache demo_request" "TrimSpace ''/c/tmp'' \<noteq> []"
    "shouldStoreProxyResponse (cy_Status demo_reply) (cy_Header demo_reply)"
    "case Ruleset_Match (\<lambda>_ _. False) [demo_cache_rule] (rq_Method demo_request) (url_Path (rq_URL demo_request)) of
       (Some r, True) \<Rightarrow> r = demo_cache_rule | _ \<Rightarrow> False" by code_simp+
  moreover from this(4) have "Ruleset_Match (\<lambda>_ _. False) [demo_cache_rule] (rq_Method demo_request) (url_Path (rq_URL demo_request))
     = (Some demo_cache_rule, True)" by (auto split: prod.splits option.splits bool.splits)
  moreover have "cache_wf demo_cache" by (simp add: demo_cache_def cache_wf_def index_ok_def new_store_def keyed_def sizes_def)
  ultimately show ?thesis
    by (simp add: storable_here_def Let_def demo_env_def demo_cache_def new_store_def demo_reply_def)
      (simp add: demo_request_def demo_cache_rule_def empty_rule_def)
qed


theorem partial_response_answers_whole_requests_witness:
  "\<exists>s'. cy_Status (fst (serve_cached (\<lambda>_ _. False) (demo_env 5) [demo_cache_rule]
     (demo_request\<lparr>rq_Header := Header_Del ''Range'' (rq_Header demo_request)\<rparr>) s')) = 206"
proof -
  obtain reply s' where run: "serve_cached (\<lambda>_ _. False) (demo_env 0) [demo_cache_rule] demo_request demo_cache = (reply, s')" by fastforce
  note a = demo_storable [unfolded storable_here_def Let_def]
  from a have byp: "\<not> shouldBypassProxyResponseCache demo_request" and rule: "Ruleset_Match (\<lambda>_ _. False) [demo_cache_rule]
    (rq_Method demo_request) (url_Path (rq_URL demo_request)) = (Some demo_cache_rule, True)" by blast+
  have t: "sv_lookup (demo_env 5) < sv_store (demo_env 0) + lifetime demo_cache_rule"
    by (simp add: demo_env_def lifetime_def demo_cache_rule_def empty_rule_def)
  have c: "\<not> sv_copyErr (demo_env 5)" by (simp add: demo_env_def)
  from recorded_comes_back [OF demo_storable run byp rule refl t c] have r: "cy_Status reply = 206"
    by (simp add: demo_env_def demo_reply_def)
  have v: "''Range'' \<notin> (\<lambda>h. CanonicalMIMEHeaderKey (CanonicalMIMEHeaderKey (TrimSpace h))) ` set (cu_Vary demo_cache_rule)"
    by code_simp
  from partial_response_answers_whole_requests [OF demo_storable run r v t c] show ?thesis by blast
qed


theorem cache_key_separates_witness:
  "proxyResponseCacheKey demo_request [''Accept''] \<noteq> proxyResponseCacheKey (demo_request\<lparr>rq_Host := ''i''\<rparr>) [''Accept'']"
proof -
  have "one_line [''Accept''] demo_request" "one_line [''Accept''] (demo_request\<lparr>rq_Host := ''i''\<rparr>)" by code_simp+
  moreover have "ToLower (TrimSpace (rq_Host demo_request)) \<noteq> ToLower (TrimSpace (rq_Host (demo_request\<lparr>rq_Host := ''i''\<rparr>)))" by code_simp
  ultimately show ?thesis using cache_key_separates by blast
qed

end
