(* ===== verification/Ip_Reputation.thy ===== *)
theory Ip_Reputation
  imports Go_Netip Rules_File
begin

text \<open>
  \<open>ip_reputation_store.go\<close>: the lists of allowed and blocked address ranges, from the document and
  from feeds that are read again at intervals, and the handlers of the document.  A range that
  \<open>netip.PrefixFrom\<close> finds invalid is masked to the zero \<open>netip.Prefix\<close>, which contains no address:
  it is \<open>None\<close> here.  What a feed delivers is a parameter: a status with a body, or the bytes of a
  file, possibly ended by an error of the reader.
\<close>

subsection \<open>Ranges\<close>

definition Unmap :: "Addr \<Rightarrow> Addr" where
  "Unmap a = (case a of IPv4 v \<Rightarrow> IPv4 v
     | IPv6 v z \<Rightarrow> if drop_bit 32 v = 0xFFFF then IPv4 (ucast v) else IPv6 v z)"

definition Masked :: "Prefix \<Rightarrow> Prefix" where
  \<comment> \<open>of a valid range\<close>
  "Masked p = p\<lparr>pfx_Addr := (case pfx_Addr p of
       IPv4 v \<Rightarrow> IPv4 (push_bit (32 - pfx_Bits p) (drop_bit (32 - pfx_Bits p) v))
     | IPv6 v z \<Rightarrow> IPv6 (push_bit (128 - pfx_Bits p) (drop_bit (128 - pfx_Bits p) v)) [])\<rparr>"

definition BitLen :: "Addr \<Rightarrow> nat" where
  "BitLen a = (case a of IPv4 v \<Rightarrow> 32 | IPv6 v z \<Rightarrow> 128)"

definition prefix_or_invalid :: "Addr \<Rightarrow> nat \<Rightarrow> Prefix option" where
  \<comment> \<open>\<open>netip.PrefixFrom\<close> followed by \<open>Masked\<close>\<close>
  "prefix_or_invalid a bits = (if bits \<le> BitLen a then Some (Masked (PrefixFrom a bits)) else None)"

definition parseIPPrefix :: "string \<Rightarrow> Prefix option result" where
  \<comment> \<open>the result is masked by all who use it\<close>
  "parseIPPrefix raw =
     (let v = TrimSpace raw in
      if v = [] then err ''empty ip/cidr'' []
      else if Contains v ''/'' then bindR (ParsePrefix v) (\<lambda>p. Inr (Some (Masked p)))
      else bindR (ParseAddr v) (\<lambda>ip. Inr (prefix_or_invalid (Unmap ip) (if Is6 ip then 128 else 32))))"

definition dedupeIPPrefixes :: "Prefix option list \<Rightarrow> Prefix option list" where
  "dedupeIPPrefixes ps = dedup (map (map_option Masked) ps)"

fun parse_prefixes :: "nat \<Rightarrow> string list \<Rightarrow> (Prefix option list) result" where
  "parse_prefixes i [] = Inr []"
| "parse_prefixes i (raw # rest) =
     bindR (wrapR ''[%d]: %w'' [Itoa (int i)] (parseIPPrefix raw)) (\<lambda>p.
     bindR (parse_prefixes (Suc i) rest) (\<lambda>ps. Inr (p # ps)))"

definition parseIPPrefixList :: "string list \<Rightarrow> (Prefix option list) result" where
  "parseIPPrefixList xs = bindR (parse_prefixes 0 xs) (\<lambda>ps. Inr (dedupeIPPrefixes ps))"

definition range_contains :: "Prefix option \<Rightarrow> Addr \<Rightarrow> bool" where
  "range_contains p a = (case p of None \<Rightarrow> False | Some q \<Rightarrow> Prefix_Contains q a)"

definition containsIPPrefix :: "Prefix option list \<Rightarrow> Addr \<Rightarrow> bool" where
  "containsIPPrefix ps ip = list_ex (\<lambda>p. range_contains p (Unmap ip)) ps"

definition contains_base :: "Prefix option list \<Rightarrow> Prefix option \<Rightarrow> bool" where
  \<comment> \<open>\<open>containsIPPrefix(allowlist, prefix.Addr())\<close>; the zero range has the zero address\<close>
  "contains_base ps p = (case p of None \<Rightarrow> False | Some q \<Rightarrow> containsIPPrefix ps (pfx_Addr q))"

definition applyIPAllowlist :: "Prefix option list \<Rightarrow> Prefix option list \<Rightarrow> Prefix option list" where
  "applyIPAllowlist blocklist allowlist =
     (if blocklist = [] then []
      else if allowlist = [] then blocklist
      else filter (\<lambda>p. \<not> contains_base allowlist p) blocklist)"

subsection \<open>The document\<close>

record ipReputationConfig =
  ic_Enabled :: bool
  ic_FeedURLs :: "string list"
  ic_Allowlist :: "string list"
  ic_Blocklist :: "string list"
  ic_RefreshIntervalSec :: int
  ic_RequestTimeoutSec :: int
  ic_BlockStatusCode :: int
  ic_FailOpen :: bool

definition normalizeStringSlice :: "string list \<Rightarrow> string list" where
  "normalizeStringSlice xs = filter (\<lambda>v. v \<noteq> []) (map TrimSpace xs)"

definition normalizeAndValidateIPReputationConfig :: "ipReputationConfig \<Rightarrow> ipReputationConfig result" where
  "normalizeAndValidateIPReputationConfig inp =
     (let c = inp\<lparr>ic_FeedURLs := normalizeStringSlice (ic_FeedURLs inp),
                  ic_Allowlist := normalizeStringSlice (ic_Allowlist inp),
                  ic_Blocklist := normalizeStringSlice (ic_Blocklist inp),
                  ic_RefreshIntervalSec := (if ic_RefreshIntervalSec inp = 0 then 900 else ic_RefreshIntervalSec inp),
                  ic_RequestTimeoutSec := (if ic_RequestTimeoutSec inp = 0 then 5 else ic_RequestTimeoutSec inp),
                  ic_BlockStatusCode := (if ic_BlockStatusCode inp = 0 then 403 else ic_BlockStatusCode inp)\<rparr>
      in seqR (guardR (ic_RefreshIntervalSec c \<le> 0) (Errorf ''refresh_interval_sec must be > 0'' []))
        (seqR (guardR (ic_RequestTimeoutSec c \<le> 0) (Errorf ''request_timeout_sec must be > 0'' []))
        (seqR (guardR (ic_BlockStatusCode c < 400 \<or> 599 < ic_BlockStatusCode c)
                 (Errorf ''block_status_code must be between 400 and 599'' []))
        (bindR (wrapR ''allowlist: %w'' [] (parseIPPrefixList (ic_Allowlist c))) (\<lambda>_.
         bindR (wrapR ''blocklist: %w'' [] (parseIPPrefixList (ic_Blocklist c))) (\<lambda>_. Inr c))))))"

definition ValidateIPReputationRaw :: "(string \<Rightarrow> ipReputationConfig result) \<Rightarrow> string \<Rightarrow> ipReputationConfig result" where
  \<comment> \<open>\<open>decode\<close> is the strict decoder of one JSON value\<close>
  "ValidateIPReputationRaw decode raw = bindR (decode raw) normalizeAndValidateIPReputationConfig"

subsection \<open>Feeds\<close>

record ipFeedResult =
  fr_allow :: "Prefix option list"
  fr_block :: "Prefix option list"

type_synonym feed_body = "string \<times> goerr option"   \<comment> \<open>the bytes read and the error that ended the reading\<close>

record feed_world =
  fw_http :: "string \<Rightarrow> (int \<times> feed_body) result"
  fw_open :: "string \<Rightarrow> feed_body result"

definition isHTTPURL :: "string \<Rightarrow> bool" where
  "isHTTPURL raw =
     (let v = ToLower (TrimSpace raw) in HasPrefix v ''http://'' \<or> HasPrefix v ''https://'')"

definition feed_target :: "string \<Rightarrow> string \<times> string" where
  \<comment> \<open>the action and the range of a line that is not blank\<close>
  "feed_target line =
     (if HasPrefix line ''!'' then (''allow'', TrimSpace (TrimPrefix line ''!''))
      else case Fields line of
        p0 # p1 # rest \<Rightarrow>
          (let head = ToLower (TrimSpace p0) in
           if head = ''allow'' \<or> head = ''deny'' \<or> head = ''block'' then (head, TrimSpace p1) else (''deny'', line))
      | _ \<Rightarrow> (''deny'', line))"

definition feed_line :: "string \<Rightarrow> (bool \<times> Prefix option) option" where
  \<comment> \<open>whether the line allows, and its range; \<open>None\<close> when the line says nothing\<close>
  "feed_line raw =
     (let l0 = TrimSpace raw; line = (case Index l0 ''#'' of None \<Rightarrow> l0 | Some i \<Rightarrow> TrimSpace (take i l0)) in
      if line = [] then None
      else case feed_target line of (action, target) \<Rightarrow>
        (case parseIPPrefix target of Inl e \<Rightarrow> None | Inr p \<Rightarrow> Some (action = ''allow'', p)))"

definition parse_feed :: "feed_body \<Rightarrow> ipFeedResult result" where
  "parse_feed body =
     (case scan_lines (fst body) of (ls, tooLong) \<Rightarrow>
        let entries = List.map_filter feed_line ls in
        if tooLong then err ''bufio.Scanner: token too long'' []
        else case snd body of
          Some e \<Rightarrow> Inl e
        | None \<Rightarrow> Inr \<lparr>fr_allow = dedupeIPPrefixes (map snd (filter fst entries)),
                        fr_block = dedupeIPPrefixes (map snd (filter (\<lambda>x. \<not> fst x) entries))\<rparr>)"

definition loadFeed :: "feed_world \<Rightarrow> string \<Rightarrow> ipFeedResult result" where
  "loadFeed w source =
     (if isHTTPURL source then
        bindR (fw_http w source) (\<lambda>(status, body).
          if status < 200 \<or> 300 \<le> status
          then err ''status=%d body=%q'' [Itoa status, TrimSpace (take 1024 (fst body))]
          else parse_feed body)
      else
        bindR (if HasPrefix (ToLower source) ''file://'' then bindR (url_Parse source) (\<lambda>u. Inr (url_Path u))
               else Inr source)
          (\<lambda>path. bindR (fw_open w path) parse_feed))"

subsection \<open>The store\<close>

record ipReputationStore =
  ips_enabled :: bool
  ips_failOpen :: bool
  ips_blockStatusCode :: int
  ips_refreshInterval :: int
  ips_requestTimeout :: int
  ips_feedURLs :: "string list"
  ips_configAllow :: "Prefix option list"
  ips_effectiveAllow :: "Prefix option list"
  ips_staticBlock :: "Prefix option list"
  ips_feedAllow :: "Prefix option list"
  ips_feedBlock :: "Prefix option list"
  ips_activeBlock :: "Prefix option list"
  ips_lastRefreshAt :: "int option"
  ips_lastRefreshErr :: "(string \<times> goerr) list"   \<comment> \<open>joined as \<open>feed: error; ...\<close>, empty for no error\<close>

definition recomputeLocked :: "ipReputationStore \<Rightarrow> ipReputationStore" where
  "recomputeLocked s =
     (let mergedAllow = dedupeIPPrefixes (ips_configAllow s @ ips_feedAllow s);
          mergedBlock = dedupeIPPrefixes (ips_staticBlock s @ ips_feedBlock s)
      in s\<lparr>ips_effectiveAllow := mergedAllow, ips_activeBlock := applyIPAllowlist mergedBlock mergedAllow\<rparr>)"

definition refresh :: "feed_world \<Rightarrow> int \<Rightarrow> ipReputationStore \<Rightarrow> (string \<times> goerr) list option \<times> ipReputationStore" where
  \<comment> \<open>the result is the error it returns, if any\<close>
  "refresh w now s =
     (if \<not> ips_enabled s \<or> ips_feedURLs s = [] then (None, s)
      else let loaded = map (\<lambda>u. (u, loadFeed w u)) (ips_feedURLs s);
               errs = List.map_filter (\<lambda>(u, r). case r of Inl e \<Rightarrow> Some (u, e) | Inr f \<Rightarrow> None) loaded;
               good = List.map_filter (\<lambda>(u, r). case r of Inl e \<Rightarrow> None | Inr f \<Rightarrow> Some f) loaded
      in if good = [] \<and> errs \<noteq> []
         then (if ips_failOpen s then Some errs else None, s\<lparr>ips_lastRefreshErr := errs, ips_lastRefreshAt := Some now\<rparr>)
         else (None, (recomputeLocked (s\<lparr>ips_feedAllow := dedupeIPPrefixes (concat (map fr_allow good)),
                                         ips_feedBlock := dedupeIPPrefixes (concat (map fr_block good))\<rparr>))
                       \<lparr>ips_lastRefreshAt := Some now, ips_lastRefreshErr := []\<rparr>))"

definition newIPReputationStore :: "feed_world \<Rightarrow> int \<Rightarrow> ipReputationConfig \<Rightarrow> ipReputationStore result" where
  "newIPReputationStore w now c =
     bindR (parseIPPrefixList (ic_Allowlist c)) (\<lambda>allow.
     bindR (parseIPPrefixList (ic_Blocklist c)) (\<lambda>block.
       let s = \<lparr>ips_enabled = ic_Enabled c, ips_failOpen = ic_FailOpen c, ips_blockStatusCode = ic_BlockStatusCode c,
                ips_refreshInterval = i64 (ic_RefreshIntervalSec c * 1000000000),
                ips_requestTimeout = i64 (ic_RequestTimeoutSec c * 1000000000), ips_feedURLs = ic_FeedURLs c,
                ips_configAllow = allow, ips_effectiveAllow = allow, ips_staticBlock = block, ips_feedAllow = [],
                ips_feedBlock = [], ips_activeBlock = applyIPAllowlist block allow,
                ips_lastRefreshAt = None, ips_lastRefreshErr = []\<rparr>
       in if ips_enabled s \<and> ips_feedURLs s \<noteq> [] then
            (case refresh w now s of
               (Some e, s') \<Rightarrow> Inr (s'\<lparr>ips_lastRefreshErr := e\<rparr>)
             | (None, s') \<Rightarrow> Inr s')
          else Inr s))"

definition IsBlocked :: "ipReputationStore option \<Rightarrow> string \<Rightarrow> bool" where
  "IsBlocked st ipStr =
     (case st of
        None \<Rightarrow> False
      | Some s \<Rightarrow>
          if \<not> ips_enabled s then False
          else case ParseAddr (TrimSpace ipStr) of
            Inl e \<Rightarrow> False
          | Inr ip \<Rightarrow> if containsIPPrefix (ips_effectiveAllow s) ip then False
                      else containsIPPrefix (ips_activeBlock s) ip)"

definition BlockStatusCode :: "ipReputationStore option \<Rightarrow> int" where
  "BlockStatusCode st =
     (case st of None \<Rightarrow> 403 | Some s \<Rightarrow> if ips_blockStatusCode s = 0 then 403 else ips_blockStatusCode s)"

definition EvaluateIPReputation :: "ipReputationStore option \<Rightarrow> string \<Rightarrow> bool \<times> int" where
  "EvaluateIPReputation st ip =
     (if st = None then (False, 403) else (IsBlocked st ip, BlockStatusCode st))"

record ipReputationStatusSnapshot =
  is_Enabled :: bool
  is_FeedURLs :: "string list"
  is_LastRefreshAt :: "int option"
  is_LastRefreshError :: "(string \<times> goerr) list"
  is_EffectiveAllowCount :: nat
  is_EffectiveBlockCount :: nat
  is_FeedAllowCount :: nat
  is_FeedBlockCount :: nat
  is_BlockStatusCode :: int
  is_FailOpen :: bool

definition store_Status :: "ipReputationConfig \<Rightarrow> ipReputationStore \<Rightarrow> ipReputationStatusSnapshot" where
  "store_Status raw s =
     \<lparr>is_Enabled = ips_enabled s, is_FeedURLs = ic_FeedURLs raw, is_LastRefreshAt = ips_lastRefreshAt s,
      is_LastRefreshError = ips_lastRefreshErr s, is_EffectiveAllowCount = length (ips_effectiveAllow s),
      is_EffectiveBlockCount = length (ips_activeBlock s), is_FeedAllowCount = length (ips_feedAllow s),
      is_FeedBlockCount = length (ips_feedBlock s), is_BlockStatusCode = ips_blockStatusCode s,
      is_FailOpen = ips_failOpen s\<rparr>"

subsection \<open>File and handlers\<close>

text \<open>
  The running state is the accepted document with its store.  \<open>load\<close> is the reload: the document
  is validated and a store is made from it, which reads the feeds.
\<close>

type_synonym reputation = "(ipReputationConfig \<times> ipReputationStore) option"

definition load_reputation ::
  "(string \<Rightarrow> ipReputationConfig result) \<Rightarrow> feed_world \<Rightarrow> int \<Rightarrow> string \<Rightarrow> reputation result" where
  "load_reputation decode w now raw =
     bindR (ValidateIPReputationRaw decode raw) (\<lambda>c.
     bindR (newIPReputationStore w now c) (\<lambda>st. Inr (Some (c, st))))"

definition ReloadIPReputation ::
  "(string \<Rightarrow> ipReputationConfig result) \<Rightarrow> feed_world \<Rightarrow> int \<Rightarrow> reputation rules_state \<Rightarrow> unit result \<times> reputation rules_state" where
  "ReloadIPReputation decode w now s =
     (if TrimSpace (ru_path s) = [] then (err ''ip reputation path is not initialized'' [], s)
      else reload_rules (load_reputation decode w now) s)"

definition ensureIPReputationFile :: "(ipReputationConfig \<Rightarrow> string) \<Rightarrow> storage \<Rightarrow> unit result \<times> storage" where
  \<comment> \<open>\<open>encode\<close> is \<open>mustJSON\<close>\<close>
  "ensureIPReputationFile encode st = ensure_file
     (encode \<lparr>ic_Enabled = False, ic_FeedURLs = [], ic_Allowlist = [], ic_Blocklist = [], ic_RefreshIntervalSec = 900,
              ic_RequestTimeoutSec = 5, ic_BlockStatusCode = 403, ic_FailOpen = True\<rparr>) st"

definition InitIPReputation ::
  "(string \<Rightarrow> ipReputationConfig result) \<Rightarrow> (ipReputationConfig \<Rightarrow> string) \<Rightarrow> feed_world \<Rightarrow> int \<Rightarrow> string
     \<Rightarrow> reputation rules_state \<Rightarrow> unit result \<times> reputation rules_state" where
  "InitIPReputation decode encode w now path s =
     (let target = TrimSpace path in
      if target = [] then (err ''ip reputation path is empty'' [], s)
      else case ensureIPReputationFile encode (ru_storage s) of
        (Inl e, st) \<Rightarrow> (Inl e, s\<lparr>ru_storage := st\<rparr>)
      | (Inr _, st) \<Rightarrow> ReloadIPReputation decode w now (s\<lparr>ru_path := target, ru_storage := st\<rparr>))"

definition IPReputationStatus :: "reputation \<Rightarrow> ipReputationStatusSnapshot option" where
  \<comment> \<open>\<open>None\<close> is the empty snapshot\<close>
  "IPReputationStatus r = map_option (\<lambda>(c, st). store_Status c st) r"

definition reputation_document :: "(string \<Rightarrow> ipReputationConfig result) \<Rightarrow> string \<Rightarrow> storage \<Rightarrow> (string \<times> string) option \<times> storage" where
  \<comment> \<open>text and tag of the database row when it can be read and its text is accepted; the file was
      read before\<close>
  "reputation_document decode raw st =
     (if \<not> so_Store st then (None, st)
      else case GetConfigBlob st of
        (Inr (Some (b, t)), st1) \<Rightarrow>
          (if isl (ValidateIPReputationRaw decode b) then (None, st1) else (Some (b, tag_or_etag t b), st1))
      | (_, st1) \<Rightarrow> (None, st1))"

definition GetIPReputation ::
  "(string \<Rightarrow> ipReputationConfig result) \<Rightarrow> reputation rules_state
     \<Rightarrow> (ipReputationConfig rules_reply \<times> ipReputationStatusSnapshot option) \<times> reputation rules_state" where
  "GetIPReputation decode s =
     (case file_or_empty (ru_storage s) of (raw, st1) \<Rightarrow>
      case reputation_document decode raw st1 of
        (None, st2) \<Rightarrow> ((RulesDocument (ComputeETag raw) raw (map_option fst (ru_runtime s)), IPReputationStatus (ru_runtime s)),
                        s\<lparr>ru_storage := st2\<rparr>)
      | (Some (b, t), st2) \<Rightarrow>
          ((RulesDocument t b (case ValidateIPReputationRaw decode b of Inl e \<Rightarrow> None | Inr c \<Rightarrow> Some c),
            IPReputationStatus (ru_runtime s)), s\<lparr>ru_storage := st2\<rparr>))"

definition ValidateIPReputation :: "(string \<Rightarrow> ipReputationConfig result) \<Rightarrow> string result \<Rightarrow> ipReputationConfig rules_reply" where
  "ValidateIPReputation decode body = validate_rules (ValidateIPReputationRaw decode) body"

definition PutIPReputation ::
  "(string \<Rightarrow> ipReputationConfig result) \<Rightarrow> feed_world \<Rightarrow> int \<Rightarrow> string \<Rightarrow> string result \<Rightarrow> reputation rules_state
     \<Rightarrow> ipReputationConfig rules_reply \<times> reputation rules_state" where
  "PutIPReputation decode w now ifMatch body s0 =
     (case file_or_empty (ru_storage s0) of (raw0, st1) \<Rightarrow>
      case reputation_document decode raw0 st1 of (doc, st2) \<Rightarrow>
        let (curRaw, curETag) = (case doc of None \<Rightarrow> (raw0, ComputeETag raw0) | Some d \<Rightarrow> d);
            s = s0\<lparr>ru_storage := st2\<rparr>; load = load_reputation decode w now
        in if ifMatch \<noteq> [] \<and> ifMatch \<noteq> curETag then (RulesConflict curETag, s)
     else case body of
        Inl e \<Rightarrow> (RulesBind e, s)
      | Inr raw \<Rightarrow>
     (case ValidateIPReputationRaw decode raw of
        Inl e \<Rightarrow> (RulesInvalid e, s)
      | Inr c \<Rightarrow>
     (case write_rules raw s of
        (Inl e, s1) \<Rightarrow> (RulesError e, s1)
      | (Inr _, s1) \<Rightarrow>
     (case ReloadIPReputation decode w now s1 of
        (Inl e, s2) \<Rightarrow> (RulesError e, restore_rules load curRaw s2)
      | (Inr _, s2) \<Rightarrow>
          (if \<not> so_Store (ru_storage s2) then (RulesStored (ComputeETag raw) c, s2)
           else case UpsertConfigBlob raw (ComputeETag raw) (ru_storage s2) of
             (Inl e, st) \<Rightarrow> (RulesError e, s2\<lparr>ru_storage := st\<rparr>)
           | (Inr _, st) \<Rightarrow> (RulesStored (ComputeETag raw) c, s2\<lparr>ru_storage := st\<rparr>))))))"

definition SyncIPReputationStorage ::
  "(string \<Rightarrow> ipReputationConfig result) \<Rightarrow> feed_world \<Rightarrow> int \<Rightarrow> reputation rules_state \<Rightarrow> unit result \<times> reputation rules_state" where
  "SyncIPReputationStorage decode w now s =
     sync_blob_file (\<lambda>raw. bindR (ValidateIPReputationRaw decode raw) (\<lambda>_. Inr ()))
       (Some (load_reputation decode w now)) False True s"

end
