(* ===== verification/Ip_Reputation_Correct.thy ===== *)
theory Ip_Reputation_Correct
  imports Ip_Reputation
begin

text \<open>
  What the reputation lists decide: the addresses that are blocked, described by the ranges of the
  document and of the feeds; that \<open>fail_open\<close> has no influence on them; what a failing feed and a
  failing database write leave behind.
\<close>

subsection \<open>Masked ranges\<close>

lemma shift_back: "push_bit n (drop_bit n (push_bit n (drop_bit n w))) = push_bit n (drop_bit n w)" for w :: "'a :: len word"
  by (rule bit_word_eqI) (auto simp: bit_simps)

lemma Masked_idem [simp]: "Masked (Masked p) = Masked p"
  by (cases p) (simp add: Masked_def shift_back split: Addr.split)

lemma Masked_bits [simp]: "pfx_Bits (Masked p) = pfx_Bits p"
  by (simp add: Masked_def)

lemma shift_xor: "drop_bit n (push_bit n (drop_bit n v) XOR w) = drop_bit n (v XOR w)" for v :: "'a :: len word"
  by (rule bit_word_eqI) (auto simp: bit_simps dest: bit_imp_le_length)

lemma masked_contains [simp]: "Prefix_Contains (Masked p) a = Prefix_Contains p a"
  by (cases p) (simp add: Masked_def Prefix_Contains_def shift_xor del: drop_bit_xor split: Addr.split)

definition masked :: "Prefix option \<Rightarrow> bool" where
  "masked p = (map_option Masked p = p)"

lemma masked_Masked [simp]: "masked (map_option Masked p)" "masked (Some (Masked q))" "masked None"
  by (simp_all add: masked_def option.map_comp comp_def)

lemma masked_prefix_or_invalid [simp]: "masked (prefix_or_invalid a n)"
  by (simp add: prefix_or_invalid_def)

lemma masked_parse: "parseIPPrefix raw = Inr p \<Longrightarrow> masked p"
  by (auto simp: parseIPPrefix_def Let_def bindR_Inr split: if_splits)

lemma set_dedupe: "set (dedupeIPPrefixes ps) = map_option Masked ` set ps"
  by (simp add: dedupeIPPrefixes_def)

lemma masked_list_id: "\<forall>p\<in>set ps. masked p \<Longrightarrow> map_option Masked ` set ps = set ps"
  by (force simp: masked_def)

lemma masked_dedupe: "p \<in> set (dedupeIPPrefixes ps) \<Longrightarrow> masked p"
  by (auto simp: set_dedupe)

lemma contains_set_cong: "set ps = set qs \<Longrightarrow> containsIPPrefix ps a = containsIPPrefix qs a"
  by (simp add: containsIPPrefix_def list_ex_iff)

lemma base_set_cong: "set ps = set qs \<Longrightarrow> contains_base ps p = contains_base qs p"
  by (simp add: contains_base_def contains_set_cong [of ps qs] split: option.split)

lemma base_Nil: "\<not> contains_base [] p"
  by (simp add: contains_base_def containsIPPrefix_def split: option.split)

lemma set_applyIPAllowlist: "set (applyIPAllowlist bs as) = {p \<in> set bs. \<not> contains_base as p}"
  by (auto simp: applyIPAllowlist_def base_Nil)

subsection \<open>The lists of a store\<close>

text \<open>The stores a document can lead to: made from it, then refreshed any number of times.\<close>

inductive reputation_reachable :: "ipReputationConfig \<Rightarrow> ipReputationStore \<Rightarrow> bool" for c where
  made: "newIPReputationStore w now c = Inr s \<Longrightarrow> reputation_reachable c s"
| refreshed: "reputation_reachable c s \<Longrightarrow> reputation_reachable c (snd (refresh w now s))"

definition lists_ok :: "Prefix option list \<Rightarrow> Prefix option list \<Rightarrow> bool \<Rightarrow> ipReputationStore \<Rightarrow> bool" where
  "lists_ok allow block enabled s =
     (ips_enabled s = enabled \<and> ips_configAllow s = allow \<and> ips_staticBlock s = block
      \<and> (\<forall>p\<in>set (ips_feedAllow s @ ips_feedBlock s). masked p)
      \<and> set (ips_effectiveAllow s) = set (allow @ ips_feedAllow s)
      \<and> set (ips_activeBlock s) = {p \<in> set (block @ ips_feedBlock s). \<not> contains_base (allow @ ips_feedAllow s) p})"

lemma lists_ok_frame:
  "lists_ok allow block enabled (s\<lparr>ips_lastRefreshErr := e, ips_lastRefreshAt := t\<rparr>) = lists_ok allow block enabled s"
  "lists_ok allow block enabled (s\<lparr>ips_lastRefreshAt := t, ips_lastRefreshErr := e\<rparr>) = lists_ok allow block enabled s"
  "lists_ok allow block enabled (s\<lparr>ips_lastRefreshErr := e\<rparr>) = lists_ok allow block enabled s"
  "lists_ok allow block enabled (s\<lparr>ips_lastRefreshAt := t\<rparr>) = lists_ok allow block enabled s"
  by (simp_all add: lists_ok_def)

lemma recompute_ok:
  assumes "lists_ok allow block enabled s" "\<forall>p\<in>set (allow @ block). masked p" "\<forall>p\<in>set (fa @ fb). masked p"
  shows "lists_ok allow block enabled (recomputeLocked (s\<lparr>ips_feedAllow := fa, ips_feedBlock := fb\<rparr>))"
proof -
  let ?as = "dedupeIPPrefixes (allow @ fa)" and ?bs = "dedupeIPPrefixes (block @ fb)"
  have sets: "set ?as = set (allow @ fa)" "set ?bs = set (block @ fb)"
    unfolding set_dedupe by (rule masked_list_id; use assms(2,3) in auto)+
  have "contains_base ?as p = contains_base (allow @ fa) p" for p by (rule base_set_cong [OF sets(1)])
  with sets assms(1,3) show ?thesis
    by (simp add: lists_ok_def recomputeLocked_def set_applyIPAllowlist Let_def)
qed

lemma refresh_ok:
  assumes "lists_ok allow block enabled s" "\<forall>p\<in>set (allow @ block). masked p"
  shows "lists_ok allow block enabled (snd (refresh w now s))"
proof -
  have "\<forall>p\<in>set (dedupeIPPrefixes xs @ dedupeIPPrefixes ys). masked p" for xs ys by (auto dest: masked_dedupe)
  from recompute_ok [OF assms this] assms(1) show ?thesis
    by (simp add: refresh_def Let_def lists_ok_frame)
qed

lemma parse_list_masked: "parseIPPrefixList xs = Inr ps \<Longrightarrow> \<forall>p\<in>set ps. masked p"
  by (auto simp: parseIPPrefixList_def bindR_Inr dest: masked_dedupe)

lemma reachable_lists:
  assumes "reputation_reachable c s" "parseIPPrefixList (ic_Allowlist c) = Inr allow" "parseIPPrefixList (ic_Blocklist c) = Inr block"
  shows "lists_ok allow block (ic_Enabled c) s"
  using assms(1)
proof induction
  have m: "\<forall>p\<in>set (allow @ block). masked p" using parse_list_masked [OF assms(2)] parse_list_masked [OF assms(3)] by auto
  case (made w now s)
  let ?s0 = "\<lparr>ips_enabled = ic_Enabled c, ips_failOpen = ic_FailOpen c, ips_blockStatusCode = ic_BlockStatusCode c,
                ips_refreshInterval = i64 (ic_RefreshIntervalSec c * 1000000000),
                ips_requestTimeout = i64 (ic_RequestTimeoutSec c * 1000000000), ips_feedURLs = ic_FeedURLs c,
                ips_configAllow = allow, ips_effectiveAllow = allow, ips_staticBlock = block, ips_feedAllow = [],
                ips_feedBlock = [], ips_activeBlock = applyIPAllowlist block allow,
                ips_lastRefreshAt = None, ips_lastRefreshErr = []\<rparr>"
  have "lists_ok allow block (ic_Enabled c) ?s0"
    by (simp add: lists_ok_def set_applyIPAllowlist)
  moreover from refresh_ok [OF this m, of w now]
  have "lists_ok allow block (ic_Enabled c) t" if "refresh w now ?s0 = (r, t)" for r t using that by simp
  moreover have "s = ?s0 \<or> (\<exists>r t e. refresh w now ?s0 = (r, t) \<and> (s = t \<or> s = t\<lparr>ips_lastRefreshErr := e\<rparr>))"
    using made assms(2,3) unfolding newIPReputationStore_def Let_def
    by (cases "refresh w now ?s0") (auto split: if_splits option.splits)
  ultimately show ?case by (auto simp: lists_ok_frame)
next
  have m: "\<forall>p\<in>set (allow @ block). masked p" using parse_list_masked [OF assms(2)] parse_list_masked [OF assms(3)] by auto
  case (refreshed s w now)
  from refresh_ok [OF refreshed.IH m] show ?case .
qed

text \<open>
  C22: An address is blocked exactly when the document is enabled, the address can be parsed, it lies in
  no allowed range, and some blocked range (of the document or a feed) contains it whose first
  address lies in no allowed range.  In particular one allowed range at the start of a blocked one
  unblocks all of it.
\<close>

theorem reputation_decision:
  assumes "reputation_reachable c s" "parseIPPrefixList (ic_Allowlist c) = Inr allow" "parseIPPrefixList (ic_Blocklist c) = Inr block"
  shows "IsBlocked (Some s) ip \<longleftrightarrow> ic_Enabled c \<and> (\<exists>a. ParseAddr (TrimSpace ip) = Inr a
    \<and> \<not> containsIPPrefix (allow @ ips_feedAllow s) a
    \<and> (\<exists>p\<in>set (block @ ips_feedBlock s). range_contains p (Unmap a) \<and> \<not> contains_base (allow @ ips_feedAllow s) p))"
proof -
  note ok = reachable_lists [OF assms]
  then have a: "containsIPPrefix (ips_effectiveAllow s) a = containsIPPrefix (allow @ ips_feedAllow s) a" for a
    by (intro contains_set_cong) (simp add: lists_ok_def)
  have b: "containsIPPrefix (ips_activeBlock s) a \<longleftrightarrow>
      (\<exists>p\<in>set (block @ ips_feedBlock s). range_contains p (Unmap a) \<and> \<not> contains_base (allow @ ips_feedAllow s) p)" for a
    using ok by (auto simp: lists_ok_def containsIPPrefix_def list_ex_iff)
  from ok have "ips_enabled s = ic_Enabled c" by (simp add: lists_ok_def)
  with a b show ?thesis by (auto simp: IsBlocked_def split: sum.split)
qed

definition range_demo :: ipReputationConfig where
  "range_demo = \<lparr>ic_Enabled = True, ic_FeedURLs = [], ic_Allowlist = [''10.0.0.0/24''], ic_Blocklist = [''10.0.0.0/8''],
     ic_RefreshIntervalSec = 900, ic_RequestTimeoutSec = 5, ic_BlockStatusCode = 403, ic_FailOpen = True\<rparr>"

definition no_feeds :: feed_world where
  "no_feeds = \<lparr>fw_http = (\<lambda>_. err ''unreachable'' []), fw_open = (\<lambda>_. err ''no such file'' [])\<rparr>"

lemma range_demo_lists:
  "parseIPPrefixList (ic_Allowlist range_demo) = Inr [Some \<lparr>pfx_Addr = IPv4 167772160, pfx_Bits = 24\<rparr>]"
  "parseIPPrefixList (ic_Blocklist range_demo) = Inr [Some \<lparr>pfx_Addr = IPv4 167772160, pfx_Bits = 8\<rparr>]"
  "ParseAddr (TrimSpace ''10.9.9.9'') = Inr (IPv4 168364297)"
  by code_simp+

lemma range_demo_reachable: "\<exists>s. reputation_reachable range_demo s \<and> ips_feedAllow s = [] \<and> ips_feedBlock s = []"
proof -
  have "\<exists>s. newIPReputationStore no_feeds 0 range_demo = Inr s \<and> ips_feedAllow s = [] \<and> ips_feedBlock s = []"
    unfolding newIPReputationStore_def range_demo_lists by (simp add: range_demo_def Let_def)
  then show ?thesis by (auto intro: made)
qed

theorem reputation_decision_witness:
  "\<exists>s. reputation_reachable range_demo s \<and> \<not> IsBlocked (Some s) ''10.9.9.9''"
proof -
  obtain s where s: "reputation_reachable range_demo s" "ips_feedAllow s = []" "ips_feedBlock s = []"
    using range_demo_reachable by blast
  have "contains_base [Some \<lparr>pfx_Addr = IPv4 167772160, pfx_Bits = 24\<rparr>] (Some \<lparr>pfx_Addr = IPv4 167772160, pfx_Bits = 8\<rparr>)"
    by code_simp
  with s show ?thesis
    using reputation_decision [OF s(1) range_demo_lists(1,2), of "''10.9.9.9''"] by auto
qed

subsection \<open>Feeds that fail\<close>

definition later :: "(feed_world \<times> int) list \<Rightarrow> ipReputationStore \<Rightarrow> ipReputationStore" where
  "later ws s = fold (\<lambda>(w, now) s. snd (refresh w now s)) ws s"

definition same_lists :: "ipReputationStore \<Rightarrow> ipReputationStore \<Rightarrow> bool" where
  "same_lists s t = (ips_enabled s = ips_enabled t \<and> ips_feedURLs s = ips_feedURLs t \<and> ips_configAllow s = ips_configAllow t
     \<and> ips_staticBlock s = ips_staticBlock t \<and> ips_effectiveAllow s = ips_effectiveAllow t \<and> ips_activeBlock s = ips_activeBlock t)"

lemma refresh_same_lists: "same_lists s t \<Longrightarrow> same_lists (snd (refresh w now s)) (snd (refresh w now t))"
  by (simp add: same_lists_def refresh_def recomputeLocked_def Let_def)

lemma later_same_lists: "same_lists s t \<Longrightarrow> same_lists (later ws s) (later ws t)"
  by (induction ws arbitrary: s t) (auto simp: later_def refresh_same_lists)

lemma IsBlocked_same_lists: "same_lists s t \<Longrightarrow> IsBlocked (Some s) ip = IsBlocked (Some t) ip"
  by (simp add: same_lists_def IsBlocked_def split: sum.split)

definition decision_later :: "(feed_world \<times> int) list \<Rightarrow> string \<Rightarrow> ipReputationStore result \<Rightarrow> bool result" where
  "decision_later ws ip r = map_sum id (\<lambda>s. IsBlocked (Some (later ws s)) ip) r"

lemma new_same_lists:
  "case (newIPReputationStore w now (c\<lparr>ic_FailOpen := b\<rparr>), newIPReputationStore w now c) of
     (Inr s, Inr t) \<Rightarrow> same_lists s t | (Inl e, Inl e') \<Rightarrow> e = e' | _ \<Rightarrow> False"
proof (cases "parseIPPrefixList (ic_Allowlist c)")
  case (Inr allow)
  show ?thesis
  proof (cases "parseIPPrefixList (ic_Blocklist c)")
    case blocked: (Inr block)
    let ?s = "\<lambda>f. \<lparr>ips_enabled = ic_Enabled c, ips_failOpen = f, ips_blockStatusCode = ic_BlockStatusCode c,
                ips_refreshInterval = i64 (ic_RefreshIntervalSec c * 1000000000),
                ips_requestTimeout = i64 (ic_RequestTimeoutSec c * 1000000000), ips_feedURLs = ic_FeedURLs c,
                ips_configAllow = allow, ips_effectiveAllow = allow, ips_staticBlock = block, ips_feedAllow = [],
                ips_feedBlock = [], ips_activeBlock = applyIPAllowlist block allow,
                ips_lastRefreshAt = None, ips_lastRefreshErr = []\<rparr>"
    have "same_lists (?s f) (?s g)" for f g by (simp add: same_lists_def)
    moreover from refresh_same_lists [OF this]
    have "same_lists t t'" if "refresh w now (?s f) = (e, t)" "refresh w now (?s g) = (e', t')" for f g e t e' t'
      using that by (metis snd_conv)
    moreover have "same_lists (t\<lparr>ips_lastRefreshErr := e\<rparr>) t' = same_lists t t'"
      "same_lists t (t'\<lparr>ips_lastRefreshErr := e\<rparr>) = same_lists t t'" for e t t'
      by (simp_all add: same_lists_def)
    ultimately show ?thesis
      by (cases "refresh w now (?s b)"; cases "refresh w now (?s (ic_FailOpen c))")
        (auto simp: newIPReputationStore_def Inr blocked Let_def split: option.split)
  qed (simp add: newIPReputationStore_def Inr)
qed (simp add: newIPReputationStore_def)

text \<open>
  The setting \<open>fail_open\<close> has no effect: whatever the feeds deliver, at start and at every later
  refresh, the same addresses are blocked with either value; when no feed can be read, the ranges
  of the document and of the last good refresh stay in force.
\<close>

theorem fail_open_changes_no_decision:
  "decision_later ws ip (newIPReputationStore w now (c\<lparr>ic_FailOpen := b\<rparr>)) = decision_later ws ip (newIPReputationStore w now c)"
  using new_same_lists [where w = w and now = now and c = c and b = b]
  by (auto simp: decision_later_def later_same_lists [THEN IsBlocked_same_lists] split: sum.splits)

text \<open>
  A feed that fails while another one can be read loses its ranges until it can be read again,
  without a trace in the status.
\<close>

theorem failing_feed_is_forgotten:
  assumes "ips_enabled s" "ips_feedURLs s = [u, v]" "loadFeed w u = Inl e" "loadFeed w v = Inr f"
  shows "refresh w now s = (None, (recomputeLocked (s\<lparr>ips_feedAllow := dedupeIPPrefixes (fr_allow f),
      ips_feedBlock := dedupeIPPrefixes (fr_block f)\<rparr>))\<lparr>ips_lastRefreshAt := Some now, ips_lastRefreshErr := []\<rparr>)"
  using assms by (simp add: refresh_def Let_def List.map_filter_simps)

subsection \<open>A write the database refuses\<close>

text \<open>
  Unlike the other rule documents, a reputation document the database refuses stays in force: the
  reply is an error, but the file and the running lists are the new ones and only the database
  keeps the old text.
\<close>

theorem refused_reputation_stays_in_force:
  assumes "TrimSpace (ru_path s) \<noteq> []" "so_Store (ru_storage s)" "so_File (ru_storage s) = Some f"
    "so_Blob (ru_storage s) = Some (b, t)" "so_Faults (ru_storage s) = [None, None, None, None, Some e]"
    "load_reputation decode w now raw = Inr rt" "PutIPReputation decode w now [] (Inr raw) s = (reply, s')"
  shows "reply = RulesError e \<and> ru_runtime s' = rt \<and> so_File (ru_storage s') = Some raw \<and> so_Blob (ru_storage s') = Some (b, t)"
proof -
  from assms(1) have p: "ru_path s \<noteq> []" by auto
  from assms(6) obtain c where c: "ValidateIPReputationRaw decode raw = Inr c" by (auto simp: load_reputation_def bindR_Inr)
  define st2 where "st2 = ru_storage s\<lparr>so_Faults := [None, None, Some e]\<rparr>"
  have reads: "\<exists>doc st1. file_or_empty (ru_storage s) = (f, st1) \<and> reputation_document decode f st1 = (doc, st2)"
    using assms(2-5) by (simp add: file_or_empty_def ReadFile_def store_read_def reputation_document_def GetConfigBlob_def st2_def)
  have wr: "write_rules raw (s\<lparr>ru_storage := st2\<rparr>) =
      (Inr (), s\<lparr>ru_storage := st2\<lparr>so_Faults := [None, Some e], so_File := Some raw, so_Backups := f # so_Backups (ru_storage s)\<rparr>\<rparr>)"
    using assms(3) by (simp add: write_rules_def AtomicWriteWithBackup_def store_write_def st2_def)
  show ?thesis
    using assms(2,4,6,7) reads wr c p assms(1)
    by (auto simp: PutIPReputation_def Let_def ReloadIPReputation_def reload_rules_def ReadFile_def store_read_def
        UpsertConfigBlob_def store_write_def st2_def split: option.splits)
qed

definition quiet_doc :: ipReputationConfig where
  "quiet_doc = range_demo\<lparr>ic_Allowlist := [], ic_Blocklist := []\<rparr>"

theorem refused_reputation_stays_in_force_witness:
  "\<exists>reply s' rt. PutIPReputation (\<lambda>_. Inr quiet_doc) no_feeds 7 [] (Inr ''{new}'')
     \<lparr>ru_path = ''conf/ip.json'', ru_runtime = None, ru_storage = \<lparr>so_File = Some ''{old}'', so_Backups = [], so_Store = True,
        so_Blob = Some (''{old}'', ''t''), so_Faults = [None, None, None, None, Some (Errorf ''db'' [])]\<rparr>\<rparr> = (reply, s')
     \<and> reply = RulesError (Errorf ''db'' []) \<and> ru_runtime s' = rt \<and> rt \<noteq> None
     \<and> so_File (ru_storage s') = Some ''{new}'' \<and> so_Blob (ru_storage s') = Some (''{old}'', ''t'')"
proof -
  let ?s = "\<lparr>ru_path = ''conf/ip.json'', ru_runtime = None, ru_storage = \<lparr>so_File = Some ''{old}'', so_Backups = [], so_Store = True,
        so_Blob = Some (''{old}'', ''t''), so_Faults = [None, None, None, None, Some (Errorf ''db'' [])]\<rparr>\<rparr>"
  have "(case load_reputation (\<lambda>_. Inr quiet_doc) no_feeds 7 ''{new}'' of Inr (Some r) \<Rightarrow> True | _ \<Rightarrow> False)" by code_simp
  then obtain rt where rt: "load_reputation (\<lambda>_. Inr quiet_doc) no_feeds 7 ''{new}'' = Inr rt" "rt \<noteq> None"
    by (auto split: sum.splits option.splits)
  obtain reply s' where put: "PutIPReputation (\<lambda>_. Inr quiet_doc) no_feeds 7 [] (Inr ''{new}'') ?s = (reply, s')" by fastforce
  have "TrimSpace (ru_path ?s) \<noteq> []" by code_simp
  from refused_reputation_stays_in_force [OF this _ _ _ _ rt(1) put] put rt(2) show ?thesis by auto
qed

end
