(* ===== verification/Challenge_Token.thy ===== *)
theory Challenge_Token
  imports Go_Text Go_Sha256
begin

text \<open>
  The tokens of the two challenges (\<open>bot_defense_store.go\<close> and \<open>semantic_store.go\<close> issue and check
  theirs with the same code): an expiry in seconds, a dot, and the hexadecimal signature of the
  client address, the user agent and the expiry.  What the two rely on is the locale
  \<open>challenge_signer\<close>; the facts about issuing and checking are proved there once.  The theory also holds
  \<open>crypto/hmac\<close> over SHA-256 and \<open>hex.DecodeString\<close>.
\<close>

subsection \<open>Keyed hashing and hexadecimal text\<close>

definition bytes_of :: "int list \<Rightarrow> string" where
  "bytes_of bs = map (\<lambda>b. char_of (nat b)) bs"

definition hmac_sha256 :: "string \<Rightarrow> string \<Rightarrow> int list" where
  "hmac_sha256 key msg =
     (let k = (if 64 < length key then bytes_of (sha256 key) else key);
          pad = (\<lambda>x. bytes_of (map (\<lambda>c. int (ord c) XOR x) (k @ replicate (64 - length k) (CHR 0x00))))
      in sha256 (pad 0x5c @ bytes_of (sha256 (pad 0x36 @ msg))))"

fun hex_DecodeString :: "string \<Rightarrow> int list option" where
  "hex_DecodeString [] = Some []"
| "hex_DecodeString [c] = None"
| "hex_DecodeString (c # d # s) =
     (if ishex c \<and> ishex d then map_option ((#) (16 * int (unhex c) + int (unhex d))) (hex_DecodeString s) else None)"

definition is_byte :: "int \<Rightarrow> bool" where
  "is_byte b = (0 \<le> b \<and> b < 256)"

lemma be_bytes_byte: "b \<in> set (be_bytes n x) \<Longrightarrow> is_byte b"
  by (auto simp: be_bytes_def is_byte_def)

lemma sha256_bytes: "list_all is_byte (sha256 s)"
  by (auto simp: sha256_def list_all_iff dest: be_bytes_byte)

lemma hex_digit_ord: "0 \<le> n \<Longrightarrow> n < 16 \<Longrightarrow> ord (hex_digit n) = (if n < 10 then 48 + nat n else 87 + nat n)"
  by (simp add: hex_digit_def ord_char_of)

lemma hex_digit_back: "0 \<le> n \<Longrightarrow> n < 16 \<Longrightarrow> ishex (hex_digit n) \<and> int (unhex (hex_digit n)) = n"
  by (cases "n < 10") (auto simp: ishex_def unhex_def is_digit_def hex_digit_ord nat_less_iff nat_le_iff le_nat_iff)

lemma ishex_solid: "ishex c \<Longrightarrow> c \<notin> set (concat space_seqs) \<and> c \<noteq> CHR ''.''"
proof
  assume h: "ishex c"
  then have "is_digit c \<or> is_alpha c" by (auto simp: ishex_def is_alpha_def is_lower_def is_upper_def)
  then show "c \<notin> set (concat space_seqs)" using is_digit_solid space_bytes by blast
  show "c \<noteq> CHR ''.''" using h by (auto simp: ishex_def is_digit_def ord_def)
qed

lemma hex_decode_encode: "list_all is_byte bs \<Longrightarrow> hex_DecodeString (hex_encode bs) = Some bs"
proof (induction bs)
  case (Cons b bs)
  then have "0 \<le> b div 16 \<and> b div 16 < 16" "0 \<le> b mod 16 \<and> b mod 16 < 16" by (auto simp: is_byte_def)
  then show ?case
    using hex_digit_back [of "b div 16"] hex_digit_back [of "b mod 16"] Cons by (simp add: hex_encode_def)
qed (simp add: hex_encode_def)

lemma div_less_16: "is_byte b \<Longrightarrow> b div 16 < 16"
  unfolding is_byte_def by presburger

lemma hex_encode_solid:
  assumes "list_all is_byte bs" "c \<in> set (hex_encode bs)"
  shows "c \<notin> set (concat space_seqs) \<and> c \<noteq> CHR ''.''"
proof -
  from assms obtain b where b: "is_byte b" "c = hex_digit (b div 16) \<or> c = hex_digit (b mod 16)"
    by (auto simp: hex_encode_def list_all_iff)
  then obtain m where m: "c = hex_digit m" "0 \<le> m" "m < 16"
    by (cases "c = hex_digit (b div 16)") (auto simp: is_byte_def dest: div_less_16)
  from hex_digit_back [OF m(2,3)] m(1) have "ishex c" by simp
  then show ?thesis by (rule ishex_solid)
qed

definition subtleConstantTimeHexEqual :: "string \<Rightarrow> string \<Rightarrow> bool" where
  "subtleConstantTimeHexEqual a b =
     (case (hex_DecodeString (TrimSpace a), hex_DecodeString (TrimSpace b)) of
        (Some ab, Some bb) \<Rightarrow> length ab = length bb \<and> ab = bb
      | _ \<Rightarrow> False)"

subsection \<open>Tokens\<close>

definition unix_seconds :: "int \<Rightarrow> int" where
  "unix_seconds now = now div 1000000000"

definition challenge_text :: "string \<Rightarrow> string \<Rightarrow> string \<Rightarrow> string" where
  \<comment> \<open>what is signed: the address, the user agent without case, the expiry\<close>
  "challenge_text ip ua payload = TrimSpace ip @ [newline] @ ToLower (TrimSpace ua) @ [newline] @ payload"

definition issue_token :: "(string \<Rightarrow> string) \<Rightarrow> int \<Rightarrow> int \<Rightarrow> string" where
  "issue_token sign ttl now = (let payload = Itoa (unix_seconds (now + ttl)) in payload @ ''.'' @ sign payload)"

definition verify_token :: "(string \<Rightarrow> string) \<Rightarrow> string \<Rightarrow> int \<Rightarrow> bool" where
  "verify_token sign token now =
     (case SplitByte (TrimSpace token) (CHR ''.'') of
        [payload, sig] \<Rightarrow>
          (case Atoi payload of
             None \<Rightarrow> False
           | Some expUnix \<Rightarrow>
               if expUnix \<le> 0 then False
               else if expUnix < unix_seconds now then False
               else subtleConstantTimeHexEqual sig (sign payload))
      | _ \<Rightarrow> False)"

lemma Itoa_digits: "0 \<le> i \<Longrightarrow> c \<in> set (Itoa i) \<Longrightarrow> is_digit c"
  by (auto simp: Itoa_def dest: digits_of_digit)

lemma Atoi_no_newline: "Atoi s = Some v \<Longrightarrow> newline \<notin> set s"
proof
  assume a: "Atoi s = Some v" and n: "newline \<in> set s"
  from a obtain ds where "s = ds \<or> (\<exists>c. s = c # ds \<and> (c = CHR ''-'' \<or> c = CHR ''+''))" "list_all is_digit ds"
    by (cases s) (auto simp: Atoi_def Let_def split: if_splits)
  with n have "is_digit newline" by (auto simp: list_all_iff)
  then show False by (simp add: is_digit_def ord_def)
qed

lemma cut_at_first:
  assumes "u @ c # v = u' @ c # v'" "c \<notin> set u" "c \<notin> set u'"
  shows "u = u' \<and> v = v'"
  using assms
proof (induction u arbitrary: u')
  case Nil
  then show ?case by (cases u') auto
next
  case (Cons a u)
  then show ?case by (cases u') auto
qed

lemma two_newlines:
  assumes "a @ [c] @ b @ [c] @ d = a' @ [c] @ b' @ [c] @ d'" "c \<notin> set a" "c \<notin> set a'" "c \<notin> set b" "c \<notin> set b'"
  shows "a = a' \<and> b = b' \<and> d = d'"
proof -
  from cut_at_first [of a c "b @ c # d" a' "b' @ c # d'"] assms have "a = a'" "b @ c # d = b' @ c # d'" by simp_all
  with cut_at_first [OF this(2)] assms(4,5) show ?thesis by simp
qed

lemma challenge_text_inject:
  assumes "challenge_text ip ua p = challenge_text ip' ua' p'"
    "newline \<notin> set ip" "newline \<notin> set ip'" "newline \<notin> set ua" "newline \<notin> set ua'"
  shows "TrimSpace ip = TrimSpace ip' \<and> ToLower (TrimSpace ua) = ToLower (TrimSpace ua') \<and> p = p'"
proof -
  have low: "newline \<notin> set (ToLower (TrimSpace u))" if "newline \<notin> set u" for u
  proof
    assume "newline \<in> set (ToLower (TrimSpace u))"
    then obtain d where "d \<in> set (TrimSpace u)" "lower_char d = newline" by (auto simp: ToLower_def)
    moreover have "ord newline = 10" by (simp add: ord_def)
    then have "lower_char d = newline \<Longrightarrow> d = newline"
      by (cases "is_upper d") (auto simp: lower_char_def is_upper_def ord_char_of dest: arg_cong [of _ newline ord])
    ultimately show False using that TrimSpace_set [of u] by auto
  qed
  show ?thesis
    using two_newlines [OF assms(1) [unfolded challenge_text_def]] low assms(2-5) TrimSpace_set by blast
qed

locale challenge_signer =
  fixes sign :: "string \<Rightarrow> string \<Rightarrow> string \<Rightarrow> string"    \<comment> \<open>address, user agent, expiry\<close>
    and mac :: "string \<Rightarrow> int list"
  assumes sign_mac: "sign ip ua p = hex_encode (mac (challenge_text ip ua p))"
    and mac_bytes: "list_all is_byte (mac m)"
begin

lemma signature_checks: "subtleConstantTimeHexEqual (sign ip ua p) (sign ip' ua' p') \<longleftrightarrow>
    mac (challenge_text ip ua p) = mac (challenge_text ip' ua' p')"
proof -
  have "TrimSpace (hex_encode (mac m)) = hex_encode (mac m)" for m
  proof (rule TrimSpace_solid)
    show "hd (hex_encode (mac m)) \<notin> set (concat space_seqs) \<and> last (hex_encode (mac m)) \<notin> set (concat space_seqs)"
      if "hex_encode (mac m) \<noteq> []" using that hex_encode_solid [OF mac_bytes, of _ m] hd_in_set last_in_set by blast
  qed
  then show ?thesis
    by (auto simp: subtleConstantTimeHexEqual_def sign_mac hex_decode_encode mac_bytes)
qed

lemma issued_token_parts:
  assumes "0 \<le> unix_seconds (now + ttl)"
  shows "SplitByte (TrimSpace (issue_token (sign ip ua) ttl now)) (CHR ''.'') =
    [Itoa (unix_seconds (now + ttl)), sign ip ua (Itoa (unix_seconds (now + ttl)))]"
proof -
  define p where "p = Itoa (unix_seconds (now + ttl))"
  have dig: "c \<in> set p \<Longrightarrow> is_digit c" for c using assms Itoa_digits [of "unix_seconds (now + ttl)" c] by (simp add: p_def)
  have dot: "CHR ''.'' \<notin> set p" "CHR ''.'' \<notin> set (sign ip ua p)"
    using dig [of "CHR ''.''"] hex_encode_solid [OF mac_bytes] by (auto simp: sign_mac is_digit_def ord_def)
  have "p \<noteq> []" by (simp add: p_def Itoa_def)
  have trim: "TrimSpace (p @ ''.'' @ sign ip ua p) = p @ ''.'' @ sign ip ua p"
  proof (rule TrimSpace_solid)
    have "hd p \<notin> set (concat space_seqs)" using dig [of "hd p"] \<open>p \<noteq> []\<close> is_digit_solid by auto
    moreover have "last (''.'' @ sign ip ua p) \<notin> set (concat space_seqs)"
    proof (cases "sign ip ua p = []")
      case True
      have "CHR ''.'' \<notin> set (concat space_seqs)" by code_simp
      with True show ?thesis by simp
    next
      case False
      then have "last (sign ip ua p) \<in> set (hex_encode (mac (challenge_text ip ua p)))"
        using last_in_set [of "sign ip ua p"] by (simp add: sign_mac)
      with hex_encode_solid [OF mac_bytes] have "last (sign ip ua p) \<notin> set (concat space_seqs)" by blast
      with False show ?thesis by simp
    qed
    ultimately show "hd (p @ ''.'' @ sign ip ua p) \<notin> set (concat space_seqs)
        \<and> last (p @ ''.'' @ sign ip ua p) \<notin> set (concat space_seqs)"
      using \<open>p \<noteq> []\<close> by simp
  qed
  show ?thesis
    using SplitByte_one [OF dot] by (simp add: issue_token_def p_def [symmetric] Let_def trim [simplified])
qed

text \<open>A token is accepted from the client it was issued to until the second of its expiry.\<close>

lemma issued_token_accepted:
  assumes "0 < unix_seconds (now + ttl)" "unix_seconds (now + ttl) < 2 ^ 63"
    "TrimSpace ip' = TrimSpace ip" "ToLower (TrimSpace ua') = ToLower (TrimSpace ua)"
  shows "verify_token (sign ip' ua') (issue_token (sign ip ua) ttl now) now' \<longleftrightarrow>
    unix_seconds now' \<le> unix_seconds (now + ttl)"
proof -
  let ?p = "Itoa (unix_seconds (now + ttl))"
  have same: "sign ip' ua' ?p = sign ip ua ?p" by (simp add: sign_mac challenge_text_def assms(3,4))
  have "Atoi ?p = Some (unix_seconds (now + ttl))" using assms(1,2) by (simp add: Atoi_Itoa)
  with assms(1) issued_token_parts [of now ttl ip ua] signature_checks [of ip ua ?p ip ua ?p] show ?thesis
    by (simp add: verify_token_def same)
qed

text \<open>
  If a signature that is presented was published before, the token belongs to the address and
  the user agent it was issued to, and is presented in time.
\<close>

lemma accepted_token_was_issued:
  assumes ok: "verify_token (sign ip ua) token now"
    and forge: "\<And>payload sig. SplitByte (TrimSpace token) (CHR ''.'') = [payload, sig]
      \<Longrightarrow> hex_DecodeString (TrimSpace sig) = Some (mac (challenge_text ip ua payload))
      \<Longrightarrow> challenge_text ip ua payload \<in> (\<lambda>(i, u, t). challenge_text i u (Itoa (unix_seconds (t + ttl)))) ` issued"
    and lines: "newline \<notin> set ip" "newline \<notin> set ua" "\<And>i u t. (i, u, t) \<in> issued \<Longrightarrow> newline \<notin> set i \<and> newline \<notin> set u"
    and time: "\<And>i u t. (i, u, t) \<in> issued \<Longrightarrow> 0 \<le> unix_seconds (t + ttl) \<and> unix_seconds (t + ttl) < 2 ^ 63"
  shows "\<exists>i u t. (i, u, t) \<in> issued \<and> TrimSpace i = TrimSpace ip \<and> ToLower (TrimSpace u) = ToLower (TrimSpace ua)
    \<and> unix_seconds now \<le> unix_seconds (t + ttl)"
proof -
  from ok obtain payload sig v where t: "SplitByte (TrimSpace token) (CHR ''.'') = [payload, sig]"
    "Atoi payload = Some v" "unix_seconds now \<le> v" "subtleConstantTimeHexEqual sig (sign ip ua payload)"
    by (auto simp: verify_token_def split: list.splits option.splits if_splits)
  have "TrimSpace (sign ip ua payload) = sign ip ua payload"
    using signature_checks [of ip ua payload ip ua payload]
    by (metis (no_types, lifting) TrimSpace_solid hd_in_set hex_encode_solid last_in_set mac_bytes sign_mac)
  with t(4) have "hex_DecodeString (TrimSpace sig) = Some (mac (challenge_text ip ua payload))"
    by (auto simp: subtleConstantTimeHexEqual_def sign_mac hex_decode_encode mac_bytes split: option.splits)
  from forge [OF t(1) this] obtain i u t0 where i: "(i, u, t0) \<in> issued"
    "challenge_text ip ua payload = challenge_text i u (Itoa (unix_seconds (t0 + ttl)))" by auto
  from challenge_text_inject [OF i(2)] lines i(1)
  have "TrimSpace i = TrimSpace ip" "ToLower (TrimSpace u) = ToLower (TrimSpace ua)"
    "payload = Itoa (unix_seconds (t0 + ttl))" by fastforce+
  moreover from this(3) t(2) time [OF i(1)] have "v = unix_seconds (t0 + ttl)" by (simp add: Atoi_Itoa)
  ultimately show ?thesis using i(1) t(3) by blast
qed

end

end
