(* ===== verification/Bot_Defense.thy ===== *)
theory Bot_Defense
  imports Challenge_Token Rate_Limit
begin

text \<open>
  \<open>bot_defense_store.go\<close> and \<open>bot_defense_rules.go\<close>: which requests are challenged, the token a
  browser has to send back as a cookie, and the handlers of the document.  The bytes of
  \<open>crypto/rand\<close> are a parameter.
\<close>

subsection \<open>The document\<close>

record botDefenseConfig =
  bd_Enabled :: bool
  bd_Mode :: string
  bd_PathPrefixes :: "string list"
  bd_ExemptCIDRs :: "string list"
  bd_SuspiciousUserAgents :: "string list"
  bd_ChallengeCookieName :: string
  bd_ChallengeSecret :: string
  bd_ChallengeTTLSeconds :: int
  bd_ChallengeStatusCode :: int

record runtimeBotDefenseConfig =
  br_Raw :: botDefenseConfig
  br_Mode :: string
  br_PathPrefixes :: "string list"
  br_ExemptPrefixes :: "Prefix list"
  br_SuspiciousUA :: "string list"
  br_CookieName :: string
  br_Secret :: string
  br_ChallengeTTL :: int
  br_ChallengeStatus :: int
  br_EphemeralSecret :: bool

record botDefenseDecision =
  bt_Allowed :: bool
  bt_Status :: int
  bt_Mode :: string
  bt_CookieName :: string
  bt_Token :: string
  bt_TTLSeconds :: int

definition normalizeBotDefenseMode :: "string \<Rightarrow> string" where
  "normalizeBotDefenseMode v = ToLower (TrimSpace v)"

definition rooted :: "string \<Rightarrow> string" where
  "rooted v = (if HasPrefix v ''/'' then v else ''/'' @ v)"

definition normalizePathPrefixes :: "string list \<Rightarrow> string list" where
  "normalizePathPrefixes xs = dedup (map rooted (filter (\<lambda>v. v \<noteq> []) (map TrimSpace xs)))"

definition normalizeLowerStringList :: "string list \<Rightarrow> string list" where
  "normalizeLowerStringList xs = dedup (filter (\<lambda>v. v \<noteq> []) (map (\<lambda>x. ToLower (TrimSpace x)) xs))"

definition exempt_prefix :: "nat \<Rightarrow> string \<Rightarrow> Prefix option result" where
  \<comment> \<open>the range of the entry at this position; \<open>None\<close> for a blank one\<close>
  "exempt_prefix i raw =
     (let v = TrimSpace raw in
      if v = [] then Inr None
      else case ParsePrefix v of
        Inr p \<Rightarrow> Inr (Some p)
      | Inl _ \<Rightarrow> (case ParseAddr v of
          Inl _ \<Rightarrow> err ''exempt_cidrs[%d]: invalid address/CIDR: %s'' [Itoa (int i), v]
        | Inr a \<Rightarrow> Inr (Some (PrefixFrom a (if Is6 a then 128 else 32)))))"

fun exempt_prefixes :: "nat \<Rightarrow> string set \<Rightarrow> string list \<Rightarrow> (Prefix list) result" where
  "exempt_prefixes i seen [] = Inr []"
| "exempt_prefixes i seen (raw # rest) =
     bindR (exempt_prefix i raw) (\<lambda>r. case r of
         None \<Rightarrow> exempt_prefixes (Suc i) seen rest
       | Some p \<Rightarrow>
           if Prefix_String p \<in> seen then exempt_prefixes (Suc i) seen rest
           else bindR (exempt_prefixes (Suc i) (insert (Prefix_String p) seen) rest) (\<lambda>ps. Inr (p # ps)))"

definition normalizeBotDefenseCIDRs :: "string list \<Rightarrow> (Prefix list) result" where
  "normalizeBotDefenseCIDRs xs = exempt_prefixes 0 {} xs"

definition defaultSuspiciousUserAgents :: "string list" where
  "defaultSuspiciousUserAgents = [''curl'', ''wget'', ''python-requests'', ''python-urllib'', ''go-http-client'', ''libwww-perl'',
     ''scrapy'', ''sqlmap'', ''nikto'', ''nmap'', ''masscan'']"

definition cookie_name_char :: "char \<Rightarrow> bool" where
  "cookie_name_char c = (32 < ord c \<and> ord c < 127 \<and> c \<notin> set ''()<>@,;:/[]?={} '' \<and> ord c \<noteq> 92 \<and> ord c \<noteq> 34)"

definition isValidCookieName :: "string \<Rightarrow> bool" where
  "isValidCookieName v = (TrimSpace v \<noteq> [] \<and> list_all cookie_name_char v)"

definition bot_defaults :: "botDefenseConfig \<Rightarrow> botDefenseConfig" where
  \<comment> \<open>the defaults that depend on nothing else\<close>
  "bot_defaults c = c\<lparr>
     bd_Mode := (if normalizeBotDefenseMode (bd_Mode c) = [] then ''suspicious'' else normalizeBotDefenseMode (bd_Mode c)),
     bd_PathPrefixes := (if normalizePathPrefixes (bd_PathPrefixes c) = [] then [''/''] else normalizePathPrefixes (bd_PathPrefixes c)),
     bd_SuspiciousUserAgents := (if normalizeLowerStringList (bd_SuspiciousUserAgents c) = [] then defaultSuspiciousUserAgents
       else normalizeLowerStringList (bd_SuspiciousUserAgents c)),
     bd_ChallengeCookieName := (if TrimSpace (bd_ChallengeCookieName c) = [] then ''__mamotama_bot_ok'' else TrimSpace (bd_ChallengeCookieName c)),
     bd_ChallengeTTLSeconds := (if bd_ChallengeTTLSeconds c \<le> 0 then 86400 else bd_ChallengeTTLSeconds c),
     bd_ChallengeStatusCode := (if bd_ChallengeStatusCode c = 0 then 429 else bd_ChallengeStatusCode c)\<rparr>"

definition bot_secret :: "string option \<Rightarrow> string \<Rightarrow> string \<times> bool" where
  \<comment> \<open>32 random bytes when the document has no secret; whether they were needed\<close>
  "bot_secret rnd s =
     (if TrimSpace s \<noteq> [] then (TrimSpace s, False)
      else ((case rnd of Some bs \<Rightarrow> bs | None \<Rightarrow> ''mamotama-bot-defense-ephemeral''), True))"

definition buildBotDefenseRuntimeFromRaw ::
  "(string \<Rightarrow> botDefenseConfig result) \<Rightarrow> string option \<Rightarrow> string \<Rightarrow> runtimeBotDefenseConfig result" where
  "buildBotDefenseRuntimeFromRaw decode rnd raw =
     bindR (decode raw) (\<lambda>c0. let c = bot_defaults c0 in
     seqR (guardR (bd_Mode c \<noteq> ''suspicious'' \<and> bd_Mode c \<noteq> ''always'') (Errorf ''mode must be suspicious|always'' []))
     (bindR (normalizeBotDefenseCIDRs (bd_ExemptCIDRs c)) (\<lambda>ex. let c1 = c\<lparr>bd_ExemptCIDRs := map Prefix_String ex\<rparr> in
     seqR (guardR (\<not> isValidCookieName (bd_ChallengeCookieName c1)) (Errorf ''challenge_cookie_name is invalid'' []))
     (seqR (guardR (bd_ChallengeStatusCode c1 < 400 \<or> 599 < bd_ChallengeStatusCode c1)
              (Errorf ''challenge_status_code must be 400-599'' []))
     (case bot_secret rnd (bd_ChallengeSecret c1) of (secret, ephemeral) \<Rightarrow>
        Inr \<lparr>br_Raw = c1, br_Mode = bd_Mode c1, br_PathPrefixes = bd_PathPrefixes c1, br_ExemptPrefixes = ex,
             br_SuspiciousUA = bd_SuspiciousUserAgents c1, br_CookieName = bd_ChallengeCookieName c1, br_Secret = secret,
             br_ChallengeTTL = i64 (bd_ChallengeTTLSeconds c1 * 1000000000),
             br_ChallengeStatus = bd_ChallengeStatusCode c1, br_EphemeralSecret = ephemeral\<rparr>)))))"

definition ValidateBotDefenseRaw ::
  "(string \<Rightarrow> botDefenseConfig result) \<Rightarrow> string option \<Rightarrow> string \<Rightarrow> runtimeBotDefenseConfig result" where
  "ValidateBotDefenseRaw decode rnd raw = buildBotDefenseRuntimeFromRaw decode rnd raw"

subsection \<open>The cookie\<close>

definition signBotDefenseToken :: "runtimeBotDefenseConfig \<Rightarrow> string \<Rightarrow> string \<Rightarrow> string \<Rightarrow> string" where
  "signBotDefenseToken rt ip ua payload = hex_encode (hmac_sha256 (br_Secret rt) (challenge_text ip ua payload))"

definition issueBotDefenseToken :: "runtimeBotDefenseConfig \<Rightarrow> string \<Rightarrow> string \<Rightarrow> int \<Rightarrow> string" where
  "issueBotDefenseToken rt ip ua now = issue_token (signBotDefenseToken rt ip ua) (br_ChallengeTTL rt) now"

definition verifyBotDefenseToken :: "runtimeBotDefenseConfig \<Rightarrow> string \<Rightarrow> string \<Rightarrow> string \<Rightarrow> int \<Rightarrow> bool" where
  "verifyBotDefenseToken rt token ip ua now = verify_token (signBotDefenseToken rt ip ua) token now"

definition hasValidBotDefenseCookie :: "runtimeBotDefenseConfig \<Rightarrow> Request \<Rightarrow> string \<Rightarrow> string \<Rightarrow> int \<Rightarrow> bool" where
  "hasValidBotDefenseCookie rt r ip ua now =
     (case Request_Cookie r (br_CookieName rt) of None \<Rightarrow> False | Some v \<Rightarrow> verifyBotDefenseToken rt v ip ua now)"

subsection \<open>Which requests are challenged\<close>

definition isBotDefenseExemptIP :: "runtimeBotDefenseConfig \<Rightarrow> string \<Rightarrow> bool" where
  "isBotDefenseExemptIP rt ipStr =
     (if ipStr = [] \<or> br_ExemptPrefixes rt = [] then False
      else case ParseAddr ipStr of Inl e \<Rightarrow> False
         | Inr ip \<Rightarrow> list_ex (\<lambda>p. Prefix_Contains p ip) (br_ExemptPrefixes rt))"

definition isSuspiciousUserAgent :: "string list \<Rightarrow> string \<Rightarrow> bool" where
  "isSuspiciousUserAgent needles ua =
     (let v = ToLower (TrimSpace ua) in v = [] \<or> list_ex (\<lambda>needle. needle \<noteq> [] \<and> Contains v needle) needles)"

definition pathMatchesAnyPrefix :: "string list \<Rightarrow> string \<Rightarrow> bool" where
  "pathMatchesAnyPrefix prefixes p =
     (let p' = (if p = [] then ''/'' else p) in list_ex (\<lambda>x. x = ''/'' \<or> HasPrefix p' x) prefixes)"

definition UserAgent :: "Request \<Rightarrow> string" where
  "UserAgent r = Header_Get (rq_Header r) ''User-Agent''"

definition bot_allow :: botDefenseDecision where
  "bot_allow = \<lparr>bt_Allowed = True, bt_Status = 0, bt_Mode = [], bt_CookieName = [], bt_Token = [], bt_TTLSeconds = 0\<rparr>"

definition EvaluateBotDefense :: "runtimeBotDefenseConfig option \<Rightarrow> Request option \<Rightarrow> string \<Rightarrow> int \<Rightarrow> botDefenseDecision" where
  "EvaluateBotDefense rt0 r0 clientIP now =
     (case (rt0, r0) of
        (Some rt, Some r) \<Rightarrow>
          (let p = TrimSpace (url_Path (rq_URL r)); reqPath = (if p = [] then ''/'' else p);
               ip = normalizeClientIP clientIP; ua = UserAgent r in
           if \<not> bd_Enabled (br_Raw rt) then bot_allow
           else if rq_Method r \<noteq> ''GET'' then bot_allow
           else if \<not> pathMatchesAnyPrefix (br_PathPrefixes rt) reqPath then bot_allow
           else if isBotDefenseExemptIP rt ip then bot_allow
           else if br_Mode rt = ''suspicious'' \<and> \<not> isSuspiciousUserAgent (br_SuspiciousUA rt) ua then bot_allow
           else if hasValidBotDefenseCookie rt r ip ua now then bot_allow
           else \<lparr>bt_Allowed = False, bt_Status = br_ChallengeStatus rt, bt_Mode = br_Mode rt,
                 bt_CookieName = br_CookieName rt, bt_Token = issueBotDefenseToken rt ip ua now,
                 bt_TTLSeconds = max 1 (quot (br_ChallengeTTL rt) 1000000000)\<rparr>)
      | _ \<Rightarrow> bot_allow)"

subsection \<open>The challenge page\<close>

record handler_reply =
  hr_Status :: int
  hr_Header :: http_header
  hr_Body :: string

definition acceptsHTML :: "string \<Rightarrow> bool" where
  "acceptsHTML rawAccept =
     (let v = ToLower (TrimSpace rawAccept) in
      if v = [] then False else Contains v ''text/html'' \<or> Contains v ''*/*'')"

definition challenge_page :: "string \<Rightarrow> string \<Rightarrow> string \<Rightarrow> string \<Rightarrow> int \<Rightarrow> string" where
  \<comment> \<open>title, text, token, cookie name, age; \<open>%q\<close> only adds quotes to strings of cookie characters\<close>
  "challenge_page title msg token cookieName maxAge =
     join_with [newline]
       ([''<!doctype html>'',
        quoted ''<html><head><meta charset=`utf-8`><meta name=`viewport` content=`width=device-width,initial-scale=1`>'',
        ''<title>'' @ title @ ''</title></head>'', ''<body>'', ''<p>'' @ msg @ ''</p>'', ''<script>'', ''(() => {'',
        quoted ''  const token = `'' @ token @ quoted ''`;'', quoted ''  const cookieName = `'' @ cookieName @ quoted ''`;'',
        quoted ''  document.cookie = cookieName + `=` + token + `; Path=/; Max-Age='' @ Itoa maxAge @ quoted ''; SameSite=Lax`;'',
        ''  window.location.replace(window.location.href);'', ''})();'', ''</script>'',
        ''<noscript>JavaScript is required to continue.</noscript>'', ''</body></html>''])"

definition challenge_reply :: "http_header \<Rightarrow> string \<Rightarrow> Request \<Rightarrow> int \<Rightarrow> string \<Rightarrow> string \<Rightarrow> handler_reply" where
  \<comment> \<open>the header so far, the name of the mark, the status, the page, the text for other clients\<close>
  "challenge_reply h mark r status page json =
     (let h1 = Header_Set mark ''required'' (Header_Set ''Cache-Control'' ''no-store'' h) in
      if \<not> acceptsHTML (Header_Get (rq_Header r) ''Accept'')
      then \<lparr>hr_Status = status, hr_Header = Header_Set ''Content-Type'' ''application/json; charset=utf-8'' h1, hr_Body = json\<rparr>
      else \<lparr>hr_Status = status, hr_Header = Header_Set ''Content-Type'' ''text/html; charset=utf-8'' h1, hr_Body = page\<rparr>)"

definition WriteBotDefenseChallenge :: "http_header \<Rightarrow> Request \<Rightarrow> botDefenseDecision \<Rightarrow> handler_reply" where
  "WriteBotDefenseChallenge h r d =
     challenge_reply h ''X-Mamotama-Bot-Challenge'' r (if bt_Status d = 0 then 429 else bt_Status d)
       (challenge_page ''Challenge Required'' ''Verifying browser...'' (bt_Token d) (bt_CookieName d) (max 1 (bt_TTLSeconds d)))
       (quoted ''{`error`:`bot challenge required`}'')"

subsection \<open>File and handlers\<close>

definition bot_default_raw :: string where
  "bot_default_raw = concat (map (\<lambda>l. quoted l @ [newline])
     [''{'', ''  `enabled`: true,'', ''  `mode`: `suspicious`,'', ''  `path_prefixes`: [`/`],'', ''  `exempt_cidrs`: ['',
      ''    `127.0.0.1/32`,'', ''    `::1/128`,'', ''    `10.0.0.0/8`,'', ''    `172.16.0.0/12`,'', ''    `192.168.0.0/16`,'',
      ''    `fc00::/7`'', ''  ],'', ''  `suspicious_user_agents`: ['', ''    `curl`,'', ''    `wget`,'', ''    `python-requests`,'',
      ''    `python-urllib`,'', ''    `python-httpx`,'', ''    `go-http-client`,'', ''    `aiohttp`,'', ''    `libwww-perl`,'',
      ''    `scrapy`,'', ''    `headless`,'', ''    `selenium`,'', ''    `puppeteer`,'', ''    `playwright`,'', ''    `sqlmap`,'',
      ''    `nikto`,'', ''    `nmap`,'', ''    `masscan`'', ''  ],'', ''  `challenge_cookie_name`: `__mamotama_bot_ok`,'',
      ''  `challenge_secret`: ``,'', ''  `challenge_ttl_seconds`: 21600,'', ''  `challenge_status_code`: 429'', ''}''])"

definition ensureBotDefenseFile :: "storage \<Rightarrow> unit result \<times> storage" where
  "ensureBotDefenseFile st = ensure_file bot_default_raw st"

definition load_bot :: "(string \<Rightarrow> botDefenseConfig result) \<Rightarrow> string option \<Rightarrow> string \<Rightarrow> runtimeBotDefenseConfig option result" where
  "load_bot decode rnd raw = bindR (buildBotDefenseRuntimeFromRaw decode rnd raw) (\<lambda>rt. Inr (Some rt))"

definition ReloadBotDefense ::
  "(string \<Rightarrow> botDefenseConfig result) \<Rightarrow> string option \<Rightarrow> runtimeBotDefenseConfig option rules_state
     \<Rightarrow> unit result \<times> runtimeBotDefenseConfig option rules_state" where
  "ReloadBotDefense decode rnd s = reload_rules (load_bot decode rnd) s"

definition InitBotDefense ::
  "(string \<Rightarrow> botDefenseConfig result) \<Rightarrow> string option \<Rightarrow> string \<Rightarrow> runtimeBotDefenseConfig option rules_state
     \<Rightarrow> unit result \<times> runtimeBotDefenseConfig option rules_state" where
  "InitBotDefense decode rnd path s =
     (let target = TrimSpace path in
      if target = [] then (err ''bot defense path is empty'' [], s)
      else case ensureBotDefenseFile (ru_storage s) of
        (Inl e, st) \<Rightarrow> (Inl e, s\<lparr>ru_storage := st\<rparr>)
      | (Inr _, st) \<Rightarrow> ReloadBotDefense decode rnd (s\<lparr>ru_path := target, ru_storage := st\<rparr>))"

definition GetBotDefenseConfig :: "runtimeBotDefenseConfig option \<Rightarrow> botDefenseConfig option" where
  \<comment> \<open>\<open>None\<close> is the empty configuration\<close>
  "GetBotDefenseConfig rt = map_option br_Raw rt"

definition GetBotDefenseRules ::
  "(string \<Rightarrow> botDefenseConfig result) \<Rightarrow> string option \<Rightarrow> runtimeBotDefenseConfig option rules_state
     \<Rightarrow> runtimeBotDefenseConfig rules_reply \<times> runtimeBotDefenseConfig option rules_state" where
  "GetBotDefenseRules decode rnd s = get_rules (ValidateBotDefenseRaw decode rnd) s"

definition ValidateBotDefenseRules ::
  "(string \<Rightarrow> botDefenseConfig result) \<Rightarrow> string option \<Rightarrow> string result \<Rightarrow> runtimeBotDefenseConfig rules_reply" where
  "ValidateBotDefenseRules decode rnd body = validate_rules (ValidateBotDefenseRaw decode rnd) body"

definition PutBotDefenseRules ::
  "(string \<Rightarrow> botDefenseConfig result) \<Rightarrow> string option \<Rightarrow> string \<Rightarrow> string result \<Rightarrow> runtimeBotDefenseConfig option rules_state
     \<Rightarrow> runtimeBotDefenseConfig rules_reply \<times> runtimeBotDefenseConfig option rules_state" where
  "PutBotDefenseRules decode rnd ifMatch body s =
     put_rules (ValidateBotDefenseRaw decode rnd) (load_bot decode rnd) ifMatch body s"

definition SyncBotDefenseStorage ::
  "(string \<Rightarrow> botDefenseConfig result) \<Rightarrow> string option \<Rightarrow> runtimeBotDefenseConfig option rules_state
     \<Rightarrow> unit result \<times> runtimeBotDefenseConfig option rules_state" where
  "SyncBotDefenseStorage decode rnd s =
     sync_blob_file (\<lambda>raw. bindR (ValidateBotDefenseRaw decode rnd raw) (\<lambda>_. Inr ())) (Some (load_bot decode rnd)) False True s"

subsection \<open>The contract of the token\<close>

interpretation bot_token: challenge_signer "signBotDefenseToken rt" "hmac_sha256 (br_Secret rt)" for rt
  by unfold_locales (simp_all add: signBotDefenseToken_def hmac_sha256_def Let_def sha256_bytes)

end
