(* ===== verification/Bot_Defense_Correct.thy ===== *)
theory Bot_Defense_Correct
  imports Bot_Defense
begin

text \<open>
  The bot challenge: a browser that sends the token back is let through until it expires, and
  nobody else can use the token, as long as signatures cannot be made without the secret.
\<close>

subsection \<open>The token as a cookie\<close>

lemma cookie_name_token: "cookie_name_char c \<Longrightarrow> token_char c"
proof (cases c)
  case (Char b0 b1 b2 b3 b4 b5 b6 b7)
  assume "cookie_name_char c"
  then show ?thesis
    unfolding Char cookie_name_char_def token_char_def is_alpha_def is_upper_def is_lower_def is_digit_def ord_def
    by (cases b0; cases b1; cases b2; cases b3; cases b4; cases b5; cases b6; cases b7) simp_all
qed

definition value_char :: "char \<Rightarrow> bool" where
  "value_char c = (is_digit c \<or> (97 \<le> ord c \<and> ord c \<le> 102) \<or> c = CHR ''.'')"

lemma no_space_TrimString: "\<forall>c\<in>set s. \<not> ascii_space c \<Longrightarrow> TrimString s = s"
proof -
  assume s: "\<forall>c\<in>set s. \<not> ascii_space c"
  have "dropWhile ascii_space t = t" if "\<forall>c\<in>set t. \<not> ascii_space c" for t using that by (cases t) simp_all
  from this [of s] this [of "rev s"] s show ?thesis by (simp add: TrimString_def)
qed

lemma IndexByte_at: "c \<notin> set u \<Longrightarrow> IndexByte (u @ c # v) c = Some (length u)"
  by (induction u) auto

lemma cookie_pair:
  assumes "n \<noteq> []" "list_all token_char n" "list_all value_char v"
  shows "cookies_of_line (n @ ''='' @ v) = [(n, v)]"
proof -
  have tok: "token_char c \<Longrightarrow> \<not> ascii_space c \<and> c \<noteq> CHR '';'' \<and> c \<noteq> CHR ''=''" for c
    by (auto simp: token_char_def ascii_space_def is_alpha_def is_upper_def is_lower_def is_digit_def ord_def)
  have val: "value_char c \<Longrightarrow> \<not> ascii_space c \<and> c \<noteq> CHR '';'' \<and> valid_cookie_byte c \<and> c \<noteq> CHR 0x22" for c
    by (auto simp: value_char_def ascii_space_def valid_cookie_byte_def is_digit_def ord_def)
  have sp: "\<forall>c\<in>set (n @ ''='' @ v). \<not> ascii_space c" "\<forall>c\<in>set n. \<not> ascii_space c"
    using assms(2,3) tok val by (auto simp: list_all_iff ascii_space_def)
  have semi: "CHR '';'' \<notin> set (n @ ''='' @ v)" using assms(2,3) tok val by (auto simp: list_all_iff)
  have cut: "CutByte (n @ ''='' @ v) (CHR ''='') = (n, v)"
    using assms(2) tok IndexByte_at [of "CHR ''=''" n v] by (fastforce simp: CutByte_def list_all_iff)
  have "parseCookieValue v = Some v"
    using assms(3) val by (cases v) (auto simp: parseCookieValue_def list_all_iff)
  then show ?thesis
    using assms(1,2) SplitByte_no [OF semi]
    by (simp add: cookies_of_line_def no_space_TrimString [OF sp(1)] no_space_TrimString [OF sp(2)] cut Let_def del: append.simps)
qed

lemma set_cookie:
  assumes "n \<noteq> []" "list_all token_char n" "list_all value_char v"
  shows "Request_Cookie (r\<lparr>rq_Header := Header_Set ''Cookie'' (n @ ''='' @ v) (rq_Header r)\<rparr>) n = Some v"
proof -
  have "CanonicalMIMEHeaderKey ''Cookie'' = ''Cookie''" by code_simp
  then show ?thesis
    using assms(1) cookie_pair [OF assms]
    by (simp add: Request_Cookie_def header.lookup_set)
qed

lemma hex_value: "list_all is_byte bs \<Longrightarrow> list_all value_char (hex_encode bs)"
proof (induction bs)
  case (Cons b bs)
  have d: "0 \<le> m \<Longrightarrow> m < 16 \<Longrightarrow> value_char (hex_digit m)" for m
    by (cases "m < 10") (auto simp: value_char_def is_digit_def hex_digit_ord nat_less_iff nat_le_iff le_nat_iff)
  from Cons have "0 \<le> b div 16 \<and> b div 16 < 16 \<and> 0 \<le> b mod 16 \<and> b mod 16 < 16"
    using div_less_16 [of b] by (simp add: is_byte_def pos_imp_zdiv_nonneg_iff)
  with Cons d show ?case by (simp add: hex_encode_def)
qed (simp add: hex_encode_def)

lemma token_value:
  assumes "0 \<le> unix_seconds (now + br_ChallengeTTL rt)"
  shows "list_all value_char (issueBotDefenseToken rt ip ua now)"
proof -
  have "list_all value_char (Itoa (unix_seconds (now + br_ChallengeTTL rt)))"
    using Itoa_digits [OF assms] by (auto simp: list_all_iff value_char_def)
  moreover have "list_all value_char (signBotDefenseToken rt ip ua p)" for p
    using hex_value [OF bot_token.mac_bytes] by (simp add: signBotDefenseToken_def)
  ultimately show ?thesis by (simp add: issueBotDefenseToken_def issue_token_def Let_def value_char_def)
qed

subsection \<open>Passing the challenge\<close>

lemma built_runtime:
  assumes "buildBotDefenseRuntimeFromRaw decode rnd raw = Inr rt"
  shows "list_all cookie_name_char (br_CookieName rt) \<and> br_CookieName rt \<noteq> []
    \<and> 0 < bd_ChallengeTTLSeconds (br_Raw rt) \<and> br_ChallengeTTL rt = i64 (bd_ChallengeTTLSeconds (br_Raw rt) * 1000000000)
    \<and> 400 \<le> br_ChallengeStatus rt \<and> br_ChallengeStatus rt \<le> 599"
proof -
  have ttl: "0 < bd_ChallengeTTLSeconds (bot_defaults c)" for c by (simp add: bot_defaults_def)
  from assms obtain c0 where c0: "decode raw = Inr c0" by (auto simp: buildBotDefenseRuntimeFromRaw_def bindR_Inr)
  let ?c = "bot_defaults c0"
  obtain ex where ex: "normalizeBotDefenseCIDRs (bd_ExemptCIDRs ?c) = Inr ex"
    using assms c0 by (cases "normalizeBotDefenseCIDRs (bd_ExemptCIDRs ?c)") (auto simp: buildBotDefenseRuntimeFromRaw_def Let_def)
  obtain secret e where secret: "bot_secret rnd (bd_ChallengeSecret ?c) = (secret, e)" by fastforce
  from assms have "isValidCookieName (bd_ChallengeCookieName ?c)"
    "400 \<le> bd_ChallengeStatusCode ?c" "bd_ChallengeStatusCode ?c \<le> 599"
    "br_Raw rt = ?c\<lparr>bd_ExemptCIDRs := map Prefix_String ex\<rparr>" "br_CookieName rt = bd_ChallengeCookieName ?c"
    "br_ChallengeTTL rt = i64 (bd_ChallengeTTLSeconds ?c * 1000000000)" "br_ChallengeStatus rt = bd_ChallengeStatusCode ?c"
    by (auto simp: buildBotDefenseRuntimeFromRaw_def Let_def c0 ex secret)
  with ttl [of c0] show ?thesis by (auto simp: isValidCookieName_def)
qed

text \<open>
  C23: The challenge can be passed: a browser that repeats a challenged request with the cookie of the
  page, from the same address and with the same user agent, is let through until the second the
  token expires, and not a second longer.
\<close>

theorem challenge_is_passed_by_its_cookie:
  assumes "buildBotDefenseRuntimeFromRaw decode rnd raw = Inr rt" "bd_ChallengeTTLSeconds (br_Raw rt) < 2 ^ 32"
    "EvaluateBotDefense (Some rt) (Some r) ip now = d" "\<not> bt_Allowed d" "0 \<le> now" "now < 2 ^ 62"
  shows "400 \<le> bt_Status d \<and> bt_Status d \<le> 599
    \<and> (bt_Allowed (EvaluateBotDefense (Some rt)
         (Some (r\<lparr>rq_Header := Header_Set ''Cookie'' (bt_CookieName d @ ''='' @ bt_Token d) (rq_Header r)\<rparr>)) ip now')
       \<longleftrightarrow> unix_seconds now' \<le> unix_seconds (now + bd_ChallengeTTLSeconds (br_Raw rt) * 1000000000))"
proof -
  note rt = built_runtime [OF assms(1)]
  have ttl: "br_ChallengeTTL rt = bd_ChallengeTTLSeconds (br_Raw rt) * 1000000000"
    using rt assms(2) by (simp add: i64_id)
  let ?exp = "unix_seconds (now + br_ChallengeTTL rt)"
  have exp: "0 < ?exp" "?exp < 2 ^ 63"
    using rt assms(2,5,6) by (auto simp: ttl unix_seconds_def pos_imp_zdiv_nonneg_iff add_pos_nonneg)
  let ?ip = "normalizeClientIP ip"
  have d: "bd_Enabled (br_Raw rt)" "rq_Method r = ''GET''" "\<not> isBotDefenseExemptIP rt ?ip"
    "pathMatchesAnyPrefix (br_PathPrefixes rt) (let p = TrimSpace (url_Path (rq_URL r)) in if p = [] then ''/'' else p)"
    "\<not> (br_Mode rt = ''suspicious'' \<and> \<not> isSuspiciousUserAgent (br_SuspiciousUA rt) (UserAgent r))"
    "bt_CookieName d = br_CookieName rt" "bt_Status d = br_ChallengeStatus rt" "bt_Token d = issueBotDefenseToken rt ?ip (UserAgent r) now"
    using assms(3,4) by (auto simp: EvaluateBotDefense_def Let_def bot_allow_def split: if_splits)
  define q where "q = r\<lparr>rq_Header := Header_Set ''Cookie'' (bt_CookieName d @ ''='' @ bt_Token d) (rq_Header r)\<rparr>"
  have "list_all token_char (br_CookieName rt)" using rt cookie_name_token by (auto simp: list_all_iff)
  moreover have "list_all value_char (bt_Token d)" using token_value [of now rt ?ip "UserAgent r"] exp by (simp add: d)
  ultimately have cookie: "Request_Cookie q (br_CookieName rt) = Some (bt_Token d)"
    using set_cookie [of "br_CookieName rt" "bt_Token d" r] rt by (simp add: q_def d)
  have "CanonicalMIMEHeaderKey ''User-Agent'' = ''User-Agent''" "CanonicalMIMEHeaderKey ''Cookie'' = ''Cookie''" by code_simp+
  then have ua: "UserAgent q = UserAgent r" by (simp add: UserAgent_def q_def Header_Get_def header.lookup_set)
  have same: "rq_Method q = rq_Method r" "rq_URL q = rq_URL r" by (simp_all add: q_def)
  have "hasValidBotDefenseCookie rt q ?ip (UserAgent q) now' \<longleftrightarrow> unix_seconds now' \<le> ?exp"
    using bot_token.issued_token_accepted [OF exp refl refl, of rt ?ip "UserAgent r" now']
    by (simp add: hasValidBotDefenseCookie_def cookie ua d(8) verifyBotDefenseToken_def issueBotDefenseToken_def)
  then have "bt_Allowed (EvaluateBotDefense (Some rt) (Some q) ip now') \<longleftrightarrow> unix_seconds now' \<le> ?exp"
    using d(1-5) by (simp add: EvaluateBotDefense_def Let_def same ua bot_allow_def)
  then show ?thesis using rt by (simp add: q_def d(7) ttl)
qed

text \<open>
  C24: A cookie is worth nothing to anybody else: when a signature that is presented for an address and
  a user agent was made by an earlier challenge, the cookie is accepted only from the address and
  the user agent of such a challenge, before its token expires.
\<close>

theorem cookie_is_bound_to_its_client:
  assumes "hasValidBotDefenseCookie rt r ip (UserAgent r) now" "Request_Cookie r (br_CookieName rt) = Some token"
    and unforged: "\<And>payload sig. SplitByte (TrimSpace token) (CHR ''.'') = [payload, sig]
      \<Longrightarrow> hex_DecodeString (TrimSpace sig) = Some (hmac_sha256 (br_Secret rt) (challenge_text ip (UserAgent r) payload))
      \<Longrightarrow> challenge_text ip (UserAgent r) payload
        \<in> (\<lambda>(i, u, t). challenge_text i u (Itoa (unix_seconds (t + br_ChallengeTTL rt)))) ` set issued"
    and lines: "newline \<notin> set ip" "newline \<notin> set (UserAgent r)" "list_all (\<lambda>(i, u, t). newline \<notin> set i \<and> newline \<notin> set u) issued"
    and time: "list_all (\<lambda>(i, u, t). 0 \<le> unix_seconds (t + br_ChallengeTTL rt) \<and> unix_seconds (t + br_ChallengeTTL rt) < 2 ^ 63) issued"
  shows "\<exists>(i, u, t) \<in> set issued. TrimSpace i = TrimSpace ip \<and> ToLower (TrimSpace u) = ToLower (TrimSpace (UserAgent r))
    \<and> unix_seconds now \<le> unix_seconds (t + br_ChallengeTTL rt)"
proof -
  have "verify_token (signBotDefenseToken rt ip (UserAgent r)) token now"
    using assms(1,2) by (simp add: hasValidBotDefenseCookie_def verifyBotDefenseToken_def)
  from bot_token.accepted_token_was_issued [OF this unforged lines(1,2)] lines(3) time
  show ?thesis by (fastforce simp: list_all_iff)
qed

subsection \<open>Concrete runs\<close>

definition demo_bot :: botDefenseConfig where
  "demo_bot = \<lparr>bd_Enabled = True, bd_Mode = [], bd_PathPrefixes = [], bd_ExemptCIDRs = [], bd_SuspiciousUserAgents = [''curl''],
     bd_ChallengeCookieName = ''bot_ok'', bd_ChallengeSecret = ''secret'', bd_ChallengeTTLSeconds = 60, bd_ChallengeStatusCode = 0\<rparr>"

definition demo_bot_runtime :: runtimeBotDefenseConfig where
  "demo_bot_runtime = \<lparr>br_Raw = demo_bot\<lparr>bd_Mode := ''suspicious'', bd_PathPrefixes := [''/''], bd_ChallengeStatusCode := 429\<rparr>,
     br_Mode = ''suspicious'', br_PathPrefixes = [''/''], br_ExemptPrefixes = [], br_SuspiciousUA = [''curl''],
     br_CookieName = ''bot_ok'', br_Secret = ''secret'', br_ChallengeTTL = 60000000000, br_ChallengeStatus = 429,
     br_EphemeralSecret = False\<rparr>"

definition demo_curl :: Request where
  "demo_curl = \<lparr>rq_Method = ''GET'', rq_Host = ''h'', rq_URL = empty_URL\<lparr>url_Path := ''/a''\<rparr>,
     rq_Header = [(''User-Agent'', [''Curl/8''])], rq_RemoteAddr = ''10.0.0.1:80'', rq_Body = NoBody, rq_ContentLength = 0\<rparr>"

lemma demo_bot_built: "buildBotDefenseRuntimeFromRaw (\<lambda>_. Inr demo_bot) None [] = Inr demo_bot_runtime"
proof -
  have "case buildBotDefenseRuntimeFromRaw (\<lambda>_. Inr demo_bot) None [] of Inl e \<Rightarrow> False | Inr rt \<Rightarrow> rt = demo_bot_runtime"
    by code_simp
  then show ?thesis by (auto split: sum.splits)
qed

lemma demo_curl_facts: "UserAgent demo_curl = ''Curl/8''" "Request_Cookie demo_curl ''bot_ok'' = None" "rq_Method demo_curl = ''GET''"
    "isSuspiciousUserAgent [''curl''] ''Curl/8''" "pathMatchesAnyPrefix [''/''] x"
  by code_simp+

lemma demo_challenged:
  "EvaluateBotDefense (Some demo_bot_runtime) (Some demo_curl) ''10.0.0.1'' 7000000000 =
     \<lparr>bt_Allowed = False, bt_Status = 429, bt_Mode = ''suspicious'', bt_CookieName = ''bot_ok'',
      bt_Token = issueBotDefenseToken demo_bot_runtime (normalizeClientIP ''10.0.0.1'') ''Curl/8'' 7000000000, bt_TTLSeconds = 60\<rparr>"
  by (simp add: EvaluateBotDefense_def Let_def demo_curl_facts hasValidBotDefenseCookie_def isBotDefenseExemptIP_def)
    (simp add: demo_bot_runtime_def demo_bot_def demo_curl_facts quot_def)

theorem challenge_is_passed_by_its_cookie_witness:
  "\<not> bt_Allowed (EvaluateBotDefense (Some demo_bot_runtime) (Some demo_curl) ''10.0.0.1'' 7000000000)
   \<and> (\<exists>q. rq_URL q = rq_URL demo_curl \<and> bt_Allowed (EvaluateBotDefense (Some demo_bot_runtime) (Some q) ''10.0.0.1'' 67900000000)
       \<and> \<not> bt_Allowed (EvaluateBotDefense (Some demo_bot_runtime) (Some q) ''10.0.0.1'' 68000000000))"
proof -
  have ttl: "bd_ChallengeTTLSeconds (br_Raw demo_bot_runtime) = 60" by (simp add: demo_bot_runtime_def demo_bot_def)
  note d = challenge_is_passed_by_its_cookie [OF demo_bot_built _ demo_challenged, unfolded ttl]
  from d [of 67900000000] d [of 68000000000] show ?thesis
    by (intro conjI exI [of _ "demo_curl\<lparr>rq_Header := Header_Set ''Cookie''
        (''bot_ok'' @ ''='' @ issueBotDefenseToken demo_bot_runtime (normalizeClientIP ''10.0.0.1'') ''Curl/8'' 7000000000) (rq_Header demo_curl)\<rparr>"])
      (simp_all add: demo_challenged unix_seconds_def)
qed

theorem cookie_is_bound_to_its_client_witness:
  "\<exists>r. hasValidBotDefenseCookie demo_bot_runtime r ''10.0.0.1'' (UserAgent r) 8000000000
     \<and> (\<exists>(i, u, t) \<in> set [('' 10.0.0.1'', ''CURL/8'', 7000000000)].
          TrimSpace i = TrimSpace ''10.0.0.1'' \<and> ToLower (TrimSpace u) = ToLower (TrimSpace (UserAgent r))
          \<and> unix_seconds 8000000000 \<le> unix_seconds (t + br_ChallengeTTL demo_bot_runtime))"
proof -
  let ?rt = demo_bot_runtime and ?t = "7000000000 :: int"
  define token where "token = issueBotDefenseToken ?rt '' 10.0.0.1'' ''CURL/8'' ?t"
  define r where "r = demo_curl\<lparr>rq_Header := Header_Set ''Cookie'' (''bot_ok'' @ ''='' @ token) (rq_Header demo_curl)\<rparr>"
  have ttl: "br_ChallengeTTL ?rt = 60000000000" "br_CookieName ?rt = ''bot_ok''" by (simp_all add: demo_bot_runtime_def)
  have exp: "unix_seconds (?t + br_ChallengeTTL ?rt) = 67" by (simp add: ttl unix_seconds_def)
  have ua: "UserAgent r = ''Curl/8''"
  proof -
    have "CanonicalMIMEHeaderKey ''User-Agent'' = ''User-Agent''" "CanonicalMIMEHeaderKey ''Cookie'' = ''Cookie''" by code_simp+
    then show ?thesis using demo_curl_facts(1) by (simp add: UserAgent_def r_def Header_Get_def header.lookup_set)
  qed
  have "list_all token_char ''bot_ok''" by code_simp
  then have cookie: "Request_Cookie r (br_CookieName ?rt) = Some token"
    unfolding r_def ttl(2) using token_value [of ?t ?rt "'' 10.0.0.1''" "''CURL/8''"] exp
    by (intro set_cookie) (simp_all add: token_def)
  have eqs: "TrimSpace ''10.0.0.1'' = TrimSpace '' 10.0.0.1''" "ToLower (TrimSpace ''Curl/8'') = ToLower (TrimSpace ''CURL/8'')"
    by code_simp+
  have parts: "SplitByte (TrimSpace token) (CHR ''.'') =
      [Itoa (unix_seconds (?t + br_ChallengeTTL ?rt)), signBotDefenseToken ?rt '' 10.0.0.1'' ''CURL/8'' (Itoa (unix_seconds (?t + br_ChallengeTTL ?rt)))]"
    unfolding token_def issueBotDefenseToken_def using exp by (intro bot_token.issued_token_parts) simp
  have valid: "hasValidBotDefenseCookie ?rt r ''10.0.0.1'' (UserAgent r) 8000000000"
    using bot_token.issued_token_accepted [of ?t "br_ChallengeTTL ?rt" "''10.0.0.1''" "'' 10.0.0.1''" "''Curl/8''" "''CURL/8''" ?rt 8000000000]
      eqs exp
    by (simp add: hasValidBotDefenseCookie_def cookie verifyBotDefenseToken_def token_def issueBotDefenseToken_def ua unix_seconds_def)
  have "\<exists>(i, u, t) \<in> set [('' 10.0.0.1'', ''CURL/8'', ?t)]. TrimSpace i = TrimSpace ''10.0.0.1'' \<and>
      ToLower (TrimSpace u) = ToLower (TrimSpace (UserAgent r)) \<and> unix_seconds 8000000000 \<le> unix_seconds (t + br_ChallengeTTL ?rt)"
  proof (rule cookie_is_bound_to_its_client [OF valid cookie])
    show "challenge_text ''10.0.0.1'' (UserAgent r) payload \<in> (\<lambda>(i, u, t). challenge_text i u (Itoa (unix_seconds (t + br_ChallengeTTL ?rt)))) `
        set [('' 10.0.0.1'', ''CURL/8'', ?t)]" if "SplitByte (TrimSpace token) (CHR ''.'') = [payload, sig]" for payload sig
      using that by (simp add: parts challenge_text_def ua eqs)
  qed (use exp in \<open>simp_all add: ua\<close>)
  with valid show ?thesis by blast
qed

end
