(* ===== verification/Go_Regexp.thy ===== *)
theory Go_Regexp
  imports Go_Strings
begin

text \<open>
  As much of \<open>regexp\<close> as the fixed patterns of the program use: byte classes, word boundaries,
  sequences, alternatives, bounded and unbounded repetition, and whether a text contains a match.
  The expressions consume runes, as Go's do: \<open>rune_len\<close> is the number of bytes of the first rune
  of a text, 1 for an invalid one, and a class looks at the first byte, which tells all it needs to
  since the classes of the patterns treat every rune beyond ASCII alike.
\<close>

datatype rx =
    Eps
  | Cls "char \<Rightarrow> bool"
  | Rune string                 \<comment> \<open>one rune beyond ASCII, by its bytes\<close>
  | Bnd                         \<comment> \<open>the word boundary\<close>
  | Sq rx rx
  | Alt rx rx
  | Upto nat rx                 \<comment> \<open>at most so many times\<close>
  | Star rx

definition cont_byte :: "string \<Rightarrow> nat \<Rightarrow> nat \<Rightarrow> nat \<Rightarrow> bool" where
  "cont_byte s i lo hi = (i < length s \<and> lo \<le> ord (s ! i) \<and> ord (s ! i) \<le> hi)"

definition rune_len :: "string \<Rightarrow> nat" where
  "rune_len s =
     (case s of [] \<Rightarrow> 0 | c # t \<Rightarrow>
        let b = ord c; two = cont_byte s 2 128 191; three = cont_byte s 3 128 191 in
        if b < 128 then 1
        else if 194 \<le> b \<and> b \<le> 223 then (if cont_byte s 1 128 191 then 2 else 1)
        else if 224 \<le> b \<and> b \<le> 239
        then (if cont_byte s 1 (if b = 224 then 160 else 128) (if b = 237 then 159 else 191) \<and> two then 3 else 1)
        else if 240 \<le> b \<and> b \<le> 244
        then (if cont_byte s 1 (if b = 240 then 144 else 128) (if b = 244 then 143 else 191) \<and> two \<and> three then 4 else 1)
        else 1)"

lemma rune_len_pos: "0 < rune_len (c # s)"
  by (simp add: rune_len_def Let_def)

subsection \<open>Classes\<close>

definition word_char :: "char \<Rightarrow> bool" where
  "word_char c = (is_alpha c \<or> is_digit c \<or> c = CHR ''_'')"

definition space_char :: "char \<Rightarrow> bool" where
  "space_char c = (c \<in> set [CHR '' '', CHR 0x09, CHR 0x0A, CHR 0x0C, CHR 0x0D])"

subsection \<open>Matching\<close>

type_synonym rx_place = "bool \<times> string"   \<comment> \<open>whether a word character stands before, and what follows\<close>

definition boundary :: "rx_place \<Rightarrow> bool" where
  "boundary pl = (fst pl \<noteq> (case snd pl of [] \<Rightarrow> False | c # s \<Rightarrow> word_char c))"

fun iterate :: "nat \<Rightarrow> (rx_place \<Rightarrow> rx_place list) \<Rightarrow> rx_place list \<Rightarrow> rx_place list" where
  "iterate 0 f pls = pls"
| "iterate (Suc n) f pls =
     (let next = concat (map f pls) in if next = [] then pls else pls @ iterate n f next)"

primrec ends :: "rx \<Rightarrow> rx_place \<Rightarrow> rx_place list" where
  \<comment> \<open>the places a match can end when it starts here\<close>
  "ends Eps pl = [pl]"
| "ends (Cls p) pl = (case snd pl of [] \<Rightarrow> []
     | c # s \<Rightarrow> if p c then [(word_char c, drop (rune_len (c # s)) (c # s))] else [])"
| "ends (Rune w) pl = (if HasPrefix (snd pl) w then [(False, drop (length w) (snd pl))] else [])"
| "ends Bnd pl = (if boundary pl then [pl] else [])"
| "ends (Sq a b) pl = remdups (concat (map (ends b) (ends a pl)))"
| "ends (Alt a b) pl = ends a pl @ ends b pl"
| "ends (Upto n a) pl = remdups (iterate n (ends a) [pl])"
| "ends (Star a) pl = remdups (iterate (length (snd pl)) (ends a) [pl])"

function matches_from :: "rx \<Rightarrow> rx_place \<Rightarrow> bool" where
  "matches_from r pl =
     (if ends r pl \<noteq> [] then True
      else case snd pl of [] \<Rightarrow> False
         | c # s \<Rightarrow> matches_from r (word_char c, drop (rune_len (c # s)) (c # s)))"
  by pat_completeness auto
termination
proof (relation "measure (\<lambda>(r, pl). length (snd pl))")
  fix r :: rx and pl :: rx_place and c s
  assume "snd pl = c # s"
  then show "((r, word_char c, drop (rune_len (c # s)) (c # s)), r, pl) \<in> measure (\<lambda>(r, pl). length (snd pl))"
    using rune_len_pos [of c s] by simp
qed simp

declare matches_from.simps [simp del]

definition MatchString :: "rx \<Rightarrow> string \<Rightarrow> bool" where
  "MatchString r s = matches_from r (False, s)"

subsection \<open>Expressions\<close>

definition Lit :: "string \<Rightarrow> rx" where
  "Lit s = foldr (\<lambda>c r. Sq (Cls (\<lambda>d. d = c)) r) s Eps"

definition one_of :: "rx list \<Rightarrow> rx" where
  "one_of rs = foldr Alt rs (Cls (\<lambda>d. False))"

definition seq_of :: "rx list \<Rightarrow> rx" where
  "seq_of rs = foldr Sq rs Eps"

definition Plus :: "rx \<Rightarrow> rx" where
  "Plus r = Sq r (Star r)"

end
