(* ===== verification/Semantic.thy ===== *)
theory Semantic
  imports Go_Regexp Bot_Defense
begin

text \<open>
  Semantic scoring: \<open>semantic_store.go\<close>, \<open>semantic_temporal.go\<close> and \<open>semantic_rules.go\<close>.  A request is
  scored by patterns over its parts and by what its client did in the last seconds; the score
  against the thresholds of the document gives the action.  Instants are never the zero time.
  A body that fails while it is read delivers nothing before it fails.
\<close>

subsection \<open>The document\<close>

record semanticConfig =
  sc_Enabled :: bool
  sc_Mode :: string
  sc_ExemptPathPrefixes :: "string list"
  sc_LogThreshold :: int
  sc_ChallengeThreshold :: int
  sc_BlockThreshold :: int
  sc_MaxInspectBody :: int
  sc_TemporalWindowSeconds :: int
  sc_TemporalMaxEntriesPerIP :: int
  sc_TemporalBurstThreshold :: int
  sc_TemporalBurstScore :: int
  sc_TemporalPathFanoutThreshold :: int
  sc_TemporalPathFanoutScore :: int
  sc_TemporalUAChurnThreshold :: int
  sc_TemporalUAChurnScore :: int

definition normalizeSemanticPathPrefixes :: "string list \<Rightarrow> string list" where
  "normalizeSemanticPathPrefixes xs = dedup (map rooted (filter (\<lambda>v. v \<noteq> []) (map TrimSpace xs)))"

definition positive_or :: "int \<Rightarrow> int \<Rightarrow> int" where
  "positive_or d v = (if v \<le> 0 then d else v)"

definition semantic_defaults :: "semanticConfig \<Rightarrow> semanticConfig" where
  "semantic_defaults c = c\<lparr>
     sc_Mode := (let m = ToLower (TrimSpace (sc_Mode c)) in if m = [] then ''off'' else m),
     sc_ExemptPathPrefixes := normalizeSemanticPathPrefixes (sc_ExemptPathPrefixes c),
     sc_LogThreshold := positive_or 4 (sc_LogThreshold c),
     sc_ChallengeThreshold := positive_or 7 (sc_ChallengeThreshold c),
     sc_BlockThreshold := positive_or 9 (sc_BlockThreshold c),
     sc_MaxInspectBody := positive_or 16384 (sc_MaxInspectBody c),
     sc_TemporalWindowSeconds := positive_or 10 (sc_TemporalWindowSeconds c),
     sc_TemporalMaxEntriesPerIP := positive_or 128 (sc_TemporalMaxEntriesPerIP c),
     sc_TemporalBurstThreshold := positive_or 20 (sc_TemporalBurstThreshold c),
     sc_TemporalBurstScore := positive_or 2 (sc_TemporalBurstScore c),
     sc_TemporalPathFanoutThreshold := positive_or 8 (sc_TemporalPathFanoutThreshold c),
     sc_TemporalPathFanoutScore := positive_or 2 (sc_TemporalPathFanoutScore c),
     sc_TemporalUAChurnThreshold := positive_or 4 (sc_TemporalUAChurnThreshold c),
     sc_TemporalUAChurnScore := positive_or 1 (sc_TemporalUAChurnScore c)\<rparr>"

definition semantic_checks :: "semanticConfig \<Rightarrow> unit result" where
  "semantic_checks c =
     seqR (guardR (sc_Mode c \<notin> set [''off'', ''log_only'', ''challenge'', ''block'']) (Errorf ''mode must be off|log_only|challenge|block'' []))
    (seqR (guardR (sc_LogThreshold c \<le> 0) (Errorf ''log_threshold must be > 0'' []))
    (seqR (guardR (sc_ChallengeThreshold c < sc_LogThreshold c) (Errorf ''challenge_threshold must be >= log_threshold'' []))
    (seqR (guardR (sc_BlockThreshold c < sc_ChallengeThreshold c) (Errorf ''block_threshold must be >= challenge_threshold'' []))
    (seqR (guardR (sc_MaxInspectBody c \<le> 0 \<or> 1024 * 1024 < sc_MaxInspectBody c) (Errorf ''max_inspect_body must be between 1 and 1048576'' []))
    (seqR (guardR (sc_TemporalWindowSeconds c \<le> 0 \<or> 600 < sc_TemporalWindowSeconds c) (Errorf ''temporal_window_seconds must be between 1 and 600'' []))
    (seqR (guardR (sc_TemporalMaxEntriesPerIP c \<le> 0 \<or> 4096 < sc_TemporalMaxEntriesPerIP c)
             (Errorf ''temporal_max_entries_per_ip must be between 1 and 4096'' []))
    (seqR (guardR (sc_TemporalBurstThreshold c \<le> 0) (Errorf ''temporal_burst_threshold must be > 0'' []))
    (seqR (guardR (sc_TemporalBurstScore c \<le> 0) (Errorf ''temporal_burst_score must be > 0'' []))
    (seqR (guardR (sc_TemporalPathFanoutThreshold c \<le> 0) (Errorf ''temporal_path_fanout_threshold must be > 0'' []))
    (seqR (guardR (sc_TemporalPathFanoutScore c \<le> 0) (Errorf ''temporal_path_fanout_score must be > 0'' []))
    (seqR (guardR (sc_TemporalUAChurnThreshold c \<le> 0) (Errorf ''temporal_ua_churn_threshold must be > 0'' []))
          (guardR (sc_TemporalUAChurnScore c \<le> 0) (Errorf ''temporal_ua_churn_score must be > 0'' [])))))))))))))"

definition normalizeSemanticConfig :: "semanticConfig \<Rightarrow> semanticConfig result" where
  "normalizeSemanticConfig c0 =
     (let c = semantic_defaults c0 in
      if \<not> sc_Enabled c then Inr (c\<lparr>sc_Mode := ''off''\<rparr>)
      else bindR (semantic_checks c) (\<lambda>_. Inr c))"

subsection \<open>What a client did lately\<close>

record semanticSignal =
  sg_Reason :: string
  sg_Score :: int

record temporalObservation =
  ob_at :: int
  ob_path :: string
  ob_ua :: string

record temporalRiskStore =
  ts_window :: int
  ts_maxEntriesPerIP :: int
  ts_byIP :: "(string \<times> temporalObservation list) list"

record temporalRiskSnapshot =
  sn_RequestCount :: int
  sn_DistinctPaths :: int
  sn_DistinctUserAgents :: int

definition newTemporalRiskStore :: "semanticConfig \<Rightarrow> temporalRiskStore" where
  "newTemporalRiskStore c =
     \<lparr>ts_window = i64 (positive_or 10 (sc_TemporalWindowSeconds c) * 1000000000),
      ts_maxEntriesPerIP = positive_or 128 (sc_TemporalMaxEntriesPerIP c), ts_byIP = []\<rparr>"

definition normalizeTemporalPath :: "string \<Rightarrow> string" where
  "normalizeTemporalPath p = (let v = TrimSpace p in if v = [] then ''/'' else if 256 < length v then take 256 v else v)"

definition normalizeTemporalUserAgent :: "string \<Rightarrow> string" where
  "normalizeTemporalUserAgent ua = (let v = ToLower (TrimSpace ua) in if 192 < length v then take 192 v else v)"

definition last_entries :: "int \<Rightarrow> 'a list \<Rightarrow> 'a list" where
  \<comment> \<open>\<open>kept[len(kept)-max:]\<close> when there are more\<close>
  "last_entries mx xs = (if 0 < mx \<and> mx < int (length xs) then drop (length xs - nat mx) xs else xs)"

definition keep_recent :: "int \<Rightarrow> int \<Rightarrow> temporalObservation list \<Rightarrow> temporalObservation \<Rightarrow> temporalObservation list" where
  \<comment> \<open>the cutoff, the bound, the observations so far, the new one\<close>
  "keep_recent cutoff mx existing ob = last_entries mx (filter (\<lambda>x. \<not> ob_at x < cutoff) existing @ [ob])"

definition snapshot_of :: "temporalObservation list \<Rightarrow> temporalRiskSnapshot" where
  "snapshot_of kept =
     \<lparr>sn_RequestCount = int (length kept), sn_DistinctPaths = int (card (set (map ob_path kept))),
      sn_DistinctUserAgents = int (card (set (filter (\<lambda>u. u \<noteq> []) (map ob_ua kept))))\<rparr>"

definition Observe :: "string \<Rightarrow> string \<Rightarrow> string \<Rightarrow> int \<Rightarrow> temporalRiskStore \<Rightarrow> temporalRiskSnapshot \<times> temporalRiskStore" where
  "Observe ipStr path ua now s =
     (let ip = TrimSpace ipStr in
      if ip = [] then (\<lparr>sn_RequestCount = 0, sn_DistinctPaths = 0, sn_DistinctUserAgents = 0\<rparr>, s)
      else let existing = (case map_of (ts_byIP s) ip of None \<Rightarrow> [] | Some obs \<Rightarrow> obs);
               kept = keep_recent (now - ts_window s) (ts_maxEntriesPerIP s) existing
                        \<lparr>ob_at = now, ob_path = normalizeTemporalPath path, ob_ua = normalizeTemporalUserAgent ua\<rparr>
           in (snapshot_of kept, s\<lparr>ts_byIP := aput ip kept (ts_byIP s)\<rparr>))"

subsection \<open>Signals\<close>

type_synonym scoring = "int \<times> semanticSignal list"   \<comment> \<open>\<open>score\<close> and \<open>signals\<close>\<close>

definition appendSemanticSignal :: "string \<Rightarrow> int \<Rightarrow> scoring \<Rightarrow> scoring" where
  "appendSemanticSignal reason delta sc =
     (if list_ex (\<lambda>x. sg_Reason x = reason) (snd sc) then sc
      else (i64 (fst sc + delta), snd sc @ [\<lparr>sg_Reason = reason, sg_Score = delta\<rparr>]))"

definition signal_if :: "bool \<Rightarrow> string \<Rightarrow> int \<Rightarrow> scoring \<Rightarrow> scoring" where
  "signal_if b reason delta sc = (if b then appendSemanticSignal reason delta sc else sc)"

definition gap_class :: rx where "gap_class = Cls (\<lambda>c. space_char c \<or> \<not> word_char c)"   \<comment> \<open>\<open>[\s\W]\<close>\<close>
definition spaces :: rx where "spaces = Star (Cls space_char)"                             \<comment> \<open>\<open>\s*\<close>\<close>
definition operand :: rx where                                                              \<comment> \<open>\<open>[\w'"]+\<close>\<close>
  "operand = Plus (Cls (\<lambda>c. word_char c \<or> ord c = 39 \<or> ord c = 34))"

definition semanticPatternUnionSelect :: rx where
  "semanticPatternUnionSelect = seq_of [Bnd, Lit ''union'', Bnd, Upto 48 gap_class, Bnd, Lit ''select'', Bnd]"

definition semanticPatternBooleanSQL :: rx where
  "semanticPatternBooleanSQL = seq_of [Bnd, one_of [Lit ''or'', Lit ''and''], Bnd, Upto 24 gap_class,
     one_of [Lit ''1=1'', Lit ''true'', Lit ''false'', seq_of [operand, spaces, Lit ''='', spaces, operand]]]"

definition semanticPatternSQLMeta :: rx where
  "semanticPatternSQLMeta = one_of [seq_of [Bnd, Lit ''information_schema'', Bnd], seq_of [Bnd, Lit ''xp_cmdshell'', Bnd],
     seq_of [Bnd, Lit ''load_file'', spaces, Lit ''('']]"

definition semanticPatternPathTrav :: rx where
  "semanticPatternPathTrav = one_of [Lit ''../'', Lit [CHR ''.'', CHR ''.'', CHR 0x5C]]"

definition semanticPatternXSS :: rx where
  "semanticPatternXSS = one_of [seq_of [Lit ''<'', spaces, Lit ''script''], Lit ''javascript:'',
     seq_of [Lit ''onerror'', spaces, Lit ''=''], seq_of [Lit ''onload'', spaces, Lit ''=''],
     seq_of [Lit ''<'', spaces, Lit ''img'', Plus (Cls (\<lambda>c. c \<noteq> CHR ''>'')), Lit ''onerror'']]"

definition semanticPatternCmd :: rx where
  "semanticPatternCmd = seq_of [one_of [Lit '';'', Lit ''||'', Lit ''&&''], spaces,
     one_of [Lit ''/bin/sh'', Lit ''cmd.exe'', Lit ''powershell'', Lit ''wget'', Lit ''curl'', Lit ''bash'', Lit ''sh'']]"

definition semanticPatternCommentObf :: rx where
  "semanticPatternCommentObf = seq_of [Lit ''/*'', Star (Cls (\<lambda>c. c \<noteq> newline)), Lit ''*/'']"

fun squeeze_spaces :: "string \<Rightarrow> string" where
  \<comment> \<open>\<open>semanticPatternWhitespace.ReplaceAllString(v, " ")\<close>\<close>
  "squeeze_spaces [] = []"
| "squeeze_spaces (c # s) =
     (if space_char c then (case s of [] \<Rightarrow> '' '' | d # t \<Rightarrow> if space_char d then squeeze_spaces s else CHR '' '' # squeeze_spaces s)
      else c # squeeze_spaces s)"

fun decode_twice :: "nat \<Rightarrow> string \<Rightarrow> string" where
  \<comment> \<open>so many rounds of \<open>url.QueryUnescape\<close>, until one fails or changes nothing\<close>
  "decode_twice 0 v = v"
| "decode_twice (Suc n) v =
     (case unescape v encodeQueryComponent of
        Inl e \<Rightarrow> v
      | Inr d \<Rightarrow> if d = v then v else decode_twice n d)"

definition normalizeSemanticInput :: "string \<Rightarrow> string" where
  "normalizeSemanticInput raw =
     (let v = TrimSpace raw in
      if v = [] then []
      else TrimSpace (squeeze_spaces (map (\<lambda>c. if c = CHR ''+'' then CHR '' '' else c)
             (filter (\<lambda>c. c \<noteq> CHR 0x00) (ToLower (decode_twice 2 v))))))"

function Count :: "string \<Rightarrow> string \<Rightarrow> nat" where
  \<comment> \<open>\<open>strings.Count\<close> of a text that is not empty\<close>
  "Count s x =
     (case Index s x of None \<Rightarrow> 0
      | Some i \<Rightarrow> if x = [] then 0 else Suc (Count (drop (i + length x) s) x))"
  by pat_completeness auto
termination
proof (relation "measure (\<lambda>(s, x). length s)")
  fix s x i
  assume "Index s x = Some i" "x \<noteq> []"
  then show "((drop (i + length x) s, x), s, x) \<in> measure (\<lambda>(s, x). length s)"
    by (cases s; cases x) simp_all
qed simp

declare Count.simps [simp del]

definition inspectSemanticText :: "string \<Rightarrow> string \<Rightarrow> scoring \<Rightarrow> scoring" where
  "inspectSemanticText scope raw sc =
     (let norm = normalizeSemanticInput raw in
      if norm = [] then sc
      else signal_if (MatchString semanticPatternCmd norm) (scope @ '':command_chain'') 3
          (signal_if (MatchString semanticPatternXSS norm) (scope @ '':xss_pattern'') 3
          (signal_if (MatchString semanticPatternPathTrav norm) (scope @ '':path_traversal'') 3
          (signal_if (MatchString semanticPatternSQLMeta norm) (scope @ '':sql_meta_keyword'') 3
          (signal_if (MatchString semanticPatternBooleanSQL norm) (scope @ '':sql_boolean_chain'') 2
          (signal_if (MatchString semanticPatternUnionSelect norm) (scope @ '':sql_union_select'') 4
          (signal_if (MatchString semanticPatternCommentObf norm) (scope @ '':comment_obfuscation'') 2
          (signal_if (8 \<le> Count norm ''%'' \<or> 2 \<le> Count norm [CHR 0x5C, CHR ''x'']) (scope @ '':high_encoding_density'') 1
          (signal_if (1024 < length norm) (scope @ '':long_payload'') 1 sc)))))))))"

definition inspectSemanticTemporalRisk ::
  "semanticConfig \<Rightarrow> string \<Rightarrow> string \<Rightarrow> string \<Rightarrow> int \<Rightarrow> temporalRiskStore \<Rightarrow> scoring \<Rightarrow> scoring \<times> temporalRiskStore" where
  "inspectSemanticTemporalRisk c clientIP path ua now st sc =
     (case Observe clientIP path ua now st of (snap, st') \<Rightarrow>
       (signal_if (sc_TemporalUAChurnThreshold c \<le> sn_DistinctUserAgents snap) ''temporal:ip_ua_churn'' (sc_TemporalUAChurnScore c)
         (signal_if (sc_TemporalPathFanoutThreshold c \<le> sn_DistinctPaths snap) ''temporal:ip_path_fanout'' (sc_TemporalPathFanoutScore c)
           (signal_if (sc_TemporalBurstThreshold c \<le> sn_RequestCount snap) ''temporal:ip_burst'' (sc_TemporalBurstScore c) sc)), st'))"

subsection \<open>The running state\<close>

record semanticStats =
  ss_InspectedRequests :: nat
  ss_ScoredRequests :: nat
  ss_LogOnlyActions :: nat
  ss_ChallengeActions :: nat
  ss_BlockActions :: nat

record semanticEvaluation =
  ev_Score :: int
  ev_Reasons :: "string list"
  ev_Signals :: "semanticSignal list"
  ev_Action :: string

record runtimeSemanticConfig =
  sr_Raw :: semanticConfig
  sr_temporal :: temporalRiskStore
  sr_challengeCookieName :: string
  sr_challengeSecret :: string
  sr_challengeTTL :: int
  sr_challengeStatusCode :: int
  sr_stats :: semanticStats

definition no_stats :: semanticStats where
  "no_stats = \<lparr>ss_InspectedRequests = 0, ss_ScoredRequests = 0, ss_LogOnlyActions = 0, ss_ChallengeActions = 0,
     ss_BlockActions = 0\<rparr>"

definition buildSemanticRuntimeFromRaw ::
  "(string \<Rightarrow> semanticConfig result) \<Rightarrow> string option \<Rightarrow> string \<Rightarrow> runtimeSemanticConfig result" where
  "buildSemanticRuntimeFromRaw decode rnd raw =
     bindR (decode raw) (\<lambda>cfg. bindR (normalizeSemanticConfig cfg) (\<lambda>norm.
       Inr \<lparr>sr_Raw = norm, sr_temporal = newTemporalRiskStore norm, sr_challengeCookieName = ''__mamotama_semantic_ok'',
            sr_challengeSecret = (case rnd of Some bs \<Rightarrow> bs | None \<Rightarrow> ''mamotama-semantic-ephemeral''),
            sr_challengeTTL = 12 * 3600 * 1000000000, sr_challengeStatusCode = 429, sr_stats = no_stats\<rparr>))"

definition ValidateSemanticRaw :: "(string \<Rightarrow> semanticConfig result) \<Rightarrow> string option \<Rightarrow> string \<Rightarrow> runtimeSemanticConfig result" where
  "ValidateSemanticRaw decode rnd raw = buildSemanticRuntimeFromRaw decode rnd raw"

definition observe_stats :: "semanticEvaluation \<Rightarrow> semanticStats \<Rightarrow> semanticStats" where
  "observe_stats ev x =
     (let x1 = x\<lparr>ss_InspectedRequests := ss_InspectedRequests x + 1\<rparr>;
          x2 = (if 0 < ev_Score ev then x1\<lparr>ss_ScoredRequests := ss_ScoredRequests x1 + 1\<rparr> else x1)
      in if ev_Action ev = ''log_only'' then x2\<lparr>ss_LogOnlyActions := ss_LogOnlyActions x2 + 1\<rparr>
         else if ev_Action ev = ''challenge'' then x2\<lparr>ss_ChallengeActions := ss_ChallengeActions x2 + 1\<rparr>
         else if ev_Action ev = ''block'' then x2\<lparr>ss_BlockActions := ss_BlockActions x2 + 1\<rparr>
         else x2)"

definition observe :: "semanticEvaluation \<Rightarrow> runtimeSemanticConfig \<Rightarrow> runtimeSemanticConfig" where
  "observe ev rt = rt\<lparr>sr_stats := observe_stats ev (sr_stats rt)\<rparr>"

subsection \<open>Evaluation\<close>

definition no_action :: semanticEvaluation where
  "no_action = \<lparr>ev_Score = 0, ev_Reasons = [], ev_Signals = [], ev_Action = ''none''\<rparr>"

definition semanticReasons :: "semanticSignal list \<Rightarrow> string list" where
  "semanticReasons sgs = map sg_Reason sgs"

definition body_chunk :: "int \<Rightarrow> request_body \<Rightarrow> string" where
  \<comment> \<open>at most so many bytes from the front\<close>
  "body_chunk mx b =
     (case b of Stream (Inr s) \<Rightarrow> take (nat mx) s | Replayable s \<Rightarrow> take (nat mx) s | _ \<Rightarrow> [])"

definition refill :: "int \<Rightarrow> request_body \<Rightarrow> request_body" where
  \<comment> \<open>\<open>r.Body\<close> after the bytes read from it were put back in front of the rest\<close>
  "refill mx b =
     (case b of
        Stream (Inr s) \<Rightarrow> Stream (Inr (take (nat (mx + 1)) s @ drop (nat (mx + 1)) s))
      | Replayable s \<Rightarrow> Replayable (take (nat (mx + 1)) s @ drop (nat (mx + 1)) s)
      | _ \<Rightarrow> b)"

definition inspects_body :: "semanticConfig \<Rightarrow> Request \<Rightarrow> bool" where
  "inspects_body c r = (0 < sc_MaxInspectBody c \<and> rq_Method r \<noteq> ''GET'' \<and> rq_Method r \<noteq> ''HEAD'')"

definition Referer :: "Request \<Rightarrow> string" where
  "Referer r = Header_Get (rq_Header r) ''Referer''"

definition inspect_parts :: "semanticConfig \<Rightarrow> Request \<Rightarrow> scoring" where
  "inspect_parts c r =
     (let sc = inspectSemanticText ''referer'' (Referer r)
          (inspectSemanticText ''user_agent'' (UserAgent r)
          (inspectSemanticText ''query'' (url_RawQuery (rq_URL r))
          (inspectSemanticText ''path'' (url_Path (rq_URL r)) (0, [])))) ;
          chunk = body_chunk (sc_MaxInspectBody c) (rq_Body r)
      in if inspects_body c r \<and> chunk \<noteq> [] then inspectSemanticText ''body'' chunk sc else sc)"

definition semantic_action :: "semanticConfig \<Rightarrow> int \<Rightarrow> string" where
  "semantic_action c score =
     (if sc_LogThreshold c \<le> score then
        (if sc_Mode c = ''challenge'' \<and> sc_ChallengeThreshold c \<le> score then ''challenge''
         else if sc_Mode c = ''block'' \<and> sc_BlockThreshold c \<le> score then ''block''
         else ''log_only'')
      else ''none'')"

definition exempt_path :: "semanticConfig \<Rightarrow> string \<Rightarrow> bool" where
  "exempt_path c p = list_ex (\<lambda>pfx. pfx = ''/'' \<or> HasPrefix (TrimSpace p) pfx) (sc_ExemptPathPrefixes c)"

definition EvaluateSemanticWithContext ::
  "runtimeSemanticConfig option \<Rightarrow> Request option \<Rightarrow> string \<Rightarrow> int
     \<Rightarrow> semanticEvaluation \<times> runtimeSemanticConfig option \<times> Request option" where
  "EvaluateSemanticWithContext rt0 r0 clientIP now =
     (case (rt0, r0) of
        (Some rt, Some r) \<Rightarrow>
          (let c = sr_Raw rt in
           if \<not> sc_Enabled c \<or> sc_Mode c = ''off'' then (no_action, rt0, r0)
           else if exempt_path c (url_Path (rq_URL r)) then (no_action, Some (observe no_action rt), r0)
           else
             (let r' = (if inspects_body c r then r\<lparr>rq_Body := refill (sc_MaxInspectBody c) (rq_Body r)\<rparr> else r) in
              case inspectSemanticTemporalRisk c clientIP (url_Path (rq_URL r)) (UserAgent r) now (sr_temporal rt) (inspect_parts c r) of
                ((score, signals), st) \<Rightarrow>
                  let ev = \<lparr>ev_Score = score, ev_Reasons = semanticReasons signals, ev_Signals = signals,
                            ev_Action = semantic_action c score\<rparr>
                  in (ev, Some (observe ev (rt\<lparr>sr_temporal := st\<rparr>)), Some r')))
      | _ \<Rightarrow> (no_action, rt0, r0))"

definition EvaluateSemantic ::
  "int \<Rightarrow> runtimeSemanticConfig option \<Rightarrow> Request option \<Rightarrow> semanticEvaluation \<times> runtimeSemanticConfig option \<times> Request option" where
  "EvaluateSemantic now rt r = EvaluateSemanticWithContext rt r [] now"

subsection \<open>The challenge\<close>

definition signSemanticChallenge :: "runtimeSemanticConfig \<Rightarrow> string \<Rightarrow> string \<Rightarrow> string \<Rightarrow> string" where
  "signSemanticChallenge rt ip ua payload =
     hex_encode (sha256 (challenge_text ip ua payload @ [newline] @ sr_challengeSecret rt))"

definition issueSemanticChallengeToken :: "runtimeSemanticConfig \<Rightarrow> string \<Rightarrow> string \<Rightarrow> int \<Rightarrow> string" where
  "issueSemanticChallengeToken rt ip ua now = issue_token (signSemanticChallenge rt ip ua) (sr_challengeTTL rt) now"

definition verifySemanticChallengeToken :: "runtimeSemanticConfig \<Rightarrow> string \<Rightarrow> string \<Rightarrow> string \<Rightarrow> int \<Rightarrow> bool" where
  "verifySemanticChallengeToken rt token ip ua now = verify_token (signSemanticChallenge rt ip ua) token now"

definition HasValidSemanticChallengeCookie :: "runtimeSemanticConfig option \<Rightarrow> Request \<Rightarrow> string \<Rightarrow> int \<Rightarrow> bool" where
  "HasValidSemanticChallengeCookie rt0 r clientIP now =
     (case rt0 of None \<Rightarrow> True
      | Some rt \<Rightarrow>
          if \<not> sc_Enabled (sr_Raw rt) \<or> sc_Mode (sr_Raw rt) \<noteq> ''challenge'' then True
          else case Request_Cookie r (sr_challengeCookieName rt) of
            None \<Rightarrow> False
          | Some v \<Rightarrow> verifySemanticChallengeToken rt v clientIP (UserAgent r) now)"

definition WriteSemanticChallenge :: "runtimeSemanticConfig option \<Rightarrow> http_header \<Rightarrow> Request \<Rightarrow> string \<Rightarrow> int \<Rightarrow> handler_reply" where
  "WriteSemanticChallenge rt0 h r clientIP now =
     (case rt0 of
        None \<Rightarrow> \<lparr>hr_Status = 429, hr_Header = h, hr_Body = []\<rparr>
      | Some rt \<Rightarrow>
          challenge_reply h ''X-Mamotama-Semantic-Challenge'' r (sr_challengeStatusCode rt)
            (challenge_page ''Semantic Challenge'' ''Verifying request safety...''
               (issueSemanticChallengeToken rt clientIP (UserAgent r) now) (sr_challengeCookieName rt)
               (max 1 (quot (sr_challengeTTL rt) 1000000000)))
            (quoted ''{`error`:`semantic challenge required`}''))"

interpretation semantic_token:
  challenge_signer "signSemanticChallenge rt" "\<lambda>m. sha256 (m @ [newline] @ sr_challengeSecret rt)" for rt
  by unfold_locales (simp_all add: signSemanticChallenge_def sha256_bytes)

subsection \<open>File and handlers\<close>

definition semantic_default_raw :: string where
  "semantic_default_raw = concat (map (\<lambda>l. quoted l @ [newline])
     [''{'', ''  `enabled`: true,'', ''  `mode`: `log_only`,'', ''  `exempt_path_prefixes`: ['', ''    `/mamotama-api`,'',
      ''    `/mamotama-ui`,'', ''    `/health`,'', ''    `/healthz`,'', ''    `/metrics`,'', ''    `/favicon.ico`,'',
      ''    `/_next/`,'', ''    `/assets/`,'', ''    `/static/`'', ''  ],'', ''  `log_threshold`: 7,'',
      ''  `challenge_threshold`: 10,'', ''  `block_threshold`: 13,'', ''  `max_inspect_body`: 8192,'',
      ''  `temporal_window_seconds`: 10,'', ''  `temporal_max_entries_per_ip`: 128,'', ''  `temporal_burst_threshold`: 20,'',
      ''  `temporal_burst_score`: 2,'', ''  `temporal_path_fanout_threshold`: 8,'', ''  `temporal_path_fanout_score`: 2,'',
      ''  `temporal_ua_churn_threshold`: 4,'', ''  `temporal_ua_churn_score`: 1'', ''}''])"

definition ensureSemanticFile :: "storage \<Rightarrow> unit result \<times> storage" where
  "ensureSemanticFile st = ensure_file semantic_default_raw st"

definition load_semantic :: "(string \<Rightarrow> semanticConfig result) \<Rightarrow> string option \<Rightarrow> string \<Rightarrow> runtimeSemanticConfig option result" where
  "load_semantic decode rnd raw = bindR (buildSemanticRuntimeFromRaw decode rnd raw) (\<lambda>rt. Inr (Some rt))"

definition ReloadSemantic ::
  "(string \<Rightarrow> semanticConfig result) \<Rightarrow> string option \<Rightarrow> runtimeSemanticConfig option rules_state
     \<Rightarrow> unit result \<times> runtimeSemanticConfig option rules_state" where
  "ReloadSemantic decode rnd s = reload_rules (load_semantic decode rnd) s"

definition InitSemantic ::
  "(string \<Rightarrow> semanticConfig result) \<Rightarrow> string option \<Rightarrow> string \<Rightarrow> runtimeSemanticConfig option rules_state
     \<Rightarrow> unit result \<times> runtimeSemanticConfig option rules_state" where
  "InitSemantic decode rnd path s =
     (let target = TrimSpace path in
      if target = [] then (err ''semantic path is empty'' [], s)
      else case ensureSemanticFile (ru_storage s) of
        (Inl e, st) \<Rightarrow> (Inl e, s\<lparr>ru_storage := st\<rparr>)
      | (Inr _, st) \<Rightarrow> ReloadSemantic decode rnd (s\<lparr>ru_path := target, ru_storage := st\<rparr>))"

definition GetSemanticConfig :: "runtimeSemanticConfig option \<Rightarrow> semanticConfig option" where
  \<comment> \<open>\<open>None\<close> is the empty configuration\<close>
  "GetSemanticConfig rt = map_option sr_Raw rt"

definition GetSemanticStats :: "runtimeSemanticConfig option \<Rightarrow> semanticStats" where
  "GetSemanticStats rt = (case rt of None \<Rightarrow> no_stats | Some x \<Rightarrow> sr_stats x)"

definition GetSemanticRules ::
  "(string \<Rightarrow> semanticConfig result) \<Rightarrow> string option \<Rightarrow> runtimeSemanticConfig option rules_state
     \<Rightarrow> (runtimeSemanticConfig rules_reply \<times> semanticStats) \<times> runtimeSemanticConfig option rules_state" where
  "GetSemanticRules decode rnd s =
     (case get_rules (ValidateSemanticRaw decode rnd) s of (reply, s') \<Rightarrow> ((reply, GetSemanticStats (ru_runtime s)), s'))"

definition ValidateSemanticRules ::
  "(string \<Rightarrow> semanticConfig result) \<Rightarrow> string option \<Rightarrow> string result \<Rightarrow> runtimeSemanticConfig rules_reply" where
  "ValidateSemanticRules decode rnd body = validate_rules (ValidateSemanticRaw decode rnd) body"

definition PutSemanticRules ::
  "(string \<Rightarrow> semanticConfig result) \<Rightarrow> string option \<Rightarrow> string \<Rightarrow> string result \<Rightarrow> runtimeSemanticConfig option rules_state
     \<Rightarrow> runtimeSemanticConfig rules_reply \<times> runtimeSemanticConfig option rules_state" where
  "PutSemanticRules decode rnd ifMatch body s =
     put_rules (ValidateSemanticRaw decode rnd) (load_semantic decode rnd) ifMatch body s"

definition SyncSemanticStorage ::
  "(string \<Rightarrow> semanticConfig result) \<Rightarrow> string option \<Rightarrow> runtimeSemanticConfig option rules_state
     \<Rightarrow> unit result \<times> runtimeSemanticConfig option rules_state" where
  "SyncSemanticStorage decode rnd s =
     sync_blob_file (\<lambda>raw. bindR (ValidateSemanticRaw decode rnd raw) (\<lambda>_. Inr ())) (Some (load_semantic decode rnd)) False True s"

end
