(* ===== verification/Semantic_Correct.thy ===== *)
theory Semantic_Correct
  imports Semantic
begin

text \<open>
  What semantic scoring decides: the verdict as a function of the signals, with the bounds that keep
  the score from wrapping around, and the temporal store as a sliding window over everything a
  client ever did.
\<close>

subsection \<open>Scores\<close>

definition scored :: "int \<Rightarrow> scoring \<Rightarrow> bool" where
  \<comment> \<open>the score is the sum of the signals, at most the bound, and no reason occurs twice\<close>
  "scored m sc = (fst sc = sum_list (map sg_Score (snd sc)) \<and> distinct (map sg_Reason (snd sc))
     \<and> (\<forall>x\<in>set (snd sc). 0 < sg_Score x) \<and> fst sc \<le> m)"

named_theorems scored_intros \<open>how far the parts of a request raise the score\<close>

lemma scored_nonneg: "scored m sc \<Longrightarrow> 0 \<le> fst sc"
proof -
  assume s: "scored m sc"
  have "0 \<le> sum_list (map sg_Score (snd sc))"
    using s by (intro sum_list_nonneg) (auto simp: scored_def intro: less_imp_le)
  with s show ?thesis by (simp add: scored_def)
qed

lemma scored_mono: "scored m sc \<Longrightarrow> m \<le> m' \<Longrightarrow> scored m' sc"
  by (auto simp: scored_def)

lemma scored_signal [scored_intros]:
  assumes "scored m sc" "0 < delta" "m + delta < 2 ^ 63"
  shows "scored (m + delta) (signal_if b reason delta sc)"
proof -
  have "i64 (fst sc + delta) = fst sc + delta"
    using assms scored_nonneg [OF assms(1)] by (intro i64_id) (auto simp: scored_def)
  with assms show ?thesis
    by (auto simp: scored_def signal_if_def appendSemanticSignal_def list_ex_iff)
qed

lemma scored_start: "scored 0 (0, [])"
  by (simp add: scored_def)

lemma scored_text [scored_intros]:
  assumes "scored m sc" "m + 22 < 2 ^ 63"
  shows "scored (m + 22) (inspectSemanticText scope raw sc)"
proof (cases "normalizeSemanticInput raw = []")
  case True
  with assms show ?thesis by (simp add: inspectSemanticText_def scored_mono)
next
  case False
  note s = scored_signal
  have eq: "m + 22 = m + 1 + 1 + 2 + 4 + 2 + 3 + 3 + 3 + 3" by simp
  show ?thesis
    unfolding inspectSemanticText_def Let_def if_not_P [OF False] eq
    by (intro s assms(1)) (use assms(2) in simp_all)
qed

text \<open>The three temporal signals are meant to be small next to the range of a 64-bit integer.\<close>

definition small_scores :: "semanticConfig \<Rightarrow> bool" where
  "small_scores c = (sc_TemporalBurstScore c < 2 ^ 32 \<and> sc_TemporalPathFanoutScore c < 2 ^ 32 \<and> sc_TemporalUAChurnScore c < 2 ^ 32)"

lemma accepted_scores:
  assumes "normalizeSemanticConfig c0 = Inr c" "sc_Enabled c"
  shows "0 < sc_TemporalBurstScore c \<and> 0 < sc_TemporalPathFanoutScore c \<and> 0 < sc_TemporalUAChurnScore c
    \<and> 0 < sc_LogThreshold c \<and> sc_LogThreshold c \<le> sc_ChallengeThreshold c \<and> sc_ChallengeThreshold c \<le> sc_BlockThreshold c
    \<and> sc_Mode c \<in> {''off'', ''log_only'', ''challenge'', ''block''}
    \<and> 1 \<le> sc_TemporalMaxEntriesPerIP c \<and> sc_TemporalMaxEntriesPerIP c \<le> 4096
    \<and> 1 \<le> sc_TemporalWindowSeconds c \<and> sc_TemporalWindowSeconds c \<le> 600"
  using assms by (auto simp: normalizeSemanticConfig_def Let_def semantic_checks_def bindR_Inr not_le not_less split: if_splits)

lemma scored_parts: "scored 110 (inspect_parts c r)"
proof -
  note t = scored_text
  have "scored (0 + 22 + 22 + 22 + 22) (inspectSemanticText ''referer'' (Referer r) (inspectSemanticText ''user_agent'' (UserAgent r)
      (inspectSemanticText ''query'' (url_RawQuery (rq_URL r)) (inspectSemanticText ''path'' (url_Path (rq_URL r)) (0, [])))))"
    (is "scored _ ?sc") by (intro t scored_start) simp_all
  then have parts: "scored 88 ?sc" by simp
  from t [OF this] have "scored 110 (inspectSemanticText ''body'' chunk ?sc)" for chunk by simp
  with scored_mono [OF parts] show ?thesis by (simp add: inspect_parts_def Let_def)
qed

lemma scored_temporal:
  assumes "scored m sc" "0 < sc_TemporalBurstScore c" "0 < sc_TemporalPathFanoutScore c" "0 < sc_TemporalUAChurnScore c"
    "small_scores c" "m \<le> 2 ^ 32" "inspectSemanticTemporalRisk c ip path ua now st sc = (sc', st')"
  shows "scored (m + sc_TemporalBurstScore c + sc_TemporalPathFanoutScore c + sc_TemporalUAChurnScore c) sc'"
proof -
  obtain snap where "Observe ip path ua now st = (snap, st')" using assms(7)
    by (auto simp: inspectSemanticTemporalRisk_def split: prod.splits)
  with assms(7) have sc': "sc' = signal_if (sc_TemporalUAChurnThreshold c \<le> sn_DistinctUserAgents snap) ''temporal:ip_ua_churn'' (sc_TemporalUAChurnScore c)
         (signal_if (sc_TemporalPathFanoutThreshold c \<le> sn_DistinctPaths snap) ''temporal:ip_path_fanout'' (sc_TemporalPathFanoutScore c)
           (signal_if (sc_TemporalBurstThreshold c \<le> sn_RequestCount snap) ''temporal:ip_burst'' (sc_TemporalBurstScore c) sc))"
    by (simp add: inspectSemanticTemporalRisk_def)
  show ?thesis
    unfolding sc' by (intro scored_signal assms(1-4)) (use assms(5,6) in \<open>simp_all add: small_scores_def\<close>)
qed

subsection \<open>The verdict\<close>

lemma refill_id [simp]: "refill mx b = b"
  by (simp add: refill_def split: request_body.split sum.split)


subsection \<open>The sliding window\<close>

record observe_call =
  oc_IP :: string
  oc_Path :: string
  oc_UA :: string
  oc_Now :: int

definition observation :: "observe_call \<Rightarrow> temporalObservation" where
  "observation c = \<lparr>ob_at = oc_Now c, ob_path = normalizeTemporalPath (oc_Path c), ob_ua = normalizeTemporalUserAgent (oc_UA c)\<rparr>"

fun observe_calls :: "observe_call list \<Rightarrow> temporalRiskStore \<Rightarrow> temporalRiskSnapshot list \<times> temporalRiskStore" where
  "observe_calls [] s = ([], s)"
| "observe_calls (c # cs) s =
     (case Observe (oc_IP c) (oc_Path c) (oc_UA c) (oc_Now c) s of (sn, s1) \<Rightarrow>
      case observe_calls cs s1 of (sns, s2) \<Rightarrow> (sn # sns, s2))"

definition past_of :: "string \<Rightarrow> observe_call list \<Rightarrow> temporalObservation list" where
  \<comment> \<open>everything the client with this address did\<close>
  "past_of ip cs = map observation (filter (\<lambda>c. TrimSpace (oc_IP c) = ip) cs)"

definition in_window :: "int \<Rightarrow> int \<Rightarrow> int \<Rightarrow> temporalObservation list \<Rightarrow> temporalObservation list" where
  \<comment> \<open>window, bound, instant: the latest observations in the window, at most so many\<close>
  "in_window W mx now obs = last_entries mx (filter (\<lambda>x. now - W \<le> ob_at x) obs)"

definition window_spec :: "int \<Rightarrow> int \<Rightarrow> observe_call list \<Rightarrow> nat \<Rightarrow> temporalRiskSnapshot" where
  \<comment> \<open>what the call at this position should see: a function of all calls up to it\<close>
  "window_spec W mx cs i =
     (if TrimSpace (oc_IP (cs ! i)) = [] then \<lparr>sn_RequestCount = 0, sn_DistinctPaths = 0, sn_DistinctUserAgents = 0\<rparr>
      else snapshot_of (in_window W mx (oc_Now (cs ! i)) (past_of (TrimSpace (oc_IP (cs ! i))) (take (Suc i) cs))))"

lemma last_entries_drop: "0 < mx \<Longrightarrow> last_entries mx xs = drop (length xs - nat mx) xs"
  by (auto simp: last_entries_def)

lemma sorted_filter_ge:
  fixes c :: int
  assumes "sorted (map f xs)"
  shows "\<exists>k\<le>length xs. \<forall>n. filter (\<lambda>x. c \<le> f x) (drop n xs) = drop (max n k) xs"
  using assms
proof (induction xs)
  case (Cons a xs)
  then obtain k where k: "k \<le> length xs" "\<And>n. filter (\<lambda>x. c \<le> f x) (drop n xs) = drop (max n k) xs" by auto
  show ?case
  proof (cases "c \<le> f a")
    case True
    with Cons.prems have all: "\<And>x. x \<in> set (a # xs) \<Longrightarrow> c \<le> f x" by auto
    then have "filter (\<lambda>x. c \<le> f x) (drop n (a # xs)) = drop n (a # xs)" for n
      by (intro filter_True) (meson in_set_dropD)
    then show ?thesis by (intro exI [of _ 0]) simp
  next
    case False
    have "filter (\<lambda>x. c \<le> f x) (drop n (a # xs)) = drop (max n (Suc k)) (a # xs)" for n
      using k(2) [of "n - 1"] k(2) [of 0] False by (cases n) (simp_all add: max_def)
    with k(1) show ?thesis by (intro exI [of _ "Suc k"]) simp
  qed
qed simp

text \<open>Forgetting what left the window or the bound loses nothing later instants need.\<close>

lemma window_extend:
  assumes "sorted (map ob_at (h @ [ob]))" "t \<le> ob_at ob" "0 < mx" "0 \<le> W"
  shows "keep_recent (ob_at ob - W) mx (in_window W mx t h) ob = in_window W mx (ob_at ob) (h @ [ob])"
proof -
  let ?q = "\<lambda>x. ob_at ob - W \<le> ob_at x"
  from assms(1) have h: "sorted (map ob_at h)" by (simp add: sorted_append)
  from sorted_filter_ge [OF h, of "t - W"] obtain k where k: "k \<le> length h"
    "\<And>n. filter (\<lambda>x. t - W \<le> ob_at x) (drop n h) = drop (max n k) h" by blast
  from sorted_filter_ge [OF h, of "ob_at ob - W"] obtain l where l: "l \<le> length h"
    "\<And>n. filter ?q (drop n h) = drop (max n l) h" by blast
  have kl: "k \<le> l"
  proof -
    have "filter ?q h = filter ?q (filter (\<lambda>x. t - W \<le> ob_at x) h)"
      using assms(2) by (auto simp: intro!: filter_cong)
    then have "length (filter ?q h) \<le> length (filter (\<lambda>x. t - W \<le> ob_at x) h)"
      by (metis length_filter_le)
    with k(2) [of 0] l(2) [of 0] k(1) l(1) show ?thesis by simp
  qed
  define n where "n = nat mx"
  have "length (drop k h) - n + k = max k (length h - n)" by (auto simp: max_def)
  then have "in_window W mx t h = drop (max k (length h - n)) h"
    using k(2) [of 0] by (simp add: in_window_def last_entries_drop assms(3) n_def)
  then have "filter ?q (in_window W mx t h) = drop (max (max k (length h - n)) l) h" using l(2) by simp
  moreover have "max (max k (length h - n)) l = max l (length h - n)" using kl by (simp add: max_def)
  ultimately have old: "filter ?q (in_window W mx t h) = drop (max l (length h - n)) h" by simp
  have new: "filter ?q (h @ [ob]) = drop l h @ [ob]" using l(2) [of 0] assms(4) by simp
  have n: "0 < n" using assms(3) by (simp add: n_def)
  have le: "drop (length (drop m h @ [ob]) - n) (drop m h @ [ob]) = drop (max m (length h + 1 - n)) (h @ [ob])" if "m \<le> length h" for m
    using that n by (cases "length h + 1 - n \<le> m") (simp_all add: max_def)
  have "length h - n \<le> length h + 1 - n" by (rule diff_le_mono) simp
  then have m: "max (max l (length h - n)) (length h + 1 - n) = max l (length h + 1 - n)" "max l (length h - n) \<le> length h"
    using l(1) by (auto simp: max_def)
  have "last_entries mx (drop (max l (length h - n)) h @ [ob]) = last_entries mx (drop l h @ [ob])"
    unfolding last_entries_drop [OF assms(3)] n_def [symmetric] le [OF m(2)] le [OF l(1)] m(1) ..
  then show ?thesis unfolding keep_recent_def not_less old unfolding in_window_def new .
qed

definition recent :: "string \<Rightarrow> temporalRiskStore \<Rightarrow> temporalObservation list" where
  "recent ip s = (case map_of (ts_byIP s) ip of None \<Rightarrow> [] | Some obs \<Rightarrow> obs)"

definition window_inv :: "int \<Rightarrow> int \<Rightarrow> observe_call list \<Rightarrow> observe_call list \<Rightarrow> temporalRiskStore \<Rightarrow> bool" where
  \<comment> \<open>the calls so far and those to come\<close>
  "window_inv W mx pre cs s = (ts_window s = W \<and> ts_maxEntriesPerIP s = mx
     \<and> (\<forall>ip. ip \<noteq> [] \<longrightarrow> (\<exists>t. (\<forall>c\<in>set cs. t \<le> oc_Now c) \<and> recent ip s = in_window W mx t (past_of ip pre))))"

lemma past_of_snoc: "past_of ip (pre @ [c]) = past_of ip pre @ (if TrimSpace (oc_IP c) = ip then [observation c] else [])"
  by (simp add: past_of_def)

lemma sorted_past: "sorted (map oc_Now cs) \<Longrightarrow> sorted (map ob_at (past_of ip cs))"
  by (induction cs) (auto simp: past_of_def observation_def)

lemma window_call:
  assumes inv: "window_inv W mx pre (c # cs) s" and srt: "sorted (map oc_Now (pre @ c # cs))" and pos: "0 < mx" "0 \<le> W"
    and run: "Observe (oc_IP c) (oc_Path c) (oc_UA c) (oc_Now c) s = (sn, s')"
  shows "window_inv W mx (pre @ [c]) cs s' \<and> sn = window_spec W mx (pre @ c # cs) (length pre)"
proof -
  let ?ip = "TrimSpace (oc_IP c)" and ?ob = "observation c"
  have later: "\<forall>d\<in>set cs. oc_Now c \<le> oc_Now d" using srt by (auto simp: sorted_append)
  show ?thesis
  proof (cases "?ip = []")
    case True
    with run have "s' = s" "sn = \<lparr>sn_RequestCount = 0, sn_DistinctPaths = 0, sn_DistinctUserAgents = 0\<rparr>" by (auto simp: Observe_def)
    with inv True show ?thesis by (auto simp: window_inv_def window_spec_def past_of_snoc)
  next
    case False
    from inv False obtain t where t: "t \<le> oc_Now c" "recent ?ip s = in_window W mx t (past_of ?ip pre)"
      by (auto simp: window_inv_def)
    have ob: "ob_at ?ob = oc_Now c" by (simp add: observation_def)
    have "sorted (map oc_Now (pre @ [c]))" using srt by (auto simp: sorted_append)
    from sorted_past [OF this, of ?ip] have "sorted (map ob_at (past_of ?ip pre @ [?ob]))" by (simp add: past_of_snoc)
    from window_extend [OF this _ pos] t ob
    have kept: "keep_recent (oc_Now c - W) mx (recent ?ip s) ?ob = in_window W mx (oc_Now c) (past_of ?ip (pre @ [c]))"
      by (simp add: past_of_snoc)
    from run False inv have s': "s' = s\<lparr>ts_byIP := aput ?ip (keep_recent (oc_Now c - W) mx (recent ?ip s) ?ob) (ts_byIP s)\<rparr>"
      "sn = snapshot_of (keep_recent (oc_Now c - W) mx (recent ?ip s) ?ob)"
      by (auto simp: Observe_def Let_def recent_def observation_def window_inv_def)
    have "recent ip s' = (if ip = ?ip then in_window W mx (oc_Now c) (past_of ?ip (pre @ [c])) else recent ip s)" for ip
      by (simp add: s'(1) recent_def kept [unfolded recent_def])
    then have "\<exists>t. (\<forall>d\<in>set cs. t \<le> oc_Now d) \<and> recent ip s' = in_window W mx t (past_of ip (pre @ [c]))" if "ip \<noteq> []" for ip
    proof (cases "ip = ?ip")
      case True
      with later \<open>\<And>ip. recent ip s' = _\<close> [of ip] show ?thesis by auto
    next
      case other: False
      from inv that obtain u where "\<forall>d\<in>set (c # cs). u \<le> oc_Now d" "recent ip s = in_window W mx u (past_of ip pre)"
        unfolding window_inv_def by blast
      with other \<open>\<And>ip. recent ip s' = _\<close> [of ip] show ?thesis by (auto simp: past_of_snoc)
    qed
    with inv have "window_inv W mx (pre @ [c]) cs s'" by (simp add: window_inv_def s'(1))
    moreover have "sn = window_spec W mx (pre @ c # cs) (length pre)"
      using False by (simp add: s'(2) kept window_spec_def)
    ultimately show ?thesis by blast
  qed
qed

lemma window_run:
  assumes "window_inv W mx pre cs s" "sorted (map oc_Now (pre @ cs))" "0 < mx" "0 \<le> W"
  shows "fst (observe_calls cs s) = map (window_spec W mx (pre @ cs)) [length pre..<length pre + length cs]"
  using assms
proof (induction cs arbitrary: pre s)
  case (Cons c cs)
  obtain sn s1 where o: "Observe (oc_IP c) (oc_Path c) (oc_UA c) (oc_Now c) s = (sn, s1)" by fastforce
  from window_call [OF Cons.prems(1,2,3,4) o]
  have n: "window_inv W mx (pre @ [c]) cs s1" "sn = window_spec W mx (pre @ c # cs) (length pre)" by auto
  from Cons.IH [OF n(1)] Cons.prems(2-4)
  have "fst (observe_calls cs s1) = map (window_spec W mx (pre @ c # cs)) [Suc (length pre)..<length pre + length (c # cs)]"
    by (simp del: upt_Suc)
  moreover have "fst (observe_calls (c # cs) s) = sn # fst (observe_calls cs s1)" by (simp add: o split: prod.split)
  moreover have "[length pre..<length pre + length (c # cs)] = length pre # [Suc (length pre)..<length pre + length (c # cs)]"
    by (rule upt_conv_Cons) simp
  ultimately show ?case by (simp only: n(2) list.map)
qed simp

text \<open>
  C26: The temporal store is a sliding window: over any calls at instants that do not decrease, each
  call sees exactly the latest observations of its client within the window of the document, at
  most the bound of the document, as if nothing had ever been thrown away; so the counts never
  exceed that bound, and a burst threshold above it is never reached.
\<close>

theorem temporal_store_is_a_sliding_window:
  assumes "normalizeSemanticConfig c0 = Inr c" "sc_Enabled c" "sorted (map oc_Now cs)"
  shows "fst (observe_calls cs (newTemporalRiskStore c))
      = map (window_spec (sc_TemporalWindowSeconds c * 1000000000) (sc_TemporalMaxEntriesPerIP c) cs) [0..<length cs]
    \<and> list_all (\<lambda>sn. sn_RequestCount sn \<le> sc_TemporalMaxEntriesPerIP c) (fst (observe_calls cs (newTemporalRiskStore c)))"
proof -
  let ?W = "sc_TemporalWindowSeconds c * 1000000000" and ?mx = "sc_TemporalMaxEntriesPerIP c"
  note ok = accepted_scores [OF assms(1,2)]
  have "window_inv ?W ?mx [] cs (newTemporalRiskStore c)"
  proof -
    have "ts_window (newTemporalRiskStore c) = ?W"
      using ok by (simp add: newTemporalRiskStore_def positive_or_def i64_id)
    moreover have "\<exists>t. \<forall>d\<in>set cs. t \<le> oc_Now d"
      using assms(3) by (cases cs) auto
    moreover have "in_window ?W ?mx t (past_of ip []) = []" for t ip
      by (simp add: in_window_def past_of_def last_entries_def)
    ultimately show ?thesis
      using ok by (simp add: window_inv_def newTemporalRiskStore_def recent_def positive_or_def)
  qed
  from window_run [OF this] assms(3) ok
  have run: "fst (observe_calls cs (newTemporalRiskStore c)) = map (window_spec ?W ?mx cs) [0..<length cs]" by simp
  have "int (length (last_entries ?mx obs)) \<le> ?mx" for obs :: "temporalObservation list"
    using ok by (simp add: last_entries_def)
  then have "sn_RequestCount (window_spec ?W ?mx cs i) \<le> ?mx" for i
    using ok by (simp add: window_spec_def snapshot_of_def in_window_def)
  then show ?thesis unfolding run by (simp add: list_all_iff)
qed

subsection \<open>Concrete runs\<close>

definition demo_semantic :: semanticConfig where
  "demo_semantic = \<lparr>sc_Enabled = True, sc_Mode = '' Block'', sc_ExemptPathPrefixes = [''static''], sc_LogThreshold = 1,
     sc_ChallengeThreshold = 2, sc_BlockThreshold = 3, sc_MaxInspectBody = 0, sc_TemporalWindowSeconds = 5,
     sc_TemporalMaxEntriesPerIP = 2, sc_TemporalBurstThreshold = 0, sc_TemporalBurstScore = 0,
     sc_TemporalPathFanoutThreshold = 0, sc_TemporalPathFanoutScore = 0, sc_TemporalUAChurnThreshold = 0,
     sc_TemporalUAChurnScore = 0\<rparr>"

definition demo_semantic_config :: semanticConfig where
  "demo_semantic_config = demo_semantic\<lparr>sc_Mode := ''block'', sc_ExemptPathPrefixes := [''/static''], sc_MaxInspectBody := 16384,
     sc_TemporalBurstThreshold := 20, sc_TemporalBurstScore := 2, sc_TemporalPathFanoutThreshold := 8,
     sc_TemporalPathFanoutScore := 2, sc_TemporalUAChurnThreshold := 4, sc_TemporalUAChurnScore := 1\<rparr>"

definition demo_semantic_runtime :: runtimeSemanticConfig where
  "demo_semantic_runtime = \<lparr>sr_Raw = demo_semantic_config, sr_temporal = newTemporalRiskStore demo_semantic_config,
     sr_challengeCookieName = ''__mamotama_semantic_ok'', sr_challengeSecret = ''secret'',
     sr_challengeTTL = 12 * 3600 * 1000000000, sr_challengeStatusCode = 429, sr_stats = no_stats\<rparr>"

definition demo_attack :: Request where
  "demo_attack = \<lparr>rq_Method = ''POST'', rq_Host = ''h'', rq_URL = empty_URL\<lparr>url_Path := ''/a'', url_RawQuery := ''..%2f''\<rparr>,
     rq_Header = [], rq_RemoteAddr = ''10.0.0.1:80'', rq_Body = Stream (Inr ''ok''), rq_ContentLength = 2\<rparr>"

lemma demo_semantic_accepted: "normalizeSemanticConfig demo_semantic = Inr demo_semantic_config"
proof -
  have "case normalizeSemanticConfig demo_semantic of Inl e \<Rightarrow> False | Inr c \<Rightarrow> c = demo_semantic_config" by code_simp
  then show ?thesis by (auto split: sum.splits)
qed

lemma inspect_empty: "inspectSemanticText scope [] sc = sc"
  by (simp add: inspectSemanticText_def normalizeSemanticInput_def)

lemma demo_attack_fields: "UserAgent demo_attack = []" "Referer demo_attack = []" "url_Path (rq_URL demo_attack) = ''/a''"
    "url_RawQuery (rq_URL demo_attack) = ''..%2f''" "rq_Body demo_attack = Stream (Inr ''ok'')" "rq_Method demo_attack = ''POST''"
  by code_simp+

lemma demo_attack_texts:
  "inspectSemanticText ''path'' ''/a'' (0, []) = (0, [])"
  "inspectSemanticText ''query'' ''..%2f'' (0, []) = (3, [\<lparr>sg_Reason = ''query:path_traversal'', sg_Score = 3\<rparr>])"
  "inspectSemanticText ''body'' ''ok'' (3, x) = (3, x)"
proof -
  show "inspectSemanticText ''path'' ''/a'' (0, []) = (0, [])" by code_simp
  show "inspectSemanticText ''query'' ''..%2f'' (0, []) = (3, [\<lparr>sg_Reason = ''query:path_traversal'', sg_Score = 3\<rparr>])" by code_simp
  show "inspectSemanticText ''body'' ''ok'' (3, x) = (3, x)" by code_simp
qed


definition demo_call :: "string \<Rightarrow> int \<Rightarrow> observe_call" where
  "demo_call path now = \<lparr>oc_IP = '' 10.0.0.1 '', oc_Path = path, oc_UA = ''curl'', oc_Now = now\<rparr>"

theorem temporal_store_is_a_sliding_window_witness:
  "map sn_RequestCount (fst (observe_calls
     [demo_call ''/a'' 0, demo_call ''/b'' 1, demo_call ''/c'' 2, demo_call ''/d'' 9000000000] (newTemporalRiskStore demo_semantic_config)))
   = [1, 2, 2, 1]"
proof -
  let ?cs = "[demo_call ''/a'' 0, demo_call ''/b'' 1, demo_call ''/c'' 2, demo_call ''/d'' 9000000000]"
  have c: "sc_Enabled demo_semantic_config" "sorted (map oc_Now ?cs)"
    by (simp_all add: demo_semantic_config_def demo_semantic_def demo_call_def)
  have "map sn_RequestCount (map (window_spec (5 * 1000000000) 2 ?cs) [0..<length ?cs]) = [1, 2, 2, 1]" by code_simp
  moreover have "sc_TemporalWindowSeconds demo_semantic_config = 5" "sc_TemporalMaxEntriesPerIP demo_semantic_config = 2"
    by (simp_all add: demo_semantic_config_def demo_semantic_def)
  ultimately show ?thesis
    using temporal_store_is_a_sliding_window [OF demo_semantic_accepted c] by (simp only:)
qed

end
