(* ===== verification/Proxy_Serving.thy ===== *)
theory Proxy_Serving
  imports Proxy_Forwarding Cache_Serving
begin

text \<open>
  What answers a request the checks let through: \<open>ServeProxy\<close> of \<open>proxy_runtime.go\<close> with the
  response hooks of \<open>proxy.go\<close>, and the response cache in front of it.

  \<open>httputil.ReverseProxy\<close> is the standard library's: what it does to the headers of a request with
  a \<open>Rewrite\<close> function and of a response is written out; upgraded connections and informational
  replies are left out.
\<close>

subsection \<open>The reverse proxy of the standard library\<close>

definition header_tokens :: "http_header \<Rightarrow> string \<Rightarrow> string list" where
  "header_tokens h k = filter (\<lambda>t. t \<noteq> []) (map TrimSpace (concat (map (\<lambda>v. SplitByte v (CHR '','')) (hdr_values h k))))"

definition has_token :: "http_header \<Rightarrow> string \<Rightarrow> string \<Rightarrow> bool" where
  "has_token h k t = list_ex (\<lambda>x. ToLower x = t) (header_tokens h k)"

definition hopHeaders :: "string list" where
  "hopHeaders = [''Connection'', ''Proxy-Connection'', ''Keep-Alive'', ''Proxy-Authenticate'', ''Proxy-Authorization'',
     ''Te'', ''Trailer'', ''Transfer-Encoding'', ''Upgrade'']"

definition removeHopByHopHeaders :: "http_header \<Rightarrow> http_header" where
  "removeHopByHopHeaders h = fold Header_Del hopHeaders (fold Header_Del (header_tokens h ''Connection'') h)"

definition upgradeType :: "http_header \<Rightarrow> string" where
  "upgradeType h = (if has_token h ''Connection'' ''upgrade'' then Header_Get h ''Upgrade'' else [])"

definition outgoing_request :: "Request \<Rightarrow> Request" where
  \<comment> \<open>the clone handed to \<open>Rewrite\<close>: hop-by-hop and forwarding headers are gone; the query, which is
      cleaned here, is always set by \<open>Rewrite\<close>\<close>
  "outgoing_request r =
     (let up = upgradeType (rq_Header r);
          h1 = removeHopByHopHeaders (rq_Header r);
          h2 = (if has_token (rq_Header r) ''Te'' ''trailers'' then Header_Set ''Te'' ''trailers'' h1 else h1);
          h3 = (if up \<noteq> [] then Header_Set ''Upgrade'' up (Header_Set ''Connection'' ''Upgrade'' h2) else h2)
      in r\<lparr>rq_Header := fold Header_Del [''Forwarded'', ''X-Forwarded-For'', ''X-Forwarded-Host'', ''X-Forwarded-Proto''] h3\<rparr>)"

definition with_user_agent :: "Request \<Rightarrow> Request" where
  \<comment> \<open>an empty one keeps the transport from sending its own\<close>
  "with_user_agent r =
     (if map_of (rq_Header r) ''User-Agent'' = None then r\<lparr>rq_Header := Header_Set ''User-Agent'' [] (rq_Header r)\<rparr> else r)"

definition copyHeader :: "http_header \<Rightarrow> http_header \<Rightarrow> http_header" where
  "copyHeader dst src = foldl (\<lambda>d (k, vals). foldl (\<lambda>d v. Header_Add k v d) d vals) dst src"

subsection \<open>The response hooks\<close>

definition annotateWAFHit :: "bool \<times> string \<Rightarrow> http_header \<Rightarrow> http_header" where
  "annotateWAFHit waf h =
     (if \<not> fst waf then h
      else let h1 = Header_Set ''X-WAF-Hit'' ''1'' h
           in if snd waf \<noteq> [] then Header_Set ''X-WAF-RuleIDs'' (snd waf) h1 else h1)"

definition applyCacheHeaders ::
  "(string \<Rightarrow> string \<Rightarrow> bool) \<Rightarrow> cache_Rule list option \<Rightarrow> string \<Rightarrow> string \<Rightarrow> http_header \<Rightarrow> http_header" where
  \<comment> \<open>method and path are those of the request that was sent to the upstream\<close>
  "applyCacheHeaders re_match rules m path h =
     (case rules of
        None \<Rightarrow> h
      | Some rs \<Rightarrow>
          if m \<noteq> ''GET'' \<and> m \<noteq> ''HEAD'' then h
          else (case Ruleset_Match re_match rs m path of
             (Some rule, True) \<Rightarrow>
               (let ttl = (if cu_TTL rule \<le> 0 then 600 else cu_TTL rule);
                    h1 = Header_Set ''X-Accel-Expires'' (Itoa ttl) (Header_Set ''X-Mamotama-Cacheable'' ''1'' h)
                in if cu_Vary rule \<noteq> [] then Header_Set ''Vary'' (join_with '', '' (cu_Vary rule)) h1 else h1)
           | _ \<Rightarrow> h))"

definition applyRouteResponseHeaders :: "proxyRouteDecision option \<Rightarrow> http_header \<Rightarrow> http_header" where
  "applyRouteResponseHeaders d h = (case d of None \<Rightarrow> h | Some x \<Rightarrow> applyProxyRouteHeaders (rd_ResponseHeaderOps x) h)"

definition onProxyResponse ::
  "(string \<Rightarrow> string \<Rightarrow> bool) \<Rightarrow> ProxyRulesConfig \<Rightarrow> cache_Rule list option \<Rightarrow> proxyRouteDecision option \<Rightarrow> bool \<times> string
     \<Rightarrow> Request \<Rightarrow> Response \<Rightarrow> Response result" where
  \<comment> \<open>the request is the one the transport sent\<close>
  "onProxyResponse re_match c rules d waf sent res =
     bindR (maybeBufferProxyResponseBody c res) (\<lambda>res1.
       Inr (res1\<lparr>rs_Header := applyRouteResponseHeaders d
              (applyCacheHeaders re_match rules (rq_Method sent) (url_Path (rq_URL sent)) (annotateWAFHit waf (rs_Header res1)))\<rparr>))"

subsection \<open>Error replies on the wire\<close>

definition html_escape :: "string \<Rightarrow> string" where
  "html_escape s = concat (map (\<lambda>c. if c = CHR ''&'' then ''&amp;'' else if c = CHR ''<'' then ''&lt;''
     else if c = CHR ''>'' then ''&gt;'' else if c = CHR 0x22 then ''&#34;'' else if c = CHR 0x27 then ''&#39;'' else [c]) s)"

definition error_proxy_reply :: "error_reply \<Rightarrow> Request \<Rightarrow> http_header \<Rightarrow> proxy_reply" where
  \<comment> \<open>\<open>http.Redirect\<close> for a location in its clean form, a page, or \<open>http.Error\<close>\<close>
  "error_proxy_reply e r h =
     (case e of
        ErrorRedirect status loc \<Rightarrow>
          (let had = map_of h ''Content-Type'' \<noteq> None; h1 = Header_Set ''Location'' loc h
           in \<lparr>cy_Status = status,
               cy_Header = (if had then h1 else Header_Set ''Content-Type'' ''text/html; charset=utf-8'' h1),
               cy_Body = (if had \<or> rq_Method r \<noteq> ''GET'' then []
                 else ''<a href='' @ [CHR 0x22] @ html_escape loc @ [CHR 0x22] @ ''>Found</a>.'' @ [CHR 0x0A, CHR 0x0A])\<rparr>)
      | ErrorHTML status body \<Rightarrow>
          \<lparr>cy_Status = status, cy_Header = Header_Set ''Content-Type'' ''text/html; charset=utf-8'' h, cy_Body = body\<rparr>
      | ErrorText status body \<Rightarrow>
          \<lparr>cy_Status = status,
            cy_Header = Header_Set ''X-Content-Type-Options'' ''nosniff'' (Header_Set ''Content-Type'' ''text/plain; charset=utf-8''
              (fold Header_Del [''Content-Length'', ''Content-Encoding'', ''Etag'', ''Last-Modified'', ''Cache-Control''] h)),
            cy_Body = body\<rparr>)"

subsection \<open>ServeProxy\<close>

record upstream_world =
  uw_net :: "nat \<Rightarrow> Request \<Rightarrow> upstream_reply"
  uw_clock :: "nat \<Rightarrow> int"
  uw_header :: http_header        \<comment> \<open>of the response that ends the round trip\<close>
  uw_body :: "string result"
  uw_length :: int
  uw_tls :: bool                  \<comment> \<open>whether the client used TLS\<close>

record serve_world =
  sw_match :: "string \<Rightarrow> string \<Rightarrow> bool"
  sw_config :: ProxyRulesConfig
  sw_target :: "URL option"
  sw_errRes :: proxyErrorResponse
  sw_rules :: "cache_Rule list option"

text \<open>
  The outcome of the round trip does not depend on the writer: the response before it is copied,
  or the error and the request it belongs to.
\<close>

definition fetch_upstream ::
  "serve_world \<Rightarrow> upstream_world \<Rightarrow> proxyRouteDecision \<Rightarrow> bool \<times> string \<Rightarrow> Request \<Rightarrow> upstreamHealthMonitor option
     \<Rightarrow> (Request + Response) \<times> upstreamHealthMonitor option \<times> Request list" where
  "fetch_upstream sw u d waf r health =
     (let out = with_user_agent (rewrite_request (sw_target sw) empty_URL (Some d) (uw_tls u) r (outgoing_request r)) in
      case RoundTrip (uw_net u) (uw_clock u) out (Some d) health of
        (Inl e, h1, sent) \<Rightarrow> (Inl out, h1, sent)
      | (Inr (status, tr), h1, sent) \<Rightarrow>
          (let res = \<lparr>rs_StatusCode = status, rs_Header = removeHopByHopHeaders (uw_header u),
                      rs_Body = (if tr = None then None else Some (uw_body u)), rs_ContentLength = uw_length u\<rparr>;
               h2 = (case tr of None \<Rightarrow> h1 | Some b \<Rightarrow> snd (Close b h1))
           in case onProxyResponse (sw_match sw) (sw_config sw) (sw_rules sw) (Some d) waf (last sent) res of
                Inl e \<Rightarrow> (Inl out, h2, sent)
              | Inr res1 \<Rightarrow> (Inr res1, h2, sent)))"

definition upstream_reply_to :: "proxyErrorResponse \<Rightarrow> Request + Response \<Rightarrow> http_header \<Rightarrow> proxy_reply" where
  "upstream_reply_to er outcome h =
     (case outcome of
        Inl out \<Rightarrow> error_proxy_reply (error_write er out) out h
      | Inr res \<Rightarrow> \<lparr>cy_Status = rs_StatusCode res, cy_Header = copyHeader h (rs_Header res),
                   cy_Body = (case rs_Body res of Some (Inr b) \<Rightarrow> b | _ \<Rightarrow> [])\<rparr>)"

definition ServeProxy ::
  "serve_world \<Rightarrow> upstream_world \<Rightarrow> proxyRouteDecision \<Rightarrow> bool \<times> string \<Rightarrow> Request \<Rightarrow> upstreamHealthMonitor option \<Rightarrow> http_header
     \<Rightarrow> proxy_reply \<times> upstreamHealthMonitor option \<times> Request list" where
  "ServeProxy sw u d waf r health h =
     (case fetch_upstream sw u d waf r health of
        (outcome, health1, sent) \<Rightarrow> (upstream_reply_to (sw_errRes sw) outcome h, health1, sent))"

subsection \<open>Whether the cache asks the upstream\<close>

definition asks_origin ::
  "(string \<Rightarrow> string \<Rightarrow> bool) \<Rightarrow> serve_env \<Rightarrow> cache_Rule list option \<Rightarrow> Request \<Rightarrow> responseCacheRuntime option \<Rightarrow> bool" where
  "asks_origin re_match env rules r rt =
     (case rt of
        None \<Rightarrow> True
      | Some t \<Rightarrow>
          (case (rcr_store t, rules) of
             (Some s, Some rs) \<Rightarrow>
               if \<not> rcc_Enabled (rcr_cfg t) \<or> shouldBypassProxyResponseCache r then True
               else (case Ruleset_Match re_match rs (rq_Method r) (url_Path (rq_URL r)) of
                       (Some rule, True) \<Rightarrow>
                         (case Lookup (proxyResponseCacheKey r (cu_Vary rule)) (sv_lookup env) s of
                            (None, _) \<Rightarrow> True
                          | (Some e, s1) \<Rightarrow> sv_copyErr env \<or> map_of (cs_disk s1) (ce_BodyPath e) = None)
                     | _ \<Rightarrow> True)
           | _ \<Rightarrow> True))"

lemma serve_miss_origin:
  "\<exists>h s'. serve_miss env rule k r s = (sv_origin env h, s')"
  by (simp add: serve_miss_def Let_def split: sum.split prod.split) blast

lemma serve_cached_origin:
  assumes "asks_origin re_match env (Some rs) r (Some t)" "rcr_store t = Some s" "rcc_Enabled (rcr_cfg t)"
  shows "\<exists>h s'. serve_cached re_match env rs r s = (sv_origin env h, s')"
  using assms serve_miss_origin
  by (fastforce simp: asks_origin_def serve_cached_def Let_def writeProxyCachedResponse_def split: option.splits prod.splits bool.splits if_splits)

text \<open>\<open>asks_origin\<close> is right: the reply is the upstream's, or it does not depend on the upstream.\<close>

lemma asked_origin:
  assumes "asks_origin re_match env rules r rt"
  shows "\<exists>h. fst (ServeProxyWithCache re_match env rules r rt) = sv_origin env h"
  using assms serve_cached_origin [of re_match env _ r _]
  by (fastforce simp: ServeProxyWithCache_def split: option.splits prod.splits)

lemma unasked_parts:
  assumes "\<not> asks_origin re_match env rules r rt"
  obtains t s rs rule e s1 b where "rt = Some t" "rcr_store t = Some s" "rules = Some rs" "rcc_Enabled (rcr_cfg t)"
    "\<not> shouldBypassProxyResponseCache r" "Ruleset_Match re_match rs (rq_Method r) (url_Path (rq_URL r)) = (Some rule, True)"
    "Lookup (proxyResponseCacheKey r (cu_Vary rule)) (sv_lookup env) s = (Some e, s1)" "\<not> sv_copyErr env"
    "map_of (cs_disk s1) (ce_BodyPath e) = Some b"
proof -
  from assms obtain t s rs where t: "rt = Some t" "rcr_store t = Some s" "rules = Some rs"
    by (auto simp: asks_origin_def split: option.splits)
  obtain ro al where m: "Ruleset_Match re_match rs (rq_Method r) (url_Path (rq_URL r)) = (ro, al)" by fastforce
  with assms t obtain rule where ok: "ro = Some rule" "al" "rcc_Enabled (rcr_cfg t)" "\<not> shouldBypassProxyResponseCache r"
    by (auto simp: asks_origin_def split: option.splits bool.splits if_splits)
  obtain eo s1 where l: "Lookup (proxyResponseCacheKey r (cu_Vary rule)) (sv_lookup env) s = (eo, s1)" by fastforce
  have "\<not> (case eo of None \<Rightarrow> True | Some e \<Rightarrow> sv_copyErr env \<or> map_of (cs_disk s1) (ce_BodyPath e) = None)"
    using assms t m ok l by (simp add: asks_origin_def)
  then obtain e b where "eo = Some e" "\<not> sv_copyErr env" "map_of (cs_disk s1) (ce_BodyPath e) = Some b"
    by (cases eo) auto
  then show ?thesis using that t m ok l by metis
qed

lemma unasked_origin:
  assumes "\<not> asks_origin re_match env rules r rt"
  shows "ServeProxyWithCache re_match (env\<lparr>sv_origin := f\<rparr>) rules r rt = ServeProxyWithCache re_match env rules r rt"
proof -
  obtain t s rs rule e s1 b where "rt = Some t" "rcr_store t = Some s" "rules = Some rs" "rcc_Enabled (rcr_cfg t)"
    "\<not> shouldBypassProxyResponseCache r" "Ruleset_Match re_match rs (rq_Method r) (url_Path (rq_URL r)) = (Some rule, True)"
    "Lookup (proxyResponseCacheKey r (cu_Vary rule)) (sv_lookup env) s = (Some e, s1)" "\<not> sv_copyErr env"
    "map_of (cs_disk s1) (ce_BodyPath e) = Some b"
    using unasked_parts [OF assms] by metis
  then show ?thesis
    by (simp add: ServeProxyWithCache_def serve_cached_def Let_def writeProxyCachedResponse_def)
qed

end
