(* ===== verification/Proxy_Handler.thy ===== *)
theory Proxy_Handler
  imports Proxy_Serving Bypass_Rules Semantic Ip_Reputation
begin

text \<open>
  The path of a client request through the proxy (\<open>proxy.go\<close>, \<open>request_meta.go\<close>,
  \<open>request_security_plugins.go\<close>): the route, the country, the three plugins, the rate limit, the
  firewall, and then the cache and the upstream.

  The firewall engines are third-party code: \<open>en_run\<close> is what a transaction finds for the URI, the
  method, the protocol and the \<open>Host\<close> header, which is all the handler shows it.  The log events of
  the checks are kept as a list; their output is not modelled.  \<open>he_now n\<close> is the \<open>n\<close>-th reading of the clock.
\<close>

subsection \<open>The parts of the running proxy and the gin context\<close>

record proxy_world =
  pw_config :: ProxyRulesConfig
  pw_target :: "URL option"
  pw_errRes :: proxyErrorResponse
  pw_health :: "upstreamHealthMonitor option"
  pw_cursor :: "64 word"
  pw_countries :: "string list"
  pw_reputation :: reputation
  pw_bot :: "runtimeBotDefenseConfig option"
  pw_semantic :: "runtimeSemanticConfig option"
  pw_limiter :: limiter
  pw_stats :: rateLimitStats
  pw_bypass :: "bypass_Entry list"
  pw_cacheRules :: "cache_Rule list option"
  pw_cache :: "responseCacheRuntime option"

record log_event =
  le_Level :: string
  le_Event :: string
  le_ReqID :: string
  le_IP :: string
  le_Country :: string
  le_Path :: string
  le_Status :: "int option"

record gin_context =
  gc_Request :: Request
  gc_Header :: http_header                       \<comment> \<open>the header of the writer\<close>
  gc_Decision :: "proxyRouteDecision option"     \<comment> \<open>the values of the request's context\<close>
  gc_Waf :: "bool \<times> string"
  gc_Events :: "log_event list"

definition emit_event :: "string \<Rightarrow> string \<Rightarrow> string \<Rightarrow> string \<Rightarrow> string \<Rightarrow> int option \<Rightarrow> gin_context \<Rightarrow> gin_context" where
  \<comment> \<open>level, event, request id, address, country, status\<close>
  "emit_event level event reqID ip country status g =
     g\<lparr>gc_Events := gc_Events g @ [\<lparr>le_Level = level, le_Event = event, le_ReqID = reqID, le_IP = ip,
        le_Country = country, le_Path = url_Path (rq_URL (gc_Request g)), le_Status = status\<rparr>]\<rparr>"

definition abort_with_status :: "int \<Rightarrow> gin_context \<Rightarrow> handler_reply" where
  "abort_with_status status g = \<lparr>hr_Status = status, hr_Header = gc_Header g, hr_Body = []\<rparr>"

subsection \<open>Who the request comes from\<close>

definition ensureRequestID :: "string \<Rightarrow> gin_context \<Rightarrow> string \<times> gin_context" where
  \<comment> \<open>the identifier made when the client sends none\<close>
  "ensureRequestID fresh g =
     (let given = Header_Get (rq_Header (gc_Request g)) ''X-Request-ID'';
          reqID = (if given = [] then fresh else given);
          r = gc_Request g;
          r' = (if given = [] then r\<lparr>rq_Header := Header_Set ''X-Request-ID'' reqID (rq_Header r)\<rparr> else r)
      in (reqID, g\<lparr>gc_Request := r', gc_Header := Header_Set ''X-Request-ID'' reqID (gc_Header g)\<rparr>))"

definition requestClientIP :: "string \<Rightarrow> Request \<Rightarrow> string" where
  \<comment> \<open>\<open>remote\<close> is \<open>c.ClientIP()\<close>: the peer of the connection, since no proxy is trusted\<close>
  "requestClientIP remote r =
     (let real = TrimSpace (Header_Get (rq_Header r) ''X-Real-IP'') in
      if real \<noteq> [] then real
      else let fwd = TrimSpace (Header_Get (rq_Header r) ''X-Forwarded-For'') in
      if fwd \<noteq> [] then (case Index fwd '','' of Some i \<Rightarrow> TrimSpace (take i fwd) | None \<Rightarrow> fwd)
      else TrimSpace remote)"

subsection \<open>The request security plugins\<close>

datatype requestSecurityPluginPhase = PreWAF | PostWAF

datatype requestSecurityPlugin = IPReputationPlugin | BotDefensePlugin | SemanticPlugin

record requestSecurityPluginContext =
  pc_RequestID :: string
  pc_ClientIP :: string
  pc_Country :: string
  pc_Now :: int
  pc_Semantic :: semanticEvaluation

definition newRequestSecurityPluginContext :: "string \<Rightarrow> string \<Rightarrow> string \<Rightarrow> int \<Rightarrow> requestSecurityPluginContext" where
  "newRequestSecurityPluginContext reqID clientIP country now =
     \<lparr>pc_RequestID = reqID, pc_ClientIP = clientIP, pc_Country = country, pc_Now = now, pc_Semantic = no_action\<rparr>"

definition requestSecurityPluginFactories :: "requestSecurityPlugin list" where
  \<comment> \<open>in the order of registration\<close>
  "requestSecurityPluginFactories = [IPReputationPlugin, BotDefensePlugin, SemanticPlugin]"

definition newRequestSecurityPlugins :: "requestSecurityPlugin list" where
  "newRequestSecurityPlugins = requestSecurityPluginFactories"

definition plugin_Phase :: "requestSecurityPlugin \<Rightarrow> requestSecurityPluginPhase" where
  "plugin_Phase p = (case p of IPReputationPlugin \<Rightarrow> PreWAF | BotDefensePlugin \<Rightarrow> PreWAF | SemanticPlugin \<Rightarrow> PreWAF)"

definition plugin_Enabled :: "requestSecurityPlugin \<Rightarrow> proxy_world \<Rightarrow> bool" where
  "plugin_Enabled p w = (case p of
       IPReputationPlugin \<Rightarrow> (case pw_reputation w of None \<Rightarrow> False | Some (c, st) \<Rightarrow> ips_enabled st)
     | BotDefensePlugin \<Rightarrow> (case pw_bot w of None \<Rightarrow> False | Some rt \<Rightarrow> bd_Enabled (br_Raw rt))
     | SemanticPlugin \<Rightarrow> (case pw_semantic w of None \<Rightarrow> False
                          | Some rt \<Rightarrow> sc_Enabled (sr_Raw rt) \<and> sc_Mode (sr_Raw rt) \<noteq> ''off''))"

definition plugin_event :: "string \<Rightarrow> int option \<Rightarrow> requestSecurityPluginContext \<Rightarrow> gin_context \<Rightarrow> gin_context" where
  "plugin_event event status ctx g =
     emit_event ''WARN'' event (pc_RequestID ctx) (pc_ClientIP ctx) (pc_Country ctx) status g"

type_synonym plugin_result = "handler_reply option \<times> requestSecurityPluginContext \<times> gin_context \<times> proxy_world"
  \<comment> \<open>the reply when the request is stopped\<close>

definition ip_reputation_Handle :: "requestSecurityPluginContext \<Rightarrow> gin_context \<Rightarrow> proxy_world \<Rightarrow> plugin_result" where
  "ip_reputation_Handle ctx g w =
     (case EvaluateIPReputation (map_option snd (pw_reputation w)) (pc_ClientIP ctx) of (blocked, status) \<Rightarrow>
        if \<not> blocked then (None, ctx, g, w)
        else let g1 = plugin_event ''ip_reputation'' (Some status) ctx g
             in (Some (abort_with_status status g1), ctx, g1, w))"

definition bot_defense_Handle :: "requestSecurityPluginContext \<Rightarrow> gin_context \<Rightarrow> proxy_world \<Rightarrow> plugin_result" where
  "bot_defense_Handle ctx g w =
     (let d = EvaluateBotDefense (pw_bot w) (Some (gc_Request g)) (pc_ClientIP ctx) (pc_Now ctx) in
      if bt_Allowed d then (None, ctx, g, w)
      else let g1 = plugin_event ''bot_challenge'' (Some (bt_Status d)) ctx g
           in (Some (WriteBotDefenseChallenge (gc_Header g1) (gc_Request g1) d), ctx, g1, w))"

definition semantic_Handle :: "int \<Rightarrow> requestSecurityPluginContext \<Rightarrow> gin_context \<Rightarrow> proxy_world \<Rightarrow> plugin_result" where
  \<comment> \<open>the instant at which a challenge is issued\<close>
  "semantic_Handle issued ctx g w =
     (case EvaluateSemanticWithContext (pw_semantic w) (Some (gc_Request g)) (pc_ClientIP ctx) (pc_Now ctx) of (ev, sem, r) \<Rightarrow>
        let w1 = w\<lparr>pw_semantic := sem\<rparr>; ctx1 = ctx\<lparr>pc_Semantic := ev\<rparr>;
            g0 = g\<lparr>gc_Request := (case r of Some r' \<Rightarrow> r' | None \<Rightarrow> gc_Request g)\<rparr>;
            g1 = (if 0 < ev_Score ev
                  then g0\<lparr>gc_Header := Header_Set ''X-Mamotama-Semantic-Score'' (Itoa (ev_Score ev)) (gc_Header g0)\<rparr> else g0)
        in if ev_Action ev = ''none'' then (None, ctx1, g1, w1)
           else let g2 = plugin_event ''semantic_anomaly'' None ctx1 g1 in
             if ev_Action ev = ''challenge'' then
               (if HasValidSemanticChallengeCookie sem (gc_Request g2) (pc_ClientIP ctx1) (pc_Now ctx1) then (None, ctx1, g2, w1)
                else (Some (WriteSemanticChallenge sem (gc_Header g2) (gc_Request g2) (pc_ClientIP ctx1) issued), ctx1, g2, w1))
             else if ev_Action ev = ''block'' then (Some (abort_with_status 403 g2), ctx1, g2, w1)
             else (None, ctx1, g2, w1))"

definition plugin_Handle :: "int \<Rightarrow> requestSecurityPlugin \<Rightarrow> requestSecurityPluginContext \<Rightarrow> gin_context \<Rightarrow> proxy_world \<Rightarrow> plugin_result" where
  "plugin_Handle issued p = (case p of IPReputationPlugin \<Rightarrow> ip_reputation_Handle | BotDefensePlugin \<Rightarrow> bot_defense_Handle
     | SemanticPlugin \<Rightarrow> semantic_Handle issued)"

fun runRequestSecurityPlugins ::
  "int \<Rightarrow> requestSecurityPluginPhase \<Rightarrow> requestSecurityPlugin list \<Rightarrow> requestSecurityPluginContext \<Rightarrow> gin_context \<Rightarrow> proxy_world
     \<Rightarrow> plugin_result" where
  "runRequestSecurityPlugins issued phase [] ctx g w = (None, ctx, g, w)"
| "runRequestSecurityPlugins issued phase (p # ps) ctx g w =
     (if plugin_Phase p \<noteq> phase \<or> \<not> plugin_Enabled p w then runRequestSecurityPlugins issued phase ps ctx g w
      else case plugin_Handle issued p ctx g w of
        (Some reply, ctx1, g1, w1) \<Rightarrow> (Some reply, ctx1, g1, w1)
      | (None, ctx1, g1, w1) \<Rightarrow> runRequestSecurityPlugins issued phase ps ctx1 g1 w1)"

subsection \<open>The firewall\<close>

record waf_input =
  wi_URI :: string
  wi_Method :: string
  wi_Proto :: string
  wi_Host :: string

record waf_verdict =
  wv_Matched :: "int option list"            \<comment> \<open>the matched rules, with their ids\<close>
  wv_Interruption :: "(int \<times> int) option"    \<comment> \<open>rule id and status\<close>

record 'w engines =
  en_base :: "'w option"
  en_extra :: "string \<Rightarrow> 'w result"
  en_run :: "'w \<Rightarrow> waf_input \<Rightarrow> waf_verdict"

definition unique :: "string list \<Rightarrow> string list" where
  "unique xs = dedup (filter (\<lambda>s. s \<noteq> []) xs)"

definition setWAFContext :: "bool \<Rightarrow> string \<Rightarrow> gin_context \<Rightarrow> gin_context" where
  "setWAFContext hit ids g = g\<lparr>gc_Waf := (hit, ids)\<rparr>"

definition inspect_request ::
  "'w engines \<Rightarrow> bypass_Entry list \<Rightarrow> string \<Rightarrow> string \<Rightarrow> string \<Rightarrow> string \<Rightarrow> gin_context \<Rightarrow> handler_reply option \<times> gin_context" where
  \<comment> \<open>protocol, request id, address, country\<close>
  "inspect_request en bypass proto reqID ip country g =
     (let r = gc_Request g in
      case selectWAFEngine (en_base en) (en_extra en) bypass (url_Path (rq_URL r)) of
        None \<Rightarrow> (None, g)
      | Some engine \<Rightarrow>
          (let inp = \<lparr>wi_URI = URL_String (rq_URL r), wi_Method = rq_Method r, wi_Proto = proto, wi_Host = rq_Host r\<rparr>;
               v = en_run en engine inp;
               ids = map Itoa (List.map_filter (\<lambda>x. x) (wv_Matched v));
               g1 = setWAFContext (wv_Matched v \<noteq> []) (join_with '','' (unique ids)) g
           in case wv_Interruption v of
                None \<Rightarrow> (None, g1)
              | Some (rule, status) \<Rightarrow>
                  (let g2 = emit_event ''WARN'' ''waf_block'' reqID ip country (Some status) g1
                   in (Some (abort_with_status status g2), g2))))"

subsection \<open>The handler\<close>

record 'w handler_env =
  he_env :: proxy_env
  he_now :: "nat \<Rightarrow> int"
  he_remote :: string
  he_proto :: string
  he_freshID :: string
  he_match :: "string \<Rightarrow> string \<Rightarrow> bool"     \<comment> \<open>the regular expressions of the cache rules\<close>
  he_engines :: "'w engines"
  he_upstream :: upstream_world
  he_serve :: serve_env
  he_jsonError :: "goerr \<Rightarrow> string"

definition screen_request ::
  "'w handler_env \<Rightarrow> string \<Rightarrow> string \<Rightarrow> string \<Rightarrow> gin_context \<Rightarrow> proxy_world
     \<Rightarrow> handler_reply option \<times> gin_context \<times> proxy_world" where
  \<comment> \<open>the checks before the firewall: country, plugins, rate limit\<close>
  "screen_request he reqID ip country g w =
     (if IsCountryBlocked (pw_countries w) country then
        (let g1 = emit_event ''WARN'' ''country_block'' reqID ip country (Some 403) g in (Some (abort_with_status 403 g1), g1, w))
      else case runRequestSecurityPlugins (he_now he 2) PreWAF newRequestSecurityPlugins
                  (newRequestSecurityPluginContext reqID ip country (he_now he 1)) g w of
        (Some reply, _, g1, w1) \<Rightarrow> (Some reply, g1, w1)
      | (None, ctx, g1, w1) \<Rightarrow>
          (case EvaluateRateLimit (env_JSONSub (he_env he)) (Some (gc_Request g1)) ip country (ev_Score (pc_Semantic ctx)) (he_now he 3)
                  (pw_limiter w1) (pw_stats w1) of
             (dec, lm, st) \<Rightarrow>
               let w2 = w1\<lparr>pw_limiter := lm, pw_stats := st\<rparr> in
               if rd_Allowed dec then (None, g1, w2)
               else let g2 = emit_event ''WARN'' ''rate_limited'' reqID ip country (Some (rd_Status dec)) g1;
                        g3 = g2\<lparr>gc_Header := Header_Set ''Retry-After'' (Itoa (rd_RetryAfterSeconds dec)) (gc_Header g2)\<rparr>
                    in (Some (abort_with_status (rd_Status dec) g3), g3, w2)))"

definition admit_request ::
  "'w handler_env \<Rightarrow> string \<Rightarrow> string \<Rightarrow> string \<Rightarrow> gin_context \<Rightarrow> proxy_world
     \<Rightarrow> handler_reply option \<times> gin_context \<times> proxy_world" where
  \<comment> \<open>everything between the route and \<open>ServeProxyWithCache\<close>\<close>
  "admit_request he reqID ip country g w =
     (case screen_request he reqID ip country g w of
        (Some reply, g1, w1) \<Rightarrow> (Some reply, g1, w1)
      | (None, g1, w1) \<Rightarrow>
          (case inspect_request (he_engines he) (pw_bypass w1) (he_proto he) reqID ip country g1 of
             (Some reply, g2) \<Rightarrow> (Some reply, g2, w1)
           | (None, g2) \<Rightarrow>
               (case maybeBufferProxyRequestBody (pw_config w1) (gc_Request g2) of
                  Inl e \<Rightarrow> (Some \<lparr>hr_Status = 400,
                      hr_Header = Header_Set ''Content-Type'' ''application/json; charset=utf-8'' (gc_Header g2),
                      hr_Body = he_jsonError he e\<rparr>, g2, w1)
                | Inr r \<Rightarrow> (None, g2\<lparr>gc_Request := r\<rparr>, w1))))"

definition releaseProxyRouteDecision :: "proxyRouteDecision \<Rightarrow> upstreamHealthMonitor option \<Rightarrow> upstreamHealthMonitor option" where
  "releaseProxyRouteDecision d health =
     (if rd_HealthKey d = [] then health else map_option (ReleaseTarget (rd_HealthKey d)) health)"

definition serve_world_of :: "'w handler_env \<Rightarrow> proxy_world \<Rightarrow> serve_world" where
  "serve_world_of he w = \<lparr>sw_match = he_match he, sw_config = pw_config w, sw_target = pw_target w, sw_errRes = pw_errRes w,
     sw_rules = pw_cacheRules w\<rparr>"

definition handler_reply_of :: "proxy_reply \<Rightarrow> handler_reply" where
  "handler_reply_of p = \<lparr>hr_Status = cy_Status p, hr_Header = cy_Header p, hr_Body = cy_Body p\<rparr>"

definition serve_env_of :: "'w handler_env \<Rightarrow> proxyRouteDecision \<Rightarrow> gin_context \<Rightarrow> proxy_world \<Rightarrow> serve_env" where
  \<comment> \<open>the cache asks \<open>ServeProxy\<close>\<close>
  "serve_env_of he d g w = (he_serve he)\<lparr>sv_base := gc_Header g, sv_waf := gc_Waf g,
     sv_origin := (\<lambda>h. fst (ServeProxy (serve_world_of he w) (he_upstream he) d (gc_Waf g) (gc_Request g) (pw_health w) h))\<rparr>"

definition serve_request ::
  "'w handler_env \<Rightarrow> proxyRouteDecision \<Rightarrow> gin_context \<Rightarrow> proxy_world
     \<Rightarrow> handler_reply \<times> gin_context \<times> proxy_world \<times> Request list" where
  "serve_request he d g w =
     (case ServeProxyWithCache (he_match he) (serve_env_of he d g w) (pw_cacheRules w) (gc_Request g) (pw_cache w) of
        (reply, cache) \<Rightarrow>
          if asks_origin (he_match he) (serve_env_of he d g w) (pw_cacheRules w) (gc_Request g) (pw_cache w)
          then (case fetch_upstream (serve_world_of he w) (he_upstream he) d (gc_Waf g) (gc_Request g) (pw_health w) of
                  (outcome, health, sent) \<Rightarrow> (handler_reply_of reply, g, w\<lparr>pw_cache := cache, pw_health := health\<rparr>, sent))
          else (handler_reply_of reply, g, w\<lparr>pw_cache := cache\<rparr>, []))"

definition ProxyHandler ::
  "'w handler_env \<Rightarrow> gin_context \<Rightarrow> proxy_world \<Rightarrow> handler_reply \<times> gin_context \<times> proxy_world \<times> Request list" where
  \<comment> \<open>with the requests sent to upstreams; the deferred release runs when the request was not served\<close>
  "ProxyHandler he g0 w0 =
     (case ensureRequestID (he_freshID he) g0 of (reqID, g1) \<Rightarrow>
      let ip = requestClientIP (he_remote he) (gc_Request g1);
          country = normalizeCountryCode (Header_Get (rq_Header (gc_Request g1)) ''X-Country-Code'') in
      case resolveProxyRouteDecision (he_env he) (gc_Request g1) (pw_config w0) (pw_health w0) (he_now he 0) (pw_cursor w0) of
        (Inl e, cur) \<Rightarrow>
          (let g2 = emit_event ''ERROR'' ''proxy_route_error'' reqID ip country (Some 502) g1
           in (handler_reply_of (error_proxy_reply (error_write (pw_errRes w0) (gc_Request g2)) (gc_Request g2) (gc_Header g2)),
               g2, w0\<lparr>pw_cursor := cur\<rparr>, []))
      | (Inr d, cur) \<Rightarrow>
          (let g2 = g1\<lparr>gc_Decision := Some d\<rparr>; w1 = w0\<lparr>pw_cursor := cur\<rparr>;
               g3 = (if rd_LogSelection d then emit_event ''INFO'' ''proxy_route'' reqID ip country None g2 else g2)
           in case admit_request he reqID ip country g3 w1 of
                (Some reply, g4, w2) \<Rightarrow> (reply, g4, w2\<lparr>pw_health := releaseProxyRouteDecision d (pw_health w2)\<rparr>, [])
              | (None, g4, w2) \<Rightarrow> serve_request he d g4 w2))"

end
