(* ===== verification/Proxy_Handler_Correct.thy ===== *)
theory Proxy_Handler_Correct
  imports Proxy_Handler
begin

text \<open>
  The handler as a whole: a request reaches the cache or an upstream exactly when it passes every
  check; what a stopped request leaves behind; and that the client chooses the address the checks
  are made with.
\<close>

subsection \<open>Each check as a verdict\<close>

lemma ip_reputation_verdict:
  "ip_reputation_Handle ctx g w =
     (if IsBlocked (map_option snd (pw_reputation w)) (pc_ClientIP ctx)
      then (let g1 = plugin_event ''ip_reputation'' (Some (BlockStatusCode (map_option snd (pw_reputation w)))) ctx g
            in (Some (abort_with_status (BlockStatusCode (map_option snd (pw_reputation w))) g1), ctx, g1, w))
      else (None, ctx, g, w))"
  by (cases "pw_reputation w") (auto simp: ip_reputation_Handle_def EvaluateIPReputation_def IsBlocked_def Let_def)

lemma ip_reputation_disabled: "\<not> plugin_Enabled IPReputationPlugin w \<Longrightarrow> \<not> IsBlocked (map_option snd (pw_reputation w)) ip"
  by (auto simp: plugin_Enabled_def IsBlocked_def split: option.splits)

lemma bot_defense_disabled: "\<not> plugin_Enabled BotDefensePlugin w \<Longrightarrow> bt_Allowed (EvaluateBotDefense (pw_bot w) r ip now)"
  by (auto simp: plugin_Enabled_def EvaluateBotDefense_def bot_allow_def Let_def split: option.splits)

lemma semantic_disabled:
  "\<not> plugin_Enabled SemanticPlugin w \<Longrightarrow> EvaluateSemanticWithContext (pw_semantic w) r ip now = (no_action, pw_semantic w, r)"
  by (auto simp: plugin_Enabled_def EvaluateSemanticWithContext_def Let_def split: option.splits)

definition inspected :: "proxy_world \<Rightarrow> Request \<Rightarrow> string \<Rightarrow> int \<Rightarrow> semanticEvaluation \<times> runtimeSemanticConfig option \<times> Request" where
  \<comment> \<open>what the semantic plugin finds, and the request with its body put back\<close>
  "inspected w r ip now =
     (case EvaluateSemanticWithContext (pw_semantic w) (Some r) ip now of (ev, sem, r') \<Rightarrow> (ev, sem, the r'))"

lemma inspected_Some:
  "EvaluateSemanticWithContext (pw_semantic w) (Some r) ip now = (ev, sem, r') \<Longrightarrow>
     r' = Some (snd (snd (inspected w r ip now))) \<and> ev = fst (inspected w r ip now) \<and> sem = fst (snd (inspected w r ip now))"
  by (auto simp: inspected_def EvaluateSemanticWithContext_def Let_def split: option.splits if_splits prod.splits)

definition semantic_lets :: "semanticEvaluation \<times> runtimeSemanticConfig option \<times> Request \<Rightarrow> string \<Rightarrow> int \<Rightarrow> bool" where
  "semantic_lets x ip now =
     (case x of (ev, sem, r) \<Rightarrow> ev_Action ev \<noteq> ''block'' \<and> (ev_Action ev = ''challenge'' \<longrightarrow> HasValidSemanticChallengeCookie sem r ip now))"

definition plugins_let :: "proxy_world \<Rightarrow> Request \<Rightarrow> string \<Rightarrow> int \<Rightarrow> bool" where
  "plugins_let w r ip now =
     (\<not> IsBlocked (map_option snd (pw_reputation w)) ip
      \<and> bt_Allowed (EvaluateBotDefense (pw_bot w) (Some r) ip now)
      \<and> semantic_lets (inspected w r ip now) ip now)"

text \<open>What the plugins leave as it is.\<close>

definition same_but_checks :: "proxy_world \<Rightarrow> proxy_world \<Rightarrow> bool" where
  "same_but_checks w w' = (\<exists>sem lm st. w' = w\<lparr>pw_semantic := sem, pw_limiter := lm, pw_stats := st\<rparr>)"

lemma same_but_checks_fields:
  assumes "same_but_checks w w'"
  shows "pw_cache w' = pw_cache w" "pw_config w' = pw_config w" "pw_health w' = pw_health w" "pw_bypass w' = pw_bypass w"
    "pw_target w' = pw_target w" "pw_errRes w' = pw_errRes w" "pw_cacheRules w' = pw_cacheRules w"
  using assms by (auto simp: same_but_checks_def)

lemma same_but_checks_refl [simp]: "same_but_checks w w" "same_but_checks w (w\<lparr>pw_semantic := sem\<rparr>)"
  "same_but_checks w (w\<lparr>pw_semantic := sem, pw_limiter := lm, pw_stats := st\<rparr>)"
  by (auto simp: same_but_checks_def intro: exI [of _ "pw_semantic w"] exI [of _ "pw_limiter w"] exI [of _ "pw_stats w"])
    (metis proxy_world.surjective proxy_world.update_convs(9-11))+

subsection \<open>The plugins\<close>

lemma semantic_verdict:
  assumes "semantic_Handle issued ctx g w = (reply, ctx', g', w')"
  shows "(reply = None \<longleftrightarrow> semantic_lets (inspected w (gc_Request g) (pc_ClientIP ctx) (pc_Now ctx)) (pc_ClientIP ctx) (pc_Now ctx))
    \<and> gc_Request g' = snd (snd (inspected w (gc_Request g) (pc_ClientIP ctx) (pc_Now ctx)))
    \<and> pc_Semantic ctx' = fst (inspected w (gc_Request g) (pc_ClientIP ctx) (pc_Now ctx))
    \<and> w' = w\<lparr>pw_semantic := fst (snd (inspected w (gc_Request g) (pc_ClientIP ctx) (pc_Now ctx)))\<rparr>"
proof -
  obtain ev sem r0 where e: "EvaluateSemanticWithContext (pw_semantic w) (Some (gc_Request g)) (pc_ClientIP ctx) (pc_Now ctx) = (ev, sem, r0)"
    by (metis prod_cases3)
  from inspected_Some [OF e] obtain r where i: "inspected w (gc_Request g) (pc_ClientIP ctx) (pc_Now ctx) = (ev, sem, r)" "r0 = Some r"
    by (cases "inspected w (gc_Request g) (pc_ClientIP ctx) (pc_Now ctx)") auto
  show ?thesis
    using assms by (auto simp: semantic_Handle_def e i semantic_lets_def Let_def plugin_event_def emit_event_def split: if_splits)
qed

lemma plugins_verdict:
  assumes "runRequestSecurityPlugins issued PreWAF newRequestSecurityPlugins (newRequestSecurityPluginContext reqID ip country now) g w
             = (reply, ctx', g', w')"
  shows "(reply = None \<longleftrightarrow> plugins_let w (gc_Request g) ip now) \<and> same_but_checks w w'
    \<and> (reply = None \<longrightarrow> gc_Request g' = snd (snd (inspected w (gc_Request g) ip now))
         \<and> pc_Semantic ctx' = fst (inspected w (gc_Request g) ip now)
         \<and> w' = w\<lparr>pw_semantic := fst (snd (inspected w (gc_Request g) ip now))\<rparr>)"
proof -
  let ?ctx = "newRequestSecurityPluginContext reqID ip country now"
  have ctx: "pc_ClientIP ?ctx = ip" "pc_Now ?ctx = now" "pc_Semantic ?ctx = no_action" by (simp_all add: newRequestSecurityPluginContext_def)
  have phases: "plugin_Phase p = PreWAF" for p by (simp add: plugin_Phase_def split: requestSecurityPlugin.split)
  show ?thesis
  proof (cases "IsBlocked (map_option snd (pw_reputation w)) ip")
    case True
    then have "plugin_Enabled IPReputationPlugin w" using ip_reputation_disabled by blast
    with True show ?thesis
      using assms
      by (auto simp: newRequestSecurityPlugins_def requestSecurityPluginFactories_def phases plugin_Handle_def ip_reputation_verdict ctx
          plugins_let_def Let_def)
  next
    case ok: False
    show ?thesis
    proof (cases "bt_Allowed (EvaluateBotDefense (pw_bot w) (Some (gc_Request g)) ip now)")
      case False
      then have "plugin_Enabled BotDefensePlugin w" using bot_defense_disabled by blast
      with False ok show ?thesis
        using assms
        by (auto simp: newRequestSecurityPlugins_def requestSecurityPluginFactories_def phases plugin_Handle_def ip_reputation_verdict ctx
            bot_defense_Handle_def plugins_let_def Let_def split: if_splits)
    next
      case True
      have rest: "runRequestSecurityPlugins issued PreWAF [SemanticPlugin] ?ctx g w = (reply, ctx', g', w')"
        using assms ok True
        by (auto simp: newRequestSecurityPlugins_def requestSecurityPluginFactories_def phases plugin_Handle_def ip_reputation_verdict ctx
            bot_defense_Handle_def Let_def simp del: runRequestSecurityPlugins.simps(1)
            split: if_splits)
      show ?thesis
      proof (cases "plugin_Enabled SemanticPlugin w")
        case False
        from semantic_disabled [OF this, of "Some (gc_Request g)" ip now]
        have "inspected w (gc_Request g) ip now = (no_action, pw_semantic w, gc_Request g)" by (simp add: inspected_def)
        with rest False ok True show ?thesis
          by (auto simp: phases plugins_let_def semantic_lets_def no_action_def ctx)
      next
        case on: True
        obtain re c1 g1 w1 where h: "semantic_Handle issued ?ctx g w = (re, c1, g1, w1)" by (metis prod_cases4)
        from semantic_verdict [OF h] rest on ok True h show ?thesis
          by (cases re) (auto simp: phases plugin_Handle_def plugins_let_def ctx)
      qed
    qed
  qed
qed

subsection \<open>All checks\<close>

definition rate_lets :: "'w handler_env \<Rightarrow> proxy_world \<Rightarrow> Request \<Rightarrow> string \<Rightarrow> string \<Rightarrow> int \<Rightarrow> bool" where
  "rate_lets he w r ip country score =
     rd_Allowed (fst (EvaluateRateLimit (env_JSONSub (he_env he)) (Some r) ip country score (he_now he 3) (pw_limiter w) (pw_stats w)))"

definition firewall_lets :: "'w handler_env \<Rightarrow> proxy_world \<Rightarrow> Request \<Rightarrow> bool" where
  "firewall_lets he w r =
     (case selectWAFEngine (en_base (he_engines he)) (en_extra (he_engines he)) (pw_bypass w) (url_Path (rq_URL r)) of
        None \<Rightarrow> True
      | Some engine \<Rightarrow> wv_Interruption (en_run (he_engines he) engine
          \<lparr>wi_URI = URL_String (rq_URL r), wi_Method = rq_Method r, wi_Proto = he_proto he, wi_Host = rq_Host r\<rparr>) = None)"

definition passes_checks :: "'w handler_env \<Rightarrow> gin_context \<Rightarrow> proxy_world \<Rightarrow> bool" where
  \<comment> \<open>every check, each made on its own\<close>
  "passes_checks he g w =
     (let r = gc_Request (snd (ensureRequestID (he_freshID he) g)); ip = requestClientIP (he_remote he) r;
          country = normalizeCountryCode (Header_Get (rq_Header r) ''X-Country-Code''); now = he_now he 1;
          x = inspected w r ip now; r' = snd (snd x)
      in \<not> IsCountryBlocked (pw_countries w) country
         \<and> \<not> IsBlocked (map_option snd (pw_reputation w)) ip
         \<and> bt_Allowed (EvaluateBotDefense (pw_bot w) (Some r) ip now)
         \<and> semantic_lets x ip now
         \<and> rate_lets he w r' ip country (ev_Score (fst x))
         \<and> firewall_lets he w r'
         \<and> \<not> isl (maybeBufferProxyRequestBody (pw_config w) r'))"

lemma screen_verdict:
  assumes "screen_request he reqID ip country g w = (reply, g', w')"
  defines "x \<equiv> inspected w (gc_Request g) ip (he_now he 1)"
  shows "(reply = None \<longleftrightarrow> \<not> IsCountryBlocked (pw_countries w) country \<and> plugins_let w (gc_Request g) ip (he_now he 1)
        \<and> rate_lets he w (snd (snd x)) ip country (ev_Score (fst x)))
    \<and> same_but_checks w w' \<and> (reply = None \<longrightarrow> gc_Request g' = snd (snd x))"
proof (cases "IsCountryBlocked (pw_countries w) country")
  case True
  then show ?thesis using assms(1) by (auto simp: screen_request_def Let_def)
next
  case False
  obtain re c1 g1 w1 where run: "runRequestSecurityPlugins (he_now he 2) PreWAF newRequestSecurityPlugins
      (newRequestSecurityPluginContext reqID ip country (he_now he 1)) g w = (re, c1, g1, w1)" by (metis prod_cases4)
  note v = plugins_verdict [OF run, folded x_def]
  show ?thesis
  proof (cases re)
    case (Some a)
    then show ?thesis using assms(1) False run v by (auto simp: screen_request_def simp del: One_nat_def)
  next
    case None
    with v have w1: "w1 = w\<lparr>pw_semantic := fst (snd x)\<rparr>" and c1: "pc_Semantic c1 = fst x" and g1: "gc_Request g1 = snd (snd x)" by auto
    obtain dec lm st where d: "EvaluateRateLimit (env_JSONSub (he_env he)) (Some (snd (snd x))) ip country (ev_Score (fst x)) (he_now he 3)
        (pw_limiter w) (pw_stats w) = (dec, lm, st)" by (metis prod_cases3)
    have sw: "w' = w1\<lparr>pw_limiter := lm, pw_stats := st\<rparr>" "reply = None \<longleftrightarrow> rd_Allowed dec" "reply = None \<longrightarrow> g' = g1"
      using assms(1) by (auto simp: screen_request_def False run None c1 g1 w1 d Let_def simp del: One_nat_def split: if_splits)
    then show ?thesis using False None v by (auto simp: rate_lets_def d w1 g1)
  qed
qed

lemma inspect_verdict:
  assumes "inspect_request (he_engines he) (pw_bypass w) (he_proto he) reqID ip country g = (reply, g')"
  shows "(reply = None \<longleftrightarrow> firewall_lets he w (gc_Request g)) \<and> gc_Request g' = gc_Request g"
  using assms
  by (auto simp: inspect_request_def firewall_lets_def Let_def setWAFContext_def emit_event_def split: option.splits prod.splits)

lemma admit_verdict:
  assumes "admit_request he reqID ip country g w = (reply, g', w')"
  defines "x \<equiv> inspected w (gc_Request g) ip (he_now he 1)"
  shows "(reply = None \<longleftrightarrow> \<not> IsCountryBlocked (pw_countries w) country \<and> plugins_let w (gc_Request g) ip (he_now he 1)
        \<and> rate_lets he w (snd (snd x)) ip country (ev_Score (fst x)) \<and> firewall_lets he w (snd (snd x))
        \<and> \<not> isl (maybeBufferProxyRequestBody (pw_config w) (snd (snd x))))
    \<and> same_but_checks w w'
    \<and> (reply = None \<longrightarrow> maybeBufferProxyRequestBody (pw_config w) (snd (snd x)) = Inr (gc_Request g'))"
proof -
  obtain re g1 w1 where s: "screen_request he reqID ip country g w = (re, g1, w1)" by (metis prod_cases3)
  note v = screen_verdict [OF s, folded x_def]
  then have f: "pw_bypass w1 = pw_bypass w" "pw_config w1 = pw_config w" by (auto dest: same_but_checks_fields)
  obtain re2 g2 where i: "inspect_request (he_engines he) (pw_bypass w) (he_proto he) reqID ip country g1 = (re2, g2)" by fastforce
  note v2 = inspect_verdict [OF i]
  show ?thesis
    using assms(1) v v2
    by (auto simp: admit_request_def s i f split: option.splits sum.splits)
qed

subsection \<open>The handler\<close>

lemma inspected_cursor [simp]: "inspected (w\<lparr>pw_cursor := cur\<rparr>) r ip now = inspected w r ip now"
  by (simp add: inspected_def)

lemma checks_cursor [simp]:
  "plugins_let (w\<lparr>pw_cursor := cur\<rparr>) r ip now = plugins_let w r ip now"
  "rate_lets he (w\<lparr>pw_cursor := cur\<rparr>) r ip country score = rate_lets he w r ip country score"
  "firewall_lets he (w\<lparr>pw_cursor := cur\<rparr>) r = firewall_lets he w r"
  by (simp_all add: plugins_let_def rate_lets_def firewall_lets_def)

lemma handler_outcome:
  assumes "fst (resolveProxyRouteDecision (he_env he) (gc_Request (snd (ensureRequestID (he_freshID he) g)))
      (pw_config w) (pw_health w) (he_now he 0) (pw_cursor w)) = Inr d"
    and "ProxyHandler he g w = (reply, g', w', sent)"
  shows "if passes_checks he g w
    then \<exists>g1 w1. serve_request he d g1 w1 = (reply, g', w', sent) \<and> pw_cache w1 = pw_cache w \<and> pw_health w1 = pw_health w
    else sent = [] \<and> pw_cache w' = pw_cache w \<and> pw_health w' = releaseProxyRouteDecision d (pw_health w)"
proof -
  obtain reqID g1 where e: "ensureRequestID (he_freshID he) g = (reqID, g1)" by fastforce
  let ?r = "gc_Request g1" and ?ip = "requestClientIP (he_remote he) (gc_Request g1)"
  let ?country = "normalizeCountryCode (Header_Get (rq_Header ?r) ''X-Country-Code'')"
  obtain cur where res: "resolveProxyRouteDecision (he_env he) ?r (pw_config w) (pw_health w) (he_now he 0) (pw_cursor w) = (Inr d, cur)"
    using assms(1) e by (metis prod.collapse snd_conv)
  define g3 where "g3 = (if rd_LogSelection d then emit_event ''INFO'' ''proxy_route'' reqID ?ip ?country None (g1\<lparr>gc_Decision := Some d\<rparr>)
      else g1\<lparr>gc_Decision := Some d\<rparr>)"
  have r3: "gc_Request g3 = ?r" by (simp add: g3_def emit_event_def)
  obtain re g4 w2 where a: "admit_request he reqID ?ip ?country g3 (w\<lparr>pw_cursor := cur\<rparr>) = (re, g4, w2)" by (metis prod_cases3)
  note v = admit_verdict [OF a, unfolded r3]
  have pc: "re = None \<longleftrightarrow> passes_checks he g w"
    using v by (auto simp: passes_checks_def e plugins_let_def Let_def)
  have f: "pw_cache w2 = pw_cache w" "pw_health w2 = pw_health w" using v by (auto dest: same_but_checks_fields)
  show ?thesis
    using assms(2) pc f by (auto simp: ProxyHandler_def e res Let_def g3_def [symmetric] a split: option.splits)
qed

text \<open>
  C1: A routed request is handed to the cache and the upstream exactly when it passes the country
  list, the reputation lists, the bot defense, the semantic scoring, the rate limit, the firewall
  and the buffering of its body, each judged on its own; a stopped request sends nothing and
  leaves the cache as it was, but releases the backend its route selected.
\<close>

theorem handler_serves_exactly_the_checked:
  assumes "fst (resolveProxyRouteDecision (he_env he) (gc_Request (snd (ensureRequestID (he_freshID he) g)))
      (pw_config w) (pw_health w) (he_now he 0) (pw_cursor w)) = Inr d"
    and "ProxyHandler he g w = (reply, g', w', sent)"
  shows "if passes_checks he g w
    then \<exists>g1 w1. serve_request he d g1 w1 = (reply, g', w', sent) \<and> pw_cache w1 = pw_cache w \<and> pw_health w1 = pw_health w
    else sent = [] \<and> pw_cache w' = pw_cache w \<and> pw_health w' = releaseProxyRouteDecision d (pw_health w)"
  by (rule handler_outcome [OF assms])

text \<open>
  A request stopped after its route was resolved takes one off the in-flight counter of the
  backend the route selected, although it never reached it: with n attempts in flight the counter
  says n - 1 afterwards.
\<close>

theorem stopped_request_lowers_the_load:
  assumes "fst (resolveProxyRouteDecision (he_env he) (gc_Request (snd (ensureRequestID (he_freshID he) g)))
      (pw_config w) (pw_health w) (he_now he 0) (pw_cursor w)) = Inr d"
    and "TrimSpace (rd_HealthKey d) \<noteq> []" "pw_health w = Some m"
    and "find (\<lambda>b. bs_Key b = rd_HealthKey d) (hm_backends m) = Some b" "0 < bs_InFlight b"
    and "\<not> passes_checks he g w"
  shows "\<exists>m' b'. pw_health (fst (snd (snd (ProxyHandler he g w)))) = Some m'
    \<and> find (\<lambda>b. bs_Key b = rd_HealthKey d) (hm_backends m') = Some b' \<and> bs_InFlight b' = bs_InFlight b - 1"
proof -
  obtain reply g' w' sent where p: "ProxyHandler he g w = (reply, g', w', sent)" by (metis prod_cases4)
  have "pw_health w' = releaseProxyRouteDecision d (pw_health w)"
    using handler_outcome [OF assms(1) p] assms(6) by simp
  then show ?thesis
    using assms(2-5)
    by (auto simp: p releaseProxyRouteDecision_def ReleaseTarget_def release_backend_def find_update_first)
qed

text \<open>
  The client names its own address: with a header \<open>X-Real-IP\<close> the peer of the connection plays no
  role for any check, any reply, any log event and any request that is sent.
\<close>

theorem client_names_its_own_address:
  assumes "TrimSpace (Header_Get (rq_Header (gc_Request (snd (ensureRequestID (he_freshID he) g)))) ''X-Real-IP'') \<noteq> []"
  shows "ProxyHandler (he\<lparr>he_remote := peer\<rparr>) g w = ProxyHandler he g w"
proof -
  obtain reqID g1 where e: "ensureRequestID (he_freshID he) g = (reqID, g1)" by fastforce
  have ip: "requestClientIP p (gc_Request g1) = requestClientIP q (gc_Request g1)" for p q
    using assms e by (simp add: requestClientIP_def Let_def)
  have parts: "admit_request (he\<lparr>he_remote := peer\<rparr>) = admit_request he"
    by (cases he, unfold admit_request_def screen_request_def, simp only: handler_env.update_convs handler_env.select_convs)
  have serve: "serve_request (he\<lparr>he_remote := peer\<rparr>) = serve_request he"
    by (cases he, unfold serve_request_def serve_env_of_def serve_world_of_def,
        simp only: handler_env.update_convs handler_env.select_convs)
  have fields: "he_freshID (he\<lparr>he_remote := peer\<rparr>) = he_freshID he" "he_remote (he\<lparr>he_remote := peer\<rparr>) = peer"
    "he_env (he\<lparr>he_remote := peer\<rparr>) = he_env he" "he_now (he\<lparr>he_remote := peer\<rparr>) = he_now he"
    by simp_all
  show ?thesis
    unfolding ProxyHandler_def parts serve fields e prod.case ip [of peer "he_remote he"] by (rule refl)
qed

subsection \<open>Serving\<close>

lemma closed_twice: "Close b t = (b', t') \<Longrightarrow> snd (Close b' t') = t'"
  by (auto simp: Close_def split: if_splits)

lemma fetched_health:
  "fst (snd (fetch_upstream sw u d waf r (Some (w_mon hw)))) = t \<Longrightarrow> \<exists>m. t = Some m \<and> reaches hw m (w_held hw)"
proof -
  assume t: "fst (snd (fetch_upstream sw u d waf r (Some (w_mon hw)))) = t"
  define out where "out = with_user_agent (rewrite_request (sw_target sw) empty_URL (Some d) (uw_tls u) r (outgoing_request r))"
  obtain res t1 sent where rt: "RoundTrip (uw_net u) (uw_clock u) out (Some d) (Some (w_mon hw)) = (res, t1, sent)"
    by (metis prod_cases3)
  have "t = close_result res t1"
    using t
    by (auto simp: fetch_upstream_def Let_def out_def [symmetric] rt close_result_def closed_twice split: sum.splits prod.splits option.splits)
  with closed_round_trip [OF rt] show ?thesis by auto
qed

text \<open>
  C2: Serving a request leaves no backend acquired: whatever the network answers, however often the
  attempt is retried, whether the cache answers, the response is too large or the body breaks, the
  monitor is afterwards in a state its protocol reaches with the same attempts held as before.
\<close>

theorem served_request_holds_nothing:
  assumes "pw_health w = Some (w_mon hw)" "serve_request he d g w = (reply, g', w', sent)"
  shows "\<exists>m. pw_health w' = Some m \<and> reaches hw m (w_held hw)"
proof -
  obtain outcome t sent1 where f: "fetch_upstream (serve_world_of he w) (he_upstream he) d (gc_Waf g) (gc_Request g) (Some (w_mon hw))
      = (outcome, t, sent1)" by (metis prod_cases3)
  from fetched_health [of "serve_world_of he w" _ d _ _ hw t] f obtain m where "t = Some m" "reaches hw m (w_held hw)"
    by (metis fst_conv snd_conv)
  with f assms show ?thesis
    by (auto simp: serve_request_def assms(1) reaches_refl split: prod.splits if_splits)
qed

text \<open>
  The cache headers replace the \<open>Vary\<close> header of the upstream by that of the rule, before the cache
  decides: a response with \<open>Vary: *\<close> is recorded under a rule that names headers.
\<close>

theorem vary_of_the_upstream_is_replaced:
  assumes "Ruleset_Match re_match rs m path = (Some rule, True)" "cu_Vary rule \<noteq> []" "m = ''GET'' \<or> m = ''HEAD''"
  shows "hdr_values (applyCacheHeaders re_match (Some rs) m path h) ''Vary'' = [join_with '', '' (cu_Vary rule)]"
proof -
  have "CanonicalMIMEHeaderKey ''Vary'' = ''Vary''" by code_simp
  with assms show ?thesis by (auto simp: applyCacheHeaders_def Let_def header.lookup_set)
qed

subsection \<open>Concrete requests\<close>

definition one_backend :: ProxyRulesConfig where
  "one_backend = zero_config\<lparr>cf_Upstreams := [\<lparr>up_Name = ''a'', up_URL = ''http://a'', up_Weight = 1, up_Enabled = True\<rparr>]\<rparr>"

definition held_monitor :: upstreamHealthMonitor where
  \<comment> \<open>one attempt in flight\<close>
  "held_monitor = \<lparr>hm_cfg = one_backend, hm_status = disabled_status,
     hm_backends = [(build_state one_backend [] \<lparr>up_Name = ''a'', up_URL = ''http://a'', up_Weight = 1, up_Enabled = True\<rparr>
        (empty_URL\<lparr>url_Scheme := ''http'', url_Host := ''a''\<rparr>))\<lparr>bs_InFlight := 1\<rparr>],
     hm_wake = False, hm_running = False, hm_rrCursor = 0\<rparr>"

definition held_proxy :: proxy_world where
  "held_proxy = \<lparr>pw_config = one_backend, pw_target = None, pw_errRes = \<lparr>er_htmlFile = [], er_htmlBody = [], er_htmlEnabled = False, er_redirectURL = []\<rparr>,
     pw_health = Some held_monitor, pw_cursor = 7, pw_countries = [''JP''], pw_reputation = None, pw_bot = None, pw_semantic = None,
     pw_limiter = \<lparr>lm_Runtime = None, lm_Counters = [], lm_Sweep = 0\<rparr>, pw_stats = \<lparr>rx_Requests = 0, rx_Allowed = 0, rx_Blocked = 0, rx_AdaptiveDecisions = 0\<rparr>,
     pw_bypass = [], pw_cacheRules = None, pw_cache = None\<rparr>"

definition from_country :: "string \<Rightarrow> gin_context" where
  "from_country c = \<lparr>gc_Request = (user_request ''/api/users'')\<lparr>rq_Header :=
       [(''X-Country-Code'', [c]), (''X-Request-Id'', [''1'']), (''X-Real-Ip'', [''192.0.2.1''])]\<rparr>,
     gc_Header = [], gc_Decision = None, gc_Waf = (False, []), gc_Events = []\<rparr>"

definition no_firewall :: "unit engines" where
  "no_firewall = \<lparr>en_base = None, en_extra = (\<lambda>_. err ''no engine'' []), en_run = (\<lambda>_ _. \<lparr>wv_Matched = [], wv_Interruption = None\<rparr>)\<rparr>"

definition demo_handler :: "unit handler_env" where
  "demo_handler = \<lparr>he_env = plain_env, he_now = (\<lambda>_. 0), he_remote = ''198.51.100.7'', he_proto = ''HTTP/1.1'', he_freshID = ''f'',
     he_match = (\<lambda>_ _. False), he_engines = no_firewall,
     he_upstream = \<lparr>uw_net = (\<lambda>_ _. Reply 200 False), uw_clock = (\<lambda>_. 0), uw_header = [], uw_body = Inr [], uw_length = 0, uw_tls = False\<rparr>,
     he_serve = \<lparr>sv_lookup = 0, sv_store = 0, sv_base = [], sv_origin = (\<lambda>h. \<lparr>cy_Status = 0, cy_Header = h, cy_Body = []\<rparr>),
        sv_waf = (False, []), sv_temp = Inr [], sv_tmpErr = False, sv_copyErr = False, sv_move = None, sv_write = None\<rparr>,
     he_jsonError = (\<lambda>_. [])\<rparr>"

lemma held_fields:
  "pw_config held_proxy = one_backend" "pw_health held_proxy = Some held_monitor" "pw_cursor held_proxy = 7"
  "pw_countries held_proxy = [''JP'']" "pw_cache held_proxy = None"
  "he_env demo_handler = plain_env" "he_now demo_handler n = 0" "he_freshID demo_handler = ''f''"
  by (simp_all add: held_proxy_def demo_handler_def)

lemma jp_request:
  "gc_Request (snd (ensureRequestID ''f'' (from_country c))) = (user_request ''/api/users'')\<lparr>rq_Header :=
       [(''X-Country-Code'', [c]), (''X-Request-Id'', [''1'']), (''X-Real-Ip'', [''192.0.2.1''])]\<rparr>"
proof -
  have "CanonicalMIMEHeaderKey ''X-Request-ID'' = ''X-Request-Id''" by code_simp
  then show ?thesis by (simp add: ensureRequestID_def from_country_def Header_Get_def hdr_values_def Let_def)
qed

lemma jp_decision:
  "case fst (resolveProxyRouteDecision plain_env ((user_request ''/api/users'')\<lparr>rq_Header :=
       [(''X-Country-Code'', [''jp'']), (''X-Request-Id'', [''1'']), (''X-Real-Ip'', [''192.0.2.1''])]\<rparr>) one_backend (Some held_monitor) 0 7) of
     Inl e \<Rightarrow> False | Inr d \<Rightarrow> rd_HealthKey d = ''a|http://a''"
  by code_simp

lemma held_decision:
  "\<exists>d. fst (resolveProxyRouteDecision (he_env demo_handler) (gc_Request (snd (ensureRequestID (he_freshID demo_handler) (from_country ''jp''))))
      (pw_config held_proxy) (pw_health held_proxy) (he_now demo_handler 0) (pw_cursor held_proxy)) = Inr d \<and> rd_HealthKey d = ''a|http://a''"
  using jp_decision unfolding held_fields jp_request by (auto split: sum.splits)

lemma canonical_names:
  "CanonicalMIMEHeaderKey ''X-Country-Code'' = ''X-Country-Code''" "CanonicalMIMEHeaderKey ''X-Real-IP'' = ''X-Real-Ip''"
  "normalizeCountryCode ''jp'' = ''JP''" "normalizeCountryCode ''JP'' = ''JP''" "TrimSpace ''192.0.2.1'' = ''192.0.2.1''"
  "TrimSpace ''a|http://a'' = ''a|http://a''"
  by code_simp+

lemma held_stopped: "\<not> passes_checks demo_handler (from_country ''jp'') held_proxy"
  unfolding passes_checks_def Let_def held_fields jp_request
  by (simp add: Header_Get_def hdr_values_def canonical_names IsCountryBlocked_def)

lemma held_backend:
  "case find (\<lambda>b. bs_Key b = ''a|http://a'') (hm_backends held_monitor) of None \<Rightarrow> False | Some b \<Rightarrow> bs_InFlight b = 1"
  by code_simp

theorem handler_serves_exactly_the_checked_witness:
  "case ProxyHandler demo_handler (from_country ''jp'') held_proxy of (reply, g', w', sent) \<Rightarrow> sent = [] \<and> pw_cache w' = None"
proof -
  from held_decision obtain d where d: "fst (resolveProxyRouteDecision (he_env demo_handler) (gc_Request (snd (ensureRequestID
      (he_freshID demo_handler) (from_country ''jp'')))) (pw_config held_proxy) (pw_health held_proxy) (he_now demo_handler 0)
      (pw_cursor held_proxy)) = Inr d" by blast
  obtain reply g' w' sent where p: "ProxyHandler demo_handler (from_country ''jp'') held_proxy = (reply, g', w', sent)" by (metis prod_cases4)
  show ?thesis
    using handler_serves_exactly_the_checked [OF d p] held_stopped by (simp add: p held_fields)
qed

theorem stopped_request_lowers_the_load_witness:
  "\<exists>m' b'. pw_health (fst (snd (snd (ProxyHandler demo_handler (from_country ''jp'') held_proxy)))) = Some m'
    \<and> find (\<lambda>b. bs_Key b = ''a|http://a'') (hm_backends m') = Some b' \<and> bs_InFlight b' = 0"
proof -
  from held_decision obtain d where d: "fst (resolveProxyRouteDecision (he_env demo_handler) (gc_Request (snd (ensureRequestID
      (he_freshID demo_handler) (from_country ''jp'')))) (pw_config held_proxy) (pw_health held_proxy) (he_now demo_handler 0)
      (pw_cursor held_proxy)) = Inr d" and k: "rd_HealthKey d = ''a|http://a''" by blast
  from held_backend obtain b where b: "find (\<lambda>b. bs_Key b = ''a|http://a'') (hm_backends held_monitor) = Some b" "bs_InFlight b = 1"
    by (auto split: option.splits)
  from stopped_request_lowers_the_load [OF d, unfolded k, OF _ held_fields(2) b(1) _ held_stopped] b(2) show ?thesis by (simp add: canonical_names)
qed

theorem client_names_its_own_address_witness:
  "ProxyHandler (demo_handler\<lparr>he_remote := ''203.0.113.9''\<rparr>) (from_country ''de'') held_proxy = ProxyHandler demo_handler (from_country ''de'') held_proxy"
  by (rule client_names_its_own_address)
    (simp add: held_fields jp_request Header_Get_def hdr_values_def canonical_names)

theorem served_request_holds_nothing_witness:
  "\<exists>d m. rd_HealthKey d = ''a|http://a'' \<and> reaches held_world m (w_held held_world)
     \<and> pw_health (fst (snd (snd (serve_request demo_handler d (from_country ''de'')
          (held_proxy\<lparr>pw_health := Some (w_mon held_world)\<rparr>))))) = Some m"
proof -
  from held_decision obtain d :: proxyRouteDecision where k: "rd_HealthKey d = ''a|http://a''" by blast
  let ?w = "held_proxy\<lparr>pw_health := Some (w_mon held_world)\<rparr>"
  obtain reply g' w' sent where s: "serve_request demo_handler d (from_country ''de'') ?w = (reply, g', w', sent)" by (metis prod_cases4)
  have "pw_health ?w = Some (w_mon held_world)" by simp
  from served_request_holds_nothing [OF this s] k show ?thesis by (auto simp: s)
qed

end
