(* ===== verification/Notifications.thy ===== *)
theory Notifications
  imports Rules_File Go_Text
begin

text \<open>
  \<open>notification_store.go\<close> and \<open>notification_rules.go\<close>: the document, the alert state machine that
  counts security and upstream events in windows, the messages it sends, and the handlers.

  Parameters: \<open>decode\<close> (strict JSON), \<open>mail_ok\<close> (\<open>mail.ParseAddress\<close>), \<open>post\<close> (the webhook request,
  giving its status) and \<open>mail\<close> (\<open>smtp.SendMail\<close>).  Instants are nanoseconds; the ticker is the event
  \<open>flushExpired\<close>.  A reload replaces configuration, alerts and the last error together, so these
  are the running state of the rule document; label and counters survive it.
\<close>

subsection \<open>The document\<close>

record notificationTriggerConfig =
  nt_Enabled :: bool
  nt_WindowSeconds :: int
  nt_ActiveThreshold :: int
  nt_EscalatedThreshold :: int

record notificationSecurityTrigger = notificationTriggerConfig +
  nt_Sources :: "string list"

record notificationSinkConfig =
  sk_Name :: string
  sk_Type :: string
  sk_Enabled :: bool
  sk_TimeoutSec :: int
  sk_WebhookURL :: string
  sk_Headers :: gomap
  sk_SMTPAddress :: string
  sk_SMTPUsername :: string
  sk_SMTPPassword :: string
  sk_From :: string
  sk_To :: "string list"
  sk_SubjectPrefix :: string

record notificationConfig =
  nc_Enabled :: bool
  nc_CooldownSeconds :: int
  nc_Sinks :: "notificationSinkConfig list"
  nc_Upstream :: notificationTriggerConfig
  nc_Security :: notificationSecurityTrigger

definition defaultNotificationSecuritySources :: "string list" where
  "defaultNotificationSecuritySources = [''waf_block'', ''rate_limited'', ''semantic_anomaly'', ''bot_challenge'', ''ip_reputation'']"

definition or_default_int :: "int \<Rightarrow> int \<Rightarrow> int" where
  "or_default_int d v = (if v \<le> 0 then d else v)"

definition normalizeNotificationTrigger :: "int \<Rightarrow> int \<Rightarrow> int \<Rightarrow> 'a notificationTriggerConfig_scheme \<Rightarrow> 'a notificationTriggerConfig_scheme" where
  "normalizeNotificationTrigger windowSec active escalated c =
     c\<lparr>nt_WindowSeconds := or_default_int windowSec (nt_WindowSeconds c),
       nt_ActiveThreshold := or_default_int active (nt_ActiveThreshold c),
       nt_EscalatedThreshold := or_default_int escalated (nt_EscalatedThreshold c)\<rparr>"

definition normalizeNotificationSources :: "string list \<Rightarrow> string list" where
  "normalizeNotificationSources xs =
     (let out = dedup (map ToLower (filter (\<lambda>v. v \<noteq> []) (map TrimSpace xs)))
      in if out \<noteq> [] then out else defaultNotificationSecuritySources)"

definition normalizeNotificationSecurityTrigger :: "notificationSecurityTrigger \<Rightarrow> notificationSecurityTrigger" where
  "normalizeNotificationSecurityTrigger c =
     (normalizeNotificationTrigger 300 20 100 c)\<lparr>nt_Sources := normalizeNotificationSources (nt_Sources c)\<rparr>"

definition normalizeNotificationSink :: "nat \<Rightarrow> notificationSinkConfig \<Rightarrow> notificationSinkConfig" where
  \<comment> \<open>the order in which headers with the same trimmed name overwrite each other is that of the list\<close>
  "normalizeNotificationSink idx c =
     c\<lparr>sk_Name := (if TrimSpace (sk_Name c) = [] then ''sink-'' @ Itoa (int idx + 1) else TrimSpace (sk_Name c)),
       sk_Type := ToLower (TrimSpace (sk_Type c)),
       sk_TimeoutSec := or_default_int 5 (sk_TimeoutSec c),
       sk_WebhookURL := TrimSpace (sk_WebhookURL c),
       sk_SMTPAddress := TrimSpace (sk_SMTPAddress c),
       sk_SMTPUsername := TrimSpace (sk_SMTPUsername c),
       sk_SMTPPassword := TrimSpace (sk_SMTPPassword c),
       sk_From := TrimSpace (sk_From c),
       sk_SubjectPrefix := (if TrimSpace (sk_SubjectPrefix c) = [] then ''[mamotama]'' else TrimSpace (sk_SubjectPrefix c)),
       sk_Headers := aput_all (map (\<lambda>(k, v). (TrimSpace k, TrimSpace v)) (filter (\<lambda>(k, v). TrimSpace k \<noteq> []) (sk_Headers c))) [],
       sk_To := filter (\<lambda>a. a \<noteq> []) (map TrimSpace (sk_To c))\<rparr>"

definition normalizeNotificationConfig :: "notificationConfig \<Rightarrow> notificationConfig" where
  "normalizeNotificationConfig c =
     c\<lparr>nc_CooldownSeconds := or_default_int 900 (nc_CooldownSeconds c),
       nc_Upstream := normalizeNotificationTrigger 60 3 10 (nc_Upstream c),
       nc_Security := normalizeNotificationSecurityTrigger (nc_Security c),
       nc_Sinks := map (\<lambda>(i, s). normalizeNotificationSink i s) (enumerate 0 (nc_Sinks c))\<rparr>"

definition countEnabledNotificationSinks :: "notificationSinkConfig list \<Rightarrow> nat" where
  "countEnabledNotificationSinks sinks = length (filter sk_Enabled sinks)"

definition validateNotificationTrigger :: "string \<Rightarrow> 'a notificationTriggerConfig_scheme \<Rightarrow> unit result" where
  "validateNotificationTrigger field c =
     seqR (guardR (nt_WindowSeconds c \<le> 0 \<or> 3600 < nt_WindowSeconds c)
             (Errorf ''%s.window_seconds must be between 1 and %d'' [field, ''3600'']))
    (seqR (guardR (nt_ActiveThreshold c \<le> 0) (Errorf ''%s.active_threshold must be > 0'' [field]))
          (guardR (nt_EscalatedThreshold c < nt_ActiveThreshold c)
             (Errorf ''%s.escalated_threshold must be >= %s.active_threshold'' [field, field])))"

definition validate_webhook :: "string \<Rightarrow> notificationSinkConfig \<Rightarrow> unit result" where
  "validate_webhook field s =
     seqR (guardR (sk_WebhookURL s = []) (Errorf ''%s.webhook_url is required'' [field]))
    (bindR (wrapR ''%s.webhook_url parse error: %w'' [field] (url_Parse (sk_WebhookURL s))) (\<lambda>u.
     seqR (guardR (url_Scheme u \<noteq> ''http'' \<and> url_Scheme u \<noteq> ''https'') (Errorf ''%s.webhook_url must use http or https'' [field]))
    (seqR (guardR (url_Host u = []) (Errorf ''%s.webhook_url must include host'' [field]))
          (guardR (sk_TimeoutSec s \<le> 0 \<or> 120 < sk_TimeoutSec s) (Errorf ''%s.timeout_seconds must be between 1 and 120'' [field])))))"

definition validate_email :: "(string \<Rightarrow> unit result) \<Rightarrow> string \<Rightarrow> notificationSinkConfig \<Rightarrow> unit result" where
  "validate_email mail_ok field s =
     seqR (guardR (sk_SMTPAddress s = []) (Errorf ''%s.smtp_address is required'' [field]))
    (seqR (guardR (sk_From s = []) (Errorf ''%s.from is required'' [field]))
    (seqR (wrapR ''%s.from is invalid: %w'' [field] (mail_ok (sk_From s)))
    (seqR (guardR (sk_To s = []) (Errorf ''%s.to must contain at least one recipient'' [field]))
          (eachiR (\<lambda>j a. wrapR ''%s.to[%d] is invalid: %w'' [field, Itoa (int j)] (mail_ok a)) 0 (sk_To s)))))"

definition validateNotificationSink :: "(string \<Rightarrow> unit result) \<Rightarrow> nat \<Rightarrow> notificationSinkConfig \<Rightarrow> unit result" where
  "validateNotificationSink mail_ok idx s =
     (let field = ''sinks['' @ Itoa (int idx) @ '']'' in
      seqR (guardR (sk_Type s \<noteq> ''webhook'' \<and> sk_Type s \<noteq> ''email'') (Errorf ''%s.type must be webhook|email'' [field]))
        (if sk_Type s = ''webhook'' then validate_webhook field s else validate_email mail_ok field s))"

definition validateNotificationConfig :: "(string \<Rightarrow> unit result) \<Rightarrow> notificationConfig \<Rightarrow> unit result" where
  "validateNotificationConfig mail_ok c =
     seqR (guardR (nc_CooldownSeconds c < 0 \<or> 86400 < nc_CooldownSeconds c) (Errorf ''cooldown_seconds must be between 0 and 86400'' []))
    (seqR (validateNotificationTrigger ''upstream'' (nc_Upstream c))
    (seqR (validateNotificationTrigger ''security'' (nc_Security c))
    (seqR (guardR (nc_Enabled c \<and> countEnabledNotificationSinks (nc_Sinks c) = 0)
             (Errorf ''at least one enabled sink is required when notifications.enabled=true'' []))
          (eachiR (validateNotificationSink mail_ok) 0 (nc_Sinks c)))))"

definition buildNotificationRuntimeFromRaw ::
  "(string \<Rightarrow> notificationConfig result) \<Rightarrow> (string \<Rightarrow> unit result) \<Rightarrow> string \<Rightarrow> notificationConfig result" where
  "buildNotificationRuntimeFromRaw decode mail_ok raw =
     bindR (decode raw) (\<lambda>c0. let c = normalizeNotificationConfig c0 in
     bindR (validateNotificationConfig mail_ok c) (\<lambda>_. Inr c))"

definition ValidateNotificationRaw ::
  "(string \<Rightarrow> notificationConfig result) \<Rightarrow> (string \<Rightarrow> unit result) \<Rightarrow> string \<Rightarrow> notificationConfig result" where
  "ValidateNotificationRaw decode mail_ok raw = buildNotificationRuntimeFromRaw decode mail_ok raw"

subsection \<open>Windows and alerts\<close>

record notificationObservation =
  no_Category :: string
  no_Source :: string
  no_Path :: string
  no_RemoteIP :: string
  no_RequestID :: string
  no_StatusCode :: int
  no_Score :: int
  no_ObservedAt :: int

record notificationWindowSummary =
  ws_Count :: int
  ws_UniqueIPs :: "string list"             \<comment> \<open>without repetitions\<close>
  ws_PathCounts :: "(string \<times> int) list"
  ws_LastStatus :: int
  ws_MaxScore :: int
  ws_LastReqID :: string

record notificationSummaryView =
  sv_Count :: int
  sv_UniqueIPs :: int
  sv_TopPaths :: "string list"
  sv_LastStatus :: int
  sv_MaxScore :: int
  sv_LastReqID :: string

datatype notificationState = Quiet | Active | Escalated

record notificationAlertState =
  al_Key :: string
  al_Category :: string
  al_Source :: string
  al_Status :: notificationState
  al_CurrentBucket :: int
  al_CurrentSummary :: notificationWindowSummary
  al_LastSummary :: notificationSummaryView
  al_LastTransition :: "int option"
  al_LastSentAt :: "int option"

record notificationDispatch =
  dp_Product :: string
  dp_AlertKey :: string
  dp_Category :: string
  dp_Source :: string
  dp_State :: string
  dp_Title :: string
  dp_Summary :: string
  dp_ObservedAt :: int
  dp_WindowSecs :: int
  dp_View :: notificationSummaryView   \<comment> \<open>count, addresses, paths, status, score and last request\<close>

definition empty_window :: notificationWindowSummary where
  "empty_window = \<lparr>ws_Count = 0, ws_UniqueIPs = [], ws_PathCounts = [], ws_LastStatus = 0, ws_MaxScore = 0, ws_LastReqID = []\<rparr>"

definition observeNotificationSummary :: "notificationObservation \<Rightarrow> notificationWindowSummary \<Rightarrow> notificationWindowSummary" where
  "observeNotificationSummary obs s =
     (let ip = TrimSpace (no_RemoteIP obs); path = TrimSpace (no_Path obs) in
      \<lparr>ws_Count = ws_Count s + 1,
       ws_UniqueIPs = (if ip \<noteq> [] then List.insert ip (ws_UniqueIPs s) else ws_UniqueIPs s),
       ws_PathCounts = (if path \<noteq> [] then aput path ((case map_of (ws_PathCounts s) path of None \<Rightarrow> 0 | Some n \<Rightarrow> n) + 1) (ws_PathCounts s)
                        else ws_PathCounts s),
       ws_LastStatus = (if 0 < no_StatusCode obs then no_StatusCode obs else ws_LastStatus s),
       ws_MaxScore = (if ws_MaxScore s < no_Score obs then no_Score obs else ws_MaxScore s),
       ws_LastReqID = TrimSpace (no_RequestID obs)\<rparr>)"

definition notificationTopPaths :: "(string \<times> int) list \<Rightarrow> string list" where
  "notificationTopPaths pathCounts =
     map (\<lambda>(p, n). p @ '' ('' @ Itoa n @ '')'')
       (take 3 (sort_by (\<lambda>(p, n) (q, m). if n \<noteq> m then m < n else string_less p q) pathCounts))"

definition notificationSummaryFromWindow :: "notificationWindowSummary \<Rightarrow> notificationSummaryView" where
  "notificationSummaryFromWindow s =
     \<lparr>sv_Count = ws_Count s, sv_UniqueIPs = int (length (ws_UniqueIPs s)), sv_TopPaths = notificationTopPaths (ws_PathCounts s),
      sv_LastStatus = ws_LastStatus s, sv_MaxScore = ws_MaxScore s, sv_LastReqID = ws_LastReqID s\<rparr>"

definition notificationSourceAllowed :: "string list \<Rightarrow> string \<Rightarrow> bool" where
  "notificationSourceAllowed sources source =
     list_ex (\<lambda>a. ToLower (TrimSpace a) = ToLower (TrimSpace source)) sources"

definition notificationTriggerForCategory :: "notificationConfig \<Rightarrow> string \<Rightarrow> string \<Rightarrow> notificationTriggerConfig option" where
  "notificationTriggerForCategory c category source =
     (if category = ''upstream'' then (if nt_Enabled (nc_Upstream c) then Some (nc_Upstream c) else None)
      else if category = ''security'' then
        (if nt_Enabled (nc_Security c) \<and> notificationSourceAllowed (nt_Sources (nc_Security c)) source
         then Some (notificationTriggerConfig.truncate (nc_Security c)) else None)
      else None)"

definition notificationTriggerForObservation :: "notificationConfig \<Rightarrow> notificationObservation \<Rightarrow> notificationTriggerConfig option" where
  "notificationTriggerForObservation c obs = notificationTriggerForCategory c (no_Category obs) (no_Source obs)"

definition classifyNotificationState :: "notificationTriggerConfig \<Rightarrow> int \<Rightarrow> notificationState" where
  "classifyNotificationState t count =
     (if nt_EscalatedThreshold t \<le> count then Escalated
      else if nt_ActiveThreshold t \<le> count then Active
      else Quiet)"

definition state_label :: "notificationState \<Rightarrow> string" where
  "state_label s = (case s of Quiet \<Rightarrow> ''quiet'' | Active \<Rightarrow> ''active'' | Escalated \<Rightarrow> ''escalated'')"

definition buildNotificationDispatch ::
  "string \<Rightarrow> notificationAlertState \<Rightarrow> notificationSummaryView \<Rightarrow> int \<Rightarrow> int \<Rightarrow> notificationDispatch" where
  \<comment> \<open>label, alert, summary, window, instant\<close>
  "buildNotificationDispatch product st v windowSeconds now =
     (let label = state_label (al_Status st);
          title = (if al_Status st = Quiet then ''['' @ product @ ''] '' @ al_Source st @ '' recovered''
                   else ''['' @ product @ ''] '' @ al_Source st @ '' '' @ label);
          s0 = (if al_Status st = Quiet
                then al_Category st @ '' '' @ al_Source st @ '' recovered after '' @ Itoa (sv_Count v) @ '' events in the last ''
                       @ Itoa windowSeconds @ ''s window''
                else al_Category st @ '' '' @ al_Source st @ '' '' @ label @ '': '' @ Itoa (sv_Count v) @ '' events in ''
                       @ Itoa windowSeconds @ ''s'');
          s1 = (if 0 < sv_UniqueIPs v then s0 @ '', unique_ips='' @ Itoa (sv_UniqueIPs v) else s0);
          s2 = (if sv_TopPaths v \<noteq> [] then s1 @ '', top_paths='' @ join_with '', '' (sv_TopPaths v) else s1);
          s3 = (if 0 < sv_MaxScore v then s2 @ '', max_score='' @ Itoa (sv_MaxScore v) else s2)
      in \<lparr>dp_Product = product, dp_AlertKey = al_Key st, dp_Category = al_Category st, dp_Source = al_Source st, dp_State = label,
          dp_Title = title, dp_Summary = s3, dp_ObservedAt = now, dp_WindowSecs = windowSeconds, dp_View = v\<rparr>)"

subsection \<open>The manager\<close>

record notificationStats =
  ns_Attempts :: nat
  ns_Sent :: nat
  ns_Failed :: nat

record notify_runtime =                       \<comment> \<open>what \<open>Update\<close> replaces\<close>
  nr_cfg :: notificationConfig
  nr_states :: "(string \<times> notificationAlertState) list"
  nr_lastDispatchErr :: "(string \<times> goerr) list"

record notificationManager =                  \<comment> \<open>what survives it\<close>
  nm_productLabel :: string
  nm_stats :: notificationStats

definition newNotificationManager :: "string \<Rightarrow> notificationManager" where
  "newNotificationManager product = \<lparr>nm_productLabel = TrimSpace product, nm_stats = \<lparr>ns_Attempts = 0, ns_Sent = 0, ns_Failed = 0\<rparr>\<rparr>"

definition SetProductLabel :: "string \<Rightarrow> notificationManager \<Rightarrow> notificationManager" where
  "SetProductLabel label m = (let v = TrimSpace label in if v = [] then m else m\<lparr>nm_productLabel := v\<rparr>)"

definition notification_Update :: "notificationConfig \<Rightarrow> notify_runtime" where
  "notification_Update c = \<lparr>nr_cfg = c, nr_states = [], nr_lastDispatchErr = []\<rparr>"

definition shouldDispatchLocked :: "notificationConfig \<Rightarrow> notificationAlertState \<Rightarrow> int \<Rightarrow> bool" where
  "shouldDispatchLocked c st now =
     (if countEnabledNotificationSinks (nc_Sinks c) = 0 then False
      else case al_LastSentAt st of None \<Rightarrow> True | Some t \<Rightarrow> nc_CooldownSeconds c * 1000000000 \<le> now - t)"

definition advanceStateLocked ::
  "string \<Rightarrow> notificationConfig \<Rightarrow> notificationTriggerConfig \<Rightarrow> int \<Rightarrow> int \<Rightarrow> notificationAlertState
     \<Rightarrow> notificationAlertState \<times> notificationDispatch list" where
  \<comment> \<open>label, configuration, trigger, next bucket, instant; with the messages handed to a goroutine\<close>
  "advanceStateLocked product c t nextBucket now st =
     (if al_CurrentBucket st = 0 \<or> nextBucket \<le> al_CurrentBucket st then (st, [])
      else let view = notificationSummaryFromWindow (al_CurrentSummary st);
               nextStatus = classifyNotificationState t (sv_Count view);
               st1 = st\<lparr>al_LastSummary := view, al_CurrentSummary := empty_window, al_CurrentBucket := nextBucket\<rparr>
           in if nextStatus = al_Status st then (st1, [])
              else let st2 = st1\<lparr>al_Status := nextStatus, al_LastTransition := Some now\<rparr>
                   in if shouldDispatchLocked c st2 now
                      then (st2\<lparr>al_LastSentAt := Some now\<rparr>, [buildNotificationDispatch product st2 view (nt_WindowSeconds t) now])
                      else (st2, []))"

definition bucket_of :: "notificationTriggerConfig \<Rightarrow> int \<Rightarrow> int" where
  "bucket_of t now = quot (now div 1000000000) (nt_WindowSeconds t)"

definition new_alert :: "notificationObservation \<Rightarrow> notificationAlertState" where
  "new_alert obs = \<lparr>al_Key = no_Category obs @ '':'' @ no_Source obs, al_Category = no_Category obs, al_Source = no_Source obs,
     al_Status = Quiet, al_CurrentBucket = 0, al_CurrentSummary = empty_window,
     al_LastSummary = notificationSummaryFromWindow empty_window, al_LastTransition = None, al_LastSentAt = None\<rparr>"

definition observe_alert ::
  "string \<Rightarrow> notificationConfig \<Rightarrow> notificationTriggerConfig \<Rightarrow> notificationObservation \<Rightarrow> notificationAlertState
     \<Rightarrow> notificationAlertState \<times> notificationDispatch list" where
  "observe_alert product c t obs st =
     (let bucket = bucket_of t (no_ObservedAt obs) in
      case advanceStateLocked product c t bucket (no_ObservedAt obs) st of (st1, out) \<Rightarrow>
        let st2 = (if al_CurrentBucket st1 = 0 then st1\<lparr>al_CurrentBucket := bucket\<rparr> else st1);
            st3 = (if al_CurrentBucket st2 \<noteq> bucket then st2\<lparr>al_CurrentBucket := bucket, al_CurrentSummary := empty_window\<rparr> else st2)
        in (st3\<lparr>al_CurrentSummary := observeNotificationSummary obs (al_CurrentSummary st3)\<rparr>, out))"

definition notification_Observe ::
  "notificationManager \<Rightarrow> notificationObservation \<Rightarrow> notify_runtime \<Rightarrow> notify_runtime \<times> notificationDispatch list" where
  "notification_Observe m obs rt =
     (if \<not> nc_Enabled (nr_cfg rt) then (rt, [])
      else case notificationTriggerForObservation (nr_cfg rt) obs of
        None \<Rightarrow> (rt, [])
      | Some t \<Rightarrow>
          (let key = no_Category obs @ '':'' @ no_Source obs;
               st = (case map_of (nr_states rt) key of None \<Rightarrow> new_alert obs | Some s \<Rightarrow> s)
           in case observe_alert (nm_productLabel m) (nr_cfg rt) t obs st of
                (st1, out) \<Rightarrow> (rt\<lparr>nr_states := aput key st1 (nr_states rt)\<rparr>, out)))"

definition flush_alert ::
  "notificationManager \<Rightarrow> notificationConfig \<Rightarrow> int \<Rightarrow> notificationAlertState \<Rightarrow> notificationAlertState \<times> notificationDispatch list" where
  "flush_alert m c now st =
     (case notificationTriggerForCategory c (al_Category st) (al_Source st) of
        None \<Rightarrow> (st, [])
      | Some t \<Rightarrow> advanceStateLocked (nm_productLabel m) c t (bucket_of t now) now st)"

definition flushExpired :: "notificationManager \<Rightarrow> int \<Rightarrow> notify_runtime \<Rightarrow> notify_runtime \<times> notificationDispatch list" where
  \<comment> \<open>the alerts do not depend on each other; the messages come in their order\<close>
  "flushExpired m now rt =
     (let out = map (\<lambda>(k, st). (k, flush_alert m (nr_cfg rt) now st)) (nr_states rt)
      in (rt\<lparr>nr_states := map (\<lambda>(k, st, ds). (k, st)) out\<rparr>, concat (map (\<lambda>(k, st, ds). ds) out)))"

record notification_event =
  ne_event :: string
  ne_path :: string
  ne_ip :: string
  ne_req_id :: string
  ne_status :: int
  ne_score :: int
  ne_risk_score :: int

definition ObserveNotificationLogEvent ::
  "notificationManager \<Rightarrow> int \<Rightarrow> notification_event \<Rightarrow> notify_runtime \<Rightarrow> notify_runtime \<times> notificationDispatch list" where
  "ObserveNotificationLogEvent m now ev rt =
     (let name = TrimSpace (ne_event ev);
          category = (if name = ''proxy_error'' then ''upstream''
             else if name \<in> set [''waf_block'', ''rate_limited'', ''semantic_anomaly'', ''bot_challenge'', ''ip_reputation''] then ''security''
             else [])
      in if category = [] then (rt, [])
         else notification_Observe m \<lparr>no_Category = category, no_Source = name, no_Path = TrimSpace (ne_path ev),
                no_RemoteIP = TrimSpace (ne_ip ev), no_RequestID = TrimSpace (ne_req_id ev), no_StatusCode = ne_status ev,
                no_Score = max (ne_score ev) (ne_risk_score ev), no_ObservedAt = now\<rparr> rt)"

subsection \<open>Sending\<close>

record mail_message =
  ml_Address :: string
  ml_Auth :: "(string \<times> string \<times> string) option"   \<comment> \<open>user, password, host of \<open>smtp.PlainAuth\<close>\<close>
  ml_From :: string
  ml_To :: "string list"
  ml_Body :: string

record sink_world =
  sw_post :: "notificationSinkConfig \<Rightarrow> notificationDispatch \<Rightarrow> int result"   \<comment> \<open>the status of the reply\<close>
  sw_mail :: "mail_message \<Rightarrow> unit result"

definition sinkDisplayName :: "notificationSinkConfig \<Rightarrow> string" where
  "sinkDisplayName s = (if sk_Name s \<noteq> [] then sk_Name s else sk_Type s)"

definition sendWebhook :: "sink_world \<Rightarrow> notificationSinkConfig \<Rightarrow> notificationDispatch \<Rightarrow> unit result" where
  "sendWebhook w s d =
     bindR (sw_post w s d) (\<lambda>status.
       guardR (status < 200 \<or> 300 \<le> status) (Errorf ''unexpected webhook status: %d'' [Itoa status]))"

definition crlf :: string where "crlf = [CHR 0x0D, CHR 0x0A]"
definition lf :: string where "lf = [CHR 0x0A]"

definition email_text :: "notificationSinkConfig \<Rightarrow> string list \<Rightarrow> notificationDispatch \<Rightarrow> string" where
  "email_text s to d =
     (let prefix = (if TrimSpace (sk_SubjectPrefix s) = [] then ''[mamotama]'' else TrimSpace (sk_SubjectPrefix s)); v = dp_View d in
      ''From: '' @ sk_From s @ crlf @ ''To: '' @ join_with '', '' to @ crlf @ ''Subject: '' @ prefix @ '' '' @ dp_Title d @ crlf
      @ ''MIME-Version: 1.0'' @ crlf @ ''Content-Type: text/plain; charset=UTF-8'' @ crlf @ crlf
      @ dp_Summary d @ lf @ lf @ ''Category: '' @ dp_Category d @ lf @ ''Source: '' @ dp_Source d @ lf @ ''State: '' @ dp_State d @ lf
      @ (if 0 < dp_WindowSecs d then ''Window: '' @ Itoa (dp_WindowSecs d) @ ''s'' @ lf else [])
      @ (if 0 < sv_Count v then ''Count: '' @ Itoa (sv_Count v) @ lf else [])
      @ (if 0 < sv_UniqueIPs v then ''Unique IPs: '' @ Itoa (sv_UniqueIPs v) @ lf else [])
      @ (if sv_TopPaths v \<noteq> [] then ''Top paths: '' @ join_with '', '' (sv_TopPaths v) @ lf else [])
      @ (if 0 < sv_LastStatus v then ''Status code: '' @ Itoa (sv_LastStatus v) @ lf else [])
      @ (if 0 < sv_MaxScore v then ''Max score: '' @ Itoa (sv_MaxScore v) @ lf else [])
      @ (if sv_LastReqID v \<noteq> [] then ''Last request: '' @ sv_LastReqID v @ lf else []))"

definition sendNotificationEmail :: "sink_world \<Rightarrow> notificationSinkConfig \<Rightarrow> notificationDispatch \<Rightarrow> unit result" where
  \<comment> \<open>the variable named \<open>err\<close> is the third result of \<open>strings.Cut\<close>: whether there is a colon\<close>
  "sendNotificationEmail w s d =
     (let addr = TrimSpace (sk_SMTPAddress s);
          (host, found) = (case Index addr '':'' of Some i \<Rightarrow> (take i addr, True) | None \<Rightarrow> (addr, False))
      in if found \<or> TrimSpace host = [] then err ''smtp_address must include host:port'' []
      else let to = filter (\<lambda>a. a \<noteq> []) (map TrimSpace (sk_To s))
      in if to = [] then err ''email recipients are empty'' []
      else sw_mail w \<lparr>ml_Address = sk_SMTPAddress s,
             ml_Auth = (if sk_SMTPUsername s \<noteq> [] then Some (sk_SMTPUsername s, sk_SMTPPassword s, host) else None),
             ml_From = sk_From s, ml_To = to, ml_Body = email_text s to d\<rparr>)"

definition send_sink :: "sink_world \<Rightarrow> notificationDispatch \<Rightarrow> notificationSinkConfig \<Rightarrow> (string \<times> goerr) option" where
  "send_sink w d s =
     (if \<not> sk_Enabled s then None
      else case (if sk_Type s = ''webhook'' then sendWebhook w s d
                 else if sk_Type s = ''email'' then sendNotificationEmail w s d else Inr ()) of
             Inl e \<Rightarrow> Some (sinkDisplayName s, e) | Inr _ \<Rightarrow> None)"

definition notification_dispatch ::
  "sink_world \<Rightarrow> notificationConfig \<Rightarrow> notificationDispatch \<Rightarrow> notificationManager \<Rightarrow> (string \<times> goerr) list \<times> notificationManager" where
  \<comment> \<open>the errors, joined by \<open>;\<close> in the code; none for success\<close>
  "notification_dispatch w c d m =
     (List.map_filter (send_sink w d) (nc_Sinks c),
      m\<lparr>nm_stats := (nm_stats m)\<lparr>ns_Attempts := ns_Attempts (nm_stats m) + 1\<rparr>\<rparr>)"

definition dispatchAsync ::
  "sink_world \<Rightarrow> notificationConfig \<Rightarrow> notificationDispatch \<Rightarrow> notificationManager \<Rightarrow> notify_runtime \<Rightarrow> notificationManager \<times> notify_runtime" where
  "dispatchAsync w c d m rt =
     (case notification_dispatch w c d m of (errs, m1) \<Rightarrow>
        if errs \<noteq> [] then (m1\<lparr>nm_stats := (nm_stats m1)\<lparr>ns_Failed := ns_Failed (nm_stats m1) + 1\<rparr>\<rparr>, rt\<lparr>nr_lastDispatchErr := errs\<rparr>)
        else (m1\<lparr>nm_stats := (nm_stats m1)\<lparr>ns_Sent := ns_Sent (nm_stats m1) + 1\<rparr>\<rparr>, rt\<lparr>nr_lastDispatchErr := []\<rparr>))"

definition TestSend ::
  "sink_world \<Rightarrow> int \<Rightarrow> string \<Rightarrow> notificationManager \<Rightarrow> notify_runtime \<Rightarrow> ((string \<times> goerr) list) result \<times> notificationManager" where
  "TestSend w now note m rt =
     (if countEnabledNotificationSinks (nc_Sinks (nr_cfg rt)) = 0 then (err ''no enabled notification sinks configured'' [], m)
      else case notification_dispatch w (nr_cfg rt)
             \<lparr>dp_Product = nm_productLabel m, dp_AlertKey = ''test'', dp_Category = ''test'', dp_Source = ''manual'', dp_State = ''test'',
              dp_Title = ''['' @ nm_productLabel m @ ''] notification test'',
              dp_Summary = (if note = [] then ''notification test'' else note), dp_ObservedAt = now, dp_WindowSecs = 0,
              dp_View = \<lparr>sv_Count = 0, sv_UniqueIPs = 0, sv_TopPaths = [], sv_LastStatus = 0, sv_MaxScore = 0, sv_LastReqID = []\<rparr>\<rparr> m of
             (errs, m1) \<Rightarrow> (Inr errs, m1))"

definition TestNotificationRules ::
  "sink_world \<Rightarrow> int \<Rightarrow> string result \<Rightarrow> notificationManager \<Rightarrow> notify_runtime \<Rightarrow> int \<times> notificationManager" where
  \<comment> \<open>the note of the body; the status of the reply\<close>
  "TestNotificationRules w now body m rt =
     (case body of
        Inl e \<Rightarrow> (400, m)
      | Inr note \<Rightarrow> (case TestSend w now (TrimSpace note) m rt of
          (Inl e, m1) \<Rightarrow> (400, m1) | (Inr errs, m1) \<Rightarrow> (if errs = [] then 200 else 400, m1)))"

subsection \<open>Status\<close>

record notificationAlertSnapshot =
  as_Key :: string
  as_Category :: string
  as_Source :: string
  as_Status :: notificationState
  as_LastTransition :: "int option"
  as_LastSentAt :: "int option"
  as_LastSummary :: notificationSummaryView

record notificationStatusSnapshot =
  nn_Enabled :: bool
  nn_Product :: string
  nn_SinkCount :: nat
  nn_EnabledSinkCount :: nat
  nn_ActiveAlerts :: nat
  nn_Stats :: notificationStats
  nn_LastDispatchErr :: "(string \<times> goerr) list"
  nn_Alerts :: "notificationAlertSnapshot list"

definition notification_Status :: "notificationManager \<Rightarrow> notify_runtime \<Rightarrow> notificationStatusSnapshot" where
  "notification_Status m rt =
     (let loud = filter (\<lambda>st. al_Status st \<noteq> Quiet) (map snd (nr_states rt));
          alerts = sort_by (\<lambda>a b. if as_Category a \<noteq> as_Category b then string_less (as_Category a) (as_Category b)
                                  else string_less (as_Source a) (as_Source b))
            (map (\<lambda>st. \<lparr>as_Key = al_Key st, as_Category = al_Category st, as_Source = al_Source st, as_Status = al_Status st,
                        as_LastTransition = al_LastTransition st, as_LastSentAt = al_LastSentAt st, as_LastSummary = al_LastSummary st\<rparr>) loud)
      in \<lparr>nn_Enabled = nc_Enabled (nr_cfg rt), nn_Product = nm_productLabel m, nn_SinkCount = length (nc_Sinks (nr_cfg rt)),
          nn_EnabledSinkCount = countEnabledNotificationSinks (nc_Sinks (nr_cfg rt)), nn_ActiveAlerts = length loud,
          nn_Stats = nm_stats m, nn_LastDispatchErr = nr_lastDispatchErr rt, nn_Alerts = alerts\<rparr>)"

subsection \<open>File and handlers\<close>

definition load_notifications ::
  "(string \<Rightarrow> notificationConfig result) \<Rightarrow> (string \<Rightarrow> unit result) \<Rightarrow> string \<Rightarrow> notify_runtime option result" where
  "load_notifications decode mail_ok raw =
     bindR (buildNotificationRuntimeFromRaw decode mail_ok raw) (\<lambda>c. Inr (Some (notification_Update c)))"

definition ReloadNotifications ::
  "(string \<Rightarrow> notificationConfig result) \<Rightarrow> (string \<Rightarrow> unit result) \<Rightarrow> notify_runtime option rules_state
     \<Rightarrow> unit result \<times> notify_runtime option rules_state" where
  "ReloadNotifications decode mail_ok s = reload_rules (load_notifications decode mail_ok) s"

definition notification_default_raw :: string where
  "notification_default_raw = concat (map (\<lambda>l. map (\<lambda>c. if c = CHR ''`'' then CHR 0x22 else c) l @ lf)
     [''{'', ''  `enabled`: false,'', ''  `cooldown_seconds`: 900,'', ''  `sinks`: ['', ''    {'',
      ''      `name`: `primary-webhook`,'', ''      `type`: `webhook`,'', ''      `enabled`: false,'',
      ''      `webhook_url`: `https://hooks.example.invalid/mamotama`,'', ''      `timeout_seconds`: 5,'', ''      `headers`: {'',
      ''        `X-Mamotama-Token`: `change-me`'', ''      }'', ''    },'', ''    {'', ''      `name`: `ops-email`,'',
      ''      `type`: `email`,'', ''      `enabled`: false,'', ''      `smtp_address`: `smtp.example.invalid:587`,'',
      ''      `smtp_username`: `alerts@example.invalid`,'', ''      `smtp_password`: `change-me`,'',
      ''      `from`: `alerts@example.invalid`,'', ''      `to`: [`secops@example.invalid`],'', ''      `subject_prefix`: `[mamotama]`'',
      ''    }'', ''  ],'', ''  `upstream`: {'', ''    `enabled`: true,'', ''    `window_seconds`: 60,'', ''    `active_threshold`: 3,'',
      ''    `escalated_threshold`: 10'', ''  },'', ''  `security`: {'', ''    `enabled`: true,'', ''    `window_seconds`: 300,'',
      ''    `active_threshold`: 20,'', ''    `escalated_threshold`: 100,'',
      ''    `sources`: [`waf_block`, `rate_limited`, `semantic_anomaly`, `bot_challenge`]'', ''  }'', ''}''])"

definition ensureNotificationFile :: "storage \<Rightarrow> unit result \<times> storage" where
  "ensureNotificationFile st = ensure_file notification_default_raw st"

definition InitNotifications ::
  "(string \<Rightarrow> notificationConfig result) \<Rightarrow> (string \<Rightarrow> unit result) \<Rightarrow> string \<Rightarrow> notify_runtime option rules_state
     \<Rightarrow> unit result \<times> notify_runtime option rules_state" where
  "InitNotifications decode mail_ok path s =
     (let target = TrimSpace path in
      if target = [] then (err ''notification path is empty'' [], s)
      else case ensureNotificationFile (ru_storage s) of
        (Inl e, st) \<Rightarrow> (Inl e, s\<lparr>ru_storage := st\<rparr>)
      | (Inr _, st) \<Rightarrow> ReloadNotifications decode mail_ok (s\<lparr>ru_path := target, ru_storage := st\<rparr>))"

definition GetNotificationConfig :: "notify_runtime option \<Rightarrow> notificationConfig option" where
  \<comment> \<open>\<open>None\<close> is the empty configuration\<close>
  "GetNotificationConfig rt = map_option nr_cfg rt"

definition GetNotificationRules ::
  "(string \<Rightarrow> notificationConfig result) \<Rightarrow> (string \<Rightarrow> unit result) \<Rightarrow> notify_runtime option rules_state
     \<Rightarrow> notificationConfig rules_reply \<times> notify_runtime option rules_state" where
  "GetNotificationRules decode mail_ok s = get_rules (ValidateNotificationRaw decode mail_ok) s"

definition ValidateNotificationRules ::
  "(string \<Rightarrow> notificationConfig result) \<Rightarrow> (string \<Rightarrow> unit result) \<Rightarrow> string result \<Rightarrow> notificationConfig rules_reply" where
  "ValidateNotificationRules decode mail_ok body = validate_rules (ValidateNotificationRaw decode mail_ok) body"

definition PutNotificationRules ::
  "(string \<Rightarrow> notificationConfig result) \<Rightarrow> (string \<Rightarrow> unit result) \<Rightarrow> string \<Rightarrow> string result \<Rightarrow> notify_runtime option rules_state
     \<Rightarrow> notificationConfig rules_reply \<times> notify_runtime option rules_state" where
  "PutNotificationRules decode mail_ok ifMatch body s =
     put_rules (ValidateNotificationRaw decode mail_ok) (load_notifications decode mail_ok) ifMatch body s"

definition SyncNotificationStorage ::
  "(string \<Rightarrow> notificationConfig result) \<Rightarrow> (string \<Rightarrow> unit result) \<Rightarrow> notify_runtime option rules_state
     \<Rightarrow> unit result \<times> notify_runtime option rules_state" where
  "SyncNotificationStorage decode mail_ok s =
     sync_blob_file (\<lambda>raw. bindR (ValidateNotificationRaw decode mail_ok raw) (\<lambda>_. Inr ()))
       (Some (load_notifications decode mail_ok)) False True s"

end
