(* ===== verification/Notifications_Correct.thy ===== *)
theory Notifications_Correct
  imports Notifications
begin

text \<open>
  What the alerts mean: over any sequence of observations and ticks the status of an alert is the
  class of the count of the window before; messages of one alert keep the cooldown apart, at the
  price that a change inside it is never reported; and no e-mail ever leaves.
\<close>

subsection \<open>Runs of one alert\<close>

datatype alert_event = Seen notificationObservation | Tick int

definition event_time :: "alert_event \<Rightarrow> int" where
  "event_time e = (case e of Seen obs \<Rightarrow> no_ObservedAt obs | Tick now \<Rightarrow> now)"

definition alert_step ::
  "string \<Rightarrow> notificationConfig \<Rightarrow> notificationTriggerConfig \<Rightarrow> alert_event \<Rightarrow> notificationAlertState
     \<Rightarrow> notificationAlertState \<times> notificationDispatch list" where
  "alert_step product c t e st =
     (case e of Seen obs \<Rightarrow> observe_alert product c t obs st
      | Tick now \<Rightarrow> advanceStateLocked product c t (bucket_of t now) now st)"

fun alert_run ::
  "string \<Rightarrow> notificationConfig \<Rightarrow> notificationTriggerConfig \<Rightarrow> alert_event list \<Rightarrow> notificationAlertState
     \<Rightarrow> notificationAlertState \<times> notificationDispatch list" where
  "alert_run product c t [] st = (st, [])"
| "alert_run product c t (e # es) st =
     (case alert_step product c t e st of (st1, out) \<Rightarrow> case alert_run product c t es st1 of (st2, outs) \<Rightarrow> (st2, out @ outs))"

lemma alert_run_snoc:
  "alert_run product c t (es @ [e]) st =
     (case alert_run product c t es st of (st1, outs) \<Rightarrow> case alert_step product c t e st1 of (st2, out) \<Rightarrow> (st2, outs @ out))"
  by (induction es arbitrary: st) (auto split: prod.split)

definition window_of :: "notificationTriggerConfig \<Rightarrow> alert_event \<Rightarrow> int" where
  "window_of t e = bucket_of t (event_time e)"

definition seen :: "alert_event \<Rightarrow> bool" where
  "seen e = (case e of Seen obs \<Rightarrow> True | Tick now \<Rightarrow> False)"

definition seen_in :: "notificationTriggerConfig \<Rightarrow> int \<Rightarrow> alert_event list \<Rightarrow> int" where
  "seen_in t b es = int (length (filter (\<lambda>e. seen e \<and> window_of t e = b) es))"

text \<open>No window is skipped: the ticker runs every second and a window is at least a second long.\<close>

fun steady :: "notificationTriggerConfig \<Rightarrow> alert_event list \<Rightarrow> bool" where
  "steady t [] = True"
| "steady t [e] = (0 < window_of t e)"
| "steady t (e # e' # es) = (0 < window_of t e \<and> window_of t e \<le> window_of t e' \<and> window_of t e' \<le> window_of t e + 1 \<and> steady t (e' # es))"

lemma steady_snoc2:
  "steady t (es @ [e', e]) \<longleftrightarrow>
     steady t (es @ [e']) \<and> 0 < window_of t e \<and> window_of t e' \<le> window_of t e \<and> window_of t e \<le> window_of t e' + 1"
  by (induction t es rule: steady.induct) (auto simp: neq_Nil_conv split: list.splits)

lemma steady_le: "steady t (es @ [e]) \<Longrightarrow> x \<in> set es \<Longrightarrow> window_of t x \<le> window_of t e"
proof (induction es arbitrary: e rule: rev_induct)
  case (snoc y es)
  then show ?case by (auto simp: steady_snoc2) fastforce
qed simp

lemma seen_in_snoc:
  "seen_in t b (es @ [e]) = seen_in t b es + (if seen e \<and> window_of t e = b then 1 else 0)"
  by (simp add: seen_in_def)

lemma seen_in_later: "(\<And>x. x \<in> set es \<Longrightarrow> window_of t x < b) \<Longrightarrow> seen_in t b es = 0"
  by (auto simp: seen_in_def filter_empty_conv)

definition proper_trigger :: "notificationTriggerConfig \<Rightarrow> bool" where
  \<comment> \<open>as every accepted document has them\<close>
  "proper_trigger t = (0 < nt_WindowSeconds t \<and> 0 < nt_ActiveThreshold t \<and> nt_ActiveThreshold t \<le> nt_EscalatedThreshold t)"

lemma classify_none: "proper_trigger t \<Longrightarrow> classifyNotificationState t 0 = Quiet"
  by (simp add: proper_trigger_def classifyNotificationState_def)

lemma summary_counts [simp]:
  "sv_Count (notificationSummaryFromWindow s) = ws_Count s"
  "ws_Count (observeNotificationSummary obs s) = ws_Count s + 1"
  "ws_Count empty_window = 0"
  by (simp_all add: notificationSummaryFromWindow_def observeNotificationSummary_def empty_window_def Let_def)

lemma advance_fields:
  "advanceStateLocked product c t nb now st = (st', out) \<Longrightarrow>
     (if al_CurrentBucket st = 0 \<or> nb \<le> al_CurrentBucket st then st' = st \<and> out = []
      else al_CurrentBucket st' = nb \<and> al_CurrentSummary st' = empty_window
        \<and> al_Status st' = classifyNotificationState t (ws_Count (al_CurrentSummary st)))"
  by (auto simp: advanceStateLocked_def Let_def split: if_splits)

definition alert_tracks :: "notificationTriggerConfig \<Rightarrow> alert_event list \<Rightarrow> notificationAlertState \<Rightarrow> bool" where
  "alert_tracks t es st =
     (if list_ex seen es
      then al_CurrentBucket st = window_of t (last es) \<and> ws_Count (al_CurrentSummary st) = seen_in t (window_of t (last es)) es
        \<and> al_Status st = classifyNotificationState t (seen_in t (window_of t (last es) - 1) es)
      else al_CurrentBucket st = 0 \<and> al_Status st = Quiet \<and> al_CurrentSummary st = empty_window)"

lemma step_tracks:
  assumes p: "proper_trigger t" and st: "alert_tracks t es st" and "alert_step product c t e st = (st', out)"
    and later: "\<And>x. x \<in> set es \<Longrightarrow> window_of t x \<le> window_of t (last es)"
    and nxt: "0 < window_of t e" "es \<noteq> [] \<Longrightarrow> 0 < window_of t (last es) \<and> window_of t (last es) \<le> window_of t e \<and> window_of t e \<le> window_of t (last es) + 1"
  shows "alert_tracks t (es @ [e]) st'"
proof -
  let ?b = "window_of t e"
  obtain st1 out1 where adv: "advanceStateLocked product c t ?b (event_time e) st = (st1, out1)" by fastforce
  note f = advance_fields [OF adv]
  have st': "st' = (case e of Tick now \<Rightarrow> st1
     | Seen obs \<Rightarrow> (let st2 = (if al_CurrentBucket st1 = 0 then st1\<lparr>al_CurrentBucket := ?b\<rparr> else st1);
            st3 = (if al_CurrentBucket st2 \<noteq> ?b then st2\<lparr>al_CurrentBucket := ?b, al_CurrentSummary := empty_window\<rparr> else st2)
        in st3\<lparr>al_CurrentSummary := observeNotificationSummary obs (al_CurrentSummary st3)\<rparr>))"
    using assms(3) adv
    by (cases e) (auto simp: alert_step_def observe_alert_def window_of_def event_time_def Let_def)
  show ?thesis
  proof (cases "list_ex seen es")
    case False
    then have none: "seen_in t b es = 0" for b by (auto simp: seen_in_def filter_empty_conv list_ex_iff)
    have "al_CurrentBucket st = 0" "al_Status st = Quiet" "al_CurrentSummary st = empty_window" using st False by (simp_all add: alert_tracks_def)
    with f have "st1 = st" by simp
    with st' False none \<open>al_CurrentBucket st = 0\<close> \<open>al_Status st = Quiet\<close> \<open>al_CurrentSummary st = empty_window\<close> show ?thesis
      using nxt(1) classify_none [OF p]
      by (cases e) (auto simp: alert_tracks_def seen_in_snoc seen_def)
  next
    case True
    then have ne: "es \<noteq> []" by auto
    let ?old = "window_of t (last es)"
    from st True have tr: "al_CurrentBucket st = ?old" "ws_Count (al_CurrentSummary st) = seen_in t ?old es"
      "al_Status st = classifyNotificationState t (seen_in t (?old - 1) es)" by (simp_all add: alert_tracks_def)
    from nxt ne have b0: "0 < ?old" "?b = ?old \<or> ?b = ?old + 1" by auto
    have seen_later: "seen_in t b es = 0" if "?old < b" for b using later that by (intro seen_in_later) fastforce
    have ex: "list_ex seen (es @ [e])" using True by simp
    from b0(2) show ?thesis
    proof
      assume same: "?b = ?old"
      have "al_CurrentBucket st = 0 \<or> ?b \<le> al_CurrentBucket st" using same by (simp add: tr(1))
      with f have "st1 = st" by simp
      then show ?thesis
        using st' same tr b0(1) True
        by (cases e) (auto simp: alert_tracks_def seen_in_snoc seen_def)
    next
      assume adv1: "?b = ?old + 1"
      then have "\<not> (al_CurrentBucket st = 0 \<or> ?b \<le> al_CurrentBucket st)" using b0(1) by (simp add: tr(1))
      with f tr(2) have "al_CurrentBucket st1 = ?b" "al_CurrentSummary st1 = empty_window"
        "al_Status st1 = classifyNotificationState t (seen_in t ?old es)" by auto
      then show ?thesis
        using st' adv1 b0(1) True seen_later [of ?b]
        by (cases e) (auto simp: alert_tracks_def seen_in_snoc seen_def)
    qed
  qed
qed

lemma steady_prefix: "steady t (es @ [e]) \<Longrightarrow> steady t es"
  by (cases es rule: rev_cases) (auto simp: steady_snoc2)

lemma steady_last: "steady t es \<Longrightarrow> es \<noteq> [] \<Longrightarrow> 0 < window_of t (last es)"
proof (induction t es rule: steady.induct)
  case (3 t e e' es)
  then show ?case by simp
qed simp_all

lemma run_tracks:
  assumes "proper_trigger t" "steady t es"
  shows "alert_tracks t es (fst (alert_run product c t es (new_alert obs)))"
  using assms(2)
proof (induction es rule: rev_induct)
  case Nil
  show ?case by (simp add: alert_tracks_def new_alert_def)
next
  case (snoc e es)
  note pre = steady_prefix [OF snoc.prems]
  obtain st outs where r: "alert_run product c t es (new_alert obs) = (st, outs)" by fastforce
  obtain st' out where s: "alert_step product c t e st = (st', out)" by fastforce
  have tr: "alert_tracks t es st" using snoc.IH [OF pre] by (simp add: r)
  have "window_of t x \<le> window_of t (last es)" if "x \<in> set es" for x
    using that pre steady_le by (cases es rule: rev_cases) auto
  moreover have "0 < window_of t e" using snoc.prems steady_last by fastforce
  moreover have "0 < window_of t (last es) \<and> window_of t (last es) \<le> window_of t e \<and> window_of t e \<le> window_of t (last es) + 1" if "es \<noteq> []"
    using that snoc.prems steady_last [OF pre] by (cases es rule: rev_cases) (auto simp: steady_snoc2)
  ultimately show ?case using step_tracks [OF assms(1) tr s] by (simp add: alert_run_snoc r s)
qed

text \<open>
  C27: Over any sequence of observations and ticks that skips no window the status of an alert is the
  class of the number of observations in the window before the last one, and the counter is the
  number of observations in the last one, exactly as a count over the whole history gives it.
\<close>

theorem alert_follows_the_last_window:
  assumes "proper_trigger t" "steady t (es @ [e])" "list_ex seen (es @ [e])"
  shows "case alert_run product c t (es @ [e]) (new_alert obs) of (st, out) \<Rightarrow>
     al_Status st = classifyNotificationState t (seen_in t (window_of t e - 1) (es @ [e]))
     \<and> ws_Count (al_CurrentSummary st) = seen_in t (window_of t e) (es @ [e])"
  using run_tracks [OF assms(1,2), of product c obs] assms(3) by (auto simp: alert_tracks_def split: prod.split)

subsection \<open>The cooldown\<close>

lemma dispatch_time [simp]: "dp_ObservedAt (buildNotificationDispatch product st v w now) = now"
  by (simp add: buildNotificationDispatch_def Let_def)

lemma step_sends:
  assumes "alert_step product c t e st = (st', out)"
  shows "(out = [] \<and> al_LastSentAt st' = al_LastSentAt st) \<or>
    (\<exists>d. out = [d] \<and> dp_ObservedAt d = event_time e \<and> al_LastSentAt st' = Some (event_time e) \<and> al_Status st' \<noteq> al_Status st
       \<and> (\<forall>s. al_LastSentAt st = Some s \<longrightarrow> nc_CooldownSeconds c * 1000000000 \<le> event_time e - s))"
proof -
  obtain st1 out1 where adv: "advanceStateLocked product c t (window_of t e) (event_time e) st = (st1, out1)" by fastforce
  then have "(out1 = [] \<and> al_LastSentAt st1 = al_LastSentAt st) \<or>
    (\<exists>d. out1 = [d] \<and> dp_ObservedAt d = event_time e \<and> al_LastSentAt st1 = Some (event_time e) \<and> al_Status st1 \<noteq> al_Status st
       \<and> (\<forall>s. al_LastSentAt st = Some s \<longrightarrow> nc_CooldownSeconds c * 1000000000 \<le> event_time e - s))"
    by (auto simp: advanceStateLocked_def shouldDispatchLocked_def Let_def split: if_splits option.splits)
  moreover have "out = out1" "al_LastSentAt st' = al_LastSentAt st1" "al_Status st' = al_Status st1"
    using assms adv by (cases e; auto simp: alert_step_def observe_alert_def window_of_def event_time_def Let_def)+
  ultimately show ?thesis by metis
qed

definition spaced :: "int \<Rightarrow> notificationDispatch list \<Rightarrow> bool" where
  "spaced gap ds = sorted_wrt (\<lambda>d d'. gap \<le> dp_ObservedAt d' - dp_ObservedAt d) ds"

lemma spaced_snoc:
  assumes "spaced gap ds" "0 \<le> gap" "ds \<noteq> [] \<Longrightarrow> gap \<le> dp_ObservedAt d - dp_ObservedAt (last ds)"
  shows "spaced gap (ds @ [d])"
proof -
  have "gap \<le> dp_ObservedAt d - dp_ObservedAt x" if "x \<in> set ds" for x
  proof (cases ds rule: rev_cases)
    case (snoc ys y)
    with assms(1) that have "x = y \<or> gap \<le> dp_ObservedAt y - dp_ObservedAt x" by (auto simp: spaced_def sorted_wrt_append)
    with assms(2,3) snoc show ?thesis by auto
  qed (use that in simp)
  with assms(1) show ?thesis by (simp add: spaced_def sorted_wrt_append)
qed

lemma run_spaced:
  assumes "0 \<le> nc_CooldownSeconds c"
  shows "case alert_run product c t es (new_alert obs) of (st, outs) \<Rightarrow>
    spaced (nc_CooldownSeconds c * 1000000000) outs
    \<and> al_LastSentAt st = (if outs = [] then None else Some (dp_ObservedAt (last outs)))"
proof (induction es rule: rev_induct)
  case Nil
  show ?case by (simp add: spaced_def new_alert_def)
next
  case (snoc e es)
  obtain st outs where r: "alert_run product c t es (new_alert obs) = (st, outs)" by fastforce
  obtain st' out where s: "alert_step product c t e st = (st', out)" by fastforce
  have g: "0 \<le> nc_CooldownSeconds c * 1000000000" using assms by simp
  from snoc.IH r have ih: "spaced (nc_CooldownSeconds c * 1000000000) outs"
    "al_LastSentAt st = (if outs = [] then None else Some (dp_ObservedAt (last outs)))" by auto
  from step_sends [OF s] show ?case
    using ih spaced_snoc [OF ih(1) g] by (auto simp: alert_run_snoc r s split: if_splits)
qed

text \<open>The messages about one alert are at least the cooldown apart, whatever is observed and when.\<close>

theorem messages_keep_the_cooldown:
  assumes "0 \<le> nc_CooldownSeconds c"
  shows "sorted_wrt (\<lambda>d d'. nc_CooldownSeconds c * 1000000000 \<le> dp_ObservedAt d' - dp_ObservedAt d)
    (snd (alert_run product c t es (new_alert obs)))"
  using run_spaced [OF assms, of product t es obs] by (simp add: spaced_def split: prod.splits)

lemma unchanged_silent: "alert_step product c t e st = (st', out) \<Longrightarrow> al_Status st' = al_Status st \<Longrightarrow> out = []"
  using step_sends [of product c t e st st' out] by auto

lemma constant_silent:
  "(\<And>n. n \<le> length es \<Longrightarrow> al_Status (fst (alert_run product c t (take n es) st)) = q) \<Longrightarrow> snd (alert_run product c t es st) = []"
proof (induction es rule: rev_induct)
  case (snoc e es)
  obtain st1 outs where r: "alert_run product c t es st = (st1, outs)" by fastforce
  obtain st2 out where s: "alert_step product c t e st1 = (st2, out)" by fastforce
  have "al_Status (fst (alert_run product c t (take n es) st)) = q" if "n \<le> length es" for n
    using snoc.prems [of n] that by simp
  with snoc.IH have "outs = []" by (simp add: r)
  moreover have "al_Status st1 = q" using snoc.prems [of "length es"] by (simp add: r)
  moreover have "al_Status st2 = q" using snoc.prems [of "Suc (length es)"] by (simp add: alert_run_snoc r s)
  ultimately show ?case using unchanged_silent [OF s] by (simp add: alert_run_snoc r s)
qed simp

text \<open>
  An alert that escalates less than the cooldown after its last message is not reported then, and
  not later either: no message is sent for as long as it stays escalated.
\<close>

theorem escalation_in_cooldown_is_never_reported:
  assumes "alert_step product c t e st = (st1, out)" "al_Status st1 = Escalated"
    and "al_LastSentAt st = Some s" "event_time e - s < nc_CooldownSeconds c * 1000000000"
    and "\<forall>n\<le>length es. al_Status (fst (alert_run product c t (take n es) st1)) = Escalated"
  shows "out @ snd (alert_run product c t es st1) = []"
  using step_sends [OF assms(1)] assms(2-4) constant_silent [of es product c t st1 Escalated] assms(5) by auto

subsection \<open>E-mail\<close>

text \<open>
  No e-mail is ever sent: an accepted sink whose server address has a port is refused by the
  sender itself, since it takes the third result of \<open>strings.Cut\<close> for an error, and one without a
  port by \<open>smtp.SendMail\<close>, which needs one.
\<close>

theorem no_email_is_ever_sent:
  assumes "buildNotificationRuntimeFromRaw decode mail_ok raw = Inr c" "s \<in> set (nc_Sinks c)"
    and needs_port: "\<forall>m. CHR '':'' \<notin> set (ml_Address m) \<longrightarrow> isl (sw_mail w m)"
  shows "isl (sendNotificationEmail w s d)"
proof -
  from assms(1,2) obtain i s0 where "s = normalizeNotificationSink i s0"
    by (auto simp: buildNotificationRuntimeFromRaw_def Let_def bindR_Inr normalizeNotificationConfig_def)
  then have trimmed: "TrimSpace (sk_SMTPAddress s) = sk_SMTPAddress s" by (simp add: normalizeNotificationSink_def)
  have colon: "Index x '':'' \<noteq> None" if "CHR '':'' \<in> set x" for x
    using that by (induction x) auto
  show ?thesis
  proof (cases "CHR '':'' \<in> set (sk_SMTPAddress s)")
    case True
    from colon [OF this] show ?thesis by (auto simp: sendNotificationEmail_def trimmed Let_def)
  next
    case False
    then show ?thesis using needs_port by (auto simp: sendNotificationEmail_def trimmed Let_def split: option.split prod.split)
  qed
qed

subsection \<open>A concrete configuration\<close>

definition demo_trigger :: notificationTriggerConfig where
  "demo_trigger = \<lparr>nt_Enabled = True, nt_WindowSeconds = 60, nt_ActiveThreshold = 1, nt_EscalatedThreshold = 2\<rparr>"

definition demo_notify :: notificationConfig where
  "demo_notify = \<lparr>nc_Enabled = True, nc_CooldownSeconds = 900,
     nc_Sinks = [\<lparr>sk_Name = ''ops'', sk_Type = ''email'', sk_Enabled = True, sk_TimeoutSec = 5, sk_WebhookURL = [], sk_Headers = [],
        sk_SMTPAddress = ''m:25'', sk_SMTPUsername = [], sk_SMTPPassword = [], sk_From = ''a@m'',
        sk_To = [''b@m''], sk_SubjectPrefix = []\<rparr>],
     nc_Upstream = demo_trigger, nc_Security = notificationTriggerConfig.extend demo_trigger \<lparr>nt_Sources = [''waf_block'']\<rparr>\<rparr>"

definition waf_hit :: "int \<Rightarrow> notificationObservation" where
  "waf_hit sec = \<lparr>no_Category = ''security'', no_Source = ''waf_block'', no_Path = ''/'', no_RemoteIP = ''192.0.2.1'', no_RequestID = ''1'',
     no_StatusCode = 403, no_Score = 0, no_ObservedAt = sec * 1000000000\<rparr>"

definition demo_events :: "alert_event list" where
  "demo_events = [Seen (waf_hit 61), Tick 120000000000, Seen (waf_hit 130), Seen (waf_hit 131)]"

lemma demo_run:
  "al_Status (fst (alert_run ''p'' demo_notify demo_trigger demo_events (new_alert (waf_hit 61)))) = Active"
  "al_LastSentAt (fst (alert_run ''p'' demo_notify demo_trigger demo_events (new_alert (waf_hit 61)))) = Some 120000000000"
  by code_simp+

theorem alert_follows_the_last_window_witness:
  "al_Status (fst (alert_run ''p'' demo_notify demo_trigger demo_events (new_alert (waf_hit 61)))) = classifyNotificationState demo_trigger 1
    \<and> ws_Count (al_CurrentSummary (fst (alert_run ''p'' demo_notify demo_trigger demo_events (new_alert (waf_hit 61))))) = 2"
proof -
  let ?es = "[Seen (waf_hit 61), Tick 120000000000, Seen (waf_hit 130)]" and ?e = "Seen (waf_hit 131)"
  have "proper_trigger demo_trigger" "steady demo_trigger (?es @ [?e])" "list_ex seen (?es @ [?e])"
    "seen_in demo_trigger (window_of demo_trigger ?e - 1) (?es @ [?e]) = 1" "seen_in demo_trigger (window_of demo_trigger ?e) (?es @ [?e]) = 2"
    by code_simp+
  from alert_follows_the_last_window [OF this(1-3), of "''p''" demo_notify "waf_hit 61"] this(4,5)
  show ?thesis by (simp add: demo_events_def split: prod.splits)
qed

theorem messages_keep_the_cooldown_witness:
  "sorted_wrt (\<lambda>d d'. nc_CooldownSeconds demo_notify * 1000000000 \<le> dp_ObservedAt d' - dp_ObservedAt d)
    (snd (alert_run ''p'' demo_notify demo_trigger (demo_events @ [Tick 180000000000]) (new_alert (waf_hit 61))))"
  by (rule messages_keep_the_cooldown) (simp add: demo_notify_def)

theorem escalation_in_cooldown_is_never_reported_witness:
  "\<exists>st1 out. alert_step ''p'' demo_notify demo_trigger (Tick 180000000000)
       (fst (alert_run ''p'' demo_notify demo_trigger demo_events (new_alert (waf_hit 61)))) = (st1, out)
     \<and> al_Status st1 = Escalated \<and> out @ snd (alert_run ''p'' demo_notify demo_trigger [Seen (waf_hit 190), Tick 200000000000] st1) = []"
proof -
  let ?st = "fst (alert_run ''p'' demo_notify demo_trigger demo_events (new_alert (waf_hit 61)))"
  let ?es = "[Seen (waf_hit 190), Tick 200000000000]"
  obtain st1 out where s: "alert_step ''p'' demo_notify demo_trigger (Tick 180000000000) ?st = (st1, out)" by fastforce
  have e: "list_all (\<lambda>n. al_Status (fst (alert_run ''p'' demo_notify demo_trigger (take n ?es)
      (fst (alert_step ''p'' demo_notify demo_trigger (Tick 180000000000) ?st)))) = Escalated) [0, 1, 2]" by code_simp
  have "\<forall>n\<le>length ?es. al_Status (fst (alert_run ''p'' demo_notify demo_trigger (take n ?es) st1)) = Escalated"
    using e by (auto simp: s le_Suc_eq numeral_2_eq_2)
  moreover from e have "al_Status st1 = Escalated" by (simp add: s)
  moreover have "event_time (Tick 180000000000) - 120000000000 < nc_CooldownSeconds demo_notify * 1000000000" by code_simp
  ultimately have "out @ snd (alert_run ''p'' demo_notify demo_trigger ?es st1) = []"
    using escalation_in_cooldown_is_never_reported [OF s _ demo_run(2)] by blast
  with s \<open>al_Status st1 = Escalated\<close> show ?thesis by blast
qed

theorem no_email_is_ever_sent_witness:
  "\<exists>c s. buildNotificationRuntimeFromRaw (\<lambda>_. Inr demo_notify) (\<lambda>_. Inr ()) ''{}'' = Inr c \<and> s \<in> set (nc_Sinks c)
     \<and> sk_SMTPAddress s = ''m:25'' \<and> (\<forall>d. isl (sendNotificationEmail
          \<lparr>sw_post = (\<lambda>_ _. Inr 200), sw_mail = (\<lambda>m. if CHR '':'' \<in> set (ml_Address m) then Inr () else err ''missing port'' [])\<rparr> s d))"
proof -
  have valid: "validateNotificationConfig (\<lambda>_. Inr ()) (normalizeNotificationConfig demo_notify) = Inr ()" by code_simp
  have m: "map sk_SMTPAddress (nc_Sinks (normalizeNotificationConfig demo_notify)) = [''m:25'']" by code_simp
  from valid have c: "buildNotificationRuntimeFromRaw (\<lambda>_. Inr demo_notify) (\<lambda>_. Inr ()) ''{}'' = Inr (normalizeNotificationConfig demo_notify)"
    by (simp add: buildNotificationRuntimeFromRaw_def)
  from m obtain s where s: "s \<in> set (nc_Sinks (normalizeNotificationConfig demo_notify))" "sk_SMTPAddress s = ''m:25''" by auto
  from no_email_is_ever_sent [OF c s(1), of "\<lparr>sw_post = (\<lambda>_ _. Inr 200), sw_mail = (\<lambda>m. if CHR '':'' \<in> set (ml_Address m) then Inr () else err ''missing port'' [])\<rparr>"]
  show ?thesis using c s by auto
qed

end
