(* ===== verification/Go_Float.thy ===== *)
theory Go_Float
  imports Complex_Main "HOL-Library.Log_Nat"
begin

text \<open>
  The \<open>float64\<close> arithmetic the program uses, on rational numbers: an operation is the exact one
  followed by rounding to 53 significant bits, to nearest with ties to even.  Only values that are
  zero or positive and in the normal range occur, so exponents are unbounded here; the operations
  are not fused.
\<close>

definition round_even :: "rat \<Rightarrow> int" where
  "round_even x = (let f = \<lfloor>x\<rfloor>; d = x - of_int f in
     if d < 1 / 2 \<or> (d = 1 / 2 \<and> even f) then f else f + 1)"

definition binary_exponent :: "rat \<Rightarrow> int" where
  \<comment> \<open>of a positive number: \<open>2 powi e \<le> x < 2 powi (e + 1)\<close>\<close>
  "binary_exponent x = (case quotient_of x of (p, q) \<Rightarrow>
     let e = bitlen p - bitlen q in if 2 powi e \<le> x then e else e - 1)"

definition float64 :: "rat \<Rightarrow> rat" where
  "float64 x =
     (if x \<le> 0 then 0
      else let u = 2 powi (binary_exponent x - 52) in of_int (round_even (x / u)) * u)"

lemma round_even_of_int [simp]: "round_even (of_int i) = i"
  by (simp add: round_even_def)

lemma round_even_nonneg: "0 \<le> x \<Longrightarrow> 0 \<le> round_even x"
  by (auto simp: round_even_def Let_def)

lemma float64_nonneg [simp]: "0 \<le> float64 x"
  by (auto simp: float64_def Let_def intro!: mult_nonneg_nonneg round_even_nonneg divide_nonneg_nonneg)

lemma float64_zero [simp]: "float64 0 = 0"
  by (simp add: float64_def)

lemma binary_exponent_of_int:
  assumes "0 < i"
  shows "binary_exponent (of_int i) = bitlen i - 1"
proof -
  have q: "quotient_of (of_int i) = (i, 1)" by (simp add: quotient_of_int)
  have b1: "bitlen 1 = 1" by (simp add: compute_bitlen)
  have pos: "1 \<le> bitlen i" using assms bitlen_nonneg [of i] bitlen_eq_zero_iff [of i] by linarith
  have "(2::rat) powi (bitlen i - 1) = of_int (2 ^ nat (bitlen i - 1))"
    using pos by (simp add: power_int_def)
  also have "\<dots> \<le> of_int i" using bitlen_bounds [OF assms] by (subst of_int_le_iff) simp
  finally show ?thesis by (simp add: binary_exponent_def q b1)
qed

lemma float64_of_int:
  assumes "0 \<le> i" "i \<le> 2 ^ 53"
  shows "float64 (of_int i) = of_int i"
proof (cases "i = 0 \<or> i = 2 ^ 53")
  case True
  moreover have "float64 (of_int (2 ^ 53)) = of_int (2 ^ 53)"
  proof -
    have "binary_exponent (of_int (2 ^ 53)) = 53"
      using binary_exponent_of_int [of "2 ^ 53"] bitlen_pow2 [of 1 53] by (simp add: compute_bitlen [of 1])
    moreover have "round_even (of_int (2 ^ 52)) = 2 ^ 52" by (rule round_even_of_int)
    ultimately show ?thesis by (simp add: float64_def Let_def)
  qed
  ultimately show ?thesis by auto
next
  case False
  with assms have i: "0 < i" "i < 2 ^ 53" by auto
  define k where "k = nat (53 - bitlen i)"
  have "bitlen i \<le> 53" using i bitlen_le_iff_power [of i 53] by simp
  then have e: "binary_exponent (of_int i) - 52 = - int k"
    using binary_exponent_of_int [OF i(1)] by (simp add: k_def)
  have "(of_int i :: rat) / 2 powi (- int k) = of_int (i * 2 ^ k)" by (simp add: power_int_minus divide_inverse)
  then have r: "round_even (of_int i / 2 powi (- int k)) = i * 2 ^ k" by (simp only: round_even_of_int)
  have u: "(2::rat) powi (- int k) = 1 / 2 ^ k" by (simp add: power_int_minus divide_inverse)
  show ?thesis using i(1) by (simp add: float64_def Let_def e r) (simp add: u)
qed

subsection \<open>Rounding is monotone\<close>

lemma round_even_mono: "x \<le> y \<Longrightarrow> round_even x \<le> round_even y"
proof -
  assume xy: "x \<le> y"
  show ?thesis
  proof (cases "\<lfloor>x\<rfloor> = \<lfloor>y\<rfloor>")
    case True
    with xy show ?thesis by (auto simp: round_even_def Let_def)
  next
    case False
    with floor_mono [OF xy] have "\<lfloor>x\<rfloor> + 1 \<le> \<lfloor>y\<rfloor>" by linarith
    then show ?thesis by (auto simp: round_even_def Let_def)
  qed
qed

lemma binary_exponent:
  assumes "0 < x"
  shows "2 powi binary_exponent x \<le> x" "x < 2 powi (binary_exponent x + 1)"
proof -
  obtain p q where pq: "quotient_of x = (p, q)" by fastforce
  then have x: "x = of_int p / of_int q" and q: "0 < q" by (auto simp: quotient_of_div quotient_of_denom_pos)
  with assms have p: "0 < p" by (simp add: zero_less_divide_iff)
  define a b where "a = nat (bitlen p - 1)" and "b = nat (bitlen q - 1)"
  have len: "bitlen p = int a + 1" "bitlen q = int b + 1"
    using p q bitlen_nonneg [of p] bitlen_nonneg [of q] bitlen_eq_zero_iff [of p] bitlen_eq_zero_iff [of q]
    by (auto simp: a_def b_def)
  have "(of_int (2 ^ a) :: rat) \<le> of_int p" "(of_int p :: rat) < of_int (2 ^ Suc a)"
    "(of_int (2 ^ b) :: rat) \<le> of_int q" "(of_int q :: rat) < of_int (2 ^ Suc b)"
    unfolding of_int_le_iff of_int_less_iff using bitlen_bounds [OF p] bitlen_bounds [OF q] len by (simp_all add: nat_add_distrib)
  then have pb: "(2::rat) ^ a \<le> of_int p" "(of_int p :: rat) < 2 * 2 ^ a"
    and qb: "(2::rat) ^ b \<le> of_int q" "(of_int q :: rat) < 2 * 2 ^ b" by simp_all
  have e: "(2::rat) powi (int a - int b) = 2 ^ a / 2 ^ b" by (simp add: power_int_diff)
  have Q: "(0::rat) < of_int q" using q by simp
  have hi: "x < 2 * (2 ^ a / 2 ^ b)"
  proof -
    have "x \<le> of_int p / 2 ^ b" unfolding x using qb(1) p Q by (intro divide_left_mono) auto
    also have "\<dots> < 2 * 2 ^ a / 2 ^ b" using pb(2) by (intro divide_strict_right_mono) auto
    finally show ?thesis by simp
  qed
  have lo: "2 ^ a / 2 ^ b / 2 < x"
  proof -
    have "2 ^ a / (2 * 2 ^ b) < 2 ^ a / (of_int q :: rat)" using qb(2) Q by (intro divide_strict_left_mono) auto
    also have "\<dots> \<le> x" unfolding x using pb(1) Q by (intro divide_right_mono) auto
    finally show ?thesis by (simp add: mult.commute)
  qed
  have s: "2 powi (int a - int b + 1) = 2 * (2 ^ a / (2::rat) ^ b)" "2 powi (int a - int b - 1) = 2 ^ a / (2::rat) ^ b / 2"
    by (simp_all add: power_int_add power_int_diff e)
  have be: "binary_exponent x = (if 2 ^ a / 2 ^ b \<le> x then int a - int b else int a - int b - 1)"
    by (simp add: binary_exponent_def pq len e Let_def)
  show "2 powi binary_exponent x \<le> x" using lo by (simp add: be e s)
  show "x < 2 powi (binary_exponent x + 1)" using hi by (auto simp: be e s)
qed

lemma round_even_bounds:
  "of_int i \<le> x \<Longrightarrow> i \<le> round_even x" "x \<le> of_int i \<Longrightarrow> round_even x \<le> i"
  using round_even_mono [of "of_int i" x] round_even_mono [of x "of_int i"] by simp_all

lemma float64_bounds:
  assumes "0 < x"
  shows "2 powi binary_exponent x \<le> float64 x" "float64 x \<le> 2 powi (binary_exponent x + 1)"
proof -
  define e where "e = binary_exponent x"
  define u :: rat where "u = 2 powi (e - 52)"
  have u: "0 < u" by (simp add: u_def)
  have k: "2 powi e = of_int (2 ^ 52) * u" "2 powi (e + 1) = of_int (2 ^ 53) * u"
    by (simp_all add: u_def power_int_add power_int_diff)
  have "of_int (2 ^ 52) \<le> x / u" "x / u \<le> of_int (2 ^ 53)"
    using binary_exponent [OF assms] u unfolding e_def [symmetric] k by (simp_all add: pos_le_divide_eq pos_divide_le_eq)
  then have r: "2 ^ 52 \<le> round_even (x / u)" "round_even (x / u) \<le> 2 ^ 53"
    using round_even_bounds by blast+
  have f: "float64 x = of_int (round_even (x / u)) * u"
    using assms by (simp add: float64_def Let_def u_def e_def)
  from r show "2 powi binary_exponent x \<le> float64 x" "float64 x \<le> 2 powi (binary_exponent x + 1)"
    unfolding e_def [symmetric] k f using u by (auto intro!: mult_right_mono simp only: of_int_le_iff)
qed

theorem float64_mono: "x \<le> y \<Longrightarrow> float64 x \<le> float64 y"
proof -
  assume xy: "x \<le> y"
  show ?thesis
  proof (cases "x \<le> 0")
    case True
    then show ?thesis by (simp add: float64_def [of x])
  next
    case False
    with xy have pos: "0 < x" "0 < y" by auto
    let ?e = "binary_exponent x" and ?f = "binary_exponent y"
    have "(2::rat) powi ?e < 2 powi (?f + 1)"
      using binary_exponent(1) [OF pos(1)] xy binary_exponent(2) [OF pos(2)] by linarith
    then have ef: "?e \<le> ?f" using power_int_increasing [of "?f + 1" ?e "2::rat"] by linarith
    show ?thesis
    proof (cases "?e = ?f")
      case True
      have u: "0 < (2::rat) powi (?f - 52)" by simp
      have "round_even (x / 2 powi (?f - 52)) \<le> round_even (y / 2 powi (?f - 52))"
        using xy u by (intro round_even_mono divide_right_mono) auto
      then show ?thesis using pos True by (simp add: float64_def Let_def)
    next
      case False
      with ef have "(2::rat) powi (?e + 1) \<le> 2 powi ?f" by (intro power_int_increasing) auto
      with float64_bounds(2) [OF pos(1)] float64_bounds(1) [OF pos(2)] show ?thesis by linarith
    qed
  qed
qed

end
