(* ===== verification/Admin_Guards.thy ===== *)
theory Admin_Guards
  imports Ip_Reputation Proxy_Selection Go_Float
begin

text \<open>
  What stands before the administration API, its pages and the proxy itself
  (\<open>handler/admin_guards.go\<close>, \<open>handler/admin_ui.go\<close>, \<open>middleware/api_key.go\<close>,
  \<open>middleware/concurrency_limit.go\<close> and their order in \<open>cmd/server/main.go\<close>): who may reach it from
  where, how often, with which key, and how many requests run at once.  Instants are in nanoseconds.
\<close>

subsection \<open>Settings\<close>

record admin_settings =
  as_ExternalMode :: string
  as_TrustedCIDRs :: "string list"
  as_TrustForwardedFor :: bool
  as_RateEnabled :: bool
  as_RPS :: int
  as_Burst :: int
  as_StatusCode :: int
  as_RetryAfter :: int
  as_AuthDisable :: bool
  as_KeyPrimary :: string
  as_KeySecondary :: string

datatype admin_endpoint = EndpointAPI | EndpointUI

subsection \<open>Access by address\<close>

record adminAccessControl =
  aa_mode :: string
  aa_trustForwardedFor :: bool
  aa_trustedCIDRs :: "Prefix list"

definition defaultAdminTrustedCIDRs :: "string list" where
  "defaultAdminTrustedCIDRs = [''127.0.0.1/32'', ''::1/128'', ''10.0.0.0/8'', ''172.16.0.0/12'', ''192.168.0.0/16'']"

fun parse_cidrs :: "string list \<Rightarrow> Prefix list result" where
  "parse_cidrs [] = Inr []"
| "parse_cidrs (raw # raws) = bindR (ParsePrefix (TrimSpace raw)) (\<lambda>p. bindR (parse_cidrs raws) (\<lambda>ps. Inr (p # ps)))"

definition newAdminAccessControl :: "admin_settings \<Rightarrow> adminAccessControl result" where
  "newAdminAccessControl s =
     (let m = ToLower (TrimSpace (as_ExternalMode s)); mode = (if m = [] then ''full_external'' else m) in
      seqR (guardR (mode \<notin> set [''deny_external'', ''api_only_external'', ''full_external''])
             (Errorf ''admin.external_mode must be one of: deny_external, api_only_external, full_external'' []))
        (bindR (parse_cidrs (if as_TrustedCIDRs s = [] then defaultAdminTrustedCIDRs else as_TrustedCIDRs s)) (\<lambda>ps.
           Inr \<lparr>aa_mode = mode, aa_trustForwardedFor = as_TrustForwardedFor s, aa_trustedCIDRs = ps\<rparr>)))"

definition parseIPLiteral :: "string \<Rightarrow> Addr option" where
  "parseIPLiteral raw =
     (let v = TrimSpace raw in
      if v = [] then None
      else let w = (case IndexByte v (CHR ''%'') of Some i \<Rightarrow> take i v | None \<Rightarrow> v) in
        case ParseAddr w of Inl e \<Rightarrow> None | Inr ip \<Rightarrow> Some (Unmap ip))"

fun first_literal :: "string list \<Rightarrow> Addr option" where
  "first_literal [] = None"
| "first_literal (p # ps) = (case parseIPLiteral p of Some ip \<Rightarrow> Some ip | None \<Rightarrow> first_literal ps)"

definition parseXForwardedForIP :: "string \<Rightarrow> Addr option" where
  "parseXForwardedForIP raw = first_literal (SplitByte raw (CHR '',''))"

definition isAdminIPTrusted :: "Prefix list \<Rightarrow> Addr \<Rightarrow> bool" where
  "isAdminIPTrusted prefixes ip = list_ex (\<lambda>p. Prefix_Contains p ip) prefixes"

definition resolveAdminClientIP :: "Request \<Rightarrow> bool \<Rightarrow> Prefix list \<Rightarrow> Addr option" where
  "resolveAdminClientIP r trustForwarded trustedCIDRs =
     (let host = (case net_SplitHostPort (rq_RemoteAddr r) of Inr (h, p) \<Rightarrow> h | Inl e \<Rightarrow> rq_RemoteAddr r) in
      case parseIPLiteral host of
        None \<Rightarrow> None
      | Some sourceIP \<Rightarrow>
          if trustForwarded \<and> isAdminIPTrusted trustedCIDRs sourceIP then
            (case parseXForwardedForIP (Header_Get (rq_Header r) ''X-Forwarded-For'') of
               Some ip \<Rightarrow> Some ip
             | None \<Rightarrow> (case parseIPLiteral (Header_Get (rq_Header r) ''X-Real-IP'') of
                 Some ip \<Rightarrow> Some ip | None \<Rightarrow> Some sourceIP))
          else Some sourceIP)"

definition allowsEndpoint :: "adminAccessControl option \<Rightarrow> Request \<Rightarrow> admin_endpoint \<Rightarrow> bool" where
  "allowsEndpoint ac r kind =
     (case ac of
        None \<Rightarrow> True
      | Some a \<Rightarrow>
          (case resolveAdminClientIP r (aa_trustForwardedFor a) (aa_trustedCIDRs a) of
             None \<Rightarrow> False
           | Some ip \<Rightarrow>
               isAdminIPTrusted (aa_trustedCIDRs a) ip \<or> aa_mode a = ''full_external''
               \<or> aa_mode a = ''api_only_external'' \<and> kind = EndpointAPI))"

subsection \<open>The token buckets\<close>

record adminRateLimitStats =
  ars_Requests :: "64 word"
  ars_Allowed :: "64 word"
  ars_Blocked :: "64 word"

record adminRateLimitDecision =
  ard_Allowed :: bool
  ard_StatusCode :: int
  ard_RetryAfterSeconds :: int

record adminTokenBucket =
  tb_Tokens :: rat
  tb_Last :: int

record adminRateLimiter =
  arl_enabled :: bool
  arl_rps :: rat
  arl_burst :: rat
  arl_statusCode :: int
  arl_retryAfterSeconds :: int
  arl_buckets :: "(string \<times> adminTokenBucket) list"
  arl_stats :: adminRateLimitStats

definition no_admin_stats :: adminRateLimitStats where
  "no_admin_stats = \<lparr>ars_Requests = 0, ars_Allowed = 0, ars_Blocked = 0\<rparr>"

definition limiter_Update :: "admin_settings \<Rightarrow> adminRateLimiter \<Rightarrow> adminRateLimiter" where
  \<comment> \<open>a negative rate or burst becomes zero, which is treated alike\<close>
  "limiter_Update s r =
     r\<lparr>arl_enabled := as_RateEnabled s, arl_rps := float64 (of_int (as_RPS s)), arl_burst := float64 (of_int (as_Burst s)),
       arl_statusCode := (if as_StatusCode s = 0 then 429 else as_StatusCode s), arl_retryAfterSeconds := as_RetryAfter s,
       arl_buckets := (if as_RateEnabled s then arl_buckets r else [])\<rparr>"

definition newAdminRateLimiter :: "admin_settings \<Rightarrow> adminRateLimiter" where
  "newAdminRateLimiter s = limiter_Update s
     \<lparr>arl_enabled = False, arl_rps = 0, arl_burst = 0, arl_statusCode = 0, arl_retryAfterSeconds = 0, arl_buckets = [],
      arl_stats = no_admin_stats\<rparr>"

definition adminRateLimitKey :: "Request \<Rightarrow> string" where
  "adminRateLimitKey r =
     (let key = TrimSpace (Header_Get (rq_Header r) ''X-API-Key'') in
      join_with ''|'' (if key = [] then [requestRemoteIP r] else [requestRemoteIP r, hex_encode (take 8 (sha256 key))]))"

definition duration_seconds :: "int \<Rightarrow> rat" where
  \<comment> \<open>\<open>Duration.Seconds\<close>, for a duration that is not negative\<close>
  "duration_seconds d = float64 (float64 (of_int (d div 1000000000)) + float64 (float64 (of_int (d mod 1000000000)) / 1000000000))"

definition refilled :: "adminRateLimiter \<Rightarrow> int \<Rightarrow> adminTokenBucket \<Rightarrow> rat" where
  "refilled r now b =
     (let elapsed = duration_seconds (max 0 (now - tb_Last b));
          t = float64 (tb_Tokens b + float64 (elapsed * arl_rps r))
      in if arl_burst r < t then arl_burst r else t)"

definition pruneLocked :: "int \<Rightarrow> (string \<times> adminTokenBucket) list \<Rightarrow> (string \<times> adminTokenBucket) list" where
  "pruneLocked cutoff bs = filter (\<lambda>(k, b). \<not> tb_Last b < cutoff) bs"

definition admin_pass :: adminRateLimitDecision where
  "admin_pass = \<lparr>ard_Allowed = True, ard_StatusCode = 0, ard_RetryAfterSeconds = 0\<rparr>"

definition admin_Evaluate :: "int \<Rightarrow> Request \<Rightarrow> adminRateLimiter \<Rightarrow> adminRateLimitDecision \<times> adminRateLimiter" where
  "admin_Evaluate now req r0 =
     (let st = (arl_stats r0)\<lparr>ars_Requests := ars_Requests (arl_stats r0) + 1\<rparr>; r = r0\<lparr>arl_stats := st\<rparr> in
      if \<not> arl_enabled r \<or> arl_rps r \<le> 0 \<or> arl_burst r \<le> 0
      then (admin_pass, r\<lparr>arl_stats := st\<lparr>ars_Allowed := ars_Allowed st + 1\<rparr>\<rparr>)
      else let key = adminRateLimitKey req;
               b = (case map_of (arl_buckets r) key of None \<Rightarrow> \<lparr>tb_Tokens = arl_burst r, tb_Last = now\<rparr> | Some b \<Rightarrow> b);
               t = refilled r now b
           in if t < 1
              then (\<lparr>ard_Allowed = False, ard_StatusCode = arl_statusCode r, ard_RetryAfterSeconds = arl_retryAfterSeconds r\<rparr>,
                    r\<lparr>arl_buckets := aput key \<lparr>tb_Tokens = t, tb_Last = now\<rparr> (arl_buckets r),
                      arl_stats := st\<lparr>ars_Blocked := ars_Blocked st + 1\<rparr>\<rparr>)
              else let bs = aput key \<lparr>tb_Tokens = float64 (t - 1), tb_Last = now\<rparr> (arl_buckets r)
                   in (admin_pass,
                       r\<lparr>arl_buckets := (if 4096 < length bs then pruneLocked (now - 600000000000) bs else bs),
                         arl_stats := st\<lparr>ars_Allowed := ars_Allowed st + 1\<rparr>\<rparr>))"

definition AdminRateLimitStatsSnapshot :: "adminRateLimiter option \<Rightarrow> adminRateLimitStats" where
  "AdminRateLimitStatsSnapshot r = (case r of None \<Rightarrow> no_admin_stats | Some l \<Rightarrow> arl_stats l)"

subsection \<open>The middleware\<close>

record guards =
  gd_access :: "adminAccessControl option"
  gd_rate :: "adminRateLimiter option"

record refusal =
  rf_Status :: int
  rf_RetryAfter :: "int option"

definition InitAdminGuards :: "admin_settings \<Rightarrow> guards result" where
  "InitAdminGuards s = bindR (newAdminAccessControl s) (\<lambda>a. Inr \<lparr>gd_access = Some a, gd_rate = Some (newAdminRateLimiter s)\<rparr>)"

definition AdminAccessMiddleware :: "admin_endpoint \<Rightarrow> Request \<Rightarrow> guards \<Rightarrow> refusal option" where
  "AdminAccessMiddleware kind r g =
     (if \<not> allowsEndpoint (gd_access g) r kind then Some \<lparr>rf_Status = 403, rf_RetryAfter = None\<rparr> else None)"

definition AdminRateLimitMiddleware :: "int \<Rightarrow> Request \<Rightarrow> guards \<Rightarrow> refusal option \<times> guards" where
  "AdminRateLimitMiddleware now r g =
     (case gd_rate g of
        None \<Rightarrow> (None, g)
      | Some l \<Rightarrow>
          (case admin_Evaluate now r l of (d, l1) \<Rightarrow>
             (if ard_Allowed d then None
              else Some \<lparr>rf_Status = ard_StatusCode d,
                     rf_RetryAfter = (if 0 < ard_RetryAfterSeconds d then Some (ard_RetryAfterSeconds d) else None)\<rparr>,
              g\<lparr>gd_rate := Some l1\<rparr>)))"

definition secureKeyMatch :: "string \<Rightarrow> string \<Rightarrow> bool" where
  "secureKeyMatch got expected = (got \<noteq> [] \<and> expected \<noteq> [] \<and> length got = length expected \<and> got = expected)"

definition APIKeyAuth :: "admin_settings \<Rightarrow> Request \<Rightarrow> refusal option" where
  "APIKeyAuth s r =
     (if as_AuthDisable s then None
      else let key = TrimSpace (Header_Get (rq_Header r) ''X-API-Key'');
               no = Some \<lparr>rf_Status = 401, rf_RetryAfter = None\<rparr>
           in if as_KeyPrimary s = [] \<and> as_KeySecondary s = [] then no
              else if secureKeyMatch key (as_KeyPrimary s) \<or> secureKeyMatch key (as_KeySecondary s) then None
              else no)"

definition admin_api :: "admin_settings \<Rightarrow> int \<Rightarrow> Request \<Rightarrow> guards \<Rightarrow> refusal option \<times> guards" where
  \<comment> \<open>the handlers before every route of the API group, in their order\<close>
  "admin_api s now r g =
     (case AdminAccessMiddleware EndpointAPI r g of
        Some no \<Rightarrow> (Some no, g)
      | None \<Rightarrow>
          (case AdminRateLimitMiddleware now r g of
             (Some no, g1) \<Rightarrow> (Some no, g1)
           | (None, g1) \<Rightarrow> (APIKeyAuth s r, g1)))"

subsection \<open>The pages\<close>

datatype ui_node = UIDir | UIFile string

definition readAdminUIAsset :: "(string \<Rightarrow> ui_node option) \<Rightarrow> string \<Rightarrow> (string \<times> string \<times> bool) option" where
  \<comment> \<open>content, path and whether it is the placeholder\<close>
  "readAdminUIAsset files relPath =
     (let p0 = (if relPath = [] then ''index.html'' else relPath);
          p1 = TrimPrefix (path_Clean (''/'' @ p0)) ''/'';
          p2 = (if p1 = ''.'' then ''index.html'' else p1);
          p = (if p2 \<noteq> ''index.html'' \<and> files p2 = None then ''index.html'' else p2)
      in case files p of
           Some (UIFile raw) \<Rightarrow> Some (raw, p, False)
         | _ \<Rightarrow> if p \<noteq> ''index.html'' then None
                else (case files ''placeholder.html'' of Some (UIFile raw) \<Rightarrow> Some (raw, ''placeholder.html'', True) | _ \<Rightarrow> None))"

definition admin_page ::
  "(string \<Rightarrow> ui_node option) \<Rightarrow> int \<Rightarrow> Request \<Rightarrow> string \<Rightarrow> guards \<Rightarrow> (refusal + (string \<times> string \<times> bool)) \<times> guards" where
  "admin_page files now r relPath g =
     (if \<not> allowsEndpoint (gd_access g) r EndpointUI then (Inl \<lparr>rf_Status = 403, rf_RetryAfter = None\<rparr>, g)
      else case AdminRateLimitMiddleware now r g of
        (Some no, g1) \<Rightarrow> (Inl no, g1)
      | (None, g1) \<Rightarrow>
          ((case readAdminUIAsset files (TrimPrefix relPath ''/'') of
              None \<Rightarrow> Inl \<lparr>rf_Status = 404, rf_RetryAfter = None\<rparr> | Some page \<Rightarrow> Inr page), g1))"

subsection \<open>How many requests run at once\<close>

record ConcurrencyGuard =
  cg_name :: string
  cg_max :: nat
  cg_sem :: nat        \<comment> \<open>elements in the channel\<close>

definition NewConcurrencyGuard :: "int \<Rightarrow> string \<Rightarrow> ConcurrencyGuard option" where
  "NewConcurrencyGuard mx name =
     (if mx \<le> 0 then None
      else Some \<lparr>cg_name = (if TrimSpace name = [] then ''global'' else TrimSpace name), cg_max = nat mx, cg_sem = 0\<rparr>)"

definition guard_Name :: "ConcurrencyGuard option \<Rightarrow> string" where
  "guard_Name g = (case g of None \<Rightarrow> ''global'' | Some c \<Rightarrow> cg_name c)"

definition guard_Acquire :: "ConcurrencyGuard option \<Rightarrow> bool \<times> ConcurrencyGuard option" where
  "guard_Acquire g = (case g of None \<Rightarrow> (True, None)
     | Some c \<Rightarrow> if cg_sem c < cg_max c then (True, Some (c\<lparr>cg_sem := cg_sem c + 1\<rparr>)) else (False, Some c))"

definition guard_Release :: "ConcurrencyGuard option \<Rightarrow> ConcurrencyGuard option" where
  "guard_Release g = map_option (\<lambda>c. c\<lparr>cg_sem := cg_sem c - 1\<rparr>) g"

definition guard_Reject :: "ConcurrencyGuard option \<Rightarrow> refusal" where
  "guard_Reject g = \<lparr>rf_Status = 503, rf_RetryAfter = Some 1\<rparr>"

definition ConcurrencyLimit :: "(unit \<Rightarrow> 'r \<times> ConcurrencyGuard option) \<Rightarrow> ConcurrencyGuard option \<Rightarrow> (refusal + 'r) \<times> ConcurrencyGuard option" where
  \<comment> \<open>the rest of the chain runs between acquisition and release, on the guard the other requests leave\<close>
  "ConcurrencyLimit chain g =
     (case g of None \<Rightarrow> (case chain () of (r, g1) \<Rightarrow> (Inr r, g1))
      | Some c \<Rightarrow> (case guard_Acquire g of
           (False, g1) \<Rightarrow> (Inl (guard_Reject g1), g1)
         | (True, g1) \<Rightarrow> (case chain () of (r, g2) \<Rightarrow> (Inr r, guard_Release g2))))"

datatype no_route = RouteNotFound | RouteBusy refusal | RouteProxy

definition NoRoute_enter :: "string \<Rightarrow> string \<Rightarrow> ConcurrencyGuard option \<Rightarrow> no_route \<times> ConcurrencyGuard option" where
  \<comment> \<open>the path of the API, the path of the request; the proxy handler runs on \<open>RouteProxy\<close>\<close>
  "NoRoute_enter apiBase p g =
     (if HasPrefix p apiBase then (RouteNotFound, g)
      else case guard_Acquire g of
        (False, g1) \<Rightarrow> (RouteBusy (guard_Reject g1), g1)
      | (True, g1) \<Rightarrow> (RouteProxy, g1))"

end
