(* ===== verification/Admin_Guards_Correct.thy ===== *)
theory Admin_Guards_Correct
  imports Admin_Guards
begin

text \<open>
  Correctness of the administration guards: who reaches the API, what a burst of requests gets, why
  guesses of the key are not limited, and how many requests run at once.
\<close>

subsection \<open>Who reaches the API\<close>

lemma parse_cidrs_covers: "parse_cidrs raws = Inr ps \<Longrightarrow> p \<in> set ps \<Longrightarrow> \<exists>raw\<in>set raws. ParsePrefix (TrimSpace raw) = Inr p"
  by (induction raws arbitrary: ps) (auto simp: bindR_Inr)

lemma api_passes:
  "fst (admin_api s now r g) = None \<longleftrightarrow>
     allowsEndpoint (gd_access g) r EndpointAPI \<and> fst (AdminRateLimitMiddleware now r g) = None \<and> APIKeyAuth s r = None"
  by (auto simp: admin_api_def AdminAccessMiddleware_def split: prod.split option.split)

lemma key_given:
  "\<not> as_AuthDisable s \<Longrightarrow> APIKeyAuth s r = None \<Longrightarrow>
     TrimSpace (Header_Get (rq_Header r) ''X-API-Key'') \<in> {as_KeyPrimary s, as_KeySecondary s} - {[]}"
  by (auto simp: APIKeyAuth_def secureKeyMatch_def Let_def split: if_splits)

text \<open>
  C28: With \<open>deny_external\<close>, forwarded addresses not trusted and authentication on, a request that
  reaches an API handler comes over a connection from one of the listed ranges and carries one of
  the configured keys, whatever else it says.
\<close>

theorem admin_request_is_local_and_keyed:
  assumes "InitAdminGuards s = Inr g0" "ToLower (TrimSpace (as_ExternalMode s)) = ''deny_external''"
    "\<not> as_TrustForwardedFor s" "\<not> as_AuthDisable s"
    "gd_access g = gd_access g0" "fst (admin_api s now r g) = None"
  shows "TrimSpace (Header_Get (rq_Header r) ''X-API-Key'') \<in> {as_KeyPrimary s, as_KeySecondary s} - {[]}
    \<and> (\<exists>ip p raw. parseIPLiteral (case net_SplitHostPort (rq_RemoteAddr r) of Inr (h, port) \<Rightarrow> h | Inl e \<Rightarrow> rq_RemoteAddr r) = Some ip
         \<and> raw \<in> set (if as_TrustedCIDRs s = [] then defaultAdminTrustedCIDRs else as_TrustedCIDRs s)
         \<and> ParsePrefix (TrimSpace raw) = Inr p \<and> Prefix_Contains p ip)"
proof -
  from assms(1) obtain a where a: "newAdminAccessControl s = Inr a" "gd_access g0 = Some a"
    by (auto simp: InitAdminGuards_def bindR_Inr)
  have fields: "aa_mode a = ''deny_external''" "\<not> aa_trustForwardedFor a"
    "parse_cidrs (if as_TrustedCIDRs s = [] then defaultAdminTrustedCIDRs else as_TrustedCIDRs s) = Inr (aa_trustedCIDRs a)"
    using a(1) assms(2,3) by (auto simp: newAdminAccessControl_def Let_def bindR_Inr)
  have pass: "allowsEndpoint (Some a) r EndpointAPI" "APIKeyAuth s r = None"
    using assms(5,6) a(2) by (auto simp: api_passes)
  from pass(1) fields obtain ip p where
    "parseIPLiteral (case net_SplitHostPort (rq_RemoteAddr r) of Inr (h, port) \<Rightarrow> h | Inl e \<Rightarrow> rq_RemoteAddr r) = Some ip"
    "p \<in> set (aa_trustedCIDRs a)" "Prefix_Contains p ip"
    by (auto simp: allowsEndpoint_def resolveAdminClientIP_def Let_def isAdminIPTrusted_def list_ex_iff split: option.splits)
  then show ?thesis using parse_cidrs_covers [OF fields(3)] key_given [OF assms(4) pass(2)] by blast
qed

text \<open>
  Behind a reverse proxy whose address is trusted and which, as usual, appends the peer to
  \<open>X-Forwarded-For\<close>, the client chooses the address that is judged: the first entry is taken, not
  the one the proxy appended, so naming a trusted address opens every endpoint in every mode.
\<close>

theorem forwarded_address_opens_the_administration:
  assumes "newAdminAccessControl s = Inr a" "as_TrustForwardedFor s"
    and peer: "parseIPLiteral (case net_SplitHostPort (rq_RemoteAddr r) of Inr (h, port) \<Rightarrow> h | Inl e \<Rightarrow> rq_RemoteAddr r) = Some proxy"
      "isAdminIPTrusted (aa_trustedCIDRs a) proxy"
    and named: "parseIPLiteral claimed = Some ip" "isAdminIPTrusted (aa_trustedCIDRs a) ip" "CHR '','' \<notin> set claimed"
    and "Header_Get (rq_Header r) ''X-Forwarded-For'' = claimed @ '','' @ appended"
  shows "allowsEndpoint (Some a) r kind"
proof -
  have "aa_trustForwardedFor a" using assms(1,2) by (auto simp: newAdminAccessControl_def Let_def bindR_Inr)
  moreover have "parseXForwardedForIP (claimed @ '','' @ appended) = Some ip"
    using named(1) SplitByte_first [OF named(3), of appended] by (simp add: parseXForwardedForIP_def)
  ultimately show ?thesis using peer named assms(8) by (simp add: allowsEndpoint_def resolveAdminClientIP_def Let_def)
qed

subsection \<open>Bursts\<close>

fun admin_calls :: "(int \<times> Request) list \<Rightarrow> adminRateLimiter \<Rightarrow> bool list" where
  "admin_calls [] l = []"
| "admin_calls ((now, r) # cs) l = (case admin_Evaluate now r l of (d, l1) \<Rightarrow> ard_Allowed d # admin_calls cs l1)"

lemma length_admin_calls [simp]: "length (admin_calls cs l) = length cs"
  by (induction cs l rule: admin_calls.induct) (auto split: prod.split)

definition limited :: "int \<Rightarrow> adminRateLimiter \<Rightarrow> bool" where
  "limited B l \<longleftrightarrow> arl_enabled l \<and> 0 < arl_rps l \<and> arl_burst l = of_int B \<and> 0 < B \<and> B \<le> 2 ^ 53"

definition allowed_for :: "string \<Rightarrow> (int \<times> Request) list \<Rightarrow> bool list \<Rightarrow> nat" where
  "allowed_for k cs bs = length (filter (\<lambda>((now, r), b). adminRateLimitKey r = k \<and> b) (zip cs bs))"

lemma allowed_for_simps [simp]:
  "allowed_for k [] bs = 0"
  "allowed_for k ((now, r) # cs) (b # bs) = (if adminRateLimitKey r = k \<and> b then 1 else 0) + allowed_for k cs bs"
  by (auto simp: allowed_for_def)

lemma map_of_prune: "map_of bs k = Some b \<Longrightarrow> \<not> tb_Last b < c \<Longrightarrow> map_of (pruneLocked c bs) k = Some b"
  by (induction bs) (auto simp: pruneLocked_def split: if_splits)

definition spend :: "int \<Rightarrow> Request \<Rightarrow> adminRateLimiter \<Rightarrow> rat" where
  \<comment> \<open>the tokens a request finds\<close>
  "spend now r l = refilled l now
     (case map_of (arl_buckets l) (adminRateLimitKey r) of None \<Rightarrow> \<lparr>tb_Tokens = arl_burst l, tb_Last = now\<rparr> | Some b \<Rightarrow> b)"

text \<open>One request under a limit: what it finds, whether it passes, and what it leaves.\<close>

lemma evaluate_limited:
  assumes "limited B l" "admin_Evaluate now r l = (d, l1)"
  shows "limited B l1" "ard_Allowed d \<longleftrightarrow> 1 \<le> spend now r l" "spend now r l \<le> of_int B"
    "map_of (arl_buckets l1) (adminRateLimitKey r)
       = Some \<lparr>tb_Tokens = (if ard_Allowed d then float64 (spend now r l - 1) else spend now r l), tb_Last = now\<rparr>"
    "k \<noteq> adminRateLimitKey r \<Longrightarrow> map_of (arl_buckets l) k = Some b \<Longrightarrow> now \<le> tb_Last b \<Longrightarrow> map_of (arl_buckets l1) k = Some b"
    "k \<noteq> adminRateLimitKey r \<Longrightarrow> map_of (arl_buckets l) k = None \<Longrightarrow> map_of (arl_buckets l1) k = None"
proof -
  let ?t = "spend now r l"
  have pos: "0 < arl_rps l" "0 < arl_burst l" "arl_enabled l" using assms(1) by (auto simp: limited_def)
  have same: "refilled (l\<lparr>arl_stats := st\<rparr>) = refilled l" for st by (simp add: refilled_def Let_def fun_eq_iff)
  have key: "map_of (pruneLocked c bs) k' = None" if "map_of bs k' = None" for c bs and k' :: string
    using that by (induction bs) (auto simp: pruneLocked_def split: if_splits)
  define bs where "bs = aput (adminRateLimitKey r) \<lparr>tb_Tokens = (if 1 \<le> ?t then float64 (?t - 1) else ?t), tb_Last = now\<rparr> (arl_buckets l)"
  have bk: "ard_Allowed d \<longleftrightarrow> 1 \<le> ?t" and bl: "arl_buckets l1 = bs \<or> arl_buckets l1 = pruneLocked (now - 600000000000) bs"
    and fl: "arl_enabled l1 = arl_enabled l" "arl_rps l1 = arl_rps l" "arl_burst l1 = arl_burst l"
    using assms(2) pos
    by (cases "map_of (arl_buckets l) (adminRateLimitKey r)";
        auto simp: admin_Evaluate_def Let_def same spend_def admin_pass_def bs_def split: if_splits)+
  show "limited B l1" using assms(1) fl by (simp add: limited_def)
  show "ard_Allowed d \<longleftrightarrow> 1 \<le> ?t" by (rule bk)
  show "?t \<le> of_int B" using assms(1) by (auto simp: spend_def refilled_def Let_def limited_def)
  show "map_of (arl_buckets l1) (adminRateLimitKey r)
       = Some \<lparr>tb_Tokens = (if ard_Allowed d then float64 (?t - 1) else ?t), tb_Last = now\<rparr>"
    using bl by (auto simp: bs_def bk intro!: map_of_prune)
  show "map_of (arl_buckets l1) k = Some b" if "k \<noteq> adminRateLimitKey r" "map_of (arl_buckets l) k = Some b" "now \<le> tb_Last b"
    using bl that by (auto simp: bs_def intro!: map_of_prune)
  show "map_of (arl_buckets l1) k = None" if "k \<noteq> adminRateLimitKey r" "map_of (arl_buckets l) k = None"
    using bl that by (auto simp: bs_def intro!: key)
qed

text \<open>At the instant of the last refill a bucket is worth the whole number above its tokens.\<close>

lemma spend_now:
  assumes "limited B l" "map_of (arl_buckets l) (adminRateLimitKey r) = Some b" "now \<le> tb_Last b" "tb_Tokens b \<le> of_int n"
    "0 \<le> n" "n \<le> 2 ^ 53"
  shows "spend now r l \<le> of_int n"
proof -
  have "float64 (tb_Tokens b) \<le> of_int n"
    using float64_mono [OF assms(4)] float64_of_int [OF assms(5,6)] by simp
  with assms(2,3) show ?thesis by (auto simp: spend_def refilled_def duration_seconds_def Let_def)
qed

lemma spend_fresh:
  assumes "limited B l" "map_of (arl_buckets l) (adminRateLimitKey r) = None"
  shows "spend now r l = of_int B"
  using assms float64_of_int [of B] by (simp add: spend_def refilled_def duration_seconds_def Let_def limited_def)

lemma after_spend: "t \<le> of_int n \<Longrightarrow> 1 \<le> n \<Longrightarrow> n \<le> 2 ^ 53 \<Longrightarrow> float64 (t - 1) \<le> of_int (n - 1)"
  using float64_mono [of "t - 1" "of_int (n - 1)"] float64_of_int [of "n - 1"] by simp

lemma worth_bounds_calls:
  assumes "limited B l" "map_of (arl_buckets l) k = Some b" "T \<le> tb_Last b" "tb_Tokens b \<le> of_int n" "0 \<le> n" "n \<le> 2 ^ 53"
    "\<forall>(now, r)\<in>set cs. now = T"
  shows "int (allowed_for k cs (admin_calls cs l)) \<le> n"
  using assms
proof (induction cs arbitrary: l b n)
  case (Cons c cs)
  obtain r where c: "c = (T, r)" using Cons.prems(7) by (cases c) auto
  obtain d l1 where e: "admin_Evaluate T r l = (d, l1)" by fastforce
  note ev = evaluate_limited [OF Cons.prems(1) e]
  have T: "\<forall>(now, r)\<in>set cs. now = T" using Cons.prems(7) by simp
  show ?case
  proof (cases "adminRateLimitKey r = k")
    case False
    have "map_of (arl_buckets l1) k = Some b" using ev(5) [of k b] False Cons.prems(2,3) by simp
    from Cons.IH [OF ev(1) this Cons.prems(3-6) T] False show ?thesis by (simp add: c e)
  next
    case True
    have t: "spend T r l \<le> of_int n" using spend_now [of B l r b T n] Cons.prems True by simp
    show ?thesis
    proof (cases "ard_Allowed d")
      case allowed: True
      then have "1 \<le> n" using ev(2) t by (metis of_int_1_le_iff order_trans)
      then have "int (allowed_for k cs (admin_calls cs l1)) \<le> n - 1"
        using Cons.IH [OF ev(1), of "\<lparr>tb_Tokens = float64 (spend T r l - 1), tb_Last = T\<rparr>" "n - 1"]
          ev(4) True allowed after_spend [OF t] Cons.prems(6) T by simp
      then show ?thesis by (simp add: c e allowed True)
    next
      case blocked: False
      then have "int (allowed_for k cs (admin_calls cs l1)) \<le> n"
        using Cons.IH [OF ev(1), of "\<lparr>tb_Tokens = spend T r l, tb_Last = T\<rparr>" n] ev(4) True t Cons.prems(5,6) T by simp
      then show ?thesis by (simp add: c e blocked)
    qed
  qed
qed simp

lemma burst_bounds_calls:
  assumes "limited B l" "\<forall>(now, r)\<in>set cs. now = T"
  shows "int (allowed_for k cs (admin_calls cs l)) \<le> B"
  using assms
proof (induction cs arbitrary: l)
  case (Cons c cs)
  obtain r where c: "c = (T, r)" using Cons.prems(2) by (cases c) auto
  obtain d l1 where e: "admin_Evaluate T r l = (d, l1)" by fastforce
  note ev = evaluate_limited [OF Cons.prems(1) e]
  have T: "\<forall>(now, r)\<in>set cs. now = T" and B: "1 \<le> B" "B \<le> 2 ^ 53"
    using Cons.prems by (auto simp: limited_def)
  consider (other) "adminRateLimitKey r \<noteq> k" | (allowed) "adminRateLimitKey r = k" "ard_Allowed d"
    | (blocked) "adminRateLimitKey r = k" "\<not> ard_Allowed d" by blast
  then show ?case
  proof cases
    case other
    with Cons.IH [OF ev(1) T] show ?thesis by (simp add: c e)
  next
    case allowed
    then have "int (allowed_for k cs (admin_calls cs l1)) \<le> B - 1"
      using worth_bounds_calls [OF ev(1), of k "\<lparr>tb_Tokens = float64 (spend T r l - 1), tb_Last = T\<rparr>" T "B - 1"]
        ev(4) after_spend [OF ev(3) B] B T by simp
    then show ?thesis by (simp add: c e allowed)
  next
    case blocked
    with Cons.IH [OF ev(1) T] show ?thesis by (simp add: c e)
  qed
qed (use assms in \<open>simp add: limited_def\<close>)

lemma exact_calls:
  assumes "limited B l" "map_of (arl_buckets l) k = Some \<lparr>tb_Tokens = of_int n, tb_Last = T\<rparr>" "0 \<le> n" "n \<le> B"
    "\<forall>(now, r)\<in>set cs. now = T \<and> adminRateLimitKey r = k"
  shows "allowed_for k cs (admin_calls cs l) = min (length cs) (nat n)"
  using assms
proof (induction cs arbitrary: l n)
  case (Cons c cs)
  obtain r where c: "c = (T, r)" "adminRateLimitKey r = k" using Cons.prems(5) by (cases c) auto
  obtain d l1 where e: "admin_Evaluate T r l = (d, l1)" by fastforce
  note ev = evaluate_limited [OF Cons.prems(1) e]
  have n: "n \<le> 2 ^ 53" and fl: "float64 (of_int n) = of_int n" "1 \<le> n \<Longrightarrow> float64 (of_int n - 1) = of_int (n - 1)"
    using Cons.prems(1,3,4) float64_of_int [of n] float64_of_int [of "n - 1"] by (auto simp: limited_def)
  have "spend T r l = of_int n"
    using Cons.prems(1-4) c fl by (simp add: spend_def refilled_def duration_seconds_def Let_def limited_def)
  with ev(2,4) c fl have d: "ard_Allowed d \<longleftrightarrow> 1 \<le> n"
    "map_of (arl_buckets l1) k = Some \<lparr>tb_Tokens = of_int (if 1 \<le> n then n - 1 else n), tb_Last = T\<rparr>" by auto
  from Cons.IH [OF ev(1) d(2)] Cons.prems(3-5) d(1) show ?case by (auto simp: c e min_def)
qed simp

lemma float64_pos: "0 < x \<Longrightarrow> 0 < float64 x"
  by (rule less_le_trans [OF _ float64_bounds(1)]) simp_all

lemma limited_settings:
  "as_RateEnabled s \<Longrightarrow> 0 < as_RPS s \<Longrightarrow> 0 < as_Burst s \<Longrightarrow> as_Burst s \<le> 2 ^ 53 \<Longrightarrow> limited (as_Burst s) (limiter_Update s l)"
  by (simp add: limited_def limiter_Update_def float64_pos float64_of_int)

text \<open>
  At one instant at most the configured burst of requests with one key passes, whatever happened
  before and whatever the other clients send; a client that was not seen before gets exactly that
  many.
\<close>

theorem admin_burst_is_bounded:
  assumes "as_RateEnabled s" "0 < as_RPS s" "0 < as_Burst s" "as_Burst s \<le> 2 ^ 53" "\<forall>(now, r)\<in>set cs. now = T"
  shows "int (allowed_for k cs (admin_calls cs (limiter_Update s l))) \<le> as_Burst s
    \<and> (map_of (arl_buckets (limiter_Update s l)) k = None \<longrightarrow> (\<forall>(now, r)\<in>set cs. adminRateLimitKey r = k)
        \<longrightarrow> allowed_for k cs (admin_calls cs (limiter_Update s l)) = min (length cs) (nat (as_Burst s)))"
proof (intro conjI impI)
  note lim = limited_settings [OF assms(1-4), of l]
  show "int (allowed_for k cs (admin_calls cs (limiter_Update s l))) \<le> as_Burst s" by (rule burst_bounds_calls [OF lim assms(5)])
  assume new: "map_of (arl_buckets (limiter_Update s l)) k = None" and own: "\<forall>(now, r)\<in>set cs. adminRateLimitKey r = k"
  show "allowed_for k cs (admin_calls cs (limiter_Update s l)) = min (length cs) (nat (as_Burst s))"
  proof (cases cs)
    case (Cons c cs')
    obtain r where c: "c = (T, r)" "adminRateLimitKey r = k" using assms(5) own Cons by (cases c) auto
    obtain d l1 where e: "admin_Evaluate T r (limiter_Update s l) = (d, l1)" by fastforce
    note ev = evaluate_limited [OF lim e]
    have t: "spend T r (limiter_Update s l) = of_int (as_Burst s)" using spend_fresh [OF lim] new c(2) by simp
    have "float64 (of_int (as_Burst s) - 1) = of_int (as_Burst s - 1)" using float64_of_int [of "as_Burst s - 1"] assms(3,4) by simp
    with ev(2,4) t c(2) assms(3) have d: "ard_Allowed d"
      "map_of (arl_buckets l1) k = Some \<lparr>tb_Tokens = of_int (as_Burst s - 1), tb_Last = T\<rparr>" by auto
    have "\<forall>(now, r)\<in>set cs'. now = T \<and> adminRateLimitKey r = k" using assms(5) own Cons by auto
    from exact_calls [OF ev(1) d(2) _ _ this] assms(3) d(1) show ?thesis by (auto simp: Cons c e min_def)
  qed simp
qed

text \<open>
  Guesses of the API key are not limited: the bucket of a request is chosen by the key it offers,
  so requests that offer different keys all pass the limiter, however many they are and however
  fast they come.
\<close>

theorem guesses_of_the_key_are_not_limited:
  assumes "0 < as_Burst s" "as_Burst s \<le> 2 ^ 53" "distinct (map (\<lambda>(now, r). adminRateLimitKey r) cs)"
  shows "list_all (\<lambda>b. b) (admin_calls cs (newAdminRateLimiter s))"
proof -
  have free: "list_all (\<lambda>b. b) (admin_calls cs l)" if "\<not> arl_enabled l \<or> arl_rps l \<le> 0 \<or> arl_burst l \<le> 0" for l
    using that
  proof (induction cs arbitrary: l)
    case (Cons c cs)
    then have "list_all (\<lambda>b. b) (admin_calls cs (l\<lparr>arl_stats := st\<rparr>))" for st by (intro Cons.IH) simp
    with Cons.prems show ?case by (cases c) (auto simp: admin_Evaluate_def Let_def admin_pass_def)
  qed simp
  have fresh: "list_all (\<lambda>b. b) (admin_calls cs l)"
    if "limited B l" "distinct (map (\<lambda>(now, r). adminRateLimitKey r) cs)"
      "\<forall>(now, r)\<in>set cs. map_of (arl_buckets l) (adminRateLimitKey r) = None" for B l
    using that
  proof (induction cs arbitrary: l)
    case (Cons c cs)
    obtain now r where c: "c = (now, r)" by fastforce
    obtain d l1 where e: "admin_Evaluate now r l = (d, l1)" by fastforce
    note ev = evaluate_limited [OF Cons.prems(1) e]
    have "ard_Allowed d" using ev(2) spend_fresh [OF Cons.prems(1), of r now] Cons.prems(1,3) by (simp add: c limited_def)
    moreover have "\<forall>(t, q)\<in>set cs. map_of (arl_buckets l1) (adminRateLimitKey q) = None"
    proof safe
      fix t q assume q: "(t, q) \<in> set cs"
      then have "adminRateLimitKey q \<noteq> adminRateLimitKey r" using Cons.prems(2) by (force simp: c)
      moreover have "map_of (arl_buckets l) (adminRateLimitKey q) = None" using Cons.prems(3) q by (auto simp: c)
      ultimately show "map_of (arl_buckets l1) (adminRateLimitKey q) = None" by (rule ev(6))
    qed
    ultimately show ?case using Cons.IH [OF ev(1)] Cons.prems(2) by (simp add: c e)
  qed simp
  show ?thesis
  proof (cases "as_RateEnabled s \<and> 0 < as_RPS s")
    case True
    then have "limited (as_Burst s) (newAdminRateLimiter s)" using limited_settings assms by (simp add: newAdminRateLimiter_def)
    then show ?thesis using assms(3) by (intro fresh) (auto simp: newAdminRateLimiter_def limiter_Update_def)
  next
    case False
    then show ?thesis by (intro free) (auto simp: newAdminRateLimiter_def limiter_Update_def float64_def)
  qed
qed

subsection \<open>How many requests run at once\<close>

inductive guard_reachable :: "ConcurrencyGuard option \<Rightarrow> ConcurrencyGuard option \<Rightarrow> nat \<Rightarrow> bool" for g0 where
  \<comment> \<open>the guard and the number of requests that run\<close>
  start: "guard_reachable g0 g0 0"
| enter: "guard_reachable g0 g n \<Longrightarrow> guard_Acquire g = (True, g') \<Longrightarrow> guard_reachable g0 g' (Suc n)"
| turned_away: "guard_reachable g0 g n \<Longrightarrow> guard_Acquire g = (False, g') \<Longrightarrow> guard_reachable g0 g' n"
| leave: "guard_reachable g0 g (Suc n) \<Longrightarrow> guard_reachable g0 (guard_Release g) n"

text \<open>
  The requests between an acquisition and its release are at most the configured number, and a
  request is turned away only when that many run.
\<close>

theorem concurrency_is_bounded:
  assumes "NewConcurrencyGuard mx name = Some c" "guard_reachable (Some c) g n"
  shows "n \<le> nat mx \<and> (fst (guard_Acquire g) \<longleftrightarrow> n < nat mx)"
proof -
  have c: "cg_max c = nat mx" "cg_sem c = 0" using assms(1) by (auto simp: NewConcurrencyGuard_def split: if_splits)
  from assms(2) have "\<exists>h. g = Some h \<and> cg_max h = nat mx \<and> cg_sem h = n \<and> n \<le> nat mx"
  proof induction
    case start
    with c show ?case by simp
  qed (auto simp: guard_Acquire_def guard_Release_def split: if_splits)
  then show ?thesis by (auto simp: guard_Acquire_def split: if_splits)
qed

subsection \<open>Witnesses\<close>

definition demo_settings :: admin_settings where
  "demo_settings = \<lparr>as_ExternalMode = ''deny_external'', as_TrustedCIDRs = [''10.0.0.0/8''], as_TrustForwardedFor = False,
     as_RateEnabled = False, as_RPS = 1, as_Burst = 1, as_StatusCode = 0, as_RetryAfter = 1, as_AuthDisable = False,
     as_KeyPrimary = ''k'', as_KeySecondary = []\<rparr>"

definition demo_admin_request :: "http_header \<Rightarrow> Request" where
  "demo_admin_request h = \<lparr>rq_Method = ''GET'', rq_Host = ''h'', rq_URL = empty_URL, rq_Header = h,
     rq_RemoteAddr = ''10.1.2.3:80'', rq_Body = NoBody, rq_ContentLength = 0\<rparr>"

definition demo_prefix :: Prefix where "demo_prefix = \<lparr>pfx_Addr = IPv4 0x0A000000, pfx_Bits = 8\<rparr>"

lemma demo_prefix_parsed: "parse_cidrs [''10.0.0.0/8''] = Inr [demo_prefix]"
  by code_simp

lemma demo_access: "newAdminAccessControl demo_settings
    = Inr \<lparr>aa_mode = ''deny_external'', aa_trustForwardedFor = False, aa_trustedCIDRs = [demo_prefix]\<rparr>"
proof -
  have "ToLower (TrimSpace ''deny_external'') = ''deny_external''" by code_simp
  with demo_prefix_parsed show ?thesis by (simp add: newAdminAccessControl_def demo_settings_def Let_def)
qed

lemma demo_peer: "parseIPLiteral (case net_SplitHostPort (rq_RemoteAddr (demo_admin_request h)) of
    Inr (host, port) \<Rightarrow> host | Inl e \<Rightarrow> rq_RemoteAddr (demo_admin_request h)) = Some (IPv4 0x0A010203)"
proof -
  have "rq_RemoteAddr (demo_admin_request h) = ''10.1.2.3:80''" by (simp add: demo_admin_request_def)
  then show ?thesis by (simp only:) code_simp
qed

lemma demo_trusted: "isAdminIPTrusted [demo_prefix] (IPv4 0x0A010203)"
  by code_simp

theorem admin_request_is_local_and_keyed_witness:
  "\<exists>g0. InitAdminGuards demo_settings = Inr g0
     \<and> fst (admin_api demo_settings 0 (demo_admin_request [(''X-Api-Key'', [''k''])]) g0) = None
     \<and> TrimSpace (Header_Get (rq_Header (demo_admin_request [(''X-Api-Key'', [''k''])])) ''X-API-Key'')
         \<in> {as_KeyPrimary demo_settings, as_KeySecondary demo_settings} - {[]}"
proof -
  let ?r = "demo_admin_request [(''X-Api-Key'', [''k''])]"
  obtain g0 where g0: "InitAdminGuards demo_settings = Inr g0" "gd_access g0 = Some \<lparr>aa_mode = ''deny_external'',
      aa_trustForwardedFor = False, aa_trustedCIDRs = [demo_prefix]\<rparr>" "gd_rate g0 = Some (newAdminRateLimiter demo_settings)"
    using that [of "\<lparr>gd_access = Some _, gd_rate = Some _\<rparr>"] by (simp add: InitAdminGuards_def demo_access)
  have key: "TrimSpace (Header_Get [(''X-Api-Key'', [''k''])] ''X-API-Key'') = ''k''" by code_simp
  have "allowsEndpoint (gd_access g0) ?r EndpointAPI"
    using demo_peer demo_trusted by (simp add: allowsEndpoint_def resolveAdminClientIP_def g0 Let_def)
  moreover have "fst (AdminRateLimitMiddleware 0 ?r g0) = None"
    by (simp add: AdminRateLimitMiddleware_def g0 admin_Evaluate_def newAdminRateLimiter_def limiter_Update_def demo_settings_def
        admin_pass_def Let_def)
  moreover have "APIKeyAuth demo_settings ?r = None"
    using key by (simp add: APIKeyAuth_def demo_admin_request_def demo_settings_def secureKeyMatch_def Let_def)
  ultimately have pass: "fst (admin_api demo_settings 0 ?r g0) = None" by (simp add: api_passes)
  have mode: "ToLower (TrimSpace (as_ExternalMode demo_settings)) = ''deny_external''" by (simp add: demo_settings_def) code_simp
  from admin_request_is_local_and_keyed [OF g0(1) mode _ _ refl pass] g0(1) pass
  show ?thesis by (auto simp: demo_settings_def)
qed

theorem guesses_of_the_key_are_not_limited_witness:
  "list_all (\<lambda>b. b) (admin_calls [(0, demo_admin_request []), (0, demo_admin_request [(''X-Api-Key'', [''k''])])]
     (newAdminRateLimiter (demo_settings\<lparr>as_RateEnabled := True\<rparr>)))"
proof -
  have ks: "TrimSpace (Header_Get [(''X-Api-Key'', [''k''])] ''X-API-Key'') = ''k''" "TrimSpace (Header_Get [] ''X-API-Key'') = []"
    by code_simp+
  have "distinct (map (\<lambda>(now, r). adminRateLimitKey r)
      [(0, demo_admin_request []), (0, demo_admin_request [(''X-Api-Key'', [''k''])])])"
    by (simp add: adminRateLimitKey_def demo_admin_request_def ks join_with_def requestRemoteIP_def)
  from guesses_of_the_key_are_not_limited [OF _ _ this, of "demo_settings\<lparr>as_RateEnabled := True\<rparr>"]
  show ?thesis by (simp add: demo_settings_def)
qed

end
