(* ===== verification/Rule_Sets.thy ===== *)
theory Rule_Sets
  imports Rules_File Country_Block
begin

text \<open>
  The rule files of the firewall and their administration: which files make up the base engine
  (\<open>waf/waf.go\<close>), the list of disabled core rules (\<open>crsselection/selection.go\<close>,
  \<open>handler/crs_rule_sets.go\<close>) and the editing of the rule files (\<open>handler/admin.go\<close>).

  The engine is third-party code: \<open>fe_build\<close> gives what the library makes of the files named, each
  with its content.  Files are a map from cleaned paths, directories are asked of the outside world.
  Every access of a file the program makes itself and of the database asks the list of faults, as
  in \<open>Storage\<close>; \<open>on_storage\<close> runs an operation of that theory on one file and one row.
\<close>

subsection \<open>Files, rows and engines\<close>

record 'w firewall =
  fw_files :: "string \<rightharpoonup> string"
  fw_backups :: "string list"
  fw_store :: bool
  fw_blobs :: "string \<rightharpoonup> (string \<times> string)"
  fw_faults :: "(goerr option) list"
  fw_base :: "'w option"
  fw_override :: "(string \<times> 'w) list"

record 'w firewall_env =
  fe_build :: "(string \<times> string option) list \<Rightarrow> 'w result"
  fe_readDir :: "string \<Rightarrow> ((string \<times> bool) list) result"   \<comment> \<open>names, and whether they are directories\<close>
  fe_tmp :: string                                      \<comment> \<open>the name of a temporary file\<close>

record rule_settings =
  rs_RulesFile :: string
  rs_CRSEnable :: bool
  rs_CRSSetupFile :: string
  rs_CRSRulesDir :: string
  rs_CRSDisabledFile :: string

definition focus :: "string \<Rightarrow> string \<Rightarrow> 'w firewall \<Rightarrow> storage" where
  "focus p k w = \<lparr>so_File = fw_files w (path_Clean p), so_Backups = fw_backups w, so_Store = fw_store w,
     so_Blob = fw_blobs w k, so_Faults = fw_faults w\<rparr>"

definition unfocus :: "string \<Rightarrow> string \<Rightarrow> storage \<Rightarrow> 'w firewall \<Rightarrow> 'w firewall" where
  "unfocus p k st w = w\<lparr>fw_files := (fw_files w)(path_Clean p := so_File st), fw_backups := so_Backups st,
     fw_blobs := (fw_blobs w)(k := so_Blob st), fw_faults := so_Faults st\<rparr>"

definition on_storage :: "string \<Rightarrow> string \<Rightarrow> (storage \<Rightarrow> 'a \<times> storage) \<Rightarrow> 'w firewall \<Rightarrow> 'a \<times> 'w firewall" where
  "on_storage p k f w = (case f (focus p k w) of (x, st) \<Rightarrow> (x, unfocus p k st w))"

definition MkdirAll :: "storage \<Rightarrow> unit result \<times> storage" where
  "MkdirAll st = store_write (\<lambda>s. s) st"

subsection \<open>The selection of core rules\<close>

definition filepath_Base :: "string \<Rightarrow> string" where
  "filepath_Base p =
     (if p = [] then ''.''
      else let q = TrimRightByte p (CHR ''/'') in
        case LastIndexByte q (CHR ''/'') of
          Some i \<Rightarrow> drop (Suc i) q | None \<Rightarrow> if q = [] then ''/'' else q)"

definition NormalizeName :: "string \<Rightarrow> string" where
  "NormalizeName name = filepath_Base (TrimSpace name)"

definition ParseDisabled :: "string \<Rightarrow> string list" where
  \<comment> \<open>a set of names, as a list\<close>
  "ParseDisabled raw = dedup (filter (\<lambda>n. n \<noteq> []) (map (\<lambda>l. NormalizeName (before_hash l)) (fst (scan_lines raw))))"

definition LoadDisabledFile :: "string \<Rightarrow> 'w firewall \<Rightarrow> string list result \<times> 'w firewall" where
  "LoadDisabledFile path w =
     (case on_storage path [] readFileMaybe w of
        (Inl e, w1) \<Rightarrow> (Inl e, w1)
      | (Inr (raw, found), w1) \<Rightarrow> (Inr (if found then ParseDisabled raw else []), w1))"

definition FilterEnabledPaths :: "string list \<Rightarrow> string list \<Rightarrow> string list" where
  "FilterEnabledPaths paths disabled =
     (if disabled = [] then paths else filter (\<lambda>p. NormalizeName p \<notin> set disabled) paths)"

fun enabled_names :: "string list \<Rightarrow> string list \<Rightarrow> string list result" where
  "enabled_names known [] = Inr []"
| "enabled_names known (n # ns) =
     (if NormalizeName n = [] then enabled_names known ns
      else if NormalizeName n \<notin> set known then err ''unknown CRS rule: %s'' [n]
      else bindR (enabled_names known ns) (\<lambda>es. Inr (NormalizeName n # es)))"

definition BuildDisabledFromEnabled :: "string list \<Rightarrow> string list \<Rightarrow> string list result" where
  "BuildDisabledFromEnabled allPaths enabledNames =
     (let known = dedup (map NormalizeName allPaths) in
      bindR (enabled_names known enabledNames) (\<lambda>es. Inr (sort_by string_less (filter (\<lambda>n. n \<notin> set es) known))))"

definition disabled_header :: "string list" where
  "disabled_header = [''# crs-disabled.conf - Disabled CRS rule filenames'',
     ''# One filename per line. Empty means all CRS rules are enabled.'', ''# Example: REQUEST-913-SCANNER-DETECTION.conf'', '''']"

definition SerializeDisabled :: "string list \<Rightarrow> string" where
  "SerializeDisabled names = join_with [newline] (disabled_header @ names) @ [newline]"

subsection \<open>The files of the base engine\<close>

definition splitRuleFiles :: "string \<Rightarrow> string list" where
  "splitRuleFiles raw = filter (\<lambda>p. p \<noteq> []) (map TrimSpace (SplitByte raw (CHR '','')))"

definition crs_file_name :: "string \<times> bool \<Rightarrow> bool" where
  "crs_file_name e = (\<not> snd e \<and> HasSuffix (ToLower (fst e)) ''.conf'' \<and> \<not> HasSuffix (ToLower (fst e)) ''.conf.example'')"

definition rule_path :: "string \<Rightarrow> string \<Rightarrow> string" where
  \<comment> \<open>\<open>filepath.Join\<close> of a directory that is not empty and a name\<close>
  "rule_path dir name = path_Clean (dir @ ''/'' @ name)"

definition discoverCRSRuleFiles :: "'w firewall_env \<Rightarrow> string \<Rightarrow> string \<Rightarrow> 'w firewall \<Rightarrow> string list result" where
  "discoverCRSRuleFiles env setupFile rulesDir w =
     seqR (guardR (setupFile = []) (Errorf ''paths.crs_setup_file is empty'' []))
    (seqR (guardR (rulesDir = []) (Errorf ''paths.crs_rules_dir is empty'' []))
    (seqR (guardR (fw_files w (path_Clean setupFile) = None) (Errorf ''CRS setup file not found: %s: %w'' [setupFile]))
    (case fe_readDir env rulesDir of
       Inl e \<Rightarrow> err ''failed to read CRS rules dir %s: %w'' [rulesDir]
     | Inr entries \<Rightarrow>
         let out = sort_by string_less
               (filter (\<lambda>full. path_Clean full \<noteq> path_Clean setupFile)
                 (map (\<lambda>e. rule_path rulesDir (fst e)) (filter crs_file_name entries)))
         in if out = [] then err ''no CRS rule files found in %s'' [rulesDir] else Inr out)))"

definition append_unique :: "string list \<Rightarrow> string list" where
  "append_unique paths = dedup (filter (\<lambda>p. p \<noteq> []) (map TrimSpace paths))"

definition composeInitialRuleFilesWithDisabledSet ::
  "'w firewall_env \<Rightarrow> rule_settings \<Rightarrow> string list \<Rightarrow> 'w firewall \<Rightarrow> string list result" where
  "composeInitialRuleFilesWithDisabledSet env c disabled w =
     bindR (if rs_CRSEnable c
            then bindR (discoverCRSRuleFiles env (rs_CRSSetupFile c) (rs_CRSRulesDir c) w) (\<lambda>crs.
                   Inr (rs_CRSSetupFile c # FilterEnabledPaths crs disabled))
            else Inr []) (\<lambda>crs.
       let files = append_unique (crs @ splitRuleFiles (rs_RulesFile c))
       in if files = [] then err ''no rule files configured'' [] else Inr files)"

definition PrepareInitialRuleFiles ::
  "'w firewall_env \<Rightarrow> rule_settings \<Rightarrow> 'w firewall \<Rightarrow> string list result \<times> 'w firewall" where
  "PrepareInitialRuleFiles env c w =
     (if \<not> rs_CRSEnable c then (composeInitialRuleFilesWithDisabledSet env c [] w, w)
      else case LoadDisabledFile (rs_CRSDisabledFile c) w of
        (Inl e, w1) \<Rightarrow> (err ''failed to load CRS disabled file %s: %w'' [rs_CRSDisabledFile c], w1)
      | (Inr disabled, w1) \<Rightarrow> (composeInitialRuleFilesWithDisabledSet env c disabled w1, w1))"

definition buildWAF :: "'w firewall_env \<Rightarrow> (string \<times> string option) list \<Rightarrow> 'w result" where
  "buildWAF env files = fe_build env (filter (\<lambda>f. fst f \<noteq> []) (map (\<lambda>(p, c). (TrimSpace p, c)) files))"

definition with_content :: "'w firewall \<Rightarrow> string \<Rightarrow> string \<times> string option" where
  "with_content w p = (p, fw_files w (path_Clean p))"

definition ReloadBaseWAF :: "'w firewall_env \<Rightarrow> rule_settings \<Rightarrow> 'w firewall \<Rightarrow> unit result \<times> 'w firewall" where
  "ReloadBaseWAF env c w =
     (case PrepareInitialRuleFiles env c w of
        (Inl e, w1) \<Rightarrow> (Inl e, w1)
      | (Inr files, w1) \<Rightarrow>
          (case buildWAF env (map (with_content w1) files) of
             Inl e \<Rightarrow> (Inl e, w1) | Inr b \<Rightarrow> (Inr (), w1\<lparr>fw_base := Some b\<rparr>)))"

fun override_first :: "'w firewall_env \<Rightarrow> 'w firewall \<Rightarrow> string \<Rightarrow> string \<Rightarrow> string list \<Rightarrow> ((string \<times> string option) list) option" where
  \<comment> \<open>the first file with the cleaned path gets the text under a temporary name\<close>
  "override_first env w target raw [] = None"
| "override_first env w target raw (f # fs) =
     (if path_Clean f = target then Some ((fe_tmp env, Some raw) # map (with_content w) fs)
      else map_option (\<lambda>r. with_content w f # r) (override_first env w target raw fs))"

definition ValidateWithRuleOverride ::
  "'w firewall_env \<Rightarrow> rule_settings \<Rightarrow> string \<Rightarrow> string \<Rightarrow> 'w firewall \<Rightarrow> unit result \<times> 'w firewall" where
  \<comment> \<open>the temporary file is one access\<close>
  "ValidateWithRuleOverride env c targetPath raw w =
     (let target = path_Clean (TrimSpace targetPath) in
      case PrepareInitialRuleFiles env c w of
        (Inl e, w1) \<Rightarrow> (Inl e, w1)
      | (Inr files, w1) \<Rightarrow>
          (case override_first env w1 target raw files of
             None \<Rightarrow> (err ''rule file %s is not part of active rule set'' [targetPath], w1)
           | Some fs \<Rightarrow>
               (case on_storage (fe_tmp env) [] (store_write (\<lambda>s. s)) w1 of
                  (Inl e, w2) \<Rightarrow> (Inl e, w2)
                | (Inr _, w2) \<Rightarrow> (bindR (buildWAF env fs) (\<lambda>_. Inr ()), w2))))"

definition ValidateWithCRSSelection ::
  "'w firewall_env \<Rightarrow> rule_settings \<Rightarrow> string list \<Rightarrow> 'w firewall \<Rightarrow> unit result" where
  "ValidateWithCRSSelection env c enabled w =
     bindR (discoverCRSRuleFiles env (rs_CRSSetupFile c) (rs_CRSRulesDir c) w) (\<lambda>crs.
     bindR (BuildDisabledFromEnabled crs enabled) (\<lambda>disabled.
     bindR (composeInitialRuleFilesWithDisabledSet env c disabled w) (\<lambda>files.
     bindR (buildWAF env (map (with_content w) files)) (\<lambda>_. Inr ()))))"

definition GetWAFForExtraRule :: "'w firewall_env \<Rightarrow> string \<Rightarrow> 'w firewall \<Rightarrow> 'w option result \<times> 'w firewall" where
  "GetWAFForExtraRule env extraRule w =
     (let rule = TrimSpace extraRule in
      if rule = [] then (Inr (fw_base w), w)
      else case map_of (fw_override w) rule of
        Some e \<Rightarrow> (Inr (Some e), w)
      | None \<Rightarrow>
          (case buildWAF env [with_content w rule] of
             Inl e \<Rightarrow> (err ''failed to load extra rule %q: %w'' [rule], w)
           | Inr e \<Rightarrow> (Inr (Some e), w\<lparr>fw_override := aput rule e (fw_override w)\<rparr>)))"

end
