(* ===== verification/Rule_Admin.thy ===== *)
theory Rule_Admin
  imports Rule_Sets
begin

text \<open>
  The administration of the rule files (\<open>handler/admin.go\<close>) and of the selection of core rules
  (\<open>handler/crs_rule_sets.go\<close>).  A handler takes the body of its request, already decoded, and the
  \<open>If-Match\<close> header.
\<close>

datatype 'v edit_reply =
    EditBind goerr                  \<comment> \<open>400\<close>
  | EditPath goerr                  \<comment> \<open>400, the file is not editable\<close>
  | EditOff                         \<comment> \<open>409, core rules are switched off\<close>
  | EditConflict string             \<comment> \<open>409 with the current entity tag\<close>
  | EditInvalid goerr               \<comment> \<open>422\<close>
  | EditError goerr                 \<comment> \<open>500\<close>
  | EditRolledBack goerr            \<comment> \<open>500 after restoring the file\<close>
  | EditDone 'v                     \<comment> \<open>200\<close>

subsection \<open>Rule files\<close>

definition configuredRuleFiles :: "rule_settings \<Rightarrow> string list" where
  "configuredRuleFiles c = dedup (splitRuleFiles (rs_RulesFile c))"

definition ensureEditableRulePath :: "rule_settings \<Rightarrow> string \<Rightarrow> string result" where
  "ensureEditableRulePath c path =
     (let target = path_Clean (TrimSpace path) in
      case find (\<lambda>p. path_Clean p = target) (configuredRuleFiles c) of
        Some p \<Rightarrow> Inr p | None \<Rightarrow> err ''path is not editable: %s'' [path])"

definition ruleFileConfigBlobKey :: "string \<Rightarrow> string" where
  "ruleFileConfigBlobKey path = ''rule_file_sha256:'' @ hex_encode (sha256 (path_Clean (TrimSpace path)))"

definition on_rule_file :: "string \<Rightarrow> (storage \<Rightarrow> 'a \<times> storage) \<Rightarrow> 'w firewall \<Rightarrow> 'a \<times> 'w firewall" where
  "on_rule_file path f w = on_storage path (ruleFileConfigBlobKey path) f w"

fun show_rule_files :: "string list \<Rightarrow> 'w firewall \<Rightarrow> (string \<times> (string \<times> string) result) list \<times> 'w firewall" where
  \<comment> \<open>text and entity tag of each file\<close>
  "show_rule_files [] w = ([], w)"
| "show_rule_files (path # ps) w =
     (case on_rule_file path ReadFile w of (content, w1) \<Rightarrow>
      let from_file = (case content of Inl e \<Rightarrow> Inl e | Inr raw \<Rightarrow> Inr (raw, ComputeETag raw));
          (shown, w2) =
            (if \<not> fw_store w1 then (from_file, w1)
             else case on_rule_file path GetConfigBlob w1 of
               (Inl e, w2) \<Rightarrow> (from_file, w2)
             | (Inr (Some (raw, tag)), w2) \<Rightarrow>
                 (if TrimSpace tag = []
                  then (Inr (raw, ComputeETag raw), snd (on_rule_file path (UpsertConfigBlob raw (ComputeETag raw)) w2))
                  else (Inr (raw, tag), w2))
             | (Inr None, w2) \<Rightarrow>
                 (case content of
                    Inr raw \<Rightarrow> if raw = [] then (from_file, w2)
                              else (from_file, snd (on_rule_file path (UpsertConfigBlob raw (ComputeETag raw)) w2))
                  | Inl e \<Rightarrow> (from_file, w2)))
      in case show_rule_files ps w2 of (rest, w3) \<Rightarrow> ((path, shown) # rest, w3))"

definition RulesHandler :: "rule_settings \<Rightarrow> 'w firewall \<Rightarrow> (string \<times> (string \<times> string) result) list \<times> 'w firewall" where
  "RulesHandler c w = show_rule_files (configuredRuleFiles c) w"

definition ValidateRules ::
  "'w firewall_env \<Rightarrow> rule_settings \<Rightarrow> (string \<times> string) result \<Rightarrow> 'w firewall \<Rightarrow> unit edit_reply \<times> 'w firewall" where
  \<comment> \<open>the body is a path and a text\<close>
  "ValidateRules env c body w =
     (case body of
        Inl e \<Rightarrow> (EditBind e, w)
      | Inr (path, raw) \<Rightarrow>
          (case ensureEditableRulePath c path of
             Inl e \<Rightarrow> (EditPath e, w)
           | Inr target \<Rightarrow>
               (case ValidateWithRuleOverride env c target raw w of
                  (Inl e, w1) \<Rightarrow> (EditInvalid e, w1) | (Inr _, w1) \<Rightarrow> (EditDone (), w1))))"

definition rollbackRuleFile :: "bool \<Rightarrow> string \<Rightarrow> storage \<Rightarrow> unit result \<times> storage" where
  "rollbackRuleFile hadFile raw st =
     (if hadFile then AtomicWriteWithBackup raw st else store_write (\<lambda>s. s\<lparr>so_File := None\<rparr>) st)"

definition rule_document :: "string \<Rightarrow> 'w firewall \<Rightarrow> ((string \<times> bool) \<times> string) result \<times> 'w firewall" where
  \<comment> \<open>the text to restore, whether there is a file, and the entity tag a write is checked against\<close>
  "rule_document target w =
     (case on_rule_file target readFileMaybe w of
        (Inl e, w1) \<Rightarrow> (Inl e, w1)
      | (Inr (curRaw, hadFile), w1) \<Rightarrow>
          (if \<not> fw_store w1 then (Inr ((curRaw, hadFile), ComputeETag curRaw), w1)
           else case on_rule_file target GetConfigBlob w1 of
             (Inl e, w2) \<Rightarrow> (Inl e, w2)
           | (Inr None, w2) \<Rightarrow> (Inr ((curRaw, hadFile), ComputeETag curRaw), w2)
           | (Inr (Some (raw, tag)), w2) \<Rightarrow> (Inr ((raw, hadFile), tag_or_etag tag raw), w2)))"

definition write_and_reload ::
  "'w firewall_env \<Rightarrow> rule_settings \<Rightarrow> string \<Rightarrow> string \<Rightarrow> string \<times> bool \<Rightarrow> string \<Rightarrow> 'w firewall \<Rightarrow> string edit_reply \<times> 'w firewall" where
  \<comment> \<open>path and key, what to restore, the new text\<close>
  "write_and_reload env c path key cur raw w =
     (case on_storage path key MkdirAll w of
        (Inl e, w1) \<Rightarrow> (EditError e, w1)
      | (Inr _, w1) \<Rightarrow>
     (case on_storage path key (AtomicWriteWithBackup raw) w1 of
        (Inl e, w2) \<Rightarrow> (EditError e, w2)
      | (Inr _, w2) \<Rightarrow>
     (let undo = (\<lambda>v. snd (ReloadBaseWAF env c (snd (on_storage path key (rollbackRuleFile (snd cur) (fst cur)) v)))) in
      case ReloadBaseWAF env c w2 of
        (Inl e, w3) \<Rightarrow> (EditRolledBack e, undo w3)
      | (Inr _, w3) \<Rightarrow>
          (if \<not> fw_store w3 then (EditDone (ComputeETag raw), w3)
           else case on_storage path key (UpsertConfigBlob raw (ComputeETag raw)) w3 of
             (Inl e, w4) \<Rightarrow> (EditRolledBack e, undo w4)
           | (Inr _, w4) \<Rightarrow> (EditDone (ComputeETag raw), w4)))))"

definition PutRules ::
  "'w firewall_env \<Rightarrow> rule_settings \<Rightarrow> string \<Rightarrow> (string \<times> string) result \<Rightarrow> 'w firewall \<Rightarrow> string edit_reply \<times> 'w firewall" where
  "PutRules env c ifMatch body w =
     (case body of
        Inl e \<Rightarrow> (EditBind e, w)
      | Inr (path, raw) \<Rightarrow>
     (case ensureEditableRulePath c path of
        Inl e \<Rightarrow> (EditPath e, w)
      | Inr target \<Rightarrow>
     (case rule_document target w of
        (Inl e, w1) \<Rightarrow> (EditError e, w1)
      | (Inr (cur, curETag), w1) \<Rightarrow>
          (if ifMatch \<noteq> [] \<and> ifMatch \<noteq> curETag then (EditConflict curETag, w1)
           else case ValidateWithRuleOverride env c target raw w1 of
             (Inl e, w2) \<Rightarrow> (EditInvalid e, w2)
           | (Inr _, w2) \<Rightarrow> write_and_reload env c target (ruleFileConfigBlobKey target) cur raw w2))))"

fun sync_rule_files :: "string list \<Rightarrow> bool \<Rightarrow> 'w firewall \<Rightarrow> bool result \<times> 'w firewall" where
  \<comment> \<open>whether a file was changed\<close>
  "sync_rule_files [] changed w = (Inr changed, w)"
| "sync_rule_files (path # ps) changed w =
     (case on_rule_file path readFileMaybe w of
        (Inl e, w1) \<Rightarrow> (Inl e, w1)
      | (Inr (fileRaw, hadFile), w1) \<Rightarrow>
     (case on_rule_file path GetConfigBlob w1 of
        (Inl e, w2) \<Rightarrow> (Inl e, w2)
      | (Inr None, w2) \<Rightarrow>
          (if \<not> hadFile \<or> fileRaw = [] then sync_rule_files ps changed w2
           else case on_rule_file path (UpsertConfigBlob fileRaw (ComputeETag fileRaw)) w2 of
             (Inl e, w3) \<Rightarrow> (Inl e, w3) | (Inr _, w3) \<Rightarrow> sync_rule_files ps changed w3)
      | (Inr (Some (dbRaw, dbETag)), w2) \<Rightarrow>
          (let differs = (\<not> hadFile \<or> fileRaw \<noteq> dbRaw) in
           case (if differs
                 then (case on_rule_file path MkdirAll w2 of
                         (Inl e, w3) \<Rightarrow> (Inl e, w3) | (Inr _, w3) \<Rightarrow> on_rule_file path (AtomicWriteWithBackup dbRaw) w3)
                 else (Inr (), w2)) of
             (Inl e, w3) \<Rightarrow> (Inl e, w3)
           | (Inr _, w3) \<Rightarrow>
               (case (if TrimSpace dbETag = [] then on_rule_file path (UpsertConfigBlob dbRaw (ComputeETag dbRaw)) w3 else (Inr (), w3)) of
                  (Inl e, w4) \<Rightarrow> (Inl e, w4)
                | (Inr _, w4) \<Rightarrow> sync_rule_files ps (changed \<or> differs) w4))))"

definition SyncRuleFilesStorage :: "'w firewall_env \<Rightarrow> rule_settings \<Rightarrow> 'w firewall \<Rightarrow> unit result \<times> 'w firewall" where
  "SyncRuleFilesStorage env c w =
     (if \<not> fw_store w then (Inr (), w)
      else case sync_rule_files (configuredRuleFiles c) False w of
        (Inl e, w1) \<Rightarrow> (Inl e, w1)
      | (Inr changed, w1) \<Rightarrow>
          (if \<not> changed \<or> fw_base w1 = None then (Inr (), w1)
           else case ReloadBaseWAF env c w1 of
             (Inl e, w2) \<Rightarrow> (err ''reload base waf after rule sync: %w'' [], w2) | (Inr _, w2) \<Rightarrow> (Inr (), w2)))"

subsection \<open>The selection of core rules\<close>

record crsRuleSetItem =
  ci_Name :: string
  ci_Path :: string
  ci_Enabled :: bool

definition crs_key :: string where "crs_key = ''crs_disabled_rules''"

definition crs_document :: "rule_settings \<Rightarrow> 'w firewall \<Rightarrow> string \<times> 'w firewall" where
  "crs_document c w =
     (case on_storage (rs_CRSDisabledFile c) crs_key file_or_empty w of (raw, w1) \<Rightarrow>
        if \<not> fw_store w1 then (raw, w1)
        else case on_storage (rs_CRSDisabledFile c) crs_key GetConfigBlob w1 of
          (Inl e, w2) \<Rightarrow> (raw, w2)
        | (Inr (Some (dbRaw, t)), w2) \<Rightarrow> (dbRaw, w2)
        | (Inr None, w2) \<Rightarrow>
            if raw = [] then (raw, w2)
            else (raw, snd (on_storage (rs_CRSDisabledFile c) crs_key (UpsertConfigBlob raw (ComputeETag raw)) w2)))"

definition crs_items :: "string list \<Rightarrow> string list \<Rightarrow> crsRuleSetItem list" where
  "crs_items crsFiles disabled =
     map (\<lambda>p. \<lparr>ci_Name = NormalizeName p, ci_Path = p, ci_Enabled = (NormalizeName p \<notin> set disabled)\<rparr>) crsFiles"

definition GetCRSRuleSets ::
  "'w firewall_env \<Rightarrow> rule_settings \<Rightarrow> 'w firewall \<Rightarrow> (string \<times> crsRuleSetItem list) edit_reply \<times> 'w firewall" where
  "GetCRSRuleSets env c w =
     (case crs_document c w of (raw, w1) \<Rightarrow>
        (if \<not> rs_CRSEnable c then (EditDone (ComputeETag raw, []), w1)
         else case discoverCRSRuleFiles env (rs_CRSSetupFile c) (rs_CRSRulesDir c) w1 of
           Inl e \<Rightarrow> (EditError e, w1)
         | Inr crs \<Rightarrow> (EditDone (ComputeETag raw, crs_items crs (ParseDisabled raw)), w1)))"

definition ValidateCRSRuleSets ::
  "'w firewall_env \<Rightarrow> rule_settings \<Rightarrow> string list result \<Rightarrow> 'w firewall \<Rightarrow> unit edit_reply" where
  "ValidateCRSRuleSets env c body w =
     (if \<not> rs_CRSEnable c then EditOff
      else case body of
        Inl e \<Rightarrow> EditBind e
      | Inr enabled \<Rightarrow> (case ValidateWithCRSSelection env c enabled w of Inl e \<Rightarrow> EditInvalid e | Inr _ \<Rightarrow> EditDone ()))"

definition crs_current :: "rule_settings \<Rightarrow> string \<Rightarrow> 'w firewall \<Rightarrow> (string edit_reply + (string \<times> bool)) \<times> 'w firewall" where
  \<comment> \<open>the text to restore and whether there is a file, unless the \<open>If-Match\<close> header does not fit\<close>
  "crs_current c ifMatch w =
     (case on_storage (rs_CRSDisabledFile c) crs_key readFileMaybe w of
        (Inl e, w1) \<Rightarrow> (Inl (EditError e), w1)
      | (Inr (raw, had), w1) \<Rightarrow>
          (let finish = (\<lambda>cur. if ifMatch \<noteq> [] \<and> ifMatch \<noteq> ComputeETag cur then Inl (EditConflict (ComputeETag cur)) else Inr (cur, had)) in
           if \<not> fw_store w1 then (finish raw, w1)
           else case on_storage (rs_CRSDisabledFile c) crs_key GetConfigBlob w1 of
             (Inl e, w2) \<Rightarrow> (Inl (EditError e), w2)
           | (Inr None, w2) \<Rightarrow> (finish raw, w2)
           | (Inr (Some (dbRaw, dbETag)), w2) \<Rightarrow>
               (if TrimSpace dbETag \<noteq> [] \<and> ifMatch \<noteq> [] \<and> ifMatch \<noteq> dbETag \<and> ifMatch \<noteq> ComputeETag dbRaw
                then (Inl (EditConflict dbETag), w2)
                else (finish dbRaw, w2))))"

definition PutCRSRuleSets ::
  "'w firewall_env \<Rightarrow> rule_settings \<Rightarrow> string \<Rightarrow> string list result \<Rightarrow> 'w firewall \<Rightarrow> string edit_reply \<times> 'w firewall" where
  "PutCRSRuleSets env c ifMatch body w =
     (if \<not> rs_CRSEnable c then (EditOff, w)
      else case body of
        Inl e \<Rightarrow> (EditBind e, w)
      | Inr enabled \<Rightarrow>
     (case crs_current c ifMatch w of
        (Inl reply, w1) \<Rightarrow> (reply, w1)
      | (Inr cur, w1) \<Rightarrow>
     (case discoverCRSRuleFiles env (rs_CRSSetupFile c) (rs_CRSRulesDir c) w1 of
        Inl e \<Rightarrow> (EditError e, w1)
      | Inr crs \<Rightarrow>
     (case BuildDisabledFromEnabled crs enabled of
        Inl e \<Rightarrow> (EditInvalid e, w1)
      | Inr disabled \<Rightarrow>
     (case ValidateWithCRSSelection env c enabled w1 of
        Inl e \<Rightarrow> (EditInvalid e, w1)
      | Inr _ \<Rightarrow> write_and_reload env c (rs_CRSDisabledFile c) crs_key cur (SerializeDisabled disabled) w1)))))"

definition SyncCRSDisabledStorage :: "'w firewall_env \<Rightarrow> rule_settings \<Rightarrow> 'w firewall \<Rightarrow> unit result \<times> 'w firewall" where
  \<comment> \<open>\<open>syncConfigBlobFilePath\<close> with a write that makes the directory and a reload of the engine\<close>
  "SyncCRSDisabledStorage env c w =
     (let path = TrimSpace (rs_CRSDisabledFile c) in
      if \<not> fw_store w \<or> path = [] then (Inr (), w)
      else case on_storage path crs_key readFileMaybe w of
        (Inl e, w1) \<Rightarrow> (Inl e, w1)
      | (Inr (fileRaw, hadFile), w1) \<Rightarrow>
     (case on_storage path crs_key GetConfigBlob w1 of
        (Inl e, w2) \<Rightarrow> (Inl e, w2)
      | (Inr None, w2) \<Rightarrow>
          (if fileRaw = [] then (Inr (), w2) else on_storage path crs_key (UpsertConfigBlob fileRaw (ComputeETag fileRaw)) w2)
      | (Inr (Some (dbRaw, dbETag)), w2) \<Rightarrow>
          (let changed = (\<not> hadFile \<or> fileRaw \<noteq> dbRaw) in
           case (if \<not> changed then (Inr (), w2)
                 else (case on_storage path crs_key MkdirAll w2 of
                         (Inl e, w3) \<Rightarrow> (Inl e, w3)
                       | (Inr _, w3) \<Rightarrow>
                           (case on_storage path crs_key (AtomicWriteWithBackup dbRaw) w3 of
                              (Inl e, w4) \<Rightarrow> (Inl e, w4)
                            | (Inr _, w4) \<Rightarrow> if rs_CRSEnable c then ReloadBaseWAF env c w4 else (Inr (), w4)))) of
             (Inl e, w5) \<Rightarrow> (Inl e, w5)
           | (Inr _, w5) \<Rightarrow>
               (if TrimSpace dbETag = [] then on_storage path crs_key (UpsertConfigBlob dbRaw (ComputeETag dbRaw)) w5
                else (Inr (), w5)))))"

end
