(* ===== verification/Rule_Admin_Correct.thy ===== *)
theory Rule_Admin_Correct
  imports Rule_Admin
begin

text \<open>
  Correctness of the rule file administration: a write leaves the file, the database row and the
  engine in force on one text even when an access fails, and a selection of core rules is read back
  as it was made.
\<close>

subsection \<open>Operations on one file of the firewall\<close>

definition rule_failures :: "'w firewall \<Rightarrow> nat" where
  "rule_failures w = length (filter (\<lambda>f. f \<noteq> None) (fw_faults w))"

definition same_rules :: "'w firewall \<Rightarrow> 'w firewall \<Rightarrow> bool" where
  "same_rules w w' \<longleftrightarrow> fw_files w' = fw_files w \<and> fw_blobs w' = fw_blobs w \<and> fw_store w' = fw_store w \<and> fw_base w' = fw_base w"

lemma same_rules_refl [simp]: "same_rules w w" by (simp add: same_rules_def)

lemma same_rules_trans: "same_rules w w' \<Longrightarrow> same_rules w' w'' \<Longrightarrow> same_rules w w''" by (simp add: same_rules_def)

lemma failures_focus: "failures (focus p k w) = rule_failures w"
  by (simp add: failures_def focus_def rule_failures_def)

lemma focus_fields [simp]:
  "so_File (focus p k w) = fw_files w (path_Clean p)" "so_Blob (focus p k w) = fw_blobs w k" "so_Store (focus p k w) = fw_store w"
  by (simp_all add: focus_def)

lemma unfocus_same:
  "so_File st = fw_files w (path_Clean p) \<Longrightarrow> so_Blob st = fw_blobs w k \<Longrightarrow> same_rules w (unfocus p k st w)"
  by (simp add: unfocus_def same_rules_def)

lemma unfocus_failures: "rule_failures (unfocus p k st w) = failures st"
  by (simp add: unfocus_def rule_failures_def failures_def)

text \<open>A read or a write is either done or failed, and a failure uses up one of the faults.\<close>

lemma on_read_cases:
  obtains (ok) w1 where "on_storage p k (store_read g) w = (Inr (g (focus p k w)), w1)" "same_rules w w1" "rule_failures w1 = rule_failures w"
  | (failed) e w1 where "on_storage p k (store_read g) w = (Inl e, w1)" "same_rules w w1" "rule_failures w = Suc (rule_failures w1)"
  by (cases rule: store_read_cases [of g "focus p k w"])
    (auto intro: ok failed simp: on_storage_def unfocus_same unfocus_failures failures_focus)

lemma on_write_cases:
  assumes "\<And>st. so_Faults (f st) = so_Faults st"
  obtains (ok) w1 st where "on_storage p k (store_write f) w = (Inr (), w1)" "rule_failures w1 = rule_failures w"
      "so_File st = fw_files w (path_Clean p)" "so_Blob st = fw_blobs w k" "w1 = unfocus p k (f st) w"
  | (failed) e w1 where "on_storage p k (store_write f) w = (Inl e, w1)" "same_rules w w1" "rule_failures w = Suc (rule_failures w1)"
proof (cases rule: store_write_cases [of f "focus p k w"])
  case (ok st0)
  have "failures (f st0) = failures st0" by (simp add: failures_def assms)
  then show ?thesis using ok
    by (intro that(1) [of "unfocus p k (f st0) w" st0]) (auto simp: on_storage_def unfocus_failures failures_focus)
next
  case (failed e st0)
  then show ?thesis
    by (intro that(2) [of e "unfocus p k st0 w"]) (auto simp: on_storage_def unfocus_same unfocus_failures failures_focus)
qed

lemma mkdir_cases:
  obtains (ok) w1 where "on_storage p k MkdirAll w = (Inr (), w1)" "same_rules w w1" "rule_failures w1 = rule_failures w"
  | (failed) e w1 where "on_storage p k MkdirAll w = (Inl e, w1)" "same_rules w w1" "rule_failures w = Suc (rule_failures w1)"
  unfolding MkdirAll_def
  by (cases rule: on_write_cases [of "\<lambda>s. s" p k w]) (auto intro: ok failed simp: unfocus_same)

lemma put_file_cases:
  obtains (ok) w1 where "on_storage p k (AtomicWriteWithBackup raw) w = (Inr (), w1)" "rule_failures w1 = rule_failures w"
      "fw_files w1 = (fw_files w)(path_Clean p \<mapsto> raw)" "fw_blobs w1 = fw_blobs w" "fw_store w1 = fw_store w" "fw_base w1 = fw_base w"
  | (failed) e w1 where "on_storage p k (AtomicWriteWithBackup raw) w = (Inl e, w1)" "same_rules w w1" "rule_failures w = Suc (rule_failures w1)"
proof (cases rule: file_write_cases [of raw "focus p k w"])
  case (ok st1)
  then show ?thesis
    by (intro that(1) [of "unfocus p k st1 w"]) (auto simp: on_storage_def unfocus_failures failures_focus, auto simp: unfocus_def)
next
  case (failed e st1)
  then show ?thesis
    by (intro that(2) [of e "unfocus p k st1 w"]) (auto simp: on_storage_def unfocus_failures failures_focus unfocus_same)
qed

lemma put_blob_cases:
  obtains (ok) w1 where "on_storage p k (UpsertConfigBlob raw (ComputeETag raw)) w = (Inr (), w1)" "rule_failures w1 = rule_failures w"
      "fw_files w1 = fw_files w" "fw_blobs w1 = (fw_blobs w)(k \<mapsto> (raw, ComputeETag raw))" "fw_store w1 = fw_store w" "fw_base w1 = fw_base w"
  | (failed) e w1 where "on_storage p k (UpsertConfigBlob raw (ComputeETag raw)) w = (Inl e, w1)" "same_rules w w1"
      "rule_failures w = Suc (rule_failures w1)"
proof (cases rule: blob_write_cases [of raw raw "focus p k w"])
  case (ok st1)
  then show ?thesis
    by (intro that(1) [of "unfocus p k st1 w"]) (auto simp: on_storage_def unfocus_failures failures_focus, auto simp: unfocus_def)
next
  case (failed e st1)
  then show ?thesis
    by (intro that(2) [of e "unfocus p k st1 w"]) (auto simp: on_storage_def unfocus_failures failures_focus unfocus_same)
qed

lemma rollback_cases:
  assumes "rule_failures w = 0"
  obtains w1 where "on_storage p k (rollbackRuleFile had raw) w = (Inr (), w1)" "rule_failures w1 = 0"
    "fw_files w1 = (fw_files w)(path_Clean p := if had then Some raw else None)" "fw_blobs w1 = fw_blobs w" "fw_store w1 = fw_store w"
    "fw_base w1 = fw_base w"
proof (cases had)
  case True
  have "rollbackRuleFile True raw = AtomicWriteWithBackup raw" by (simp add: rollbackRuleFile_def fun_eq_iff)
  with True show ?thesis
    by (cases rule: put_file_cases [of p k raw w]) (use assms in \<open>auto intro: that\<close>)
next
  case False
  have e: "on_storage p k (rollbackRuleFile False raw) w = on_storage p k (store_write (\<lambda>s. s\<lparr>so_File := None\<rparr>)) w"
    by (simp add: on_storage_def rollbackRuleFile_def)
  have "\<And>st. so_Faults (st\<lparr>so_File := None\<rparr>) = so_Faults st" by simp
  then show ?thesis
    by (cases rule: on_write_cases [of "\<lambda>s. s\<lparr>so_File := None\<rparr>" p k w, consumes 1])
      (use assms e False in \<open>auto intro!: that simp: unfocus_def\<close>)
qed

lemma read_maybe_cases:
  obtains (ok) w1 where "on_storage p k readFileMaybe w = (Inr (case fw_files w (path_Clean p) of None \<Rightarrow> ([], False) | Some r \<Rightarrow> (r, True)), w1)"
      "same_rules w w1" "rule_failures w1 = rule_failures w"
  | (failed) e w1 where "on_storage p k readFileMaybe w = (Inl e, w1)" "same_rules w w1" "rule_failures w = Suc (rule_failures w1)"
proof (cases rule: store_read_cases [of so_File "focus p k w"])
  case (ok st0)
  then show ?thesis
    by (intro that(1) [of "unfocus p k st0 w"])
      (auto simp: on_storage_def readFileMaybe_def unfocus_failures failures_focus unfocus_same split: option.splits)
next
  case (failed e st0)
  then show ?thesis
    by (intro that(2) [of e "unfocus p k st0 w"])
      (auto simp: on_storage_def readFileMaybe_def unfocus_failures failures_focus unfocus_same)
qed

lemma read_blob_cases:
  obtains (ok) w1 where "on_storage p k GetConfigBlob w = (Inr (fw_blobs w k), w1)" "same_rules w w1" "rule_failures w1 = rule_failures w"
  | (failed) e w1 where "on_storage p k GetConfigBlob w = (Inl e, w1)" "same_rules w w1" "rule_failures w = Suc (rule_failures w1)"
proof -
  have "on_storage p k GetConfigBlob w = on_storage p k (store_read so_Blob) w"
    by (simp add: on_storage_def GetConfigBlob_def)
  then show ?thesis by (cases rule: on_read_cases [of p k so_Blob w]) (auto intro: that)
qed

subsection \<open>The engine in force\<close>

definition disabled_in :: "rule_settings \<Rightarrow> 'w firewall \<Rightarrow> string list" where
  "disabled_in c w = (if rs_CRSEnable c
     then (case fw_files w (path_Clean (rs_CRSDisabledFile c)) of None \<Rightarrow> [] | Some raw \<Rightarrow> ParseDisabled raw) else [])"

definition rule_files_now :: "'w firewall_env \<Rightarrow> rule_settings \<Rightarrow> 'w firewall \<Rightarrow> string list result" where
  "rule_files_now env c w = composeInitialRuleFilesWithDisabledSet env c (disabled_in c w) w"

definition engine_now :: "'w firewall_env \<Rightarrow> rule_settings \<Rightarrow> 'w firewall \<Rightarrow> 'w result" where
  \<comment> \<open>what the files give when nothing fails\<close>
  "engine_now env c w = bindR (rule_files_now env c w) (\<lambda>files. buildWAF env (map (with_content w) files))"

definition in_force :: "'w firewall_env \<Rightarrow> rule_settings \<Rightarrow> 'w firewall \<Rightarrow> bool" where
  "in_force env c w \<longleftrightarrow> (\<exists>b. fw_base w = Some b \<and> engine_now env c w = Inr b)"

lemma compose_cong:
  assumes "fw_files w' = fw_files w"
  shows "composeInitialRuleFilesWithDisabledSet env c d w' = composeInitialRuleFilesWithDisabledSet env c d w"
    "with_content w' = with_content w" "disabled_in c w' = disabled_in c w"
  using assms by (simp_all add: composeInitialRuleFilesWithDisabledSet_def discoverCRSRuleFiles_def with_content_def disabled_in_def fun_eq_iff)

lemma engine_cong:
  assumes "fw_files w' = fw_files w"
  shows "engine_now env c w' = engine_now env c w"
  by (simp add: engine_now_def rule_files_now_def compose_cong [OF assms])

lemma prepare_cases:
  obtains (ok) w1 where "PrepareInitialRuleFiles env c w = (rule_files_now env c w, w1)" "same_rules w w1" "rule_failures w1 = rule_failures w"
  | (failed) e w1 where "PrepareInitialRuleFiles env c w = (Inl e, w1)" "same_rules w w1" "rule_failures w = Suc (rule_failures w1)"
proof (cases "rs_CRSEnable c")
  case False
  then show ?thesis using that(1) [of w] by (simp add: PrepareInitialRuleFiles_def rule_files_now_def disabled_in_def)
next
  case True
  show ?thesis
  proof (cases rule: read_maybe_cases [of "rs_CRSDisabledFile c" "[]" w])
    case (ok w1)
    have "LoadDisabledFile (rs_CRSDisabledFile c) w = (Inr (disabled_in c w), w1)"
      by (simp add: LoadDisabledFile_def ok(1) disabled_in_def True split: option.split)
    moreover have "composeInitialRuleFilesWithDisabledSet env c d w1 = composeInitialRuleFilesWithDisabledSet env c d w" for d
      using ok(2) by (intro compose_cong) (simp add: same_rules_def)
    ultimately show ?thesis using True ok that(1) [of w1] by (simp add: PrepareInitialRuleFiles_def rule_files_now_def)
  next
    case (failed e w1)
    then show ?thesis using True that(2) [of _ w1] by (simp add: PrepareInitialRuleFiles_def LoadDisabledFile_def)
  qed
qed

lemma reload_engine_cases:
  obtains (ok) w1 b where "ReloadBaseWAF env c w = (Inr (), w1\<lparr>fw_base := Some b\<rparr>)" "same_rules w w1" "engine_now env c w = Inr b"
      "rule_failures w1 = rule_failures w"
  | (refused) e w1 where "ReloadBaseWAF env c w = (Inl e, w1)" "same_rules w w1" "isl (engine_now env c w)"
  | (failed) e w1 where "ReloadBaseWAF env c w = (Inl e, w1)" "same_rules w w1" "rule_failures w = Suc (rule_failures w1)"
proof (cases rule: prepare_cases [of env c w])
  case (ok w1)
  have same: "with_content w1 = with_content w" using ok(2) by (intro compose_cong) (simp add: same_rules_def)
  show ?thesis
  proof (cases "engine_now env c w")
    case (Inl e)
    then have "\<exists>e. ReloadBaseWAF env c w = (Inl e, w1)"
      by (cases "rule_files_now env c w") (auto simp: ReloadBaseWAF_def engine_now_def ok(1) same)
    then show ?thesis using that(2) ok(2) Inl by auto
  next
    case (Inr b)
    then have "ReloadBaseWAF env c w = (Inr (), w1\<lparr>fw_base := Some b\<rparr>)"
      by (cases "rule_files_now env c w") (auto simp: ReloadBaseWAF_def engine_now_def ok(1) same)
    then show ?thesis using that(1) ok(2,3) Inr by blast
  qed
next
  case (failed e w1)
  then show ?thesis using that(3) by (simp add: ReloadBaseWAF_def)
qed

subsection \<open>A write of a rule file\<close>

definition with_text :: "string \<Rightarrow> string \<Rightarrow> 'w firewall \<Rightarrow> 'w firewall" where
  "with_text p raw w = w\<lparr>fw_files := (fw_files w)(path_Clean p \<mapsto> raw)\<rparr>"

definition all_new :: "'w firewall_env \<Rightarrow> rule_settings \<Rightarrow> string \<Rightarrow> string \<Rightarrow> string \<Rightarrow> 'w firewall \<Rightarrow> 'w firewall \<Rightarrow> bool" where
  \<comment> \<open>path, key and the new text\<close>
  "all_new env c p k raw w w' \<longleftrightarrow> fw_files w' = (fw_files w)(path_Clean p \<mapsto> raw)
     \<and> (fw_store w \<longrightarrow> fw_blobs w' k = Some (raw, ComputeETag raw)) \<and> in_force env c w'"

definition all_old :: "'w firewall_env \<Rightarrow> rule_settings \<Rightarrow> 'w firewall \<Rightarrow> 'w firewall \<Rightarrow> bool" where
  "all_old env c w w' \<longleftrightarrow> fw_files w' = fw_files w \<and> fw_blobs w' = fw_blobs w \<and> in_force env c w'"

lemma same_in_force: "same_rules w w' \<Longrightarrow> in_force env c w \<Longrightarrow> in_force env c w'"
  using engine_cong [of w' w env c] by (simp add: in_force_def same_rules_def)

lemma same_all_old: "same_rules w w' \<Longrightarrow> in_force env c w \<Longrightarrow> all_old env c w w'"
  using same_in_force by (auto simp: all_old_def same_rules_def)

text \<open>Restoring the file and loading the engine again, with no fault left.\<close>

lemma undo_restores:
  assumes "in_force env c w" "rule_failures v = 0" "fw_files v = (fw_files w)(path_Clean p \<mapsto> raw)" "fw_blobs v = fw_blobs w"
    "fw_files w (path_Clean p) = (if had then Some cur else None)"
  shows "all_old env c w (snd (ReloadBaseWAF env c (snd (on_storage p k (rollbackRuleFile had cur) v))))"
proof -
  obtain v1 where v1: "on_storage p k (rollbackRuleFile had cur) v = (Inr (), v1)" "rule_failures v1 = 0"
    "fw_files v1 = (fw_files v)(path_Clean p := if had then Some cur else None)" "fw_blobs v1 = fw_blobs v"
    by (cases rule: rollback_cases [OF assms(2), of p k had cur])
  have files: "fw_files v1 = fw_files w" using v1(3) assms(3,5) by auto
  obtain b where b: "fw_base w = Some b" "engine_now env c w = Inr b" using assms(1) by (auto simp: in_force_def)
  then have now: "engine_now env c v1 = Inr b" using engine_cong [OF files, of env c] by simp
  show ?thesis
  proof (cases rule: reload_engine_cases [of env c v1])
    case (ok u b')
    then have "fw_files u = fw_files w" using files by (simp add: same_rules_def)
    moreover have "b' = b" using ok(3) now by simp
    moreover have "engine_now env c (u\<lparr>fw_base := Some b\<rparr>) = Inr b"
      using engine_cong [of "u\<lparr>fw_base := Some b\<rparr>" w env c] \<open>fw_files u = fw_files w\<close> b by simp
    ultimately show ?thesis using ok v1 assms(4) by (auto simp: all_old_def in_force_def same_rules_def)
  qed (use now v1(2) in auto)
qed

lemma write_and_reload_outcome:
  assumes "in_force env c w" "rule_failures w \<le> 1" "fw_files w (path_Clean p) = (if had then Some cur else None)"
    "\<not> isl (engine_now env c (with_text p raw w))" "write_and_reload env c p k (cur, had) raw w = (reply, w')"
  shows "if \<exists>tag. reply = EditDone tag then reply = EditDone (ComputeETag raw) \<and> all_new env c p k raw w w' else all_old env c w w'"
proof (cases rule: mkdir_cases [of p k w])
  case (failed e w1)
  with assms show ?thesis by (auto simp: write_and_reload_def intro: same_all_old)
next
  case mk: (ok w1)
  have f1: "in_force env c w1" "rule_failures w1 \<le> 1" "fw_files w1 = fw_files w" "fw_blobs w1 = fw_blobs w" "fw_store w1 = fw_store w"
    using mk assms(1,2) same_in_force by (auto simp: same_rules_def)
  show ?thesis
  proof (cases rule: put_file_cases [of p k raw w1])
    case (failed e w2)
    then have "same_rules w w2" using mk same_rules_trans by blast
    with failed mk assms show ?thesis by (auto simp: write_and_reload_def intro: same_all_old)
  next
    case wr: (ok w2)
    have w2: "fw_files w2 = (fw_files w)(path_Clean p \<mapsto> raw)" "fw_blobs w2 = fw_blobs w" "fw_store w2 = fw_store w" "rule_failures w2 \<le> 1"
      using wr f1 by auto
    have new: "\<not> isl (engine_now env c w2)"
      using assms(4) engine_cong [of w2 "with_text p raw w" env c] w2(1) by (simp add: with_text_def)
    define undo where "undo v = snd (ReloadBaseWAF env c (snd (on_storage p k (rollbackRuleFile had cur) v)))" for v
    have undone: "all_old env c w (undo v)" if "rule_failures v = 0" "same_rules w2 v \<or> fw_files v = fw_files w2 \<and> fw_blobs v = fw_blobs w2" for v
      unfolding undo_def using that w2 assms(1,3) by (intro undo_restores) (auto simp: same_rules_def)
    note run = assms(5) [unfolded write_and_reload_def, simplified mk(1) wr(1) prod.case sum.case fst_conv snd_conv Let_def, folded undo_def]
    show ?thesis
    proof (cases rule: reload_engine_cases [of env c w2])
      case (refused e w3)
      with new show ?thesis by simp
    next
      case (failed e w3)
      then have "rule_failures w3 = 0" using w2(4) by simp
      then show ?thesis using run failed undone [of w3] by auto
    next
      case re: (ok u b)
      define w3 where "w3 = u\<lparr>fw_base := Some b\<rparr>"
      have w3: "fw_files w3 = fw_files w2" "fw_blobs w3 = fw_blobs w" "fw_store w3 = fw_store w" "rule_failures w3 \<le> 1" "fw_base w3 = Some b"
        using re w2 by (auto simp: w3_def same_rules_def rule_failures_def)
      have live: "in_force env c v" if "fw_files v = fw_files w2" "fw_base v = Some b" for v
        using re(3) engine_cong [OF that(1), of env c] that(2) by (simp add: in_force_def)
      show ?thesis
      proof (cases "fw_store w3")
        case False
        then show ?thesis using run re(1) w3 w2 live [of w3] by (auto simp: w3_def [symmetric] all_new_def)
      next
        case True
        show ?thesis
        proof (cases rule: put_blob_cases [of p k raw w3])
          case (ok w4)
          then show ?thesis using run re(1) True w3 w2 live [of w4] by (auto simp: w3_def [symmetric] all_new_def)
        next
          case (failed e w4)
          then have "all_old env c w (undo w4)" using w3 w2 by (intro undone) (auto simp: same_rules_def)
          then show ?thesis using run re(1) True failed(1) by (auto simp: w3_def [symmetric])
        qed
      qed
    qed
  qed
qed

lemma validate_override_cases:
  obtains (ok) w1 where "ValidateWithRuleOverride env c p raw w = (Inr (), w1)" "same_rules w w1" "rule_failures w1 \<le> rule_failures w"
  | (no) e w1 where "ValidateWithRuleOverride env c p raw w = (Inl e, w1)" "same_rules w w1"
proof -
  have tmp: "on_storage q k (store_write (\<lambda>s. s)) v = on_storage q k MkdirAll v" for q k and v :: "'a firewall"
    by (simp add: on_storage_def MkdirAll_def)
  have "same_rules w (snd (ValidateWithRuleOverride env c p raw w))
      \<and> rule_failures (snd (ValidateWithRuleOverride env c p raw w)) \<le> rule_failures w"
  proof (cases rule: prepare_cases [of env c w])
    case (ok w1)
    show ?thesis
    proof (cases rule: mkdir_cases [of "fe_tmp env" "[]" w1])
      case ok2: (ok w2)
      then show ?thesis using ok same_rules_trans [of w w1 w2]
        by (auto simp: ValidateWithRuleOverride_def Let_def tmp split: sum.splits option.splits)
    next
      case (failed e w2)
      then show ?thesis using ok same_rules_trans [of w w1 w2]
        by (auto simp: ValidateWithRuleOverride_def Let_def tmp split: sum.splits option.splits)
    qed
  qed (simp add: ValidateWithRuleOverride_def Let_def)
  then show ?thesis
    by (cases "ValidateWithRuleOverride env c p raw w"; cases "fst (ValidateWithRuleOverride env c p raw w)") (auto intro: that)
qed

lemma rule_document_cases:
  assumes "fw_store w \<Longrightarrow> (\<forall>b t. fw_blobs w (ruleFileConfigBlobKey p) = Some (b, t) \<longrightarrow> fw_files w (path_Clean p) = Some b)"
  obtains (ok) w1 cur had tag where "rule_document p w = (Inr ((cur, had), tag), w1)" "same_rules w w1" "rule_failures w1 \<le> rule_failures w"
      "fw_files w (path_Clean p) = (if had then Some cur else None)"
  | (no) e w1 where "rule_document p w = (Inl e, w1)" "same_rules w w1"
proof (cases rule: read_maybe_cases [of p "ruleFileConfigBlobKey p" w])
  case (failed e w1)
  then show ?thesis using that(2) by (simp add: rule_document_def on_rule_file_def)
next
  case read0: (ok w1)
  obtain cur had where ch: "(case fw_files w (path_Clean p) of None \<Rightarrow> ([], False) | Some r \<Rightarrow> (r, True)) = (cur, had)"
    "fw_files w (path_Clean p) = (if had then Some cur else None)" by (cases "fw_files w (path_Clean p)") auto
  note read = read0 [unfolded ch(1)]
  show ?thesis
  proof (cases "fw_store w1")
    case False
    then show ?thesis using read ch(2) that(1) [of cur had _ w1] by (auto simp: rule_document_def on_rule_file_def)
  next
    case store: True
    show ?thesis
    proof (cases rule: read_blob_cases [of p "ruleFileConfigBlobKey p" w1])
      case (failed e w2)
      then show ?thesis using that(2) [of e w2] read store same_rules_trans [of w w1 w2]
        by (auto simp: rule_document_def on_rule_file_def)
    next
      case (ok w2)
      have s: "same_rules w w2" using read ok same_rules_trans by blast
      have blob: "fw_blobs w1 (ruleFileConfigBlobKey p) = fw_blobs w (ruleFileConfigBlobKey p)" "fw_store w"
        using read(2) store by (auto simp: same_rules_def)
      show ?thesis
      proof (cases "fw_blobs w (ruleFileConfigBlobKey p)")
        case None
        then show ?thesis using that(1) [of cur had _ w2] read ok s store blob ch(2)
          by (auto simp: rule_document_def on_rule_file_def)
      next
        case (Some bt)
        then obtain b t where bt: "fw_blobs w (ruleFileConfigBlobKey p) = Some (b, t)" by (cases bt) auto
        with assms blob have "fw_files w (path_Clean p) = Some b" by blast
        with ch(2) have "had" by (auto split: if_splits)
        then show ?thesis using that(1) [of b True _ w2] read ok s store blob bt \<open>fw_files w (path_Clean p) = Some b\<close>
          by (auto simp: rule_document_def on_rule_file_def)
      qed
    qed
  qed
qed


subsection \<open>The selection of core rules\<close>

definition plain_name :: "string \<Rightarrow> bool" where
  \<comment> \<open>a file name that is a line of the list as it stands\<close>
  "plain_name n \<longleftrightarrow> n \<noteq> [] \<and> TrimSpace n = n \<and> CHR ''/'' \<notin> set n \<and> CHR ''#'' \<notin> set n \<and> newline \<notin> set n
     \<and> last n \<noteq> CHR 0x0D \<and> int (length n) < 65536"

lemma LastIndexByte_none: "c \<notin> set s \<Longrightarrow> LastIndexByte s c = None"
  by (induction s) auto

lemma TrimRightByte_absent: "c \<notin> set s \<Longrightarrow> TrimRightByte s c = s"
  unfolding TrimRightByte_def by (induction s rule: rev_induct) auto

lemma plain_name_kept: "plain_name n \<Longrightarrow> NormalizeName (before_hash n) = n"
proof -
  assume n: "plain_name n"
  have hash: "Index s ''#'' = None" if "CHR ''#'' \<notin> set s" for s
    using that by (induction s) auto
  have "before_hash n = n" using n hash by (simp add: before_hash_def plain_name_def)
  then show ?thesis
    using n by (simp add: NormalizeName_def filepath_Base_def plain_name_def TrimRightByte_absent LastIndexByte_none Let_def)
qed

lemma parse_serialized:
  assumes "\<forall>n\<in>set ds. plain_name n"
  shows "set (ParseDisabled (SerializeDisabled ds)) = insert ''.'' (set ds)"
proof -
  have header: "\<forall>l\<in>set disabled_header. newline \<notin> set l \<and> (l = [] \<or> last l \<noteq> CHR 0x0D) \<and> int (length l) < 65536"
    unfolding disabled_header_def by simp
  have lines: "scan_lines (SerializeDisabled ds) = (disabled_header @ ds, False)"
    unfolding SerializeDisabled_def
    using assms header by (intro scan_lines_join) (auto simp: disabled_header_def plain_name_def)
  have names: "map (\<lambda>l. NormalizeName (before_hash l)) ds = ds"
    using assms plain_name_kept by (intro map_id_on) simp
  have "NormalizeName (before_hash ''# crs-disabled.conf - Disabled CRS rule filenames'') = ''.''"
    "NormalizeName (before_hash ''# One filename per line. Empty means all CRS rules are enabled.'') = ''.''"
    "NormalizeName (before_hash ''# Example: REQUEST-913-SCANNER-DETECTION.conf'') = ''.''"
    "NormalizeName (before_hash []) = ''.''" by code_simp+
  then have "set (map (\<lambda>l. NormalizeName (before_hash l)) (disabled_header @ ds)) = insert ''.'' (set ds)"
    unfolding map_append names by (simp add: disabled_header_def)
  moreover have "[] \<notin> set ds" using assms by (auto simp: plain_name_def)
  ultimately show ?thesis by (auto simp: ParseDisabled_def lines)
qed

lemma enabled_names_set: "enabled_names known ns = Inr es \<Longrightarrow> set es = NormalizeName ` set ns - {[]} \<and> set es \<subseteq> set known"
  by (induction ns arbitrary: es) (fastforce simp: bindR_Inr split: if_splits)+


text \<open>
  An engine loaded for a bypass entry is kept for ever: whatever is written to its rule file later,
  the engine first built is used.
\<close>

theorem extra_rule_engine_is_never_reloaded:
  assumes "TrimSpace f \<noteq> []" "map_of (fw_override w) (TrimSpace f) = None" "GetWAFForExtraRule env f w = (Inr (Some e), w1)"
    "fw_override w2 = fw_override w1"
  shows "GetWAFForExtraRule env' f w2 = (Inr (Some e), w2)"
  using assms by (auto simp: GetWAFForExtraRule_def Let_def split: sum.splits)

subsection \<open>Witnesses\<close>

definition demo_engine :: "((string \<times> string option) list) firewall_env" where
  "demo_engine = \<lparr>fe_build = (\<lambda>fs. Inr fs), fe_readDir = (\<lambda>d. Inr []), fe_tmp = ''/tmp/t.conf''\<rparr>"

definition demo_rules :: rule_settings where
  "demo_rules = \<lparr>rs_RulesFile = ''r.conf'', rs_CRSEnable = False, rs_CRSSetupFile = [], rs_CRSRulesDir = [], rs_CRSDisabledFile = []\<rparr>"

definition demo_firewall :: "((string \<times> string option) list) firewall" where
  "demo_firewall = \<lparr>fw_files = [''r.conf'' \<mapsto> ''a''], fw_backups = [], fw_store = False, fw_blobs = Map.empty,
     fw_faults = [None, Some (Errorf ''disk full'' [])], fw_base = Some [(''r.conf'', Some ''a'')], fw_override = []\<rparr>"

lemma demo_paths [simp]: "path_Clean ''r.conf'' = ''r.conf''" "TrimSpace ''r.conf'' = ''r.conf''"
    "splitRuleFiles ''r.conf'' = [''r.conf'']" "append_unique [''r.conf''] = [''r.conf'']" "dedup [''r.conf''] = [''r.conf'']"
  by code_simp+

lemma demo_build: "engine_now demo_engine demo_rules w = Inr [(''r.conf'', fw_files w ''r.conf'')]"
  by (simp add: engine_now_def rule_files_now_def composeInitialRuleFilesWithDisabledSet_def demo_rules_def demo_engine_def buildWAF_def
      with_content_def)



end
