(* ===== verification/Go_Pattern.thy ===== *)
theory Go_Pattern
  imports Go_Regexp
begin

text \<open>
  More of \<open>regexp\<close>: expressions anchored at both ends, and \<open>ReplaceAllString\<close>, which needs the match
  Go prefers (leftmost, then in the order of the alternatives, greedily) and not only whether there
  is one.  The lemmas say when an anchored expression matches a text put together from its parts, and
  which bytes no text it matches contains.
\<close>

definition FullMatch :: "rx \<Rightarrow> string \<Rightarrow> bool" where
  \<comment> \<open>\<open>^r$\<close>\<close>
  "FullMatch r s = (\<exists>pl\<in>set (ends r (False, s)). snd pl = [])"

fun copies :: "nat \<Rightarrow> rx \<Rightarrow> rx" where
  "copies 0 r = Eps"
| "copies (Suc n) r = Sq r (copies n r)"

definition AtLeast :: "nat \<Rightarrow> rx \<Rightarrow> rx" where
  \<comment> \<open>\<open>r{n,}\<close>\<close>
  "AtLeast n r = Sq (copies n r) (Star r)"

subsection \<open>The preferred match\<close>

fun greedy :: "nat \<Rightarrow> (rx_place \<Rightarrow> rx_place list) \<Rightarrow> rx_place \<Rightarrow> rx_place list" where
  \<comment> \<open>as often as possible, at most \<open>n\<close> times; a round that consumes nothing ends it\<close>
  "greedy 0 f pl = [pl]"
| "greedy (Suc n) f pl =
     concat (map (greedy n f) (filter (\<lambda>q. length (snd q) < length (snd pl)) (f pl))) @ [pl]"

primrec prefers :: "rx \<Rightarrow> rx_place \<Rightarrow> rx_place list" where
  \<comment> \<open>the places a match can end, in the order they are tried\<close>
  "prefers Eps pl = [pl]"
| "prefers (Cls p) pl = (case snd pl of [] \<Rightarrow> []
     | c # s \<Rightarrow> if p c then [(word_char c, drop (rune_len (c # s)) (c # s))] else [])"
| "prefers (Rune w) pl = (if HasPrefix (snd pl) w then [(False, drop (length w) (snd pl))] else [])"
| "prefers Bnd pl = (if boundary pl then [pl] else [])"
| "prefers (Sq a b) pl = concat (map (prefers b) (prefers a pl))"
| "prefers (Alt a b) pl = prefers a pl @ prefers b pl"
| "prefers (Upto n a) pl = greedy n (prefers a) pl"
| "prefers (Star a) pl = greedy (length (snd pl)) (prefers a) pl"

function replace_all :: "rx \<Rightarrow> (string \<Rightarrow> string) \<Rightarrow> rx_place \<Rightarrow> string" where
  \<comment> \<open>for expressions that match no empty text\<close>
  "replace_all r g pl =
     (case snd pl of [] \<Rightarrow> []
      | c # s \<Rightarrow>
          (case filter (\<lambda>q. length (snd q) < length (snd pl)) (prefers r pl) of
             q # _ \<Rightarrow> g (take (length (snd pl) - length (snd q)) (snd pl)) @ replace_all r g q
           | [] \<Rightarrow> take (rune_len (c # s)) (c # s) @ replace_all r g (word_char c, drop (rune_len (c # s)) (c # s))))"
  by pat_completeness auto
termination
proof (relation "measure (\<lambda>(r, g, pl). length (snd pl))")
  fix r :: rx and g :: "string \<Rightarrow> string" and pl :: rx_place and c s
  assume e: "snd pl = c # s"
  then show "((r, g, word_char c, drop (rune_len (c # s)) (c # s)), r, g, pl) \<in> measure (\<lambda>(r, g, pl). length (snd pl))"
    using rune_len_pos [of c s] by simp
next
  fix r :: rx and g :: "string \<Rightarrow> string" and pl q :: rx_place and c s qs
  assume "filter (\<lambda>q. length (snd q) < length (snd pl)) (prefers r pl) = q # qs"
  then have "q \<in> set (filter (\<lambda>q. length (snd q) < length (snd pl)) (prefers r pl))" by simp
  then show "((r, g, q), r, g, pl) \<in> measure (\<lambda>(r, g, pl). length (snd pl))" by simp
qed simp

declare replace_all.simps [simp del]

definition ReplaceAllStringFunc :: "rx \<Rightarrow> string \<Rightarrow> (string \<Rightarrow> string) \<Rightarrow> string" where
  "ReplaceAllStringFunc r s g = replace_all r g (False, s)"

definition ReplaceAllString :: "rx \<Rightarrow> string \<Rightarrow> string \<Rightarrow> string" where
  \<comment> \<open>a replacement without \<open>$\<close>\<close>
  "ReplaceAllString r s t = ReplaceAllStringFunc r s (\<lambda>_. t)"

subsection \<open>Texts that match\<close>

text \<open>\<open>takes r w rest\<close>: in front of \<open>rest\<close> the expression can consume exactly \<open>w\<close>.\<close>

definition takes :: "rx \<Rightarrow> string \<Rightarrow> string \<Rightarrow> bool" where
  "takes r w rest \<longleftrightarrow> (\<forall>b0. \<exists>b. (b, rest) \<in> set (ends r (b0, w @ rest)))"

definition ascii_next :: "string \<Rightarrow> bool" where
  "ascii_next s \<longleftrightarrow> s = [] \<or> ord (hd s) < 128"

lemma FullMatch_takes: "takes r s [] \<Longrightarrow> FullMatch r s"
  by (force simp: takes_def FullMatch_def)

lemma takes_Eps: "takes Eps [] rest"
  by (simp add: takes_def)

lemma takes_Sq: "takes a u (v @ rest) \<Longrightarrow> takes b v rest \<Longrightarrow> takes (Sq a b) (u @ v) rest"
  by (fastforce simp: takes_def)

lemma rune_len_ascii: "ord c < 128 \<Longrightarrow> rune_len (c # s) = 1"
  by (simp add: rune_len_def Let_def)

lemma takes_Cls: "p c \<Longrightarrow> ord c < 128 \<Longrightarrow> takes (Cls p) [c] rest"
  by (simp add: takes_def rune_len_ascii)

lemma takes_Lit: "\<forall>c\<in>set w. ord c < 128 \<Longrightarrow> takes (Lit w) w rest"
proof (induction w)
  case (Cons c w)
  then have "takes (Sq (Cls (\<lambda>d. d = c)) (Lit w)) ([c] @ w) rest"
    by (intro takes_Sq takes_Cls) simp_all
  then show ?case by (simp add: Lit_def)
qed (simp add: Lit_def takes_Eps)

lemma rune_len_cont:
  assumes "0 < i" "i < rune_len s"
  shows "i < length s \<and> 128 \<le> ord (s ! i)"
proof -
  have cb: "i < length s \<and> 128 \<le> ord (s ! i)" if "cont_byte s i lo hi" "128 \<le> lo" for i lo hi
    using that by (simp add: cont_byte_def)
  define first where "first lo hi = cont_byte s 1 lo hi" for lo hi
  define two where "two = cont_byte s 2 128 191"
  define three where "three = cont_byte s 3 128 191"
  obtain c t where s: "s = c # t" using assms by (cases s) (auto simp: rune_len_def)
  have len: "rune_len s =
     (if ord c < 128 then 1
      else if 194 \<le> ord c \<and> ord c \<le> 223 then (if first 128 191 then 2 else 1)
      else if 224 \<le> ord c \<and> ord c \<le> 239
      then (if first (if ord c = 224 then 160 else 128) (if ord c = 237 then 159 else 191) \<and> two then 3 else 1)
      else if 240 \<le> ord c \<and> ord c \<le> 244
      then (if first (if ord c = 240 then 144 else 128) (if ord c = 244 then 143 else 191) \<and> two \<and> three then 4 else 1)
      else 1)"
    by (simp add: rune_len_def Let_def s first_def two_def three_def)
  have "i = 1 \<and> (\<exists>lo\<in>{128, 144, 160}. \<exists>hi. first lo hi) \<or> i = 2 \<and> two \<or> i = 3 \<and> three"
    using assms unfolding len by (auto split: if_splits)
  then show ?thesis
  proof (elim disjE conjE bexE exE)
    fix lo hi :: nat
    assume "i = 1" "lo \<in> {128, 144, 160}" "first lo hi"
    then show ?thesis using cb [of 1 lo hi] by (auto simp: first_def)
  qed (use cb [of 2 128 191] cb [of 3 128 191] in \<open>auto simp: two_def three_def\<close>)
qed

lemma rune_within:
  assumes "ascii_next rest"
  shows "rune_len ((c # w) @ rest) \<le> length (c # w)"
proof (rule ccontr)
  assume "\<not> rune_len ((c # w) @ rest) \<le> length (c # w)"
  then have "length (c # w) < length ((c # w) @ rest) \<and> 128 \<le> ord (((c # w) @ rest) ! length (c # w))"
    by (intro rune_len_cont) auto
  with assms show False by (cases rest) (auto simp: ascii_next_def nth_append)
qed

lemma iterate_start: "pl \<in> set pls \<Longrightarrow> pl \<in> set (iterate n f pls)"
  by (induction n arbitrary: pls) (auto simp: Let_def)

lemma iterate_Nil [simp]: "iterate n f [] = []"
  by (induction n) (auto simp: Let_def)

lemma iterate_Suc: "set (iterate (Suc n) f pls) = set pls \<union> set (iterate n f (concat (map f pls)))"
  by (cases "concat (map f pls) = []") (simp_all add: Let_def del: concat_eq_Nil_conv)

lemma iterate_mono: "set xs \<subseteq> set ys \<Longrightarrow> set (iterate n f xs) \<subseteq> set (iterate n f ys)"
proof (induction n arbitrary: xs ys)
  case (Suc n)
  have "set (concat (map f xs)) \<subseteq> set (concat (map f ys))" using Suc.prems by auto
  with Suc show ?case unfolding iterate_Suc by blast
qed simp

lemma iterate_next: "q \<in> set (f pl) \<Longrightarrow> r \<in> set (iterate n f [q]) \<Longrightarrow> r \<in> set (iterate (Suc n) f [pl])"
  using iterate_mono [of "[q]" "f pl" n f] by (auto simp: iterate_Suc simp del: iterate.simps)

lemma iterate_more: "r \<in> set (iterate n f pls) \<Longrightarrow> n \<le> m \<Longrightarrow> r \<in> set (iterate m f pls)"
proof (induction n arbitrary: m pls)
  case 0
  then show ?case by (simp add: iterate_start)
next
  case (Suc n)
  then obtain k where m: "m = Suc k" "n \<le> k" by (cases m) auto
  with Suc show ?case unfolding m(1) iterate_Suc by blast
qed

lemma cls_step:
  assumes "w \<noteq> []" "\<forall>c\<in>set w. p c" "ascii_next rest"
  obtains n where "0 < n" "n \<le> length w" "\<And>b0. (word_char (hd w), drop n w @ rest) \<in> set (ends (Cls p) (b0, w @ rest))"
proof -
  obtain c v where w: "w = c # v" using assms(1) by (cases w) auto
  define n where "n = rune_len (w @ rest)"
  have n: "0 < n" "n \<le> length w"
    using rune_within [OF assms(3), of c v] rune_len_pos [of c "v @ rest"] by (simp_all add: n_def w)
  have "ends (Cls p) (b0, w @ rest) = [(word_char c, drop n (w @ rest))]" for b0
    using assms(2) by (simp add: w n_def)
  moreover have "drop n (w @ rest) = drop n w @ rest" using n by simp
  ultimately show ?thesis using n by (intro that [of n]) (simp_all add: w)
qed

lemma takes_Star:
  assumes "\<forall>c\<in>set w. p c" "ascii_next rest"
  shows "takes (Star (Cls p)) w rest"
proof -
  have "\<exists>b. (b, rest) \<in> set (iterate (length (w @ rest)) (ends (Cls p)) [(b0, w @ rest)])" for b0
    using assms(1)
  proof (induction w arbitrary: b0 rule: length_induct)
    case (1 w)
    show ?case
    proof (cases "w = []")
      case True
      then have "(b0, rest) \<in> set (iterate (length (w @ rest)) (ends (Cls p)) [(b0, w @ rest)])" by (intro iterate_start) simp
      then show ?thesis by blast
    next
      case False
      obtain n where n: "0 < n" "n \<le> length w" "(word_char (hd w), drop n w @ rest) \<in> set (ends (Cls p) (b0, w @ rest))"
        using cls_step [OF False 1(2) assms(2)] by blast
      have "\<forall>c\<in>set (drop n w). p c" using 1(2) by (auto dest: in_set_dropD)
      with 1(1) n obtain b where
        "(b, rest) \<in> set (iterate (length (drop n w @ rest)) (ends (Cls p)) [(word_char (hd w), drop n w @ rest)])"
        by (metis length_drop diff_less less_le_trans)
      with n(3) have "(b, rest) \<in> set (iterate (Suc (length (drop n w @ rest))) (ends (Cls p)) [(b0, w @ rest)])"
        by (rule iterate_next)
      then have "(b, rest) \<in> set (iterate (length (w @ rest)) (ends (Cls p)) [(b0, w @ rest)])"
        by (rule iterate_more) (use n in simp)
      then show ?thesis by blast
    qed
  qed
  then show ?thesis by (simp add: takes_def)
qed

lemma takes_Plus:
  assumes "w \<noteq> []" "\<forall>c\<in>set w. p c" "ascii_next rest"
  shows "takes (Plus (Cls p)) w rest"
proof -
  obtain n where n: "\<And>b0. (word_char (hd w), drop n w @ rest) \<in> set (ends (Cls p) (b0, w @ rest))"
    using cls_step [OF assms] by metis
  have "takes (Cls p) (take n w) (drop n w @ rest)"
    unfolding takes_def append.assoc [symmetric] append_take_drop_id using n by blast
  moreover have "takes (Star (Cls p)) (drop n w) rest"
    using assms by (intro takes_Star) (auto dest: in_set_dropD)
  ultimately show ?thesis using takes_Sq [of "Cls p" "take n w" "drop n w" rest "Star (Cls p)"] by (simp add: Plus_def)
qed

lemma takes_AtLeast:
  assumes "length w \<ge> n" "\<forall>c\<in>set w. p c \<and> ord c < 128" "ascii_next rest"
  shows "takes (AtLeast n (Cls p)) w rest"
proof -
  have "takes (copies n (Cls p)) (take n w) (drop n w @ rest)"
    using assms(1,2)
  proof (induction n arbitrary: w)
    case (Suc n)
    then obtain c v where w: "w = c # v" by (cases w) auto
    with Suc have "takes (Sq (Cls p) (copies n (Cls p))) ([c] @ take n v) (drop n v @ rest)"
      by (intro takes_Sq takes_Cls) simp_all
    then show ?case by (simp add: w)
  qed (simp add: takes_Eps)
  moreover have "takes (Star (Cls p)) (drop n w) rest"
    using assms(2,3) by (intro takes_Star) (auto dest: in_set_dropD)
  ultimately show ?thesis
    using takes_Sq [of "copies n (Cls p)" "take n w" "drop n w" rest "Star (Cls p)"] by (simp add: AtLeast_def)
qed

subsection \<open>Bytes that no match contains\<close>

primrec avoids :: "char \<Rightarrow> rx \<Rightarrow> bool" where
  "avoids d Eps = True"
| "avoids d (Cls p) = (\<not> p d)"
| "avoids d (Rune w) = (d \<notin> set w)"
| "avoids d Bnd = True"
| "avoids d (Sq a b) = (avoids d a \<and> avoids d b)"
| "avoids d (Alt a b) = (avoids d a \<and> avoids d b)"
| "avoids d (Upto n a) = avoids d a"
| "avoids d (Star a) = avoids d a"

lemma rune_clean:
  assumes "ord d < 128" "c \<noteq> d"
  shows "d \<notin> set (take (rune_len (c # s)) (c # s))"
proof
  assume "d \<in> set (take (rune_len (c # s)) (c # s))"
  then obtain i where i: "i < rune_len (c # s)" "(c # s) ! i = d" by (auto simp: in_set_conv_nth)
  with assms(2) have "0 < i" by (cases i) auto
  with i assms(1) show False using rune_len_cont [of i "c # s"] by auto
qed

lemma iterate_inv:
  assumes "\<And>pl q. P pl \<Longrightarrow> q \<in> set (f pl) \<Longrightarrow> P q"
  shows "\<forall>pl\<in>set pls. P pl \<Longrightarrow> q \<in> set (iterate n f pls) \<Longrightarrow> P q"
proof (induction n arbitrary: pls)
  case (Suc n)
  have "\<forall>pl\<in>set (concat (map f pls)). P pl" using assms Suc.prems(1) by auto
  with Suc show ?case unfolding iterate_Suc by blast
qed simp

lemma ends_clean:
  assumes "avoids d r" "ord d < 128"
  shows "(b', t) \<in> set (ends r (b, s)) \<Longrightarrow> \<exists>w. s = w @ t \<and> d \<notin> set w"
  using assms(1)
proof (induction r arbitrary: b s b' t)
  case (Cls p)
  then obtain c v where s: "s = c # v" by (cases s) auto
  with Cls have "p c" "t = drop (rune_len s) s" by (auto split: if_splits)
  moreover from this Cls.prems(2) have "c \<noteq> d" by auto
  ultimately show ?case using rune_clean [OF assms(2), of c v] s by (intro exI [of _ "take (rune_len s) s"]) simp
next
  case (Rune w)
  then show ?case by (auto simp: HasPrefix_iff split: if_splits)
next
  case (Sq r1 r2)
  from Sq.prems(1) obtain bm m where m: "(bm, m) \<in> set (ends r1 (b, s))" "(b', t) \<in> set (ends r2 (bm, m))" by auto
  with Sq.IH Sq.prems(2) obtain u v where "s = u @ m" "m = v @ t" "d \<notin> set u" "d \<notin> set v" by fastforce
  then show ?case by (intro exI [of _ "u @ v"]) simp
next
  case (Alt r1 r2)
  then show ?case by auto
next
  case (Upto n r)
  have "\<exists>w. s = w @ snd q \<and> d \<notin> set w" if "q \<in> set (iterate n (ends r) [(b, s)])" for q
  proof (rule iterate_inv [OF _ _ that])
    fix pl q :: rx_place
    assume "\<exists>w. s = w @ snd pl \<and> d \<notin> set w" "q \<in> set (ends r pl)"
    then obtain w v where "s = w @ snd pl" "snd pl = v @ snd q" "d \<notin> set w" "d \<notin> set v"
      using Upto.IH Upto.prems(2) by (metis avoids.simps(7) prod.collapse)
    then show "\<exists>w. s = w @ snd q \<and> d \<notin> set w" by (intro exI [of _ "w @ v"]) simp
  qed simp
  with Upto.prems(1) show ?case by fastforce
next
  case (Star r)
  have "\<exists>w. s = w @ snd q \<and> d \<notin> set w" if "q \<in> set (iterate (length s) (ends r) [(b, s)])" for q
  proof (rule iterate_inv [OF _ _ that])
    fix pl q :: rx_place
    assume "\<exists>w. s = w @ snd pl \<and> d \<notin> set w" "q \<in> set (ends r pl)"
    then obtain w v where "s = w @ snd pl" "snd pl = v @ snd q" "d \<notin> set w" "d \<notin> set v"
      using Star.IH Star.prems(2) by (metis avoids.simps(8) prod.collapse)
    then show "\<exists>w. s = w @ snd q \<and> d \<notin> set w" by (intro exI [of _ "w @ v"]) simp
  qed simp
  with Star.prems(1) show ?case by fastforce
qed (auto split: if_splits)

lemma FullMatch_clean: "FullMatch r s \<Longrightarrow> avoids d r \<Longrightarrow> ord d < 128 \<Longrightarrow> d \<notin> set s"
  unfolding FullMatch_def using ends_clean by fastforce

end
