(* ===== verification/Fp_Proposals.thy ===== *)
theory Fp_Proposals
  imports Go_Pattern Go_Float Go_Http Go_Sha256 Rule_Admin
begin

text \<open>
  The false positive tuner, first half (\<open>handler/fp_tuner.go\<close>): the event a proposal is made for,
  what the provider gets to see of it, the rule line, the proposal and the approval tokens.  The
  provider (a service behind HTTP, or a file), the log the latest event is read from, the decoding
  of JSON and the random bytes of a token are parameters.
\<close>

record fp_settings =                 \<comment> \<open>\<open>config.FPTuner*\<close>\<close>
  fs_Mode :: string
  fs_Endpoint :: string
  fs_APIKey :: string
  fs_Model :: string
  fs_Timeout :: int
  fs_MockResponseFile :: string
  fs_RequireApproval :: bool
  fs_ApprovalTTL :: int
  fs_AuditFile :: string

subsection \<open>Events\<close>

record fpTunerEventInput =
  ev_EventID :: string
  ev_EventType :: string
  ev_ObservedAt :: string
  ev_Method :: string
  ev_Path :: string
  ev_Policy :: string
  ev_RuleID :: int
  ev_Status :: int
  ev_Score :: int
  ev_Reason :: string
  ev_MatchedVariable :: string
  ev_MatchedValue :: string

definition empty_event :: fpTunerEventInput where
  "empty_event = \<lparr>ev_EventID = [], ev_EventType = [], ev_ObservedAt = [], ev_Method = [], ev_Path = [], ev_Policy = [],
     ev_RuleID = 0, ev_Status = 0, ev_Score = 0, ev_Reason = [], ev_MatchedVariable = [], ev_MatchedValue = []\<rparr>"

definition fpTunerMaxMatchedValueBytes :: nat where "fpTunerMaxMatchedValueBytes = 512"
definition fpTunerDefaultRuleID :: int where "fpTunerDefaultRuleID = 100004"
definition fpTunerDefaultVariable :: string where "fpTunerDefaultVariable = ''ARGS:q''"

definition variable_char :: "char \<Rightarrow> bool" where
  "variable_char c = (is_alpha c \<or> is_digit c \<or> c \<in> set ''_.:!'')"

definition fpTunerVariableAllowed :: rx where
  "fpTunerVariableAllowed = Plus (Cls variable_char)"

definition clampText :: "string \<Rightarrow> nat \<Rightarrow> string" where
  "clampText v n = take n v"

definition normalizeFPTunerPath :: "string \<Rightarrow> string" where
  "normalizeFPTunerPath v =
     (let p = TrimSpace v in
      if p = [] \<or> \<not> HasPrefix p ''/'' then ''/''
      else if \<exists>c\<in>set p. c \<in> set [CHR 0x0A, CHR 0x0D, CHR 0x22] then ''/''
      else p)"

definition normalizeFPTunerVariable :: "string \<Rightarrow> string" where
  "normalizeFPTunerVariable v =
     (let s = TrimSpace v in
      if s = [] \<or> \<not> FullMatch fpTunerVariableAllowed s then fpTunerDefaultVariable else s)"

definition normalizeFPTunerEventInput :: "fpTunerEventInput \<Rightarrow> fpTunerEventInput" where
  "normalizeFPTunerEventInput e =
     \<lparr>ev_EventID = TrimSpace (ev_EventID e), ev_EventType = TrimSpace (ev_EventType e), ev_ObservedAt = TrimSpace (ev_ObservedAt e),
      ev_Method = (let m = ToUpper (TrimSpace (ev_Method e)) in if m = [] then ''GET'' else m),
      ev_Path = normalizeFPTunerPath (ev_Path e), ev_Policy = TrimSpace (ev_Policy e),
      ev_RuleID = (if ev_RuleID e \<le> 0 then fpTunerDefaultRuleID else ev_RuleID e),
      ev_Status = (if ev_Status e \<le> 0 then 403 else ev_Status e),
      ev_Score = (if ev_Score e < 0 then 0 else ev_Score e),
      ev_Reason = clampText (TrimSpace (ev_Reason e)) fpTunerMaxMatchedValueBytes,
      ev_MatchedVariable = normalizeFPTunerVariable (ev_MatchedVariable e),
      ev_MatchedValue = clampText (TrimSpace (ev_MatchedValue e)) fpTunerMaxMatchedValueBytes\<rparr>"

subsection \<open>The latest event of the log\<close>

text \<open>
  A line of the log is a JSON object; a number is a \<open>float64\<close>.  \<open>formatFloat\<close> is
  \<open>strconv.FormatFloat\<close> with the shortest representation; the conversion of a number beyond 64 bits to
  an integer gives the least integer, as on amd64.
\<close>

datatype log_value = LString string | LNumber rat | LNull | LOther string    \<comment> \<open>as \<open>%v\<close> prints it\<close>

type_synonym logLine = "(string \<times> log_value) list"

definition in_int64 :: "rat \<Rightarrow> bool" where
  "in_int64 t = (- (2 ^ 63) \<le> t \<and> t < 2 ^ 63)"

definition float_to_int :: "rat \<Rightarrow> int" where
  "float_to_int t = (if in_int64 t then (if 0 \<le> t then \<lfloor>t\<rfloor> else - \<lfloor>- t\<rfloor>) else - (2 ^ 63))"

definition anyToString :: "(rat \<Rightarrow> string) \<Rightarrow> log_value option \<Rightarrow> string" where
  "anyToString formatFloat v =
     (case v of
        Some (LString s) \<Rightarrow> s
      | Some (LNumber t) \<Rightarrow> if t = of_int (float_to_int t) then Itoa (float_to_int t) else formatFloat t
      | _ \<Rightarrow> [])"

definition atoi_or_zero :: "string \<Rightarrow> int" where
  \<comment> \<open>\<open>n, _ := strconv.Atoi(s)\<close>: a number out of range is the nearest one in range\<close>
  "atoi_or_zero s =
     (case Atoi s of
        Some n \<Rightarrow> n
      | None \<Rightarrow>
          let ds = (if s \<noteq> [] \<and> hd s \<in> set ''+-'' then tl s else s)
          in if ds = [] \<or> \<not> list_all is_digit ds then 0
             else if hd s = CHR ''-'' then - (2 ^ 63) else 2 ^ 63 - 1)"

definition anyToInt :: "log_value option \<Rightarrow> int" where
  "anyToInt v =
     (case v of
        Some (LNumber t) \<Rightarrow> float_to_int t
      | Some (LString s) \<Rightarrow> atoi_or_zero (TrimSpace s)
      | _ \<Rightarrow> 0)"

fun firstNonEmptyString :: "string list \<Rightarrow> string" where
  "firstNonEmptyString [] = []"
| "firstNonEmptyString (v # vs) = (if TrimSpace v \<noteq> [] then TrimSpace v else firstNonEmptyString vs)"

record event_source =
  es_path :: string                                    \<comment> \<open>\<open>resolveLogPath\<close>\<close>
  es_store :: "fpTunerEventInput result option"        \<comment> \<open>\<open>LatestWAFBlockEvent\<close> of the database, when there is one\<close>
  es_lines :: "logLine list result option"             \<comment> \<open>the last 120 lines; \<open>None\<close> when there is no file\<close>
  es_formatFloat :: "rat \<Rightarrow> string"

definition block_event :: "(rat \<Rightarrow> string) \<Rightarrow> logLine \<Rightarrow> fpTunerEventInput" where
  \<comment> \<open>what both readers take of a line\<close>
  "block_event ff entry = empty_event
     \<lparr>ev_EventID := anyToString ff (map_of entry ''req_id''), ev_ObservedAt := anyToString ff (map_of entry ''ts''),
      ev_Method := anyToString ff (map_of entry ''method''), ev_Path := anyToString ff (map_of entry ''path''),
      ev_RuleID := anyToInt (map_of entry ''rule_id''), ev_Status := anyToInt (map_of entry ''status''),
      ev_MatchedVariable := anyToString ff (map_of entry ''matched_variable''), ev_MatchedValue := anyToString ff (map_of entry ''matched_value'')\<rparr>"

definition fpTunerEventInputFromLogLine :: "(rat \<Rightarrow> string) \<Rightarrow> logLine \<Rightarrow> fpTunerEventInput option" where
  "fpTunerEventInputFromLogLine ff entry =
     (let eventType = TrimSpace (anyToString ff (map_of entry ''event'')) in
      if eventType = ''waf_block'' then Some ((block_event ff entry)\<lparr>ev_EventType := eventType, ev_Policy := ''waf''\<rparr>)
      else if eventType = ''semantic_anomaly'' then Some (empty_event
        \<lparr>ev_EventID := anyToString ff (map_of entry ''req_id''), ev_EventType := eventType, ev_ObservedAt := anyToString ff (map_of entry ''ts''),
         ev_Method := anyToString ff (map_of entry ''method''), ev_Path := anyToString ff (map_of entry ''path''), ev_Policy := ''semantic'',
         ev_Status := anyToInt (map_of entry ''status''), ev_Score := anyToInt (map_of entry ''score''),
         ev_Reason := firstNonEmptyString [anyToString ff (map_of entry ''reason''), anyToString ff (map_of entry ''reasons'')]\<rparr>)
      else None)"

definition log_lines :: "event_source \<Rightarrow> logLine list result" where
  "log_lines src = (case es_lines src of
       None \<Rightarrow> err ''waf event log not found: %s'' [es_path src] | Some r \<Rightarrow> r)"

definition latestWAFBlockEvent :: "event_source \<Rightarrow> fpTunerEventInput result" where
  "latestWAFBlockEvent src =
     (case es_store src of
        Some (Inr event) \<Rightarrow> Inr event
      | _ \<Rightarrow>
          bindR (log_lines src) (\<lambda>lines.
            case find (\<lambda>entry. TrimSpace (anyToString (es_formatFloat src) (map_of entry ''event'')) = ''waf_block'') (rev lines) of
              Some entry \<Rightarrow> Inr (block_event (es_formatFloat src) entry)
            | None \<Rightarrow> err ''no waf_block event found in %s'' [es_path src]))"

definition latestSecurityEvent :: "event_source \<Rightarrow> (fpTunerEventInput \<times> string) result" where
  "latestSecurityEvent src =
     (case latestWAFBlockEvent src of
        Inr event \<Rightarrow> Inr (event, ''waf_log'')
      | Inl e \<Rightarrow>
          bindR (log_lines src) (\<lambda>lines.
            case List.map_filter (fpTunerEventInputFromLogLine (es_formatFloat src)) (rev lines) of
              event # _ \<Rightarrow> Inr (event, ''security_log'')
            | [] \<Rightarrow> err ''no waf_block or semantic_anomaly event found in %s'' [es_path src]))"

subsection \<open>Which events a request asks for\<close>

record fpTunerProposeBody =
  pb_Event :: "fpTunerEventInput option"
  pb_Events :: "fpTunerEventInput list"
  pb_TargetPath :: string

definition resolveFPTunerEventInput :: "event_source \<Rightarrow> fpTunerEventInput option \<Rightarrow> (fpTunerEventInput \<times> string) result" where
  "resolveFPTunerEventInput src ev =
     (case ev of
        Some e \<Rightarrow>
          (let norm = normalizeFPTunerEventInput e in
           if ev_Path norm = [] then err ''event.path is required'' [] else Inr (norm, ''request''))
      | None \<Rightarrow> bindR (latestSecurityEvent src) (\<lambda>(event, source). Inr (normalizeFPTunerEventInput event, source)))"

fun normalize_events :: "nat \<Rightarrow> fpTunerEventInput list \<Rightarrow> fpTunerEventInput list result" where
  "normalize_events i [] = Inr []"
| "normalize_events i (e # es) =
     (let norm = normalizeFPTunerEventInput e in
      if ev_Path norm = [] then err ''events[%d].path is required'' [Itoa (int i)]
      else bindR (normalize_events (Suc i) es) (\<lambda>ns. Inr (norm # ns)))"

definition resolveFPTunerEventInputs :: "event_source \<Rightarrow> fpTunerProposeBody \<Rightarrow> (fpTunerEventInput list \<times> string) result" where
  "resolveFPTunerEventInputs src b =
     (if pb_Event b \<noteq> None \<and> pb_Events b \<noteq> [] then err ''event and events cannot be used together'' []
      else if pb_Events b \<noteq> [] then bindR (normalize_events 0 (pb_Events b)) (\<lambda>es. Inr (es, ''request_batch''))
      else bindR (resolveFPTunerEventInput src (pb_Event b)) (\<lambda>(e, source). Inr ([e], source)))"

subsection \<open>What the provider gets to see\<close>

definition Fold :: "string \<Rightarrow> rx" where
  \<comment> \<open>a word of lower case letters under \<open>(?i)\<close>; the long s and the Kelvin sign fold to s and k\<close>
  "Fold s = foldr (\<lambda>c r. Sq
     (one_of (Cls (\<lambda>d. lower_char d = c)
        # (if c = CHR ''s'' then [Rune [CHR 0xC5, CHR 0xBF]] else [])
        @ (if c = CHR ''k'' then [Rune [CHR 0xE2, CHR 0x84, CHR 0xAA]] else []))) r) s Eps"

definition token_class :: "string \<Rightarrow> rx" where
  \<comment> \<open>letters, digits and the given bytes\<close>
  "token_class others = Cls (\<lambda>c. is_alpha c \<or> is_digit c \<or> c \<in> set others)"

definition fpTunerMaskBearerToken :: rx where
  "fpTunerMaskBearerToken = seq_of [Bnd, Fold ''bearer'', Plus (Cls space_char), Plus (token_class ''._~+/=-'')]"

definition fpTunerMaskJWT :: rx where
  "fpTunerMaskJWT = (let part = AtLeast 20 (token_class ''_-'') in
     seq_of [Bnd, part, Lit ''.'', part, Lit ''.'', part, Bnd])"

definition fpTunerMaskEmail :: rx where
  "fpTunerMaskEmail = seq_of [Bnd, Plus (token_class ''._%+-''), Lit ''@'', Plus (token_class ''.-''), Lit ''.'', AtLeast 2 (Cls is_alpha), Bnd]"

definition one_to_three_digits :: rx where
  "one_to_three_digits = Sq (Cls is_digit) (Upto 2 (Cls is_digit))"

definition fpTunerMaskIPv4 :: rx where
  "fpTunerMaskIPv4 = seq_of [Bnd, copies 3 (Sq one_to_three_digits (Lit ''.'')), one_to_three_digits, Bnd]"

definition fpTunerMaskSecretKV :: rx where
  "fpTunerMaskSecretKV = seq_of [Bnd,
     one_of (map Fold [''token'', ''access_token'', ''refresh_token'', ''api_key'', ''apikey'', ''password'', ''passwd'', ''secret'']),
     Lit ''='', Plus (Cls (\<lambda>c. c \<noteq> CHR ''&'' \<and> \<not> space_char c))]"

definition fpTunerMaskLongToken :: rx where
  "fpTunerMaskLongToken = seq_of [Bnd, AtLeast 24 (token_class ''._~+/=-''), Bnd]"

definition mask_secret :: "string \<Rightarrow> string" where
  \<comment> \<open>\<open>$1=[redacted]\<close>: the first group ends at the first equals sign\<close>
  "mask_secret v = takeWhile (\<lambda>c. c \<noteq> CHR ''='') v @ ''=[redacted]''"

definition mask_long :: "string \<Rightarrow> string" where
  "mask_long v =
     (if CHR ''/'' \<in> set v \<or> CHR ''.'' \<in> set v then ''[redacted-token]''
      else if (\<exists>c\<in>set v. is_digit c) \<and> (\<exists>c\<in>set v. is_alpha c) then ''[redacted-token]''
      else v)"

definition maskSensitiveText :: "string \<Rightarrow> string" where
  "maskSensitiveText s =
     (let o0 = TrimSpace s;
          o1 = ReplaceAllString fpTunerMaskBearerToken o0 ''Bearer [redacted-token]'';
          o2 = ReplaceAllString fpTunerMaskJWT o1 ''[redacted-jwt]'';
          o3 = ReplaceAllString fpTunerMaskEmail o2 ''[redacted-email]'';
          o4 = ReplaceAllString fpTunerMaskIPv4 o3 ''[redacted-ip]'';
          o5 = ReplaceAllStringFunc fpTunerMaskSecretKV o4 mask_secret
      in if o0 = [] then [] else ReplaceAllStringFunc fpTunerMaskLongToken o5 mask_long)"

definition maskFPTunerProviderInput :: "fpTunerEventInput \<Rightarrow> fpTunerEventInput" where
  "maskFPTunerProviderInput e =
     e\<lparr>ev_MatchedValue := maskSensitiveText (ev_MatchedValue e), ev_Path := maskSensitiveText (ev_Path e)\<rparr>"

subsection \<open>The rule line\<close>

abbreviation quote :: string where "quote \<equiv> [CHR 0x22]"
abbreviation tick :: string where "tick \<equiv> [CHR 0x27]"

definition fnv32a :: "string \<Rightarrow> 32 word" where
  "fnv32a s = foldl (\<lambda>h c. xor h (of_nat (ord c)) * 16777619) 2166136261 s"

definition generateFPTunerRuleID :: "int \<Rightarrow> string \<Rightarrow> string \<Rightarrow> int" where
  "generateFPTunerRuleID ruleID path variable =
     190000 + uint (fnv32a (Itoa ruleID @ ''|'' @ path @ ''|'' @ variable)) mod 9000"

definition rule_line :: "string \<Rightarrow> int \<Rightarrow> int \<Rightarrow> string \<Rightarrow> string \<Rightarrow> string" where
  \<comment> \<open>path, id of the new rule, excluded rule, variable, message\<close>
  "rule_line path generatedID ruleID variable msg =
     ''SecRule REQUEST_URI '' @ quote @ ''@beginsWith '' @ path @ quote @ '' '' @ quote @ ''id:'' @ Itoa generatedID
       @ '',phase:1,pass,nolog,ctl:ruleRemoveTargetById='' @ Itoa ruleID @ '';'' @ variable @ '',msg:'' @ tick @ msg @ tick @ quote"

definition buildFPTunerRuleLine :: "fpTunerEventInput \<Rightarrow> string" where
  "buildFPTunerRuleLine e =
     (let ruleID = (if ev_RuleID e \<le> 0 then fpTunerDefaultRuleID else ev_RuleID e);
          path = normalizeFPTunerPath (ev_Path e);
          variable = normalizeFPTunerVariable (ev_MatchedVariable e)
      in rule_line path (generateFPTunerRuleID ruleID path variable) ruleID variable ''mamotama fp_tuner scoped exclusion'')"

definition no_break :: "char \<Rightarrow> char \<Rightarrow> bool" where
  "no_break d c = (c \<noteq> d \<and> c \<noteq> CHR 0x0D \<and> c \<noteq> CHR 0x0A)"

definition fpTunerRuleLinePattern :: rx where
  "fpTunerRuleLinePattern = seq_of
     [Lit (''SecRule REQUEST_URI '' @ quote @ ''@beginsWith ''), Plus (Cls (no_break (CHR 0x22))), Lit (quote @ '' '' @ quote @ ''id:''),
      AtLeast 6 (Cls is_digit), Lit '',phase:1,pass,nolog,ctl:ruleRemoveTargetById='', Plus (Cls is_digit), Lit '';'',
      Plus (Cls variable_char), Lit ('',msg:'' @ tick), Star (Cls (no_break (CHR 0x27))), Lit (tick @ quote)]"

definition validateFPTunerRuleLine :: "string \<Rightarrow> unit result" where
  "validateFPTunerRuleLine line =
     guardR (\<not> FullMatch fpTunerRuleLinePattern (TrimSpace line)) (Errorf ''proposal.rule_line must be a scoped SecRule REQUEST_URI exclusion'' [])"

subsection \<open>Proposals\<close>

record fpTunerProposal =
  pp_ID :: string
  pp_Title :: string
  pp_Summary :: string
  pp_Reason :: string
  pp_Confidence :: rat
  pp_TargetPath :: string
  pp_RuleLine :: string

record fpTunerProviderRequest =
  pq_Version :: string
  pq_Model :: string
  pq_Input :: fpTunerEventInput
  pq_TargetPath :: string
  pq_Constraints :: "string list"

record fp_provider =
  fv_decodeWrapped :: "string \<Rightarrow> fpTunerProposal option"     \<comment> \<open>\<open>json.Unmarshal\<close> into \<open>fpTunerProviderResponse\<close>\<close>
  fv_decodeDirect :: "string \<Rightarrow> fpTunerProposal option"
  fv_mockFile :: "string \<Rightarrow> string result option"            \<comment> \<open>\<open>None\<close> when there is no such file\<close>
  fv_post :: "string \<Rightarrow> string \<Rightarrow> fpTunerProviderRequest \<Rightarrow> (int \<times> string) result"
                                                              \<comment> \<open>endpoint, key, status and body of the reply\<close>

definition fpTunerDefaultConfidence :: rat where "fpTunerDefaultConfidence = float64 (82 / 100)"

definition stamp_id :: "int \<Rightarrow> string" where
  "stamp_id stamp = ''fp-'' @ Itoa stamp"

definition or_blank :: "string \<Rightarrow> string \<Rightarrow> string" where
  "or_blank s d = (if TrimSpace s = [] then d else s)"

definition fillFPTunerProposalDefaults :: "int \<Rightarrow> fpTunerProposal \<Rightarrow> fpTunerEventInput \<Rightarrow> string \<Rightarrow> fpTunerProposal" where
  "fillFPTunerProposalDefaults stamp p e targetPath =
     (let c0 = (if pp_Confidence p \<le> 0 then fpTunerDefaultConfidence else pp_Confidence p) in
      \<lparr>pp_ID = or_blank (pp_ID p) (stamp_id stamp),
       pp_Title = or_blank (pp_Title p) ''Scoped false-positive tuning suggestion'',
       pp_Summary = or_blank (pp_Summary p)
         (''Exclude '' @ ev_MatchedVariable e @ '' from rule '' @ Itoa (ev_RuleID e) @ '' only under path prefix '' @ ev_Path e @ ''.''),
       pp_Reason = or_blank (pp_Reason p) ''Generated by mamotama fp-tuner mock flow'',
       pp_Confidence = (if 1 < c0 \<and> c0 \<le> 100 then float64 (c0 / 100) else c0),
       pp_TargetPath = or_blank (pp_TargetPath p) targetPath,
       pp_RuleLine = or_blank (pp_RuleLine p) (buildFPTunerRuleLine e)\<rparr>)"

definition buildMockFPTunerProposal :: "int \<Rightarrow> fpTunerEventInput \<Rightarrow> string \<Rightarrow> fpTunerProposal" where
  "buildMockFPTunerProposal stamp e targetPath =
     \<lparr>pp_ID = stamp_id stamp, pp_Title = ''Scoped false-positive tuning suggestion'',
      pp_Summary = ''Possible false positive on '' @ ev_Path e @ '' ('' @ ev_MatchedVariable e @ '').'',
      pp_Reason = ''Mock provider response used for API contract testing'', pp_Confidence = fpTunerDefaultConfidence,
      pp_TargetPath = targetPath, pp_RuleLine = buildFPTunerRuleLine e\<rparr>"

definition useful :: "fpTunerProposal option \<Rightarrow> fpTunerProposal option" where
  "useful d = (case d of Some p \<Rightarrow> if TrimSpace (pp_RuleLine p) \<noteq> [] \<or> TrimSpace (pp_Summary p) \<noteq> [] then Some p else None | None \<Rightarrow> None)"

definition decodeFPTunerProviderResponse :: "fp_provider \<Rightarrow> string \<Rightarrow> fpTunerProposal result" where
  "decodeFPTunerProviderResponse pv raw =
     (case useful (fv_decodeWrapped pv raw) of
        Some p \<Rightarrow> Inr p
      | None \<Rightarrow> (case useful (fv_decodeDirect pv raw) of
          Some p \<Rightarrow> Inr p
        | None \<Rightarrow> err ''provider response must be fp_tuner proposal json'' []))"

definition readFPTunerMockProposal :: "fp_provider \<Rightarrow> string \<Rightarrow> fpTunerProposal result option" where
  "readFPTunerMockProposal pv path =
     map_option (\<lambda>r. bindR r (decodeFPTunerProviderResponse pv)) (fv_mockFile pv path)"

definition requestFPTunerProposalMock :: "fp_provider \<Rightarrow> fp_settings \<Rightarrow> int \<Rightarrow> fpTunerProviderRequest \<Rightarrow> fpTunerProposal result" where
  "requestFPTunerProposalMock pv fs stamp req =
     (let fixture = TrimSpace (fs_MockResponseFile fs);
          filled = (\<lambda>p. fillFPTunerProposalDefaults stamp p (pq_Input req) (pq_TargetPath req));
          built = Inr (filled (buildMockFPTunerProposal stamp (pq_Input req) (pq_TargetPath req)))
      in if fixture = [] then built
         else case readFPTunerMockProposal pv fixture of
           None \<Rightarrow> built
         | Some r \<Rightarrow> bindR r (\<lambda>p. Inr (filled p)))"

definition requestFPTunerProposalHTTP :: "fp_provider \<Rightarrow> fp_settings \<Rightarrow> int \<Rightarrow> fpTunerProviderRequest \<Rightarrow> fpTunerProposal result" where
  "requestFPTunerProposalHTTP pv fs stamp req =
     (let endpoint = TrimSpace (fs_Endpoint fs) in
      if endpoint = [] then err ''fp_tuner.endpoint is empty'' []
      else bindR (fv_post pv endpoint (TrimSpace (fs_APIKey fs)) req) (\<lambda>(status, raw).
        if status < 200 \<or> 300 \<le> status then err ''provider returned HTTP %d: %s'' [Itoa status, TrimSpace raw]
        else bindR (decodeFPTunerProviderResponse pv raw) (\<lambda>p.
          Inr (fillFPTunerProposalDefaults stamp p (pq_Input req) (pq_TargetPath req)))))"

definition requestFPTunerProposal :: "fp_provider \<Rightarrow> fp_settings \<Rightarrow> int \<Rightarrow> fpTunerProviderRequest \<Rightarrow> (fpTunerProposal \<times> string) result" where
  "requestFPTunerProposal pv fs stamp req =
     (let m = ToLower (TrimSpace (fs_Mode fs)); mode = (if m = [] then ''mock'' else m) in
      if mode = ''mock'' then bindR (requestFPTunerProposalMock pv fs stamp req) (\<lambda>p. Inr (p, mode))
      else if mode = ''http'' then bindR (requestFPTunerProposalHTTP pv fs stamp req) (\<lambda>p. Inr (p, mode))
      else err ''unsupported fp_tuner.mode: %s'' [mode])"

subsection \<open>Approval tokens\<close>

record fpApprovalEntry =
  ae_ProposalHash :: string
  ae_ExpiresAt :: int

type_synonym fp_approvals = "(string \<times> fpApprovalEntry) list"

definition proposalHash :: "fpTunerProposal \<Rightarrow> string" where
  "proposalHash p = hex_encode (sha256
     (TrimSpace (pp_ID p) @ ''|'' @ TrimSpace (pp_TargetPath p) @ ''|'' @ TrimSpace (pp_RuleLine p)))"

definition pruneExpiredFPTunerApprovals :: "int \<Rightarrow> fp_approvals \<Rightarrow> fp_approvals" where
  "pruneExpiredFPTunerApprovals now st = filter (\<lambda>(k, v). \<not> ae_ExpiresAt v < now) st"

record fp_moment =                   \<comment> \<open>the clock and the random bytes while one event is answered\<close>
  mo_stamp :: int                    \<comment> \<open>seconds\<close>
  mo_issued :: int
  mo_pruned :: int
  mo_random :: "int list result"

definition issueFPTunerApprovalToken :: "fp_settings \<Rightarrow> fp_moment \<Rightarrow> fpTunerProposal \<Rightarrow> fp_approvals \<Rightarrow> string result \<times> fp_approvals" where
  "issueFPTunerApprovalToken fs mo p st =
     (let ttl = (if fs_ApprovalTTL fs \<le> 0 then 10 * 60 * 10 ^ 9 else fs_ApprovalTTL fs) in
      case mo_random mo of
        Inl e \<Rightarrow> (Inl e, st)
      | Inr buf \<Rightarrow>
          (Inr (hex_encode buf),
           aput (hex_encode buf) \<lparr>ae_ProposalHash = proposalHash p, ae_ExpiresAt = mo_issued mo + ttl\<rparr>
             (pruneExpiredFPTunerApprovals (mo_pruned mo) st)))"

definition consumeFPTunerApprovalToken :: "int \<Rightarrow> string \<Rightarrow> fpTunerProposal \<Rightarrow> fp_approvals \<Rightarrow> unit result \<times> fp_approvals" where
  "consumeFPTunerApprovalToken now token0 p st =
     (let token = TrimSpace token0 in
      if token = [] then (err ''missing approval_token'' [], st)
      else let st1 = pruneExpiredFPTunerApprovals now st in
        case map_of st1 token of
          None \<Rightarrow> (err ''approval token is invalid or expired'' [], st1)
        | Some entry \<Rightarrow>
            (seqR (guardR (ae_ProposalHash entry \<noteq> proposalHash p) (Errorf ''approval token does not match proposal'' []))
               (guardR (ae_ExpiresAt entry < now) (Errorf ''approval token expired'' [])),
             adel token st1))"

subsection \<open>Making proposals\<close>

record fpTunerApproval =
  ap_Required :: bool
  ap_Token :: string

record fpTunerProposeResult =
  pr_Input :: fpTunerEventInput
  pr_Proposal :: fpTunerProposal
  pr_Approval :: fpTunerApproval

record fpTunerProposeError =
  pe_Status :: int
  pe_Err :: goerr
  pe_Details :: "goerr option"

definition provider_request :: "fp_settings \<Rightarrow> fpTunerEventInput \<Rightarrow> string \<Rightarrow> fpTunerProviderRequest" where
  "provider_request fs event targetPath =
     \<lparr>pq_Version = ''v1'', pq_Model = TrimSpace (fs_Model fs), pq_Input = maskFPTunerProviderInput event, pq_TargetPath = targetPath,
      pq_Constraints = [''Only return one scoped exclusion rule'', ''Rule must be SecRule REQUEST_URI with ctl:ruleRemoveTargetById'',
        ''No global disable operations'']\<rparr>"

definition buildFPTunerProposeResult ::
  "fp_provider \<Rightarrow> fp_settings \<Rightarrow> fp_moment \<Rightarrow> fpTunerEventInput \<Rightarrow> string \<Rightarrow> fp_approvals
     \<Rightarrow> (fpTunerProposeError + (fpTunerProposeResult \<times> string)) \<times> fp_approvals" where
  "buildFPTunerProposeResult pv fs mo event targetPath st =
     (case requestFPTunerProposal pv fs (mo_stamp mo) (provider_request fs event targetPath) of
        Inl e \<Rightarrow> (Inl \<lparr>pe_Status = 502, pe_Err = e, pe_Details = None\<rparr>, st)
      | Inr (p, mode) \<Rightarrow>
          (let proposal = fillFPTunerProposalDefaults (mo_stamp mo) p event targetPath;
               result = (\<lambda>token. \<lparr>pr_Input = event, pr_Proposal = proposal,
                 pr_Approval = \<lparr>ap_Required = fs_RequireApproval fs, ap_Token = token\<rparr>\<rparr>)
           in case validateFPTunerRuleLine (pp_RuleLine proposal) of
                Inl e \<Rightarrow> (Inl \<lparr>pe_Status = 422, pe_Err = Errorf ''provider returned unsafe proposal'' [], pe_Details = Some e\<rparr>, st)
              | Inr _ \<Rightarrow>
                  (if \<not> fs_RequireApproval fs then (Inr (result [], mode), st)
                   else case issueFPTunerApprovalToken fs mo proposal st of
                     (Inl e, st1) \<Rightarrow>
                       (Inl \<lparr>pe_Status = 500, pe_Err = Errorf ''failed to issue approval token'' [], pe_Details = Some e\<rparr>, st1)
                   | (Inr token, st1) \<Rightarrow> (Inr (result token, mode), st1))))"

fun propose_all ::
  "fp_provider \<Rightarrow> fp_settings \<Rightarrow> fp_moment list \<Rightarrow> fpTunerEventInput list \<Rightarrow> string \<Rightarrow> fp_approvals
     \<Rightarrow> (fpTunerProposeError + ((fpTunerProposeResult \<times> string) list)) \<times> fp_approvals" where
  \<comment> \<open>one moment per event\<close>
  "propose_all pv fs (mo # mos) (e # es) targetPath st =
     (case buildFPTunerProposeResult pv fs mo e targetPath st of
        (Inl x, st1) \<Rightarrow> (Inl x, st1)
      | (Inr r, st1) \<Rightarrow>
          (case propose_all pv fs mos es targetPath st1 of
             (Inl x, st2) \<Rightarrow> (Inl x, st2) | (Inr rs, st2) \<Rightarrow> (Inr (r # rs), st2)))"
| "propose_all pv fs mos es targetPath st = (Inr [], st)"

definition selectFPTunerTargetPath :: "rule_settings \<Rightarrow> string \<Rightarrow> string result" where
  "selectFPTunerTargetPath c requested =
     (if TrimSpace requested \<noteq> [] then ensureEditableRulePath c requested
      else case find (\<lambda>p. \<not> isl (ensureEditableRulePath c p)) (splitRuleFiles (rs_RulesFile c)) of
        Some p \<Rightarrow> ensureEditableRulePath c p
      | None \<Rightarrow> (case configuredRuleFiles c of
          [] \<Rightarrow> err ''no editable rule files configured'' [] | f # _ \<Rightarrow> ensureEditableRulePath c f))"

datatype propose_reply =
    ProposeBind goerr                                          \<comment> \<open>400\<close>
  | ProposeInput goerr                                         \<comment> \<open>422\<close>
  | ProposePath goerr                                          \<comment> \<open>400\<close>
  | ProposeFailed fpTunerProposeError
  | ProposeDone string string "fpTunerProposeResult list"      \<comment> \<open>200: mode, source, results\<close>

subsection \<open>The audit log\<close>

record fp_audit =
  au_Event :: string
  au_Actor :: string
  au_IP :: string
  au_Fields :: "(string \<times> string) list"    \<comment> \<open>without the text of an error\<close>
  au_File :: "string option"                 \<comment> \<open>the file it was appended to; \<open>None\<close> when that failed and a warning was logged\<close>

record fp_state =
  ft_approvals :: fp_approvals
  ft_audit :: "fp_audit list"

record fp_call =                             \<comment> \<open>what a handler knows of its request\<close>
  fc_Header :: http_header
  fc_IP :: string                            \<comment> \<open>\<open>requestClientIP\<close>\<close>
  fc_auditFails :: bool

definition fpTunerActor :: "http_header \<Rightarrow> string" where
  "fpTunerActor h =
     (let actor = TrimSpace (Header_Get h ''X-Mamotama-Actor''); key = TrimSpace (Header_Get h ''X-API-Key'') in
      if actor \<noteq> [] then actor
      else if key = [] then ''api-key:none''
      else ''api-key:sha256:'' @ hex_encode (take 6 (sha256 key)))"

definition appendFPTunerAudit :: "fp_settings \<Rightarrow> fp_call \<Rightarrow> string \<Rightarrow> (string \<times> string) list \<Rightarrow> fp_state \<Rightarrow> fp_state" where
  "appendFPTunerAudit fs call event details st =
     (let path = (if TrimSpace (fs_AuditFile fs) = [] then ''/app/logs/coraza/fp-tuner-audit.ndjson'' else TrimSpace (fs_AuditFile fs)) in
      st\<lparr>ft_audit := ft_audit st @ [\<lparr>au_Event = event, au_Actor = fpTunerActor (fc_Header call), au_IP = fc_IP call, au_Fields = details,
        au_File = (if fc_auditFails call then None else Some path)\<rparr>]\<rparr>)"

definition show_bool :: "bool \<Rightarrow> string" where
  "show_bool b = (if b then ''true'' else ''false'')"

definition ProposeFPTuning ::
  "fp_provider \<Rightarrow> event_source \<Rightarrow> fp_settings \<Rightarrow> rule_settings \<Rightarrow> fp_moment list \<Rightarrow> fp_call \<Rightarrow> fpTunerProposeBody result
     \<Rightarrow> fp_state \<Rightarrow> propose_reply \<times> fp_state" where
  "ProposeFPTuning pv src fs c mos call body st =
     (case body of
        Inl e \<Rightarrow> (ProposeBind e, st)
      | Inr b \<Rightarrow>
     (case resolveFPTunerEventInputs src b of
        Inl e \<Rightarrow> (ProposeInput e, st)
      | Inr (events, source) \<Rightarrow>
     (case selectFPTunerTargetPath c (pb_TargetPath b) of
        Inl e \<Rightarrow> (ProposePath e, st)
      | Inr targetPath \<Rightarrow>
     (case propose_all pv fs mos events targetPath (ft_approvals st) of
        (Inl x, ap) \<Rightarrow> (ProposeFailed x, st\<lparr>ft_approvals := ap\<rparr>)
      | (Inr rs, ap) \<Rightarrow>
          (let mode = (case filter (\<lambda>m. m \<noteq> []) (map snd rs) of [] \<Rightarrow> [] | m # _ \<Rightarrow> m) in
           (ProposeDone mode source (map fst rs),
            appendFPTunerAudit fs call ''fp_tuner_propose''
              [(''mode'', mode), (''source'', source), (''count'', Itoa (int (length rs))),
               (''approval_required'', show_bool (fs_RequireApproval fs)), (''target_path'', targetPath)]
              (st\<lparr>ft_approvals := ap\<rparr>)))))))"

end
