(* ===== verification/Go_Time.thy ===== *)
theory Go_Time
  imports Go_Text
begin

text \<open>
  The part of the package \<open>time\<close> the program uses on texts: an instant is printed and read in the
  formats \<open>RFC3339\<close> and \<open>RFC3339Nano\<close>.  An instant is a number of nanoseconds since 1970 in UTC.
\<close>

subsection \<open>Printing\<close>

definition two_digits :: "int \<Rightarrow> string" where
  "two_digits n = (if n < 10 then ''0'' else []) @ Itoa n"

definition four_digits :: "int \<Rightarrow> string" where
  "four_digits n = replicate (4 - length (Itoa n)) (CHR ''0'') @ Itoa n"

definition civil :: "int \<Rightarrow> int \<times> int \<times> int" where
  \<comment> \<open>year, month and day of a day since 1970-01-01\<close>
  "civil days =
     (let z = days + 719468; era = z div 146097; doe = z mod 146097;
          yoe = (doe - doe div 1460 + doe div 36524 - doe div 146096) div 365;
          doy = doe - (365 * yoe + yoe div 4 - yoe div 100);
          mp = (5 * doy + 2) div 153;
          d = doy - (153 * mp + 2) div 5 + 1;
          m = (if mp < 10 then mp + 3 else mp - 9)
      in (yoe + era * 400 + (if m \<le> 2 then 1 else 0), m, d))"

definition format_RFC3339 :: "int \<Rightarrow> string" where
  \<comment> \<open>of seconds, in UTC, for the years 0 to 9999\<close>
  "format_RFC3339 t =
     (case civil (t div 86400) of (y, m, d) \<Rightarrow>
        let s = t mod 86400 in
        four_digits y @ ''-'' @ two_digits m @ ''-'' @ two_digits d @ ''T'' @ two_digits (s div 3600) @ '':'' @ two_digits (s mod 3600 div 60)
          @ '':'' @ two_digits (s mod 60) @ ''Z'')"

definition fraction :: "int \<Rightarrow> string" where
  \<comment> \<open>nanoseconds below a second, without the zeros at the end\<close>
  "fraction n =
     (if n = 0 then []
      else CHR ''.'' # TrimRightByte (replicate (9 - length (Itoa n)) (CHR ''0'') @ Itoa n) (CHR ''0''))"

definition format_RFC3339Nano :: "int \<Rightarrow> string" where
  "format_RFC3339Nano t =
     butlast (format_RFC3339 (t div 10 ^ 9)) @ fraction (t mod 10 ^ 9) @ ''Z''"

subsection \<open>Reading\<close>

text \<open>
  \<open>time.Parse\<close> takes more than it prints: an hour of one digit, a comma before the fraction, offsets up to
  24 hours and 60 minutes.  Fractions are cut off after nine digits, whether the format names them or not.
\<close>

fun digits_at :: "nat \<Rightarrow> string \<Rightarrow> (int \<times> string) option" where
  \<comment> \<open>so many digits and what follows\<close>
  "digits_at n s =
     (if n \<le> length s \<and> list_all is_digit (take n s) then Some (int (digits_val (take n s)), drop n s) else None)"

definition hour_at :: "string \<Rightarrow> (int \<times> string) option" where
  "hour_at s = (if digits_at 2 s \<noteq> None then digits_at 2 s else digits_at 1 s)"

definition in_range :: "int \<Rightarrow> int \<Rightarrow> (int \<times> string) option \<Rightarrow> (int \<times> string) option" where
  "in_range lo hi r = (case r of None \<Rightarrow> None | Some (n, s) \<Rightarrow> if lo \<le> n \<and> n \<le> hi then Some (n, s) else None)"

fun after :: "char \<Rightarrow> string \<Rightarrow> string option" where
  "after c [] = None"
| "after c (d # s) = (if d = c then Some s else None)"

fun fraction_at :: "string \<Rightarrow> int \<times> string" where
  "fraction_at (c # d # s) =
     (if (c = CHR ''.'' \<or> c = CHR '','') \<and> is_digit d
      then let ds = takeWhile is_digit (d # s); ns = take 9 ds
           in (int (digits_val ns) * 10 ^ (9 - length ns), drop (length ds) (d # s))
      else (0, c # d # s))"
| "fraction_at s = (0, s)"

definition zone_at :: "string \<Rightarrow> int option" where
  \<comment> \<open>seconds east of UTC, up to the end of the text\<close>
  "zone_at s =
     (if s = ''Z'' then Some 0
      else case s of
        [] \<Rightarrow> None
      | sign # s1 \<Rightarrow>
          Option.bind (in_range 0 24 (digits_at 2 s1)) (\<lambda>(hr, s2).
          Option.bind (after (CHR '':'') s2) (\<lambda>s3.
          Option.bind (in_range 0 60 (digits_at 2 s3)) (\<lambda>(mm, s4).
            if s4 \<noteq> [] then None
            else if sign = CHR ''+'' then Some ((hr * 60 + mm) * 60)
            else if sign = CHR ''-'' then Some (- ((hr * 60 + mm) * 60))
            else None))))"

definition leap_year :: "int \<Rightarrow> bool" where
  "leap_year y = (y mod 4 = 0 \<and> (y mod 100 \<noteq> 0 \<or> y mod 400 = 0))"

definition daysIn :: "int \<Rightarrow> int \<Rightarrow> int" where
  "daysIn m y = (if m = 2 then (if leap_year y then 29 else 28) else if m \<in> {4, 6, 9, 11} then 30 else 31)"

definition day_number :: "int \<Rightarrow> int \<Rightarrow> int \<Rightarrow> int" where
  \<comment> \<open>days since 1970-01-01\<close>
  "day_number y m d =
     (let y' = (if m \<le> 2 then y - 1 else y); era = y' div 400; yoe = y' mod 400;
          doy = (153 * (if 2 < m then m - 3 else m + 9) + 2) div 5 + d - 1;
          doe = yoe * 365 + yoe div 4 - yoe div 100 + doy
      in era * 146097 + doe - 719468)"

definition date_at :: "string \<Rightarrow> (int \<times> string) option" where
  \<comment> \<open>the day and the text after the date\<close>
  "date_at s =
     Option.bind (digits_at 4 s) (\<lambda>(y, s1).
     Option.bind (after (CHR ''-'') s1) (\<lambda>s2.
     Option.bind (in_range 1 12 (digits_at 2 s2)) (\<lambda>(m, s3).
     Option.bind (after (CHR ''-'') s3) (\<lambda>s4.
     Option.bind (in_range 1 (daysIn m y) (digits_at 2 s4)) (\<lambda>(d, s5). Some (day_number y m d, s5))))))"

definition clock_at :: "string \<Rightarrow> (int \<times> string) option" where
  \<comment> \<open>the second of the day and the text after it\<close>
  "clock_at s =
     Option.bind (in_range 0 23 (hour_at s)) (\<lambda>(h, s1).
     Option.bind (after (CHR '':'') s1) (\<lambda>s2.
     Option.bind (in_range 0 59 (digits_at 2 s2)) (\<lambda>(mi, s3).
     Option.bind (after (CHR '':'') s3) (\<lambda>s4.
     Option.bind (in_range 0 59 (digits_at 2 s4)) (\<lambda>(sec, s5). Some (h * 3600 + mi * 60 + sec, s5))))))"

definition parse_RFC3339 :: "string \<Rightarrow> int option" where
  "parse_RFC3339 s =
     Option.bind (date_at s) (\<lambda>(days, s1).
     Option.bind (after (CHR ''T'') s1) (\<lambda>s2.
     Option.bind (clock_at s2) (\<lambda>(secs, s3).
       case fraction_at s3 of (ns, s4) \<Rightarrow>
         map_option (\<lambda>zone. (days * 86400 + secs - zone) * 10 ^ 9 + ns) (zone_at s4))))"

definition zero_time :: int where
  \<comment> \<open>\<open>time.Time{}\<close>, the first instant of the year 1\<close>
  "zero_time = - 62135596800 * 10 ^ 9"

definition hour :: int where "hour = 3600 * 10 ^ 9"

lemmas time_defs = parse_RFC3339_def date_at_def clock_at_def zone_at_def in_range_def hour_at_def day_number_def daysIn_def
  leap_year_def zero_time_def digits_val_def is_digit_def ord_def Let_def

lemma parsed_examples:
  "parse_RFC3339 ''1970-01-01T00:00:00Z'' = Some 0"
  "parse_RFC3339 ''0001-01-01T00:00:00Z'' = Some zero_time"
  "parse_RFC3339 ''2026-02-28T23:59:60Z'' = None"
  "parse_RFC3339 ''2000-02-29T1:02:03,5+01:00'' = Some (951782523 * 10 ^ 9 + 5 * 10 ^ 8)"
  by (simp_all add: time_defs)

end
