(* ===== verification/Fp_Apply.thy ===== *)
theory Fp_Apply
  imports Fp_Proposals Go_Time
begin

text \<open>
  The false positive tuner, second half (\<open>handler/fp_tuner.go\<close>): a proposal is appended to a rule file
  and the base engine reloaded.
\<close>

subsection \<open>Applying a proposal\<close>

definition appendFPTunerRule :: "int \<Rightarrow> string \<Rightarrow> string \<Rightarrow> string \<Rightarrow> string" where
  "appendFPTunerRule stamp cur proposalID line =
     (let trimmed = TrimRightByte cur newline;
          comment = ''# fp-tuner proposal='' @ (if proposalID = [] then ''manual'' else proposalID) @ '' applied_at='' @ format_RFC3339 stamp
      in if trimmed = [] then comment @ [newline] @ line @ [newline]
         else trimmed @ [newline, newline] @ comment @ [newline] @ line @ [newline])"

record fpTunerApplyBody =
  ab_Proposal :: fpTunerProposal
  ab_Simulate :: "bool option"
  ab_ApprovalToken :: string

datatype apply_reply =
    ApplyBind goerr                   \<comment> \<open>400\<close>
  | ApplyNoLine                       \<comment> \<open>400\<close>
  | ApplyUnsafe goerr                 \<comment> \<open>422\<close>
  | ApplyPath goerr                   \<comment> \<open>400\<close>
  | ApplyConflict string              \<comment> \<open>409\<close>
  | ApplyDuplicate string string      \<comment> \<open>200: entity tag and file\<close>
  | ApplyInvalid goerr                \<comment> \<open>422\<close>
  | ApplyDenied goerr                 \<comment> \<open>403\<close>
  | ApplySimulated string string      \<comment> \<open>200\<close>
  | ApplyError goerr                  \<comment> \<open>500\<close>
  | ApplyRolledBack goerr             \<comment> \<open>500\<close>
  | ApplyDone string string           \<comment> \<open>200\<close>

definition audit_proposal :: "fpTunerProposal \<Rightarrow> string \<Rightarrow> bool \<Rightarrow> (string \<times> string) list" where
  "audit_proposal p target simulate =
     [(''proposal_id'', pp_ID p), (''proposal_hash'', proposalHash p), (''target_path'', target), (''simulate'', show_bool simulate)]"

definition commit_rule ::
  "'w firewall_env \<Rightarrow> rule_settings \<Rightarrow> string \<Rightarrow> string \<Rightarrow> string \<Rightarrow> 'w firewall \<Rightarrow> apply_reply \<times> 'w firewall" where
  \<comment> \<open>the file, its old and its new text\<close>
  "commit_rule env c target curRaw nextRaw w =
     (case on_storage target [] (AtomicWriteWithBackup nextRaw) w of
        (Inl e, w1) \<Rightarrow> (ApplyError e, w1)
      | (Inr _, w1) \<Rightarrow>
     (case ReloadBaseWAF env c w1 of
        (Inl e, w2) \<Rightarrow>
          (ApplyRolledBack e, snd (ReloadBaseWAF env c (snd (on_storage target [] (AtomicWriteWithBackup curRaw) w2))))
      | (Inr _, w2) \<Rightarrow> (ApplyDone (ComputeETag nextRaw) target, w2)))"

definition apply_checked ::
  "'w firewall_env \<Rightarrow> fp_settings \<Rightarrow> rule_settings \<Rightarrow> int \<Rightarrow> fp_call \<Rightarrow> fpTunerApplyBody \<Rightarrow> string \<Rightarrow> string \<Rightarrow> string
     \<Rightarrow> 'w firewall \<times> fp_state \<Rightarrow> apply_reply \<times> 'w firewall \<times> fp_state" where
  \<comment> \<open>the file, its text and the text it would get, which the engine accepts; instants in nanoseconds\<close>
  "apply_checked env fs c now call b target curRaw nextRaw ws =
     (case ws of (w, st) \<Rightarrow>
      let p = ab_Proposal b; simulate = (case ab_Simulate b of None \<Rightarrow> True | Some s \<Rightarrow> s);
          given = (''approval_token'', show_bool (ab_ApprovalToken b \<noteq> []));
          (allowed, ap) = (if \<not> simulate \<and> fs_RequireApproval fs
                           then consumeFPTunerApprovalToken now (ab_ApprovalToken b) p (ft_approvals st) else (Inr (), ft_approvals st));
          st1 = st\<lparr>ft_approvals := ap\<rparr>
      in case allowed of
           Inl e \<Rightarrow> (ApplyDenied e, w, appendFPTunerAudit fs call ''fp_tuner_apply_denied'' (audit_proposal p target False) st1)
         | Inr _ \<Rightarrow>
             (if simulate
              then (ApplySimulated (ComputeETag nextRaw) target, w,
                    appendFPTunerAudit fs call ''fp_tuner_apply_simulate'' (audit_proposal p target True @ [given]) st1)
              else case commit_rule env c target curRaw nextRaw w of (reply, w1) \<Rightarrow>
                (reply, w1,
                 case reply of
                   ApplyDone _ _ \<Rightarrow>
                     appendFPTunerAudit fs call ''fp_tuner_apply_success'' (audit_proposal p target False @ [(''hot_reloaded'', ''true'')]) st1
                 | _ \<Rightarrow> appendFPTunerAudit fs call ''fp_tuner_apply_error'' (audit_proposal p target False) st1)))"

definition ApplyFPTuning ::
  "'w firewall_env \<Rightarrow> fp_settings \<Rightarrow> rule_settings \<Rightarrow> int \<Rightarrow> fp_call \<Rightarrow> fpTunerApplyBody result \<Rightarrow> 'w firewall \<times> fp_state
     \<Rightarrow> apply_reply \<times> 'w firewall \<times> fp_state" where
  "ApplyFPTuning env fs c now call body ws =
     (case ws of (w, st) \<Rightarrow>
      case body of
        Inl e \<Rightarrow> (ApplyBind e, w, st)
      | Inr b \<Rightarrow>
          (let p = ab_Proposal b; line = TrimSpace (pp_RuleLine p); simulate = (case ab_Simulate b of None \<Rightarrow> True | Some s \<Rightarrow> s) in
           if line = [] then (ApplyNoLine, w, st)
           else case validateFPTunerRuleLine line of
             Inl e \<Rightarrow> (ApplyUnsafe e, w, st)
           | Inr _ \<Rightarrow>
          (case selectFPTunerTargetPath c (pp_TargetPath p) of
             Inl e \<Rightarrow> (ApplyPath e, w, st)
           | Inr target \<Rightarrow>
          (case on_storage target [] ReadFile w of
             (Inl e, w1) \<Rightarrow> (ApplyError e, w1, st)
           | (Inr curRaw, w1) \<Rightarrow>
               (let ifMatch = Header_Get (fc_Header call) ''If-Match'' in
                if ifMatch \<noteq> [] \<and> ifMatch \<noteq> ComputeETag curRaw then (ApplyConflict (ComputeETag curRaw), w1, st)
                else if Contains curRaw line
                then (ApplyDuplicate (ComputeETag curRaw) target, w1,
                      appendFPTunerAudit fs call ''fp_tuner_apply_duplicate''
                        (audit_proposal p target simulate @ [(''approval_token'', show_bool (ab_ApprovalToken b \<noteq> []))]) st)
                else let nextRaw = appendFPTunerRule (now div 10 ^ 9) curRaw (pp_ID p) line in
                  case ValidateWithRuleOverride env c target nextRaw w1 of
                    (Inl e, w2) \<Rightarrow> (ApplyInvalid e, w2, st)
                  | (Inr _, w2) \<Rightarrow> apply_checked env fs c now call b target curRaw nextRaw (w2, st))))))"

end
