(* ===== verification/Fp_Correct.thy ===== *)
theory Fp_Correct
  imports Fp_Apply Rule_Admin_Correct Challenge_Token
begin

text \<open>
  Correctness of the false positive tuner: which proposals are accepted, what an approval token is
  worth, what an applied proposal does to the rule file and the engine, and where the tuner does
  more or less than it says.
\<close>

subsection \<open>The line the tuner builds\<close>

lemma ascii_simps [simp]: "ascii_next []" "ord c < 128 \<Longrightarrow> ascii_next (c # s)" "s \<noteq> [] \<Longrightarrow> ascii_next (s @ t) = ascii_next s"
  by (auto simp: ascii_next_def)

lemma digit_ascii: "is_digit c \<Longrightarrow> ord c < 128"
  by (simp add: is_digit_def)

lemma takes_seq: "takes a u (concat ws @ rest) \<Longrightarrow> takes (seq_of rs) (concat ws) rest \<Longrightarrow> takes (seq_of (a # rs)) (concat (u # ws)) rest"
  using takes_Sq [of a u "concat ws" rest "seq_of rs"] by (simp add: seq_of_def)

lemma takes_none: "takes (seq_of []) (concat []) rest"
  by (simp add: seq_of_def takes_Eps)

lemma path_parts:
  "normalizeFPTunerPath v \<noteq> []" "\<forall>c\<in>set (normalizeFPTunerPath v). no_break (CHR 0x22) c"
  by (auto simp: normalizeFPTunerPath_def no_break_def Let_def)

lemma no_match_nil: "FullMatch (Plus (Cls p)) s \<Longrightarrow> s \<noteq> []"
  by (auto simp: FullMatch_def Plus_def)

lemma plus_bytes:
  assumes "\<And>c. 128 \<le> ord c \<Longrightarrow> \<not> p c" "FullMatch (Plus (Cls p)) s" "c \<in> set s"
  shows "p c"
proof -
  have low: "rune_len (a # t) = 1" if "p a" for a t
    using assms(1) [of a] that by (intro rune_len_ascii) (meson not_le)
  have step: "\<exists>w. snd pl = w @ snd q \<and> (\<forall>c\<in>set w. p c)" if "q \<in> set (ends (Cls p) pl)" for pl q
    using that by (cases "snd pl") (auto simp: low split: if_splits intro!: exI [of _ "[_]"])
  have many: "\<exists>w. s0 = w @ snd q \<and> (\<forall>c\<in>set w. p c)"
    if "q \<in> set (iterate n (ends (Cls p)) pls)" "\<forall>pl\<in>set pls. \<exists>w. s0 = w @ snd pl \<and> (\<forall>c\<in>set w. p c)" for n pls q s0
  proof (rule iterate_inv [OF _ that(2,1)])
    fix pl q :: rx_place
    assume "\<exists>w. s0 = w @ snd pl \<and> (\<forall>c\<in>set w. p c)" "q \<in> set (ends (Cls p) pl)"
    then obtain w v where "s0 = w @ snd pl" "\<forall>c\<in>set w. p c" "snd pl = v @ snd q" "\<forall>c\<in>set v. p c" using step by blast
    then show "\<exists>w. s0 = w @ snd q \<and> (\<forall>c\<in>set w. p c)" by (intro exI [of _ "w @ v"]) auto
  qed
  from assms(2) obtain q pl where q: "pl \<in> set (ends (Cls p) (False, s))" "q \<in> set (ends (Star (Cls p)) pl)" "snd q = []"
    by (auto simp: FullMatch_def Plus_def)
  from step [OF q(1)] obtain w where "s = w @ snd pl" "\<forall>c\<in>set w. p c" by auto
  moreover from q(2) many [of q "length (snd pl)" "[pl]" "snd pl"] obtain v where "snd pl = v @ snd q" "\<forall>c\<in>set v. p c" by auto
  ultimately show ?thesis using q(3) assms(3) by auto
qed

lemma variable_ascii: "128 \<le> ord c \<Longrightarrow> \<not> variable_char c"
  by (auto simp: variable_char_def is_alpha_def is_upper_def is_lower_def is_digit_def ord_def)

lemma variable_parts:
  "normalizeFPTunerVariable v \<noteq> []" "\<forall>c\<in>set (normalizeFPTunerVariable v). variable_char c"
proof -
  have d: "fpTunerDefaultVariable \<noteq> []" "\<forall>c\<in>set fpTunerDefaultVariable. variable_char c" by code_simp+
  then show "normalizeFPTunerVariable v \<noteq> []" by (auto simp: normalizeFPTunerVariable_def Let_def)
  show "\<forall>c\<in>set (normalizeFPTunerVariable v). variable_char c"
    using d(2) plus_bytes [of variable_char "TrimSpace v", OF variable_ascii]
    by (auto simp: normalizeFPTunerVariable_def Let_def fpTunerVariableAllowed_def)
qed

lemma Itoa_only_digits: "0 \<le> i \<Longrightarrow> Itoa i \<noteq> [] \<and> (\<forall>c\<in>set (Itoa i). is_digit c \<and> ord c < 128)"
  using digits_of_digit digit_ascii by (auto simp: Itoa_def)

lemma six_digits: "190000 \<le> i \<Longrightarrow> i < 200000 \<Longrightarrow> length (Itoa i) = 6"
proof -
  assume "190000 \<le> i" "i < 200000"
  then have n: "190000 \<le> nat i" "nat i < 200000" "0 \<le> i" by simp_all
  have len: "length (digits_of m) = (if m < 10 then 1 else Suc (length (digits_of (m div 10))))" for m
    by (subst digits_of.simps) simp
  have "nat i div 10 div 10 div 10 div 10 div 10 = 1" using n by linarith
  moreover have "\<not> nat i < 10" "\<not> nat i div 10 < 10" "\<not> nat i div 10 div 10 < 10" "\<not> nat i div 10 div 10 div 10 < 10"
      "\<not> nat i div 10 div 10 div 10 div 10 < 10"
    using n by linarith+
  ultimately show ?thesis using n(3) by (simp add: Itoa_def len)
qed

lemma generated_id: "190000 \<le> generateFPTunerRuleID r p v \<and> generateFPTunerRuleID r p v < 199000"
proof -
  define x where "x = uint (fnv32a (Itoa r @ ''|'' @ p @ ''|'' @ v))"
  have "0 \<le> x mod 9000" "x mod 9000 < 9000" by simp_all
  then show ?thesis unfolding generateFPTunerRuleID_def x_def [symmetric] by linarith
qed

lemma rule_line_matches:
  assumes "path \<noteq> []" "\<forall>c\<in>set path. no_break (CHR 0x22) c" "variable \<noteq> []" "\<forall>c\<in>set variable. variable_char c"
    "190000 \<le> g" "g < 200000" "0 \<le> r" "\<forall>c\<in>set msg. no_break (CHR 0x27) c"
  shows "FullMatch fpTunerRuleLinePattern (rule_line path g r variable msg)"
proof -
  have v: "ord (hd variable) < 128" using assms(3,4) variable_ascii [of "hd variable"] by (meson hd_in_set not_le)
  have "takes fpTunerRuleLinePattern (concat
     [''SecRule REQUEST_URI '' @ quote @ ''@beginsWith '', path, quote @ '' '' @ quote @ ''id:'',
      Itoa g, '',phase:1,pass,nolog,ctl:ruleRemoveTargetById='', Itoa r, '';'', variable, '',msg:'' @ tick, msg, tick @ quote]) []"
    unfolding fpTunerRuleLinePattern_def
    using assms v Itoa_only_digits [of g] Itoa_only_digits [of r] six_digits [of g]
    by (intro takes_seq takes_none takes_Lit takes_Plus takes_Star takes_AtLeast) (auto simp: ord_def)
  then show ?thesis by (intro FullMatch_takes) (simp add: rule_line_def)
qed

lemma rule_line_trimmed: "TrimSpace (rule_line path g r variable msg) = rule_line path g r variable msg"
proof (rule TrimSpace_solid)
  have ends: "hd (rule_line path g r variable msg) = CHR ''S''" "last (rule_line path g r variable msg) = CHR 0x22"
    by (simp_all add: rule_line_def)
  have "CHR ''S'' \<notin> set (concat space_seqs)" "CHR 0x22 \<notin> set (concat space_seqs)" by code_simp+
  then show "hd (rule_line path g r variable msg) \<notin> set (concat space_seqs) \<and> last (rule_line path g r variable msg) \<notin> set (concat space_seqs)"
    by (simp add: ends)
qed

lemma built_line_accepted: "validateFPTunerRuleLine (buildFPTunerRuleLine e) = Inr ()"
proof -
  have m: "\<forall>c\<in>set ''mamotama fp_tuner scoped exclusion''. no_break (CHR 0x27) c" by (simp add: no_break_def)
  have i: "190000 \<le> generateFPTunerRuleID r p v" "generateFPTunerRuleID r p v < 200000" for r p v
    using generated_id [of r p v] by simp_all
  have "0 \<le> (if ev_RuleID e \<le> 0 then fpTunerDefaultRuleID else ev_RuleID e)" by (simp add: fpTunerDefaultRuleID_def)
  with m i show ?thesis
    by (simp add: validateFPTunerRuleLine_def buildFPTunerRuleLine_def Let_def rule_line_trimmed rule_line_matches path_parts variable_parts
        del: set_simps list.set)
qed

lemma accepted_line_is_one_line:
  assumes "validateFPTunerRuleLine line = Inr ()"
  shows "newline \<notin> set (TrimSpace line)" "TrimSpace line \<noteq> []"
proof -
  have m: "FullMatch fpTunerRuleLinePattern (TrimSpace line)" using assms by (simp add: validateFPTunerRuleLine_def)
  moreover have "avoids newline fpTunerRuleLinePattern" by code_simp
  ultimately show "newline \<notin> set (TrimSpace line)" by (intro FullMatch_clean) (simp_all add: ord_def)
  have "\<not> FullMatch fpTunerRuleLinePattern []" by code_simp
  with m show "TrimSpace line \<noteq> []" by auto
qed

subsection \<open>Approval tokens\<close>

text \<open>
  The calls on the approval store, newest first, and what they say of a token: it is worth the
  proposal it was last issued for, until it expires and until it is presented, whatever came of that.
\<close>

datatype approval_call = Issued fp_moment fpTunerProposal | Used int string fpTunerProposal

fun approvals_after :: "fp_settings \<Rightarrow> approval_call list \<Rightarrow> fp_approvals" where
  "approvals_after fs [] = []"
| "approvals_after fs (Issued mo p # h) = snd (issueFPTunerApprovalToken fs mo p (approvals_after fs h))"
| "approvals_after fs (Used now token p # h) = snd (consumeFPTunerApprovalToken now token p (approvals_after fs h))"

definition token_ttl :: "fp_settings \<Rightarrow> int" where
  "token_ttl fs = (if fs_ApprovalTTL fs \<le> 0 then 10 * 60 * 10 ^ 9 else fs_ApprovalTTL fs)"

fun worth :: "fp_settings \<Rightarrow> int \<Rightarrow> string \<Rightarrow> approval_call list \<Rightarrow> string option" where
  \<comment> \<open>the hash a token stands for at an instant\<close>
  "worth fs now token [] = None"
| "worth fs now token (Issued mo p # h) =
     (if map_option hex_encode (case mo_random mo of Inl e \<Rightarrow> None | Inr buf \<Rightarrow> Some buf) = Some token
      then (if now \<le> mo_issued mo + token_ttl fs then Some (proposalHash p) else None)
      else worth fs now token h)"
| "worth fs now token (Used t tok p # h) = (if TrimSpace tok = token then None else worth fs now token h)"

fun call_time :: "approval_call \<Rightarrow> int" where
  "call_time (Issued mo p) = mo_pruned mo"
| "call_time (Used t tok p) = t"

lemma map_of_filter_keys:
  "distinct (map fst st) \<Longrightarrow>
   map_of (filter (\<lambda>(k, v). P v) st) k = (case map_of st k of Some v \<Rightarrow> if P v then Some v else None | None \<Rightarrow> None)"
proof (induction st)
  case (Cons kv st)
  have "map_of (filter (\<lambda>(k, v). P v) st) (fst kv) = None"
    using Cons.prems by (auto simp: map_of_eq_None_iff)
  with Cons show ?case by (cases kv) (auto split: option.splits)
qed simp

lemma prune_lookup:
  "distinct (map fst st) \<Longrightarrow> map_of (pruneExpiredFPTunerApprovals now st) k
     = (case map_of st k of Some v \<Rightarrow> if ae_ExpiresAt v < now then None else Some v | None \<Rightarrow> None)"
  using map_of_filter_keys [of st "\<lambda>v. \<not> ae_ExpiresAt v < now" k]
  by (simp add: pruneExpiredFPTunerApprovals_def if_distrib split: option.splits)

lemma prune_distinct: "distinct (map fst st) \<Longrightarrow> distinct (map fst (pruneExpiredFPTunerApprovals now st))"
  by (simp add: pruneExpiredFPTunerApprovals_def distinct_map_filter)

lemma approvals_distinct: "distinct (map fst (approvals_after fs h))"
proof (induction h)
  case (Cons x h)
  then show ?case
    by (cases x) (auto simp: issueFPTunerApprovalToken_def consumeFPTunerApprovalToken_def Let_def prune_distinct distinct_aput distinct_adel
        split: sum.splits option.splits)
qed simp

definition live_hash :: "int \<Rightarrow> string \<Rightarrow> fp_approvals \<Rightarrow> string option" where
  "live_hash now token st =
     (case map_of st token of Some v \<Rightarrow> if ae_ExpiresAt v < now then None else Some (ae_ProposalHash v) | None \<Rightarrow> None)"

lemma live_prune: "distinct (map fst st) \<Longrightarrow> t \<le> now \<Longrightarrow> live_hash now token (pruneExpiredFPTunerApprovals t st) = live_hash now token st"
  by (auto simp: live_hash_def prune_lookup split: option.splits)

lemma live_hash_worth:
  assumes "TrimSpace token = token" "token \<noteq> []" "\<forall>x\<in>set h. call_time x \<le> now"
  shows "live_hash now token (approvals_after fs h) = worth fs now token h"
  using assms(3)
proof (induction h)
  case (Cons x h)
  have d: "distinct (map fst (approvals_after fs h))" by (rule approvals_distinct)
  show ?case
  proof (cases x)
    case (Issued mo p)
    show ?thesis
    proof (cases "mo_random mo")
      case (Inl e)
      with Cons Issued show ?thesis by (simp add: issueFPTunerApprovalToken_def)
    next
      case (Inr buf)
      have "live_hash now token (approvals_after fs (x # h)) =
          (if hex_encode buf = token then (if mo_issued mo + token_ttl fs < now then None else Some (proposalHash p))
           else live_hash now token (pruneExpiredFPTunerApprovals (mo_pruned mo) (approvals_after fs h)))"
        by (simp add: Issued Inr issueFPTunerApprovalToken_def live_hash_def token_ttl_def)
      then show ?thesis using Cons live_prune [OF d, of "mo_pruned mo" now token] by (auto simp: Issued Inr)
    qed
  next
    case (Used t tok p)
    define st1 where "st1 = pruneExpiredFPTunerApprovals t (approvals_after fs h)"
    have s: "snd (consumeFPTunerApprovalToken t tok p (approvals_after fs h)) =
        (if TrimSpace tok = [] then approvals_after fs h else if map_of st1 (TrimSpace tok) = None then st1 else adel (TrimSpace tok) st1)"
      by (simp add: consumeFPTunerApprovalToken_def st1_def Let_def split: option.split)
    have pr: "live_hash now token st1 = worth fs now token h"
      unfolding st1_def using Cons Used live_prune [OF d, of t now token] by simp
    show ?thesis
      using pr Cons assms(2) unfolding Used approvals_after.simps s
      by (auto simp: live_hash_def)
  qed
qed (simp add: live_hash_def)

text \<open>
  C31: The approval store refines the history of its calls: a token approves a proposal exactly when the
  last call that named it issued it, for a proposal of the same hash, no longer ago than its time to
  live.  So a token is used at most once, and a failed attempt uses it up.
\<close>

theorem approval_follows_the_history:
  assumes "\<forall>x\<in>set h. call_time x \<le> now"
  shows "fst (consumeFPTunerApprovalToken now token p (approvals_after fs h)) = Inr ()
    \<longleftrightarrow> TrimSpace token \<noteq> [] \<and> worth fs now (TrimSpace token) h = Some (proposalHash p)"
proof (cases "TrimSpace token = []")
  case True
  then show ?thesis by (simp add: consumeFPTunerApprovalToken_def)
next
  case False
  have "live_hash now (TrimSpace token) (approvals_after fs h) = worth fs now (TrimSpace token) h"
    using False assms by (intro live_hash_worth) simp_all
  moreover have "fst (consumeFPTunerApprovalToken now token p (approvals_after fs h)) = Inr ()
      \<longleftrightarrow> live_hash now (TrimSpace token) (approvals_after fs h) = Some (proposalHash p)"
    using False prune_lookup [OF approvals_distinct, of now fs h "TrimSpace token"]
    by (auto simp: consumeFPTunerApprovalToken_def Let_def live_hash_def split: option.splits if_splits)
  ultimately show ?thesis using False by simp
qed

subsection \<open>Applying a proposal\<close>

definition file_new :: "'w firewall_env \<Rightarrow> rule_settings \<Rightarrow> string \<Rightarrow> string \<Rightarrow> 'w firewall \<Rightarrow> 'w firewall \<Rightarrow> bool" where
  "file_new env c p raw w w' \<longleftrightarrow> fw_files w' = (fw_files w)(path_Clean p \<mapsto> raw) \<and> fw_blobs w' = fw_blobs w \<and> in_force env c w'"

lemma commit_outcome:
  assumes "in_force env c w" "rule_failures w \<le> 1" "fw_files w (path_Clean p) = Some cur"
    "\<not> isl (engine_now env c (with_text p raw w))" "commit_rule env c p cur raw w = (reply, w')"
  shows "reply = ApplyDone (ComputeETag raw) p \<and> file_new env c p raw w w'
    \<or> (\<exists>e. reply = ApplyError e \<or> reply = ApplyRolledBack e) \<and> all_old env c w w'"
proof (cases rule: put_file_cases [of p "[]" raw w])
  case (failed e w1)
  with assms show ?thesis by (auto simp: commit_rule_def intro: same_all_old)
next
  case wr: (ok w1)
  have new: "\<not> isl (engine_now env c w1)"
    using assms(4) engine_cong [of w1 "with_text p raw w" env c] wr by (simp add: with_text_def)
  note run = assms(5) [unfolded commit_rule_def, simplified wr(1) prod.case sum.case]
  show ?thesis
  proof (cases rule: reload_engine_cases [of env c w1])
    case (refused e w2)
    with new show ?thesis by simp
  next
    case (failed e w2)
    have undo: "on_storage p [] (AtomicWriteWithBackup cur) w2 = on_storage p [] (rollbackRuleFile True cur) w2"
      by (simp add: on_storage_def rollbackRuleFile_def)
    have "all_old env c w (snd (ReloadBaseWAF env c (snd (on_storage p [] (rollbackRuleFile True cur) w2))))"
      using assms(1,2,3) failed wr by (intro undo_restores) (auto simp: same_rules_def)
    then show ?thesis using run failed by (auto simp: undo)
  next
    case (ok w2 b)
    have "in_force env c (w2\<lparr>fw_base := Some b\<rparr>)"
      using ok(2,3) engine_cong [of "w2\<lparr>fw_base := Some b\<rparr>" w1 env c] by (simp add: in_force_def same_rules_def)
    then show ?thesis using run ok wr by (auto simp: file_new_def same_rules_def)
  qed
qed

lemma file_read_cases:
  obtains (ok) cur w1 where "on_storage p k ReadFile w = (Inr cur, w1)" "fw_files w (path_Clean p) = Some cur"
      "same_rules w w1" "rule_failures w1 \<le> rule_failures w"
  | (no) e w1 where "on_storage p k ReadFile w = (Inl e, w1)" "same_rules w w1"
proof (cases rule: store_read_cases [of so_File "focus p k w"])
  case (ok st0)
  then show ?thesis
    using that(1) [of _ "unfocus p k st0 w"] that(2) [of _ "unfocus p k st0 w"]
    by (cases "fw_files w (path_Clean p)") (auto simp: on_storage_def ReadFile_def unfocus_same unfocus_failures failures_focus)
next
  case (failed e st0)
  then show ?thesis using that(2) [of e "unfocus p k st0 w"] by (auto simp: on_storage_def ReadFile_def unfocus_same)
qed

definition approved :: "fp_settings \<Rightarrow> int \<Rightarrow> fpTunerApplyBody \<Rightarrow> fp_state \<Rightarrow> bool" where
  "approved fs now b st \<longleftrightarrow> ab_Simulate b = Some False
     \<and> (fs_RequireApproval fs \<longrightarrow> fst (consumeFPTunerApprovalToken now (ab_ApprovalToken b) (ab_Proposal b) (ft_approvals st)) = Inr ())"

lemma checked_outcome:
  assumes "in_force env c w" "rule_failures w \<le> 1" "fw_files w (path_Clean p) = Some cur"
    "\<not> isl (engine_now env c (with_text p raw w))" "apply_checked env fs c now call b p cur raw (w, st) = (reply, w', st')"
  shows "reply = ApplyDone (ComputeETag raw) p \<and> file_new env c p raw w w' \<and> approved fs now b st
    \<or> (\<forall>t f. reply \<noteq> ApplyDone t f) \<and> all_old env c w w'"
proof -
  define simulate where "simulate = (case ab_Simulate b of None \<Rightarrow> True | Some s \<Rightarrow> s)"
  have old: "all_old env c w w" using assms(1) by (simp add: all_old_def)
  show ?thesis
  proof (cases simulate)
    case True
    then show ?thesis using assms(5) old by (auto simp: apply_checked_def simulate_def [symmetric])
  next
    case False
    then have f: "ab_Simulate b = Some False" by (auto simp: simulate_def split: option.splits)
    show ?thesis
    proof (cases "approved fs now b st")
      case False
      then show ?thesis using assms(5) old f
        by (auto simp: apply_checked_def approved_def Let_def split: prod.splits sum.splits if_splits)
    next
      case True
      obtain r v where run: "commit_rule env c p cur raw w = (r, v)" by fastforce
      have "reply = r \<and> w' = v" using assms(5) True f run
        by (auto simp: apply_checked_def approved_def Let_def split: prod.splits sum.splits if_splits)
      then show ?thesis using commit_outcome [OF assms(1-4) run] True by auto
    qed
  qed
qed

text \<open>Before the last checks nothing but reading has happened.\<close>

lemma checks_only_read:
  assumes "selectFPTunerTargetPath c (pp_TargetPath (ab_Proposal b)) = Inr target"
    and "fw_files w (path_Clean target) = Some cur"
    and next_def: "nxt = appendFPTunerRule (now div 10 ^ 9) cur (pp_ID (ab_Proposal b)) (TrimSpace (pp_RuleLine (ab_Proposal b)))"
    and run: "ApplyFPTuning env fs c now call (Inr b) (w, st) = (reply, w', st')"
  shows "(\<forall>t f. reply \<noteq> ApplyDone t f) \<and> same_rules w w'
    \<or> (\<exists>w2. same_rules w w2 \<and> rule_failures w2 \<le> rule_failures w \<and> apply_checked env fs c now call b target cur nxt (w2, st) = (reply, w', st'))"
proof (cases rule: file_read_cases [of target "[]" w])
  case (no e w1)
  then show ?thesis using assms(1) run
    by (auto simp: ApplyFPTuning_def Let_def split: sum.splits if_splits)
next
  case (ok cur' w1)
  with assms(2) have cur: "cur' = cur" by simp
  note read = ok [unfolded cur]
  show ?thesis
  proof (cases rule: validate_override_cases [of env c target nxt w1])
    case (no e w2)
    then show ?thesis using assms(1) run read same_rules_trans [of w w1 w2]
      by (auto simp: ApplyFPTuning_def Let_def next_def split: sum.splits if_splits)
  next
    case (ok w2)
    then show ?thesis using assms(1) run read same_rules_trans [of w w1 w2]
      by (auto simp: ApplyFPTuning_def Let_def next_def split: sum.splits if_splits)
  qed
qed


lemma commit_done:
  assumes "commit_rule env c p cur raw w = (ApplyDone t f, w')"
  shows "fw_files w' (path_Clean p) = Some raw" "fw_blobs w' = fw_blobs w" "fw_store w' = fw_store w"
proof -
  obtain w1 where w1: "on_storage p [] (AtomicWriteWithBackup raw) w = (Inr (), w1)" "fw_files w1 (path_Clean p) = Some raw"
    "fw_blobs w1 = fw_blobs w" "fw_store w1 = fw_store w"
    by (cases rule: put_file_cases [of p "[]" raw w]) (use assms in \<open>auto simp: commit_rule_def\<close>)
  obtain w2 b where "w' = w2\<lparr>fw_base := Some b\<rparr>" "same_rules w1 w2"
    by (cases rule: reload_engine_cases [of env c w1]) (use assms w1(1) in \<open>auto simp: commit_rule_def\<close>)
  with w1 show "fw_files w' (path_Clean p) = Some raw" "fw_blobs w' = fw_blobs w" "fw_store w' = fw_store w"
    by (simp_all add: same_rules_def)
qed

text \<open>What success says whatever else fails.\<close>

lemma apply_done:
  assumes "ApplyFPTuning env fs c now call (Inr b) (w, st) = (ApplyDone t f, w', st')"
  obtains target cur where
    "selectFPTunerTargetPath c (pp_TargetPath (ab_Proposal b)) = Inr target" "fw_files w (path_Clean target) = Some cur"
    "validateFPTunerRuleLine (TrimSpace (pp_RuleLine (ab_Proposal b))) = Inr ()"
    "fw_files w' (path_Clean target) =
       Some (appendFPTunerRule (now div 10 ^ 9) cur (pp_ID (ab_Proposal b)) (TrimSpace (pp_RuleLine (ab_Proposal b))))"
    "fw_blobs w' = fw_blobs w" "fw_store w' = fw_store w"
proof -
  define line where "line = TrimSpace (pp_RuleLine (ab_Proposal b))"
  have l: "line \<noteq> []" "validateFPTunerRuleLine line = Inr ()"
    using assms by (auto simp: ApplyFPTuning_def line_def [symmetric] Let_def split: if_splits sum.splits)
  obtain target where target: "selectFPTunerTargetPath c (pp_TargetPath (ab_Proposal b)) = Inr target"
    using assms l by (auto simp: ApplyFPTuning_def line_def [symmetric] Let_def split: sum.splits)
  obtain cur w1 where read: "on_storage target [] ReadFile w = (Inr cur, w1)" "fw_files w (path_Clean target) = Some cur" "same_rules w w1"
    by (cases rule: file_read_cases [of target "[]" w])
      (use assms l target in \<open>auto simp: ApplyFPTuning_def line_def [symmetric] Let_def\<close>)
  define nxt where "nxt = appendFPTunerRule (now div 10 ^ 9) cur (pp_ID (ab_Proposal b)) line"
  obtain w2 where v: "ValidateWithRuleOverride env c target nxt w1 = (Inr (), w2)" "same_rules w1 w2"
    by (cases rule: validate_override_cases [of env c target nxt w1])
      (use assms l target read in \<open>auto simp: ApplyFPTuning_def line_def [symmetric] nxt_def Let_def split: if_splits\<close>)
  have "apply_checked env fs c now call b target cur nxt (w2, st) = (ApplyDone t f, w', st')"
    using assms l target read v by (auto simp: ApplyFPTuning_def line_def [symmetric] nxt_def Let_def split: if_splits)
  then have "commit_rule env c target cur nxt w2 = (ApplyDone t f, w')"
    by (auto simp: apply_checked_def Let_def split: prod.splits sum.splits if_splits)
  from commit_done [OF this] show ?thesis
    using target read v l by (intro that [of target cur]) (auto simp: nxt_def line_def same_rules_def)
qed

subsection \<open>The lines a proposal adds\<close>

lemma SplitByte_not_Nil: "SplitByte s c \<noteq> []"
  by (induction s) (auto split: list.split)

lemma SplitByte_append: "SplitByte (u @ c # s) c = SplitByte u c @ SplitByte s c"
  by (induction u) (auto simp: SplitByte_not_Nil split: list.splits)

lemma Itoa_line: "newline \<notin> set (Itoa i)"
proof
  assume "newline \<in> set (Itoa i)"
  then have "newline \<in> set (digits_of (nat i)) \<or> newline \<in> set (digits_of (nat (- i)))" by (auto simp: Itoa_def split: if_splits)
  then have "is_digit newline" by (auto dest: digits_of_digit)
  then show False by (simp add: is_digit_def ord_def)
qed

lemma stamp_line: "newline \<notin> set (format_RFC3339 t)"
  using Itoa_line by (auto simp: format_RFC3339_def two_digits_def four_digits_def Let_def split: prod.split)

definition rule_comment :: "int \<Rightarrow> string \<Rightarrow> string" where
  "rule_comment stamp proposalID =
     ''# fp-tuner proposal='' @ (if proposalID = [] then ''manual'' else proposalID) @ '' applied_at='' @ format_RFC3339 stamp"

lemma appended_lines:
  assumes "newline \<notin> set proposalID" "newline \<notin> set line"
  shows "SplitByte (appendFPTunerRule stamp cur proposalID line) newline =
    (let old = TrimRightByte cur newline in if old = [] then [] else SplitByte old newline @ [[]])
      @ [rule_comment stamp proposalID, line, []]"
proof -
  have "newline \<notin> set (rule_comment stamp proposalID)" using assms(1) stamp_line by (auto simp: rule_comment_def)
  then have tail: "SplitByte (rule_comment stamp proposalID @ [newline] @ line @ [newline]) newline = [rule_comment stamp proposalID, line, []]"
    using assms(2) by (simp add: SplitByte_append SplitByte_no del: append_assoc)
  have e: "appendFPTunerRule stamp cur proposalID line =
      (let old = TrimRightByte cur newline; added = rule_comment stamp proposalID @ [newline] @ line @ [newline]
       in if old = [] then added else old @ newline # [] @ newline # added)"
    by (simp add: appendFPTunerRule_def rule_comment_def Let_def)
  show ?thesis
    unfolding e Let_def using tail SplitByte_append [of "TrimRightByte cur newline" newline]
      SplitByte_append [of "[]" newline] by simp
qed

text \<open>
  An applied proposal whose id holds no line break leaves the lines of the file as they were and adds one
  comment and one rule: a scoped exclusion of a target from a rule.
\<close>

theorem applied_proposal_adds_one_rule:
  assumes "ApplyFPTuning env fs c now call (Inr b) (w, st) = (ApplyDone t f, w', st')" "newline \<notin> set (pp_ID (ab_Proposal b))"
  shows "\<exists>target cur text line.
    selectFPTunerTargetPath c (pp_TargetPath (ab_Proposal b)) = Inr target
    \<and> fw_files w (path_Clean target) = Some cur \<and> fw_files w' (path_Clean target) = Some text
    \<and> FullMatch fpTunerRuleLinePattern line
    \<and> SplitByte text newline =
        (let old = TrimRightByte cur newline in if old = [] then [] else SplitByte old newline @ [[]])
          @ [rule_comment (now div 10 ^ 9) (pp_ID (ab_Proposal b)), line, []]"
proof -
  from apply_done [OF assms(1)] obtain target cur where a:
    "selectFPTunerTargetPath c (pp_TargetPath (ab_Proposal b)) = Inr target" "fw_files w (path_Clean target) = Some cur"
    "validateFPTunerRuleLine (TrimSpace (pp_RuleLine (ab_Proposal b))) = Inr ()"
    "fw_files w' (path_Clean target) =
       Some (appendFPTunerRule (now div 10 ^ 9) cur (pp_ID (ab_Proposal b)) (TrimSpace (pp_RuleLine (ab_Proposal b))))" by metis
  have "FullMatch fpTunerRuleLinePattern (TrimSpace (pp_RuleLine (ab_Proposal b)))"
    using a(3) by (simp add: validateFPTunerRuleLine_def)
  moreover have "newline \<notin> set (TrimSpace (pp_RuleLine (ab_Proposal b)))" using accepted_line_is_one_line(1) [OF a(3)] by simp
  ultimately show ?thesis using a(1,2,4) appended_lines [OF assms(2)] by blast
qed

text \<open>
  The id of a proposal goes into the comment as it is: whatever stands between two line breaks of
  the id becomes a line of the rule file of its own, although only the rule line was checked.
\<close>

theorem proposal_id_smuggles_a_directive:
  assumes "ApplyFPTuning env fs c now call (Inr b) (w, st) = (ApplyDone t f, w', st')"
    and "pp_ID (ab_Proposal b) = u @ newline # directive @ newline # v" "newline \<notin> set directive"
  shows "\<exists>target text. selectFPTunerTargetPath c (pp_TargetPath (ab_Proposal b)) = Inr target
    \<and> fw_files w' (path_Clean target) = Some text \<and> directive \<in> set (SplitByte text newline)"
proof -
  from apply_done [OF assms(1)] obtain target cur where a:
    "selectFPTunerTargetPath c (pp_TargetPath (ab_Proposal b)) = Inr target"
    "fw_files w' (path_Clean target) =
       Some (appendFPTunerRule (now div 10 ^ 9) cur (pp_ID (ab_Proposal b)) (TrimSpace (pp_RuleLine (ab_Proposal b))))" by metis
  define x where "x = (if TrimRightByte cur newline = [] then [] else TrimRightByte cur newline @ [newline, newline]) @ ''# fp-tuner proposal=''"
  define y where "y = v @ '' applied_at='' @ format_RFC3339 (now div 10 ^ 9) @ newline # TrimSpace (pp_RuleLine (ab_Proposal b)) @ [newline]"
  have "appendFPTunerRule (now div 10 ^ 9) cur (pp_ID (ab_Proposal b)) (TrimSpace (pp_RuleLine (ab_Proposal b)))
      = (x @ u) @ newline # directive @ newline # y"
    by (simp add: appendFPTunerRule_def assms(2) Let_def x_def y_def)
  moreover have "directive \<in> set (SplitByte ((x @ u) @ newline # directive @ newline # y) newline)"
    unfolding SplitByte_append SplitByte_no [OF assms(3)] by simp
  ultimately show ?thesis using a by auto
qed

subsection \<open>Where the tuner does not do what it says\<close>

text \<open>
  The check that an event has a path never fails, since a missing path has become the root by then: the
  proposal for it excludes the target of the rule under every path.
\<close>

theorem event_without_a_path_excludes_every_path:
  assumes "TrimSpace (ev_Path e) = []" "ToLower (TrimSpace (fs_Mode fs)) = ''mock''" "TrimSpace (fs_MockResponseFile fs) = []"
  shows "resolveFPTunerEventInputs src \<lparr>pb_Event = Some e, pb_Events = [], pb_TargetPath = t\<rparr>
      = Inr ([normalizeFPTunerEventInput e], ''request'')
    \<and> (\<exists>p g r v msg. requestFPTunerProposal pv fs stamp (provider_request fs (normalizeFPTunerEventInput e) target) = Inr (p, ''mock'')
        \<and> pp_RuleLine p = rule_line ''/'' g r v msg)"
proof -
  have path: "ev_Path (normalizeFPTunerEventInput e) = ''/''"
    using assms(1) by (simp add: normalizeFPTunerEventInput_def normalizeFPTunerPath_def)
  have "maskSensitiveText ''/'' = ''/''" "normalizeFPTunerPath ''/'' = ''/''" by code_simp+
  then have line: "\<exists>g r v msg. buildFPTunerRuleLine (maskFPTunerProviderInput (normalizeFPTunerEventInput e)) = rule_line ''/'' g r v msg"
    by (auto simp: buildFPTunerRuleLine_def maskFPTunerProviderInput_def path Let_def)
  have "TrimSpace (rule_line p g r v msg) \<noteq> []" for p g r v msg unfolding rule_line_trimmed by (simp add: rule_line_def)
  with line show ?thesis
    by (auto simp: resolveFPTunerEventInputs_def resolveFPTunerEventInput_def path Let_def requestFPTunerProposal_def
        requestFPTunerProposalMock_def assms fillFPTunerProposalDefaults_def buildMockFPTunerProposal_def provider_request_def or_blank_def)
qed

text \<open>
  The provider gets the masked path, and the proposals it has the tuner make are made for that one: an
  event under a path with an address in it gets an exclusion for a path no request has.
\<close>

theorem masked_path_is_excluded_instead:
  "\<exists>g r v msg. buildFPTunerRuleLine (pq_Input (provider_request fs (e\<lparr>ev_Path := ''/u/ann@example.com/edit''\<rparr>) target))
     = rule_line ''/u/[redacted-email]/edit'' g r v msg"
proof -
  have "maskSensitiveText ''/u/ann@example.com/edit'' = ''/u/[redacted-email]/edit''" by code_simp
  moreover have "normalizeFPTunerPath ''/u/[redacted-email]/edit'' = ''/u/[redacted-email]/edit''" by code_simp
  ultimately show ?thesis by (auto simp: provider_request_def maskFPTunerProviderInput_def buildFPTunerRuleLine_def Let_def)
qed

text \<open>One file is synchronised with its row when nothing fails.\<close>

lemma sync_one_file:
  assumes "rule_failures w = 0" "fw_files w (path_Clean p) = Some raw" "fw_blobs w (ruleFileConfigBlobKey p) = Some (cur, tag)"
  obtains changed w1 where "sync_rule_files [p] False w = (Inr changed, w1)" "fw_files w1 (path_Clean p) = Some cur"
proof -
  define k where "k = ruleFileConfigBlobKey p"
  obtain w1 where w1: "on_storage p k readFileMaybe w = (Inr (raw, True), w1)" "same_rules w w1" "rule_failures w1 = 0"
    by (cases rule: read_maybe_cases [of p k w]) (use assms in auto)
  obtain w2 where w2: "on_storage p k GetConfigBlob w1 = (Inr (Some (cur, tag)), w2)" "same_rules w w2" "rule_failures w2 = 0"
    by (cases rule: read_blob_cases [of p k w1]) (use assms w1 in \<open>auto simp: same_rules_def k_def\<close>)
  obtain w4 where w4: "(if raw \<noteq> cur
        then (case on_storage p k MkdirAll w2 of (Inl e, w3) \<Rightarrow> (Inl e, w3)
              | (Inr _, w3) \<Rightarrow> on_storage p k (AtomicWriteWithBackup cur) w3)
        else (Inr (), w2)) = (Inr (), w4)" "fw_files w4 (path_Clean p) = Some cur" "rule_failures w4 = 0"
  proof (cases "raw = cur")
    case True
    then show ?thesis using that [of w2] w2 assms(2) by (simp add: same_rules_def)
  next
    case False
    obtain w3 where w3: "on_storage p k MkdirAll w2 = (Inr (), w3)" "rule_failures w3 = 0"
      by (cases rule: mkdir_cases [of p k w2]) (use w2 in auto)
    obtain w4 where "on_storage p k (AtomicWriteWithBackup cur) w3 = (Inr (), w4)" "rule_failures w4 = 0"
        "fw_files w4 (path_Clean p) = Some cur"
      by (cases rule: put_file_cases [of p k cur w3]) (use w3 in auto)
    then show ?thesis using that [of w4] w3 False by simp
  qed
  obtain w5 where w5: "(if TrimSpace tag = [] then on_storage p k (UpsertConfigBlob cur (ComputeETag cur)) w4 else (Inr (), w4)) = (Inr (), w5)"
      "fw_files w5 = fw_files w4"
    by (cases "TrimSpace tag = []"; cases rule: put_blob_cases [of p k cur w4]) (use w4(3) in auto)
  have "sync_rule_files [p] False w = (Inr (raw \<noteq> cur), w5)"
    unfolding sync_rule_files.simps on_rule_file_def k_def [symmetric] Let_def
    using w1(1) w2(1) w4(1) w5(1) by (simp split del: if_split)
  then show ?thesis using that w4(2) w5(2) by simp
qed

text \<open>
  The tuner writes the file and not the database row: with a row that holds the text before, the
  next synchronisation takes the applied rule out again.
\<close>

theorem applied_rule_is_lost_at_the_next_sync:
  assumes "ApplyFPTuning env fs c now call (Inr b) (w, st) = (ApplyDone t f, w', st')"
    and "configuredRuleFiles c = [target]" "selectFPTunerTargetPath c (pp_TargetPath (ab_Proposal b)) = Inr target"
    and "fw_store w" "fw_blobs w (ruleFileConfigBlobKey target) = Some (cur, tag)" "fw_files w (path_Clean target) = Some cur"
    and "rule_failures w' = 0"
  shows "fw_files (snd (SyncRuleFilesStorage env c w')) (path_Clean target) = Some cur"
proof -
  define k where "k = ruleFileConfigBlobKey target"
  from apply_done [OF assms(1)] obtain target' cur' where a:
    "selectFPTunerTargetPath c (pp_TargetPath (ab_Proposal b)) = Inr target'"
    "fw_files w' (path_Clean target') =
       Some (appendFPTunerRule (now div 10 ^ 9) cur' (pp_ID (ab_Proposal b)) (TrimSpace (pp_RuleLine (ab_Proposal b))))"
    "fw_blobs w' = fw_blobs w" "fw_store w' = fw_store w" by metis
  have t: "target' = target" using a(1) assms(3) by simp
  have w': "fw_store w'" "fw_blobs w' k = Some (cur, tag)" using a(3,4) assms(4,5) by (simp_all add: k_def)
  obtain changed w1 where w1: "sync_rule_files [target] False w' = (Inr changed, w1)" "fw_files w1 (path_Clean target) = Some cur"
    using sync_one_file [OF assms(7) a(2) [unfolded t] w'(2) [unfolded k_def]] by metis
  have keeps: "fw_files (snd (ReloadBaseWAF env c w1)) = fw_files w1"
    by (cases rule: reload_engine_cases [of env c w1]) (auto simp: same_rules_def)
  then show ?thesis
    using w'(1) w1 by (auto simp: SyncRuleFilesStorage_def assms(2) split: sum.splits prod.splits)
qed

subsection \<open>Witnesses\<close>

definition demo_proposal :: "string \<Rightarrow> fpTunerProposal" where
  "demo_proposal i = \<lparr>pp_ID = i, pp_Title = [], pp_Summary = [], pp_Reason = [], pp_Confidence = 1, pp_TargetPath = ''r.conf'',
     pp_RuleLine = rule_line ''/a'' 190001 100004 ''ARGS:q'' []\<rparr>"

definition demo_tuner :: fp_settings where
  "demo_tuner = \<lparr>fs_Mode = ''mock'', fs_Endpoint = [], fs_APIKey = [], fs_Model = [], fs_Timeout = 15, fs_MockResponseFile = [], fs_RequireApproval = True,
     fs_ApprovalTTL = 60, fs_AuditFile = []\<rparr>"

definition demo_apply :: "string \<Rightarrow> fpTunerApplyBody" where
  "demo_apply i = \<lparr>ab_Proposal = demo_proposal i, ab_Simulate = Some False, ab_ApprovalToken = ''0102''\<rparr>"

definition demo_call :: fp_call where
  "demo_call = \<lparr>fc_Header = [], fc_IP = ''10.0.0.1'', fc_auditFails = False\<rparr>"

definition demo_issued :: "string \<Rightarrow> approval_call list" where
  "demo_issued i = [Issued \<lparr>mo_stamp = 0, mo_issued = 0, mo_pruned = 1, mo_random = Inr [1, 2]\<rparr> (demo_proposal i)]"

definition demo_tuner_state :: "string \<Rightarrow> fp_state" where
  "demo_tuner_state i = \<lparr>ft_approvals = approvals_after demo_tuner (demo_issued i), ft_audit = []\<rparr>"

lemma demo_token [simp]: "hex_encode [1, 2] = ''0102''" "TrimSpace ''0102'' = ''0102''"
  by code_simp+

theorem approval_follows_the_history_witness:
  "fst (consumeFPTunerApprovalToken 5 ''0102'' (demo_proposal ''fp-1'') (approvals_after demo_tuner (demo_issued ''fp-1''))) = Inr ()"
  using approval_follows_the_history [of "demo_issued ''fp-1''" 5 "''0102''" "demo_proposal ''fp-1''" demo_tuner]
  by (simp add: demo_issued_def demo_tuner_def token_ttl_def)

lemma demo_line [simp]:
  "TrimSpace (pp_RuleLine (demo_proposal i)) = rule_line ''/a'' 190001 100004 ''ARGS:q'' []"
  "validateFPTunerRuleLine (rule_line ''/a'' 190001 100004 ''ARGS:q'' []) = Inr ()"
  "rule_line ''/a'' 190001 100004 ''ARGS:q'' [] \<noteq> []"
proof -
  show "TrimSpace (pp_RuleLine (demo_proposal i)) = rule_line ''/a'' 190001 100004 ''ARGS:q'' []"
    by (simp add: demo_proposal_def rule_line_trimmed)
  have "FullMatch fpTunerRuleLinePattern (rule_line ''/a'' 190001 100004 ''ARGS:q'' [])"
    by (rule rule_line_matches) (simp_all add: no_break_def variable_char_def is_alpha_def is_upper_def is_lower_def is_digit_def ord_def)
  then show "validateFPTunerRuleLine (rule_line ''/a'' 190001 100004 ''ARGS:q'' []) = Inr ()"
    by (simp add: validateFPTunerRuleLine_def rule_line_trimmed)
  show "rule_line ''/a'' 190001 100004 ''ARGS:q'' [] \<noteq> []" by (simp add: rule_line_def)
qed

definition demo_next :: "string \<Rightarrow> string" where
  "demo_next i = appendFPTunerRule 0 ''a'' i (rule_line ''/a'' 190001 100004 ''ARGS:q'' [])"

definition calm_firewall :: "((string \<times> string option) list) firewall" where
  "calm_firewall = demo_firewall\<lparr>fw_faults := []\<rparr>"

lemma demo_target: "selectFPTunerTargetPath demo_rules (pp_TargetPath (demo_proposal i)) = Inr ''r.conf''"
  by (simp add: selectFPTunerTargetPath_def ensureEditableRulePath_def configuredRuleFiles_def demo_rules_def demo_proposal_def Let_def)

lemma demo_tuned:
  "\<exists>w' st'. ApplyFPTuning demo_engine demo_tuner demo_rules 5 demo_call (Inr (demo_apply i)) (calm_firewall, demo_tuner_state i)
     = (ApplyDone (ComputeETag (demo_next i)) ''r.conf'', w', st')"
proof -
  have files: "PrepareInitialRuleFiles demo_engine demo_rules w = (Inr [''r.conf''], w)" for w
    by (simp add: PrepareInitialRuleFiles_def composeInitialRuleFilesWithDisabledSet_def demo_rules_def)
  have quiet: "on_storage p k (store_write (\<lambda>s. s)) calm_firewall = (Inr (), calm_firewall)"
    "on_storage p k ReadFile calm_firewall = (case fw_files calm_firewall (path_Clean p) of
        None \<Rightarrow> (err ''open: no such file or directory'' [], calm_firewall) | Some raw \<Rightarrow> (Inr raw, calm_firewall))" for p k
  proof -
    have "so_Faults (focus p k calm_firewall) = []" by (simp add: focus_def calm_firewall_def)
    moreover have "unfocus p k (focus p k calm_firewall) calm_firewall = calm_firewall" by (simp add: focus_def unfocus_def)
    ultimately show "on_storage p k (store_write (\<lambda>s. s)) calm_firewall = (Inr (), calm_firewall)"
      "on_storage p k ReadFile calm_firewall = (case fw_files calm_firewall (path_Clean p) of
          None \<Rightarrow> (err ''open: no such file or directory'' [], calm_firewall) | Some raw \<Rightarrow> (Inr raw, calm_firewall))"
      by (simp_all add: on_storage_def store_write_def ReadFile_def store_read_def split: option.split)
  qed
  have valid: "ValidateWithRuleOverride demo_engine demo_rules ''r.conf'' raw calm_firewall = (Inr (), calm_firewall)" for raw
    by (simp add: ValidateWithRuleOverride_def files quiet Let_def) (simp add: demo_engine_def buildWAF_def)
  have absent: "\<not> Contains ''a'' (rule_line ''/a'' 190001 100004 ''ARGS:q'' [])" by (simp add: Contains_def rule_line_def)
  have token: "fst (consumeFPTunerApprovalToken 5 ''0102'' (demo_proposal i) (approvals_after demo_tuner (demo_issued i))) = Inr ()"
    using prune_lookup [of "approvals_after demo_tuner (demo_issued i)" 5 "''0102''"] approvals_distinct [of demo_tuner "demo_issued i"]
    by (simp add: consumeFPTunerApprovalToken_def Let_def demo_issued_def issueFPTunerApprovalToken_def demo_tuner_def
        pruneExpiredFPTunerApprovals_def)
  obtain w' where w': "commit_rule demo_engine demo_rules ''r.conf'' ''a'' (demo_next i) calm_firewall
      = (ApplyDone (ComputeETag (demo_next i)) ''r.conf'', w')"
    by (simp add: commit_rule_def ReloadBaseWAF_def files on_storage_def AtomicWriteWithBackup_def store_write_def focus_def calm_firewall_def
        demo_firewall_def) (simp add: demo_engine_def buildWAF_def)
  have body: "ab_Proposal (demo_apply i) = demo_proposal i" "ab_Simulate (demo_apply i) = Some False"
    "ab_ApprovalToken (demo_apply i) = ''0102''" "fs_RequireApproval demo_tuner" "ft_approvals (demo_tuner_state i) = approvals_after demo_tuner (demo_issued i)"
    "Header_Get (fc_Header demo_call) ''If-Match'' = []" "fw_files calm_firewall ''r.conf'' = Some ''a''" "pp_ID (demo_proposal i) = i"
    by (simp_all add: demo_apply_def demo_tuner_def demo_tuner_state_def demo_call_def Header_Get_def hdr_values_def calm_firewall_def
        demo_firewall_def demo_proposal_def)
  obtain ap where ap: "consumeFPTunerApprovalToken 5 ''0102'' (demo_proposal i) (approvals_after demo_tuner (demo_issued i)) = (Inr (), ap)"
    using token by (metis prod.collapse)
  obtain st' where "apply_checked demo_engine demo_tuner demo_rules 5 demo_call (demo_apply i) ''r.conf'' ''a'' (demo_next i)
      (calm_firewall, demo_tuner_state i) = (ApplyDone (ComputeETag (demo_next i)) ''r.conf'', w', st')"
    by (simp add: apply_checked_def body w' ap Let_def)
  then show ?thesis
    by (simp add: ApplyFPTuning_def body demo_target quiet valid absent demo_next_def [symmetric])
qed


theorem applied_proposal_adds_one_rule_witness:
  "\<exists>w' st' text line. ApplyFPTuning demo_engine demo_tuner demo_rules 5 demo_call (Inr (demo_apply ''fp-1'')) (calm_firewall, demo_tuner_state ''fp-1'')
       = (ApplyDone (ComputeETag (demo_next ''fp-1'')) ''r.conf'', w', st')
     \<and> fw_files w' ''r.conf'' = Some text \<and> line \<in> set (SplitByte text newline) \<and> FullMatch fpTunerRuleLinePattern line"
proof -
  obtain w' st' where run: "ApplyFPTuning demo_engine demo_tuner demo_rules 5 demo_call (Inr (demo_apply ''fp-1''))
      (calm_firewall, demo_tuner_state ''fp-1'') = (ApplyDone (ComputeETag (demo_next ''fp-1'')) ''r.conf'', w', st')"
    using demo_tuned by blast
  from applied_proposal_adds_one_rule [OF run] show ?thesis
    using run by (auto simp: demo_apply_def demo_target) (auto simp: demo_proposal_def)
qed

theorem proposal_id_smuggles_a_directive_witness:
  "\<exists>w' st' text. ApplyFPTuning demo_engine demo_tuner demo_rules 5 demo_call (Inr (demo_apply (''fp-1'' @ newline # ''SecRuleEngine Off'' @ newline # [])))
       (calm_firewall, demo_tuner_state (''fp-1'' @ newline # ''SecRuleEngine Off'' @ newline # []))
       = (ApplyDone (ComputeETag (demo_next (''fp-1'' @ newline # ''SecRuleEngine Off'' @ newline # []))) ''r.conf'', w', st')
     \<and> fw_files w' ''r.conf'' = Some text \<and> ''SecRuleEngine Off'' \<in> set (SplitByte text newline)"
proof -
  define i where "i = ''fp-1'' @ newline # ''SecRuleEngine Off'' @ newline # []"
  obtain w' st' where run: "ApplyFPTuning demo_engine demo_tuner demo_rules 5 demo_call (Inr (demo_apply i))
      (calm_firewall, demo_tuner_state i) = (ApplyDone (ComputeETag (demo_next i)) ''r.conf'', w', st')"
    using demo_tuned by blast
  have "pp_ID (ab_Proposal (demo_apply i)) = ''fp-1'' @ newline # ''SecRuleEngine Off'' @ newline # []"
    by (simp add: demo_apply_def demo_proposal_def i_def)
  from proposal_id_smuggles_a_directive [OF run this] show ?thesis
    using run unfolding i_def [symmetric] by (auto simp: demo_apply_def demo_target)
qed

end
