(* ===== verification/App_Config.thy ===== *)
theory App_Config
  imports Admin_Guards Rule_Sets Fp_Proposals
begin

text \<open>
  The configuration file and what is made of it at start-up (\<open>config/app_config_file.go\<close>,
  \<open>config/server_tls.go\<close>, \<open>config/env.go\<close>): defaults, normalisation, validation, the settings
  with their limits, the refusal of weak keys.  The settings of the administration guards, of the
  rule files and of the tuner are the records of those theories.  Decoding JSON into a record that
  already holds the defaults, and loading a key pair, are parameters; \<open>log.Fatal\<close> is an error.
\<close>

subsection \<open>The file\<close>

record appServerTLSACMEConfig =
  am_Enabled :: bool
  am_Email :: string
  am_Domains :: "string list"
  am_CacheDir :: string
  am_Staging :: bool

record appServerTLSConfig =
  tl_Enabled :: bool
  tl_CertFile :: string
  tl_KeyFile :: string
  tl_MinVersion :: string
  tl_RedirectHTTP :: bool
  tl_HTTPRedirectAddr :: string
  tl_ACME :: appServerTLSACMEConfig

record appServerConfig =
  sc_ListenAddr :: string
  sc_ReadTimeoutSec :: int
  sc_ReadHeaderTimeoutSec :: int
  sc_WriteTimeoutSec :: int
  sc_IdleTimeoutSec :: int
  sc_MaxHeaderBytes :: int
  sc_MaxConcurrentRequests :: int
  sc_MaxConcurrentProxyRequests :: int
  sc_TLS :: appServerTLSConfig

record appRuntimeConfig =
  rc_GOMAXPROCS :: int
  rc_MemoryLimitMB :: int

record appAdminRateLimitConfig =
  ar_Enabled :: bool
  ar_RPS :: int
  ar_Burst :: int
  ar_StatusCode :: int
  ar_RetryAfterSeconds :: int

record appAdminConfig =
  ad_APIBasePath :: string
  ad_UIBasePath :: string
  ad_APIKeyPrimary :: string
  ad_APIKeySecondary :: string
  ad_APIAuthDisable :: bool
  ad_CORSAllowedOrigins :: "string list"
  ad_StrictOverride :: bool
  ad_AllowInsecureDefaults :: bool
  ad_ExternalMode :: string
  ad_TrustedCIDRs :: "string list"
  ad_TrustForwardedFor :: bool
  ad_RateLimit :: appAdminRateLimitConfig

record appPathsConfig =
  pa_ProxyConfigFile :: string
  pa_CacheStoreFile :: string
  pa_RulesFile :: string
  pa_BypassFile :: string
  pa_CountryBlockFile :: string
  pa_RateLimitFile :: string
  pa_BotDefenseFile :: string
  pa_SemanticFile :: string
  pa_NotificationFile :: string
  pa_IPReputationFile :: string
  pa_LogFile :: string
  pa_CRSSetupFile :: string
  pa_CRSRulesDir :: string
  pa_CRSDisabledFile :: string

record appProxyConfig =
  px_RollbackHistorySize :: int

record appCRSConfig =
  cr_Enable :: bool

record appFPTunerConfig =
  tn_Mode :: string
  tn_Endpoint :: string
  tn_APIKey :: string
  tn_Model :: string
  tn_TimeoutSec :: int
  tn_MockResponseFile :: string
  tn_RequireApproval :: bool
  tn_ApprovalTTLSec :: int
  tn_AuditFile :: string

record appStorageConfig =
  sg_Backend :: string
  sg_DBDriver :: string
  sg_DBDSN :: string
  sg_DBPath :: string
  sg_DBRetentionDays :: int
  sg_DBSyncIntervalSec :: int
  sg_FileRotateBytes :: int
  sg_FileMaxBytes :: int
  sg_FileRetentionDays :: int

record appTracingConfig =
  tr_Enabled :: bool
  tr_ServiceName :: string
  tr_OTLPEndpoint :: string
  tr_Insecure :: bool
  tr_SampleRatio :: rat

record appObservabilityConfig =
  ob_Tracing :: appTracingConfig

record appConfigFile =
  cf_Server :: appServerConfig
  cf_Runtime :: appRuntimeConfig
  cf_Admin :: appAdminConfig
  cf_Paths :: appPathsConfig
  cf_Proxy :: appProxyConfig
  cf_CRS :: appCRSConfig
  cf_FPTuner :: appFPTunerConfig
  cf_Storage :: appStorageConfig
  cf_Observability :: appObservabilityConfig

definition defaultServerTLSMinVersion :: string where "defaultServerTLSMinVersion = ''tls1.2''"

definition defaultAppConfigFile :: appConfigFile where
  "defaultAppConfigFile =
     \<lparr>cf_Server = \<lparr>sc_ListenAddr = '':9090'', sc_ReadTimeoutSec = 30, sc_ReadHeaderTimeoutSec = 5, sc_WriteTimeoutSec = 0,
        sc_IdleTimeoutSec = 120, sc_MaxHeaderBytes = 2 ^ 20, sc_MaxConcurrentRequests = 0, sc_MaxConcurrentProxyRequests = 0,
        sc_TLS = \<lparr>tl_Enabled = False, tl_CertFile = [], tl_KeyFile = [], tl_MinVersion = defaultServerTLSMinVersion, tl_RedirectHTTP = False,
          tl_HTTPRedirectAddr = [],
          tl_ACME = \<lparr>am_Enabled = False, am_Email = [], am_Domains = [], am_CacheDir = ''/var/lib/mamotama/acme'', am_Staging = False\<rparr>\<rparr>\<rparr>,
      cf_Runtime = \<lparr>rc_GOMAXPROCS = 0, rc_MemoryLimitMB = 0\<rparr>,
      cf_Admin = \<lparr>ad_APIBasePath = ''/mamotama-api'', ad_UIBasePath = ''/mamotama-ui'', ad_APIKeyPrimary = ''dev-only-change-this-key-please'',
        ad_APIKeySecondary = [], ad_APIAuthDisable = False, ad_CORSAllowedOrigins = [], ad_StrictOverride = False,
        ad_AllowInsecureDefaults = False, ad_ExternalMode = ''full_external'',
        ad_TrustedCIDRs = [''127.0.0.1/32'', ''::1/128'', ''10.0.0.0/8'', ''172.16.0.0/12'', ''192.168.0.0/16''], ad_TrustForwardedFor = False,
        ad_RateLimit = \<lparr>ar_Enabled = False, ar_RPS = 0, ar_Burst = 0, ar_StatusCode = 429, ar_RetryAfterSeconds = 1\<rparr>\<rparr>,
      cf_Paths = \<lparr>pa_ProxyConfigFile = ''conf/proxy.json'', pa_CacheStoreFile = ''conf/cache-store.json'', pa_RulesFile = ''rules/mamotama.conf'',
        pa_BypassFile = ''conf/waf.bypass'', pa_CountryBlockFile = ''conf/country-block.conf'', pa_RateLimitFile = ''conf/rate-limit.conf'',
        pa_BotDefenseFile = ''conf/bot-defense.conf'', pa_SemanticFile = ''conf/semantic.conf'', pa_NotificationFile = ''conf/notifications.conf'',
        pa_IPReputationFile = ''conf/ip-reputation.conf'', pa_LogFile = [], pa_CRSSetupFile = ''rules/crs/crs-setup.conf'',
        pa_CRSRulesDir = ''rules/crs/rules'', pa_CRSDisabledFile = ''conf/crs-disabled.conf''\<rparr>,
      cf_Proxy = \<lparr>px_RollbackHistorySize = 8\<rparr>,
      cf_CRS = \<lparr>cr_Enable = True\<rparr>,
      cf_FPTuner = \<lparr>tn_Mode = ''mock'', tn_Endpoint = [], tn_APIKey = [], tn_Model = [], tn_TimeoutSec = 15,
        tn_MockResponseFile = ''conf/fp-tuner-mock-response.json'', tn_RequireApproval = True, tn_ApprovalTTLSec = 600,
        tn_AuditFile = ''logs/coraza/fp-tuner-audit.ndjson''\<rparr>,
      cf_Storage = \<lparr>sg_Backend = ''file'', sg_DBDriver = ''sqlite'', sg_DBDSN = [], sg_DBPath = ''logs/coraza/mamotama.db'', sg_DBRetentionDays = 30,
        sg_DBSyncIntervalSec = 0, sg_FileRotateBytes = 8 * 1024 * 1024, sg_FileMaxBytes = 256 * 1024 * 1024, sg_FileRetentionDays = 7\<rparr>,
      cf_Observability = \<lparr>ob_Tracing = \<lparr>tr_Enabled = False, tr_ServiceName = ''mamotama-proxy'', tr_OTLPEndpoint = [], tr_Insecure = False,
        tr_SampleRatio = 1\<rparr>\<rparr>\<rparr>"

subsection \<open>Normalisation\<close>

definition normalizeServerTLSMinVersion :: "string \<Rightarrow> string" where
  "normalizeServerTLSMinVersion v =
     (let s = ToLower (TrimSpace v) in
      if s \<in> set [[], ''tls1.2'', ''1.2'', ''tls12'', ''1_2''] then defaultServerTLSMinVersion
      else if s \<in> set [''tls1.3'', ''1.3'', ''tls13'', ''1_3''] then ''tls1.3''
      else s)"

definition normalizeAppServerTLSConfig :: "appServerTLSConfig \<Rightarrow> appServerTLSConfig" where
  "normalizeAppServerTLSConfig t =
     t\<lparr>tl_CertFile := TrimSpace (tl_CertFile t), tl_KeyFile := TrimSpace (tl_KeyFile t),
       tl_MinVersion := normalizeServerTLSMinVersion (tl_MinVersion t), tl_HTTPRedirectAddr := TrimSpace (tl_HTTPRedirectAddr t),
       tl_ACME := (tl_ACME t)\<lparr>am_Email := TrimSpace (am_Email (tl_ACME t)), am_CacheDir := TrimSpace (am_CacheDir (tl_ACME t)),
         am_Domains := map TrimSpace (am_Domains (tl_ACME t))\<rparr>\<rparr>"

definition normalize_paths :: "appPathsConfig \<Rightarrow> appPathsConfig" where
  "normalize_paths p =
     \<lparr>pa_ProxyConfigFile = TrimSpace (pa_ProxyConfigFile p), pa_CacheStoreFile = TrimSpace (pa_CacheStoreFile p),
      pa_RulesFile = TrimSpace (pa_RulesFile p), pa_BypassFile = TrimSpace (pa_BypassFile p),
      pa_CountryBlockFile = TrimSpace (pa_CountryBlockFile p), pa_RateLimitFile = TrimSpace (pa_RateLimitFile p),
      pa_BotDefenseFile = TrimSpace (pa_BotDefenseFile p), pa_SemanticFile = TrimSpace (pa_SemanticFile p),
      pa_NotificationFile = TrimSpace (pa_NotificationFile p), pa_IPReputationFile = TrimSpace (pa_IPReputationFile p),
      pa_LogFile = TrimSpace (pa_LogFile p), pa_CRSSetupFile = TrimSpace (pa_CRSSetupFile p), pa_CRSRulesDir = TrimSpace (pa_CRSRulesDir p),
      pa_CRSDisabledFile = TrimSpace (pa_CRSDisabledFile p)\<rparr>"

definition normalizeAppConfigFile :: "appConfigFile \<Rightarrow> appConfigFile" where
  "normalizeAppConfigFile c =
     (let sv = cf_Server c; ad = cf_Admin c; tn = cf_FPTuner c; sg = cf_Storage c; tr = ob_Tracing (cf_Observability c) in
      c\<lparr>cf_Server := sv\<lparr>sc_ListenAddr := TrimSpace (sc_ListenAddr sv), sc_TLS := normalizeAppServerTLSConfig (sc_TLS sv)\<rparr>,
        cf_Admin := ad\<lparr>ad_APIBasePath := TrimSpace (ad_APIBasePath ad), ad_UIBasePath := TrimSpace (ad_UIBasePath ad),
          ad_APIKeyPrimary := TrimSpace (ad_APIKeyPrimary ad), ad_APIKeySecondary := TrimSpace (ad_APIKeySecondary ad),
          ad_ExternalMode := ToLower (TrimSpace (ad_ExternalMode ad))\<rparr>,
        cf_FPTuner := tn\<lparr>tn_Mode := ToLower (TrimSpace (tn_Mode tn)), tn_Endpoint := TrimSpace (tn_Endpoint tn),
          tn_APIKey := TrimSpace (tn_APIKey tn), tn_Model := TrimSpace (tn_Model tn)\<rparr>,
        cf_Paths := normalize_paths (cf_Paths c),
        cf_Storage := sg\<lparr>sg_Backend := ToLower (TrimSpace (sg_Backend sg)), sg_DBDriver := ToLower (TrimSpace (sg_DBDriver sg)),
          sg_DBDSN := TrimSpace (sg_DBDSN sg), sg_DBPath := TrimSpace (sg_DBPath sg)\<rparr>,
        cf_Observability := \<lparr>ob_Tracing = tr\<lparr>tr_ServiceName := TrimSpace (tr_ServiceName tr), tr_OTLPEndpoint := TrimSpace (tr_OTLPEndpoint tr)\<rparr>\<rparr>\<rparr>)"

subsection \<open>Parsing of single values\<close>

definition parseIntDefault :: "string \<Rightarrow> int \<Rightarrow> int" where
  "parseIntDefault v d =
     (let s = TrimSpace v in if s = [] then d else case Atoi s of None \<Rightarrow> d | Some n \<Rightarrow> n)"

definition parseStorageBackend :: "string \<Rightarrow> bool \<Rightarrow> string" where
  "parseStorageBackend v legacyDBEnabled =
     (let s = ToLower (TrimSpace v) in
      if s \<in> set [''file'', ''db''] then s
      else if s = [] then (if legacyDBEnabled then ''db'' else ''file'')
      else ''file'')"

definition parseDBDriver :: "string \<Rightarrow> string" where
  "parseDBDriver v = (let s = ToLower (TrimSpace v) in if s \<in> set [''sqlite'', ''mysql''] then s else ''sqlite'')"

definition parseDBSyncIntervalSec :: "string \<Rightarrow> int" where
  "parseDBSyncIntervalSec v = (let n = parseIntDefault v 0 in if n < 0 then 0 else if 3600 < n then 3600 else n)"

definition parseListenAddr :: "string \<Rightarrow> string" where
  "parseListenAddr v =
     (let s = TrimSpace v in
      if s = [] then '':9090''
      else if HasPrefix s '':'' then s
      else if Atoi s \<noteq> None then '':'' @ s
      else s)"

definition parseProxyRollbackHistorySize :: "string \<Rightarrow> int" where
  "parseProxyRollbackHistorySize v = (let n = parseIntDefault v 8 in if n < 1 then 1 else if 64 < n then 64 else n)"

definition parseServerTimeoutSec :: "string \<Rightarrow> int \<Rightarrow> bool \<Rightarrow> int" where
  "parseServerTimeoutSec v def allowZero =
     (let n = parseIntDefault v def in
      if n < 0 then def else if n = 0 \<and> \<not> allowZero then def else if 3600 < n then 3600 else n)"

definition parseServerMaxHeaderBytes :: "string \<Rightarrow> int" where
  "parseServerMaxHeaderBytes v =
     (let n = parseIntDefault v (2 ^ 20) in if n < 1024 then 1024 else if 16 * 2 ^ 20 < n then 16 * 2 ^ 20 else n)"

definition parseServerConcurrency :: "string \<Rightarrow> int" where
  "parseServerConcurrency v = (let n = parseIntDefault v 0 in if n < 0 then 0 else if 200000 < n then 200000 else n)"

definition parseRuntimeGOMAXPROCS :: "string \<Rightarrow> int" where
  "parseRuntimeGOMAXPROCS v = (let n = parseIntDefault v 0 in if n < 0 then 0 else if 4096 < n then 4096 else n)"

definition parseRuntimeMemoryLimitMB :: "string \<Rightarrow> int" where
  "parseRuntimeMemoryLimitMB v = (let n = parseIntDefault v 0 in if n < 0 then 0 else if 1024 * 1024 < n then 1024 * 1024 else n)"

subsection \<open>Validation\<close>

type_synonym key_pair = "string \<Rightarrow> string \<Rightarrow> unit result"    \<comment> \<open>\<open>tls.LoadX509KeyPair\<close>\<close>

definition parseServerTLSMinVersion :: "string \<Rightarrow> int result" where
  \<comment> \<open>\<open>tls.VersionTLS12\<close> is 0x0303\<close>
  "parseServerTLSMinVersion v =
     (let s = normalizeServerTLSMinVersion v in
      if s = defaultServerTLSMinVersion then Inr 771
      else if s = ''tls1.3'' then Inr 772
      else err ''must be tls1.2 or tls1.3'' [])"

definition BuildServerTLSConfig :: "key_pair \<Rightarrow> string \<Rightarrow> string \<Rightarrow> string \<Rightarrow> int result" where
  \<comment> \<open>the least version\<close>
  "BuildServerTLSConfig load certFile keyFile minVersion =
     bindR (wrapR ''min_version %w'' [] (parseServerTLSMinVersion minVersion)) (\<lambda>version.
       seqR (wrapR ''load certificate/key pair: %w'' [] (load (TrimSpace certFile) (TrimSpace keyFile))) (Inr version))"

definition validateAppServerTLSConfig :: "key_pair \<Rightarrow> appServerConfig \<Rightarrow> unit result" where
  "validateAppServerTLSConfig load server =
     (let t = sc_TLS server; a = tl_ACME t in
      if \<not> tl_Enabled t
      then seqR (guardR (tl_RedirectHTTP t) (Errorf ''server.tls.redirect_http requires server.tls.enabled=true'' []))
             (bindR (wrapR ''server.tls.min_version %w'' [] (parseServerTLSMinVersion (tl_MinVersion t))) (\<lambda>_. Inr ()))
      else seqR
        (if am_Enabled a
         then seqR (guardR (tl_CertFile t \<noteq> [] \<or> tl_KeyFile t \<noteq> [])
                (Errorf ''server.tls.acme.enabled cannot be combined with server.tls.cert_file or server.tls.key_file'' []))
             (seqR (guardR (TrimSpace (am_Email a) = []) (Errorf ''server.tls.acme.email is required when server.tls.acme.enabled=true'' []))
             (seqR (guardR (am_Domains a = []) (Errorf ''server.tls.acme.domains is required when server.tls.acme.enabled=true'' []))
               (guardR (TrimSpace (am_CacheDir a) = []) (Errorf ''server.tls.acme.cache_dir is required when server.tls.acme.enabled=true'' []))))
         else seqR (guardR (tl_CertFile t = [] \<or> tl_KeyFile t = [])
                (Errorf ''server.tls.cert_file and server.tls.key_file are required when server.tls.enabled=true'' []))
             (bindR (wrapR ''server.tls %w'' [] (BuildServerTLSConfig load (tl_CertFile t) (tl_KeyFile t) (tl_MinVersion t))) (\<lambda>_. Inr ())))
        (if tl_RedirectHTTP t
         then seqR (guardR (TrimSpace (tl_HTTPRedirectAddr t) = [])
                (Errorf ''server.tls.http_redirect_addr is required when server.tls.redirect_http=true'' []))
              (guardR (parseListenAddr (tl_HTTPRedirectAddr t) = parseListenAddr (sc_ListenAddr server))
                (Errorf ''server.tls.http_redirect_addr must be different from server.listen_addr'' []))
         else Inr ()))"

definition external_modes :: "string list" where
  "external_modes = [''deny_external'', ''api_only_external'', ''full_external'']"

definition require :: "bool \<Rightarrow> string \<Rightarrow> unit result" where
  "require ok msg = guardR (\<not> ok) (Errorf msg [])"

lemma require_Inr [simp]: "require ok msg = Inr u \<longleftrightarrow> ok"
  by (simp add: require_def)

definition validate_admin :: "appAdminConfig \<Rightarrow> unit result" where
  "validate_admin ad =
     seqR (require (ad_APIBasePath ad \<noteq> []) ''admin.api_base_path is required'')
    (seqR (require (HasPrefix (ad_APIBasePath ad) ''/'') (''admin.api_base_path must start with '' @ tick @ ''/'' @ tick))
    (seqR (require (ad_APIBasePath ad \<noteq> ''/'') (''admin.api_base_path cannot be '' @ tick @ ''/'' @ tick))
    (seqR (require (ad_UIBasePath ad \<noteq> []) ''admin.ui_base_path is required'')
    (seqR (require (HasPrefix (ad_UIBasePath ad) ''/'') (''admin.ui_base_path must start with '' @ tick @ ''/'' @ tick))
    (seqR (require (ad_UIBasePath ad \<noteq> ''/'') (''admin.ui_base_path cannot be '' @ tick @ ''/'' @ tick))
    (seqR (require (ad_APIBasePath ad \<noteq> ad_UIBasePath ad) ''admin.api_base_path and admin.ui_base_path must be different'')
    (seqR (require (ad_ExternalMode ad = [] \<or> ad_ExternalMode ad \<in> set external_modes)
             ''admin.external_mode must be one of: deny_external, api_only_external, full_external'')
    (seqR (eachiR (\<lambda>i raw. bindR (wrapR ''admin.trusted_cidrs[%d] invalid CIDR: %w'' [Itoa (int i)] (ParsePrefix (TrimSpace raw))) (\<lambda>_. Inr ()))
             0 (ad_TrustedCIDRs ad))
    (let rl = ad_RateLimit ad in
     seqR (require (0 \<le> ar_RPS rl \<and> 0 \<le> ar_Burst rl \<and> 0 \<le> ar_RetryAfterSeconds rl) ''admin.rate_limit values must be >= 0'')
     (if \<not> ar_Enabled rl then Inr ()
      else seqR (require (0 < ar_RPS rl) ''admin.rate_limit.rps must be > 0 when enabled=true'')
          (seqR (require (0 < ar_Burst rl) ''admin.rate_limit.burst must be > 0 when enabled=true'')
                (require (400 \<le> ar_StatusCode rl \<and> ar_StatusCode rl \<le> 599) ''admin.rate_limit.status_code must be between 400 and 599''))))))))))))"

definition validateAppConfigFile :: "key_pair \<Rightarrow> appConfigFile \<Rightarrow> unit result" where
  "validateAppConfigFile load c =
     (let sv = cf_Server c; pa = cf_Paths c; sg = cf_Storage c; tn = cf_FPTuner c; tr = ob_Tracing (cf_Observability c);
          rt = cf_Runtime c in
     seqR (require (sc_ListenAddr sv \<noteq> []) ''server.listen_addr is required'')
    (seqR (validate_admin (cf_Admin c))
    (seqR (require (pa_ProxyConfigFile pa \<noteq> []) ''paths.proxy_config_file is required'')
    (seqR (require (pa_CacheStoreFile pa \<noteq> []) ''paths.cache_store_file is required'')
    (seqR (require (pa_RulesFile pa \<noteq> []) ''paths.rules_file is required'')
    (seqR (require (pa_IPReputationFile pa \<noteq> []) ''paths.ip_reputation_file is required'')
    (seqR (require (1 \<le> px_RollbackHistorySize (cf_Proxy c) \<and> px_RollbackHistorySize (cf_Proxy c) \<le> 64)
             ''proxy.rollback_history_size must be between 1 and 64'')
    (seqR (require (0 \<le> sc_ReadTimeoutSec sv \<and> 0 \<le> sc_ReadHeaderTimeoutSec sv \<and> 0 \<le> sc_WriteTimeoutSec sv \<and> 0 \<le> sc_IdleTimeoutSec sv)
             ''server timeout values must be >= 0'')
    (seqR (require (0 \<le> sc_MaxHeaderBytes sv \<and> 0 \<le> sc_MaxConcurrentRequests sv \<and> 0 \<le> sc_MaxConcurrentProxyRequests sv)
             ''server resource limits must be >= 0'')
    (seqR (validateAppServerTLSConfig load sv)
    (seqR (require (0 \<le> rc_GOMAXPROCS rt \<and> 0 \<le> rc_MemoryLimitMB rt) ''runtime resource limits must be >= 0'')
    (seqR (require (sg_Backend sg \<in> set [''file'', ''db'']) ''storage.backend must be one of: file, db'')
    (seqR (require (sg_DBDriver sg \<in> set [''sqlite'', ''mysql'']) ''storage.db_driver must be one of: sqlite, mysql'')
    (seqR (require (0 \<le> sg_DBRetentionDays sg) ''storage.db_retention_days must be >= 0'')
    (seqR (require (0 \<le> sg_DBSyncIntervalSec sg) ''storage.db_sync_interval_sec must be >= 0'')
    (seqR (require (0 \<le> sg_FileRotateBytes sg \<and> 0 \<le> sg_FileMaxBytes sg \<and> 0 \<le> sg_FileRetentionDays sg) ''storage.file_* values must be >= 0'')
    (seqR (require (tn_Mode tn \<in> set [''mock'', ''http'']) ''fp_tuner.mode must be one of: mock, http'')
    (seqR (require (1 \<le> tn_TimeoutSec tn \<and> tn_TimeoutSec tn \<le> 300) ''fp_tuner.timeout_sec must be between 1 and 300'')
    (seqR (require (10 \<le> tn_ApprovalTTLSec tn \<and> tn_ApprovalTTLSec tn \<le> 86400) ''fp_tuner.approval_ttl_sec must be between 10 and 86400'')
    (seqR (require (0 \<le> tr_SampleRatio tr \<and> tr_SampleRatio tr \<le> 1) ''observability.tracing.sample_ratio must be between 0 and 1'')
    (if \<not> tr_Enabled tr then Inr ()
     else seqR (require (tr_OTLPEndpoint tr \<noteq> []) ''observability.tracing.otlp_endpoint is required when enabled=true'')
               (require (tr_ServiceName tr \<noteq> []) ''observability.tracing.service_name is required when enabled=true''))))))))))))))))))))))"

subsection \<open>The settings\<close>

record server_settings =
  se_ListenAddr :: string
  se_ReadTimeout :: int                 \<comment> \<open>nanoseconds\<close>
  se_ReadHeaderTimeout :: int
  se_WriteTimeout :: int
  se_IdleTimeout :: int
  se_MaxHeaderBytes :: int
  se_MaxConcurrentReqs :: int
  se_MaxConcurrentProxy :: int
  se_TLS :: appServerTLSConfig
  se_GOMAXPROCS :: int
  se_MemoryLimitMB :: int

record path_settings =
  ps_ProxyConfigFile :: string
  ps_CacheStoreFile :: string
  ps_BypassFile :: string
  ps_CountryBlockFile :: string
  ps_RateLimitFile :: string
  ps_BotDefenseFile :: string
  ps_SemanticFile :: string
  ps_NotificationFile :: string
  ps_IPReputationFile :: string
  ps_LogFile :: string

record storage_settings =
  ss_Backend :: string
  ss_DBEnabled :: bool
  ss_DBDriver :: string
  ss_DBDSN :: string
  ss_DBPath :: string
  ss_DBRetentionDays :: int
  ss_DBSyncInterval :: int
  ss_FileRotateBytes :: int
  ss_FileMaxBytes :: int
  ss_FileRetention :: int

record app_settings =
  ap_Server :: server_settings
  ap_Paths :: path_settings
  ap_ProxyRollbackMax :: int
  ap_Rules :: rule_settings
  ap_StrictOverride :: bool
  ap_APIBasePath :: string
  ap_UIBasePath :: string
  ap_CORSOrigins :: "string list"
  ap_Admin :: admin_settings
  ap_AllowInsecureDefaults :: bool
  ap_Tuner :: fp_settings
  ap_Storage :: storage_settings
  ap_Tracing :: appTracingConfig

definition seconds :: "int \<Rightarrow> int" where "seconds n = i64 (n * 10 ^ 9)"

definition trimmed_or :: "string \<Rightarrow> string \<Rightarrow> string" where
  "trimmed_or v d = (if TrimSpace v = [] then d else TrimSpace v)"

definition apply_server :: "appServerConfig \<Rightarrow> appRuntimeConfig \<Rightarrow> server_settings" where
  "apply_server sv rt =
     (let t = sc_TLS sv; a = tl_ACME t in
      \<lparr>se_ListenAddr = parseListenAddr (sc_ListenAddr sv),
       se_ReadTimeout = seconds (parseServerTimeoutSec (Itoa (sc_ReadTimeoutSec sv)) 30 False),
       se_ReadHeaderTimeout = seconds (parseServerTimeoutSec (Itoa (sc_ReadHeaderTimeoutSec sv)) 5 False),
       se_WriteTimeout = seconds (parseServerTimeoutSec (Itoa (sc_WriteTimeoutSec sv)) 0 True),
       se_IdleTimeout = seconds (parseServerTimeoutSec (Itoa (sc_IdleTimeoutSec sv)) 120 False),
       se_MaxHeaderBytes = parseServerMaxHeaderBytes (Itoa (sc_MaxHeaderBytes sv)),
       se_MaxConcurrentReqs = parseServerConcurrency (Itoa (sc_MaxConcurrentRequests sv)),
       se_MaxConcurrentProxy = parseServerConcurrency (Itoa (sc_MaxConcurrentProxyRequests sv)),
       se_TLS = t\<lparr>tl_CertFile := TrimSpace (tl_CertFile t), tl_KeyFile := TrimSpace (tl_KeyFile t),
         tl_MinVersion := normalizeServerTLSMinVersion (tl_MinVersion t),
         tl_HTTPRedirectAddr := (if TrimSpace (tl_HTTPRedirectAddr t) = [] then [] else parseListenAddr (TrimSpace (tl_HTTPRedirectAddr t))),
         tl_ACME := a\<lparr>am_Email := TrimSpace (am_Email a), am_CacheDir := TrimSpace (am_CacheDir a)\<rparr>\<rparr>,
       se_GOMAXPROCS = parseRuntimeGOMAXPROCS (Itoa (rc_GOMAXPROCS rt)),
       se_MemoryLimitMB = parseRuntimeMemoryLimitMB (Itoa (rc_MemoryLimitMB rt))\<rparr>)"

definition apply_paths :: "appPathsConfig \<Rightarrow> path_settings" where
  "apply_paths p =
     \<lparr>ps_ProxyConfigFile = trimmed_or (pa_ProxyConfigFile p) ''conf/proxy.json'',
      ps_CacheStoreFile = trimmed_or (pa_CacheStoreFile p) ''conf/cache-store.json'',
      ps_BypassFile = trimmed_or (pa_BypassFile p) ''conf/waf.bypass'',
      ps_CountryBlockFile = trimmed_or (pa_CountryBlockFile p) ''conf/country-block.conf'',
      ps_RateLimitFile = trimmed_or (pa_RateLimitFile p) ''conf/rate-limit.conf'',
      ps_BotDefenseFile = trimmed_or (pa_BotDefenseFile p) ''conf/bot-defense.conf'',
      ps_SemanticFile = trimmed_or (pa_SemanticFile p) ''conf/semantic.conf'',
      ps_NotificationFile = trimmed_or (pa_NotificationFile p) ''conf/notifications.conf'',
      ps_IPReputationFile = trimmed_or (pa_IPReputationFile p) ''conf/ip-reputation.conf'',
      ps_LogFile = TrimSpace (pa_LogFile p)\<rparr>"

definition apply_rules :: "appPathsConfig \<Rightarrow> appCRSConfig \<Rightarrow> rule_settings" where
  "apply_rules p crs =
     \<lparr>rs_RulesFile = trimmed_or (pa_RulesFile p) ''rules/mamotama.conf'', rs_CRSEnable = cr_Enable crs,
      rs_CRSSetupFile = trimmed_or (pa_CRSSetupFile p) ''rules/crs/crs-setup.conf'',
      rs_CRSRulesDir = trimmed_or (pa_CRSRulesDir p) ''rules/crs/rules'',
      rs_CRSDisabledFile = trimmed_or (pa_CRSDisabledFile p) ''conf/crs-disabled.conf''\<rparr>"

definition apply_admin :: "appAdminConfig \<Rightarrow> admin_settings" where
  "apply_admin ad =
     (let rl = ad_RateLimit ad in
      \<lparr>as_ExternalMode = TrimSpace (ad_ExternalMode ad), as_TrustedCIDRs = ad_TrustedCIDRs ad,
       as_TrustForwardedFor = ad_TrustForwardedFor ad, as_RateEnabled = ar_Enabled rl, as_RPS = ar_RPS rl, as_Burst = ar_Burst rl,
       as_StatusCode = ar_StatusCode rl, as_RetryAfter = ar_RetryAfterSeconds rl, as_AuthDisable = ad_APIAuthDisable ad,
       as_KeyPrimary = TrimSpace (ad_APIKeyPrimary ad), as_KeySecondary = TrimSpace (ad_APIKeySecondary ad)\<rparr>)"

definition limited_to :: "int \<Rightarrow> int \<Rightarrow> int \<Rightarrow> int \<Rightarrow> int" where
  "limited_to lo hi d n = (if n < lo \<or> hi < n then d else n)"

definition apply_tuner :: "appFPTunerConfig \<Rightarrow> fp_settings" where
  "apply_tuner tn =
     \<lparr>fs_Mode = (let m = ToLower (TrimSpace (tn_Mode tn)) in if m = [] then ''mock'' else m), fs_Endpoint = TrimSpace (tn_Endpoint tn),
      fs_APIKey = TrimSpace (tn_APIKey tn), fs_Model = TrimSpace (tn_Model tn), fs_Timeout = seconds (limited_to 1 300 15 (tn_TimeoutSec tn)),
      fs_MockResponseFile = trimmed_or (tn_MockResponseFile tn) ''conf/fp-tuner-mock-response.json'',
      fs_RequireApproval = tn_RequireApproval tn, fs_ApprovalTTL = seconds (limited_to 10 86400 600 (tn_ApprovalTTLSec tn)),
      fs_AuditFile = trimmed_or (tn_AuditFile tn) ''logs/coraza/fp-tuner-audit.ndjson''\<rparr>"

definition apply_storage :: "appStorageConfig \<Rightarrow> storage_settings" where
  "apply_storage sg =
     (let backend = parseStorageBackend (sg_Backend sg) False; days = sg_DBRetentionDays sg in
      \<lparr>ss_Backend = backend, ss_DBEnabled = (backend = ''db''), ss_DBDriver = parseDBDriver (sg_DBDriver sg),
       ss_DBDSN = TrimSpace (sg_DBDSN sg), ss_DBPath = trimmed_or (sg_DBPath sg) ''logs/coraza/mamotama.db'',
       ss_DBRetentionDays = (if days < 0 then 0 else if 3650 < days then 3650 else days),
       ss_DBSyncInterval = seconds (parseDBSyncIntervalSec (Itoa (sg_DBSyncIntervalSec sg))),
       ss_FileRotateBytes = sg_FileRotateBytes sg, ss_FileMaxBytes = sg_FileMaxBytes sg,
       ss_FileRetention = i64 (i64 (sg_FileRetentionDays sg * 24) * (3600 * 10 ^ 9))\<rparr>)"

definition applyAppConfig :: "appConfigFile \<Rightarrow> app_settings result" where
  "applyAppConfig c =
     (let ad = cf_Admin c; tr = ob_Tracing (cf_Observability c);
          base0 = trimmed_or (ad_APIBasePath ad) ''/mamotama-api'';
          base = (if HasPrefix base0 ''/'' then base0 else ''/'' @ base0)
      in if base = ''/'' then err (''api_base_path cannot be root path '' @ tick @ ''/'' @ tick) []
         else Inr \<lparr>ap_Server = apply_server (cf_Server c) (cf_Runtime c), ap_Paths = apply_paths (cf_Paths c),
           ap_ProxyRollbackMax = parseProxyRollbackHistorySize (Itoa (px_RollbackHistorySize (cf_Proxy c))),
           ap_Rules = apply_rules (cf_Paths c) (cf_CRS c), ap_StrictOverride = ad_StrictOverride ad, ap_APIBasePath = base,
           ap_UIBasePath = trimmed_or (ad_UIBasePath ad) ''/mamotama-ui'',
           ap_CORSOrigins = filter (\<lambda>x. x \<noteq> []) (map TrimSpace (ad_CORSAllowedOrigins ad)),
           ap_Admin = apply_admin ad, ap_AllowInsecureDefaults = ad_AllowInsecureDefaults ad, ap_Tuner = apply_tuner (cf_FPTuner c),
           ap_Storage = apply_storage (cf_Storage c),
           ap_Tracing = tr\<lparr>tr_ServiceName := TrimSpace (tr_ServiceName tr), tr_OTLPEndpoint := TrimSpace (tr_OTLPEndpoint tr)\<rparr>\<rparr>)"

subsection \<open>Keys\<close>

definition weak_keys :: "string list" where
  "weak_keys = [''change-me'', ''changeme'', ''replace-with-long-random-api-key'', ''replace-me'', ''example'', ''test'']"

definition isWeakAPIKey :: "string \<Rightarrow> bool" where
  "isWeakAPIKey v =
     (let trimmed = TrimSpace v; s = ToLower trimmed in
      s = [] \<or> length trimmed < 16 \<or> s \<in> set weak_keys)"

definition enforceSecureDefaults :: "app_settings \<Rightarrow> unit result" where
  "enforceSecureDefaults s =
     (let a = ap_Admin s in
      if ap_AllowInsecureDefaults s then Inr ()
      else seqR (require (\<not> as_AuthDisable a)
             ''[SECURITY] admin.api_auth_disable is enabled; set admin.allow_insecure_defaults=true only for local testing'')
          (seqR (require (\<not> isWeakAPIKey (as_KeyPrimary a)) ''[SECURITY] admin.api_key_primary is weak; set a random key with 16+ chars'')
            (require (as_KeySecondary a = [] \<or> \<not> isWeakAPIKey (as_KeySecondary a))
             ''[SECURITY] admin.api_key_secondary is weak; set a random key with 16+ chars or leave it empty'')))"

subsection \<open>Start-up\<close>

record config_env =
  ce_readFile :: "string \<Rightarrow> string result"
  ce_decode :: "string \<Rightarrow> appConfigFile \<Rightarrow> appConfigFile result"     \<comment> \<open>strict \<open>json.Decoder\<close> into a record with the defaults\<close>
  ce_keyPair :: key_pair
  ce_configFile :: string                                          \<comment> \<open>the environment variable \<open>WAF_CONFIG_FILE\<close>\<close>

definition loadAppConfigFile :: "config_env \<Rightarrow> string \<Rightarrow> appConfigFile result" where
  "loadAppConfigFile env path =
     bindR (wrapR ''open: %w'' [] (ce_readFile env path)) (\<lambda>raw.
     bindR (wrapR ''decode json: %w'' [] (ce_decode env raw defaultAppConfigFile)) (\<lambda>cfg.
     let c = normalizeAppConfigFile cfg in
     seqR (validateAppConfigFile (ce_keyPair env) c) (Inr c)))"

definition LoadEnv :: "config_env \<Rightarrow> app_settings result" where
  "LoadEnv env =
     (let path = (if TrimSpace (ce_configFile env) = [] then ''conf/config.json'' else TrimSpace (ce_configFile env)) in
      bindR (wrapR ''[CONFIG][FATAL] load %s: %v'' [path] (loadAppConfigFile env path)) (\<lambda>c.
      bindR (applyAppConfig c) (\<lambda>s.
      seqR (enforceSecureDefaults s) (Inr s))))"

end
