(* ===== verification/App_Config_Correct.thy ===== *)
theory App_Config_Correct
  imports App_Config Admin_Guards_Correct
begin

text \<open>
  Correctness of the configuration: what start-up guarantees of the settings it accepts, that the
  administration guards start with them, and what it accepts although it should not.
\<close>

lemma Itoa_trimmed: "TrimSpace (Itoa i) = Itoa i"
proof (rule TrimSpace_solid)
  have d: "c \<in> set (digits_of n) \<Longrightarrow> c \<notin> set (concat space_seqs)" for c n by (rule is_digit_solid) (rule digits_of_digit)
  have m: "CHR ''-'' \<notin> set (concat space_seqs)" by code_simp
  show "hd (Itoa i) \<notin> set (concat space_seqs) \<and> last (Itoa i) \<notin> set (concat space_seqs)"
    using d [OF hd_in_set [OF digits_of_nonempty]] d [OF last_in_set [OF digits_of_nonempty]] m by (simp add: Itoa_def)
qed

lemma Atoi_Itoa_negative: "t < 0 \<Longrightarrow> - (2 ^ 63) \<le> t \<Longrightarrow> Atoi (Itoa t) = Some t"
  using digits_val_digits_of [of "nat (- t)"] by (auto simp: Atoi_def Itoa_def Let_def list_all_iff digits_of_digit)

lemma parse_Itoa: "- (2 ^ 63) \<le> n \<Longrightarrow> n < 2 ^ 63 \<Longrightarrow> parseIntDefault (Itoa n) d = n"
  using Atoi_Itoa [of n] Atoi_Itoa_negative [of n]
  by (cases "n < 0") (auto simp: parseIntDefault_def Itoa_trimmed Let_def, auto simp: Itoa_def)

lemma seconds_small: "0 \<le> n \<Longrightarrow> n \<le> 86400 \<Longrightarrow> seconds n = n * 10 ^ 9"
  unfolding seconds_def by (rule i64_id) auto

subsection \<open>What start-up accepts\<close>

lemma accepted_file:
  assumes "loadAppConfigFile env path = Inr c"
  obtains raw c0 where "ce_readFile env path = Inr raw" "ce_decode env raw defaultAppConfigFile = Inr c0" "c = normalizeAppConfigFile c0"
    "validateAppConfigFile (ce_keyPair env) c = Inr ()"
  using assms by (auto simp: loadAppConfigFile_def bindR_Inr Let_def)

lemma accepted_settings:
  assumes "LoadEnv env = Inr s"
  obtains c c0 where "c = normalizeAppConfigFile c0" "validateAppConfigFile (ce_keyPair env) c = Inr ()" "applyAppConfig c = Inr s"
    "enforceSecureDefaults s = Inr ()"
  using assms by (auto simp: LoadEnv_def bindR_Inr Let_def elim!: accepted_file)

text \<open>What the checks of a file say.\<close>

lemma valid_parts:
  assumes "validateAppConfigFile load c = Inr ()"
  shows "validate_admin (cf_Admin c) = Inr ()"
    "1 \<le> px_RollbackHistorySize (cf_Proxy c) \<and> px_RollbackHistorySize (cf_Proxy c) \<le> 64"
    "pa_ProxyConfigFile (cf_Paths c) \<noteq> [] \<and> pa_CacheStoreFile (cf_Paths c) \<noteq> [] \<and> pa_RulesFile (cf_Paths c) \<noteq> [] \<and> pa_IPReputationFile (cf_Paths c) \<noteq> []"
    "tn_Mode (cf_FPTuner c) \<in> set [''mock'', ''http'']"
    "1 \<le> tn_TimeoutSec (cf_FPTuner c) \<and> tn_TimeoutSec (cf_FPTuner c) \<le> 300"
    "10 \<le> tn_ApprovalTTLSec (cf_FPTuner c) \<and> tn_ApprovalTTLSec (cf_FPTuner c) \<le> 86400"
    "sg_Backend (cf_Storage c) \<in> set [''file'', ''db'']" "sg_DBDriver (cf_Storage c) \<in> set [''sqlite'', ''mysql'']"
    "validateAppServerTLSConfig load (cf_Server c) = Inr ()"
  using assms unfolding validateAppConfigFile_def Let_def seqR_Inr require_Inr by blast+

lemma valid_admin:
  assumes "validate_admin ad = Inr ()"
  shows "ad_APIBasePath ad \<noteq> [] \<and> HasPrefix (ad_APIBasePath ad) ''/'' \<and> ad_APIBasePath ad \<noteq> ''/''"
    "ad_ExternalMode ad = [] \<or> ad_ExternalMode ad \<in> set external_modes"
    "\<forall>raw\<in>set (ad_TrustedCIDRs ad). \<exists>p. ParsePrefix (TrimSpace raw) = Inr p"
    "ar_Enabled (ad_RateLimit ad) \<Longrightarrow> 0 < ar_RPS (ad_RateLimit ad) \<and> 0 < ar_Burst (ad_RateLimit ad)
       \<and> 400 \<le> ar_StatusCode (ad_RateLimit ad) \<and> ar_StatusCode (ad_RateLimit ad) \<le> 599"
proof -
  note v = assms [unfolded validate_admin_def Let_def seqR_Inr require_Inr]
  show "ad_APIBasePath ad \<noteq> [] \<and> HasPrefix (ad_APIBasePath ad) ''/'' \<and> ad_APIBasePath ad \<noteq> ''/''"
    "ad_ExternalMode ad = [] \<or> ad_ExternalMode ad \<in> set external_modes" using v by blast+
  from v have "eachiR (\<lambda>i raw. bindR (wrapR ''admin.trusted_cidrs[%d] invalid CIDR: %w'' [Itoa (int i)] (ParsePrefix (TrimSpace raw))) (\<lambda>_. Inr ()))
             0 (ad_TrustedCIDRs ad) = Inr ()" by blast
  then show "\<forall>raw\<in>set (ad_TrustedCIDRs ad). \<exists>p. ParsePrefix (TrimSpace raw) = Inr p"
    by (fastforce simp: eachiR_Inr bindR_Inr in_set_conv_nth)
  from v show "ar_Enabled (ad_RateLimit ad) \<Longrightarrow> 0 < ar_RPS (ad_RateLimit ad) \<and> 0 < ar_Burst (ad_RateLimit ad)
       \<and> 400 \<le> ar_StatusCode (ad_RateLimit ad) \<and> ar_StatusCode (ad_RateLimit ad) \<le> 599" by (auto split: if_splits)
qed

text \<open>The limits of the settings.\<close>

definition bounded_settings :: "app_settings \<Rightarrow> bool" where
  "bounded_settings s \<longleftrightarrow>
     1 \<le> ap_ProxyRollbackMax s \<and> ap_ProxyRollbackMax s \<le> 64
   \<and> (\<forall>t\<in>{se_ReadTimeout (ap_Server s), se_ReadHeaderTimeout (ap_Server s), se_IdleTimeout (ap_Server s)}. 10 ^ 9 \<le> t \<and> t \<le> 3600 * 10 ^ 9)
   \<and> 0 \<le> se_WriteTimeout (ap_Server s) \<and> se_WriteTimeout (ap_Server s) \<le> 3600 * 10 ^ 9
   \<and> 1024 \<le> se_MaxHeaderBytes (ap_Server s) \<and> se_MaxHeaderBytes (ap_Server s) \<le> 2 ^ 24
   \<and> (\<forall>n\<in>{se_MaxConcurrentReqs (ap_Server s), se_MaxConcurrentProxy (ap_Server s)}. 0 \<le> n \<and> n \<le> 200000)
   \<and> 10 ^ 9 \<le> fs_Timeout (ap_Tuner s) \<and> fs_Timeout (ap_Tuner s) \<le> 300 * 10 ^ 9
   \<and> 10 * 10 ^ 9 \<le> fs_ApprovalTTL (ap_Tuner s) \<and> fs_ApprovalTTL (ap_Tuner s) \<le> 86400 * 10 ^ 9
   \<and> 0 \<le> ss_DBRetentionDays (ap_Storage s) \<and> ss_DBRetentionDays (ap_Storage s) \<le> 3650
   \<and> 0 \<le> ss_DBSyncInterval (ap_Storage s) \<and> ss_DBSyncInterval (ap_Storage s) \<le> 3600 * 10 ^ 9
   \<and> HasPrefix (ap_APIBasePath s) ''/'' \<and> ap_APIBasePath s \<noteq> ''/''"

lemma timeout_range:
  "1 \<le> def \<Longrightarrow> def \<le> 3600 \<Longrightarrow> 1 \<le> parseServerTimeoutSec v def False \<and> parseServerTimeoutSec v def False \<le> 3600"
  "0 \<le> parseServerTimeoutSec v 0 True \<and> parseServerTimeoutSec v 0 True \<le> 3600"
  by (auto simp: parseServerTimeoutSec_def Let_def)

lemma seconds_range: "a \<le> n \<Longrightarrow> n \<le> b \<Longrightarrow> 0 \<le> a \<Longrightarrow> b \<le> 86400 \<Longrightarrow> a * 10 ^ 9 \<le> seconds n \<and> seconds n \<le> b * 10 ^ 9"
  by (simp add: seconds_small)

lemma applied_server:
  "10 ^ 9 \<le> se_ReadTimeout (apply_server sv rt) \<and> se_ReadTimeout (apply_server sv rt) \<le> 3600 * 10 ^ 9"
  "10 ^ 9 \<le> se_ReadHeaderTimeout (apply_server sv rt) \<and> se_ReadHeaderTimeout (apply_server sv rt) \<le> 3600 * 10 ^ 9"
  "10 ^ 9 \<le> se_IdleTimeout (apply_server sv rt) \<and> se_IdleTimeout (apply_server sv rt) \<le> 3600 * 10 ^ 9"
  "0 \<le> se_WriteTimeout (apply_server sv rt) \<and> se_WriteTimeout (apply_server sv rt) \<le> 3600 * 10 ^ 9"
  "1024 \<le> se_MaxHeaderBytes (apply_server sv rt) \<and> se_MaxHeaderBytes (apply_server sv rt) \<le> 2 ^ 24"
  "0 \<le> se_MaxConcurrentReqs (apply_server sv rt) \<and> se_MaxConcurrentReqs (apply_server sv rt) \<le> 200000"
  "0 \<le> se_MaxConcurrentProxy (apply_server sv rt) \<and> se_MaxConcurrentProxy (apply_server sv rt) \<le> 200000"
proof -
  have t: "10 ^ 9 \<le> seconds (parseServerTimeoutSec v def False) \<and> seconds (parseServerTimeoutSec v def False) \<le> 3600 * 10 ^ 9"
    if "1 \<le> def" "def \<le> 3600" for v def
    using timeout_range(1) [OF that, of v] seconds_range [of 1 "parseServerTimeoutSec v def False" 3600] by simp
  show "10 ^ 9 \<le> se_ReadTimeout (apply_server sv rt) \<and> se_ReadTimeout (apply_server sv rt) \<le> 3600 * 10 ^ 9"
    "10 ^ 9 \<le> se_ReadHeaderTimeout (apply_server sv rt) \<and> se_ReadHeaderTimeout (apply_server sv rt) \<le> 3600 * 10 ^ 9"
    "10 ^ 9 \<le> se_IdleTimeout (apply_server sv rt) \<and> se_IdleTimeout (apply_server sv rt) \<le> 3600 * 10 ^ 9"
    using t [of 30] t [of 5] t [of 120] by (simp_all add: apply_server_def Let_def)
  show "0 \<le> se_WriteTimeout (apply_server sv rt) \<and> se_WriteTimeout (apply_server sv rt) \<le> 3600 * 10 ^ 9"
    using timeout_range(2) seconds_range [of 0 "parseServerTimeoutSec (Itoa (sc_WriteTimeoutSec sv)) 0 True" 3600]
    by (simp add: apply_server_def Let_def)
qed (simp_all add: apply_server_def Let_def parseServerMaxHeaderBytes_def parseServerConcurrency_def)

text \<open>
  C33: Every setting of an accepted configuration is within its limits, so no duration but the
  retention of log files can wrap around; and what was checked is what is set.
\<close>

theorem accepted_configuration_is_bounded:
  assumes "LoadEnv env = Inr s"
  shows "bounded_settings s"
proof -
  from accepted_settings [OF assms] obtain c where
    c: "validateAppConfigFile (ce_keyPair env) c = Inr ()" "applyAppConfig c = Inr s" by metis
  note v = valid_parts [OF c(1)]
  have s: "ap_Server s = apply_server (cf_Server c) (cf_Runtime c)" "ap_Tuner s = apply_tuner (cf_FPTuner c)"
    "ap_Storage s = apply_storage (cf_Storage c)" "ap_ProxyRollbackMax s = parseProxyRollbackHistorySize (Itoa (px_RollbackHistorySize (cf_Proxy c)))"
    using c(2) by (auto simp: applyAppConfig_def Let_def split: if_splits)
  have base: "HasPrefix (ap_APIBasePath s) ''/'' \<and> ap_APIBasePath s \<noteq> ''/''"
    using c(2) by (auto simp: applyAppConfig_def Let_def split: if_splits)
  have tuner: "10 ^ 9 \<le> fs_Timeout (ap_Tuner s) \<and> fs_Timeout (ap_Tuner s) \<le> 300 * 10 ^ 9"
    "10 * 10 ^ 9 \<le> fs_ApprovalTTL (ap_Tuner s) \<and> fs_ApprovalTTL (ap_Tuner s) \<le> 86400 * 10 ^ 9"
    using v(5,6) seconds_range [of 1 "tn_TimeoutSec (cf_FPTuner c)" 300] seconds_range [of 10 "tn_ApprovalTTLSec (cf_FPTuner c)" 86400]
    by (auto simp: s apply_tuner_def limited_to_def)
  have sync: "0 \<le> parseDBSyncIntervalSec v \<and> parseDBSyncIntervalSec v \<le> 3600" for v by (simp add: parseDBSyncIntervalSec_def Let_def)
  have storage: "0 \<le> ss_DBRetentionDays (ap_Storage s) \<and> ss_DBRetentionDays (ap_Storage s) \<le> 3650"
    "0 \<le> ss_DBSyncInterval (ap_Storage s) \<and> ss_DBSyncInterval (ap_Storage s) \<le> 3600 * 10 ^ 9"
    using seconds_range [OF conjunct1 [OF sync] conjunct2 [OF sync], of "Itoa (sg_DBSyncIntervalSec (cf_Storage c))"]
    by (simp_all add: s apply_storage_def Let_def)
  have rollback: "1 \<le> ap_ProxyRollbackMax s \<and> ap_ProxyRollbackMax s \<le> 64" by (simp add: s parseProxyRollbackHistorySize_def Let_def)
  show ?thesis
    unfolding bounded_settings_def ball_simps s(1) using base tuner storage rollback applied_server [of "cf_Server c" "cf_Runtime c"] by blast
qed

lemma parse_cidrs_total: "\<forall>raw\<in>set raws. \<exists>p. ParsePrefix (TrimSpace raw) = Inr p \<Longrightarrow> \<exists>ps. parse_cidrs raws = Inr ps"
  by (induction raws) (force simp: bindR_Inr)+

lemma default_cidrs_parse: "\<not> isl (parse_cidrs defaultAdminTrustedCIDRs)"
  by code_simp

lemma strong_key: "\<not> isWeakAPIKey (TrimSpace k) \<Longrightarrow> 16 \<le> length (TrimSpace k)"
  by (auto simp: isWeakAPIKey_def Let_def)

text \<open>
  C34: An accepted configuration starts the administration guards, and unless insecure defaults were
  allowed, a request that reaches the API carries a key of at least sixteen bytes.
\<close>

theorem accepted_configuration_starts_guarded:
  assumes "LoadEnv env = Inr s"
  shows "\<exists>g. InitAdminGuards (ap_Admin s) = Inr g
    \<and> (\<not> ap_AllowInsecureDefaults s \<longrightarrow>
        (\<forall>now r g'. fst (admin_api (ap_Admin s) now r g') = None \<longrightarrow>
           16 \<le> length (TrimSpace (Header_Get (rq_Header r) ''X-API-Key''))
           \<and> TrimSpace (Header_Get (rq_Header r) ''X-API-Key'') \<in> {as_KeyPrimary (ap_Admin s), as_KeySecondary (ap_Admin s)}))"
proof -
  from accepted_settings [OF assms] obtain c c0 where c: "c = normalizeAppConfigFile c0"
    "validateAppConfigFile (ce_keyPair env) c = Inr ()" "applyAppConfig c = Inr s" "enforceSecureDefaults s = Inr ()" by metis
  note v = valid_admin [OF valid_parts(1) [OF c(2)]]
  have a: "ap_Admin s = apply_admin (cf_Admin c)"
    using c(3) by (auto simp: applyAppConfig_def Let_def split: if_splits)
  have m: "ad_ExternalMode (cf_Admin c) = ToLower (TrimSpace (ad_ExternalMode (cf_Admin c0)))"
    by (simp add: c(1) normalizeAppConfigFile_def Let_def)
  have mode: "ToLower (TrimSpace (as_ExternalMode (ap_Admin s))) = ad_ExternalMode (cf_Admin c)"
    by (simp add: a apply_admin_def m Let_def)
  have fine: "(if ad_ExternalMode (cf_Admin c) = [] then ''full_external'' else ad_ExternalMode (cf_Admin c)) \<in> set external_modes"
    using v(2) by (auto simp: external_modes_def)
  have "\<exists>ps. parse_cidrs (if as_TrustedCIDRs (ap_Admin s) = [] then defaultAdminTrustedCIDRs else as_TrustedCIDRs (ap_Admin s)) = Inr ps"
    using default_cidrs_parse parse_cidrs_total [OF v(3)]
    by (cases "parse_cidrs defaultAdminTrustedCIDRs") (auto simp: a apply_admin_def Let_def)
  with fine have "\<exists>x. newAdminAccessControl (ap_Admin s) = Inr x"
    by (auto simp: newAdminAccessControl_def mode bindR_Inr Let_def external_modes_def [symmetric])
  then have "\<exists>g. InitAdminGuards (ap_Admin s) = Inr g" by (auto simp: InitAdminGuards_def bindR_Inr)
  moreover have "16 \<le> length (TrimSpace (Header_Get (rq_Header r) ''X-API-Key''))
      \<and> TrimSpace (Header_Get (rq_Header r) ''X-API-Key'') \<in> {as_KeyPrimary (ap_Admin s), as_KeySecondary (ap_Admin s)}"
    if safe: "\<not> ap_AllowInsecureDefaults s" and pass: "fst (admin_api (ap_Admin s) now r g') = None" for now r g'
  proof -
    have strict: "\<not> as_AuthDisable (ap_Admin s)" "\<not> isWeakAPIKey (as_KeyPrimary (ap_Admin s))"
      "as_KeySecondary (ap_Admin s) = [] \<or> \<not> isWeakAPIKey (as_KeySecondary (ap_Admin s))"
      using c(4) safe by (auto simp: enforceSecureDefaults_def Let_def)
    have keys: "as_KeyPrimary (ap_Admin s) = TrimSpace (ad_APIKeyPrimary (cf_Admin c))"
      "as_KeySecondary (ap_Admin s) = TrimSpace (ad_APIKeySecondary (cf_Admin c))"
      by (simp_all add: a apply_admin_def Let_def)
    from pass have "APIKeyAuth (ap_Admin s) r = None" by (simp add: api_passes)
    from key_given [OF strict(1) this] show ?thesis using strict(2,3) strong_key unfolding keys by auto
  qed
  ultimately show ?thesis by blast
qed

subsection \<open>What it should not accept\<close>

text \<open>
  The key every copy of the repository has in its defaults and its example files passes for strong: a file that
  sets nothing is accepted, and the API opens with that key.
\<close>

definition plain_env :: "appConfigFile \<Rightarrow> config_env" where
  \<comment> \<open>a file that decodes to these values\<close>
  "plain_env c = \<lparr>ce_readFile = (\<lambda>p. Inr []), ce_decode = (\<lambda>raw d. Inr c), ce_keyPair = (\<lambda>a b. Inr ()), ce_configFile = []\<rparr>"

lemma default_accepted:
  obtains s where "LoadEnv (plain_env defaultAppConfigFile) = Inr s" "\<not> ap_AllowInsecureDefaults s" "\<not> as_AuthDisable (ap_Admin s)"
    "as_KeyPrimary (ap_Admin s) = ''dev-only-change-this-key-please''"
proof -
  define c where "c = defaultAppConfigFile"
  have n: "normalizeAppConfigFile c = c" unfolding c_def by code_simp
  have v: "validateAppConfigFile (\<lambda>a b. Inr ()) c = Inr ()" unfolding c_def by code_simp
  have k: "\<not> isWeakAPIKey ''dev-only-change-this-key-please''" "TrimSpace ''dev-only-change-this-key-please'' = ''dev-only-change-this-key-please''"
    "TrimSpace ''/mamotama-api'' = ''/mamotama-api''" by code_simp+
  have f: "ad_APIBasePath (cf_Admin c) = ''/mamotama-api''" "ad_APIKeyPrimary (cf_Admin c) = ''dev-only-change-this-key-please''"
    "ad_APIKeySecondary (cf_Admin c) = []" "\<not> ad_APIAuthDisable (cf_Admin c)" "\<not> ad_AllowInsecureDefaults (cf_Admin c)"
    by (simp_all add: c_def defaultAppConfigFile_def)
  obtain s where s: "applyAppConfig c = Inr s" "ap_Admin s = apply_admin (cf_Admin c)" "\<not> ap_AllowInsecureDefaults s"
    using f k by (simp add: applyAppConfig_def trimmed_or_def Let_def)
  have a: "\<not> as_AuthDisable (ap_Admin s)" "as_KeyPrimary (ap_Admin s) = ''dev-only-change-this-key-please''" "as_KeySecondary (ap_Admin s) = []"
    using f k by (simp_all add: s(2) apply_admin_def Let_def)
  have "enforceSecureDefaults s = Inr ()" using a k(1) by (simp add: enforceSecureDefaults_def Let_def)
  then have "LoadEnv (plain_env c) = Inr s"
    using n v s(1) by (simp add: LoadEnv_def loadAppConfigFile_def plain_env_def wrapR_def Let_def)
  with s(3) a show ?thesis unfolding c_def by (intro that)
qed

theorem published_key_is_accepted:
  "\<exists>s. LoadEnv (plain_env defaultAppConfigFile) = Inr s \<and> \<not> ap_AllowInsecureDefaults s \<and> \<not> as_AuthDisable (ap_Admin s)
     \<and> as_KeyPrimary (ap_Admin s) = ''dev-only-change-this-key-please''"
  by (rule default_accepted) blast

text \<open>
  With certificates from ACME the least version of TLS is not checked, so a misspelt one is accepted here
  and stops the server only when it starts to listen.
\<close>

theorem acme_accepts_any_tls_version:
  assumes "tl_Enabled (sc_TLS sv)" "am_Enabled (tl_ACME (sc_TLS sv))" "validateAppServerTLSConfig load sv = Inr ()"
  shows "validateAppServerTLSConfig load (sv\<lparr>sc_TLS := (sc_TLS sv)\<lparr>tl_MinVersion := v\<rparr>\<rparr>) = Inr ()"
  using assms by (auto simp: validateAppServerTLSConfig_def Let_def split: if_splits)

text \<open>
  The days log archives are kept have no upper limit: from 106752 on the duration is negative, and a
  retention that is not positive keeps everything.
\<close>

theorem retention_of_300_years_is_negative:
  "ss_FileRetention (apply_storage (sg\<lparr>sg_FileRetentionDays := 106752\<rparr>)) < 0"
  by (simp add: apply_storage_def Let_def i64_def)

subsection \<open>Normalisation\<close>

lemma min_version_idem [simp]: "normalizeServerTLSMinVersion (normalizeServerTLSMinVersion v) = normalizeServerTLSMinVersion v"
proof -
  define s where "s = ToLower (TrimSpace v)"
  have f: "normalizeServerTLSMinVersion ''tls1.2'' = ''tls1.2''" "normalizeServerTLSMinVersion ''tls1.3'' = ''tls1.3''" by code_simp+
  have d: "normalizeServerTLSMinVersion s = normalizeServerTLSMinVersion v"
    by (simp add: normalizeServerTLSMinVersion_def s_def)
  have "normalizeServerTLSMinVersion v \<in> {''tls1.2'', ''tls1.3'', s}"
    unfolding normalizeServerTLSMinVersion_def s_def [symmetric] Let_def defaultServerTLSMinVersion_def by simp
  with f d show ?thesis by auto
qed

theorem normalised_configuration_is_kept: "normalizeAppConfigFile (normalizeAppConfigFile c) = normalizeAppConfigFile c"
  by (simp add: normalizeAppConfigFile_def normalizeAppServerTLSConfig_def normalize_paths_def Let_def)

theorem accepted_configuration_is_bounded_witness:
  "\<exists>s. LoadEnv (plain_env defaultAppConfigFile) = Inr s \<and> bounded_settings s"
  by (rule default_accepted) (blast intro: accepted_configuration_is_bounded)

theorem accepted_configuration_starts_guarded_witness:
  "\<exists>s g. LoadEnv (plain_env defaultAppConfigFile) = Inr s \<and> InitAdminGuards (ap_Admin s) = Inr g"
  by (rule default_accepted) (blast dest: accepted_configuration_starts_guarded)

end
