(* ===== verification/Storage_Reconciler.thy ===== *)
theory Storage_Reconciler
  imports Proxy_Runtime Rule_Admin Bypass_Rules Rate_Limit Notifications Bot_Defense Semantic Cache_Serving Ip_Reputation
begin

text \<open>
  The periodic synchronisation of every component with the database
  (\<open>handler/storage_reconciler.go\<close>), on the state of all components at once, and the
  synchronisation of the settings of the response cache (\<open>response_cache_runtime.go\<close>).  The
  ticker that repeats it is an event.
\<close>

subsection \<open>The settings of the response cache\<close>

definition SyncResponseCacheStoreStorage ::
  "(string \<Rightarrow> responseCacheConfig result) \<Rightarrow> (responseCacheConfig \<Rightarrow> string) \<Rightarrow> (nat \<Rightarrow> goerr option) \<Rightarrow> int
     \<Rightarrow> responseCacheRuntime option \<times> storage \<Rightarrow> unit result \<times> responseCacheRuntime option \<times> storage" where
  \<comment> \<open>\<open>syncConfigBlobFilePath\<close> whose reload applies the text of the file, or none when it cannot be read\<close>
  "SyncResponseCacheStoreStorage decode encode mk now sys =
     (case sys of (rt, st) \<Rightarrow>
      if (case rt of None \<Rightarrow> True | Some t \<Rightarrow> TrimSpace (rcr_configPath t) = []) \<or> \<not> so_Store st then (Inr (), sys)
      else case readFileMaybe st of
        (Inl e, st1) \<Rightarrow> (Inl e, rt, st1)
      | (Inr (fileRaw, hadFile), st1) \<Rightarrow>
     (case GetConfigBlob st1 of
        (Inl e, st2) \<Rightarrow> (Inl e, rt, st2)
      | (Inr None, st2) \<Rightarrow>
          (if fileRaw = [] then (Inr (), rt, st2)
           else case UpsertConfigBlob fileRaw (ComputeETag fileRaw) st2 of (r, st3) \<Rightarrow> (r, rt, st3))
      | (Inr (Some (dbRaw, dbETag)), st2) \<Rightarrow>
     (case ValidateResponseCacheRaw decode encode (mk 0) dbRaw of
        Inl e \<Rightarrow> (Inl e, rt, st2)
      | Inr _ \<Rightarrow>
          (let changed = (\<not> hadFile \<or> fileRaw \<noteq> dbRaw) in
     (case (if changed then AtomicWriteWithBackup dbRaw st2 else (Inr (), st2)) of
        (Inl e, st3) \<Rightarrow> (Inl e, rt, st3)
      | (Inr _, st3) \<Rightarrow>
     (case (if changed
            then (case file_or_empty st3 of (raw, st4) \<Rightarrow>
                  (case ApplyResponseCacheRaw decode encode (\<lambda>n. mk (Suc n)) now [] raw (rt, st4) of
                     (Inl (ResponseCacheError e), rt1, st5) \<Rightarrow> (Inl e, rt1, st5)
                   | (Inl (ResponseCacheConflict t), rt1, st5) \<Rightarrow> (err ''conflict'' [], rt1, st5)
                   | (Inr _, rt1, st5) \<Rightarrow> (Inr (), rt1, st5)))
            else (Inr (), rt, st3)) of
        (Inl e, rt1, st5) \<Rightarrow> (Inl e, rt1, st5)
      | (Inr _, rt1, st5) \<Rightarrow>
          (if TrimSpace dbETag = [] then (case UpsertConfigBlob dbRaw (ComputeETag dbRaw) st5 of (r, st6) \<Rightarrow> (r, rt1, st6))
           else (Inr (), rt1, st5))))))))"

subsection \<open>All components\<close>

record 'w system =
  sy_proxy :: "proxyRuntime \<times> storage"
  sy_firewall :: "'w firewall"
  sy_bypass :: "bypass_Entry list rules_state"
  sy_country :: "string list rules_state"
  sy_rate :: "limiter rules_state"
  sy_notify :: "notify_runtime option rules_state"
  sy_bot :: "runtimeBotDefenseConfig option rules_state"
  sy_semantic :: "runtimeSemanticConfig option rules_state"
  sy_cacheRules :: "cache_Rule list rules_state"
  sy_cacheStore :: "responseCacheRuntime option \<times> storage"
  sy_reputation :: "reputation rules_state"

text \<open>The synchronisation of each component, with the parameters it takes.\<close>

record 'w sync_ops =
  sp_proxy :: "proxyRuntime \<times> storage \<Rightarrow> unit result \<times> proxyRuntime \<times> storage"
  sp_rules :: "'w firewall \<Rightarrow> unit result \<times> 'w firewall"
  sp_crs :: "'w firewall \<Rightarrow> unit result \<times> 'w firewall"
  sp_bypass :: "bypass_Entry list rules_state \<Rightarrow> unit result \<times> bypass_Entry list rules_state"
  sp_country :: "string list rules_state \<Rightarrow> unit result \<times> string list rules_state"
  sp_rate :: "limiter rules_state \<Rightarrow> unit result \<times> limiter rules_state"
  sp_notify :: "notify_runtime option rules_state \<Rightarrow> unit result \<times> notify_runtime option rules_state"
  sp_bot :: "runtimeBotDefenseConfig option rules_state \<Rightarrow> unit result \<times> runtimeBotDefenseConfig option rules_state"
  sp_semantic :: "runtimeSemanticConfig option rules_state \<Rightarrow> unit result \<times> runtimeSemanticConfig option rules_state"
  sp_cacheRules :: "cache_Rule list rules_state \<Rightarrow> unit result \<times> cache_Rule list rules_state"
  sp_cacheStore :: "responseCacheRuntime option \<times> storage \<Rightarrow> unit result \<times> responseCacheRuntime option \<times> storage"

record 'w sync_env =
  yn_proxyEnv :: "proxy_env \<times> proxy_env"
  yn_json :: json_codec
  yn_firewall :: "'w firewall_env"
  yn_rules :: rule_settings
  yn_stat :: "string \<Rightarrow> stat_result"
  yn_strict :: bool
  yn_rate :: "string \<Rightarrow> rateLimitConfig result"
  yn_compile :: "string \<Rightarrow> (string \<Rightarrow> bool) result"
  yn_notify :: "string \<Rightarrow> notificationConfig result"
  yn_mail :: "string \<Rightarrow> unit result"
  yn_bot :: "string \<Rightarrow> botDefenseConfig result"
  yn_semantic :: "string \<Rightarrow> semanticConfig result"
  yn_random :: "string option"
  yn_headerName :: "string \<Rightarrow> bool"
  yn_cache :: "string \<Rightarrow> responseCacheConfig result"
  yn_cacheText :: "responseCacheConfig \<Rightarrow> string"
  yn_mkdir :: "nat \<Rightarrow> goerr option"
  yn_now :: int

definition sync_ops_of :: "'w sync_env \<Rightarrow> 'w sync_ops" where
  "sync_ops_of y =
     \<lparr>sp_proxy = SyncProxyStorage (fst (yn_proxyEnv y)) (snd (yn_proxyEnv y)) (yn_json y),
      sp_rules = SyncRuleFilesStorage (yn_firewall y) (yn_rules y), sp_crs = SyncCRSDisabledStorage (yn_firewall y) (yn_rules y),
      sp_bypass = SyncBypassStorage (yn_stat y) (yn_strict y), sp_country = SyncCountryBlockStorage,
      sp_rate = SyncRateLimitStorage (yn_rate y) (yn_compile y), sp_notify = SyncNotificationStorage (yn_notify y) (yn_mail y),
      sp_bot = SyncBotDefenseStorage (yn_bot y) (yn_random y), sp_semantic = SyncSemanticStorage (yn_semantic y) (yn_random y),
      sp_cacheRules = SyncCacheRulesStorage (yn_headerName y),
      sp_cacheStore = SyncResponseCacheStoreStorage (yn_cache y) (yn_cacheText y) (yn_mkdir y) (yn_now y)\<rparr>"

type_synonym 'w sync_task = "string \<times> ('w system \<Rightarrow> unit result \<times> 'w system)"

definition on_part :: "('w system \<Rightarrow> 'a) \<Rightarrow> (('a \<Rightarrow> 'a) \<Rightarrow> 'w system \<Rightarrow> 'w system) \<Rightarrow> ('a \<Rightarrow> unit result \<times> 'a) \<Rightarrow> 'w system \<Rightarrow> unit result \<times> 'w system" where
  "on_part get put f w = (case f (get w) of (r, x) \<Rightarrow> (r, put (\<lambda>_. x) w))"

definition sync_tasks :: "'w sync_ops \<Rightarrow> 'w sync_task list" where
  "sync_tasks p =
     [(''proxy-rules'', on_part sy_proxy sy_proxy_update (sp_proxy p)),
      (''rules'', on_part sy_firewall sy_firewall_update (sp_rules p)),
      (''crs-disabled'', on_part sy_firewall sy_firewall_update (sp_crs p)),
      (''bypass'', on_part sy_bypass sy_bypass_update (sp_bypass p)),
      (''country-block'', on_part sy_country sy_country_update (sp_country p)),
      (''rate-limit'', on_part sy_rate sy_rate_update (sp_rate p)),
      (''notifications'', on_part sy_notify sy_notify_update (sp_notify p)),
      (''bot-defense'', on_part sy_bot sy_bot_update (sp_bot p)),
      (''semantic'', on_part sy_semantic sy_semantic_update (sp_semantic p)),
      (''cache-rules'', on_part sy_cacheRules sy_cacheRules_update (sp_cacheRules p)),
      (''cache-store'', on_part sy_cacheStore sy_cacheStore_update (sp_cacheStore p))]"

fun run_tasks :: "'w sync_task list \<Rightarrow> 'w system \<Rightarrow> goerr list \<times> 'w system" where
  "run_tasks [] w = ([], w)"
| "run_tasks ((name, run) # ts) w =
     (case run w of (r, w1) \<Rightarrow>
        (case run_tasks ts w1 of (errs, w2) \<Rightarrow>
           ((case r of Inl e \<Rightarrow> Wrapf ''%s: %w'' [name] e # errs | Inr _ \<Rightarrow> errs), w2)))"

definition SyncAllStorageFromDB :: "'w sync_env \<Rightarrow> 'w system \<Rightarrow> (goerr list + unit) \<times> 'w system" where
  \<comment> \<open>\<open>errors.Join\<close> keeps the errors in their order\<close>
  "SyncAllStorageFromDB y w =
     (case run_tasks (sync_tasks (sync_ops_of y)) w of (errs, w1) \<Rightarrow> (if errs = [] then Inr () else Inl errs, w1))"

subsection \<open>No component waits for another\<close>

definition failing :: "(string \<times> unit result) list \<Rightarrow> goerr list" where
  "failing rs = concat (map (\<lambda>(name, r). case r of Inl e \<Rightarrow> [Wrapf ''%s: %w'' [name] e] | Inr _ \<Rightarrow> []) rs)"

lemma run_parts:
  "fst (run_tasks ((name, on_part get put f) # ts) w) =
     failing [(name, fst (f (get w)))] @ fst (run_tasks ts (put (\<lambda>_. snd (f (get w))) w))"
  "snd (run_tasks ((name, on_part get put f) # ts) w) = snd (run_tasks ts (put (\<lambda>_. snd (f (get w))) w))"
  by (simp_all add: on_part_def failing_def split: prod.split sum.split)

lemma failing_Cons: "failing [x] @ failing xs = failing (x # xs)"
  by (simp add: failing_def)

lemma run_none: "fst (run_tasks [] w) = failing []" "snd (run_tasks [] w) = w"
  by (simp_all add: failing_def)


end
