(* ===== verification/Log_Files.thy ===== *)
theory Log_Files
  imports Fp_Proposals Country_Block Go_Time
begin

text \<open>
  The log of security events as a file (\<open>handler/logs.go\<close>): the index of its lines, the pages of the log, the
  download of a period and the statistics.

  A file is its bytes and the instant of its last change.  A line of the log is a JSON object;
  its decoding into a map is a parameter: \<open>None\<close> is an error, \<open>Some None\<close> the map \<open>nil\<close> that the text \<open>null\<close>
  gives.  Of the errors of the file system only the missing file is modelled.
\<close>

type_synonym log_file = "string \<times> int"                     \<comment> \<open>bytes, time of the last change\<close>

record log_env =
  le_json :: "string \<Rightarrow> logLine option option"            \<comment> \<open>\<open>json.Unmarshal\<close> into a map\<close>
  le_formatFloat :: "rat \<Rightarrow> string"                       \<comment> \<open>\<open>strconv.FormatFloat(v, 'f', -1, 64)\<close>\<close>

definition ErrNotExist :: goerr where
  "ErrNotExist = Errorf ''open: no such file or directory'' []"

subsection \<open>Numbers of a query\<close>

definition clampInt :: "int \<Rightarrow> int \<Rightarrow> int \<Rightarrow> int" where
  "clampInt v lo hi = (if v < lo then lo else if hi < v then hi else v)"

definition mustAtoiDefault :: "string \<Rightarrow> int \<Rightarrow> int" where
  "mustAtoiDefault s d = (if s = [] then d else let i = atoi_or_zero s in if i = 0 then d else i)"

definition mustAtoi64Default :: "string \<Rightarrow> int \<Rightarrow> int" where
  "mustAtoi64Default s d = (if s = [] then d else let i = atoi_or_zero s in if i = 0 then d else i)"

subsection \<open>The index of the lines\<close>

record lineIndex =
  li_Offsets :: "int list"
  li_Size :: int
  li_ModTime :: int

text \<open>What repeated \<open>ReadBytes('\\n')\<close> gives: every chunk but the last ends in a line feed.\<close>

fun read_chunks :: "string \<Rightarrow> string list" where
  "read_chunks [] = []"
| "read_chunks (c # s) =
     (if c = newline then [c] # read_chunks s
      else case read_chunks s of [] \<Rightarrow> [[c]] | l # ls \<Rightarrow> (c # l) # ls)"

fun marks_from :: "int \<Rightarrow> string list \<Rightarrow> int list" where
  "marks_from pos [] = []"
| "marks_from pos (b # bs) = (pos + int (length b)) # marks_from (pos + int (length b)) bs"

definition fresh_index :: "log_file \<Rightarrow> lineIndex" where
  "fresh_index f =
     (case f of (raw, modTime) \<Rightarrow>
        \<lparr>li_Offsets = 0 # marks_from 0 (read_chunks raw), li_Size = int (length raw), li_ModTime = modTime\<rparr>)"

definition extend_index :: "log_file \<Rightarrow> lineIndex \<Rightarrow> lineIndex" where
  "extend_index f li =
     (case f of (raw, modTime) \<Rightarrow>
        \<lparr>li_Offsets = li_Offsets li @ marks_from (li_Size li) (read_chunks (drop (nat (li_Size li)) raw)),
         li_Size = int (length raw), li_ModTime = modTime\<rparr>)"

definition buildOrUpdateIndex :: "log_file option \<Rightarrow> lineIndex option \<Rightarrow> lineIndex result \<times> lineIndex option" where
  \<comment> \<open>the file and what the cache of indexes holds for its path\<close>
  "buildOrUpdateIndex file ix =
     (case file of
        None \<Rightarrow> (Inl ErrNotExist, ix)
      | Some f \<Rightarrow>
          let size = int (length (fst f));
              li = (case ix of
                  None \<Rightarrow> fresh_index f
                | Some li \<Rightarrow>
                    if size < li_Size li \<or> li_ModTime li < snd f then fresh_index f
                    else if li_Size li < size then extend_index f li
                    else li)
          in (Inr li, Some li))"

subsection \<open>Reading a page\<close>

record log_page =
  lp_Lines :: "logLine option list"      \<comment> \<open>\<open>None\<close> is a map \<open>nil\<close>\<close>
  lp_Next :: "int option"
  lp_HasPrev :: bool
  lp_HasNext :: bool

definition trimLastNewline :: "string \<Rightarrow> string" where
  "trimLastNewline b = (if b \<noteq> [] \<and> last b = newline then butlast b else b)"

definition page_cursor :: "int \<Rightarrow> int \<Rightarrow> int option \<Rightarrow> int" where
  \<comment> \<open>lines of the log, lines of a page, the cursor of the query\<close>
  "page_cursor totalLines tail cursor =
     (case cursor of
        None \<Rightarrow> if totalLines < tail then 0 else totalLines - tail
      | Some cur \<Rightarrow> if cur < 0 then 0 else if totalLines < cur then totalLines else cur)"

definition page_range :: "int \<Rightarrow> int \<Rightarrow> int option \<Rightarrow> string \<Rightarrow> (int \<times> int) result" where
  "page_range totalLines tail cursor dir =
     (let cur = page_cursor totalLines tail cursor in
      if dir = ''prev'' then Inr (max (cur - tail) 0, cur)
      else if dir = ''next'' \<or> dir = [] then Inr (cur, min (cur + tail) totalLines)
      else err ''invalid dir'' [])"

definition read_range :: "string \<Rightarrow> int \<Rightarrow> int \<Rightarrow> string result" where
  \<comment> \<open>\<open>Seek\<close> and \<open>io.ReadFull\<close>\<close>
  "read_range raw from to =
     (let buf = take (nat (to - from)) (drop (nat from) raw)
      in if int (length buf) < to - from then err (if buf = [] then ''EOF'' else ''unexpected EOF'') [] else Inr buf)"

definition decode_lines :: "log_env \<Rightarrow> string \<Rightarrow> logLine option list" where
  "decode_lines env buf = List.map_filter (\<lambda>b. le_json env (trimLastNewline b)) (read_chunks buf)"

definition readByLine ::
  "log_env \<Rightarrow> log_file option \<Rightarrow> int \<Rightarrow> int option \<Rightarrow> string \<Rightarrow> lineIndex option \<Rightarrow> log_page result \<times> lineIndex option" where
  "readByLine env file tail cursor dir ix =
     (case buildOrUpdateIndex file ix of
        (Inl e, ix') \<Rightarrow> (Inl e, ix')
      | (Inr li, ix') \<Rightarrow>
          if li_Offsets li = [] then (Inr \<lparr>lp_Lines = [], lp_Next = Some 0, lp_HasPrev = False, lp_HasNext = False\<rparr>, ix')
          else
            let totalLines = int (length (li_Offsets li)) - 1 in
            (bindR (page_range totalLines tail cursor dir) (\<lambda>(start, end').
               if end' \<le> start
               then Inr \<lparr>lp_Lines = [], lp_Next = Some end', lp_HasPrev = 0 < start, lp_HasNext = end' < totalLines\<rparr>
               else
                 bindR (read_range (case file of None \<Rightarrow> [] | Some f \<Rightarrow> fst f) (li_Offsets li ! nat start) (li_Offsets li ! nat end'))
                   (\<lambda>buf. Inr \<lparr>lp_Lines = decode_lines env buf, lp_Next = Some (if dir = ''prev'' then start else end'),
                      lp_HasPrev = 0 < start, lp_HasNext = end' < totalLines\<rparr>)), ix'))"

subsection \<open>Fields of a line\<close>

definition logFieldString :: "log_env \<Rightarrow> log_value option \<Rightarrow> string" where
  "logFieldString env v =
     (case v of
        Some (LString s) \<Rightarrow> s
      | Some (LNumber t) \<Rightarrow> if t = of_int (float_to_int t) then Itoa (float_to_int t) else le_formatFloat env t
      | Some (LOther text) \<Rightarrow> text
      | _ \<Rightarrow> [])"

definition parseLogTS :: "log_env \<Rightarrow> log_value option \<Rightarrow> int option" where
  "parseLogTS env raw =
     (let ts = TrimSpace (logFieldString env raw) in if ts = [] then None else parse_RFC3339 ts)"

definition normalizeStatsRuleID :: "log_env \<Rightarrow> log_value option \<Rightarrow> string" where
  "normalizeStatsRuleID env raw =
     (let v = TrimSpace (logFieldString env raw) in if v = [] \<or> v = ''<nil>'' then ''UNKNOWN'' else v)"

definition normalizeStatsPath :: "log_env \<Rightarrow> log_value option \<Rightarrow> string" where
  "normalizeStatsPath env raw =
     (let v = TrimSpace (logFieldString env raw)
      in if v = [] \<or> v = ''<nil>'' then ''/'' else if \<not> HasPrefix v ''/'' then ''/'' else v)"

definition string_of_value :: "log_value option \<Rightarrow> string option" where
  \<comment> \<open>\<open>v.(string)\<close>\<close>
  "string_of_value v = (case v of Some (LString s) \<Rightarrow> Some s | _ \<Rightarrow> None)"

definition field :: "logLine option \<Rightarrow> string \<Rightarrow> log_value option" where
  \<comment> \<open>reading a map, \<open>nil\<close> or not\<close>
  "field m k = (case m of None \<Rightarrow> None | Some kvs \<Rightarrow> map_of kvs k)"

abbreviation country_of :: "logLine option \<Rightarrow> string" where
  "country_of m \<equiv> normalizeCountryFromAny (string_of_value (field m ''country''))"

abbreviation line_matches :: "logLine option \<Rightarrow> string \<Rightarrow> bool" where
  "line_matches m filter' \<equiv> countryMatchesFilter (string_of_value (field m ''country'')) filter'"

definition filterLinesByCountry :: "logLine option list \<Rightarrow> string \<Rightarrow> logLine option list" where
  "filterLinesByCountry lines filter' = (if filter' = [] then lines else filter (\<lambda>m. line_matches m filter') lines)"

fun normalizeCountryInLines :: "logLine option list \<Rightarrow> logLine option list option" where
  \<comment> \<open>writing into a map \<open>nil\<close> panics\<close>
  "normalizeCountryInLines [] = Some []"
| "normalizeCountryInLines (None # ms) = None"
| "normalizeCountryInLines (Some m # ms) =
     map_option (\<lambda>ms'. Some (aput ''country'' (LString (country_of (Some m))) m) # ms') (normalizeCountryInLines ms)"

definition computePageBounds :: "string \<Rightarrow> int option \<Rightarrow> int \<Rightarrow> int option \<times> int option" where
  "computePageBounds dir nextCur n =
     (case nextCur of
        None \<Rightarrow> (None, None)
      | Some c \<Rightarrow> if dir = ''prev'' then (Some c, Some (c + n)) else (Some (max 0 (c - n)), Some c))"

definition tsInRange :: "string \<Rightarrow> int \<Rightarrow> int \<Rightarrow> bool" where
  "tsInRange ts from to =
     (case parse_RFC3339 ts of
        None \<Rightarrow> False
      | Some t \<Rightarrow> \<not> (from \<noteq> zero_time \<and> t < from) \<and> \<not> (to \<noteq> zero_time \<and> \<not> t < to))"

definition download_file :: "log_env \<Rightarrow> string \<Rightarrow> int \<Rightarrow> int \<Rightarrow> string \<Rightarrow> string" where
  \<comment> \<open>what \<open>LogsDownload\<close> writes of the file, before compression\<close>
  "download_file env raw from to filter' =
     concat (filter (\<lambda>b. case le_json env b of
         None \<Rightarrow> False
       | Some m \<Rightarrow> (case string_of_value (field m ''ts'') of None \<Rightarrow> False
           | Some ts \<Rightarrow> tsInRange ts from to \<and> line_matches m filter')) (read_chunks raw))"

subsection \<open>Statistics\<close>

type_synonym statsBucket = "string \<times> int"
type_synonym statsSeriesPoint = "string \<times> int"

record wafBlockStats =
  wb_Last1h :: int
  wb_Last24h :: int
  wb_TotalInScan :: int
  wb_TopRuleIDs24h :: "statsBucket list"
  wb_TopPaths24h :: "statsBucket list"
  wb_TopCountries24h :: "statsBucket list"
  wb_SeriesHourly :: "statsSeriesPoint list"

record logsStatsResp =
  ls_GeneratedAt :: string
  ls_ScannedLines :: int
  ls_RangeHours :: int
  ls_OldestScannedTS :: string
  ls_NewestScannedTS :: string
  ls_WAFBlock :: wafBlockStats

definition bucket_less :: "statsBucket \<Rightarrow> statsBucket \<Rightarrow> bool" where
  "bucket_less a b = (if snd a = snd b then string_less (fst a) (fst b) else snd b < snd a)"

definition topBuckets :: "(string \<times> int) list \<Rightarrow> nat \<Rightarrow> statsBucket list" where
  "topBuckets counts n = (if counts = [] \<or> n = 0 then [] else take n (sort_by bucket_less counts))"

definition statsHourlyRange :: "int \<Rightarrow> int \<Rightarrow> int \<times> int" where
  "statsHourlyRange now rangeHours =
     (let end' = now div hour * hour + hour in (end' - rangeHours * hour, end'))"

definition count_in :: "('k \<times> int) list \<Rightarrow> 'k \<Rightarrow> int" where
  \<comment> \<open>a map of counters read at a key\<close>
  "count_in counts k = (case map_of counts k of None \<Rightarrow> 0 | Some n \<Rightarrow> n)"

definition increment :: "'k \<Rightarrow> ('k \<times> int) list \<Rightarrow> ('k \<times> int) list" where
  "increment k counts = aput k (count_in counts k + 1) counts"

function hours_between :: "int \<Rightarrow> int \<Rightarrow> int list" where
  \<comment> \<open>\<open>for t := start; t.Before(end); t = t.Add(time.Hour)\<close>\<close>
  "hours_between t end' = (if t < end' then t # hours_between (t + hour) end' else [])"
  by auto
termination by (relation "measure (\<lambda>(t, e). nat (e - t))") (auto simp: hour_def)

declare hours_between.simps [simp del]

definition buildHourlySeries :: "int \<Rightarrow> int \<Rightarrow> (int \<times> int) list \<Rightarrow> statsSeriesPoint list" where
  "buildHourlySeries start end' counts =
     map (\<lambda>t. (format_RFC3339 (t div 10 ^ 9), count_in counts (t div 10 ^ 9))) (hours_between start end')"

definition statsTopN :: nat where "statsTopN = 5"

record stats_scan =                       \<comment> \<open>the variables of the loop of \<open>LogsStats\<close>\<close>
  sn_Total :: int
  sn_Last1h :: int
  sn_Last24h :: int
  sn_Rules :: "(string \<times> int) list"
  sn_Paths :: "(string \<times> int) list"
  sn_Countries :: "(string \<times> int) list"
  sn_Series :: "(int \<times> int) list"
  sn_Seen :: "(int \<times> int) option"          \<comment> \<open>oldest and newest time stamp\<close>

definition no_scan :: stats_scan where
  "no_scan = \<lparr>sn_Total = 0, sn_Last1h = 0, sn_Last24h = 0, sn_Rules = [], sn_Paths = [], sn_Countries = [], sn_Series = [], sn_Seen = None\<rparr>"

definition count_hour :: "int \<Rightarrow> int \<times> int \<Rightarrow> stats_scan \<Rightarrow> stats_scan" where
  "count_hour ts range' sn =
     (if \<not> ts < fst range' \<and> ts < snd range'
      then sn\<lparr>sn_Series := increment (ts div hour * hour div 10 ^ 9) (sn_Series sn)\<rparr> else sn)"

definition scan_line :: "log_env \<Rightarrow> int \<Rightarrow> int \<times> int \<Rightarrow> logLine option \<Rightarrow> stats_scan \<Rightarrow> stats_scan" where
  "scan_line env now range' m sn =
     (if TrimSpace (logFieldString env (field m ''event'')) \<noteq> ''waf_block'' then sn
      else
        let sn1 = sn\<lparr>sn_Total := sn_Total sn + 1\<rparr> in
        case parseLogTS env (field m ''ts'') of
          None \<Rightarrow> sn1
        | Some ts \<Rightarrow>
            let sn2 = sn1\<lparr>sn_Seen := Some (case sn_Seen sn1 of None \<Rightarrow> (ts, ts)
                  | Some (old, new) \<Rightarrow> (if ts < old then ts else old, if new < ts then ts else new))\<rparr>;
                sn3 = (if \<not> ts < now - hour then sn2\<lparr>sn_Last1h := sn_Last1h sn2 + 1\<rparr> else sn2)
            in if ts < now - 24 * hour then count_hour ts range' sn3
               else count_hour ts range' (sn3\<lparr>sn_Last24h := sn_Last24h sn3 + 1,
                      sn_Rules := increment (normalizeStatsRuleID env (field m ''rule_id'')) (sn_Rules sn3),
                      sn_Paths := increment (normalizeStatsPath env (field m ''path'')) (sn_Paths sn3),
                      sn_Countries := increment (country_of m) (sn_Countries sn3)\<rparr>))"

definition file_stats :: "log_env \<Rightarrow> int \<Rightarrow> int \<Rightarrow> logLine option list \<Rightarrow> logsStatsResp" where
  \<comment> \<open>\<open>LogsStats\<close> without a database, once the lines are read\<close>
  "file_stats env now rangeHours lines =
     (let range' = statsHourlyRange now rangeHours; sn = fold (scan_line env now range') lines no_scan in
      \<lparr>ls_GeneratedAt = format_RFC3339Nano now, ls_ScannedLines = int (length lines), ls_RangeHours = rangeHours,
       ls_OldestScannedTS = (case sn_Seen sn of None \<Rightarrow> [] | Some (old, _) \<Rightarrow> format_RFC3339Nano old),
       ls_NewestScannedTS = (case sn_Seen sn of None \<Rightarrow> [] | Some (_, new) \<Rightarrow> format_RFC3339Nano new),
       ls_WAFBlock = \<lparr>wb_Last1h = sn_Last1h sn, wb_Last24h = sn_Last24h sn, wb_TotalInScan = sn_Total sn,
         wb_TopRuleIDs24h = topBuckets (sn_Rules sn) statsTopN, wb_TopPaths24h = topBuckets (sn_Paths sn) statsTopN,
         wb_TopCountries24h = topBuckets (sn_Countries sn) statsTopN,
         wb_SeriesHourly = buildHourlySeries (fst range') (snd range') (sn_Series sn)\<rparr>\<rparr>)"

end
