(* ===== verification/Log_Archive.thy ===== *)
theory Log_Archive
  imports Log_Files App_Config
begin

text \<open>
  The log file and its archives (\<open>handler/waf_log_archive.go\<close>): an event is appended to the active file, which is
  first moved into a compressed archive when it would grow too large; afterwards old archives are removed.

  The directory of the log maps names to files.  The compression is a parameter, and so is which accesses
  fail: one that prepares or writes the active file, one that writes an archive (which may leave a part of
  it), and the removals.
\<close>

type_synonym log_dir = "(string \<times> log_file) list"

record archive_env =
  ar_gzip :: "string \<Rightarrow> string"
  ar_appendFault :: "goerr option"                       \<comment> \<open>\<open>MkdirAll\<close>, \<open>OpenFile\<close> or \<open>Write\<close> of the active file\<close>
  ar_archiveFault :: "(goerr \<times> string option) option"      \<comment> \<open>the error, and the part of the archive that was written\<close>
  ar_removable :: "string \<Rightarrow> bool"

record append_times =
  at_rotate :: int
  at_write :: int
  at_prune :: int

definition removed :: "archive_env \<Rightarrow> string \<Rightarrow> log_dir \<Rightarrow> log_dir" where
  \<comment> \<open>\<open>_ = os.Remove(path)\<close>\<close>
  "removed env name dir = (if ar_removable env name then adel name dir else dir)"

definition append_bytes :: "string \<Rightarrow> int \<Rightarrow> string \<Rightarrow> log_dir \<Rightarrow> log_dir" where
  "append_bytes base now text dir =
     aput base ((case map_of dir base of None \<Rightarrow> [] | Some (raw, _) \<Rightarrow> raw) @ text, now) dir"

definition appendWAFEventRaw :: "archive_env \<Rightarrow> string \<Rightarrow> int \<Rightarrow> string result \<Rightarrow> log_dir \<Rightarrow> unit result \<times> log_dir" where
  \<comment> \<open>the marshalled event; the file is created before it is marshalled\<close>
  "appendWAFEventRaw env base now event dir =
     (case ar_appendFault env of
        Some e \<Rightarrow> (Inl e, dir)
      | None \<Rightarrow>
          (case event of
             Inl e \<Rightarrow> (Inl e, if map_of dir base = None then aput base ([], now) dir else dir)
           | Inr raw \<Rightarrow> (Inr (), append_bytes base now (raw @ [newline]) dir)))"

subsection \<open>Archives\<close>

definition archive_name :: "string \<Rightarrow> int \<Rightarrow> string" where
  "archive_name base now = base @ ''.'' @ Itoa now @ ''.gz''"

definition rotateWAFLogFile :: "archive_env \<Rightarrow> string \<Rightarrow> int \<Rightarrow> log_dir \<Rightarrow> unit result \<times> log_dir" where
  "rotateWAFLogFile env base now dir =
     (case map_of dir base of
        None \<Rightarrow> (Inr (), dir)
      | Some (raw, _) \<Rightarrow>
          (case ar_archiveFault env of
             Some (e, None) \<Rightarrow> (Inl e, dir)
           | Some (e, Some part) \<Rightarrow> (Inl e, aput (archive_name base now) (part, now) dir)
           | None \<Rightarrow>
               let dir1 = aput (archive_name base now) (ar_gzip env raw, now) dir
               in if ar_removable env base then (Inr (), adel base dir1)
                  else (err ''remove %s'' [base], dir1)))"

record archivedWAFLogFile =
  af_Name :: string
  af_Size :: int
  af_ModTime :: int
  af_Active :: bool

definition managed_log_file :: "string \<Rightarrow> string \<Rightarrow> bool" where
  "managed_log_file base name = (name = base \<or> HasPrefix name (base @ ''.''))"

definition listManagedWAFLogFiles :: "string \<Rightarrow> log_dir \<Rightarrow> archivedWAFLogFile list" where
  "listManagedWAFLogFiles base dir =
     map (\<lambda>(name, raw, modTime). \<lparr>af_Name = name, af_Size = int (length raw), af_ModTime = modTime, af_Active = (name = base)\<rparr>)
       (filter (\<lambda>(name, _). managed_log_file base name) dir)"

definition total_size :: "archivedWAFLogFile list \<Rightarrow> int" where
  "total_size files = (\<Sum>f\<leftarrow>files. af_Size f)"

definition older_file :: "archivedWAFLogFile \<Rightarrow> archivedWAFLogFile \<Rightarrow> bool" where
  "older_file a b = (if af_ModTime a = af_ModTime b then string_less (af_Name a) (af_Name b) else af_ModTime a < af_ModTime b)"

fun remove_oldest :: "archive_env \<Rightarrow> int \<Rightarrow> int \<Rightarrow> archivedWAFLogFile list \<Rightarrow> log_dir \<Rightarrow> log_dir" where
  "remove_oldest env limit bytes [] dir = dir"
| "remove_oldest env limit bytes (f # fs) dir =
     (if bytes \<le> limit then dir
      else if af_Active f then remove_oldest env limit bytes fs dir
      else remove_oldest env limit (bytes - af_Size f) fs (removed env (af_Name f) dir))"

definition expire_archives :: "archive_env \<Rightarrow> int \<Rightarrow> archivedWAFLogFile list \<Rightarrow> log_dir \<Rightarrow> log_dir" where
  "expire_archives env cutoff files dir =
     fold (\<lambda>f dir. if af_Active f then dir else if af_ModTime f < cutoff then removed env (af_Name f) dir else dir) files dir"

definition pruneWAFLogArchives :: "archive_env \<Rightarrow> storage_settings \<Rightarrow> string \<Rightarrow> int \<Rightarrow> log_dir \<Rightarrow> log_dir" where
  "pruneWAFLogArchives env sg base now dir =
     (let dir1 = (if 0 < ss_FileRetention sg
            then expire_archives env (now - ss_FileRetention sg) (listManagedWAFLogFiles base dir) dir else dir);
          files = listManagedWAFLogFiles base dir1;
          bytes = total_size files
      in if 0 < ss_FileMaxBytes sg \<and> ss_FileMaxBytes sg < bytes
         then remove_oldest env (ss_FileMaxBytes sg) bytes (sort_by older_file files) dir1 else dir1)"

subsection \<open>Appending an event\<close>

definition archive_Append ::
  "archive_env \<Rightarrow> storage_settings \<Rightarrow> string \<Rightarrow> append_times \<Rightarrow> string result \<Rightarrow> log_dir \<Rightarrow> unit result \<times> log_dir" where
  "archive_Append env sg base t event dir =
     (case event of
        Inl e \<Rightarrow> (Inl e, dir)
      | Inr raw \<Rightarrow>
          let line = raw @ [newline];
              full = (0 < ss_FileRotateBytes sg \<and> (case map_of dir base of None \<Rightarrow> False | Some (cur, _) \<Rightarrow>
                 cur \<noteq> [] \<and> ss_FileRotateBytes sg < int (length cur) + int (length line)))
          in case (if full then rotateWAFLogFile env base (at_rotate t) dir else (Inr (), dir)) of
               (Inl e, dir1) \<Rightarrow> (Inl e, dir1)
             | (Inr _, dir1) \<Rightarrow>
                 (case ar_appendFault env of
                    Some e \<Rightarrow> (Inl e, dir1)
                  | None \<Rightarrow> (Inr (), pruneWAFLogArchives env sg base (at_prune t) (append_bytes base (at_write t) line dir1))))"

definition appendWAFEvent ::
  "archive_env \<Rightarrow> storage_settings \<Rightarrow> string \<Rightarrow> append_times \<Rightarrow> string result \<Rightarrow> log_dir \<Rightarrow> unit result \<times> log_dir" where
  "appendWAFEvent env sg base t event dir =
     (if ss_Backend sg \<noteq> ''file'' then appendWAFEventRaw env base (at_write t) event dir
      else archive_Append env sg base t event dir)"

subsection \<open>Removing archives\<close>

lemma managed_files:
  "f \<in> set (listManagedWAFLogFiles base dir) \<longleftrightarrow>
     (\<exists>raw. (af_Name f, raw, af_ModTime f) \<in> set dir \<and> af_Size f = int (length raw)) \<and> managed_log_file base (af_Name f)
       \<and> af_Active f = (af_Name f = base)"
  by (cases f) (force simp: listManagedWAFLogFiles_def)

lemma managed_names: "map af_Name (listManagedWAFLogFiles base dir) = filter (managed_log_file base) (map fst dir)"
  by (induction dir) (auto simp: listManagedWAFLogFiles_def)

lemma map_of_removed: "map_of (removed env n dir) = (if ar_removable env n then (map_of dir)(n := None) else map_of dir)"
  by (simp add: removed_def)

lemma distinct_removed: "distinct (map fst dir) \<Longrightarrow> distinct (map fst (removed env n dir))"
  by (simp add: removed_def distinct_adel)

end
