(* ===== verification/Log_Archive_Correct.thy ===== *)
theory Log_Archive_Correct
  imports Log_Archive
begin

text \<open>
  Correctness of the log archives: what is removed and when it stops, that rotation loses no event, and which
  files besides the archives are removed.
\<close>

subsection \<open>What is removed\<close>

interpretation oldest: sort_order older_file af_Name
  by unfold_locales (auto simp: older_file_def split: if_splits intro: string_less_trans dest: string_less_total)

definition files_without :: "string set \<Rightarrow> log_dir \<Rightarrow> log_dir" where
  "files_without names dir = filter (\<lambda>(n, _). n \<notin> names) dir"

lemma without_simps [simp]:
  "files_without {} dir = dir"
  "adel n dir = files_without {n} dir"
  "files_without A (files_without B dir) = files_without (A \<union> B) dir"
  by (auto simp: files_without_def adel_def intro!: filter_cong)

lemma map_of_without: "map_of (files_without A dir) n = (if n \<in> A then None else map_of dir n)"
  by (induction dir) (auto simp: files_without_def)

lemma distinct_without: "distinct (map fst dir) \<Longrightarrow> distinct (map fst (files_without A dir))"
  by (simp add: files_without_def distinct_map_filter)

lemma managed_without: "listManagedWAFLogFiles base (files_without A dir) = filter (\<lambda>f. af_Name f \<notin> A) (listManagedWAFLogFiles base dir)"
  by (induction dir) (auto simp: files_without_def listManagedWAFLogFiles_def)

abbreviation archives_of :: "archivedWAFLogFile list \<Rightarrow> archivedWAFLogFile list" where
  "archives_of fs \<equiv> filter (\<lambda>f. \<not> af_Active f) fs"

lemma remove_oldest_split:
  assumes "\<forall>n. ar_removable env n"
  obtains pre post where "fs = pre @ post"
    "remove_oldest env limit b fs dir = files_without (af_Name ` set (archives_of pre)) dir"
    "post = [] \<or> b - total_size (archives_of pre) \<le> limit"
proof -
  have "\<exists>pre post. fs = pre @ post \<and> remove_oldest env limit b fs dir = files_without (af_Name ` set (archives_of pre)) dir
      \<and> (post = [] \<or> b - total_size (archives_of pre) \<le> limit)"
  proof (induction fs arbitrary: b dir)
    case (Cons f fs)
    show ?case
    proof (cases "b \<le> limit")
      case True
      then show ?thesis by (intro exI [of _ "[]"] exI [of _ "f # fs"]) (simp add: total_size_def)
    next
      case False
      show ?thesis
      proof (cases "af_Active f")
        case True
        from Cons.IH [of b dir] obtain pre post where "fs = pre @ post"
          "remove_oldest env limit b fs dir = files_without (af_Name ` set (archives_of pre)) dir"
          "post = [] \<or> b - total_size (archives_of pre) \<le> limit" by blast
        with True False show ?thesis by (intro exI [of _ "f # pre"] exI [of _ post]) simp
      next
        case archive: False
        from Cons.IH [of "b - af_Size f" "removed env (af_Name f) dir"] obtain pre post where "fs = pre @ post"
          "remove_oldest env limit (b - af_Size f) fs (removed env (af_Name f) dir)
             = files_without (af_Name ` set (archives_of pre)) (removed env (af_Name f) dir)"
          "post = [] \<or> b - af_Size f - total_size (archives_of pre) \<le> limit" by blast
        with archive False assms show ?thesis
          by (intro exI [of _ "f # pre"] exI [of _ post]) (simp add: removed_def total_size_def algebra_simps)
      qed
    qed
  qed (simp add: total_size_def)
  with that show ?thesis by blast
qed

lemma expire_archives_without:
  assumes "\<forall>n. ar_removable env n"
  shows "expire_archives env cutoff fs dir = files_without (af_Name ` {f \<in> set (archives_of fs). af_ModTime f < cutoff}) dir"
proof (induction fs arbitrary: dir)
  case (Cons f fs)
  have split: "{g \<in> set (archives_of (f # fs)). af_ModTime g < cutoff}
    = (if \<not> af_Active f \<and> af_ModTime f < cutoff then {f} else {}) \<union> {g \<in> set (archives_of fs). af_ModTime g < cutoff}" by auto
  have step: "expire_archives env cutoff (f # fs) dir
    = expire_archives env cutoff fs (if \<not> af_Active f \<and> af_ModTime f < cutoff then files_without {af_Name f} dir else dir)"
    using assms by (simp add: expire_archives_def removed_def)
  show ?case
    unfolding step split Cons.IH by (cases "\<not> af_Active f \<and> af_ModTime f < cutoff") (auto simp: insert_commute Un_commute)
qed (simp add: expire_archives_def)

lemma total_size_filter: "total_size (filter P fs) = total_size fs - total_size (filter (\<lambda>f. \<not> P f) fs)"
  by (induction fs) (auto simp: total_size_def)

definition expired :: "storage_settings \<Rightarrow> string \<Rightarrow> int \<Rightarrow> log_dir \<Rightarrow> archivedWAFLogFile set" where
  "expired sg base now dir =
     (if 0 < ss_FileRetention sg then {f \<in> set (archives_of (listManagedWAFLogFiles base dir)). af_ModTime f < now - ss_FileRetention sg} else {})"

text \<open>Pruning removes the archives past their time and then the oldest ones until the rest fits or none is left.\<close>

lemma pruned:
  assumes all: "\<forall>n. ar_removable env n" and dist: "distinct (map fst dir)" and limit: "0 < ss_FileMaxBytes sg"
  obtains R where "pruneWAFLogArchives env sg base now dir = files_without (af_Name ` (expired sg base now dir \<union> R)) dir"
    "R \<subseteq> set (archives_of (listManagedWAFLogFiles base dir))"
    "\<And>f g. f \<in> R \<Longrightarrow> g \<in> set (archives_of (listManagedWAFLogFiles base dir)) \<Longrightarrow> g \<notin> expired sg base now dir \<union> R \<Longrightarrow> af_ModTime f \<le> af_ModTime g"
    "total_size (listManagedWAFLogFiles base (pruneWAFLogArchives env sg base now dir)) \<le> ss_FileMaxBytes sg
      \<or> archives_of (listManagedWAFLogFiles base (pruneWAFLogArchives env sg base now dir)) = []"
proof -
  define fs where "fs = listManagedWAFLogFiles base dir"
  define d1 where "d1 = files_without (af_Name ` expired sg base now dir) dir"
  have d1: "(if 0 < ss_FileRetention sg then expire_archives env (now - ss_FileRetention sg) fs dir else dir) = d1"
    by (simp add: d1_def expired_def fs_def expire_archives_without [OF all])
  define l1 where "l1 = listManagedWAFLogFiles base d1"
  have dn: "distinct (map af_Name fs)" by (simp add: fs_def managed_names dist)
  have l1: "l1 = filter (\<lambda>f. f \<notin> expired sg base now dir) fs"
  proof -
    have "af_Name f \<in> af_Name ` expired sg base now dir \<longleftrightarrow> f \<in> expired sg base now dir" if "f \<in> set fs" for f
      using that dn by (auto simp: expired_def fs_def distinct_map inj_on_def split: if_splits)
    then show ?thesis by (simp add: l1_def d1_def managed_without fs_def [symmetric] cong: filter_cong)
  qed
  show thesis
  proof (cases "ss_FileMaxBytes sg < total_size l1")
    case False
    then have res: "pruneWAFLogArchives env sg base now dir = d1"
      by (simp only: pruneWAFLogArchives_def Let_def fs_def [symmetric] d1 l1_def [symmetric] simp_thms if_False)
    from False show thesis by (intro that [of "{}"]) (simp_all add: res l1_def [symmetric], simp add: d1_def)
  next
    case True
    have res: "pruneWAFLogArchives env sg base now dir = remove_oldest env (ss_FileMaxBytes sg) (total_size l1) (sort_by older_file l1) d1"
      using True limit by (simp only: pruneWAFLogArchives_def Let_def fs_def [symmetric] d1 l1_def [symmetric] simp_thms if_True)
    obtain pre post where sp: "sort_by older_file l1 = pre @ post"
      "pruneWAFLogArchives env sg base now dir = files_without (af_Name ` set (archives_of pre)) d1"
      "post = [] \<or> total_size l1 - total_size (archives_of pre) \<le> ss_FileMaxBytes sg"
      using remove_oldest_split [OF all] res by metis
    define R where "R = set (archives_of pre)"
    have dl: "distinct (map af_Name l1)" using dn by (simp add: l1 distinct_map_filter)
    have set_l1: "set l1 = set pre \<union> set post" using arg_cong [OF sp(1), of set] by (simp add: set_sort_by)
    have sorted: "sorted_wrt older_file (pre @ post)" using oldest.sorted_sort_by [OF dl] sp(1) by simp
    have R: "R \<subseteq> set l1" "R \<subseteq> set (archives_of fs)" using set_l1 by (auto simp: R_def l1)
    have left: "listManagedWAFLogFiles base (pruneWAFLogArchives env sg base now dir) = filter (\<lambda>f. f \<notin> R) l1"
    proof -
      have "af_Name f \<in> af_Name ` R \<longleftrightarrow> f \<in> R" if "f \<in> set l1" for f
        using that dl R(1) by (auto simp: distinct_map inj_on_def)
      then show ?thesis unfolding sp(2) R_def [symmetric] managed_without l1_def [symmetric] by (intro filter_cong) auto
    qed
    have "total_size (filter (\<lambda>f. f \<in> R) l1) = total_size (archives_of pre)"
    proof -
      have "total_size (filter (\<lambda>f. f \<in> R) l1) = (\<Sum>f\<in>R. af_Size f)"
        using R(1) dl by (auto simp: total_size_def sum_list_distinct_conv_sum_set distinct_map intro!: sum.cong)
      moreover have "distinct pre" using oldest.sorted_sort_by [OF dl] sp(1) dl
        by (metis distinct_append distinct_map distinct_sort_by)
      ultimately show ?thesis by (simp add: R_def total_size_def sum_list_distinct_conv_sum_set)
    qed
    then have size: "total_size (filter (\<lambda>f. f \<notin> R) l1) = total_size l1 - total_size (archives_of pre)"
      by (subst total_size_filter) simp
    show thesis
    proof (rule that [of R])
      show "pruneWAFLogArchives env sg base now dir = files_without (af_Name ` (expired sg base now dir \<union> R)) dir"
        by (simp add: sp(2) d1_def R_def image_Un Un_commute)
      show "R \<subseteq> set (archives_of (listManagedWAFLogFiles base dir))" using R(2) by (simp add: fs_def)
      show "af_ModTime f \<le> af_ModTime g"
        if "f \<in> R" "g \<in> set (archives_of (listManagedWAFLogFiles base dir))" "g \<notin> expired sg base now dir \<union> R" for f g
      proof -
        have "g \<in> set l1" using that(2,3) by (simp add: l1 fs_def)
        then have "g \<in> set post" using that set_l1 by (auto simp: R_def)
        with that(1) sorted have "older_file f g" by (auto simp: R_def sorted_wrt_append)
        then show ?thesis by (auto simp: older_file_def split: if_splits)
      qed
      show "total_size (listManagedWAFLogFiles base (pruneWAFLogArchives env sg base now dir)) \<le> ss_FileMaxBytes sg
          \<or> archives_of (listManagedWAFLogFiles base (pruneWAFLogArchives env sg base now dir)) = []"
      proof (cases "post = []")
        case True
        then have "archives_of (filter (\<lambda>f. f \<notin> R) l1) = []" using set_l1 by (auto simp: R_def filter_empty_conv)
        then show ?thesis unfolding left by simp
      next
        case False
        with sp(3) show ?thesis unfolding left size by simp
      qed
    qed
  qed
qed

text \<open>An accepted append writes one directory, the rotated one with the event, and prunes it.\<close>

lemma appended:
  assumes all: "\<forall>n. ar_removable env n" and dist: "distinct (map fst dir)"
    and run: "archive_Append env sg base t (Inr raw) dir = (Inr (), dir')"
  obtains d where "dir' = pruneWAFLogArchives env sg base (at_prune t) d" "distinct (map fst d)"
    "\<exists>cur. map_of d base = Some (cur @ raw @ [newline], at_write t)"
    "\<And>n. n \<noteq> base \<Longrightarrow> n \<noteq> archive_name base (at_rotate t) \<Longrightarrow> map_of d n = map_of dir n"
proof -
  define line where "line = raw @ [newline]"
  obtain d1 where d1: "dir' = pruneWAFLogArchives env sg base (at_prune t) (append_bytes base (at_write t) line d1)"
    "d1 = dir \<or> (\<exists>cur m. map_of dir base = Some (cur, m) \<and> d1 = adel base (aput (archive_name base (at_rotate t)) (ar_gzip env cur, at_rotate t) dir))"
    using run all unfolding archive_Append_def rotateWAFLogFile_def line_def [symmetric]
    by (fastforce simp: Let_def line_def split: if_splits option.splits prod.splits)
  show thesis
  proof (rule that [OF d1(1)])
    show "distinct (map fst (append_bytes base (at_write t) line d1))"
      using d1(2) dist by (auto simp: append_bytes_def distinct_aput distinct_without)
    show "\<exists>cur. map_of (append_bytes base (at_write t) line d1) base = Some (cur @ raw @ [newline], at_write t)"
      by (simp add: append_bytes_def line_def)
    show "map_of (append_bytes base (at_write t) line d1) n = map_of dir n"
      if "n \<noteq> base" "n \<noteq> archive_name base (at_rotate t)" for n
      using that d1(2) by (auto simp: append_bytes_def map_of_without)
  qed
qed

text \<open>What pruning leaves: nothing is changed, and what is removed is past its time or older than the rest.\<close>

lemma pruned_entries:
  assumes all: "\<forall>n. ar_removable env n" and dist: "distinct (map fst dir)" and limit: "0 < ss_FileMaxBytes sg"
    and dir': "dir' = pruneWAFLogArchives env sg base now dir"
  shows "map_of dir' n = map_of dir n \<or> map_of dir' n = None \<and> managed_log_file base n \<and> n \<noteq> base"
    and "map_of dir n = Some (old, m) \<Longrightarrow> map_of dir' n = None \<Longrightarrow>
      0 < ss_FileRetention sg \<and> m < now - ss_FileRetention sg
      \<or> (\<forall>f\<in>set (archives_of (listManagedWAFLogFiles base dir')). m \<le> af_ModTime f)"
    and "total_size (listManagedWAFLogFiles base dir') \<le> ss_FileMaxBytes sg \<or> archives_of (listManagedWAFLogFiles base dir') = []"
proof -
  define E where "E = expired sg base now dir"
  obtain R where R: "dir' = files_without (af_Name ` (E \<union> R)) dir"
    "R \<subseteq> set (archives_of (listManagedWAFLogFiles base dir))"
    "\<And>f g. f \<in> R \<Longrightarrow> g \<in> set (archives_of (listManagedWAFLogFiles base dir)) \<Longrightarrow> g \<notin> E \<union> R \<Longrightarrow> af_ModTime f \<le> af_ModTime g"
    "total_size (listManagedWAFLogFiles base dir') \<le> ss_FileMaxBytes sg \<or> archives_of (listManagedWAFLogFiles base dir') = []"
    by (rule pruned [OF all dist limit, of base now, folded E_def dir']) (rule that)
  have G: "E \<union> R \<subseteq> set (archives_of (listManagedWAFLogFiles base dir))"
    using R(2) by (auto simp: E_def expired_def split: if_splits)
  have gone: "map_of dir' n = (if n \<in> af_Name ` (E \<union> R) then None else map_of dir n)" for n by (simp add: R(1) map_of_without)
  have name: "managed_log_file base n \<and> n \<noteq> base" if "n \<in> af_Name ` (E \<union> R)" for n
    using that subsetD [OF G] by (fastforce simp: managed_files)
  show "map_of dir' n = map_of dir n \<or> map_of dir' n = None \<and> managed_log_file base n \<and> n \<noteq> base"
    using gone [of n] name [of n] by (auto split: if_splits)
  show "0 < ss_FileRetention sg \<and> m < now - ss_FileRetention sg
      \<or> (\<forall>f\<in>set (archives_of (listManagedWAFLogFiles base dir')). m \<le> af_ModTime f)"
    if here: "map_of dir n = Some (old, m)" and away: "map_of dir' n = None"
  proof -
    obtain f where f: "f \<in> E \<union> R" "af_Name f = n" using here away gone [of n] by (auto split: if_splits)
    then have "\<exists>raw. (n, raw, af_ModTime f) \<in> set dir" using subsetD [OF G f(1)] by (auto simp: managed_files)
    with here dist have m: "m = af_ModTime f" by (metis map_of_eq_Some_iff option.inject prod.inject)
    have "g \<in> set (archives_of (listManagedWAFLogFiles base dir)) \<and> g \<notin> E \<union> R"
      if "g \<in> set (archives_of (listManagedWAFLogFiles base dir'))" for g
      using that by (auto simp: R(1) managed_without)
    then have "f \<in> R \<Longrightarrow> \<forall>g\<in>set (archives_of (listManagedWAFLogFiles base dir')). m \<le> af_ModTime g" using R(3) m by blast
    moreover have "f \<in> E \<Longrightarrow> 0 < ss_FileRetention sg \<and> m < now - ss_FileRetention sg"
      by (auto simp: m E_def expired_def split: if_splits)
    ultimately show ?thesis using f(1) by blast
  qed
  show "total_size (listManagedWAFLogFiles base dir') \<le> ss_FileMaxBytes sg \<or> archives_of (listManagedWAFLogFiles base dir') = []"
    by (rule R(4))
qed

text \<open>
  C39: After an accepted append, with every archive removable and a limit set, the files of the log fit the limit or no
  archive is left; the event ends the active file; no archive that was removed is newer than one that was
  kept, except those past their time; the archives kept are unchanged, and so is every other file.
\<close>

theorem archives_fit_the_limit:
  assumes all: "\<forall>n. ar_removable env n" and dist: "distinct (map fst dir)" and limit: "0 < ss_FileMaxBytes sg"
    and run: "archive_Append env sg base t (Inr raw) dir = (Inr (), dir')"
  shows "(total_size (listManagedWAFLogFiles base dir') \<le> ss_FileMaxBytes sg \<or> archives_of (listManagedWAFLogFiles base dir') = [])
    \<and> (\<exists>cur. map_of dir' base = Some (cur @ raw @ [newline], at_write t))
    \<and> (\<forall>n. \<not> managed_log_file base n \<longrightarrow> map_of dir' n = map_of dir n)
    \<and> (\<forall>n\<in>dom (map_of dir'). n = base \<or> n = archive_name base (at_rotate t) \<or> map_of dir' n = map_of dir n)
    \<and> (\<forall>n old m. map_of dir n = Some (old, m) \<and> n \<noteq> base \<and> map_of dir' n = None \<longrightarrow>
         n = archive_name base (at_rotate t) \<or> (0 < ss_FileRetention sg \<and> m < at_prune t - ss_FileRetention sg)
         \<or> (\<forall>f\<in>set (archives_of (listManagedWAFLogFiles base dir')). m \<le> af_ModTime f))"
proof -
  obtain d where d: "dir' = pruneWAFLogArchives env sg base (at_prune t) d" "distinct (map fst d)"
    "\<exists>cur. map_of d base = Some (cur @ raw @ [newline], at_write t)"
    "\<And>n. n \<noteq> base \<Longrightarrow> n \<noteq> archive_name base (at_rotate t) \<Longrightarrow> map_of d n = map_of dir n"
    by (rule appended [OF all dist run]) (rule that)
  note left = pruned_entries [OF all d(2) limit d(1)]
  have name: "managed_log_file base (archive_name base x)" "managed_log_file base base" for x
    by (simp_all add: managed_log_file_def archive_name_def HasPrefix_iff)
  have "map_of dir' n = map_of dir n" if "\<not> managed_log_file base n" for n
    using that left(1) [of n] d(4) [of n] name by metis
  moreover have "\<exists>cur. map_of dir' base = Some (cur @ raw @ [newline], at_write t)" using left(1) [of base] d(3) by auto
  moreover have "n = base \<or> n = archive_name base (at_rotate t) \<or> map_of dir' n = map_of dir n" if "n \<in> dom (map_of dir')" for n
    using that left(1) [of n] d(4) [of n] by (cases "n = archive_name base (at_rotate t)"; cases "n = base") auto
  moreover have "n = archive_name base (at_rotate t) \<or> (0 < ss_FileRetention sg \<and> m < at_prune t - ss_FileRetention sg)
      \<or> (\<forall>f\<in>set (archives_of (listManagedWAFLogFiles base dir')). m \<le> af_ModTime f)"
    if "map_of dir n = Some (old, m)" "n \<noteq> base" "map_of dir' n = None" for n old m
    using left(2) [of n old m] d(4) [of n] that by auto
  ultimately show ?thesis using left(3) by blast
qed

subsection \<open>Rotation\<close>

abbreviation file_time :: "string \<times> log_file \<Rightarrow> int" where
  "file_time \<equiv> \<lambda>(name, raw, modTime). modTime"

definition other_files :: "string \<Rightarrow> log_dir \<Rightarrow> log_dir" where
  "other_files base dir = filter (\<lambda>(n, _). n \<noteq> base) dir"

definition log_text :: "(string \<Rightarrow> string) \<Rightarrow> string \<Rightarrow> log_dir \<Rightarrow> string" where
  \<comment> \<open>the archives in the order of their times, then the active file\<close>
  "log_text gunzip base dir =
     concat (map (\<lambda>(name, raw, _). gunzip raw) (sort_key file_time (other_files base dir)))
       @ (case map_of dir base of None \<Rightarrow> [] | Some (raw, _) \<Rightarrow> raw)"

lemma other_files_simps [simp]:
  "other_files base [] = []"
  "other_files base (files_without {base} dir) = other_files base dir"
  "other_files base (aput base v dir) = other_files base dir"
  by (simp_all add: other_files_def files_without_def) (induction base v dir rule: aput.induct, auto)

lemma archive_name_inject: "0 \<le> x \<Longrightarrow> 0 \<le> y \<Longrightarrow> archive_name base x = archive_name base y \<longleftrightarrow> x = y"
proof
  assume x: "0 \<le> x" "0 \<le> y" and "archive_name base x = archive_name base y"
  then have "Itoa x = Itoa y" by (simp add: archive_name_def)
  then have "digits_of (nat x) = digits_of (nat y)" using x by (simp add: Itoa_def split: if_splits)
  then have "nat x = nat y" by (metis digits_val_digits_of)
  with x show "x = y" by simp
qed simp

text \<open>What holds between appends: every other file is an archive named after its instant, in order, all before \<open>now\<close>.\<close>

definition rotated :: "string \<Rightarrow> int \<Rightarrow> log_dir \<Rightarrow> bool" where
  "rotated base now dir \<longleftrightarrow> distinct (map fst dir) \<and> sorted (map file_time (other_files base dir))
     \<and> (\<forall>(n, raw, m)\<in>set (other_files base dir). n = archive_name base m \<and> 0 \<le> m \<and> m < now)"

lemma rotation_keeps_text:
  assumes "rotated base now dir" "0 \<le> now" "\<forall>x. gunzip (ar_gzip env x) = x" "map_of dir base = Some (raw, m)"
  defines "dir' \<equiv> adel base (aput (archive_name base now) (ar_gzip env raw, now) dir)"
  shows "rotated base (now + 1) dir'" "log_text gunzip base dir' = log_text gunzip base dir"
proof -
  have other: "archive_name base now \<noteq> base" by (simp add: archive_name_def)
  have "archive_name base now \<notin> fst ` set dir"
  proof
    assume "archive_name base now \<in> fst ` set dir"
    then obtain raw' m' where "(archive_name base now, raw', m') \<in> set dir" by auto
    with assms(1) other have "archive_name base now = archive_name base m' \<and> 0 \<le> m' \<and> m' < now"
      by (fastforce simp: rotated_def other_files_def)
    with assms(2) show False using archive_name_inject [of now m' base] by simp
  qed
  then have d: "dir' = files_without {base} (dir @ [(archive_name base now, ar_gzip env raw, now)])" by (simp add: dir'_def aput_fresh)
  have dist: "distinct (map fst dir')"
    unfolding d using \<open>archive_name base now \<notin> fst ` set dir\<close> assms(1) by (intro distinct_without) (simp add: rotated_def)
  have files: "other_files base dir' = other_files base dir @ [(archive_name base now, ar_gzip env raw, now)]"
    unfolding d other_files_simps using other by (simp add: other_files_def)
  have sorted: "sorted (map file_time (other_files base dir'))"
    unfolding files using assms(1) by (fastforce simp: rotated_def sorted_append)
  show "rotated base (now + 1) dir'"
    unfolding rotated_def using dist sorted assms(1,2) by (fastforce simp: files rotated_def)
  have none: "map_of dir' base = None" unfolding d by (simp add: map_of_without)
  have "sorted (map file_time (other_files base dir))" using assms(1) by (simp add: rotated_def)
  with sorted show "log_text gunzip base dir' = log_text gunzip base dir"
    using none assms(3,4) by (simp add: log_text_def sort_key_id_if_sorted) (simp add: files)
qed

lemma append_bytes_text: "log_text gunzip base (append_bytes base now text dir) = log_text gunzip base dir @ text"
  by (simp add: log_text_def append_bytes_def split: option.split)

lemma append_bytes_rotated: "rotated base now dir \<Longrightarrow> rotated base now (append_bytes base m text dir)"
  by (simp add: rotated_def append_bytes_def distinct_aput)

lemma append_step:
  assumes "rotated base now dir" "now \<le> at_rotate t" "0 \<le> at_rotate t" "\<forall>x. gunzip (ar_gzip env x) = x"
    and "ar_appendFault env = None" "ar_archiveFault env = None" "\<forall>n. ar_removable env n"
    and "ss_Backend sg = ''file''" "ss_FileMaxBytes sg \<le> 0" "ss_FileRetention sg \<le> 0"
  obtains dir' where "appendWAFEvent env sg base t (Inr raw) dir = (Inr (), dir')" "rotated base (at_rotate t + 1) dir'"
    "log_text gunzip base dir' = log_text gunzip base dir @ raw @ [newline]"
proof -
  have later: "rotated base (at_rotate t) dir" using assms(1,2) by (fastforce simp: rotated_def)
  have prune: "pruneWAFLogArchives env sg base n d = d" for n d using assms(9,10) by (simp add: pruneWAFLogArchives_def)
  obtain d1 where d1: "appendWAFEvent env sg base t (Inr raw) dir = (Inr (), append_bytes base (at_write t) (raw @ [newline]) d1)"
    "rotated base (at_rotate t + 1) d1" "log_text gunzip base d1 = log_text gunzip base dir"
  proof (cases "0 < ss_FileRotateBytes sg \<and> (case map_of dir base of None \<Rightarrow> False | Some (cur, _) \<Rightarrow>
      cur \<noteq> [] \<and> ss_FileRotateBytes sg < int (length cur) + int (length (raw @ [newline])))")
    case True
    then obtain cur m where cur: "map_of dir base = Some (cur, m)" by (auto split: option.splits)
    show thesis
    proof (rule that)
      show "appendWAFEvent env sg base t (Inr raw) dir
          = (Inr (), append_bytes base (at_write t) (raw @ [newline]) (adel base (aput (archive_name base (at_rotate t)) (ar_gzip env cur, at_rotate t) dir)))"
        using True assms(5-8) by (simp add: appendWAFEvent_def archive_Append_def rotateWAFLogFile_def cur prune Let_def)
    qed (use rotation_keeps_text [OF later assms(3,4) cur] in simp_all)
  next
    case False
    show thesis
    proof (rule that)
      show "appendWAFEvent env sg base t (Inr raw) dir = (Inr (), append_bytes base (at_write t) (raw @ [newline]) dir)"
        by (simp only: appendWAFEvent_def archive_Append_def Let_def sum.case False if_False prod.case assms(5,8) option.case prune simp_thms)
    qed (use later in \<open>fastforce simp: rotated_def\<close>, rule refl)
  qed
  with that show thesis by (simp add: append_bytes_text append_bytes_rotated)
qed

text \<open>
  C40: As long as nothing is removed and no access fails, the archives in the order of their times followed by the
  active file are the events in the order they were appended, wherever the log was rotated.
\<close>

theorem rotation_loses_no_event:
  assumes "\<forall>x. gunzip (ar_gzip env x) = x" "ar_appendFault env = None" "ar_archiveFault env = None" "\<forall>n. ar_removable env n"
    and "ss_Backend sg = ''file''" "ss_FileMaxBytes sg \<le> 0" "ss_FileRetention sg \<le> 0"
    and "sorted_wrt (<) (map (\<lambda>(t, _). at_rotate t) events)" "\<forall>(t, _)\<in>set events. 0 \<le> at_rotate t"
  shows "log_text gunzip base (fold (\<lambda>(t, raw) dir. snd (appendWAFEvent env sg base t (Inr raw) dir)) events [])
    = concat (map (\<lambda>(_, raw). raw @ [newline]) events)"
proof -
  have "log_text gunzip base (fold (\<lambda>(t, raw) dir. snd (appendWAFEvent env sg base t (Inr raw) dir)) events dir)
      = log_text gunzip base dir @ concat (map (\<lambda>(_, raw). raw @ [newline]) events)"
    if "rotated base now dir" "\<forall>(t, _)\<in>set events. now \<le> at_rotate t" for now dir
    using that assms(8,9)
  proof (induction events arbitrary: now dir)
    case (Cons x events)
    obtain t raw where x: "x = (t, raw)" by (cases x)
    obtain dir' where d: "appendWAFEvent env sg base t (Inr raw) dir = (Inr (), dir')" "rotated base (at_rotate t + 1) dir'"
      "log_text gunzip base dir' = log_text gunzip base dir @ raw @ [newline]"
      by (rule append_step [OF Cons.prems(1) _ _ assms(1-7), where t = t and raw = raw]) (use Cons.prems(2,4) x in auto)
    have "\<forall>(t', _)\<in>set events. at_rotate t + 1 \<le> at_rotate t'" using Cons.prems(3) x by fastforce
    with Cons.IH [OF d(2)] Cons.prems(3,4) show ?case by (simp add: x d(1,3))
  qed simp
  from this [of 0 "[]"] assms(9) show ?thesis by (simp add: rotated_def log_text_def)
qed

text \<open>
  Every file whose name begins with that of the log and a dot counts as an archive, so a copy an administrator
  keeps beside the log is removed with the archives past their time.
\<close>

theorem copy_beside_the_log_is_removed:
  assumes "\<forall>n. ar_removable env n" "ss_FileMaxBytes sg \<le> 0" "0 < ss_FileRetention sg" "m < now - ss_FileRetention sg"
    and "map_of dir (base @ ''.saved'') = Some (raw, m)" "distinct (map fst dir)"
  shows "map_of (pruneWAFLogArchives env sg base now dir) (base @ ''.saved'') = None"
proof -
  have "(base @ ''.saved'', raw, m) \<in> set dir" using assms(5) by (rule map_of_SomeD)
  then have "\<lparr>af_Name = base @ ''.saved'', af_Size = int (length raw), af_ModTime = m, af_Active = False\<rparr>
      \<in> set (listManagedWAFLogFiles base dir)"
    by (auto simp: managed_files managed_log_file_def HasPrefix_iff)
  then have "base @ ''.saved'' \<in> af_Name ` {f \<in> set (archives_of (listManagedWAFLogFiles base dir)). af_ModTime f < now - ss_FileRetention sg}"
    using assms(4) by force
  then show ?thesis
    using assms(2,3) by (simp add: pruneWAFLogArchives_def expire_archives_without [OF assms(1)] map_of_without Let_def)
qed

subsection \<open>Witnesses\<close>

definition demo_archive :: archive_env where
  "demo_archive = \<lparr>ar_gzip = (\<lambda>x. x), ar_appendFault = None, ar_archiveFault = None, ar_removable = (\<lambda>_. True)\<rparr>"

definition demo_limits :: "int \<Rightarrow> int \<Rightarrow> storage_settings" where
  "demo_limits rot most = \<lparr>ss_Backend = ''file'', ss_DBEnabled = False, ss_DBDriver = [], ss_DBDSN = [], ss_DBPath = [],
     ss_DBRetentionDays = 0, ss_DBSyncInterval = 0, ss_FileRotateBytes = rot, ss_FileMaxBytes = most, ss_FileRetention = 0\<rparr>"

definition demo_times :: "int \<Rightarrow> append_times" where
  "demo_times t = \<lparr>at_rotate = t, at_write = t, at_prune = t\<rparr>"

theorem archives_fit_the_limit_witness:
  "\<exists>dir'. archive_Append demo_archive (demo_limits 0 3) ''l'' (demo_times 9) (Inr ''a'') [(''l.1.gz'', ''old'', 1)] = (Inr (), dir')
    \<and> (total_size (listManagedWAFLogFiles ''l'' dir') \<le> 3 \<or> archives_of (listManagedWAFLogFiles ''l'' dir') = [])"
proof -
  obtain dir' where run: "archive_Append demo_archive (demo_limits 0 3) ''l'' (demo_times 9) (Inr ''a'') [(''l.1.gz'', ''old'', 1)] = (Inr (), dir')"
    by (simp add: archive_Append_def demo_archive_def demo_limits_def)
  then show ?thesis
    using archives_fit_the_limit [OF _ _ _ run] by (simp add: demo_archive_def demo_limits_def)
qed

theorem rotation_loses_no_event_witness:
  "log_text (\<lambda>x. x) ''l'' (fold (\<lambda>(t, raw) dir. snd (appendWAFEvent demo_archive (demo_limits 1 0) ''l'' t (Inr raw) dir))
       [(demo_times 1, ''a''), (demo_times 2, ''b'')] []) = ''a'' @ newline # ''b'' @ [newline]"
  using rotation_loses_no_event [of "\<lambda>x. x" demo_archive "demo_limits 1 0" "[(demo_times 1, ''a''), (demo_times 2, ''b'')]" "''l''"]
  by (simp add: demo_archive_def demo_limits_def demo_times_def)

end
