(* ===== verification/Log_Store.thy ===== *)
theory Log_Store
  imports Log_Files
begin

text \<open>
  The log of security events in the database (\<open>handler/logs_db.go\<close>): the lines of the log file become rows of
  the table \<open>waf_events\<close>, and pages, download and statistics are queries over it.

  The table is the list of its rows by \<open>id\<close>.  A statement is modelled by what it does to that list, with the
  text comparison of SQLite; \<open>db_Faults\<close> says which accesses fail, as for the configuration blobs.  A
  synchronisation is one transaction: a failing access leaves both tables.
\<close>

record waf_row =
  we_Event :: string
  we_TsUnix :: int
  we_Ts :: string
  we_RuleID :: string
  we_Path :: string
  we_Country :: string
  we_Status :: int
  we_ReqID :: string
  we_Method :: string
  we_MatchedVariable :: string
  we_MatchedValue :: string
  we_RawJSON :: string
  we_LineHash :: string

record logIngestState =
  ig_Offset :: int
  ig_Size :: int
  ig_ModTimeNS :: int

record wafEventStore =
  db_Rows :: "waf_row list"
  db_Ingest :: "logIngestState option"
  db_RetentionDays :: int
  db_Faults :: "(goerr option) list"

definition db_access :: "(wafEventStore \<Rightarrow> 'a \<times> wafEventStore) \<Rightarrow> wafEventStore \<Rightarrow> 'a result \<times> wafEventStore" where
  "db_access f s = (case db_Faults s of
       [] \<Rightarrow> (case f s of (x, s') \<Rightarrow> (Inr x, s'))
     | None # fs \<Rightarrow> (case f (s\<lparr>db_Faults := fs\<rparr>) of (x, s') \<Rightarrow> (Inr x, s'))
     | Some e # fs \<Rightarrow> (Inl e, s\<lparr>db_Faults := fs\<rparr>))"

definition db_query :: "(waf_row list \<Rightarrow> 'a) \<Rightarrow> wafEventStore \<Rightarrow> 'a result \<times> wafEventStore" where
  "db_query q s = db_access (\<lambda>s. (q (db_Rows s), s)) s"

definition db_then :: "'a result \<times> wafEventStore \<Rightarrow> ('a \<Rightarrow> wafEventStore \<Rightarrow> 'b result \<times> wafEventStore) \<Rightarrow> 'b result \<times> wafEventStore" where
  "db_then r k = (case r of (Inl e, s) \<Rightarrow> (Inl e, s) | (Inr x, s) \<Rightarrow> k x s)"

subsection \<open>Lines become rows\<close>

record store_env = log_env +
  le_marshal :: "logLine option \<Rightarrow> string"             \<comment> \<open>\<open>json.Marshal\<close> of a decoded line\<close>

definition maxDBMatchedValueBytes :: nat where "maxDBMatchedValueBytes = 2048"

definition event_row :: "store_env \<Rightarrow> string \<Rightarrow> logLine option \<Rightarrow> waf_row" where
  \<comment> \<open>of a trimmed line and what it decodes to\<close>
  "event_row env line m =
     (let base = log_env.truncate env;
          event = TrimSpace (logFieldString base (field m ''event''));
          ts = parseLogTS base (field m ''ts'') in
      \<lparr>we_Event = (if event = [] then ''unknown'' else event),
       we_TsUnix = (case ts of None \<Rightarrow> - 1 | Some t \<Rightarrow> t div 10 ^ 9),
       we_Ts = (case ts of None \<Rightarrow> TrimSpace (logFieldString base (field m ''ts'')) | Some t \<Rightarrow> format_RFC3339Nano t),
       we_RuleID = normalizeStatsRuleID base (field m ''rule_id''),
       we_Path = normalizeStatsPath base (field m ''path''),
       we_Country = country_of m,
       we_Status = anyToInt (field m ''status''),
       we_ReqID = TrimSpace (anyToString (le_formatFloat env) (field m ''req_id'')),
       we_Method = ToUpper (TrimSpace (anyToString (le_formatFloat env) (field m ''method''))),
       we_MatchedVariable = TrimSpace (anyToString (le_formatFloat env) (field m ''matched_variable'')),
       we_MatchedValue = clampText (TrimSpace (anyToString (le_formatFloat env) (field m ''matched_value''))) maxDBMatchedValueBytes,
       we_RawJSON = le_marshal env m,
       we_LineHash = hex_encode (sha256 line)\<rparr>)"

definition insert_row :: "waf_row \<Rightarrow> waf_row list \<Rightarrow> waf_row list" where
  \<comment> \<open>\<open>INSERT OR IGNORE\<close> with \<open>line_hash\<close> unique\<close>
  "insert_row r rows = (if we_LineHash r \<in> we_LineHash ` set rows then rows else rows @ [r])"

definition ingestWAFEventLine :: "store_env \<Rightarrow> string \<Rightarrow> waf_row list \<Rightarrow> waf_row list" where
  "ingestWAFEventLine env rawLine rows =
     (let line = TrimSpace rawLine in
      if line = [] then rows
      else case le_json env line of None \<Rightarrow> rows | Some m \<Rightarrow> insert_row (event_row env line m) rows)"

definition pruneExpiredWAFEvents :: "int \<Rightarrow> int \<Rightarrow> waf_row list \<Rightarrow> waf_row list" where
  \<comment> \<open>days kept, now\<close>
  "pruneExpiredWAFEvents days now rows =
     (if days \<le> 0 then rows
      else filter (\<lambda>r. \<not> (0 \<le> we_TsUnix r \<and> we_TsUnix r < (now - days * 24 * hour) div 10 ^ 9)) rows)"

definition ingest_offset :: "log_file \<Rightarrow> logIngestState \<Rightarrow> int" where
  \<comment> \<open>where reading goes on\<close>
  "ingest_offset f state =
     (let size = int (length (fst f));
          offset = (if ig_Offset state < 0 \<or> size < ig_Offset state then 0 else ig_Offset state)
      in if size < offset \<or> (ig_ModTimeNS state \<noteq> 0 \<and> ig_ModTimeNS state \<noteq> snd f \<and> size \<le> offset) then 0 else offset)"

definition syncWAFEvents :: "store_env \<Rightarrow> log_file option \<Rightarrow> int \<Rightarrow> wafEventStore \<Rightarrow> int result \<times> wafEventStore" where
  \<comment> \<open>the file, now; the lines scanned\<close>
  "syncWAFEvents env file now s =
     (case file of
        None \<Rightarrow> (Inr 0, s)
      | Some (raw, modTime) \<Rightarrow>
          db_access (\<lambda>s.
            let state = (case db_Ingest s of None \<Rightarrow> \<lparr>ig_Offset = 0, ig_Size = 0, ig_ModTimeNS = 0\<rparr> | Some st \<Rightarrow> st);
                offset = ingest_offset (raw, modTime) state;
                lines = read_chunks (drop (nat offset) raw);
                currentOffset = offset + int (length (concat lines));
                finalSize = max (int (length raw)) currentOffset
            in (int (length lines),
                s\<lparr>db_Rows := pruneExpiredWAFEvents (db_RetentionDays s) now (fold (ingestWAFEventLine env) lines (db_Rows s)),
                  db_Ingest := Some \<lparr>ig_Offset = currentOffset, ig_Size = finalSize, ig_ModTimeNS = modTime\<rparr>\<rparr>)) s)"

subsection \<open>Pages and download\<close>

definition in_country :: "string \<Rightarrow> waf_row list \<Rightarrow> waf_row list" where
  "in_country filter' rows = (if filter' = [] then rows else filter (\<lambda>r. we_Country r = filter') rows)"

definition ReadWAFLogs ::
  "store_env \<Rightarrow> log_file option \<Rightarrow> int \<Rightarrow> int \<Rightarrow> int option \<Rightarrow> string \<Rightarrow> string \<Rightarrow> wafEventStore \<Rightarrow> log_page result \<times> wafEventStore" where
  "ReadWAFLogs env file now tail cursor dir filter' s =
     db_then (syncWAFEvents env file now s) (\<lambda>_ s.
     db_then (db_query (\<lambda>rows. int (length (in_country filter' rows))) s) (\<lambda>totalLines s.
       case page_range totalLines tail cursor dir of
         Inl e \<Rightarrow> (Inl e, s)
       | Inr (start, end') \<Rightarrow>
           if end' \<le> start
           then (Inr \<lparr>lp_Lines = [], lp_Next = Some end', lp_HasPrev = 0 < start, lp_HasNext = end' < totalLines\<rparr>, s)
           else
             db_then (db_query (\<lambda>rows. take (nat (end' - start)) (drop (nat start) (in_country filter' rows))) s) (\<lambda>rows s.
               (Inr \<lparr>lp_Lines = List.map_filter (\<lambda>r. le_json env (we_RawJSON r)) rows,
                  lp_Next = Some (if dir = ''prev'' then start else end'),
                  lp_HasPrev = 0 < start, lp_HasNext = end' < totalLines\<rparr>, s))))"

definition DownloadWAFLogs ::
  "store_env \<Rightarrow> log_file option \<Rightarrow> int \<Rightarrow> int \<Rightarrow> int \<Rightarrow> string \<Rightarrow> wafEventStore \<Rightarrow> string result \<times> wafEventStore" where
  \<comment> \<open>the text written, before compression\<close>
  "DownloadWAFLogs env file now from to filter' s =
     db_then (syncWAFEvents env file now s) (\<lambda>_ s.
     db_query (\<lambda>rows. concat (map (\<lambda>r. we_RawJSON r @ [newline])
       (in_country filter' (filter (\<lambda>r. 0 \<le> we_TsUnix r \<and> (from \<noteq> zero_time \<longrightarrow> from div 10 ^ 9 \<le> we_TsUnix r)
          \<and> (to \<noteq> zero_time \<longrightarrow> we_TsUnix r < to div 10 ^ 9)) rows)))) s)"

definition latest_event :: "waf_row list \<Rightarrow> waf_row option" where
  "latest_event rows = find (\<lambda>r. we_Event r = ''waf_block'') (rev rows)"

definition errNoWAFBlockEvent :: goerr where
  "errNoWAFBlockEvent = Errorf ''no waf_block event found'' []"

definition store_LatestWAFBlockEvent ::
  "store_env \<Rightarrow> log_file option \<Rightarrow> int \<Rightarrow> wafEventStore \<Rightarrow> fpTunerEventInput result \<times> wafEventStore" where
  "store_LatestWAFBlockEvent env file now s =
     db_then (syncWAFEvents env file now s) (\<lambda>_ s.
     db_then (db_query latest_event s) (\<lambda>row s.
       (case row of
          None \<Rightarrow> Inl errNoWAFBlockEvent
        | Some r \<Rightarrow> Inr (normalizeFPTunerEventInput (empty_event
            \<lparr>ev_EventID := TrimSpace (we_ReqID r), ev_ObservedAt := TrimSpace (we_Ts r), ev_Method := TrimSpace (we_Method r),
             ev_Path := TrimSpace (we_Path r), ev_RuleID := anyToInt (Some (LString (TrimSpace (we_RuleID r)))),
             ev_Status := we_Status r, ev_MatchedVariable := TrimSpace (we_MatchedVariable r),
             ev_MatchedValue := TrimSpace (we_MatchedValue r)\<rparr>)), s)))"

subsection \<open>Statistics\<close>

definition blocked_since :: "int \<Rightarrow> waf_row list \<Rightarrow> waf_row list" where
  "blocked_since sinceUnix rows = filter (\<lambda>r. we_Event r = ''waf_block'' \<and> sinceUnix \<le> we_TsUnix r) rows"

definition grouped :: "'k list \<Rightarrow> ('k \<times> int) list" where
  \<comment> \<open>\<open>SELECT k, COUNT(*) ... GROUP BY k\<close>\<close>
  "grouped ks = map (\<lambda>k. (k, int (count_list ks k))) (remdups ks)"

definition queryTopBuckets :: "(waf_row \<Rightarrow> string) \<Rightarrow> int \<Rightarrow> nat \<Rightarrow> wafEventStore \<Rightarrow> statsBucket list result \<times> wafEventStore" where
  "queryTopBuckets column sinceUnix n s =
     (if n = 0 then (Inr [], s)
      else db_query (\<lambda>rows. take n (sort_by bucket_less (grouped (map column (blocked_since sinceUnix rows))))) s)"

definition querySeriesCounts :: "int \<Rightarrow> int \<Rightarrow> wafEventStore \<Rightarrow> (int \<times> int) list result \<times> wafEventStore" where
  \<comment> \<open>the division of SQLite cuts off towards zero\<close>
  "querySeriesCounts startUnix endUnix s =
     db_query (\<lambda>rows. grouped (map (\<lambda>r. sgn (we_TsUnix r) * (\<bar>we_TsUnix r\<bar> div 3600) * 3600)
       (filter (\<lambda>r. we_TsUnix r < endUnix) (blocked_since startUnix rows)))) s"

definition queryMinMaxTS :: "wafEventStore \<Rightarrow> (int \<times> int) result \<times> wafEventStore" where
  "queryMinMaxTS s =
     db_query (\<lambda>rows. let ts = map we_TsUnix (blocked_since 0 rows)
       in if ts = [] then (0, 0) else (Min (set ts), Max (set ts))) s"

definition BuildLogsStats :: "store_env \<Rightarrow> log_file option \<Rightarrow> int \<Rightarrow> int \<Rightarrow> wafEventStore \<Rightarrow> logsStatsResp result \<times> wafEventStore" where
  "BuildLogsStats env file rangeHours now s =
     (case statsHourlyRange now rangeHours of (seriesStart, seriesEnd) \<Rightarrow>
      db_then (syncWAFEvents env file now s) (\<lambda>scanned s.
      db_then (db_query (\<lambda>rows. int (length (filter (\<lambda>r. we_Event r = ''waf_block'') rows))) s) (\<lambda>total s.
      db_then (db_query (\<lambda>rows. int (length (blocked_since ((now - hour) div 10 ^ 9) rows))) s) (\<lambda>last1h s.
      db_then (db_query (\<lambda>rows. int (length (blocked_since ((now - 24 * hour) div 10 ^ 9) rows))) s) (\<lambda>last24h s.
      db_then (queryTopBuckets we_RuleID ((now - 24 * hour) div 10 ^ 9) statsTopN s) (\<lambda>rules s.
      db_then (queryTopBuckets we_Path ((now - 24 * hour) div 10 ^ 9) statsTopN s) (\<lambda>paths s.
      db_then (queryTopBuckets we_Country ((now - 24 * hour) div 10 ^ 9) statsTopN s) (\<lambda>countries s.
      db_then (querySeriesCounts (seriesStart div 10 ^ 9) (seriesEnd div 10 ^ 9) s) (\<lambda>series s.
      db_then (queryMinMaxTS s) (\<lambda>(oldest, newest) s.
        (Inr \<lparr>ls_GeneratedAt = format_RFC3339Nano now, ls_ScannedLines = scanned, ls_RangeHours = rangeHours,
           ls_OldestScannedTS = (if oldest \<noteq> 0 \<and> newest \<noteq> 0 then format_RFC3339Nano (oldest * 10 ^ 9) else []),
           ls_NewestScannedTS = (if oldest \<noteq> 0 \<and> newest \<noteq> 0 then format_RFC3339Nano (newest * 10 ^ 9) else []),
           ls_WAFBlock = \<lparr>wb_Last1h = last1h, wb_Last24h = last24h, wb_TotalInScan = total,
             wb_TopRuleIDs24h = rules, wb_TopPaths24h = paths, wb_TopCountries24h = countries,
             wb_SeriesHourly = buildHourlySeries seriesStart seriesEnd series\<rparr>\<rparr>, s)))))))))))"

record wafEventStoreStatus =
  wt_TotalRows :: int
  wt_WAFBlockRows :: int
  wt_DBSizeBytes :: int
  wt_LastIngestOffset :: int
  wt_LastIngestModTime :: string
  wt_LastSyncScannedLines :: int

definition StatusSnapshot :: "store_env \<Rightarrow> log_file option \<Rightarrow> int \<Rightarrow> int \<Rightarrow> wafEventStore \<Rightarrow> wafEventStoreStatus result \<times> wafEventStore" where
  \<comment> \<open>the size of the database file is given\<close>
  "StatusSnapshot env file now dbSize s =
     db_then (syncWAFEvents env file now s) (\<lambda>scanned s.
     db_then (db_query (\<lambda>rows. int (length rows)) s) (\<lambda>total s.
     db_then (db_query (\<lambda>rows. int (length (filter (\<lambda>r. we_Event r = ''waf_block'') rows))) s) (\<lambda>blocked s.
     db_then (db_access (\<lambda>s. (db_Ingest s, s)) s) (\<lambda>state s.
       (Inr \<lparr>wt_TotalRows = total, wt_WAFBlockRows = blocked, wt_DBSizeBytes = dbSize,
          wt_LastIngestOffset = (case state of None \<Rightarrow> 0 | Some st \<Rightarrow> ig_Offset st),
          wt_LastIngestModTime = (case state of None \<Rightarrow> [] | Some st \<Rightarrow>
            if 0 < ig_ModTimeNS st then format_RFC3339Nano (ig_ModTimeNS st) else []),
          wt_LastSyncScannedLines = scanned\<rparr>, s)))))"

end
