(* ===== verification/Log_Handlers.thy ===== *)
theory Log_Handlers
  imports Log_Store
begin

text \<open>
  The handlers of the log (\<open>handler/logs.go\<close>): each asks the database when there is one and the log file otherwise.
  The path of the log is fixed by the configuration, so the state is the file, the index cached for it and the
  database.
\<close>

record log_system =
  lg_File :: "log_file option"
  lg_Index :: "lineIndex option"
  lg_Store :: "wafEventStore option"

record log_query =                  \<comment> \<open>a parameter that is missing is empty\<close>
  lq_src :: string
  lq_tail :: string
  lq_cursor :: string
  lq_dir :: string
  lq_country :: string
  lq_from :: string
  lq_to :: string
  lq_hours :: string
  lq_scan :: string

definition logFiles :: "(string \<times> string) list" where
  "logFiles = [(''waf'', ''logs/coraza/waf-events.ndjson'')]"

definition resolveLogPath :: "string \<Rightarrow> string \<Rightarrow> string \<Rightarrow> string" where
  \<comment> \<open>the configured file, the source, its default\<close>
  "resolveLogPath logFile src current =
     (if src = ''waf'' then if TrimSpace logFile \<noteq> [] then TrimSpace logFile else current else current)"

definition maxLinesPerRead :: int where "maxLinesPerRead = 200"
definition defaultStatsScanLines :: int where "defaultStatsScanLines = 5000"
definition maxStatsScanLines :: int where "maxStatsScanLines = 50000"
definition defaultStatsRangeHours :: int where "defaultStatsRangeHours = 24"
definition maxStatsRangeHours :: int where "maxStatsRangeHours = 14 * 24"

record readResp =
  re_Lines :: "logLine option list"
  re_NextCursor :: "int option"
  re_PageStart :: "int option"
  re_PageEnd :: "int option"
  re_HasMore :: bool
  re_HasPrev :: bool
  re_HasNext :: bool

datatype logs_reply =
    InvalidSource                       \<comment> \<open>400\<close>
  | InvalidPeriod string                \<comment> \<open>400\<close>
  | LogsPage readResp                   \<comment> \<open>200\<close>
  | LogsText string                     \<comment> \<open>200, compressed; what was written before an error stays\<close>
  | LogsStatistics logsStatsResp        \<comment> \<open>200\<close>
  | LogsError goerr                     \<comment> \<open>500\<close>
  | LogsPanic

definition on_file :: "(log_file option \<Rightarrow> lineIndex option \<Rightarrow> 'a \<times> lineIndex option) \<Rightarrow> log_system \<Rightarrow> 'a \<times> log_system" where
  "on_file f sys = (case f (lg_File sys) (lg_Index sys) of (r, ix) \<Rightarrow> (r, sys\<lparr>lg_Index := ix\<rparr>))"

definition on_store :: "(log_file option \<Rightarrow> wafEventStore \<Rightarrow> 'a \<times> wafEventStore) \<Rightarrow> wafEventStore \<Rightarrow> log_system \<Rightarrow> 'a \<times> log_system" where
  "on_store f st sys = (case f (lg_File sys) st of (r, st') \<Rightarrow> (r, sys\<lparr>lg_Store := Some st'\<rparr>))"

definition page_reply :: "string \<Rightarrow> string \<Rightarrow> log_page \<Rightarrow> logs_reply" where
  "page_reply dir filter' pg =
     (case normalizeCountryInLines (lp_Lines pg) of
        None \<Rightarrow> LogsPanic
      | Some lines \<Rightarrow>
          (case computePageBounds dir (lp_Next pg) (int (length lines)) of (pageStart, pageEnd) \<Rightarrow>
           LogsPage \<lparr>re_Lines = filterLinesByCountry lines filter', re_NextCursor = lp_Next pg, re_PageStart = pageStart,
             re_PageEnd = pageEnd, re_HasMore = (if dir = ''prev'' then lp_HasPrev pg else lp_HasNext pg),
             re_HasPrev = lp_HasPrev pg, re_HasNext = lp_HasNext pg\<rparr>))"

definition LogsRead :: "store_env \<Rightarrow> int \<Rightarrow> log_query \<Rightarrow> log_system \<Rightarrow> logs_reply \<times> log_system" where
  "LogsRead env now q sys =
     (if map_of logFiles (lq_src q) = None then (InvalidSource, sys)
      else
        let tail = clampInt (mustAtoiDefault (lq_tail q) 30) 1 maxLinesPerRead;
            cursor = (if lq_cursor q = [] then None else Some (mustAtoi64Default (lq_cursor q) 0));
            countryFilter = normalizeCountryFilter (lq_country q);
            read = (case (if lq_src q = ''waf'' then lg_Store sys else None) of
                Some st \<Rightarrow> on_store (\<lambda>file. ReadWAFLogs env file now tail cursor (lq_dir q) countryFilter) st sys
              | None \<Rightarrow> on_file (\<lambda>file. readByLine (log_env.truncate env) file tail cursor (lq_dir q)) sys)
        in case read of
          (Inl e, sys') \<Rightarrow>
            (if e = ErrNotExist
             then LogsPage \<lparr>re_Lines = [], re_NextCursor = None, re_PageStart = None, re_PageEnd = None,
                    re_HasMore = False, re_HasPrev = False, re_HasNext = False\<rparr>
             else LogsError e, sys')
        | (Inr pg, sys') \<Rightarrow> (page_reply (lq_dir q) countryFilter pg, sys'))"

definition LogsDownload :: "store_env \<Rightarrow> int \<Rightarrow> log_query \<Rightarrow> log_system \<Rightarrow> logs_reply \<times> log_system" where
  "LogsDownload env now q sys =
     (if map_of logFiles (lq_src q) = None then (InvalidSource, sys)
      else if lq_from q \<noteq> [] \<and> parse_RFC3339 (lq_from q) = None then (InvalidPeriod ''invalid from'', sys)
      else if lq_to q \<noteq> [] \<and> parse_RFC3339 (lq_to q) = None then (InvalidPeriod ''invalid to'', sys)
      else
        let from = (case parse_RFC3339 (lq_from q) of None \<Rightarrow> zero_time | Some t \<Rightarrow> t);
            to = (if lq_to q = [] then now + 10 ^ 9 else case parse_RFC3339 (lq_to q) of None \<Rightarrow> zero_time | Some t \<Rightarrow> t);
            countryFilter = normalizeCountryFilter (lq_country q)
        in case (if lq_src q = ''waf'' then lg_Store sys else None) of
          Some st \<Rightarrow>
            (case on_store (\<lambda>file. DownloadWAFLogs env file now from to countryFilter) st sys of
               (Inl e, sys') \<Rightarrow> (LogsError e, sys')
             | (Inr text, sys') \<Rightarrow> (LogsText text, sys'))
        | None \<Rightarrow>
            (LogsText (case lg_File sys of None \<Rightarrow> [] | Some (raw, _) \<Rightarrow>
               download_file (log_env.truncate env) raw from to countryFilter), sys))"

definition LogsStats :: "store_env \<Rightarrow> int \<Rightarrow> log_query \<Rightarrow> log_system \<Rightarrow> logs_reply \<times> log_system" where
  "LogsStats env now q sys =
     (let rangeHours = clampInt (mustAtoiDefault (lq_hours q) defaultStatsRangeHours) 1 maxStatsRangeHours in
      case lg_Store sys of
        Some st \<Rightarrow>
          (case on_store (\<lambda>file. BuildLogsStats env file rangeHours now) st sys of
             (Inl e, sys') \<Rightarrow> (LogsError e, sys')
           | (Inr resp, sys') \<Rightarrow> (LogsStatistics resp, sys'))
      | None \<Rightarrow>
          (let scan = clampInt (mustAtoiDefault (lq_scan q) defaultStatsScanLines) 1 maxStatsScanLines in
           case on_file (\<lambda>file. readByLine (log_env.truncate env) file scan None []) sys of
             (Inl e, sys') \<Rightarrow>
               (if e = ErrNotExist then LogsStatistics (file_stats (log_env.truncate env) now rangeHours []) else LogsError e, sys')
           | (Inr pg, sys') \<Rightarrow> (LogsStatistics (file_stats (log_env.truncate env) now rangeHours (lp_Lines pg)), sys')))"

end
