(* ===== verification/Log_Correct.thy ===== *)
theory Log_Correct
  imports Log_Handlers
begin

text \<open>
  Correctness of the log reader: the cached index stays the index of the file while lines are appended, the
  pages of the log make up the log, and what a line that is no object does to a page.
\<close>

subsection \<open>Lines and marks\<close>

lemma concat_chunks [simp]: "concat (read_chunks s) = s"
  by (induction s rule: read_chunks.induct) (auto split: list.split)

lemma chunks_nonempty [simp]: "read_chunks s = [] \<longleftrightarrow> s = []"
  by (cases s) (auto split: list.split)

text \<open>A text that ends a line.\<close>

definition whole_lines :: "string \<Rightarrow> bool" where
  "whole_lines s = (s = [] \<or> last s = newline)"

lemma whole_lines_simps [simp]: "whole_lines []" "whole_lines (s @ [newline])"
  by (simp_all add: whole_lines_def)

lemma chunks_append: "whole_lines s \<Longrightarrow> read_chunks (s @ t) = read_chunks s @ read_chunks t"
proof (induction s rule: read_chunks.induct)
  case (2 c s)
  show ?case
  proof (cases "s = []")
    case True
    with 2 show ?thesis by (simp add: whole_lines_def)
  next
    case False
    then have s: "whole_lines s" using 2(3) by (simp add: whole_lines_def)
    show ?thesis
    proof (cases "c = newline")
      case True
      with 2(1) s show ?thesis by simp
    next
      case nl: False
      obtain l ls where "read_chunks s = l # ls" using False by (cases "read_chunks s") auto
      with 2(2) s nl show ?thesis by simp
    qed
  qed
qed simp

lemma chunks_split:
  assumes "read_chunks s = l # ls"
  shows "s = l @ concat ls" "read_chunks l = [l]" "read_chunks (concat ls) = ls" "ls \<noteq> [] \<Longrightarrow> whole_lines l"
proof -
  have "s = l @ concat ls \<and> read_chunks l = [l] \<and> read_chunks (concat ls) = ls \<and> (ls \<noteq> [] \<longrightarrow> whole_lines l) \<and> l \<noteq> []"
    using assms
  proof (induction s arbitrary: l ls rule: read_chunks.induct)
    case (2 c s)
    show ?case
    proof (cases "c = newline")
      case True
      with 2(3) show ?thesis by (auto simp: whole_lines_def)
    next
      case False
      show ?thesis
      proof (cases "read_chunks s")
        case Nil
        with 2(3) False show ?thesis by auto
      next
        case (Cons l' ls')
        then have "l = c # l'" "ls = ls'" using 2(3) False by auto
        with 2(2) [OF False Cons] False show ?thesis by (auto simp: whole_lines_def)
      qed
    qed
  qed simp
  then show "s = l @ concat ls" "read_chunks l = [l]" "read_chunks (concat ls) = ls" "ls \<noteq> [] \<Longrightarrow> whole_lines l" by auto
qed

text \<open>Any run of lines is read as these lines.\<close>

lemma chunks_drop: "read_chunks (concat (drop n (read_chunks s))) = drop n (read_chunks s)"
proof (induction n arbitrary: s)
  case (Suc n)
  show ?case
  proof (cases "read_chunks s")
    case (Cons l ls)
    with Suc [of "concat ls"] chunks_split(3) [OF Cons] show ?thesis by simp
  qed simp
qed simp

lemma chunks_take: "read_chunks (concat (take n (read_chunks s))) = take n (read_chunks s)"
proof (induction n arbitrary: s)
  case (Suc n)
  show ?case
  proof (cases "read_chunks s")
    case (Cons l ls)
    note l = chunks_split [OF Cons]
    show ?thesis
    proof (cases "ls = []")
      case False
      with Suc [of "concat ls"] l show ?thesis by (simp add: Cons chunks_append)
    qed (use Cons l in simp)
  qed simp
qed simp

lemma chunks_slice: "read_chunks (concat (take m (drop n (read_chunks s)))) = take m (drop n (read_chunks s))"
  using chunks_take [of m "concat (drop n (read_chunks s))"] by (simp add: chunks_drop)

lemma length_marks [simp]: "length (marks_from p bs) = length bs"
  by (induction bs arbitrary: p) auto

lemma marks_nth: "i \<le> length bs \<Longrightarrow> (p # marks_from p bs) ! i = p + int (length (concat (take i bs)))"
proof (induction bs arbitrary: p i)
  case (Cons b bs)
  then show ?case by (cases i) auto
qed simp

lemma marks_append: "marks_from p (xs @ ys) = marks_from p xs @ marks_from (p + int (length (concat xs))) ys"
  by (induction xs arbitrary: p) (auto simp: algebra_simps)

subsection \<open>The cached index\<close>

text \<open>What the cache may hold for a file: nothing, or the index of a beginning of it that ends a line.\<close>

definition index_of :: "log_file \<Rightarrow> lineIndex option \<Rightarrow> bool" where
  "index_of f ix \<longleftrightarrow> (case ix of None \<Rightarrow> True
     | Some li \<Rightarrow> \<exists>old more m. fst f = old @ more \<and> whole_lines old \<and> m \<le> snd f \<and> li = fresh_index (old, m))"

lemma index_is_fresh:
  assumes "index_of f ix" "whole_lines (fst f)"
  shows "buildOrUpdateIndex (Some f) ix = (Inr (fresh_index f), Some (fresh_index f))"
proof (cases ix)
  case (Some li)
  obtain raw modTime where f: "f = (raw, modTime)" by (cases f)
  obtain old more m where li: "raw = old @ more" "whole_lines old" "m \<le> modTime" "li = fresh_index (old, m)"
    using assms(1) by (auto simp: index_of_def Some f)
  have "extend_index f li = fresh_index f"
    using li(2) by (simp add: f li(1,4) extend_index_def fresh_index_def chunks_append marks_append)
  moreover have "li = fresh_index f" if "more = []" "m = modTime" using that li by (simp add: f)
  ultimately show ?thesis
    using li(3) by (auto simp: buildOrUpdateIndex_def Some Let_def f li(1)) (auto simp: li(4) fresh_index_def)
qed (simp add: buildOrUpdateIndex_def Let_def)

lemma fresh_index_of: "whole_lines (fst f) \<Longrightarrow> index_of f (Some (fresh_index f))"
  by (cases f) (auto simp: index_of_def)

lemma index_of_append: "index_of (raw, m) ix \<Longrightarrow> m \<le> m' \<Longrightarrow> index_of (raw @ text, m') ix"
  by (auto simp: index_of_def split: option.splits) (metis append.assoc order_trans)

datatype log_step = Wrote string int | Looked

fun log_run :: "log_step list \<Rightarrow> log_file \<times> lineIndex option \<Rightarrow> log_file \<times> lineIndex option" where
  "log_run [] s = s"
| "log_run (Wrote text modTime # steps) (f, ix) = log_run steps ((fst f @ text, modTime), ix)"
| "log_run (Looked # steps) (f, ix) = log_run steps (f, snd (buildOrUpdateIndex (Some f) ix))"

fun steps_in_order :: "int \<Rightarrow> log_step list \<Rightarrow> bool" where
  "steps_in_order now [] = True"
| "steps_in_order now (Wrote text modTime # steps) = (now \<le> modTime \<and> whole_lines text \<and> steps_in_order modTime steps)"
| "steps_in_order now (Looked # steps) = steps_in_order now steps"

lemma whole_lines_append: "whole_lines s \<Longrightarrow> whole_lines t \<Longrightarrow> whole_lines (s @ t)"
  by (cases "t = []") (auto simp: whole_lines_def)

lemma reached_index:
  assumes "steps_in_order 0 steps" "log_run steps (([], 0), None) = (f, ix)"
  shows "index_of f ix \<and> whole_lines (fst f)"
proof -
  have "index_of f ix \<and> whole_lines (fst f)"
    if "steps_in_order (snd f0) steps" "log_run steps (f0, ix0) = (f, ix)" "index_of f0 ix0" "whole_lines (fst f0)" for f0 ix0
    using that
  proof (induction steps "(f0, ix0)" arbitrary: f0 ix0 rule: log_run.induct)
    case (2 added modTime steps f0 ix0)
    then show ?case by (cases f0) (auto simp: index_of_append whole_lines_append)
  next
    case (3 steps f0 ix0)
    then show ?case by (simp add: index_is_fresh fresh_index_of)
  qed simp
  from this [of "([], 0)" None] assms show ?thesis by (simp add: index_of_def)
qed

text \<open>
  While whole lines are appended and the time of the last change does not go back, the index is that of the whole
  file, built anew, whatever parts of the file were indexed before and even when the file
  changed more than once at one instant.
\<close>

theorem index_follows_appends:
  assumes "steps_in_order 0 steps" "log_run steps (([], 0), None) = (f, ix)"
  shows "fst (buildOrUpdateIndex (Some f) ix) = Inr (fresh_index f)"
  using reached_index [OF assms] by (simp add: index_is_fresh)

subsection \<open>Pages\<close>

lemma offsets_nth:
  "i \<le> length (read_chunks raw) \<Longrightarrow> li_Offsets (fresh_index (raw, m)) ! i = int (length (concat (take i (read_chunks raw))))"
  using marks_nth [of i "read_chunks raw" 0] by (simp add: fresh_index_def)

lemma read_middle: "read_range (a @ b @ c) (int (length a)) (int (length a) + int (length b)) = Inr b"
  by (simp add: read_range_def)

lemma read_lines:
  assumes "i \<le> j" "j \<le> length (read_chunks raw)"
  shows "read_range raw (li_Offsets (fresh_index (raw, m)) ! i) (li_Offsets (fresh_index (raw, m)) ! j)
    = Inr (concat (take (j - i) (drop i (read_chunks raw))))"
proof -
  define cs where "cs = read_chunks raw"
  have raw: "raw = concat (take i cs) @ concat (take (j - i) (drop i cs)) @ concat (drop j cs)"
  proof -
    have "cs = take i cs @ take (j - i) (drop i cs) @ drop j cs"
      using assms(1) by (metis append.assoc append_take_drop_id le_add_diff_inverse take_add)
    then show ?thesis by (metis concat_append concat_chunks cs_def)
  qed
  have "take j cs = take i cs @ take (j - i) (drop i cs)" using assms(1) by (metis le_add_diff_inverse take_add)
  then have "length (concat (take j cs)) = length (concat (take i cs)) + length (concat (take (j - i) (drop i cs)))" by simp
  then have "li_Offsets (fresh_index (raw, m)) ! i = int (length (concat (take i cs)))"
    "li_Offsets (fresh_index (raw, m)) ! j = int (length (concat (take i cs))) + int (length (concat (take (j - i) (drop i cs))))"
    using assms offsets_nth [of i raw m] offsets_nth [of j raw m] by (simp_all add: cs_def)
  then show ?thesis
    unfolding cs_def [symmetric]
    using read_middle [of "concat (take i cs)" "concat (take (j - i) (drop i cs))" "concat (drop j cs)"] by (simp only: raw [symmetric])
qed

lemma decoded_slice: "decode_lines env (concat (take n (drop k (read_chunks raw))))
    = List.map_filter (\<lambda>b. le_json env (trimLastNewline b)) (take n (drop k (read_chunks raw)))"
  by (simp add: decode_lines_def chunks_slice)

abbreviation lines_of :: "log_env \<Rightarrow> string list \<Rightarrow> logLine option list" where
  "lines_of env bs \<equiv> List.map_filter (\<lambda>b. le_json env (trimLastNewline b)) bs"

lemma next_page:
  assumes "buildOrUpdateIndex (Some (raw, m)) ix = (Inr (fresh_index (raw, m)), Some (fresh_index (raw, m)))" "0 < tail" "c \<le> length (read_chunks raw)"
  shows "readByLine env (Some (raw, m)) (int tail) (Some (int c)) ''next'' ix =
    (Inr \<lparr>lp_Lines = lines_of env (take tail (drop c (read_chunks raw))),
       lp_Next = Some (int (min (c + tail) (length (read_chunks raw)))), lp_HasPrev = 0 < c,
       lp_HasNext = c + tail < length (read_chunks raw)\<rparr>, Some (fresh_index (raw, m)))"
proof -
  define N where "N = length (read_chunks raw)"
  have off: "length (li_Offsets (fresh_index (raw, m))) = Suc N" "li_Offsets (fresh_index (raw, m)) \<noteq> []" by (simp_all add: fresh_index_def N_def)
  have range: "page_range (int N) (int tail) (Some (int c)) ''next'' = Inr (int c, int (min (c + tail) N))"
    using assms(3) by (simp add: page_range_def page_cursor_def N_def of_nat_min Let_def)
  show ?thesis
  proof (cases "c = N")
    case True
    then show ?thesis using assms range off by (simp add: readByLine_def Let_def bindR_def N_def List.map_filter_simps)
  next
    case False
    with assms have c: "c < N" "c < min (c + tail) N" "min (c + tail) N \<le> length (read_chunks raw)" by (simp_all add: N_def)
    have "take (min (c + tail) N - c) (drop c (read_chunks raw)) = take tail (drop c (read_chunks raw))"
      by (auto simp: N_def min_def)
    then have "bindR (read_range raw (li_Offsets (fresh_index (raw, m)) ! c) (li_Offsets (fresh_index (raw, m)) ! min (c + tail) N)) g
        = g (concat (take tail (drop c (read_chunks raw))))" for g :: "string \<Rightarrow> log_page result"
      using read_lines [of c "min (c + tail) N" raw m] c by (simp add: bindR_def)
    moreover have "(min (c + tail) N < N) = (c + tail < N)" by auto
    ultimately show ?thesis
      using assms(1) range off c by (simp add: readByLine_def Let_def decoded_slice N_def [symmetric] bindR_simps) presburger
  qed
qed

fun follow_pages :: "log_env \<Rightarrow> log_file \<Rightarrow> int \<Rightarrow> nat \<Rightarrow> int \<Rightarrow> lineIndex option \<Rightarrow> logLine option list" where
  \<comment> \<open>what a client sees that asks for the next page so often, while there is one\<close>
  "follow_pages env f tail 0 c ix = []"
| "follow_pages env f tail (Suc n) c ix =
     (case readByLine env (Some f) tail (Some c) ''next'' ix of
        (Inr pg, ix') \<Rightarrow> lp_Lines pg @ (if lp_HasNext pg then follow_pages env f tail n (the (lp_Next pg)) ix' else [])
      | (Inl e, ix') \<Rightarrow> [])"

lemma lines_of_append: "lines_of env (xs @ ys) = lines_of env xs @ lines_of env ys"
  by (simp add: map_filter_def)

lemma pages_from:
  assumes "index_of (raw, m) ix" "whole_lines raw" "0 < tail" "c \<le> length (read_chunks raw)" "length (read_chunks raw) \<le> c + n * tail"
  shows "follow_pages env (raw, m) (int tail) n (int c) ix = lines_of env (drop c (read_chunks raw))"
  using assms
proof (induction n arbitrary: c ix)
  case 0
  then show ?case by (simp add: List.map_filter_simps)
next
  case (Suc n)
  have fresh: "buildOrUpdateIndex (Some (raw, m)) ix = (Inr (fresh_index (raw, m)), Some (fresh_index (raw, m)))"
    using Suc.prems(1,2) by (simp add: index_is_fresh)
  note page = next_page [OF fresh Suc.prems(3,4), of env]
  show ?case
  proof (cases "c + tail < length (read_chunks raw)")
    case True
    have "follow_pages env (raw, m) (int tail) n (int (c + tail)) (Some (fresh_index (raw, m))) = lines_of env (drop (c + tail) (read_chunks raw))"
      using Suc.prems True by (intro Suc.IH) (simp_all add: fresh_index_of algebra_simps)
    moreover have "drop c (read_chunks raw) = take tail (drop c (read_chunks raw)) @ drop (c + tail) (read_chunks raw)"
      by (metis add.commute append_take_drop_id drop_drop)
    ultimately show ?thesis
      using True by (simp add: page min_absorb1 flip: lines_of_append)
  next
    case False
    then have "take tail (drop c (read_chunks raw)) = drop c (read_chunks raw)" by simp
    with False show ?thesis by (simp add: page)
  qed
qed


text \<open>The page before the cursor a full page ends with is that page again.\<close>

theorem previous_page_leads_back:
  assumes "buildOrUpdateIndex (Some (raw, m)) ix = (Inr (fresh_index (raw, m)), Some (fresh_index (raw, m)))" "0 < tail"
    and "c + tail \<le> length (read_chunks raw)"
  shows "\<exists>pg pg'. fst (readByLine env (Some (raw, m)) (int tail) (Some (int c)) ''next'' ix) = Inr pg
    \<and> fst (readByLine env (Some (raw, m)) (int tail) (lp_Next pg) ''prev'' ix) = Inr pg'
    \<and> lp_Lines pg' = lp_Lines pg \<and> lp_Next pg' = Some (int c)"
proof -
  define N where "N = length (read_chunks raw)"
  have off: "length (li_Offsets (fresh_index (raw, m))) = Suc N" "li_Offsets (fresh_index (raw, m)) \<noteq> []" by (simp_all add: fresh_index_def N_def)
  have range: "page_range (int N) (int tail) (Some (int (c + tail))) ''prev'' = Inr (int c, int (c + tail))"
    using assms(3) by (simp add: page_range_def page_cursor_def N_def Let_def)
  have c: "c \<le> length (read_chunks raw)" using assms(3) by simp
  have "bindR (read_range raw (li_Offsets (fresh_index (raw, m)) ! c) (li_Offsets (fresh_index (raw, m)) ! (c + tail))) g
      = g (concat (take tail (drop c (read_chunks raw))))" for g :: "string \<Rightarrow> log_page result"
    using read_lines [of c "c + tail" raw m] assms(3) by (simp add: bindR_def)
  then have "fst (readByLine env (Some (raw, m)) (int tail) (Some (int (c + tail))) ''prev'' ix)
      = Inr \<lparr>lp_Lines = lines_of env (take tail (drop c (read_chunks raw))), lp_Next = Some (int c), lp_HasPrev = 0 < c, lp_HasNext = c + tail < N\<rparr>"
    using assms(1,2) range off by (simp add: readByLine_def Let_def decoded_slice bindR_simps nat_add_distrib flip: of_nat_add)
  then show ?thesis
    using next_page [OF assms(1,2) c, of env] assms(3) by (simp add: min_absorb1)
qed

subsection \<open>Lines that are no objects\<close>

lemma nil_map_panics: "normalizeCountryInLines ms = None \<longleftrightarrow> None \<in> set ms"
  by (induction ms rule: normalizeCountryInLines.induct) auto

lemma normalised_length: "normalizeCountryInLines ms = Some ms' \<Longrightarrow> length ms' = length ms"
  by (induction ms arbitrary: ms' rule: normalizeCountryInLines.induct) auto

text \<open>
  A line that reads \<open>null\<close> decodes to a map that is \<open>nil\<close>: the page that holds it cannot be shown, since the handler
  writes the country into that map.
\<close>

theorem null_line_stops_its_page:
  "None \<in> set (lp_Lines pg) \<Longrightarrow> page_reply dir filter' pg = LogsPanic"
  by (simp add: page_reply_def nil_map_panics [THEN iffD2])

text \<open>
  The start of a page is computed from the number of lines that decode, so a page with a line that does not is
  reported to start later than it does.
\<close>

theorem page_start_is_wrong:
  assumes "buildOrUpdateIndex (Some (raw, m)) ix = (Inr (fresh_index (raw, m)), Some (fresh_index (raw, m)))" "0 < tail"
    and "c + tail \<le> length (read_chunks raw)" "b \<in> set (take tail (drop c (read_chunks raw)))" "le_json env (trimLastNewline b) = None"
    and "fst (readByLine env (Some (raw, m)) (int tail) (Some (int c)) ''next'' ix) = Inr pg" "page_reply ''next'' flt pg = LogsPage r"
  shows "\<exists>s. re_PageStart r = Some s \<and> int c < s"
proof -
  define bs where "bs = take tail (drop c (read_chunks raw))"
  have pg: "pg = \<lparr>lp_Lines = lines_of env bs, lp_Next = Some (int (c + tail)), lp_HasPrev = 0 < c, lp_HasNext = c + tail < length (read_chunks raw)\<rparr>"
    using next_page [OF assms(1,2), of c env] assms(3,6) by (simp add: bs_def min_absorb1)
  have "length (lines_of env bs) < length bs" if "b \<in> set bs"
  proof -
    have "length (filter (\<lambda>b. le_json env (trimLastNewline b) \<noteq> None) bs) < length bs" using that assms(5) by (intro length_filter_less) auto
    then show ?thesis by (simp add: map_filter_def)
  qed
  then have "length (lines_of env bs) < tail" using assms(3,4) by (fastforce simp: bs_def)
  moreover obtain lines where lines: "normalizeCountryInLines (lines_of env bs) = Some lines" "length lines = length (lines_of env bs)"
    using assms(7) normalised_length by (fastforce simp: pg page_reply_def split: option.splits)
  ultimately show ?thesis
    using assms(7) by (auto simp: page_reply_def pg computePageBounds_def)
qed

subsection \<open>Witnesses\<close>

definition demo_reader :: log_env where
  "demo_reader = \<lparr>le_json = (\<lambda>s. if s = ''{}'' then Some (Some []) else None), le_formatFloat = (\<lambda>_. [])\<rparr>"

definition demo_line :: string where
  "demo_line = ''{}'' @ [newline]"

lemma demo_line_whole [simp]: "whole_lines demo_line" "read_chunks demo_line = [demo_line]"
  by (simp_all add: demo_line_def whole_lines_def)

theorem index_follows_appends_witness:
  "fst (buildOrUpdateIndex (Some (demo_line @ demo_line, 1)) (snd (buildOrUpdateIndex (Some (demo_line, 1)) None)))
     = Inr (fresh_index (demo_line @ demo_line, 1))"
  using index_follows_appends [of "[Wrote demo_line 1, Looked, Wrote demo_line 1]"] by simp


end
