(* ===== verification/Log_Store_Correct.thy ===== *)
theory Log_Store_Correct
  imports Log_Correct
begin

text \<open>
  Correctness of the log in the database: the rows are the events of the log file, each once, and the statistics
  over them are those of the file.
\<close>

subsection \<open>Each event once\<close>

fun first_of_each :: "('a \<Rightarrow> 'k) \<Rightarrow> 'k set \<Rightarrow> 'a list \<Rightarrow> 'a list" where
  "first_of_each key seen [] = []"
| "first_of_each key seen (x # xs) =
     (if key x \<in> seen then first_of_each key seen xs else x # first_of_each key (insert (key x) seen) xs)"

lemma first_append:
  "first_of_each key seen (xs @ ys) = first_of_each key seen xs @ first_of_each key (seen \<union> key ` set xs) ys"
  by (induction xs arbitrary: seen) (auto simp: insert_absorb)

lemma first_seen: "key ` set xs \<subseteq> seen \<Longrightarrow> first_of_each key seen xs = []"
  by (induction xs) auto

lemma keys_first: "key ` set (first_of_each key seen xs) = key ` set xs - seen"
  by (induction xs arbitrary: seen) auto

lemma first_distinct: "distinct (map key xs) \<Longrightarrow> key ` set xs \<inter> seen = {} \<Longrightarrow> first_of_each key seen xs = xs"
  by (induction xs arbitrary: seen) auto

definition row_of :: "store_env \<Rightarrow> string \<Rightarrow> waf_row option" where
  "row_of env b = (if TrimSpace b = [] then None else map_option (event_row env (TrimSpace b)) (le_json env (TrimSpace b)))"

text \<open>The events of a log: of the lines that decode, in order, the first of each.\<close>

definition events_of :: "store_env \<Rightarrow> string \<Rightarrow> waf_row list" where
  "events_of env raw = first_of_each we_LineHash {} (List.map_filter (row_of env) (read_chunks raw))"

lemma map_filter_append: "List.map_filter f (xs @ ys) = List.map_filter f xs @ List.map_filter f ys"
  by (simp add: map_filter_def)

lemma ingest_lines:
  "fold (ingestWAFEventLine env) ls rows
     = rows @ first_of_each we_LineHash (we_LineHash ` set rows) (List.map_filter (row_of env) ls)"
proof (induction ls arbitrary: rows)
  case (Cons b ls)
  have step: "ingestWAFEventLine env b rows = (case row_of env b of None \<Rightarrow> rows | Some r \<Rightarrow> insert_row r rows)"
    by (simp add: ingestWAFEventLine_def row_of_def Let_def split: option.split)
  show ?case
  proof (cases "row_of env b")
    case (Some r)
    then show ?thesis
      using Cons.IH [of "rows @ [r]"] Cons.IH [of rows] by (simp add: step insert_row_def List.map_filter_simps)
  qed (use Cons.IH in \<open>simp add: step List.map_filter_simps\<close>)
qed (simp add: List.map_filter_simps)

text \<open>
  What holds of a store between synchronisations: it has read a beginning of the file that ends a line, and holds
  the events of that part.
\<close>

definition ingested :: "store_env \<Rightarrow> string \<Rightarrow> wafEventStore \<Rightarrow> bool" where
  "ingested env raw s \<longleftrightarrow> db_RetentionDays s \<le> 0
     \<and> (\<exists>old more. raw = old @ more \<and> whole_lines old \<and> db_Rows s = events_of env old
          \<and> (case db_Ingest s of None \<Rightarrow> old = [] | Some st \<Rightarrow> ig_Offset st = int (length old)))"

lemma db_access_cases:
  obtains (ok) fs where "db_access f s = (Inr (fst (f (s\<lparr>db_Faults := fs\<rparr>))), snd (f (s\<lparr>db_Faults := fs\<rparr>)))"
  | (failed) e fs where "db_access f s = (Inl e, s\<lparr>db_Faults := fs\<rparr>)"
proof (cases "db_Faults s")
  case Nil
  then show ?thesis by (intro ok [of "[]"]) (cases s, simp add: db_access_def split: prod.split)
next
  case (Cons x fs)
  show ?thesis
  proof (cases x)
    case None
    with Cons show ?thesis by (intro ok [of fs]) (simp add: db_access_def split: prod.split)
  next
    case (Some e)
    with Cons show ?thesis by (intro failed [of e fs]) (simp add: db_access_def)
  qed
qed

lemma ingested_faults: "ingested env raw (s\<lparr>db_Faults := fs\<rparr>) = ingested env raw s"
  by (simp add: ingested_def)

lemma ingested_append: "ingested env raw s \<Longrightarrow> ingested env (raw @ text) s"
  by (fastforce simp: ingested_def)

lemma sync_outcome:
  assumes "ingested env raw s" "whole_lines raw" "syncWAFEvents env (Some (raw, m)) now s = (r, s')"
  shows "ingested env raw s'" "\<And>n. r = Inr n \<Longrightarrow> db_Rows s' = events_of env raw"
proof -
  obtain old more where o: "db_RetentionDays s \<le> 0" "raw = old @ more" "whole_lines old" "db_Rows s = events_of env old"
    "case db_Ingest s of None \<Rightarrow> old = [] | Some st \<Rightarrow> ig_Offset st = int (length old)"
    using assms(1) by (auto simp: ingested_def)
  define R1 where "R1 = List.map_filter (row_of env) (read_chunks old)"
  define R2 where "R2 = List.map_filter (row_of env) (read_chunks more)"
  define state where "state = (case db_Ingest s of None \<Rightarrow> \<lparr>ig_Offset = 0, ig_Size = 0, ig_ModTimeNS = 0\<rparr> | Some st \<Rightarrow> st)"
  define offset where "offset = ingest_offset (raw, m) state"
  have "ig_Offset state = int (length old)" using o(5) by (auto simp: state_def split: option.splits)
  then have offset: "offset = int (length old) \<or> offset = 0" by (auto simp: offset_def ingest_offset_def Let_def o(2))
  have keys: "we_LineHash ` set (events_of env old) = we_LineHash ` set R1" by (simp add: events_of_def keys_first R1_def)
  have all: "events_of env raw = events_of env old @ first_of_each we_LineHash (we_LineHash ` set R1) R2"
    by (simp add: events_of_def o(2) chunks_append [OF o(3)] map_filter_append first_append R1_def R2_def)
  have rows: "fold (ingestWAFEventLine env) (read_chunks (drop (nat offset) raw)) (db_Rows s) = events_of env raw"
    using offset
  proof
    assume "offset = 0"
    then show ?thesis
      by (simp add: ingest_lines o(4) keys all)
         (simp add: o(2) chunks_append [OF o(3)] map_filter_append first_append first_seen R1_def R2_def)
  next
    assume "offset = int (length old)"
    then show ?thesis by (simp add: ingest_lines o(2,4) keys all [unfolded o(2)] R2_def)
  qed
  have len: "offset + int (length (drop (nat offset) raw)) = int (length raw)" using offset by (auto simp: o(2))
  have "ingested env raw s' \<and> (\<forall>n. r = Inr n \<longrightarrow> db_Rows s' = events_of env raw)"
  proof (cases rule: db_access_cases [of "\<lambda>s. let state = (case db_Ingest s of None \<Rightarrow> \<lparr>ig_Offset = 0, ig_Size = 0, ig_ModTimeNS = 0\<rparr> | Some st \<Rightarrow> st);
                offset = ingest_offset (raw, m) state;
                lines = read_chunks (drop (nat offset) raw);
                currentOffset = offset + int (length (concat lines));
                finalSize = max (int (length raw)) currentOffset
            in (int (length lines),
                s\<lparr>db_Rows := pruneExpiredWAFEvents (db_RetentionDays s) now (fold (ingestWAFEventLine env) lines (db_Rows s)),
                  db_Ingest := Some \<lparr>ig_Offset = currentOffset, ig_Size = finalSize, ig_ModTimeNS = m\<rparr>\<rparr>)" s])
    case (ok fs)
    then have s': "db_Rows s' = events_of env raw" "db_RetentionDays s' \<le> 0" "\<exists>st. db_Ingest s' = Some st \<and> ig_Offset st = int (length raw)"
      using assms(3) o(1) rows len
      by (auto simp: syncWAFEvents_def Let_def state_def [symmetric] offset_def [symmetric] pruneExpiredWAFEvents_def)
    have "\<exists>old more. raw = old @ more \<and> whole_lines old \<and> db_Rows s' = events_of env old
        \<and> (case db_Ingest s' of None \<Rightarrow> old = [] | Some st \<Rightarrow> ig_Offset st = int (length old))"
      using s' assms(2) by - (rule exI [of _ raw], rule exI [of _ "[]"], auto)
    then show ?thesis using s'(1,2) by (simp add: ingested_def)
  next
    case (failed e fs)
    then show ?thesis using assms(1,3) by (auto simp: syncWAFEvents_def ingested_faults)
  qed
  then show "ingested env raw s'" "\<And>n. r = Inr n \<Longrightarrow> db_Rows s' = events_of env raw" by auto
qed

datatype store_step = Logged string int | Synced int

fun store_run :: "store_env \<Rightarrow> store_step list \<Rightarrow> log_file \<times> wafEventStore \<Rightarrow> log_file \<times> wafEventStore" where
  "store_run env [] fs = fs"
| "store_run env (Logged text modTime # steps) (f, s) = store_run env steps ((fst f @ text, modTime), s)"
| "store_run env (Synced now # steps) (f, s) = store_run env steps (f, snd (syncWAFEvents env (Some f) now s))"

definition logs_whole_lines :: "store_step list \<Rightarrow> bool" where
  "logs_whole_lines steps = list_all (\<lambda>x. case x of Logged text _ \<Rightarrow> whole_lines text | Synced _ \<Rightarrow> True) steps"

definition empty_store :: "(goerr option) list \<Rightarrow> wafEventStore" where
  "empty_store faults = \<lparr>db_Rows = [], db_Ingest = None, db_RetentionDays = 0, db_Faults = faults\<rparr>"

lemma reached_store:
  assumes "logs_whole_lines steps" "store_run env steps (([], 0), empty_store faults) = (f, s)"
  shows "ingested env (fst f) s \<and> whole_lines (fst f)"
proof -
  have "ingested env (fst f) s \<and> whole_lines (fst f)"
    if "logs_whole_lines steps" "store_run env steps (f0, s0) = (f, s)" "ingested env (fst f0) s0" "whole_lines (fst f0)" for f0 s0
    using that
  proof (induction env steps "(f0, s0)" arbitrary: f0 s0 rule: store_run.induct)
    case (2 env added modTime steps f0 s0)
    then show ?case by (simp add: logs_whole_lines_def ingested_append whole_lines_append)
  next
    case (3 env now steps f0 s0)
    then show ?case
      by (cases f0) (auto simp: logs_whole_lines_def intro: sync_outcome(1) [OF _ _ prod.collapse [symmetric]])
  qed simp
  from this [OF assms] show ?thesis by (simp add: ingested_def empty_store_def events_of_def List.map_filter_simps)
qed


text \<open>
  A line the synchronisation finds half written is lost: the rest of it, read at the next run, is no event
  either.
\<close>

theorem half_written_event_is_lost:
  assumes "db_Ingest s = Some \<lparr>ig_Offset = int (length old), ig_Size = n, ig_ModTimeNS = t\<rparr>" "db_Faults s = []" "db_RetentionDays s \<le> 0"
    and "half \<noteq> []" "rest \<noteq> []" "row_of env half = None" "row_of env rest = None"
    and "read_chunks half = [half]" "read_chunks rest = [rest]"
  shows "db_Rows (snd (syncWAFEvents env (Some (old @ half @ rest, m2)) now2 (snd (syncWAFEvents env (Some (old @ half, m1)) now1 s)))) = db_Rows s"
proof -
  have off: "ingest_offset (old @ x, m) \<lparr>ig_Offset = int (length old), ig_Size = sz, ig_ModTimeNS = t\<rparr> = int (length old)" if "x \<noteq> []" for x m old sz t
    using that by (simp add: ingest_offset_def Let_def)
  obtain s1 where s1: "snd (syncWAFEvents env (Some (old @ half, m1)) now1 s) = s1" "db_Rows s1 = db_Rows s" "db_Faults s1 = []"
    "db_RetentionDays s1 \<le> 0" "db_Ingest s1 = Some \<lparr>ig_Offset = int (length (old @ half)), ig_Size = int (length (old @ half)), ig_ModTimeNS = m1\<rparr>"
    using assms by (simp add: syncWAFEvents_def db_access_def Let_def off ingest_lines List.map_filter_simps pruneExpiredWAFEvents_def)
  show ?thesis
    unfolding s1(1) using s1(2-5) assms(5,7,9) off [of rest "old @ half"]
    by (simp add: syncWAFEvents_def db_access_def Let_def ingest_lines List.map_filter_simps pruneExpiredWAFEvents_def)
qed

subsection \<open>Witnesses\<close>

lemma sync_returns:
  "db_Faults s = [] \<Longrightarrow> \<exists>n s'. syncWAFEvents env file now s = (Inr n, s') \<and> db_Faults s' = []"
  by (auto simp: syncWAFEvents_def db_access_def Let_def split: option.split)

lemma sync_without_faults:
  assumes "db_Faults s = []"
  obtains n s' where "syncWAFEvents env file now s = (Inr n, s')" "db_Faults s' = []"
  using sync_returns [OF assms] by blast

definition demo_store_env :: store_env where
  "demo_store_env = \<lparr>le_json = le_json demo_reader, le_formatFloat = le_formatFloat demo_reader, le_marshal = (\<lambda>_. ''{}'')\<rparr>"


end
