(* ===== verification/Log_Stats_Correct.thy ===== *)
theory Log_Stats_Correct
  imports Log_Store_Correct
begin

text \<open>
  The two ways to the statistics agree: the loop over the lines of the file and the queries over the rows of the
  database count the same.
\<close>

subsection \<open>Counting\<close>

interpretation buckets: sort_order bucket_less fst
  by unfold_locales (auto simp: bucket_less_def split: if_splits intro: string_less_trans dest: string_less_total)

lemma count_increments: "count_in (fold increment ks counts) k = count_in counts k + int (count_list ks k)"
  by (induction ks arbitrary: counts) (auto simp: increment_def count_in_def)

lemma keys_increments: "fst ` set (fold increment ks counts) = fst ` set counts \<union> set ks"
  by (induction ks arbitrary: counts) (auto simp: increment_def keys_aput)

lemma distinct_increments: "distinct (map fst counts) \<Longrightarrow> distinct (map fst (fold increment ks counts))"
  by (induction ks arbitrary: counts) (auto simp: increment_def distinct_aput)

lemma count_grouped: "count_in (grouped ks) k = int (count_list ks k)"
proof -
  have "map_of (map (\<lambda>k. (k, int (count_list ks k))) xs) k = (if k \<in> set xs then Some (int (count_list ks k)) else None)" for xs
    by (induction xs) auto
  then show ?thesis by (simp add: count_in_def grouped_def count_list_0_iff)
qed

lemma set_counts: "distinct (map fst counts) \<Longrightarrow> set counts = (\<lambda>k. (k, count_in counts k)) ` fst ` set counts"
  by (force simp: count_in_def image_iff)

lemma same_groups: "set (fold increment ks []) = set (grouped ks)"
proof -
  have "set (fold increment ks []) = (\<lambda>k. (k, int (count_list ks k))) ` set ks"
    by (subst set_counts) (simp_all add: distinct_increments keys_increments count_increments, simp add: count_in_def)
  then show ?thesis by (simp add: grouped_def)
qed

text \<open>The counters of a map, sorted, are what \<open>GROUP BY\<close> with the same order gives.\<close>

lemma same_buckets: "topBuckets (fold increment ks []) (Suc n) = take (Suc n) (sort_by bucket_less (grouped ks))"
proof -
  have "sort_by bucket_less (fold increment ks []) = sort_by bucket_less (grouped ks)"
    by (rule buckets.sort_by_unique) (simp_all add: distinct_increments same_groups, simp add: grouped_def comp_def)
  then show ?thesis
  proof (cases "fold increment ks [] = []")
    case True
    then have "sort_by bucket_less (grouped ks) = []" using \<open>sort_by bucket_less (fold increment ks []) = _\<close> by simp
    with True show ?thesis by (simp add: topBuckets_def)
  qed (simp add: topBuckets_def)
qed

subsection \<open>The loop over the lines\<close>

definition blocked :: "log_env \<Rightarrow> logLine option \<Rightarrow> bool" where
  "blocked env m \<longleftrightarrow> TrimSpace (logFieldString env (field m ''event'')) = ''waf_block''"

abbreviation line_ts :: "log_env \<Rightarrow> logLine option \<Rightarrow> int option" where
  "line_ts env m \<equiv> parseLogTS env (field m ''ts'')"

definition seen_between :: "log_env \<Rightarrow> int option \<Rightarrow> int option \<Rightarrow> logLine option \<Rightarrow> bool" where
  \<comment> \<open>a block with a time stamp not before one instant and before another\<close>
  "seen_between env from to m \<longleftrightarrow> blocked env m \<and> (case line_ts env m of None \<Rightarrow> False
     | Some t \<Rightarrow> (case from of None \<Rightarrow> True | Some a \<Rightarrow> a \<le> t) \<and> (case to of None \<Rightarrow> True | Some b \<Rightarrow> t < b))"

definition hour_bucket :: "log_env \<Rightarrow> logLine option \<Rightarrow> int" where
  "hour_bucket env m = (case line_ts env m of None \<Rightarrow> 0 | Some t \<Rightarrow> t div hour * hour div 10 ^ 9)"

lemma count_hour_fields [simp]:
  "sn_Total (count_hour ts r sn) = sn_Total sn" "sn_Last1h (count_hour ts r sn) = sn_Last1h sn"
  "sn_Last24h (count_hour ts r sn) = sn_Last24h sn" "sn_Rules (count_hour ts r sn) = sn_Rules sn"
  "sn_Paths (count_hour ts r sn) = sn_Paths sn" "sn_Countries (count_hour ts r sn) = sn_Countries sn"
  "sn_Series (count_hour ts r sn) = (if fst r \<le> ts \<and> ts < snd r then increment (ts div hour * hour div 10 ^ 9) (sn_Series sn) else sn_Series sn)"
  by (auto simp: count_hour_def)

lemma scan_fields:
  "sn_Total (scan_line env now r m sn) = sn_Total sn + (if blocked env m then 1 else 0)"
  "sn_Last1h (scan_line env now r m sn) = sn_Last1h sn + (if seen_between env (Some (now - hour)) None m then 1 else 0)"
  "sn_Last24h (scan_line env now r m sn) = sn_Last24h sn + (if seen_between env (Some (now - 24 * hour)) None m then 1 else 0)"
  "sn_Rules (scan_line env now r m sn) = (if seen_between env (Some (now - 24 * hour)) None m
     then increment (normalizeStatsRuleID env (field m ''rule_id'')) (sn_Rules sn) else sn_Rules sn)"
  "sn_Paths (scan_line env now r m sn) = (if seen_between env (Some (now - 24 * hour)) None m
     then increment (normalizeStatsPath env (field m ''path'')) (sn_Paths sn) else sn_Paths sn)"
  "sn_Countries (scan_line env now r m sn) = (if seen_between env (Some (now - 24 * hour)) None m
     then increment (country_of m) (sn_Countries sn) else sn_Countries sn)"
  "sn_Series (scan_line env now r m sn) = (if seen_between env (Some (fst r)) (Some (snd r)) m
     then increment (hour_bucket env m) (sn_Series sn) else sn_Series sn)"
  by (auto simp: scan_line_def Let_def blocked_def seen_between_def hour_bucket_def split: option.split)

lemma scanned:
  "sn_Total (fold (scan_line env now r) ms sn) = sn_Total sn + int (length (filter (blocked env) ms))"
  "sn_Last1h (fold (scan_line env now r) ms sn) = sn_Last1h sn + int (length (filter (seen_between env (Some (now - hour)) None) ms))"
  "sn_Last24h (fold (scan_line env now r) ms sn) = sn_Last24h sn + int (length (filter (seen_between env (Some (now - 24 * hour)) None) ms))"
  "sn_Rules (fold (scan_line env now r) ms sn) = fold increment
     (map (\<lambda>m. normalizeStatsRuleID env (field m ''rule_id'')) (filter (seen_between env (Some (now - 24 * hour)) None) ms)) (sn_Rules sn)"
  "sn_Paths (fold (scan_line env now r) ms sn) = fold increment
     (map (\<lambda>m. normalizeStatsPath env (field m ''path'')) (filter (seen_between env (Some (now - 24 * hour)) None) ms)) (sn_Paths sn)"
  "sn_Countries (fold (scan_line env now r) ms sn) = fold increment
     (map country_of (filter (seen_between env (Some (now - 24 * hour)) None) ms)) (sn_Countries sn)"
  "sn_Series (fold (scan_line env now r) ms sn) = fold increment
     (map (hour_bucket env) (filter (seen_between env (Some (fst r)) (Some (snd r))) ms)) (sn_Series sn)"
  by (induction ms arbitrary: sn) (simp_all add: scan_fields)

subsection \<open>The queries over the rows\<close>

lemma db_thenE:
  assumes "db_then r k = (Inr y, s')"
  obtains x s where "r = (Inr x, s)" "k x s = (Inr y, s')"
  using assms by (auto simp: db_then_def split: prod.splits sum.splits)

lemma db_queryE:
  assumes "db_query q s = (Inr x, s')"
  obtains "x = q (db_Rows s)" "db_Rows s' = db_Rows s"
proof (cases rule: db_access_cases [of "\<lambda>s. (q (db_Rows s), s)" s])
  case (ok fs)
  with assms that show ?thesis by (auto simp: db_query_def)
next
  case (failed e fs)
  with assms show ?thesis by (simp add: db_query_def)
qed

lemma db_then_queryE:
  assumes "db_then (db_query q s) k = (Inr y, s')"
  obtains s2 where "db_Rows s2 = db_Rows s" "k (q (db_Rows s)) s2 = (Inr y, s')"
  using assms by (metis db_queryE db_thenE)

definition row_stats :: "int \<Rightarrow> int \<Rightarrow> waf_row list \<Rightarrow> wafBlockStats" where
  "row_stats now rangeHours rows =
     (case statsHourlyRange now rangeHours of (start, end') \<Rightarrow>
      let recent = blocked_since ((now - 24 * hour) div 10 ^ 9) rows in
      \<lparr>wb_Last1h = int (length (blocked_since ((now - hour) div 10 ^ 9) rows)), wb_Last24h = int (length recent),
       wb_TotalInScan = int (length (filter (\<lambda>r. we_Event r = ''waf_block'') rows)),
       wb_TopRuleIDs24h = take statsTopN (sort_by bucket_less (grouped (map we_RuleID recent))),
       wb_TopPaths24h = take statsTopN (sort_by bucket_less (grouped (map we_Path recent))),
       wb_TopCountries24h = take statsTopN (sort_by bucket_less (grouped (map we_Country recent))),
       wb_SeriesHourly = buildHourlySeries start end' (grouped (map (\<lambda>r. sgn (we_TsUnix r) * (\<bar>we_TsUnix r\<bar> div 3600) * 3600)
         (filter (\<lambda>r. we_TsUnix r < end' div 10 ^ 9) (blocked_since (start div 10 ^ 9) rows))))\<rparr>)"

lemma built_stats:
  assumes "BuildLogsStats env file hours now s = (Inr resp, s')"
  obtains n s1 where "syncWAFEvents env file now s = (Inr n, s1)" "ls_WAFBlock resp = row_stats now hours (db_Rows s1)"
proof -
  obtain start end' where r: "statsHourlyRange now hours = (start, end')" by fastforce
  have top: "queryTopBuckets col u statsTopN = db_query (\<lambda>rows. take statsTopN (sort_by bucket_less (grouped (map col (blocked_since u rows)))))"
    for col u by (simp add: fun_eq_iff queryTopBuckets_def statsTopN_def)
  from assms have "\<exists>n s1. syncWAFEvents env file now s = (Inr n, s1) \<and> ls_WAFBlock resp = row_stats now hours (db_Rows s1)"
    unfolding BuildLogsStats_def r prod.case top querySeriesCounts_def queryMinMaxTS_def case_prod_beta
    by - (elim db_then_queryE db_thenE, intro exI conjI, assumption,
      simp only: row_stats_def r prod.case fst_conv snd_conv Let_def prod.inject sum.inject, clarify, simp only: logsStatsResp.select_convs)
  with that show thesis by blast
qed

subsection \<open>Rows and lines\<close>

text \<open>
  A decoder of the log as the code relies on it: white space around a line does not matter to it, and the empty
  text is no object.
\<close>

definition decodes_trimmed :: "log_env \<Rightarrow> string \<Rightarrow> bool" where
  "decodes_trimmed env raw \<longleftrightarrow> le_json env [] = None
     \<and> (\<forall>b\<in>set (read_chunks raw). le_json env (trimLastNewline b) = le_json env (TrimSpace b))"

definition entries :: "store_env \<Rightarrow> string \<Rightarrow> (string \<times> logLine option) list" where
  "entries env raw = List.map_filter (\<lambda>b. map_option (Pair (TrimSpace b)) (le_json env (TrimSpace b))) (read_chunks raw)"

lemma map_filter_eq: "(\<And>x. x \<in> set xs \<Longrightarrow> f x = map_option g (h x)) \<Longrightarrow> List.map_filter f xs = map g (List.map_filter h xs)"
  by (induction xs) (auto simp: List.map_filter_simps split: option.split)

lemma truncate_json [simp]: "le_json (log_env.truncate env) = le_json env"
  by (simp add: log_env.truncate_def)

lemma lines_are_entries:
  assumes "decodes_trimmed (log_env.truncate env) raw"
  shows "decode_lines (log_env.truncate env) raw = map snd (entries env raw)"
    "List.map_filter (row_of env) (read_chunks raw) = map (\<lambda>(b, m). event_row env b m) (entries env raw)"
proof -
  show "decode_lines (log_env.truncate env) raw = map snd (entries env raw)"
    unfolding decode_lines_def entries_def using assms
    by (intro map_filter_eq) (simp add: decodes_trimmed_def option.map_comp comp_def option.map_ident)
  show "List.map_filter (row_of env) (read_chunks raw) = map (\<lambda>(b, m). event_row env b m) (entries env raw)"
    unfolding entries_def
  proof (rule map_filter_eq)
    have "le_json env [] = None" using assms by (simp add: decodes_trimmed_def)
    then show "row_of env b = map_option (\<lambda>(b, m). event_row env b m) (map_option (Pair (TrimSpace b)) (le_json env (TrimSpace b)))" for b
      by (simp add: row_of_def option.map_comp comp_def)
  qed
qed

lemma row_blocked: "we_Event (event_row env b m) = ''waf_block'' \<longleftrightarrow> blocked (log_env.truncate env) m"
  by (simp add: event_row_def Let_def blocked_def)

lemma row_since:
  "0 \<le> u \<Longrightarrow> u \<le> we_TsUnix (event_row env b m) \<longleftrightarrow> (\<exists>t. line_ts (log_env.truncate env) m = Some t \<and> u * 10 ^ 9 \<le> t)"
  by (auto simp: event_row_def Let_def split: option.split)

lemma row_before:
  "line_ts (log_env.truncate env) m = Some t \<Longrightarrow> we_TsUnix (event_row env b m) < u \<longleftrightarrow> t < u * 10 ^ 9"
  by (auto simp: event_row_def Let_def)

lemma row_fields:
  "we_RuleID (event_row env b m) = normalizeStatsRuleID (log_env.truncate env) (field m ''rule_id'')"
  "we_Path (event_row env b m) = normalizeStatsPath (log_env.truncate env) (field m ''path'')"
  "we_Country (event_row env b m) = country_of m"
  by (simp_all add: event_row_def Let_def)

lemma rows_since:
  assumes "0 \<le> a" "10 ^ 9 dvd a"
  shows "blocked_since (a div 10 ^ 9) (map (\<lambda>(b, m). event_row env b m) es)
    = map (\<lambda>(b, m). event_row env b m) (filter (\<lambda>(b, m). seen_between (log_env.truncate env) (Some a) None m) es)"
proof -
  have a: "0 \<le> a div 10 ^ 9" "a div 10 ^ 9 * 10 ^ 9 = a" using assms by (auto simp: pos_imp_zdiv_nonneg_iff)
  have "(we_Event (event_row env b m) = ''waf_block'' \<and> a div 10 ^ 9 \<le> we_TsUnix (event_row env b m)) = seen_between (log_env.truncate env) (Some a) None m" for b m
    using row_since [OF a(1), of env b m] unfolding a(2) by (auto simp: row_blocked seen_between_def split: option.splits)
  then show ?thesis by (simp add: blocked_since_def filter_map comp_def case_prod_unfold)
qed

lemma row_hour:
  assumes "line_ts (log_env.truncate env) m = Some t" "0 \<le> t"
  shows "sgn (we_TsUnix (event_row env b m)) * (\<bar>we_TsUnix (event_row env b m)\<bar> div 3600) * 3600 = hour_bucket (log_env.truncate env) m"
proof -
  define u where "u = t div 10 ^ 9"
  have "0 \<le> u" using assms(2) by (simp add: u_def pos_imp_zdiv_nonneg_iff)
  then have "sgn u * (\<bar>u\<bar> div 3600) * 3600 = u div 3600 * 3600" by (cases "u = 0") auto
  moreover have "t div hour = u div 3600" by (simp add: u_def hour_def flip: zdiv_zmult2_eq)
  moreover have "u div 3600 * hour div 10 ^ 9 = u div 3600 * 3600" by (simp add: hour_def)
  ultimately show ?thesis
    using assms(1) by (simp add: event_row_def Let_def hour_bucket_def u_def)
qed

abbreviation event_rows :: "store_env \<Rightarrow> (string \<times> logLine option) list \<Rightarrow> waf_row list" where
  "event_rows env es \<equiv> map (\<lambda>(b, m). event_row env b m) es"

lemma filter_snd: "filter P (map snd es) = map snd (filter (\<lambda>(b, m). P m) es)"
  by (simp add: filter_map comp_def case_prod_unfold)

lemma rows_series:
  assumes "0 \<le> start" "10 ^ 9 dvd start" "10 ^ 9 dvd end'"
  shows "map (\<lambda>r. sgn (we_TsUnix r) * (\<bar>we_TsUnix r\<bar> div 3600) * 3600)
       (filter (\<lambda>r. we_TsUnix r < end' div 10 ^ 9) (blocked_since (start div 10 ^ 9) (event_rows env es)))
     = map (hour_bucket (log_env.truncate env)) (filter (seen_between (log_env.truncate env) (Some start) (Some end')) (map snd es))"
proof -
  define base where "base = log_env.truncate env"
  have e: "end' div 10 ^ 9 * 10 ^ 9 = end'" using assms(3) by auto
  have "seen_between base (Some start) None m \<and> we_TsUnix (event_row env b m) < end' div 10 ^ 9 \<longleftrightarrow> seen_between base (Some start) (Some end') m" for b m
    using row_before [of env m _ b "end' div 10 ^ 9"] unfolding e base_def by (auto simp: seen_between_def split: option.splits)
  then have "filter (\<lambda>r. we_TsUnix r < end' div 10 ^ 9) (blocked_since (start div 10 ^ 9) (event_rows env es))
      = event_rows env (filter (\<lambda>(b, m). seen_between base (Some start) (Some end') m) es)"
    unfolding rows_since [OF assms(1,2)] filter_map base_def by (simp add: comp_def case_prod_unfold)
  moreover have "sgn (we_TsUnix (event_row env b m)) * (\<bar>we_TsUnix (event_row env b m)\<bar> div 3600) * 3600 = hour_bucket base m"
    if "seen_between base (Some start) (Some end') m" for b m
    using that assms(1) row_hour [of env m] by (auto simp: seen_between_def base_def split: option.splits)
  ultimately show ?thesis by (auto simp: filter_snd base_def)
qed

lemma same_series: "buildHourlySeries start end' (grouped ks) = buildHourlySeries start end' (fold increment ks [])"
  by (simp add: buildHourlySeries_def count_grouped count_increments) (simp add: count_in_def)

lemma same_top: "take statsTopN (sort_by bucket_less (grouped ks)) = topBuckets (fold increment ks []) statsTopN"
  using same_buckets [of ks 4] by (simp add: statsTopN_def)

text \<open>The two ways count the same events.\<close>

lemma rows_and_lines_agree:
  assumes "10 ^ 9 dvd now" "24 * hour \<le> now" "hours * hour \<le> now"
  shows "row_stats now hours (event_rows env es) = ls_WAFBlock (file_stats (log_env.truncate env) now hours (map snd es))"
proof -
  define base where "base = log_env.truncate env"
  obtain start end' where r: "statsHourlyRange now hours = (start, end')" by fastforce
  have range: "0 \<le> start" "10 ^ 9 dvd start" "10 ^ 9 dvd end'"
    using r assms(3) by (auto simp: statsHourlyRange_def Let_def hour_def)
  have dvd: "10 ^ 9 dvd now - 24 * hour" "10 ^ 9 dvd now - hour" using assms(1) by (auto simp: hour_def intro: dvd_diff)
  show ?thesis
    unfolding row_stats_def file_stats_def r prod.case Let_def rows_series [OF range] same_series same_top fst_conv snd_conv
    using rows_since [OF _ dvd(1), of env es] rows_since [OF _ dvd(2), of env es] assms(2)
    by (simp add: scanned no_scan_def filter_snd comp_def case_prod_unfold row_fields base_def [symmetric])
       (simp add: filter_map comp_def case_prod_unfold row_blocked base_def hour_def)
qed


subsection \<open>Witness\<close>

lemma query_without_faults: "db_Faults s = [] \<Longrightarrow> db_query q s = (Inr (q (db_Rows s)), s)"
  by (simp add: db_query_def db_access_def)

lemma stats_without_faults:
  assumes "db_Faults s = []"
  obtains resp s' where "BuildLogsStats env file hours now s = (Inr resp, s')"
proof -
  obtain n s1 where "syncWAFEvents env file now s = (Inr n, s1)" "db_Faults s1 = []"
    using sync_without_faults [OF assms] by blast
  then have "\<exists>resp s'. BuildLogsStats env file hours now s = (Inr resp, s')"
    by (simp add: BuildLogsStats_def db_then_def query_without_faults queryTopBuckets_def querySeriesCounts_def queryMinMaxTS_def
        split: prod.split)
  with that show thesis by blast
qed


end
