(* ===== verification/Spec2Isabelle.thy ===== *)
theory Spec2Isabelle
  imports Backend_Protocol Routing_Correct Routing_Rewrites Proxy_Forwarding Proxy_Admin
    Bypass_Rules Rate_Limit_Correct Cache_Serving_Correct
    Ip_Reputation_Correct Bot_Defense_Correct Semantic_Correct Proxy_Handler_Correct Notifications_Correct
    Admin_Guards_Correct Rule_Admin_Correct Fp_Correct App_Config_Correct Storage_Reconciler
    Log_Archive_Correct Log_Stats_Correct
begin

text \<open>
  A verification development for the mamotama proxy, a WAF reverse proxy in Go.  Paths below are relative to
  \<open>src/coraza/src\<close>, file names without a directory to \<open>internal/handler\<close>.

  \<^bold>\<open>The program and its parts.\<close>  A client request enters \<open>ProxyHandler\<close> (\<open>proxy.go\<close>), which resolves a route, asks the
  country list, the security plugins (ip reputation, bot defense, semantic scoring), the rate limit and the
  firewall, and hands what is left to the response cache and the upstream transport.  The transport tries the targets of the route
  in the order of the selection policy and reports to the health monitor.  Each of these parts has a rule
  document, kept in memory, in a file and in a row of the database; the administration API changes it under an entity
  tag, a periodic run brings the file and the memory to the state of the database.  Guards
  (address, token bucket, key) stand before the API.  What happens is written to an event log, which
  notifications watch and the statistics read; the false positive tuner turns a logged block into an exclusion rule.

  \<^bold>\<open>Conventions.\<close>  \<open>Prelude\<close> fixes them: byte strings, errors as sums, \<open>nil\<close> as \<open>None\<close>, Go maps as association lists
  whose order stands for the unspecified one, \<open>int\<close> with the wrap-around written where it can happen, instants and
  durations in nanoseconds.  Definitions have the names of the Go functions; where a name is taken or shared by
  methods it has a prefix.  Fields of a record have a prefix of two letters.

  \<^bold>\<open>The standard library.\<close>  What the source uses of it is modelled: \<open>Go_Strings\<close> and \<open>Go_Text\<close> (\<open>strings\<close>,
  \<open>strconv\<close>, \<open>bufio.Scanner\<close>, \<open>path\<close>), \<open>Go_Url\<close> (\<open>net/url\<close>, \<open>sort\<close>), \<open>Go_Http\<close> (headers, cookies, addresses), \<open>Go_Netip\<close>,
  \<open>Go_Sha256\<close>, \<open>Go_Regexp\<close> and \<open>Go_Pattern\<close> (the fixed patterns of the program), \<open>Go_Float\<close> (rounded rationals),
  \<open>Go_Time\<close>.

  \<^bold>\<open>Routing and upstreams.\<close>  \<open>Proxy_Config\<close> and \<open>Proxy_Validate\<close> are the proxy rules document, its normalisation and
  checks (\<open>proxy_runtime.go\<close>, \<open>proxy_routing.go\<close>, \<open>proxy_selection.go\<close>).  \<open>Proxy_Routing\<close> decides a request; \<open>Routing_Correct\<close> shows that
  an accepted document routes every request and that the first matching route wins, \<open>Routing_Rewrites\<close> that rewrites
  do what they say.  \<open>Backend_Health\<close> is the health monitor; \<open>Backend_Protocol\<close> shows, over all
  interleavings of its operations, that its circuits refine an abstract breaker and what the counters
  mean.  \<open>Proxy_Selection\<close> with \<open>Rate_Identity\<close> orders the targets.  \<open>Proxy_Transport\<close> is the round trip with
  retries and shows that it keeps the protocol of the monitor; \<open>Proxy_Forwarding\<close> is what the upstream sees
  and the reply when none answers.  \<open>Proxy_Runtime\<close> is the state of the running proxy, \<open>Runtime_Correct\<close> its invariant and
  the agreement of its three copies, \<open>Proxy_Admin\<close> the handlers over it.

  \<^bold>\<open>Checks of a request.\<close>  \<open>Storage\<close> and \<open>Rules_File\<close> are what the rule documents share: files and rows with failing
  accesses, put, get, validate and synchronisation, all or nothing.  \<open>Country_Block\<close>, \<open>Bypass_Rules\<close>, \<open>Rate_Limit\<close>
  (refining a fixed-window table in \<open>Rate_Limit_Correct\<close>), \<open>Ip_Reputation\<close>, \<open>Challenge_Token\<close> with \<open>Bot_Defense\<close>, \<open>Semantic\<close>
  (its temporal store refining a count over the history) each model one store file and its rule handlers, with
  their theorems in the theory of the same name ending in \<open>Correct\<close>.  \<open>Cache_Rules\<close> is
  \<open>internal/cacheconf\<close> and \<open>cache_rules.go\<close>; \<open>Response_Cache\<close> and \<open>Cache_Serving\<close> are \<open>response_cache_runtime.go\<close>, with the
  invariant and the budget in \<open>Cache_Store_Correct\<close>.  \<open>Proxy_Serving\<close> and \<open>Proxy_Handler\<close> compose all of it the way
  \<open>ProxyHandler\<close> does; \<open>Proxy_Handler_Correct\<close> shows which requests are served and what a served or stopped one leaves behind.

  \<^bold>\<open>Administration.\<close>  \<open>Admin_Guards\<close> (\<open>admin_guards.go\<close>, \<open>admin_ui.go\<close>, \<open>internal/middleware\<close>), \<open>Rule_Sets\<close> and \<open>Rule_Admin\<close>
  (\<open>internal/waf\<close>, \<open>internal/crsselection\<close>, \<open>admin.go\<close>, \<open>crs_rule_sets.go\<close>), \<open>Fp_Proposals\<close> and \<open>Fp_Apply\<close> (\<open>fp_tuner.go\<close>; the approval
  store refines the history of its calls), \<open>App_Config\<close> (\<open>internal/config\<close>: bounds of every accepted setting),
  \<open>Notifications\<close> (the alert state machine refines a count over the history), \<open>Storage_Reconciler\<close> (the run
  over all components).

  \<^bold>\<open>The event log.\<close>  \<open>Log_Files\<close> is the index, the pages and the statistics over the file (\<open>logs.go\<close>), \<open>Log_Store\<close> the
  same over the database with the transfer of the events (\<open>logs_db.go\<close>), \<open>Log_Handlers\<close> the handlers that choose between them,
  \<open>Log_Archive\<close> the rotation (\<open>waf_log_archive.go\<close>).  \<open>Log_Correct\<close>: the cached index is that of the file and the pages
  make up the log; \<open>Log_Store_Correct\<close>: each event becomes one row; \<open>Log_Stats_Correct\<close>: both ways count the
  same; \<open>Log_Archive_Correct\<close>: what is removed, and that rotation loses nothing.

  \<^bold>\<open>Interfaces.\<close>  Locales state what several parts rely on, and are interpreted on the model: \<open>normaliser\<close> (the
  functions that bring a field into its one form), \<open>named_values\<close> (headers and queries as multimaps), \<open>sort_order\<close> (the orders
  \<open>sort.Slice\<close> is given: map keys, archives, buckets), \<open>backend_invariant\<close> (what every operation of the monitor
  keeps), \<open>challenge_signer\<close> (the signatures of the two challenges).

  \<^bold>\<open>Bounds and fuel.\<close>  The eviction loop is a \<open>partial_function\<close> that is shown to end.  The IPv6 parser has fuel for its
  eight groups; regular expression iteration and replacement are bounded by the length of the text; loops over hours, chunks and
  documents are recursions with a measure or structural.  A client that follows the pages of the log is given a number
  of requests, and the theorem says which number is enough.

  \<^bold>\<open>Parameters.\<close>  JSON coding, regular expressions of a document, feeds, random bytes, the network, mail and webhook
  services, Coraza engines, the proposal provider, certificate files and compression are arguments of
  the definitions; a hypothesis on one is named where it is used and met by a concrete function in the witness.  SQL
  statements are modelled by what they do to the rows.  Concurrent requests are sequences of whole
  operations, each under the lock the code takes.

  \<^bold>\<open>Not modelled.\<close>  \<open>StatusHandler\<close> of \<open>admin.go\<close> and \<open>metrics.go\<close> print settings and counters of modelled parts;
  \<open>server_tls_runtime.go\<close>, \<open>internal/observability\<close> and the wiring in \<open>cmd/server\<close> set up listeners, certificates
  and exporters of third-party libraries; opening a database and its schema, file watchers and tickers are
  events from outside.  Upgraded connections, trailers and tracing spans are left out of the transport.
\<close>

end
